(* ===== verification/Nouns_Prelude.thy ===== *)
theory Nouns_Prelude
  imports Main "HOL-Library.Word" "HOL-Library.Monad_Syntax" "HOL-Library.Sublist"
begin

text \<open>
  Shared vocabulary of the development: the JavaScript and AssemblyScript string, number and
  array operations that the TypeScript packages use, written as executable functions over
  \<^typ>\<open>string\<close>, \<^typ>\<open>int\<close> and \<^typ>\<open>nat\<close>; 32-bit integers; the generic
  interfaces (a keyed entity store, a codec, an event-driven machine) that the components
  provide and rely on, as locales; and the lemma collections that carry the component proofs.

  A string is a list of characters. Every operation below looks at ASCII characters only
  (separators, digits, white space), so it does not matter that a JavaScript string counts
  UTF-16 units.
\<close>

named_theorems handler_defs \<open>definitions of the operations that handlers are made of\<close>
named_theorems entity_simps \<open>reading and writing one kind of entity\<close>
named_theorems js_defs \<open>definitions of the JavaScript string operations\<close>

type_synonym i32 = "32 word"
type_synonym byte = "8 word"
type_synonym bytes = "byte list"

section \<open>Options and lists\<close>

lemma bind_eq_Some_iff [simp]:
  "(Option.bind m f = Some y) = (\<exists>x. m = Some x \<and> f x = Some y)"
  by (cases m) auto

lemma filter_neq_notin: "x \<notin> set xs \<Longrightarrow> filter (\<lambda>y. y \<noteq> x) xs = xs"
  by (induction xs) auto

lemma filter_notin_disjoint:
  "set xs \<inter> A = {} \<Longrightarrow> filter (\<lambda>y. y \<notin> A) xs = xs"
  by (induction xs) auto

lemma length_filter_neq_distinct:
  "distinct xs \<Longrightarrow> x \<in> set xs \<Longrightarrow> Suc (length (filter (\<lambda>y. y \<noteq> x) xs)) = length xs"
  by (induction xs) (auto simp: filter_neq_notin)

lemma int_card_remove:
  "finite A \<Longrightarrow> x \<in> A \<Longrightarrow> int (card (A - {x})) = int (card A) - 1"
  by (metis card_Suc_Diff1 add_diff_cancel_left' of_nat_Suc)

lemma length_concat_uniform:
  "\<forall>y\<in>set ys. length (f y) = n \<Longrightarrow> length (concat (map f ys)) = length ys * n"
  by (induction ys) auto

lemma nth_concat_uniform:
  assumes "\<forall>y\<in>set ys. length (f y) = n" "i < length ys" "j < n"
  shows "concat (map f ys) ! (i * n + j) = f (ys ! i) ! j"
  using assms
proof (induction ys arbitrary: i)
  case (Cons y ys)
  then show ?case by (cases i) (auto simp: nth_append)
qed simp

section \<open>Join and split\<close>

text \<open>\<open>Array.prototype.join\<close>.\<close>

fun js_join :: "string \<Rightarrow> string list \<Rightarrow> string" where
  "js_join sep [] = []"
| "js_join sep [x] = x"
| "js_join sep (x # y # ys) = x @ sep @ js_join sep (y # ys)"

lemma js_join_Cons: "ys \<noteq> [] \<Longrightarrow> js_join sep (x # ys) = x @ sep @ js_join sep ys"
  by (cases ys) auto

lemma js_join_empty_sep [simp]: "js_join [] xs = concat xs"
  by (induction "[] :: string" xs rule: js_join.induct) auto

text \<open>
  \<open>String.prototype.split\<close> with a non-empty separator: the pieces between the occurrences
  found from left to right. The accumulator is the piece read so far.
\<close>

fun split_go :: "string \<Rightarrow> string \<Rightarrow> string \<Rightarrow> string list" where
  "split_go sep acc [] = [acc]"
| "split_go sep acc (c # cs) =
     (if sep \<noteq> [] \<and> prefix sep (c # cs)
      then acc # split_go sep [] (drop (length sep - 1) cs)
      else split_go sep (acc @ [c]) cs)"

definition js_split :: "string \<Rightarrow> string \<Rightarrow> string list" where
  [js_defs]: "js_split sep s = split_go sep [] s"

text \<open>With a limit, \<open>split\<close> keeps the first pieces only.\<close>

definition js_split_limit :: "string \<Rightarrow> nat \<Rightarrow> string \<Rightarrow> string list" where
  [js_defs]: "js_split_limit sep n s = take n (js_split sep s)"

lemma split_go_nonempty [simp]: "split_go sep acc s \<noteq> []"
  by (induction sep acc s rule: split_go.induct) auto

lemma js_split_nonempty [simp]: "js_split sep s \<noteq> []"
  by (simp add: js_split_def)

lemma prefix_drop_tail:
  "sep \<noteq> [] \<Longrightarrow> prefix sep (c # cs) \<Longrightarrow> c # cs = sep @ drop (length sep - 1) cs"
  by (cases sep) (auto simp: prefix_def)

lemma join_split_go: "js_join sep (split_go sep acc s) = acc @ s"
proof (induction sep acc s rule: split_go.induct)
  case (1 sep acc)
  then show ?case by simp
next
  case (2 sep acc c cs)
  show ?case
  proof (cases "sep \<noteq> [] \<and> prefix sep (c # cs)")
    case True
    let ?r = "drop (length sep - 1) cs"
    have "js_join sep (split_go sep acc (c # cs)) = acc @ sep @ js_join sep (split_go sep [] ?r)"
      using True by (simp add: js_join_Cons)
    also have "\<dots> = acc @ sep @ ?r" using "2.IH"(1) True by simp
    also have "\<dots> = acc @ c # cs" using True prefix_drop_tail [of sep c cs] by simp
    finally show ?thesis .
  next
    case False
    then show ?thesis using "2.IH"(2) by auto
  qed
qed

lemma join_split [simp]: "js_join sep (js_split sep s) = s"
  by (simp add: js_split_def join_split_go)

text \<open>No piece contains the separator, and \<open>split\<close> is trivial on such strings.\<close>

lemma split_go_no_sep:
  "sep \<noteq> [] \<Longrightarrow> \<not> sublist sep (acc @ s) \<Longrightarrow> split_go sep acc s = [acc @ s]"
proof (induction sep acc s rule: split_go.induct)
  case (1 sep acc)
  then show ?case by simp
next
  case (2 sep acc c cs)
  have "\<not> prefix sep (c # cs)"
    using "2.prems"(2) by (meson prefix_imp_sublist sublist_appendI suffixI
        sublist_order.order_trans suffix_imp_sublist)
  with 2 show ?case by simp
qed

lemma js_split_no_sep: "sep \<noteq> [] \<Longrightarrow> \<not> sublist sep s \<Longrightarrow> js_split sep s = [s]"
  by (simp add: js_split_def split_go_no_sep)

text \<open>\<open>replaceAll\<close> with a literal pattern is a split and a join.\<close>

definition js_replaceAll :: "string \<Rightarrow> string \<Rightarrow> string \<Rightarrow> string" where
  [js_defs]: "js_replaceAll pat rep s = js_join rep (js_split pat s)"

section \<open>Trimming, padding, substrings\<close>

text \<open>The ASCII white space that \<open>trim\<close> removes: tab, line feed, vertical tab, form feed,
  carriage return, space.\<close>

definition is_space :: "char \<Rightarrow> bool" where
  "is_space c = (c \<in> set [CHR 0x09, CHR 0x0A, CHR 0x0B, CHR 0x0C, CHR 0x0D, CHR 0x20])"

definition js_trim :: "string \<Rightarrow> string" where
  [js_defs]: "js_trim s = rev (dropWhile is_space (rev (dropWhile is_space s)))"

definition js_padStart :: "nat \<Rightarrow> char \<Rightarrow> string \<Rightarrow> string" where
  [js_defs]: "js_padStart n c s = replicate (n - length s) c @ s"

text \<open>\<open>substring(a, b)\<close>: both arguments are clamped to the string, then ordered.\<close>

definition clamp_index :: "nat \<Rightarrow> int \<Rightarrow> nat" where
  "clamp_index n i = nat (min (max i 0) (int n))"

definition js_substring :: "string \<Rightarrow> int \<Rightarrow> int \<Rightarrow> string" where
  [js_defs]: "js_substring s a b =
     (let i = clamp_index (length s) a; j = clamp_index (length s) b
      in take (max i j - min i j) (drop (min i j) s))"

definition js_substring_from :: "string \<Rightarrow> int \<Rightarrow> string" where
  [js_defs]: "js_substring_from s a = drop (clamp_index (length s) a) s"

lemma length_js_padStart [simp]: "length (js_padStart n c s) = max n (length s)"
  by (simp add: js_padStart_def)

lemma js_trim_no_outer_space:
  "js_trim s \<noteq> [] \<Longrightarrow> \<not> is_space (hd (js_trim s)) \<and> \<not> is_space (last (js_trim s))"
proof -
  assume ne: "js_trim s \<noteq> []"
  let ?d = "dropWhile is_space s"
  have last: "\<not> is_space (last (js_trim s))"
    using ne by (simp add: js_trim_def last_rev hd_dropWhile)
  have d: "?d \<noteq> []"
  proof
    assume "?d = []"
    with ne show False by (simp add: js_trim_def)
  qed
  then have hd_d: "\<not> is_space (hd ?d)" by (rule hd_dropWhile)
  obtain zs where zs: "rev ?d = zs @ dropWhile is_space (rev ?d)"
    by (metis takeWhile_dropWhile_id)
  then have "?d = js_trim s @ rev zs"
    by (metis js_trim_def rev_append rev_rev_ident)
  then have "hd ?d = hd (js_trim s)" using ne by (metis hd_append2)
  with hd_d last show ?thesis by simp
qed

section \<open>Numbers as text\<close>

text \<open>Digits in a base up to 36, as \<open>Number.prototype.toString(base)\<close> prints them.\<close>

definition digit_char :: "nat \<Rightarrow> char" where
  "digit_char n = char_of (if n < 10 then 48 + n else 87 + n)"

definition digit_val :: "char \<Rightarrow> nat option" where
  "digit_val c =
     (let k = of_char c :: nat
      in if 48 \<le> k \<and> k \<le> 57 then Some (k - 48)
         else if 97 \<le> k \<and> k \<le> 122 then Some (k - 87)
         else if 65 \<le> k \<and> k \<le> 90 then Some (k - 55)
         else None)"

lemma digit_val_char [simp]: "n < 36 \<Longrightarrow> digit_val (digit_char n) = Some n"
  by (auto simp: digit_val_def digit_char_def)

fun to_base :: "nat \<Rightarrow> nat \<Rightarrow> string" where
  "to_base b n =
     (if b < 2 \<or> n < b then [digit_char n]
      else to_base b (n div b) @ [digit_char (n mod b)])"

declare to_base.simps [simp del]

definition of_base_step :: "nat \<Rightarrow> nat option \<Rightarrow> char \<Rightarrow> nat option" where
  "of_base_step b acc c =
     (case acc of None \<Rightarrow> None
      | Some a \<Rightarrow> (case digit_val c of None \<Rightarrow> None
                   | Some d \<Rightarrow> if d < b then Some (a * b + d) else None))"

definition of_base :: "nat \<Rightarrow> string \<Rightarrow> nat option" where
  "of_base b s = (if s = [] then None else foldl (of_base_step b) (Some 0) s)"

lemma of_base_step_digit:
  "digit_val c = Some d \<Longrightarrow> d < b \<Longrightarrow> of_base_step b (Some a) c = Some (a * b + d)"
  by (simp add: of_base_step_def)

lemma to_base_nonempty [simp]: "to_base b n \<noteq> []"
  by (subst to_base.simps) simp

lemma foldl_to_base:
  "2 \<le> b \<Longrightarrow> b \<le> 36 \<Longrightarrow>
   foldl (of_base_step b) (Some a) (to_base b n) = Some (a * b ^ length (to_base b n) + n)"
proof (induction b n arbitrary: a rule: to_base.induct)
  case (1 b n)
  show ?case
  proof (cases "n < b")
    case True
    with "1.prems" show ?thesis by (simp add: to_base.simps [of b n] of_base_step_def)
  next
    case False
    let ?w = "to_base b (n div b)"
    have IH: "foldl (of_base_step b) (Some a) ?w = Some (a * b ^ length ?w + n div b)"
      using 1 False by simp
    have m: "n mod b < b" using "1.prems" by simp
    have d: "digit_val (digit_char (n mod b)) = Some (n mod b)"
      using m "1.prems" by (intro digit_val_char) linarith
    have "(a * b ^ length ?w + n div b) * b + n mod b = a * (b * b ^ length ?w) + n"
      by (simp add: algebra_simps)
    with False "1.prems" IH m d show ?thesis
      by (simp add: to_base.simps [of b n] of_base_step_digit)
  qed
qed

lemma of_base_to_base: "2 \<le> b \<Longrightarrow> b \<le> 36 \<Longrightarrow> of_base b (to_base b n) = Some n"
  by (simp add: of_base_def foldl_to_base)

lemma to_base_inject: "2 \<le> b \<Longrightarrow> b \<le> 36 \<Longrightarrow> to_base b m = to_base b n \<longleftrightarrow> m = n"
  by (metis of_base_to_base option.inject)

lemma length_to_base_le: "2 \<le> b \<Longrightarrow> n < b ^ k \<Longrightarrow> 0 < k \<Longrightarrow> length (to_base b n) \<le> k"
proof (induction b n arbitrary: k rule: to_base.induct)
  case (1 b n)
  show ?case
  proof (cases "n < b")
    case True
    with "1.prems" show ?thesis by (simp add: to_base.simps [of b n])
  next
    case False
    with "1.prems" have "k \<noteq> 1" by auto
    with "1.prems" obtain j where k: "k = Suc j" and j: "0 < j"
      by (cases k) auto
    have "n div b < b ^ j"
      using "1.prems" k by (simp add: div_less_iff_less_mult mult.commute)
    then have "length (to_base b (n div b)) \<le> j" using 1 False j by simp
    with False "1.prems" k show ?thesis by (simp add: to_base.simps [of b n])
  qed
qed

lemma foldl_of_base_zeros:
  "0 < b \<Longrightarrow> foldl (of_base_step b) (Some 0) (replicate k (CHR ''0'') @ s) =
     foldl (of_base_step b) (Some 0) s"
  by (induction k) (auto simp: of_base_step_def digit_val_def)

lemma of_base_step_None [simp]: "foldl (of_base_step b) None s = None"
  by (induction s) (simp_all add: of_base_step_def)

lemma foldl_of_base_Cons:
  assumes "foldl (of_base_step b) (Some a) (c # s) = Some n"
  obtains d where "digit_val c = Some d" "d < b" "foldl (of_base_step b) (Some (a * b + d)) s = Some n"
  using assms by (cases "digit_val c") (auto simp: of_base_step_def [of b "Some a" c] split: if_splits)

lemma of_base_digits:
  "foldl (of_base_step b) (Some a) s = Some n \<Longrightarrow> \<forall>c\<in>set s. \<exists>d<b. digit_val c = Some d"
proof (induction s arbitrary: a)
  case (Cons c s)
  from Cons.prems obtain d where "digit_val c = Some d" "d < b"
      "foldl (of_base_step b) (Some (a * b + d)) s = Some n"
    by (rule foldl_of_base_Cons)
  with Cons.IH show ?case by auto
qed simp

text \<open>Zero padding does not change what a numeral denotes.\<close>

lemma of_base_padded:
  "2 \<le> b \<Longrightarrow> b \<le> 36 \<Longrightarrow>
   of_base b (js_padStart k (CHR ''0'') (to_base b n)) = Some n"
  using foldl_to_base [of b 0 n]
  by (simp add: js_padStart_def of_base_def foldl_of_base_zeros del: foldl_append)

text \<open>Decimal printing and parsing of signed integers (\<open>BigInt.toString\<close>,
  \<open>BigInt.fromString\<close>); parsing anything else fails.\<close>

definition int_to_string :: "int \<Rightarrow> string" where
  "int_to_string i = (if i < 0 then CHR ''-'' # to_base 10 (nat (- i)) else to_base 10 (nat i))"

definition string_to_int :: "string \<Rightarrow> int option" where
  "string_to_int s =
     (case s of
        [] \<Rightarrow> None
      | c # cs \<Rightarrow>
          if c = CHR ''-'' then map_option (\<lambda>n. - int n) (of_base 10 cs)
          else map_option int (of_base 10 (c # cs)))"

lemma hd_to_base_digit: "2 \<le> b \<Longrightarrow> b \<le> 36 \<Longrightarrow> \<exists>d < b. hd (to_base b n) = digit_char d"
proof (induction b n rule: to_base.induct)
  case (1 b n)
  then show ?case by (cases "n < b") (auto simp: to_base.simps [of b n])
qed

lemma digit_char_not_minus: "n < 36 \<Longrightarrow> digit_char n \<noteq> CHR ''-''"
  using digit_val_char [of n] by (auto simp: digit_val_def)

lemma string_to_int_to_string [simp]: "string_to_int (int_to_string i) = Some i"
proof (cases "i < 0")
  case True
  then show ?thesis by (simp add: string_to_int_def int_to_string_def of_base_to_base)
next
  case False
  obtain c cs where eq: "to_base 10 (nat i) = c # cs"
    using to_base_nonempty by (meson neq_Nil_conv)
  obtain d where "d < 10" "hd (to_base 10 (nat i)) = digit_char d"
    using hd_to_base_digit [of 10 "nat i"] by auto
  with eq have "c \<noteq> CHR ''-''" using digit_char_not_minus [of d] by auto
  moreover have "of_base 10 (c # cs) = Some (nat i)"
    using of_base_to_base [of 10 "nat i"] eq by simp
  ultimately show ?thesis
    using False eq by (simp add: string_to_int_def int_to_string_def)
qed

lemma int_to_string_inject [simp]: "int_to_string i = int_to_string j \<longleftrightarrow> i = j"
  by (metis option.inject string_to_int_to_string)

section \<open>Hexadecimal byte strings\<close>

text \<open>\<open>Bytes.toHexString\<close>: the prefix \<open>0x\<close> and two lower-case digits per byte.\<close>

definition hex_byte :: "byte \<Rightarrow> string" where
  "hex_byte b = [digit_char (unat b div 16), digit_char (unat b mod 16)]"

definition toHexString :: "bytes \<Rightarrow> string" where
  "toHexString bs = ''0x'' @ concat (map hex_byte bs)"

lemma unat_byte_bound: "unat (b :: byte) < 256"
  using unsigned_less [of b] by simp

lemma digit_char_inject: "m < 36 \<Longrightarrow> n < 36 \<Longrightarrow> digit_char m = digit_char n \<longleftrightarrow> m = n"
  by (metis digit_val_char option.inject)

lemma hex_byte_inject [simp]: "hex_byte a = hex_byte b \<longleftrightarrow> a = b"
proof
  assume "hex_byte a = hex_byte b"
  then have "unat a div 16 = unat b div 16" "unat a mod 16 = unat b mod 16"
    using unat_byte_bound [of a] unat_byte_bound [of b]
    by (simp_all add: hex_byte_def digit_char_inject)
  then have "unat a = unat b" by (metis div_mult_mod_eq)
  then show "a = b" by (simp add: word_unat_eq_iff)
qed simp

lemma length_hex_byte [simp]: "length (hex_byte b) = 2"
  by (simp add: hex_byte_def)

lemma concat_hex_byte_inject:
  "concat (map hex_byte as) = concat (map hex_byte bs) \<longleftrightarrow> as = bs"
proof
  assume "concat (map hex_byte as) = concat (map hex_byte bs)"
  then show "as = bs"
  proof (induction as arbitrary: bs)
    case Nil
    then show ?case by (cases bs) (auto simp: hex_byte_def)
  next
    case (Cons a as)
    then obtain b bs' where bs: "bs = b # bs'"
      by (cases bs) (auto simp: hex_byte_def)
    with Cons.prems have "hex_byte a = hex_byte b"
      "concat (map hex_byte as) = concat (map hex_byte bs')"
      by (simp_all add: append_eq_append_conv)
    with Cons.IH bs show ?case by simp
  qed
qed simp

lemma toHexString_inject [simp]: "toHexString as = toHexString bs \<longleftrightarrow> as = bs"
  by (simp add: toHexString_def concat_hex_byte_inject)

lemma toHexString_nonempty [simp]: "toHexString b \<noteq> []"
  by (simp add: toHexString_def)

section \<open>Maps in insertion order\<close>

text \<open>\<open>Map.has\<close>, \<open>Map.get\<close> and \<open>Map.set\<close>: a known key keeps its place, a new one goes last.\<close>

type_synonym ('k, 'v) js_map = "('k \<times> 'v) list"

definition js_has :: "('k, 'v) js_map \<Rightarrow> 'k \<Rightarrow> bool" where
  "js_has m k = (k \<in> set (map fst m))"

definition js_get :: "('k, 'v) js_map \<Rightarrow> 'k \<Rightarrow> 'v option" where
  "js_get m k = map_of m k"

fun js_set :: "('k, 'v) js_map \<Rightarrow> 'k \<Rightarrow> 'v \<Rightarrow> ('k, 'v) js_map" where
  "js_set [] k v = [(k, v)]"
| "js_set ((k', v') # m) k v = (if k' = k then (k, v) # m else (k', v') # js_set m k v)"

definition js_delete :: "('k, 'v) js_map \<Rightarrow> 'k \<Rightarrow> ('k, 'v) js_map" where
  "js_delete m k = filter (\<lambda>x. fst x \<noteq> k) m"

lemma js_get_set: "js_get (js_set m k v) k' = (if k' = k then Some v else js_get m k')"
  by (induction m) (auto simp: js_get_def)

lemma js_get_Nil [simp]: "js_get [] k = None"
  by (simp add: js_get_def)

section \<open>Interfaces\<close>

text \<open>
  A keyed store of entities of one kind: what \<open>Entity.load\<close> and \<open>entity.save\<close>
  promise the handlers of the indexer.
\<close>

locale entity_store =
  fixes load :: "string \<Rightarrow> 'st \<Rightarrow> 'e option"
    and save :: "'e \<Rightarrow> 'st \<Rightarrow> 'st"
    and eid :: "'e \<Rightarrow> string"
  assumes load_save_same: "load (eid e) (save e s) = Some e"
    and load_save_other: "k \<noteq> eid e \<Longrightarrow> load k (save e s) = load k s"
begin

lemma load_save: "load k (save e s) = (if k = eid e then Some e else load k s)"
  by (simp add: load_save_same load_save_other)

text \<open>A loop that saves a list of entities: the last entity saved under a key is found.\<close>

lemma load_save_all:
  "load k (fold save es s) =
     (case find (\<lambda>e. eid e = k) (rev es) of None \<Rightarrow> load k s | Some e \<Rightarrow> Some e)"
proof (induction es rule: rev_induct)
  case Nil
  then show ?case by simp
next
  case (snoc e es)
  then show ?case by (simp add: load_save)
qed

lemma load_save_all_notin:
  "k \<notin> eid ` set es \<Longrightarrow> load k (fold save es s) = load k s"
  by (induction es arbitrary: s) (auto simp: load_save_other)

end

text \<open>An encoder and a decoder that inverts it on the valid values.\<close>

locale codec =
  fixes enc :: "'a \<Rightarrow> 'b"
    and dec :: "'b \<Rightarrow> 'a option"
    and valid :: "'a \<Rightarrow> bool"
  assumes dec_enc: "valid x \<Longrightarrow> dec (enc x) = Some x"
begin

lemma enc_inject: "valid x \<Longrightarrow> valid y \<Longrightarrow> enc x = enc y \<longleftrightarrow> x = y"
  by (metis dec_enc option.inject)

lemma inj_on_enc: "inj_on enc (Collect valid)"
  by (rule inj_onI) (simp add: enc_inject)

end

interpretation dec_codec: codec int_to_string string_to_int "\<lambda>_. True"
  by unfold_locales simp

interpretation hex_codec: codec "\<lambda>n. js_padStart k (CHR ''0'') (to_base 16 n)" "of_base 16" "\<lambda>_. True"
  for k
  by unfold_locales (simp add: of_base_padded)

text \<open>
  An event-driven machine. A handler may abort (\<open>None\<close>), which aborts the run; an
  invariant kept by every handler holds after every run that ends.
\<close>

fun run_events :: "('ev \<Rightarrow> 'st \<Rightarrow> 'st option) \<Rightarrow> 'ev list \<Rightarrow> 'st \<Rightarrow> 'st option" where
  "run_events h [] s = Some s"
| "run_events h (e # es) s = (case h e s of None \<Rightarrow> None | Some s' \<Rightarrow> run_events h es s')"

lemma run_events_append:
  "run_events h (es @ fs) s =
     (case run_events h es s of None \<Rightarrow> None | Some s' \<Rightarrow> run_events h fs s')"
  by (induction es arbitrary: s) (auto split: option.splits)

text \<open>Every event is acceptable in the state it meets, and no handler aborts.\<close>

fun legal_run ::
  "('ev \<Rightarrow> 'st \<Rightarrow> 'st option) \<Rightarrow> ('ev \<Rightarrow> 'st \<Rightarrow> bool) \<Rightarrow> 'ev list \<Rightarrow> 'st \<Rightarrow> bool" where
  "legal_run h l [] s = True"
| "legal_run h l (e # es) s =
     (l e s \<and> (case h e s of None \<Rightarrow> False | Some s' \<Rightarrow> legal_run h l es s'))"

locale machine =
  fixes step :: "'ev \<Rightarrow> 'st \<Rightarrow> 'st option"
    and legal :: "'ev \<Rightarrow> 'st \<Rightarrow> bool"
    and inv :: "'st \<Rightarrow> bool"
  assumes step_inv: "inv s \<Longrightarrow> legal e s \<Longrightarrow> step e s = Some s' \<Longrightarrow> inv s'"
begin

text \<open>The states reached by legal events, as an inductive predicate.\<close>

inductive reach :: "'st \<Rightarrow> 'st \<Rightarrow> bool" for s0 where
  start: "reach s0 s0"
| more: "reach s0 s \<Longrightarrow> legal e s \<Longrightarrow> step e s = Some s' \<Longrightarrow> reach s0 s'"

lemma reach_inv: "reach s0 s \<Longrightarrow> inv s0 \<Longrightarrow> inv s"
  by (induction rule: reach.induct) (auto intro: step_inv)

lemma reach_trans: "reach s t \<Longrightarrow> reach r s \<Longrightarrow> reach r t"
  by (induction rule: reach.induct) (auto intro: reach.more)

lemma legal_run_reach:
  "legal_run step legal es s \<Longrightarrow> \<exists>s'. run_events step es s = Some s' \<and> reach s s'"
proof (induction es arbitrary: s)
  case Nil
  then show ?case by (auto intro: reach.start)
next
  case (Cons e es)
  then obtain t where t: "step e s = Some t" "legal_run step legal es t" "legal e s"
    by (auto split: option.splits)
  with Cons.IH obtain s' where "run_events step es t = Some s'" "reach t s'" by blast
  moreover have "reach s t" using t(1,3) by (blast intro: reach.intros)
  ultimately show ?case using t(1) by (auto intro: reach_trans)
qed

lemma legal_run_inv:
  "inv s \<Longrightarrow> legal_run step legal es s \<Longrightarrow> \<exists>s'. run_events step es s = Some s' \<and> inv s'"
  using legal_run_reach reach_inv by blast

text \<open>Where every event is acceptable, every run that ends keeps the invariant.\<close>

lemma run_inv:
  assumes "\<forall>e s. legal e s" and "inv s" and "run_events step es s = Some s'"
  shows "inv s'"
  using assms(2,3)
  by (induction es arbitrary: s) (auto split: option.splits intro: step_inv assms(1) [rule_format])

end

end
