(* ===== verification/Subgraph_Schema.thy ===== *)
theory Subgraph_Schema
  imports Nouns_Prelude
begin

text \<open>
  The entities of the indexer (\<open>packages/nouns-subgraph/schema.graphql\<close>), the store
  the mappings read and write, and the event context. One record per entity type; a nullable
  field is an \<open>option\<close>, and so is a required field that a handler may leave unset on a
  freshly constructed entity: reading such a field aborts the mapping, which the handlers
  model by \<^const>\<open>None\<close>. Loading returns a copy and saving overwrites the stored entity, so
  a handler that keeps an old copy and saves it later loses what was written in between.

  Field names carry the entity's short prefix (\<open>prop_status\<close> is \<open>Proposal.status\<close>).
  \<open>BigInt\<close> is \<^typ>\<open>int\<close>, \<open>Int\<close> is a 32-bit word, \<open>Bytes\<close> is a list of bytes.
\<close>

datatype ProposalStatus = PENDING | ACTIVE | CANCELLED | VETOED | QUEUED | EXECUTED

section \<open>Entities\<close>

record delegation_event =
  de_id :: string
  de_noun :: string
  de_delegator :: string
  de_previousDelegate :: string
  de_newDelegate :: string
  de_blockNumber :: int
  de_blockTimestamp :: int

record transfer_event =
  te_id :: string
  te_noun :: string
  te_previousHolder :: string
  te_newHolder :: string
  te_blockNumber :: int
  te_blockTimestamp :: int

record seed =
  seed_id :: string
  seed_background :: int
  seed_body :: int
  seed_accessory :: int
  seed_head :: int
  seed_glasses :: int

record noun =
  noun_id :: string
  noun_seed :: "string option"
  noun_owner :: "string option"

record bid =
  bid_id :: string
  bid_noun :: string
  bid_amount :: int
  bid_bidder :: string
  bid_blockNumber :: int
  bid_txIndex :: int
  bid_auction :: string
  bid_blockTimestamp :: int

record auction =
  auc_id :: string
  auc_noun :: string
  auc_amount :: int
  auc_startTime :: int
  auc_endTime :: int
  auc_bidder :: "string option"
  auc_settled :: bool

record account =
  acc_id :: string
  acc_delegate :: "string option"
  acc_tokenBalanceRaw :: int
  acc_tokenBalance :: int
  acc_totalTokensHeldRaw :: int
  acc_totalTokensHeld :: int
  acc_nouns :: "string list"

record delegate =
  del_id :: string
  del_delegatedVotesRaw :: int
  del_delegatedVotes :: int
  del_tokenHoldersRepresentedAmount :: i32
  del_nounsRepresented :: "string list"

record proposal =
  prop_id :: string
  prop_proposer :: "string option"
  prop_signers :: "string list option"
  prop_targets :: "bytes list option"
  prop_values :: "int list option"
  prop_signatures :: "string list option"
  prop_calldatas :: "bytes list option"
  prop_createdTimestamp :: "int option"
  prop_createdBlock :: "int option"
  prop_lastUpdatedTimestamp :: "int option"
  prop_lastUpdatedBlock :: "int option"
  prop_createdTransactionHash :: "bytes option"
  prop_startBlock :: "int option"
  prop_endBlock :: "int option"
  prop_proposalThreshold :: "int option"
  prop_quorumVotes :: "int option"
  prop_forVotes :: "int option"
  prop_againstVotes :: "int option"
  prop_abstainVotes :: "int option"
  prop_title :: "string option"
  prop_description :: "string option"
  prop_status :: "ProposalStatus option"
  prop_executionETA :: "int option"
  prop_totalSupply :: "int option"
  prop_adjustedTotalSupply :: "int option"
  prop_minQuorumVotesBPS :: "i32 option"
  prop_maxQuorumVotesBPS :: "i32 option"
  prop_quorumCoefficient :: "int option"
  prop_objectionPeriodEndBlock :: "int option"
  prop_updatePeriodEndBlock :: "int option"
  prop_onTimelockV1 :: "bool option"
  prop_voteSnapshotBlock :: "int option"
  prop_canceledBlock :: "int option"
  prop_canceledTimestamp :: "int option"
  prop_executedBlock :: "int option"
  prop_executedTimestamp :: "int option"
  prop_vetoedBlock :: "int option"
  prop_vetoedTimestamp :: "int option"
  prop_queuedBlock :: "int option"
  prop_queuedTimestamp :: "int option"

record proposal_version =
  pv_id :: string
  pv_proposal :: "string option"
  pv_createdBlock :: "int option"
  pv_createdAt :: "int option"
  pv_targets :: "bytes list option"
  pv_values :: "int list option"
  pv_signatures :: "string list option"
  pv_calldatas :: "bytes list option"
  pv_title :: "string option"
  pv_description :: "string option"
  pv_updateMessage :: "string option"

record vote =
  vote_id :: string
  vote_support :: "bool option"
  vote_supportDetailed :: "i32 option"
  vote_votesRaw :: "int option"
  vote_votes :: "int option"
  vote_reason :: "string option"
  vote_voter :: "string option"
  vote_nouns :: "string list option"
  vote_proposal :: "string option"
  vote_blockNumber :: "int option"
  vote_blockTimestamp :: "int option"

record governance =
  gov_id :: string
  gov_proposals :: int
  gov_currentTokenHolders :: int
  gov_currentDelegates :: int
  gov_totalTokenHolders :: int
  gov_totalDelegates :: int
  gov_delegatedVotesRaw :: int
  gov_delegatedVotes :: int
  gov_proposalsQueued :: int
  gov_voteSnapshotBlockSwitchProposalId :: int
  gov_candidates :: int

record dq_params =
  dq_id :: string
  dq_minQuorumVotesBPS :: i32
  dq_maxQuorumVotesBPS :: i32
  dq_quorumCoefficient :: int
  dq_dynamicQuorumStartBlock :: "int option"

record candidate =
  cand_id :: string
  cand_proposer :: "bytes option"
  cand_slug :: "string option"
  cand_createdTransactionHash :: "bytes option"
  cand_createdTimestamp :: "int option"
  cand_createdBlock :: "int option"
  cand_lastUpdatedTimestamp :: "int option"
  cand_lastUpdatedBlock :: "int option"
  cand_canceled :: "bool option"
  cand_canceledTimestamp :: "int option"
  cand_canceledBlock :: "int option"
  cand_latestVersion :: "string option"
  cand_number :: "int option"

record candidate_version =
  cv_id :: string
  cv_proposal :: "string option"
  cv_createdTimestamp :: "int option"
  cv_createdBlock :: "int option"
  cv_updateMessage :: "string option"
  cv_content :: "string option"

record candidate_content =
  cc_id :: string
  cc_proposer :: "bytes option"
  cc_targets :: "bytes list option"
  cc_values :: "int list option"
  cc_signatures :: "string list option"
  cc_calldatas :: "bytes list option"
  cc_description :: "string option"
  cc_proposalIdToUpdate :: "int option"
  cc_title :: "string option"
  cc_encodedProposalHash :: "bytes option"
  cc_matchingProposalIds :: "int list option"

record candidate_sig =
  cs_id :: string
  cs_content :: "string option"
  cs_signer :: "string option"
  cs_sig :: "bytes option"
  cs_expirationTimestamp :: "int option"
  cs_encodedProposalHash :: "bytes option"
  cs_sigDigest :: "bytes option"
  cs_reason :: "string option"
  cs_canceled :: "bool option"
  cs_createdTimestamp :: "int option"
  cs_createdBlock :: "int option"

record proposal_feedback =
  pf_id :: string
  pf_createdTimestamp :: "int option"
  pf_createdBlock :: "int option"
  pf_proposal :: "string option"
  pf_voter :: "string option"
  pf_supportDetailed :: "i32 option"
  pf_votes :: "int option"
  pf_reason :: "string option"

record candidate_feedback =
  cf_id :: string
  cf_createdTimestamp :: "int option"
  cf_createdBlock :: "int option"
  cf_candidate :: "string option"
  cf_voter :: "string option"
  cf_supportDetailed :: "i32 option"
  cf_votes :: "int option"
  cf_reason :: "string option"

record fork =
  fork_id :: string
  fork_forkID :: int
  fork_tokensInEscrowCount :: i32
  fork_executed :: "bool option"
  fork_executedAt :: "int option"
  fork_forkingPeriodEndTimestamp :: "int option"
  fork_forkTreasury :: "bytes option"
  fork_forkToken :: "bytes option"
  fork_tokensForkingCount :: i32

record escrow_deposit =
  ed_id :: string
  ed_fork :: string
  ed_createdAt :: int
  ed_owner :: string
  ed_tokenIDs :: "int list"
  ed_proposalIDs :: "int list"
  ed_reason :: string

record escrow_withdrawal =
  ew_id :: string
  ew_fork :: string
  ew_createdAt :: int
  ew_owner :: string
  ew_tokenIDs :: "int list"

record fork_join =
  fj_id :: string
  fj_fork :: string
  fj_createdAt :: int
  fj_owner :: string
  fj_tokenIDs :: "int list"
  fj_proposalIDs :: "int list"
  fj_reason :: string

record escrowed_noun =
  en_id :: string
  en_fork :: string
  en_noun :: string
  en_owner :: string
  en_escrowDeposit :: string

record fork_joined_noun =
  fjn_id :: string
  fjn_fork :: string
  fjn_noun :: string
  fjn_owner :: string
  fjn_forkJoin :: string

section \<open>Event context and store\<close>

text \<open>What every handler reads of its event besides the parameters: \<open>event.transaction\<close>,
  \<open>event.logIndex\<close>, \<open>event.block\<close> and \<open>event.address\<close>.\<close>

record event_ctx =
  ev_txHash :: bytes
  ev_txIndex :: int
  ev_logIndex :: int
  ev_blockNumber :: int
  ev_blockTimestamp :: int
  ev_address :: bytes

datatype log_level = LogError | LogWarning

record store =
  st_delegationEvents :: "string \<rightharpoonup> delegation_event"
  st_transferEvents :: "string \<rightharpoonup> transfer_event"
  st_seeds :: "string \<rightharpoonup> seed"
  st_nouns :: "string \<rightharpoonup> noun"
  st_bids :: "string \<rightharpoonup> bid"
  st_auctions :: "string \<rightharpoonup> auction"
  st_accounts :: "string \<rightharpoonup> account"
  st_delegates :: "string \<rightharpoonup> delegate"
  st_proposals :: "string \<rightharpoonup> proposal"
  st_proposalVersions :: "string \<rightharpoonup> proposal_version"
  st_votes :: "string \<rightharpoonup> vote"
  st_governance :: "string \<rightharpoonup> governance"
  st_dqParams :: "string \<rightharpoonup> dq_params"
  st_candidates :: "string \<rightharpoonup> candidate"
  st_candidateVersions :: "string \<rightharpoonup> candidate_version"
  st_candidateContents :: "string \<rightharpoonup> candidate_content"
  st_candidateSigs :: "string \<rightharpoonup> candidate_sig"
  st_proposalFeedback :: "string \<rightharpoonup> proposal_feedback"
  st_candidateFeedback :: "string \<rightharpoonup> candidate_feedback"
  st_forks :: "string \<rightharpoonup> fork"
  st_escrowDeposits :: "string \<rightharpoonup> escrow_deposit"
  st_escrowWithdrawals :: "string \<rightharpoonup> escrow_withdrawal"
  st_forkJoins :: "string \<rightharpoonup> fork_join"
  st_escrowedNouns :: "string \<rightharpoonup> escrowed_noun"
  st_forkJoinedNouns :: "string \<rightharpoonup> fork_joined_noun"
  st_logs :: "(log_level \<times> string \<times> string list) list"

definition empty_store :: store where
  "empty_store = \<lparr>st_delegationEvents = Map.empty,
     st_transferEvents = Map.empty,
     st_seeds = Map.empty,
     st_nouns = Map.empty,
     st_bids = Map.empty,
     st_auctions = Map.empty,
     st_accounts = Map.empty,
     st_delegates = Map.empty,
     st_proposals = Map.empty,
     st_proposalVersions = Map.empty,
     st_votes = Map.empty,
     st_governance = Map.empty,
     st_dqParams = Map.empty,
     st_candidates = Map.empty,
     st_candidateVersions = Map.empty,
     st_candidateContents = Map.empty,
     st_candidateSigs = Map.empty,
     st_proposalFeedback = Map.empty,
     st_candidateFeedback = Map.empty,
     st_forks = Map.empty,
     st_escrowDeposits = Map.empty,
     st_escrowWithdrawals = Map.empty,
     st_forkJoins = Map.empty,
     st_escrowedNouns = Map.empty,
     st_forkJoinedNouns = Map.empty,
     st_logs = []\<rparr>"

definition log_error :: "string \<Rightarrow> string list \<Rightarrow> store \<Rightarrow> store" where
  [handler_defs]: "log_error fmt args s = s\<lparr>st_logs := st_logs s @ [(LogError, fmt, args)]\<rparr>"

definition log_warning :: "string \<Rightarrow> string list \<Rightarrow> store \<Rightarrow> store" where
  [handler_defs]: "log_warning fmt args s = s\<lparr>st_logs := st_logs s @ [(LogWarning, fmt, args)]\<rparr>"

section \<open>Loading and saving\<close>

definition load_delegation_event :: "string \<Rightarrow> store \<Rightarrow> delegation_event option" where
  [handler_defs]: "load_delegation_event k s = st_delegationEvents s k"

definition save_delegation_event :: "delegation_event \<Rightarrow> store \<Rightarrow> store" where
  [handler_defs]: "save_delegation_event e s = s\<lparr>st_delegationEvents := (st_delegationEvents s)(de_id e \<mapsto> e)\<rparr>"

interpretation delegation_event_store: entity_store load_delegation_event save_delegation_event de_id
  by unfold_locales (simp_all add: load_delegation_event_def save_delegation_event_def)

definition load_transfer_event :: "string \<Rightarrow> store \<Rightarrow> transfer_event option" where
  [handler_defs]: "load_transfer_event k s = st_transferEvents s k"

definition save_transfer_event :: "transfer_event \<Rightarrow> store \<Rightarrow> store" where
  [handler_defs]: "save_transfer_event e s = s\<lparr>st_transferEvents := (st_transferEvents s)(te_id e \<mapsto> e)\<rparr>"

interpretation transfer_event_store: entity_store load_transfer_event save_transfer_event te_id
  by unfold_locales (simp_all add: load_transfer_event_def save_transfer_event_def)

definition load_seed :: "string \<Rightarrow> store \<Rightarrow> seed option" where
  [handler_defs]: "load_seed k s = st_seeds s k"

definition save_seed :: "seed \<Rightarrow> store \<Rightarrow> store" where
  [handler_defs]: "save_seed e s = s\<lparr>st_seeds := (st_seeds s)(seed_id e \<mapsto> e)\<rparr>"

interpretation seed_store: entity_store load_seed save_seed seed_id
  by unfold_locales (simp_all add: load_seed_def save_seed_def)

definition load_noun :: "string \<Rightarrow> store \<Rightarrow> noun option" where
  [handler_defs]: "load_noun k s = st_nouns s k"

definition save_noun :: "noun \<Rightarrow> store \<Rightarrow> store" where
  [handler_defs]: "save_noun e s = s\<lparr>st_nouns := (st_nouns s)(noun_id e \<mapsto> e)\<rparr>"

interpretation noun_store: entity_store load_noun save_noun noun_id
  by unfold_locales (simp_all add: load_noun_def save_noun_def)

definition load_bid :: "string \<Rightarrow> store \<Rightarrow> bid option" where
  [handler_defs]: "load_bid k s = st_bids s k"

definition save_bid :: "bid \<Rightarrow> store \<Rightarrow> store" where
  [handler_defs]: "save_bid e s = s\<lparr>st_bids := (st_bids s)(bid_id e \<mapsto> e)\<rparr>"

interpretation bid_store: entity_store load_bid save_bid bid_id
  by unfold_locales (simp_all add: load_bid_def save_bid_def)

definition load_auction :: "string \<Rightarrow> store \<Rightarrow> auction option" where
  [handler_defs]: "load_auction k s = st_auctions s k"

definition save_auction :: "auction \<Rightarrow> store \<Rightarrow> store" where
  [handler_defs]: "save_auction e s = s\<lparr>st_auctions := (st_auctions s)(auc_id e \<mapsto> e)\<rparr>"

interpretation auction_store: entity_store load_auction save_auction auc_id
  by unfold_locales (simp_all add: load_auction_def save_auction_def)

definition load_account :: "string \<Rightarrow> store \<Rightarrow> account option" where
  [handler_defs]: "load_account k s = st_accounts s k"

definition save_account :: "account \<Rightarrow> store \<Rightarrow> store" where
  [handler_defs]: "save_account e s = s\<lparr>st_accounts := (st_accounts s)(acc_id e \<mapsto> e)\<rparr>"

interpretation account_store: entity_store load_account save_account acc_id
  by unfold_locales (simp_all add: load_account_def save_account_def)

definition load_delegate :: "string \<Rightarrow> store \<Rightarrow> delegate option" where
  [handler_defs]: "load_delegate k s = st_delegates s k"

definition save_delegate :: "delegate \<Rightarrow> store \<Rightarrow> store" where
  [handler_defs]: "save_delegate e s = s\<lparr>st_delegates := (st_delegates s)(del_id e \<mapsto> e)\<rparr>"

interpretation delegate_store: entity_store load_delegate save_delegate del_id
  by unfold_locales (simp_all add: load_delegate_def save_delegate_def)

definition load_proposal :: "string \<Rightarrow> store \<Rightarrow> proposal option" where
  [handler_defs]: "load_proposal k s = st_proposals s k"

definition save_proposal :: "proposal \<Rightarrow> store \<Rightarrow> store" where
  [handler_defs]: "save_proposal e s = s\<lparr>st_proposals := (st_proposals s)(prop_id e \<mapsto> e)\<rparr>"

interpretation proposal_store: entity_store load_proposal save_proposal prop_id
  by unfold_locales (simp_all add: load_proposal_def save_proposal_def)

definition load_proposal_version :: "string \<Rightarrow> store \<Rightarrow> proposal_version option" where
  [handler_defs]: "load_proposal_version k s = st_proposalVersions s k"

definition save_proposal_version :: "proposal_version \<Rightarrow> store \<Rightarrow> store" where
  [handler_defs]: "save_proposal_version e s = s\<lparr>st_proposalVersions := (st_proposalVersions s)(pv_id e \<mapsto> e)\<rparr>"

interpretation proposal_version_store: entity_store load_proposal_version save_proposal_version pv_id
  by unfold_locales (simp_all add: load_proposal_version_def save_proposal_version_def)

definition load_vote :: "string \<Rightarrow> store \<Rightarrow> vote option" where
  [handler_defs]: "load_vote k s = st_votes s k"

definition save_vote :: "vote \<Rightarrow> store \<Rightarrow> store" where
  [handler_defs]: "save_vote e s = s\<lparr>st_votes := (st_votes s)(vote_id e \<mapsto> e)\<rparr>"

interpretation vote_store: entity_store load_vote save_vote vote_id
  by unfold_locales (simp_all add: load_vote_def save_vote_def)

definition load_governance :: "string \<Rightarrow> store \<Rightarrow> governance option" where
  [handler_defs]: "load_governance k s = st_governance s k"

definition save_governance :: "governance \<Rightarrow> store \<Rightarrow> store" where
  [handler_defs]: "save_governance e s = s\<lparr>st_governance := (st_governance s)(gov_id e \<mapsto> e)\<rparr>"

interpretation governance_store: entity_store load_governance save_governance gov_id
  by unfold_locales (simp_all add: load_governance_def save_governance_def)

definition load_dq_params :: "string \<Rightarrow> store \<Rightarrow> dq_params option" where
  [handler_defs]: "load_dq_params k s = st_dqParams s k"

definition save_dq_params :: "dq_params \<Rightarrow> store \<Rightarrow> store" where
  [handler_defs]: "save_dq_params e s = s\<lparr>st_dqParams := (st_dqParams s)(dq_id e \<mapsto> e)\<rparr>"

interpretation dq_params_store: entity_store load_dq_params save_dq_params dq_id
  by unfold_locales (simp_all add: load_dq_params_def save_dq_params_def)

definition load_candidate :: "string \<Rightarrow> store \<Rightarrow> candidate option" where
  [handler_defs]: "load_candidate k s = st_candidates s k"

definition save_candidate :: "candidate \<Rightarrow> store \<Rightarrow> store" where
  [handler_defs]: "save_candidate e s = s\<lparr>st_candidates := (st_candidates s)(cand_id e \<mapsto> e)\<rparr>"

interpretation candidate_store: entity_store load_candidate save_candidate cand_id
  by unfold_locales (simp_all add: load_candidate_def save_candidate_def)

definition load_candidate_version :: "string \<Rightarrow> store \<Rightarrow> candidate_version option" where
  [handler_defs]: "load_candidate_version k s = st_candidateVersions s k"

definition save_candidate_version :: "candidate_version \<Rightarrow> store \<Rightarrow> store" where
  [handler_defs]: "save_candidate_version e s = s\<lparr>st_candidateVersions := (st_candidateVersions s)(cv_id e \<mapsto> e)\<rparr>"

interpretation candidate_version_store: entity_store load_candidate_version save_candidate_version cv_id
  by unfold_locales (simp_all add: load_candidate_version_def save_candidate_version_def)

definition load_candidate_content :: "string \<Rightarrow> store \<Rightarrow> candidate_content option" where
  [handler_defs]: "load_candidate_content k s = st_candidateContents s k"

definition save_candidate_content :: "candidate_content \<Rightarrow> store \<Rightarrow> store" where
  [handler_defs]: "save_candidate_content e s = s\<lparr>st_candidateContents := (st_candidateContents s)(cc_id e \<mapsto> e)\<rparr>"

interpretation candidate_content_store: entity_store load_candidate_content save_candidate_content cc_id
  by unfold_locales (simp_all add: load_candidate_content_def save_candidate_content_def)

definition load_candidate_sig :: "string \<Rightarrow> store \<Rightarrow> candidate_sig option" where
  [handler_defs]: "load_candidate_sig k s = st_candidateSigs s k"

definition save_candidate_sig :: "candidate_sig \<Rightarrow> store \<Rightarrow> store" where
  [handler_defs]: "save_candidate_sig e s = s\<lparr>st_candidateSigs := (st_candidateSigs s)(cs_id e \<mapsto> e)\<rparr>"

interpretation candidate_sig_store: entity_store load_candidate_sig save_candidate_sig cs_id
  by unfold_locales (simp_all add: load_candidate_sig_def save_candidate_sig_def)

definition load_proposal_feedback :: "string \<Rightarrow> store \<Rightarrow> proposal_feedback option" where
  [handler_defs]: "load_proposal_feedback k s = st_proposalFeedback s k"

definition save_proposal_feedback :: "proposal_feedback \<Rightarrow> store \<Rightarrow> store" where
  [handler_defs]: "save_proposal_feedback e s = s\<lparr>st_proposalFeedback := (st_proposalFeedback s)(pf_id e \<mapsto> e)\<rparr>"

interpretation proposal_feedback_store: entity_store load_proposal_feedback save_proposal_feedback pf_id
  by unfold_locales (simp_all add: load_proposal_feedback_def save_proposal_feedback_def)

definition load_candidate_feedback :: "string \<Rightarrow> store \<Rightarrow> candidate_feedback option" where
  [handler_defs]: "load_candidate_feedback k s = st_candidateFeedback s k"

definition save_candidate_feedback :: "candidate_feedback \<Rightarrow> store \<Rightarrow> store" where
  [handler_defs]: "save_candidate_feedback e s = s\<lparr>st_candidateFeedback := (st_candidateFeedback s)(cf_id e \<mapsto> e)\<rparr>"

interpretation candidate_feedback_store: entity_store load_candidate_feedback save_candidate_feedback cf_id
  by unfold_locales (simp_all add: load_candidate_feedback_def save_candidate_feedback_def)

definition load_fork :: "string \<Rightarrow> store \<Rightarrow> fork option" where
  [handler_defs]: "load_fork k s = st_forks s k"

definition save_fork :: "fork \<Rightarrow> store \<Rightarrow> store" where
  [handler_defs]: "save_fork e s = s\<lparr>st_forks := (st_forks s)(fork_id e \<mapsto> e)\<rparr>"

interpretation fork_store: entity_store load_fork save_fork fork_id
  by unfold_locales (simp_all add: load_fork_def save_fork_def)

definition load_escrow_deposit :: "string \<Rightarrow> store \<Rightarrow> escrow_deposit option" where
  [handler_defs]: "load_escrow_deposit k s = st_escrowDeposits s k"

definition save_escrow_deposit :: "escrow_deposit \<Rightarrow> store \<Rightarrow> store" where
  [handler_defs]: "save_escrow_deposit e s = s\<lparr>st_escrowDeposits := (st_escrowDeposits s)(ed_id e \<mapsto> e)\<rparr>"

interpretation escrow_deposit_store: entity_store load_escrow_deposit save_escrow_deposit ed_id
  by unfold_locales (simp_all add: load_escrow_deposit_def save_escrow_deposit_def)

definition load_escrow_withdrawal :: "string \<Rightarrow> store \<Rightarrow> escrow_withdrawal option" where
  [handler_defs]: "load_escrow_withdrawal k s = st_escrowWithdrawals s k"

definition save_escrow_withdrawal :: "escrow_withdrawal \<Rightarrow> store \<Rightarrow> store" where
  [handler_defs]: "save_escrow_withdrawal e s = s\<lparr>st_escrowWithdrawals := (st_escrowWithdrawals s)(ew_id e \<mapsto> e)\<rparr>"

interpretation escrow_withdrawal_store: entity_store load_escrow_withdrawal save_escrow_withdrawal ew_id
  by unfold_locales (simp_all add: load_escrow_withdrawal_def save_escrow_withdrawal_def)

definition load_fork_join :: "string \<Rightarrow> store \<Rightarrow> fork_join option" where
  [handler_defs]: "load_fork_join k s = st_forkJoins s k"

definition save_fork_join :: "fork_join \<Rightarrow> store \<Rightarrow> store" where
  [handler_defs]: "save_fork_join e s = s\<lparr>st_forkJoins := (st_forkJoins s)(fj_id e \<mapsto> e)\<rparr>"

interpretation fork_join_store: entity_store load_fork_join save_fork_join fj_id
  by unfold_locales (simp_all add: load_fork_join_def save_fork_join_def)

definition load_escrowed_noun :: "string \<Rightarrow> store \<Rightarrow> escrowed_noun option" where
  [handler_defs]: "load_escrowed_noun k s = st_escrowedNouns s k"

definition save_escrowed_noun :: "escrowed_noun \<Rightarrow> store \<Rightarrow> store" where
  [handler_defs]: "save_escrowed_noun e s = s\<lparr>st_escrowedNouns := (st_escrowedNouns s)(en_id e \<mapsto> e)\<rparr>"

interpretation escrowed_noun_store: entity_store load_escrowed_noun save_escrowed_noun en_id
  by unfold_locales (simp_all add: load_escrowed_noun_def save_escrowed_noun_def)

definition load_fork_joined_noun :: "string \<Rightarrow> store \<Rightarrow> fork_joined_noun option" where
  [handler_defs]: "load_fork_joined_noun k s = st_forkJoinedNouns s k"

definition save_fork_joined_noun :: "fork_joined_noun \<Rightarrow> store \<Rightarrow> store" where
  [handler_defs]: "save_fork_joined_noun e s = s\<lparr>st_forkJoinedNouns := (st_forkJoinedNouns s)(fjn_id e \<mapsto> e)\<rparr>"

interpretation fork_joined_noun_store: entity_store load_fork_joined_noun save_fork_joined_noun fjn_id
  by unfold_locales (simp_all add: load_fork_joined_noun_def save_fork_joined_noun_def)

text \<open>\<open>store.remove('EscrowedNoun', id)\<close>.\<close>

definition remove_escrowed_noun :: "string \<Rightarrow> store \<Rightarrow> store" where
  [handler_defs]: "remove_escrowed_noun k s = s\<lparr>st_escrowedNouns := (st_escrowedNouns s)(k := None)\<rparr>"

end
