(* ===== verification/Subgraph_Helpers.thy ===== *)
theory Subgraph_Helpers
  imports Subgraph_Schema
begin

text \<open>
  The helpers of the indexer: \<open>src/utils/constants.ts\<close>, \<open>src/utils/helpers.ts\<close> and
  \<open>src/utils/dynamicQuorum.ts\<close> of \<open>packages/nouns-subgraph\<close>. A helper that may write
  the store returns the entity together with the new store. What the mappings take from the
  graph runtime and from contracts (hashing, ABI encoding, the DAO contract call, the checked
  conversion of a \<open>BigInt\<close> to 32 bits) is a record of parameters, \<open>graph_env\<close>.
\<close>

section \<open>The runtime as a parameter\<close>

datatype abi_value = AbiAddress bytes | AbiFixedBytes bytes

record graph_env =
  keccak256 :: "bytes \<Rightarrow> bytes"
  abi_encode_tuple :: "abi_value list \<Rightarrow> bytes option"
  dao_adjustedTotalSupply :: "bytes \<Rightarrow> int \<Rightarrow> int option"
  bigint_toI32 :: "int \<Rightarrow> i32 option"

text \<open>The documented behaviour of \<open>BigInt.toI32\<close> inside its range.\<close>

definition toI32_in_range :: "graph_env \<Rightarrow> bool" where
  "toI32_in_range env \<longleftrightarrow>
     (\<forall>n. - (2 ^ 31) \<le> n \<and> n < 2 ^ 31 \<longrightarrow> bigint_toI32 env n = Some (word_of_int n))"

text \<open>\<open>BigInt.div\<close> truncates towards zero and aborts on a zero divisor.\<close>

definition bigint_div :: "int \<Rightarrow> int \<Rightarrow> int option" where
  "bigint_div a b = (if b = 0 then None else Some (sgn a * sgn b * (\<bar>a\<bar> div \<bar>b\<bar>)))"

lemma bigint_div_nonneg [simp]: "0 \<le> a \<Longrightarrow> 0 < b \<Longrightarrow> bigint_div a b = Some (a div b)"
  by (cases "a = 0") (auto simp: bigint_div_def)

section \<open>Constants\<close>

definition ZERO_ADDRESS :: string where
  "ZERO_ADDRESS = ''0x0000000000000000000000000000000000000000''"

definition BIGINT_ZERO :: int where [simp]: "BIGINT_ZERO = 0"
definition BIGINT_ONE :: int where [simp]: "BIGINT_ONE = 1"
definition BIGINT_10K :: int where [simp]: "BIGINT_10K = 10000"

definition GOVERNANCE :: string where "GOVERNANCE = ''GOVERNANCE''"
definition LATEST :: string where "LATEST = ''LATEST''"

section \<open>Entities that are created on first use\<close>

definition new_governance :: governance where
  "new_governance =
     \<lparr>gov_id = GOVERNANCE, gov_proposals = BIGINT_ZERO, gov_currentTokenHolders = BIGINT_ZERO,
      gov_currentDelegates = BIGINT_ZERO, gov_totalTokenHolders = BIGINT_ZERO,
      gov_totalDelegates = BIGINT_ZERO, gov_delegatedVotesRaw = BIGINT_ZERO,
      gov_delegatedVotes = BIGINT_ZERO, gov_proposalsQueued = BIGINT_ZERO,
      gov_voteSnapshotBlockSwitchProposalId = BIGINT_ZERO, gov_candidates = BIGINT_ZERO\<rparr>"

text \<open>The fresh governance entity is returned but not saved.\<close>

definition getGovernanceEntity :: "store \<Rightarrow> governance" where
  "getGovernanceEntity s =
     (case load_governance GOVERNANCE s of None \<Rightarrow> new_governance | Some g \<Rightarrow> g)"

definition new_account :: "string \<Rightarrow> account" where
  "new_account i =
     \<lparr>acc_id = i, acc_delegate = None, acc_tokenBalanceRaw = BIGINT_ZERO,
      acc_tokenBalance = BIGINT_ZERO, acc_totalTokensHeldRaw = BIGINT_ZERO,
      acc_totalTokensHeld = BIGINT_ZERO, acc_nouns = []\<rparr>"

definition getOrCreateAccount_full ::
  "string \<Rightarrow> bool \<Rightarrow> bool \<Rightarrow> store \<Rightarrow> (account option \<times> store)" where
  "getOrCreateAccount_full i createIfNotFound save s =
     (case load_account i s of
        Some a \<Rightarrow> (Some a, s)
      | None \<Rightarrow>
          if createIfNotFound
          then (Some (new_account i), if save then save_account (new_account i) s else s)
          else (None, s))"

text \<open>With the default arguments, which every caller uses, the account always exists.\<close>

definition getOrCreateAccount :: "string \<Rightarrow> store \<Rightarrow> account \<times> store" where
  "getOrCreateAccount i s =
     (case getOrCreateAccount_full i True True s of
        (Some a, s') \<Rightarrow> (a, s')
      | (None, s') \<Rightarrow> (new_account i, s'))"

record delegate_result =
  entity :: "delegate option"
  created :: bool

definition new_delegate :: "string \<Rightarrow> delegate" where
  "new_delegate i =
     \<lparr>del_id = i, del_delegatedVotesRaw = BIGINT_ZERO, del_delegatedVotes = BIGINT_ZERO,
      del_tokenHoldersRepresentedAmount = 0, del_nounsRepresented = []\<rparr>"

definition getOrCreateDelegateWithNullOption ::
  "string \<Rightarrow> bool \<Rightarrow> bool \<Rightarrow> store \<Rightarrow> delegate_result \<times> store" where
  "getOrCreateDelegateWithNullOption i createIfNotFound save s =
     (case load_delegate i s of
        Some d \<Rightarrow> (\<lparr>entity = Some d, created = False\<rparr>, s)
      | None \<Rightarrow>
          if createIfNotFound
          then
            let s1 = (if i \<noteq> ZERO_ADDRESS
                      then let g = getGovernanceEntity s
                           in save_governance
                                (g\<lparr>gov_totalDelegates := gov_totalDelegates g + BIGINT_ONE\<rparr>) s
                      else s)
            in (\<lparr>entity = Some (new_delegate i), created = True\<rparr>,
                if save then save_delegate (new_delegate i) s1 else s1)
          else (\<lparr>entity = None, created = False\<rparr>, s))"

definition getOrCreateDelegate :: "string \<Rightarrow> store \<Rightarrow> delegate \<times> store" where
  "getOrCreateDelegate i s =
     (case getOrCreateDelegateWithNullOption i True True s of
        (r, s') \<Rightarrow> (case entity r of Some d \<Rightarrow> (d, s') | None \<Rightarrow> (new_delegate i, s')))"

definition new_vote :: "string \<Rightarrow> vote" where
  "new_vote i =
     \<lparr>vote_id = i, vote_support = None, vote_supportDetailed = None, vote_votesRaw = None,
      vote_votes = None, vote_reason = None, vote_voter = None, vote_nouns = None,
      vote_proposal = None, vote_blockNumber = None, vote_blockTimestamp = None\<rparr>"

text \<open>\<open>save\<close> defaults to false: the caller saves the vote once its fields are set.\<close>

definition getOrCreateVote :: "string \<Rightarrow> store \<Rightarrow> vote" where
  "getOrCreateVote i s = (case load_vote i s of None \<Rightarrow> new_vote i | Some v \<Rightarrow> v)"

definition new_proposal :: "string \<Rightarrow> proposal" where
  "new_proposal i =
     \<lparr>prop_id = i, prop_proposer = None, prop_signers = None, prop_targets = None,
      prop_values = None, prop_signatures = None, prop_calldatas = None,
      prop_createdTimestamp = None, prop_createdBlock = None,
      prop_lastUpdatedTimestamp = None, prop_lastUpdatedBlock = None,
      prop_createdTransactionHash = None, prop_startBlock = None, prop_endBlock = None,
      prop_proposalThreshold = None, prop_quorumVotes = None, prop_forVotes = None,
      prop_againstVotes = None, prop_abstainVotes = None, prop_title = None,
      prop_description = None, prop_status = None, prop_executionETA = None,
      prop_totalSupply = None, prop_adjustedTotalSupply = None,
      prop_minQuorumVotesBPS = None, prop_maxQuorumVotesBPS = None,
      prop_quorumCoefficient = None, prop_objectionPeriodEndBlock = None,
      prop_updatePeriodEndBlock = None, prop_onTimelockV1 = None,
      prop_voteSnapshotBlock = None, prop_canceledBlock = None,
      prop_canceledTimestamp = None, prop_executedBlock = None,
      prop_executedTimestamp = None, prop_vetoedBlock = None, prop_vetoedTimestamp = None,
      prop_queuedBlock = None, prop_queuedTimestamp = None\<rparr>"

text \<open>\<open>save\<close> defaults to false: a new proposal is counted, but saved by the caller only.\<close>

definition getOrCreateProposal :: "string \<Rightarrow> store \<Rightarrow> proposal \<times> store" where
  "getOrCreateProposal i s =
     (case load_proposal i s of
        Some p \<Rightarrow> (p, s)
      | None \<Rightarrow>
          let g = getGovernanceEntity s
          in (new_proposal i,
              save_governance (g\<lparr>gov_proposals := gov_proposals g + BIGINT_ONE\<rparr>) s))"

definition getOrCreateDynamicQuorumParams :: "int option \<Rightarrow> store \<Rightarrow> dq_params \<times> store" where
  "getOrCreateDynamicQuorumParams block s =
     (let (params, s1) =
        (case load_dq_params LATEST s of
           Some q \<Rightarrow> (q, s)
         | None \<Rightarrow>
             let q = \<lparr>dq_id = LATEST, dq_minQuorumVotesBPS = 0, dq_maxQuorumVotesBPS = 0,
                      dq_quorumCoefficient = BIGINT_ZERO, dq_dynamicQuorumStartBlock = block\<rparr>
             in (q, save_dq_params q s))
      in if dq_dynamicQuorumStartBlock params = None \<and> block \<noteq> None
         then let q = params\<lparr>dq_dynamicQuorumStartBlock := block\<rparr> in (q, save_dq_params q s1)
         else (params, s1))"

definition getOrCreateProposalVersion :: "string \<Rightarrow> store \<Rightarrow> proposal_version" where
  "getOrCreateProposalVersion i s =
     (case load_proposal_version i s of
        Some v \<Rightarrow> v
      | None \<Rightarrow> \<lparr>pv_id = i, pv_proposal = None, pv_createdBlock = None, pv_createdAt = None,
                 pv_targets = None, pv_values = None, pv_signatures = None,
                 pv_calldatas = None, pv_title = None, pv_description = None,
                 pv_updateMessage = None\<rparr>)"

definition new_candidate :: "string \<Rightarrow> candidate" where
  "new_candidate i =
     \<lparr>cand_id = i, cand_proposer = None, cand_slug = None, cand_createdTransactionHash = None,
      cand_createdTimestamp = None, cand_createdBlock = None,
      cand_lastUpdatedTimestamp = None, cand_lastUpdatedBlock = None, cand_canceled = None,
      cand_canceledTimestamp = None, cand_canceledBlock = None, cand_latestVersion = None,
      cand_number = None\<rparr>"

definition getOrCreateProposalCandidate :: "string \<Rightarrow> store \<Rightarrow> candidate \<times> store" where
  "getOrCreateProposalCandidate i s =
     (case load_candidate i s of
        Some c \<Rightarrow> (c, s)
      | None \<Rightarrow>
          let g = getGovernanceEntity s
          in (new_candidate i,
              save_governance (g\<lparr>gov_candidates := gov_candidates g + BIGINT_ONE\<rparr>) s))"

definition getOrCreateProposalCandidateVersion :: "string \<Rightarrow> store \<Rightarrow> candidate_version" where
  "getOrCreateProposalCandidateVersion i s =
     (case load_candidate_version i s of
        Some v \<Rightarrow> v
      | None \<Rightarrow> \<lparr>cv_id = i, cv_proposal = None, cv_createdTimestamp = None,
                 cv_createdBlock = None, cv_updateMessage = None, cv_content = None\<rparr>)"

definition getOrCreateProposalCandidateContent :: "string \<Rightarrow> store \<Rightarrow> candidate_content" where
  "getOrCreateProposalCandidateContent i s =
     (case load_candidate_content i s of
        Some c \<Rightarrow> c
      | None \<Rightarrow> \<lparr>cc_id = i, cc_proposer = None, cc_targets = None, cc_values = None,
                 cc_signatures = None, cc_calldatas = None, cc_description = None,
                 cc_proposalIdToUpdate = None, cc_title = None,
                 cc_encodedProposalHash = None, cc_matchingProposalIds = None\<rparr>)"

definition getOrCreateProposalCandidateSignature :: "string \<Rightarrow> store \<Rightarrow> candidate_sig" where
  "getOrCreateProposalCandidateSignature i s =
     (case load_candidate_sig i s of
        Some g \<Rightarrow> g
      | None \<Rightarrow> \<lparr>cs_id = i, cs_content = None, cs_signer = None, cs_sig = None,
                 cs_expirationTimestamp = None, cs_encodedProposalHash = None,
                 cs_sigDigest = None, cs_reason = None, cs_canceled = Some False,
                 cs_createdTimestamp = None, cs_createdBlock = None\<rparr>)"

definition getOrCreateProposalFeedback :: "string \<Rightarrow> store \<Rightarrow> proposal_feedback" where
  "getOrCreateProposalFeedback i s =
     (case load_proposal_feedback i s of
        Some f \<Rightarrow> f
      | None \<Rightarrow> \<lparr>pf_id = i, pf_createdTimestamp = None, pf_createdBlock = None,
                 pf_proposal = None, pf_voter = None, pf_supportDetailed = None,
                 pf_votes = None, pf_reason = None\<rparr>)"

definition getOrCreateCandidateFeedback :: "string \<Rightarrow> store \<Rightarrow> candidate_feedback" where
  "getOrCreateCandidateFeedback i s =
     (case load_candidate_feedback i s of
        Some f \<Rightarrow> f
      | None \<Rightarrow> \<lparr>cf_id = i, cf_createdTimestamp = None, cf_createdBlock = None,
                 cf_candidate = None, cf_voter = None, cf_supportDetailed = None,
                 cf_votes = None, cf_reason = None\<rparr>)"

text \<open>A new fork is returned but not saved.\<close>

definition getOrCreateFork :: "int \<Rightarrow> store \<Rightarrow> fork" where
  "getOrCreateFork i s =
     (case load_fork (int_to_string i) s of
        Some f \<Rightarrow> f
      | None \<Rightarrow> \<lparr>fork_id = int_to_string i, fork_forkID = i, fork_tokensInEscrowCount = 0,
                 fork_executed = None, fork_executedAt = None,
                 fork_forkingPeriodEndTimestamp = None, fork_forkTreasury = None,
                 fork_forkToken = None, fork_tokensForkingCount = 0\<rparr>)"

definition getCandidateIndex :: "store \<Rightarrow> int" where
  "getCandidateIndex s = gov_candidates (getGovernanceEntity s)"

definition candidateID :: "bytes \<Rightarrow> string \<Rightarrow> string" where
  "candidateID proposer slug = toHexString proposer @ ''-'' @ slug"

section \<open>The proposal hash\<close>

text \<open>\<open>Bytes.fromUTF8\<close>: the model's strings already are the UTF-8 bytes.\<close>

definition fromUTF8 :: "string \<Rightarrow> bytes" where
  "fromUTF8 s = map of_char s"

text \<open>\<open>Bytes.fromHexString\<close> on the digits of an even-length hexadecimal numeral.\<close>

fun hex_pairs :: "string \<Rightarrow> bytes option" where
  "hex_pairs [] = Some []"
| "hex_pairs [c] = None"
| "hex_pairs (c # d # cs) =
     (case of_base 16 [c, d] of
        None \<Rightarrow> None
      | Some n \<Rightarrow> map_option (\<lambda>bs. word_of_nat n # bs) (hex_pairs cs))"

definition fromHexString :: "string \<Rightarrow> bytes option" where
  "fromHexString s = hex_pairs (if prefix ''0x'' s then drop 2 s else s)"

text \<open>\<open>BigInt.toHex\<close>: the digits of the magnitude, without leading zeros.\<close>

definition bigint_toHex :: "int \<Rightarrow> string" where
  "bigint_toHex i = ''0x'' @ to_base 16 (nat \<bar>i\<bar>)"

text \<open>\<open>s.replace('0x', '')\<close>: the first occurrence only.\<close>

fun replace_first :: "string \<Rightarrow> string \<Rightarrow> string \<Rightarrow> string" where
  "replace_first pat rep [] = (if pat = [] then rep else [])"
| "replace_first pat rep (c # cs) =
     (if prefix pat (c # cs) then rep @ drop (length pat) (c # cs)
      else c # replace_first pat rep cs)"

definition pad_word :: "string \<Rightarrow> bytes option" where
  "pad_word h = fromHexString (js_padStart 64 (CHR ''0'') (replace_first ''0x'' [] h))"

fun concat_words :: "string list \<Rightarrow> bytes option" where
  "concat_words [] = Some []"
| "concat_words (h # hs) =
     (case pad_word h of
        None \<Rightarrow> None
      | Some w \<Rightarrow> map_option (\<lambda>ws. w @ ws) (concat_words hs))"

text \<open>\<open>Address.fromString\<close>: exactly twenty bytes.\<close>

definition address_fromString :: "string \<Rightarrow> bytes option" where
  "address_fromString s =
     (case fromHexString s of
        None \<Rightarrow> None
      | Some b \<Rightarrow> if length b = 20 then Some b else None)"

text \<open>
  The hash of a proposal's content. Every field is read with a non-null assertion, so an
  unset one aborts.
\<close>

definition proposal_preimages ::
  "graph_env \<Rightarrow> proposal \<Rightarrow> (bytes \<times> bytes \<times> bytes \<times> bytes \<times> bytes \<times> bytes) option" where
  "proposal_preimages env p =
     do {
       sigs \<leftarrow> prop_signatures p;
       let signatureHashes = concat (map (\<lambda>x. keccak256 env (fromUTF8 x)) sigs);
       cds \<leftarrow> prop_calldatas p;
       let calldatasHashes = concat (map (keccak256 env) cds);
       tgs \<leftarrow> prop_targets p;
       targetsConcat \<leftarrow> concat_words (map toHexString tgs);
       vals \<leftarrow> prop_values p;
       valuesConcat \<leftarrow> concat_words (map bigint_toHex vals);
       proposer \<leftarrow> prop_proposer p;
       addr \<leftarrow> address_fromString proposer;
       desc \<leftarrow> prop_description p;
       Some (addr, targetsConcat, valuesConcat, signatureHashes, calldatasHashes, fromUTF8 desc)
     }"

definition calcEncodedProposalHash :: "graph_env \<Rightarrow> proposal \<Rightarrow> bool \<Rightarrow> bytes option" where
  "calcEncodedProposalHash env p isUpdate =
     do {
       (addr, t, v, sg, cd, d) \<leftarrow> proposal_preimages env p;
       encoded \<leftarrow> abi_encode_tuple env
         [AbiAddress addr, AbiFixedBytes (keccak256 env t), AbiFixedBytes (keccak256 env v),
          AbiFixedBytes (keccak256 env sg), AbiFixedBytes (keccak256 env cd),
          AbiFixedBytes (keccak256 env d)];
       if isUpdate
       then do {
         n \<leftarrow> string_to_int (prop_id p);
         pid \<leftarrow> pad_word (bigint_toHex n);
         Some (keccak256 env (pid @ encoded))
       }
       else Some (keccak256 env encoded)
     }"

section \<open>Dynamic quorum\<close>

definition dynamicQuorumVotes ::
  "graph_env \<Rightarrow> int \<Rightarrow> int \<Rightarrow> i32 \<Rightarrow> i32 \<Rightarrow> int \<Rightarrow> int option" where
  "dynamicQuorumVotes env againstVotes totalSupply minQuorumVotesBPS maxQuorumVotesBPS
      quorumCoefficient =
     do {
       againstVotesBPS \<leftarrow> bigint_div (againstVotes * BIGINT_10K) totalSupply;
       quorumAdjustmentBPS \<leftarrow> bigint_div (quorumCoefficient * againstVotesBPS) 1000000;
       let adjustedQuorumBPS = quorumAdjustmentBPS + sint minQuorumVotesBPS;
       a \<leftarrow> bigint_toI32 env adjustedQuorumBPS;
       let quorumBPS = (word_of_int (min (sint maxQuorumVotesBPS) (sint a)) :: i32);
       bigint_div (totalSupply * sint quorumBPS) 10000
     }"

section \<open>What the helpers promise\<close>

lemma getGovernanceEntity_id:
  "load_governance GOVERNANCE s \<noteq> None \<Longrightarrow> getGovernanceEntity s = the (load_governance GOVERNANCE s)"
  by (auto simp: getGovernanceEntity_def)

lemma getOrCreateAccount_eq:
  "getOrCreateAccount i s =
     (case load_account i s of
        Some a \<Rightarrow> (a, s) | None \<Rightarrow> (new_account i, save_account (new_account i) s))"
  by (auto simp: getOrCreateAccount_def getOrCreateAccount_full_def split: option.splits)

lemma getOrCreateDelegate_eq:
  "getOrCreateDelegate i s =
     (case load_delegate i s of
        Some d \<Rightarrow> (d, s)
      | None \<Rightarrow> (new_delegate i, save_delegate (new_delegate i)
          (if i \<noteq> ZERO_ADDRESS
           then save_governance ((getGovernanceEntity s)
                  \<lparr>gov_totalDelegates := gov_totalDelegates (getGovernanceEntity s) + 1\<rparr>) s
           else s)))"
  by (auto simp: getOrCreateDelegate_def getOrCreateDelegateWithNullOption_def Let_def
      split: option.splits)

end
