(* ===== verification/Subgraph_Token.thy ===== *)
theory Subgraph_Token
  imports Subgraph_Helpers
begin

text \<open>
  The token handlers of the indexer, \<open>src/nouns-erc-721.ts\<close> of
  \<open>packages/nouns-subgraph\<close>: minting, transfers, delegation and vote balances. Each handler
  takes the event context, the event's parameters and the store. The handlers never abort, so
  they return the new store directly; \<open>handle_token_event\<close> dispatches as the subgraph
  manifest does.
\<close>

section \<open>Handlers\<close>

record seed_params =
  sp_background :: int
  sp_body :: int
  sp_accessory :: int
  sp_head :: int
  sp_glasses :: int

definition handleNounCreated :: "event_ctx \<Rightarrow> int \<Rightarrow> seed_params \<Rightarrow> store \<Rightarrow> store" where
  "handleNounCreated ctx tokenId sd s =
     (let nounId = int_to_string tokenId;
          seed = \<lparr>seed_id = nounId, seed_background = sp_background sd, seed_body = sp_body sd,
                  seed_accessory = sp_accessory sd, seed_head = sp_head sd,
                  seed_glasses = sp_glasses sd\<rparr>;
          s = save_seed seed s
      in case load_noun nounId s of
           None \<Rightarrow> log_error ''[handleNounCreated] Noun #{} not found. Hash: {}''
                     [nounId, toHexString (ev_txHash ctx)] s
         | Some noun \<Rightarrow> save_noun (noun\<lparr>noun_seed := Some (seed_id seed)\<rparr>) s)"

text \<open>A nullable string in a condition: null and the empty string are false.\<close>

definition or_string :: "string option \<Rightarrow> string \<Rightarrow> string" where
  "or_string m d = (case m of None \<Rightarrow> d | Some x \<Rightarrow> if x = [] then d else x)"

definition delegation_entity ::
  "event_ctx \<Rightarrow> string \<Rightarrow> string \<Rightarrow> string \<Rightarrow> string \<Rightarrow> delegation_event" where
  "delegation_entity ctx noun delegator prev new =
     \<lparr>de_id = toHexString (ev_txHash ctx) @ ''_'' @ noun, de_noun = noun,
      de_delegator = delegator, de_previousDelegate = prev, de_newDelegate = new,
      de_blockNumber = ev_blockNumber ctx, de_blockTimestamp = ev_blockTimestamp ctx\<rparr>"

text \<open>
  The two delegates are separate copies: the previous one is saved first, then the new one.
\<close>

definition handleDelegateChanged ::
  "event_ctx \<Rightarrow> bytes \<Rightarrow> bytes \<Rightarrow> bytes \<Rightarrow> store \<Rightarrow> store" where
  "handleDelegateChanged ctx delegator fromDelegate toDelegate s =
     (let (tokenHolder, s) = getOrCreateAccount (toHexString delegator) s;
          (previousDelegate, s) = getOrCreateDelegate (toHexString fromDelegate) s;
          (newDelegate, s) = getOrCreateDelegate (toHexString toDelegate) s;
          accountNouns = acc_nouns tokenHolder;
          tokenHolder = tokenHolder\<lparr>acc_delegate := Some (del_id newDelegate)\<rparr>;
          s = save_account tokenHolder s;
          previousDelegate = previousDelegate
            \<lparr>del_tokenHoldersRepresentedAmount :=
               del_tokenHoldersRepresentedAmount previousDelegate - 1,
             del_nounsRepresented :=
               filter (\<lambda>n. n \<notin> set accountNouns) (del_nounsRepresented previousDelegate)\<rparr>;
          newDelegate = newDelegate
            \<lparr>del_tokenHoldersRepresentedAmount :=
               del_tokenHoldersRepresentedAmount newDelegate + 1,
             del_nounsRepresented := del_nounsRepresented newDelegate @ accountNouns\<rparr>;
          s = save_delegate previousDelegate s;
          s = save_delegate newDelegate s
      in fold (\<lambda>n s. save_delegation_event
                 (delegation_entity ctx n (acc_id tokenHolder)
                    (or_string (Some (del_id previousDelegate)) (acc_id tokenHolder))
                    (or_string (Some (del_id newDelegate)) (acc_id tokenHolder))) s)
           accountNouns s)"

text \<open>
  The governance entity is loaded before the delegate is looked up and saved afterwards.
\<close>

definition handleDelegateVotesChanged ::
  "event_ctx \<Rightarrow> bytes \<Rightarrow> int \<Rightarrow> int \<Rightarrow> store \<Rightarrow> store" where
  "handleDelegateVotesChanged ctx delegateAddr previousBalance newBalance s =
     (let governance = getGovernanceEntity s;
          (delegate, s) = getOrCreateDelegate (toHexString delegateAddr) s;
          votesDifference = newBalance - previousBalance;
          s = save_delegate
                (delegate\<lparr>del_delegatedVotesRaw := newBalance, del_delegatedVotes := newBalance\<rparr>) s;
          governance =
            (if previousBalance = BIGINT_ZERO \<and> newBalance > BIGINT_ZERO
             then governance\<lparr>gov_currentDelegates := gov_currentDelegates governance + BIGINT_ONE\<rparr>
             else governance);
          governance =
            (if newBalance = BIGINT_ZERO
             then governance\<lparr>gov_currentDelegates := gov_currentDelegates governance - BIGINT_ONE\<rparr>
             else governance);
          governance = governance
            \<lparr>gov_delegatedVotesRaw := gov_delegatedVotesRaw governance + votesDifference\<rparr>;
          governance = governance\<lparr>gov_delegatedVotes := gov_delegatedVotesRaw governance\<rparr>
      in save_governance governance s)"

text \<open>
  A transfer in two stages, as the code comments divide it: the sending side, then the
  receiving side. The stages pass on the copies they hold: the holder and the governance
  entity loaded at the start.
\<close>

definition transfer_fromHolder ::
  "string \<Rightarrow> string \<Rightarrow> account \<Rightarrow> governance \<Rightarrow> store \<Rightarrow> account \<times> governance \<times> store" where
  "transfer_fromHolder from nounId fromHolder governance s =
     (if from = ZERO_ADDRESS
      then
        let governance = governance
              \<lparr>gov_totalTokenHolders := gov_totalTokenHolders governance + BIGINT_ONE\<rparr>
        in (fromHolder, governance, save_governance governance s)
      else
        let previousBalance = acc_tokenBalanceRaw fromHolder;
            fromHolder = fromHolder
              \<lparr>acc_tokenBalanceRaw := previousBalance - BIGINT_ONE,
               acc_tokenBalance := previousBalance - BIGINT_ONE,
               acc_nouns := filter (\<lambda>n. n \<noteq> nounId) (acc_nouns fromHolder)\<rparr>;
            s = (case acc_delegate fromHolder of
                   None \<Rightarrow> s
                 | Some d \<Rightarrow>
                     let (fromHolderDelegate, s) = getOrCreateDelegate d s
                     in save_delegate
                          (fromHolderDelegate\<lparr>del_nounsRepresented :=
                             filter (\<lambda>n. n \<noteq> nounId) (del_nounsRepresented fromHolderDelegate)\<rparr>) s);
            s = (if acc_tokenBalanceRaw fromHolder < BIGINT_ZERO
                 then log_error ''Negative balance on holder {} with balance {}''
                        [acc_id fromHolder, int_to_string (acc_tokenBalanceRaw fromHolder)] s
                 else s);
            (governance, s) =
              (if acc_tokenBalanceRaw fromHolder = BIGINT_ZERO \<and> previousBalance > BIGINT_ZERO
               then
                 let g = governance
                       \<lparr>gov_currentTokenHolders := gov_currentTokenHolders governance - BIGINT_ONE\<rparr>
                 in (g, save_governance g s)
               else if acc_tokenBalanceRaw fromHolder > BIGINT_ZERO \<and> previousBalance = BIGINT_ZERO
               then
                 let g = governance
                       \<lparr>gov_currentTokenHolders := gov_currentTokenHolders governance + BIGINT_ONE\<rparr>
                 in (g, save_governance g s)
               else (governance, s))
        in (fromHolder, governance, save_account fromHolder s))"

definition transfer_toHolder ::
  "event_ctx \<Rightarrow> string \<Rightarrow> string \<Rightarrow> account \<Rightarrow> account \<Rightarrow> governance \<Rightarrow> store \<Rightarrow> store" where
  "transfer_toHolder ctx to nounId fromHolder toHolder governance s =
     (let (governance, s) =
        (if to = ZERO_ADDRESS
         then
           let g = governance
                 \<lparr>gov_totalTokenHolders := gov_totalTokenHolders governance - BIGINT_ONE\<rparr>
           in (g, save_governance g s)
         else (governance, s));
          s = save_delegation_event
                (delegation_entity ctx nounId (acc_id fromHolder)
                   (or_string (acc_delegate fromHolder) (acc_id fromHolder))
                   (or_string (acc_delegate toHolder) (acc_id toHolder))) s;
          (toHolderDelegate, s) =
            getOrCreateDelegate (or_string (acc_delegate toHolder) (acc_id toHolder)) s;
          s = save_delegate
                (toHolderDelegate\<lparr>del_nounsRepresented :=
                   del_nounsRepresented toHolderDelegate @ [nounId]\<rparr>) s;
          previousBalance = acc_tokenBalanceRaw toHolder;
          toHolder = toHolder
            \<lparr>acc_tokenBalanceRaw := previousBalance + BIGINT_ONE,
             acc_tokenBalance := previousBalance + BIGINT_ONE,
             acc_totalTokensHeldRaw := acc_totalTokensHeldRaw toHolder + BIGINT_ONE,
             acc_totalTokensHeld := acc_totalTokensHeldRaw toHolder + BIGINT_ONE,
             acc_nouns := acc_nouns toHolder @ [nounId]\<rparr>;
          (toHolder, s) =
            (if acc_tokenBalanceRaw toHolder = BIGINT_ZERO \<and> previousBalance > BIGINT_ZERO
             then
               (toHolder, save_governance (governance
                  \<lparr>gov_currentTokenHolders := gov_currentTokenHolders governance - BIGINT_ONE\<rparr>) s)
             else if acc_tokenBalanceRaw toHolder > BIGINT_ZERO \<and> previousBalance = BIGINT_ZERO
             then
               (toHolder\<lparr>acc_delegate := Some (or_string (acc_delegate toHolder) (acc_id toHolder))\<rparr>,
                save_governance (governance
                  \<lparr>gov_currentTokenHolders := gov_currentTokenHolders governance + BIGINT_ONE\<rparr>) s)
             else (toHolder, s));
          noun = (case load_noun nounId s of
                    Some n \<Rightarrow> n
                  | None \<Rightarrow> \<lparr>noun_id = nounId, noun_seed = None, noun_owner = None\<rparr>);
          s = save_noun (noun\<lparr>noun_owner := Some (acc_id toHolder)\<rparr>) s
      in save_account toHolder s)"

definition handleTransfer :: "event_ctx \<Rightarrow> bytes \<Rightarrow> bytes \<Rightarrow> int \<Rightarrow> store \<Rightarrow> store" where
  "handleTransfer ctx from to tokenId s =
     (let (fromHolder, s) = getOrCreateAccount (toHexString from) s;
          (toHolder, s) = getOrCreateAccount (toHexString to) s;
          governance = getGovernanceEntity s;
          nounId = int_to_string tokenId;
          s = save_transfer_event
                \<lparr>te_id = toHexString (ev_txHash ctx) @ ''_'' @ nounId, te_noun = nounId,
                 te_previousHolder = acc_id fromHolder, te_newHolder = acc_id toHolder,
                 te_blockNumber = ev_blockNumber ctx, te_blockTimestamp = ev_blockTimestamp ctx\<rparr> s;
          (fromHolder, governance, s) =
            transfer_fromHolder (toHexString from) nounId fromHolder governance s
      in transfer_toHolder ctx (toHexString to) nounId fromHolder toHolder governance s)"

datatype token_event =
    NounCreated event_ctx int seed_params
  | DelegateChanged event_ctx bytes bytes bytes
  | DelegateVotesChanged event_ctx bytes int int
  | Transfer event_ctx bytes bytes int

fun handle_token_event :: "token_event \<Rightarrow> store \<Rightarrow> store option" where
  "handle_token_event (NounCreated c t sd) s = Some (handleNounCreated c t sd s)"
| "handle_token_event (DelegateChanged c d f t) s = Some (handleDelegateChanged c d f t s)"
| "handle_token_event (DelegateVotesChanged c d p n) s = Some (handleDelegateVotesChanged c d p n s)"
| "handle_token_event (Transfer c f t i) s = Some (handleTransfer c f t i s)"

end
