(* ===== verification/Subgraph_Token_Inv.thy ===== *)
theory Subgraph_Token_Inv
  imports Subgraph_Token
begin

text \<open>
  The bookkeeping of the token handlers is right: for every sequence of events that a token
  contract can emit, the indexed accounts, owners, holder counts, delegations and vote totals
  agree with each other. The invariant is split by concern; \<open>token_inv\<close> joins the parts and
  the locale \<open>machine\<close> lifts it to runs.
\<close>

section \<open>Effects of the building blocks\<close>

definition acc_or_new :: "string \<Rightarrow> store \<Rightarrow> account" where
  "acc_or_new k s = (case st_accounts s k of None \<Rightarrow> new_account k | Some a \<Rightarrow> a)"

definition del_of :: "(string \<rightharpoonup> delegate) \<Rightarrow> string \<Rightarrow> delegate" where
  "del_of D k = (case D k of None \<Rightarrow> new_delegate k | Some d \<Rightarrow> d)"

definition del_or_new :: "string \<Rightarrow> store \<Rightarrow> delegate" where
  "del_or_new k s = (case st_delegates s k of None \<Rightarrow> new_delegate k | Some d \<Rightarrow> d)"

lemma del_or_new_of: "del_or_new k s = del_of (st_delegates s) k"
  by (simp add: del_or_new_def del_of_def)

text \<open>The governance counters other than the number of delegates ever seen.\<close>

definition strip :: "governance \<Rightarrow> governance" where
  "strip g = g\<lparr>gov_totalDelegates := 0\<rparr>"

definition wf_keys :: "store \<Rightarrow> bool" where
  "wf_keys s \<longleftrightarrow>
     (\<forall>k a. st_accounts s k = Some a \<longrightarrow> acc_id a = k) \<and>
     (\<forall>k d. st_delegates s k = Some d \<longrightarrow> del_id d = k) \<and>
     (\<forall>k n. st_nouns s k = Some n \<longrightarrow> noun_id n = k) \<and>
     (\<forall>g. st_governance s GOVERNANCE = Some g \<longrightarrow> gov_id g = GOVERNANCE)"

lemma wf_gov_id: "wf_keys s \<Longrightarrow> gov_id (getGovernanceEntity s) = GOVERNANCE"
  by (auto simp: wf_keys_def getGovernanceEntity_def load_governance_def new_governance_def
      split: option.splits)

lemma acc_or_new_id: "wf_keys s \<Longrightarrow> acc_id (acc_or_new k s) = k"
  by (auto simp: wf_keys_def acc_or_new_def new_account_def split: option.splits)

lemma del_or_new_id: "wf_keys s \<Longrightarrow> del_id (del_or_new k s) = k"
  by (auto simp: wf_keys_def del_or_new_def new_delegate_def split: option.splits)

lemma fst_getOrCreateAccount: "fst (getOrCreateAccount k s) = acc_or_new k s"
  by (simp add: getOrCreateAccount_eq acc_or_new_def load_account_def split: option.splits)

lemma fst_getOrCreateDelegate: "fst (getOrCreateDelegate k s) = del_or_new k s"
  by (simp add: getOrCreateDelegate_eq del_or_new_def load_delegate_def split: option.splits)

lemma snd_getOrCreateAccount:
  "st_accounts (snd (getOrCreateAccount k s)) = (st_accounts s)(k \<mapsto> acc_or_new k s)"
  "st_delegates (snd (getOrCreateAccount k s)) = st_delegates s"
  "st_nouns (snd (getOrCreateAccount k s)) = st_nouns s"
  "st_governance (snd (getOrCreateAccount k s)) = st_governance s"
  by (auto simp: getOrCreateAccount_eq acc_or_new_def handler_defs new_account_def
      split: option.splits)

lemma snd_getOrCreateDelegate:
  "st_accounts (snd (getOrCreateDelegate k s)) = st_accounts s"
  "st_delegates (snd (getOrCreateDelegate k s)) = (st_delegates s)(k \<mapsto> del_or_new k s)"
  "st_nouns (snd (getOrCreateDelegate k s)) = st_nouns s"
  by (auto simp: getOrCreateDelegate_eq del_or_new_def handler_defs new_delegate_def
      split: option.splits)

lemma getGov_cong: "st_governance s = st_governance t \<Longrightarrow> getGovernanceEntity s = getGovernanceEntity t"
  by (simp add: getGovernanceEntity_def load_governance_def)

lemma getGov_save: "gov_id g = GOVERNANCE \<Longrightarrow> getGovernanceEntity (save_governance g s) = g"
  by (simp add: getGovernanceEntity_def governance_store.load_save)

lemma gov_getOrCreateDelegate:
  assumes "gov_id (getGovernanceEntity s) = GOVERNANCE"
  shows "strip (getGovernanceEntity (snd (getOrCreateDelegate k s))) = strip (getGovernanceEntity s)"
    and "gov_id (getGovernanceEntity (snd (getOrCreateDelegate k s))) = GOVERNANCE"
proof -
  have "getGovernanceEntity (save_delegate d t) = getGovernanceEntity t" for d t
    by (rule getGov_cong) (simp add: save_delegate_def)
  then have "getGovernanceEntity (snd (getOrCreateDelegate k s)) =
    (if load_delegate k s = None \<and> k \<noteq> ZERO_ADDRESS
     then (getGovernanceEntity s)\<lparr>gov_totalDelegates := gov_totalDelegates (getGovernanceEntity s) + 1\<rparr>
     else getGovernanceEntity s)"
    using assms by (auto simp: getOrCreateDelegate_eq getGov_save split: option.splits)
  then show "strip (getGovernanceEntity (snd (getOrCreateDelegate k s))) = strip (getGovernanceEntity s)"
    and "gov_id (getGovernanceEntity (snd (getOrCreateDelegate k s))) = GOVERNANCE"
    using assms by (simp_all add: strip_def)
qed

lemma save_frames:
  "st_accounts (save_delegate d s) = st_accounts s"
  "st_accounts (save_governance g s) = st_accounts s"
  "st_accounts (save_noun n s) = st_accounts s"
  "st_accounts (save_delegation_event de s) = st_accounts s"
  "st_accounts (save_transfer_event te s) = st_accounts s"
  "st_accounts (log_error f as s) = st_accounts s"
  "st_accounts (save_account a s) = (st_accounts s)(acc_id a \<mapsto> a)"
  "st_delegates (save_account a s) = st_delegates s"
  "st_delegates (save_governance g s) = st_delegates s"
  "st_delegates (save_noun n s) = st_delegates s"
  "st_delegates (save_delegation_event de s) = st_delegates s"
  "st_delegates (save_transfer_event te s) = st_delegates s"
  "st_delegates (log_error f as s) = st_delegates s"
  "st_delegates (save_delegate d s) = (st_delegates s)(del_id d \<mapsto> d)"
  "st_nouns (save_account a s) = st_nouns s"
  "st_nouns (save_delegate d s) = st_nouns s"
  "st_nouns (save_governance g s) = st_nouns s"
  "st_nouns (save_delegation_event de s) = st_nouns s"
  "st_nouns (save_transfer_event te s) = st_nouns s"
  "st_nouns (log_error f as s) = st_nouns s"
  "st_nouns (save_noun n s) = (st_nouns s)(noun_id n \<mapsto> n)"
  by (simp_all add: handler_defs)

lemma gov_frames:
  "getGovernanceEntity (save_account a s) = getGovernanceEntity s"
  "getGovernanceEntity (save_delegate d s) = getGovernanceEntity s"
  "getGovernanceEntity (save_noun n s) = getGovernanceEntity s"
  "getGovernanceEntity (save_delegation_event de s) = getGovernanceEntity s"
  "getGovernanceEntity (save_transfer_event te s) = getGovernanceEntity s"
  "getGovernanceEntity (log_error f as s) = getGovernanceEntity s"
  "getGovernanceEntity (save_seed sd s) = getGovernanceEntity s"
  "getGovernanceEntity (snd (getOrCreateAccount k s)) = getGovernanceEntity s"
  by (auto intro!: getGov_cong simp: handler_defs snd_getOrCreateAccount)

lemmas frames = save_frames gov_frames snd_getOrCreateAccount snd_getOrCreateDelegate
  fst_getOrCreateAccount fst_getOrCreateDelegate

section \<open>Effect of a transfer\<close>

definition debit :: "string \<Rightarrow> account \<Rightarrow> account" where
  "debit n a = a\<lparr>acc_tokenBalanceRaw := acc_tokenBalanceRaw a - 1,
     acc_tokenBalance := acc_tokenBalanceRaw a - 1,
     acc_nouns := filter (\<lambda>m. m \<noteq> n) (acc_nouns a)\<rparr>"

definition credit :: "string \<Rightarrow> account \<Rightarrow> account" where
  "credit n a = a\<lparr>acc_tokenBalanceRaw := acc_tokenBalanceRaw a + 1,
     acc_tokenBalance := acc_tokenBalanceRaw a + 1,
     acc_totalTokensHeldRaw := acc_totalTokensHeldRaw a + 1,
     acc_totalTokensHeld := acc_totalTokensHeldRaw a + 1,
     acc_nouns := acc_nouns a @ [n],
     acc_delegate := (if acc_tokenBalanceRaw a = 0 then Some (or_string (acc_delegate a) (acc_id a))
                      else acc_delegate a)\<rparr>"

definition represent_del :: "string \<Rightarrow> delegate \<Rightarrow> delegate" where
  "represent_del n d = d\<lparr>del_nounsRepresented := filter (\<lambda>m. m \<noteq> n) (del_nounsRepresented d)\<rparr>"

definition represent_add :: "string \<Rightarrow> delegate \<Rightarrow> delegate" where
  "represent_add n d = d\<lparr>del_nounsRepresented := del_nounsRepresented d @ [n]\<rparr>"

lemma transfer_fromHolder_effect:
  assumes "gov_id g = GOVERNANCE" "strip (getGovernanceEntity s) = strip g"
    and "\<forall>k d. st_delegates s k = Some d \<longrightarrow> del_id d = k"
    and "gov_id (getGovernanceEntity s) = GOVERNANCE"
    and r: "transfer_fromHolder from n fh g s = (fh', g', s')"
    and bal: "0 < acc_tokenBalanceRaw fh \<or> from = ZERO_ADDRESS"
  shows "fh' = (if from = ZERO_ADDRESS then fh else debit n fh)"
    and "st_accounts s' = (if from = ZERO_ADDRESS then st_accounts s
           else (st_accounts s)(acc_id fh \<mapsto> debit n fh))"
    and "st_delegates s' =
      (if from = ZERO_ADDRESS then st_delegates s
       else case acc_delegate fh of None \<Rightarrow> st_delegates s
            | Some d \<Rightarrow> (st_delegates s)(d \<mapsto> represent_del n (del_or_new d s)))"
    and "st_nouns s' = st_nouns s"
    and "gov_id g' = GOVERNANCE"
    and "gov_id (getGovernanceEntity s') = GOVERNANCE"
    and "strip (getGovernanceEntity s') = strip g'"
    and "strip g' = (strip g)
      \<lparr>gov_totalTokenHolders := gov_totalTokenHolders g + (if from = ZERO_ADDRESS then 1 else 0),
       gov_currentTokenHolders := gov_currentTokenHolders g -
         (if from \<noteq> ZERO_ADDRESS \<and> acc_tokenBalanceRaw fh = 1 then 1 else 0)\<rparr>"
proof -
  have id: "del_id (represent_del n (del_or_new d s)) = d" for d
    using assms(3) by (auto simp: represent_del_def del_or_new_def new_delegate_def split: option.splits)
  have D: "st_delegates (save_delegate (represent_del n (del_or_new d s)) (snd (getOrCreateDelegate d s)))
     = (st_delegates s)(d \<mapsto> represent_del n (del_or_new d s))" for d
    using id by (simp add: frames)
  note gd = gov_getOrCreateDelegate [OF assms(4)]
  show "fh' = (if from = ZERO_ADDRESS then fh else debit n fh)"
    using r by (auto simp: transfer_fromHolder_def debit_def Let_def case_prod_beta split: if_splits)
  show "st_accounts s' = (if from = ZERO_ADDRESS then st_accounts s
           else (st_accounts s)(acc_id fh \<mapsto> debit n fh))"
    using r by (auto simp: transfer_fromHolder_def debit_def Let_def case_prod_beta frames
        split: if_splits option.splits)
  show "st_nouns s' = st_nouns s"
    using r by (auto simp: transfer_fromHolder_def Let_def case_prod_beta frames
        split: if_splits option.splits)
  show "st_delegates s' =
      (if from = ZERO_ADDRESS then st_delegates s
       else case acc_delegate fh of None \<Rightarrow> st_delegates s
            | Some d \<Rightarrow> (st_delegates s)(d \<mapsto> represent_del n (del_or_new d s)))"
    using r D by (auto simp: transfer_fromHolder_def Let_def case_prod_beta save_frames
        fst_getOrCreateDelegate represent_del_def [symmetric] split: if_splits option.splits)
  show "gov_id g' = GOVERNANCE"
    using r assms(1) by (auto simp: transfer_fromHolder_def Let_def case_prod_beta split: if_splits)
  show "gov_id (getGovernanceEntity s') = GOVERNANCE"
    using r assms(1,4) gd by (auto simp: transfer_fromHolder_def Let_def case_prod_beta gov_frames
        getGov_save split: if_splits option.splits)
  show "strip (getGovernanceEntity s') = strip g'"
    using r assms(1,2,4) gd by (auto simp: transfer_fromHolder_def Let_def case_prod_beta gov_frames
        getGov_save split: if_splits option.splits)
  show "strip g' = (strip g)
      \<lparr>gov_totalTokenHolders := gov_totalTokenHolders g + (if from = ZERO_ADDRESS then 1 else 0),
       gov_currentTokenHolders := gov_currentTokenHolders g -
         (if from \<noteq> ZERO_ADDRESS \<and> acc_tokenBalanceRaw fh = 1 then 1 else 0)\<rparr>"
    using r bal by (auto simp: transfer_fromHolder_def Let_def case_prod_beta strip_def
        split: if_splits)
qed

lemma transfer_toHolder_effect:
  assumes "gov_id g = GOVERNANCE" "strip (getGovernanceEntity s) = strip g"
    and "gov_id (getGovernanceEntity s) = GOVERNANCE"
    and wfd: "\<forall>k d. st_delegates s k = Some d \<longrightarrow> del_id d = k"
    and wfn: "\<forall>k d. st_nouns s k = Some d \<longrightarrow> noun_id d = k"
    and bal: "0 \<le> acc_tokenBalanceRaw th"
    and s': "s' = transfer_toHolder ctx to n fh th g s"
    and td: "td = or_string (acc_delegate th) (acc_id th)"
  shows "st_accounts s' = (st_accounts s)(acc_id th \<mapsto> credit n th)"
    and "st_delegates s' = (st_delegates s)(td \<mapsto> represent_add n (del_or_new td s))"
    and "\<exists>m. st_nouns s' = (st_nouns s)(n \<mapsto> m) \<and> noun_id m = n \<and> noun_owner m = Some (acc_id th)"
    and "gov_id (getGovernanceEntity s') = GOVERNANCE"
    and "strip (getGovernanceEntity s') = (strip g)
      \<lparr>gov_totalTokenHolders := gov_totalTokenHolders g - (if to = ZERO_ADDRESS then 1 else 0),
       gov_currentTokenHolders := gov_currentTokenHolders g +
         (if acc_tokenBalanceRaw th = 0 then 1 else 0)\<rparr>"
proof -
  have id: "del_id (del_or_new td s) = td"
    using wfd by (auto simp: del_or_new_def new_delegate_def split: option.splits)
  have don: "del_or_new td (save_delegation_event e t) = del_or_new td t"
    "del_or_new td (save_governance h t) = del_or_new td t" for e h t
    by (simp_all add: del_or_new_def save_frames)
  show "st_accounts s' = (st_accounts s)(acc_id th \<mapsto> credit n th)"
    using bal by (auto simp: s' transfer_toHolder_def credit_def Let_def case_prod_beta frames)
  show "st_delegates s' = (st_delegates s)(td \<mapsto> represent_add n (del_or_new td s))"
    using id by (auto simp: s' transfer_toHolder_def Let_def case_prod_beta frames td [symmetric]
        represent_add_def don)
  show "\<exists>m. st_nouns s' = (st_nouns s)(n \<mapsto> m) \<and> noun_id m = n \<and> noun_owner m = Some (acc_id th)"
    using wfn by (auto simp: s' transfer_toHolder_def Let_def case_prod_beta frames load_noun_def
        split: option.splits)
  let ?g1 = "if to = ZERO_ADDRESS
    then g\<lparr>gov_totalTokenHolders := gov_totalTokenHolders g - 1\<rparr> else g"
  define s1 where "s1 = (if to = ZERO_ADDRESS then save_governance ?g1 s else s)"
  define s2 where "s2 = save_delegation_event (delegation_entity ctx n (acc_id fh)
     (or_string (acc_delegate fh) (acc_id fh)) td) s1"
  have g2: "gov_id (getGovernanceEntity s2) = GOVERNANCE" "strip (getGovernanceEntity s2) = strip ?g1"
    using assms(1-3) by (auto simp: s2_def s1_def gov_frames getGov_save)
  note gd = gov_getOrCreateDelegate [OF g2(1), of td]
  have s'_gov: "getGovernanceEntity s' =
     (if acc_tokenBalanceRaw th = 0
      then ?g1\<lparr>gov_currentTokenHolders := gov_currentTokenHolders g + 1\<rparr>
      else getGovernanceEntity (snd (getOrCreateDelegate td s2)))"
    using bal assms(1)
    by (auto simp: s' transfer_toHolder_def Let_def case_prod_beta gov_frames getGov_save
        td [symmetric] s1_def s2_def)
  show "gov_id (getGovernanceEntity s') = GOVERNANCE"
    using s'_gov gd assms(1) by auto
  show "strip (getGovernanceEntity s') = (strip g)
      \<lparr>gov_totalTokenHolders := gov_totalTokenHolders g - (if to = ZERO_ADDRESS then 1 else 0),
       gov_currentTokenHolders := gov_currentTokenHolders g +
         (if acc_tokenBalanceRaw th = 0 then 1 else 0)\<rparr>"
    using s'_gov gd(1) g2(2) by (auto simp: strip_def)
qed

section \<open>The whole transfer\<close>

definition debited :: "string \<Rightarrow> string \<Rightarrow> store \<Rightarrow> account" where
  "debited F n s = (if F = ZERO_ADDRESS then acc_or_new F s else debit n (acc_or_new F s))"

definition after_debit :: "string \<Rightarrow> string \<Rightarrow> store \<Rightarrow> (string \<rightharpoonup> delegate)" where
  "after_debit F n s =
     (if F = ZERO_ADDRESS then st_delegates s
      else case acc_delegate (acc_or_new F s) of None \<Rightarrow> st_delegates s
           | Some d \<Rightarrow> (st_delegates s)(d \<mapsto> represent_del n (del_or_new d s)))"

lemma acc_or_new_other: "T \<noteq> F \<Longrightarrow> acc_or_new T (snd (getOrCreateAccount F s)) = acc_or_new T s"
  by (simp add: acc_or_new_def snd_getOrCreateAccount)

lemma handleTransfer_effect:
  assumes wf: "wf_keys s" and ne: "F \<noteq> T"
    and F: "F = toHexString from" and T: "T = toHexString to" and n: "n = int_to_string tokenId"
    and balF: "0 < acc_tokenBalanceRaw (acc_or_new F s) \<or> F = ZERO_ADDRESS"
    and balT: "0 \<le> acc_tokenBalanceRaw (acc_or_new T s)"
    and td: "td = or_string (acc_delegate (acc_or_new T s)) T"
    and s': "s' = handleTransfer ctx from to tokenId s"
  shows "st_accounts s' = (st_accounts s)(F \<mapsto> debited F n s, T \<mapsto> credit n (acc_or_new T s))"
    and "st_delegates s' = (after_debit F n s)
           (td \<mapsto> represent_add n (del_of (after_debit F n s) td))"
    and "\<exists>m. st_nouns s' = (st_nouns s)(n \<mapsto> m) \<and> noun_id m = n \<and> noun_owner m = Some T"
    and "gov_id (getGovernanceEntity s') = GOVERNANCE"
    and "strip (getGovernanceEntity s') = (strip (getGovernanceEntity s))
      \<lparr>gov_totalTokenHolders := gov_totalTokenHolders (getGovernanceEntity s) +
         (if F = ZERO_ADDRESS then 1 else 0) - (if T = ZERO_ADDRESS then 1 else 0),
       gov_currentTokenHolders := gov_currentTokenHolders (getGovernanceEntity s) -
         (if F \<noteq> ZERO_ADDRESS \<and> acc_tokenBalanceRaw (acc_or_new F s) = 1 then 1 else 0) +
         (if acc_tokenBalanceRaw (acc_or_new T s) = 0 then 1 else 0)\<rparr>"
proof -
  let ?G = "getGovernanceEntity s"
  define te :: transfer_event where "te = \<lparr>te_id = toHexString (ev_txHash ctx) @ ''_'' @ n, te_noun = n,
    te_previousHolder = acc_id (acc_or_new F s), te_newHolder = acc_id (acc_or_new T s),
    te_blockNumber = ev_blockNumber ctx, te_blockTimestamp = ev_blockTimestamp ctx\<rparr>"
  define s1 where "s1 = save_transfer_event te
    (snd (getOrCreateAccount T (snd (getOrCreateAccount F s))))"
  obtain fh' g' s2 where r: "transfer_fromHolder F n (acc_or_new F s) ?G s1 = (fh', g', s2)"
    by (metis prod_cases3)
  have s'_eq: "s' = transfer_toHolder ctx T n fh' (acc_or_new T s) g' s2"
    unfolding s' handleTransfer_def Let_def F [symmetric] T [symmetric] n [symmetric]
    using r ne by (simp add: case_prod_beta fst_getOrCreateAccount gov_frames acc_or_new_other
        s1_def te_def)
  have acc1: "st_accounts s1 = (st_accounts s)(F \<mapsto> acc_or_new F s, T \<mapsto> acc_or_new T s)"
    using ne by (simp add: s1_def frames acc_or_new_other)
  have del1: "st_delegates s1 = st_delegates s" and nou1: "st_nouns s1 = st_nouns s"
    and gov1: "getGovernanceEntity s1 = ?G"
    by (simp_all add: s1_def frames)
  have G: "gov_id ?G = GOVERNANCE" using wf by (rule wf_gov_id)
  have wfd: "\<forall>k d. st_delegates s k = Some d \<longrightarrow> del_id d = k"
    and wfn: "\<forall>k m. st_nouns s k = Some m \<longrightarrow> noun_id m = k"
    using wf by (auto simp: wf_keys_def)
  note e1 = transfer_fromHolder_effect [OF G _ _ _ r balF, unfolded gov1 del1, OF refl wfd G]
  have don: "del_or_new d s1 = del_or_new d s" for d by (simp add: del_or_new_def del1)
  have del2: "st_delegates s2 = after_debit F n s"
    using e1(3) by (auto simp: after_debit_def don split: option.splits)
  have wfd2: "\<forall>k d. st_delegates s2 k = Some d \<longrightarrow> del_id d = k"
    using wfd by (auto simp: del2 after_debit_def represent_del_def del_or_new_def new_delegate_def
        split: if_splits option.splits)
  have wfn2: "\<forall>k m. st_nouns s2 k = Some m \<longrightarrow> noun_id m = k"
    using wfn e1(4) nou1 by simp
  have Tid: "acc_id (acc_or_new T s) = T" and Fid: "acc_id (acc_or_new F s) = F"
    using wf by (simp_all add: acc_or_new_id)
  note e2 = transfer_toHolder_effect
    [OF e1(5) e1(7) e1(6) wfd2 wfn2 balT s'_eq, unfolded Tid, OF td]
  have acc2: "st_accounts s2 = (st_accounts s1)(F \<mapsto> debited F n s)"
    using e1(2) ne by (auto simp: debited_def Fid acc1)
  show "st_accounts s' = (st_accounts s)(F \<mapsto> debited F n s, T \<mapsto> credit n (acc_or_new T s))"
    using e2(1) acc2 ne by (simp add: acc1 fun_upd_twist)
  show "st_delegates s' = (after_debit F n s)
           (td \<mapsto> represent_add n (del_of (after_debit F n s) td))"
    using e2(2) by (simp add: del_or_new_of del2)
  show "\<exists>m. st_nouns s' = (st_nouns s)(n \<mapsto> m) \<and> noun_id m = n \<and> noun_owner m = Some T"
    using e2(3) e1(4) nou1 by simp
  show "gov_id (getGovernanceEntity s') = GOVERNANCE" using e2(4) .
  have g'_counts: "gov_totalTokenHolders g' = gov_totalTokenHolders ?G + (if F = ZERO_ADDRESS then 1 else 0)"
    "gov_currentTokenHolders g' = gov_currentTokenHolders ?G -
       (if F \<noteq> ZERO_ADDRESS \<and> acc_tokenBalanceRaw (acc_or_new F s) = 1 then 1 else 0)"
    using arg_cong [OF e1(8), of gov_totalTokenHolders] arg_cong [OF e1(8), of gov_currentTokenHolders]
    by (simp_all add: strip_def)
  show "strip (getGovernanceEntity s') = (strip ?G)
      \<lparr>gov_totalTokenHolders := gov_totalTokenHolders ?G +
         (if F = ZERO_ADDRESS then 1 else 0) - (if T = ZERO_ADDRESS then 1 else 0),
       gov_currentTokenHolders := gov_currentTokenHolders ?G -
         (if F \<noteq> ZERO_ADDRESS \<and> acc_tokenBalanceRaw (acc_or_new F s) = 1 then 1 else 0) +
         (if acc_tokenBalanceRaw (acc_or_new T s) = 0 then 1 else 0)\<rparr>"
    using e2(5) g'_counts unfolding e1(8) by (simp add: strip_def)
qed

section \<open>The invariant\<close>

definition owns :: "store \<Rightarrow> string \<Rightarrow> string \<Rightarrow> bool" where
  "owns s k n \<longleftrightarrow> (\<exists>a. st_accounts s k = Some a \<and> n \<in> set (acc_nouns a))"

definition owner_of :: "store \<Rightarrow> string \<Rightarrow> string option" where
  "owner_of s n = (case st_nouns s n of None \<Rightarrow> None | Some m \<Rightarrow> noun_owner m)"

definition balance_ok :: "account \<Rightarrow> bool" where
  "balance_ok a \<longleftrightarrow> distinct (acc_nouns a) \<and>
     acc_tokenBalanceRaw a = int (length (acc_nouns a)) \<and> acc_tokenBalance a = acc_tokenBalanceRaw a"

text \<open>Accounts list exactly the Nouns whose owner they are, each once, and count them.\<close>

definition ownership_inv :: "store \<Rightarrow> bool" where
  "ownership_inv s \<longleftrightarrow> wf_keys s \<and>
     (\<forall>k a. st_accounts s k = Some a \<longrightarrow> balance_ok a) \<and>
     (\<forall>k n. owns s k n \<longleftrightarrow> owner_of s n = Some k) \<and>
     (\<forall>n m. st_nouns s n = Some m \<longrightarrow> noun_owner m \<noteq> None)"

definition holders :: "store \<Rightarrow> string set" where
  "holders s = {k. \<exists>a. st_accounts s k = Some a \<and> acc_nouns a \<noteq> []}"

definition circulating :: "store \<Rightarrow> string set" where
  "circulating s = {n. \<exists>k. owner_of s n = Some k \<and> k \<noteq> ZERO_ADDRESS}"

text \<open>The governance counters are the numbers they stand for.\<close>

definition counters_inv :: "store \<Rightarrow> bool" where
  "counters_inv s \<longleftrightarrow> finite (holders s) \<and> finite (circulating s) \<and>
     gov_currentTokenHolders (getGovernanceEntity s) = int (card (holders s)) \<and>
     gov_totalTokenHolders (getGovernanceEntity s) = int (card (circulating s))"

definition represented :: "store \<Rightarrow> string \<Rightarrow> string set" where
  "represented s d =
     {n. \<exists>k a. st_accounts s k = Some a \<and> n \<in> set (acc_nouns a) \<and> acc_delegate a = Some d}"

text \<open>A delegate lists exactly the Nouns of the accounts that delegate to it, each once.\<close>

definition delegation_inv :: "store \<Rightarrow> bool" where
  "delegation_inv s \<longleftrightarrow>
     (\<forall>d e. st_delegates s d = Some e \<longrightarrow>
        distinct (del_nounsRepresented e) \<and> set (del_nounsRepresented e) = represented s d) \<and>
     (\<forall>k a. st_accounts s k = Some a \<longrightarrow> acc_nouns a \<noteq> [] \<longrightarrow>
        (\<exists>d. acc_delegate a = Some d \<and> st_delegates s d \<noteq> None)) \<and>
     (\<forall>k a. st_accounts s k = Some a \<longrightarrow> acc_delegate a \<noteq> Some [])"

definition votes_of :: "store \<Rightarrow> string \<Rightarrow> int" where
  "votes_of s d = (case st_delegates s d of None \<Rightarrow> 0 | Some e \<Rightarrow> del_delegatedVotes e)"

definition voters :: "store \<Rightarrow> string set" where
  "voters s = {d. votes_of s d > 0}"

text \<open>The vote totals add up over the delegates with votes.\<close>

definition votes_inv :: "store \<Rightarrow> bool" where
  "votes_inv s \<longleftrightarrow> finite (voters s) \<and> (\<forall>d. 0 \<le> votes_of s d) \<and>
     gov_currentDelegates (getGovernanceEntity s) = int (card (voters s)) \<and>
     gov_delegatedVotesRaw (getGovernanceEntity s) = (\<Sum>d\<in>voters s. votes_of s d) \<and>
     gov_delegatedVotes (getGovernanceEntity s) = gov_delegatedVotesRaw (getGovernanceEntity s)"

definition token_inv :: "store \<Rightarrow> bool" where
  "token_inv s \<longleftrightarrow> ownership_inv s \<and> counters_inv s \<and> delegation_inv s \<and> votes_inv s"

text \<open>
  The events a token contract can emit in a state: a Noun is minted once, moved by its owner
  to someone else; a delegation names the current delegate (oneself by default) and changes it;
  a vote balance changes from its current value.
\<close>

fun legal_token_event :: "token_event \<Rightarrow> store \<Rightarrow> bool" where
  "legal_token_event (NounCreated c t sd) s = True"
| "legal_token_event (DelegateChanged c d f t) s =
     (f \<noteq> t \<and>
      toHexString f = or_string (acc_delegate (acc_or_new (toHexString d) s)) (toHexString d))"
| "legal_token_event (DelegateVotesChanged c d p n) s =
     (p = votes_of s (toHexString d) \<and> 0 \<le> n \<and> n \<noteq> p)"
| "legal_token_event (Transfer c f t i) s =
     (f \<noteq> t \<and>
      (if toHexString f = ZERO_ADDRESS then st_nouns s (int_to_string i) = None
       else owner_of s (int_to_string i) = Some (toHexString f)))"

section \<open>A transfer keeps the invariant\<close>

lemma ownership_balance:
  assumes "ownership_inv s"
  shows "balance_ok (acc_or_new k s)"
    and "n \<in> set (acc_nouns (acc_or_new k s)) \<longleftrightarrow> owner_of s n = Some k"
proof -
  show "balance_ok (acc_or_new k s)"
    using assms by (auto simp: ownership_inv_def acc_or_new_def new_account_def balance_ok_def
        split: option.splits)
  have "n \<in> set (acc_nouns (acc_or_new k s)) \<longleftrightarrow> owns s k n"
    by (auto simp: acc_or_new_def new_account_def owns_def split: option.splits)
  then show "n \<in> set (acc_nouns (acc_or_new k s)) \<longleftrightarrow> owner_of s n = Some k"
    using assms by (simp add: ownership_inv_def)
qed

lemma balance_debit: "balance_ok a \<Longrightarrow> n \<in> set (acc_nouns a) \<Longrightarrow> balance_ok (debit n a)"
  using length_filter_neq_distinct [of "acc_nouns a" n] by (auto simp: balance_ok_def debit_def)

lemma balance_credit: "balance_ok a \<Longrightarrow> n \<notin> set (acc_nouns a) \<Longrightarrow> balance_ok (credit n a)"
  by (auto simp: balance_ok_def credit_def)

text \<open>What a legal transfer gives the effect lemma.\<close>

lemma legal_transfer:
  assumes "ownership_inv s" "legal_token_event (Transfer c from to i) s"
    and "F = toHexString from" "T = toHexString to" "n = int_to_string i"
  shows "F \<noteq> T"
    and "F \<noteq> ZERO_ADDRESS \<Longrightarrow> n \<in> set (acc_nouns (acc_or_new F s))"
    and "n \<notin> set (acc_nouns (acc_or_new T s))"
    and "0 < acc_tokenBalanceRaw (acc_or_new F s) \<or> F = ZERO_ADDRESS"
    and "0 \<le> acc_tokenBalanceRaw (acc_or_new T s)"
    and "F = ZERO_ADDRESS \<Longrightarrow> owner_of s n = None"
    and "F \<noteq> ZERO_ADDRESS \<Longrightarrow> owner_of s n = Some F"
proof -
  note b = ownership_balance [OF assms(1)]
  show ne: "F \<noteq> T" using assms by simp
  show own: "F \<noteq> ZERO_ADDRESS \<Longrightarrow> owner_of s n = Some F"
    and none: "F = ZERO_ADDRESS \<Longrightarrow> owner_of s n = None"
    using assms by (auto simp: owner_of_def)
  show inF: "F \<noteq> ZERO_ADDRESS \<Longrightarrow> n \<in> set (acc_nouns (acc_or_new F s))"
    using own b by simp
  show "n \<notin> set (acc_nouns (acc_or_new T s))"
    using own none b ne by (cases "F = ZERO_ADDRESS") auto
  show "0 < acc_tokenBalanceRaw (acc_or_new F s) \<or> F = ZERO_ADDRESS"
    using inF b(1) [of F] by (cases "F = ZERO_ADDRESS") (auto simp: balance_ok_def)
  show "0 \<le> acc_tokenBalanceRaw (acc_or_new T s)"
    using b(1) [of T] by (simp add: balance_ok_def)
qed

lemma transfer_ownership:
  assumes inv: "ownership_inv s" and legal: "legal_token_event (Transfer c from to i) s"
    and s': "s' = handleTransfer c from to i s"
  shows "ownership_inv s'"
    and "owner_of s' = (owner_of s)(int_to_string i \<mapsto> toHexString to)"
proof -
  define F T n where "F = toHexString from" and "T = toHexString to" and "n = int_to_string i"
  note l = legal_transfer [OF inv legal F_def T_def n_def]
  have wf: "wf_keys s" using inv by (simp add: ownership_inv_def)
  note b = ownership_balance [OF inv]
  note e = handleTransfer_effect [OF wf l(1) F_def T_def n_def l(4,5) refl s']
  obtain m where m: "st_nouns s' = (st_nouns s)(n \<mapsto> m)" "noun_id m = n" "noun_owner m = Some T"
    using e(3) by blast
  show own': "owner_of s' = (owner_of s)(n \<mapsto> T)"
    using m by (auto simp: owner_of_def fun_eq_iff)
  have ids: "acc_id (debited F n s) = F" "acc_id (credit n (acc_or_new T s)) = T"
    using wf by (simp_all add: debited_def debit_def credit_def acc_or_new_id)
  have wfd: "\<And>k d. st_delegates s k = Some d \<Longrightarrow> del_id d = k" using wf by (simp add: wf_keys_def)
  then have wfd1: "\<And>k d. after_debit F n s k = Some d \<Longrightarrow> del_id d = k"
    by (auto simp: after_debit_def represent_del_def del_or_new_def new_delegate_def
        split: if_splits option.splits)
  have wf': "wf_keys s'"
    using wf ids m e(4) wfd1
    by (auto simp: wf_keys_def e(1,2) represent_add_def del_of_def new_delegate_def
        getGovernanceEntity_def load_governance_def split: if_splits option.splits)
  have bal: "balance_ok (debited F n s)" "balance_ok (credit n (acc_or_new T s))"
    using b l by (auto simp: debited_def intro: balance_debit balance_credit)
  have nouns: "x \<in> set (acc_nouns (debited F n s)) \<longleftrightarrow> x \<noteq> n \<and> owner_of s x = Some F"
    "x \<in> set (acc_nouns (credit n (acc_or_new T s))) \<longleftrightarrow> x = n \<or> owner_of s x = Some T" for x
    using b l(6) by (auto simp: debited_def debit_def credit_def)
  have "owns s' k x \<longleftrightarrow> owner_of s' x = Some k" for k x
  proof -
    have "owns s k x \<longleftrightarrow> owner_of s x = Some k" using inv by (simp add: ownership_inv_def)
    moreover have "owner_of s n = Some k \<Longrightarrow> k = F" using l(6,7) by (cases "F = ZERO_ADDRESS") auto
    ultimately show ?thesis
      using nouns [of x] l(1) by (auto simp: owns_def e(1) own' split: if_splits)
  qed
  with wf' bal m inv show "ownership_inv s'"
    by (auto simp: ownership_inv_def e(1) split: if_splits)
qed

lemma transfer_counters:
  assumes inv: "ownership_inv s" and cnt: "counters_inv s"
    and legal: "legal_token_event (Transfer c from to i) s"
    and s': "s' = handleTransfer c from to i s"
  shows "counters_inv s'"
proof -
  define F T n where "F = toHexString from" and "T = toHexString to" and "n = int_to_string i"
  note l = legal_transfer [OF inv legal F_def T_def n_def]
  have wf: "wf_keys s" using inv by (simp add: ownership_inv_def)
  note b = ownership_balance [OF inv]
  note e = handleTransfer_effect [OF wf l(1) F_def T_def n_def l(4,5) refl s']
  let ?last = "F \<noteq> ZERO_ADDRESS \<and> acc_tokenBalanceRaw (acc_or_new F s) = 1"
  let ?first = "acc_tokenBalanceRaw (acc_or_new T s) = 0"
  have in_holders: "k \<in> holders s \<longleftrightarrow> acc_nouns (acc_or_new k s) \<noteq> []" for k
    by (auto simp: holders_def acc_or_new_def new_account_def split: option.splits)
  have balF: "F \<noteq> ZERO_ADDRESS \<Longrightarrow> acc_tokenBalanceRaw (acc_or_new F s) =
      1 + int (length (acc_nouns (debited F n s)))"
    using b(1) [of F] length_filter_neq_distinct [of "acc_nouns (acc_or_new F s)" n] l(2)
    by (auto simp: balance_ok_def debited_def debit_def)
  have "holders s' = insert T (if ?last then holders s - {F} else holders s)"
  proof (rule set_eqI)
    fix k
    have "k \<in> holders s' \<longleftrightarrow> k = T \<or> k = F \<and> acc_nouns (debited F n s) \<noteq> [] \<or>
        k \<noteq> T \<and> k \<noteq> F \<and> k \<in> holders s"
      using l(1) by (auto simp: holders_def e(1) credit_def)
    moreover have "acc_nouns (debited F n s) \<noteq> [] \<longleftrightarrow> F \<in> holders s \<and> \<not> ?last"
      using balF l(2) in_holders [of F] by (cases "F = ZERO_ADDRESS") (auto simp: debited_def)
    ultimately show "k \<in> holders s' \<longleftrightarrow>
        k \<in> insert T (if ?last then holders s - {F} else holders s)" by auto
  qed
  moreover have "?last \<Longrightarrow> F \<in> holders s" using l(2) in_holders [of F] by auto
  moreover have "?first \<longleftrightarrow> T \<notin> holders s"
    using b(1) [of T] in_holders [of T] by (auto simp: balance_ok_def)
  moreover have fin: "finite (holders s)" using cnt by (simp add: counters_inv_def)
  ultimately have h: "finite (holders s')"
    "int (card (holders s')) = int (card (holders s)) - (if ?last then 1 else 0) +
       (if ?first then 1 else 0)"
    using l(1) by (auto simp: card_insert_if int_card_remove simp del: card_Diff_insert card_Diff_singleton_if)
  have own': "owner_of s' = (owner_of s)(n \<mapsto> T)"
    using transfer_ownership(2) [OF inv legal s'] by (simp add: n_def T_def)
  have "circulating s' = (if T = ZERO_ADDRESS then circulating s - {n} else insert n (circulating s))"
    by (auto simp: circulating_def own' split: if_splits)
  moreover have "n \<in> circulating s \<longleftrightarrow> F \<noteq> ZERO_ADDRESS"
    using l(6,7) by (cases "F = ZERO_ADDRESS") (auto simp: circulating_def)
  moreover have "finite (circulating s)" using cnt by (simp add: counters_inv_def)
  ultimately have c: "finite (circulating s')"
    "int (card (circulating s')) = int (card (circulating s)) + (if F = ZERO_ADDRESS then 1 else 0)
       - (if T = ZERO_ADDRESS then 1 else 0)"
    using l(1) by (auto simp: card_insert_if int_card_remove simp del: card_Diff_insert card_Diff_singleton_if)
  have "gov_currentTokenHolders (strip (getGovernanceEntity s')) = int (card (holders s'))"
    "gov_totalTokenHolders (strip (getGovernanceEntity s')) = int (card (circulating s'))"
    using cnt h c unfolding e(5) by (simp_all add: counters_inv_def)
  with h c show ?thesis by (simp add: counters_inv_def strip_def)
qed

end
