(* ===== verification/Subgraph_Token_Run.thy ===== *)
theory Subgraph_Token_Run
  imports Subgraph_Token_Inv
begin

text \<open>
  Every handler of \<open>Subgraph_Token\<close> keeps the invariant of \<open>Subgraph_Token_Inv\<close>, hence
  every run of legal events does. The last section states what that means for the indexed data,
  and what happens on the two events outside the legal ones that a contract still can emit.
\<close>

section \<open>The delegation invariant under a transfer\<close>


lemma represented_alt:
  "represented s d =
     {n. \<exists>k. n \<in> set (acc_nouns (acc_or_new k s)) \<and> acc_delegate (acc_or_new k s) = Some d}"
  (is "_ = ?R")
proof
  show "represented s d \<subseteq> ?R"
  proof
    fix n assume "n \<in> represented s d"
    then obtain k a where "st_accounts s k = Some a" "n \<in> set (acc_nouns a)" "acc_delegate a = Some d"
      by (auto simp: represented_def)
    then have "n \<in> set (acc_nouns (acc_or_new k s)) \<and> acc_delegate (acc_or_new k s) = Some d"
      by (simp add: acc_or_new_def)
    then show "n \<in> ?R" by blast
  qed
  show "?R \<subseteq> represented s d"
    by (auto simp: represented_def acc_or_new_def new_account_def split: option.splits)
qed

text \<open>The delegation invariant, over accounts and delegates that default to empty ones.\<close>

lemma delegation_inv_iff:
  "delegation_inv s \<longleftrightarrow>
     (\<forall>d. distinct (del_nounsRepresented (del_of (st_delegates s) d)) \<and>
          set (del_nounsRepresented (del_of (st_delegates s) d)) = represented s d) \<and>
     (\<forall>k. acc_nouns (acc_or_new k s) \<noteq> [] \<longrightarrow>
        (\<exists>d. acc_delegate (acc_or_new k s) = Some d \<and> st_delegates s d \<noteq> None)) \<and>
     (\<forall>k. acc_delegate (acc_or_new k s) \<noteq> Some [])"
  (is "_ \<longleftrightarrow> ?D \<and> ?N \<and> ?E")
proof -
  have acc: "(\<forall>k a. st_accounts s k = Some a \<longrightarrow> P a) \<longleftrightarrow> (\<forall>k. P (acc_or_new k s))"
    if "\<And>k. P (new_account k)" for P
    using that by (auto simp: acc_or_new_def split: option.splits)
  have N: "(\<forall>k a. st_accounts s k = Some a \<longrightarrow> acc_nouns a \<noteq> [] \<longrightarrow>
        (\<exists>d. acc_delegate a = Some d \<and> st_delegates s d \<noteq> None)) \<longleftrightarrow> ?N"
    by (rule acc) (simp add: new_account_def)
  have E: "(\<forall>k a. st_accounts s k = Some a \<longrightarrow> acc_delegate a \<noteq> Some []) \<longleftrightarrow> ?E"
    by (rule acc) (simp add: new_account_def)
  have D: "?N \<Longrightarrow> (\<forall>d e. st_delegates s d = Some e \<longrightarrow>
        distinct (del_nounsRepresented e) \<and> set (del_nounsRepresented e) = represented s d) \<longleftrightarrow> ?D"
  proof -
    assume ?N
    then have "acc_delegate (acc_or_new k s) = Some d \<Longrightarrow> st_delegates s d = None \<Longrightarrow>
        acc_nouns (acc_or_new k s) = []" for k d by fastforce
    then have "st_delegates s d = None \<Longrightarrow> represented s d = {}" for d
      unfolding represented_alt by auto
    then show ?thesis
      by (auto simp: del_of_def new_delegate_def split: option.splits)
  qed
  show ?thesis unfolding delegation_inv_def N E using D by blast
qed

lemma acc_or_new_upd:
  "st_accounts s' = (st_accounts s)(F \<mapsto> a, T \<mapsto> b) \<Longrightarrow>
   acc_or_new k s' = (if k = T then b else if k = F then a else acc_or_new k s)"
  by (simp add: acc_or_new_def)

lemma or_string_Some: "o' \<noteq> Some [] \<Longrightarrow> o' = Some d \<Longrightarrow> or_string o' t = d"
  by (auto simp: or_string_def)

text \<open>After a legal transfer the receiving account has the delegate that gets the Noun.\<close>

lemma credit_delegate:
  assumes "wf_keys s" "balance_ok (acc_or_new T s)" "delegation_inv s"
    and "td = or_string (acc_delegate (acc_or_new T s)) T"
  shows "acc_delegate (credit n (acc_or_new T s)) = Some td"
    and "acc_nouns (acc_or_new T s) \<noteq> [] \<Longrightarrow> acc_delegate (acc_or_new T s) = Some td"
proof -
  show *: "acc_delegate (acc_or_new T s) = Some td" if "acc_nouns (acc_or_new T s) \<noteq> []"
    using that assms(3,4) unfolding delegation_inv_iff by (metis or_string_Some)
  have "acc_tokenBalanceRaw (acc_or_new T s) \<noteq> 0 \<Longrightarrow> acc_nouns (acc_or_new T s) \<noteq> []"
    using assms(2) by (auto simp: balance_ok_def)
  with * show "acc_delegate (credit n (acc_or_new T s)) = Some td"
    using assms(1,4) by (auto simp: credit_def acc_or_new_id)
qed

lemma represented_transfer:
  assumes inv: "ownership_inv s" and del: "delegation_inv s"
    and legal: "legal_token_event (Transfer c from to i) s"
    and s': "s' = handleTransfer c from to i s"
    and F: "F = toHexString from" and T: "T = toHexString to" and n: "n = int_to_string i"
    and td: "td = or_string (acc_delegate (acc_or_new T s)) T"
  shows "represented s' d = (represented s d - {n}) \<union> (if d = td then {n} else {})"
proof -
  note l = legal_transfer [OF inv legal F T n]
  have wf: "wf_keys s" using inv by (simp add: ownership_inv_def)
  note b = ownership_balance [OF inv]
  note e = handleTransfer_effect [OF wf l(1) F T n l(4,5) td s']
  note cd = credit_delegate [OF wf b(1) del td]
  have a': "acc_or_new k s' = (if k = T then credit n (acc_or_new T s)
      else if k = F then debited F n s else acc_or_new k s)" for k
    by (rule acc_or_new_upd [OF e(1)])
  have own: "owner_of s n = Some k \<Longrightarrow> k = F" for k
    using l(6,7) by (cases "F = ZERO_ADDRESS") auto
  have deb: "set (acc_nouns (debited F n s)) = set (acc_nouns (acc_or_new F s)) - {n}"
    "acc_delegate (debited F n s) = acc_delegate (acc_or_new F s)"
    using b(2) [of n F] l(6) by (auto simp: debited_def debit_def)
  have nouns': "x \<in> set (acc_nouns (acc_or_new k s')) \<longleftrightarrow>
      (if x = n then k = T else x \<in> set (acc_nouns (acc_or_new k s)))" for x k
    using l(1) deb(1) own b(2) [of n k] by (auto simp: a' credit_def)
  have del': "x \<in> set (acc_nouns (acc_or_new k s)) \<Longrightarrow>
      acc_delegate (acc_or_new k s') = acc_delegate (acc_or_new k s)" for x k
  proof (cases "k = T")
    case True
    moreover assume "x \<in> set (acc_nouns (acc_or_new k s))"
    ultimately have "acc_nouns (acc_or_new T s) \<noteq> []" by auto
    with True show ?thesis using cd by (simp add: a')
  qed (use deb(2) in \<open>simp add: a'\<close>)
  have delT: "acc_delegate (acc_or_new T s') = Some td" using cd(1) by (simp add: a')
  show ?thesis
  proof (rule set_eqI)
    fix x
    show "x \<in> represented s' d \<longleftrightarrow> x \<in> (represented s d - {n}) \<union> (if d = td then {n} else {})"
    proof (cases "x = n")
      case True
      then show ?thesis using delT by (auto simp: represented_alt nouns')
    next
      case False
      then have "x \<in> represented s' d \<longleftrightarrow> x \<in> represented s d"
        unfolding represented_alt mem_Collect_eq nouns' using del' by metis
      with False show ?thesis by auto
    qed
  qed
qed

lemma transfer_delegation:
  assumes inv: "ownership_inv s" and del: "delegation_inv s"
    and legal: "legal_token_event (Transfer c from to i) s"
    and s': "s' = handleTransfer c from to i s"
  shows "delegation_inv s'"
proof -
  define F T n where "F = toHexString from" and "T = toHexString to" and "n = int_to_string i"
  define td where "td = or_string (acc_delegate (acc_or_new T s)) T"
  note l = legal_transfer [OF inv legal F_def T_def n_def]
  have wf: "wf_keys s" using inv by (simp add: ownership_inv_def)
  note b = ownership_balance [OF inv]
  note e = handleTransfer_effect [OF wf l(1) F_def T_def n_def l(4,5) td_def s']
  note cd = credit_delegate [OF wf b(1) del td_def]
  note rep = represented_transfer [OF inv del legal s' F_def T_def n_def td_def]
  note di = del [unfolded delegation_inv_iff]
  have a': "acc_or_new k s' = (if k = T then credit n (acc_or_new T s)
      else if k = F then debited F n s else acc_or_new k s)" for k
    by (rule acc_or_new_upd [OF e(1)])
  have deb: "acc_delegate (debited F n s) = acc_delegate (acc_or_new F s)"
    "acc_nouns (debited F n s) \<noteq> [] \<Longrightarrow> acc_nouns (acc_or_new F s) \<noteq> []"
    by (auto simp: debited_def debit_def split: if_splits)
  have td_ne: "td \<noteq> []"
    using di by (auto simp: td_def or_string_def T_def split: option.splits)
  have n_rep: "n \<in> represented s d \<longleftrightarrow> F \<noteq> ZERO_ADDRESS \<and> acc_delegate (acc_or_new F s) = Some d" for d
    unfolding represented_alt using b(2) [of n] l(6,7) by (cases "F = ZERO_ADDRESS") auto
  have ad: "del_of (after_debit F n s) d =
      (if n \<in> represented s d then represent_del n (del_of (st_delegates s) d)
       else del_of (st_delegates s) d)" for d
    using n_rep [of d] by (auto simp: after_debit_def del_or_new_of del_of_def split: option.splits)
  have D1: "distinct (del_nounsRepresented (del_of (after_debit F n s) d)) \<and>
      set (del_nounsRepresented (del_of (after_debit F n s) d)) = represented s d - {n}" for d
    using di by (auto simp: ad represent_del_def)
  have D2: "del_of (st_delegates s') d = (if d = td then represent_add n (del_of (after_debit F n s) td)
      else del_of (after_debit F n s) d)" for d
    by (simp add: e(2) del_of_def)
  have dom: "st_delegates s d \<noteq> None \<Longrightarrow> st_delegates s' d \<noteq> None" for d
    by (auto simp: e(2) after_debit_def split: option.splits)
  have "distinct (del_nounsRepresented (del_of (st_delegates s') d)) \<and>
      set (del_nounsRepresented (del_of (st_delegates s') d)) = represented s' d" for d
    using D1 [of d] D1 [of td] by (auto simp: D2 rep represent_add_def)
  moreover have "\<exists>d. acc_delegate (acc_or_new k s') = Some d \<and> st_delegates s' d \<noteq> None"
    if "acc_nouns (acc_or_new k s') \<noteq> []" for k
  proof (cases "k = T")
    case True
    then show ?thesis using cd(1) by (simp add: a' e(2))
  next
    case False
    then have "acc_nouns (acc_or_new k s) \<noteq> []" "acc_delegate (acc_or_new k s') = acc_delegate (acc_or_new k s)"
      using that deb by (auto simp: a' split: if_splits)
    then show ?thesis using di dom by metis
  qed
  moreover have "acc_delegate (acc_or_new k s') \<noteq> Some []" for k
    using di td_ne cd(1) deb(1) by (auto simp: a')
  ultimately show ?thesis unfolding delegation_inv_iff by blast
qed


lemma del_of_upd: "del_of (D(k \<mapsto> e)) d = (if d = k then e else del_of D d)"
  by (simp add: del_of_def)

lemma votes_of_del: "votes_of s d = del_delegatedVotes (del_of (st_delegates s) d)"
  by (simp add: votes_of_def del_of_def new_delegate_def split: option.splits)

lemma transfer_votes:
  assumes inv: "ownership_inv s" and v: "votes_inv s"
    and legal: "legal_token_event (Transfer c from to i) s"
    and s': "s' = handleTransfer c from to i s"
  shows "votes_inv s'"
proof -
  define F T n where "F = toHexString from" and "T = toHexString to" and "n = int_to_string i"
  note l = legal_transfer [OF inv legal F_def T_def n_def]
  have wf: "wf_keys s" using inv by (simp add: ownership_inv_def)
  note e = handleTransfer_effect [OF wf l(1) F_def T_def n_def l(4,5) refl s']
  have "del_delegatedVotes (del_of (after_debit F n s) d) = del_delegatedVotes (del_of (st_delegates s) d)" for d
    by (auto simp: after_debit_def del_of_def represent_del_def del_or_new_of split: option.splits)
  then have "votes_of s' d = votes_of s d" for d
    unfolding votes_of_del e(2) by (simp add: del_of_upd represent_add_def)
  then have vs: "votes_of s' = votes_of s" by (simp add: fun_eq_iff)
  have "gov_currentDelegates (strip (getGovernanceEntity s')) = gov_currentDelegates (getGovernanceEntity s)"
    "gov_delegatedVotesRaw (strip (getGovernanceEntity s')) = gov_delegatedVotesRaw (getGovernanceEntity s)"
    "gov_delegatedVotes (strip (getGovernanceEntity s')) = gov_delegatedVotes (getGovernanceEntity s)"
    unfolding e(5) by (simp_all add: strip_def)
  with v vs show ?thesis by (simp add: votes_inv_def voters_def strip_def)
qed

section \<open>The other handlers keep the invariant\<close>

lemma fold_delegation_events:
  "st_accounts (fold (\<lambda>n. save_delegation_event (f n)) ns s) = st_accounts s"
  "st_delegates (fold (\<lambda>n. save_delegation_event (f n)) ns s) = st_delegates s"
  "st_nouns (fold (\<lambda>n. save_delegation_event (f n)) ns s) = st_nouns s"
  "getGovernanceEntity (fold (\<lambda>n. save_delegation_event (f n)) ns s) = getGovernanceEntity s"
  by (induction ns arbitrary: s) (simp_all add: frames)

definition undelegate :: "string list \<Rightarrow> delegate \<Rightarrow> delegate" where
  "undelegate ns d = d\<lparr>del_tokenHoldersRepresentedAmount := del_tokenHoldersRepresentedAmount d - 1,
     del_nounsRepresented := filter (\<lambda>n. n \<notin> set ns) (del_nounsRepresented d)\<rparr>"

definition delegate_to :: "string list \<Rightarrow> delegate \<Rightarrow> delegate" where
  "delegate_to ns d = d\<lparr>del_tokenHoldersRepresentedAmount := del_tokenHoldersRepresentedAmount d + 1,
     del_nounsRepresented := del_nounsRepresented d @ ns\<rparr>"

lemma handleDelegateChanged_effect:
  assumes wf: "wf_keys s" and A: "A = toHexString delegator" and P: "P = toHexString from"
    and N: "N = toHexString to"
    and s': "s' = handleDelegateChanged ctx delegator from to s"
  shows "st_accounts s' = (st_accounts s)(A \<mapsto> (acc_or_new A s)\<lparr>acc_delegate := Some N\<rparr>)"
    and "st_delegates s' = (st_delegates s)
           (P \<mapsto> undelegate (acc_nouns (acc_or_new A s)) (del_of (st_delegates s) P),
            N \<mapsto> delegate_to (acc_nouns (acc_or_new A s)) (del_of (st_delegates s) N))"
    and "st_nouns s' = st_nouns s"
    and "gov_id (getGovernanceEntity s') = GOVERNANCE"
    and "strip (getGovernanceEntity s') = strip (getGovernanceEntity s)"
proof -
  define s1 where "s1 = snd (getOrCreateAccount A s)"
  define s2 where "s2 = snd (getOrCreateDelegate P s1)"
  define s3 where "s3 = snd (getOrCreateDelegate N s2)"
  have dP: "del_or_new P s1 = del_of (st_delegates s) P"
    by (simp add: s1_def del_or_new_of frames)
  have dN: "del_or_new N s2 = del_of (st_delegates s) N"
    by (simp add: s1_def s2_def del_or_new_of frames del_of_upd)
  have ids: "acc_id (acc_or_new A s) = A" "del_id (del_of (st_delegates s) P) = P"
    "del_id (del_of (st_delegates s) N) = N"
    using wf by (simp_all add: acc_or_new_id del_or_new_id flip: del_or_new_of)
  note unf = s' handleDelegateChanged_def Let_def A [symmetric] P [symmetric] N [symmetric]
  show "st_accounts s' = (st_accounts s)(A \<mapsto> (acc_or_new A s)\<lparr>acc_delegate := Some N\<rparr>)"
    unfolding unf using ids dN [unfolded s2_def s1_def]
    by (simp add: case_prod_beta fold_delegation_events frames)
  show "st_nouns s' = st_nouns s"
    unfolding unf by (simp add: case_prod_beta fold_delegation_events frames)
  show "st_delegates s' = (st_delegates s)
           (P \<mapsto> undelegate (acc_nouns (acc_or_new A s)) (del_of (st_delegates s) P),
            N \<mapsto> delegate_to (acc_nouns (acc_or_new A s)) (del_of (st_delegates s) N))"
    unfolding unf using ids dN [unfolded s2_def s1_def] dP [unfolded s1_def]
    by (simp add: case_prod_beta fold_delegation_events frames undelegate_def delegate_to_def
        fun_upd_twist)
  have G: "gov_id (getGovernanceEntity s1) = GOVERNANCE" using wf_gov_id [OF wf] by (simp add: s1_def frames)
  note g2 = gov_getOrCreateDelegate [OF G, of P, folded s2_def]
  note g3 = gov_getOrCreateDelegate [OF g2(2), of N, folded s3_def]
  have "getGovernanceEntity s' = getGovernanceEntity s3"
    unfolding unf by (simp add: case_prod_beta fold_delegation_events frames s1_def s2_def s3_def)
  then show "gov_id (getGovernanceEntity s') = GOVERNANCE"
    "strip (getGovernanceEntity s') = strip (getGovernanceEntity s)"
    using g2 g3 by (simp_all add: s1_def frames)
qed

lemma delegateChanged_inv:
  assumes inv: "token_inv s" and legal: "legal_token_event (DelegateChanged c delegator from to) s"
    and s': "s' = handleDelegateChanged c delegator from to s"
  shows "token_inv s'"
proof -
  define A P N where "A = toHexString delegator" and "P = toHexString from" and "N = toHexString to"
  have own: "ownership_inv s" and del: "delegation_inv s" and cnt: "counters_inv s" and v: "votes_inv s"
    using inv by (simp_all add: token_inv_def)
  have wf: "wf_keys s" using own by (simp add: ownership_inv_def)
  note e = handleDelegateChanged_effect [OF wf A_def P_def N_def s']
  note b = ownership_balance [OF own]
  note di = del [unfolded delegation_inv_iff]
  let ?a = "acc_or_new A s"
  have PN: "P \<noteq> N" and P: "P = or_string (acc_delegate ?a) A"
    using legal by (auto simp: A_def P_def N_def)
  have a': "acc_or_new k s' = (if k = A then ?a\<lparr>acc_delegate := Some N\<rparr> else acc_or_new k s)" for k
    by (simp add: acc_or_new_def e(1))
  have owner': "owner_of s' = owner_of s" by (simp add: owner_of_def e(3) fun_eq_iff)
  have nouns': "acc_nouns (acc_or_new k s') = acc_nouns (acc_or_new k s)" for k by (simp add: a')
  have own_alt: "owns t k n \<longleftrightarrow> n \<in> set (acc_nouns (acc_or_new k t))" for t k n
    by (auto simp: owns_def acc_or_new_def new_account_def split: option.splits)
  have ids: "acc_id ?a = A" using wf by (rule acc_or_new_id)
  have wf': "wf_keys s'"
    using wf e(4) ids
    by (auto simp: wf_keys_def e(1-3) undelegate_def delegate_to_def del_of_def new_delegate_def
        getGovernanceEntity_def load_governance_def split: if_splits option.splits)
  have "balance_ok (?a\<lparr>acc_delegate := Some N\<rparr>)" using b(1) [of A] by (simp add: balance_ok_def)
  then have own': "ownership_inv s'"
    using own wf' unfolding ownership_inv_def own_alt nouns' owner'
    by (auto simp: e(1,3) split: if_splits)
  have hold: "holders s' = holders s"
  proof -
    have "holders t = {k. acc_nouns (acc_or_new k t) \<noteq> []}" for t
      by (auto simp: holders_def acc_or_new_def new_account_def split: option.splits)
    then show ?thesis by (simp add: nouns')
  qed
  have circ: "circulating s' = circulating s" by (simp add: circulating_def owner')
  have gov: "gov_currentTokenHolders (getGovernanceEntity s') = gov_currentTokenHolders (getGovernanceEntity s)"
    "gov_totalTokenHolders (getGovernanceEntity s') = gov_totalTokenHolders (getGovernanceEntity s)"
    "gov_currentDelegates (getGovernanceEntity s') = gov_currentDelegates (getGovernanceEntity s)"
    "gov_delegatedVotesRaw (getGovernanceEntity s') = gov_delegatedVotesRaw (getGovernanceEntity s)"
    "gov_delegatedVotes (getGovernanceEntity s') = gov_delegatedVotes (getGovernanceEntity s)"
    using arg_cong [OF e(5), of gov_currentTokenHolders] arg_cong [OF e(5), of gov_totalTokenHolders]
      arg_cong [OF e(5), of gov_currentDelegates] arg_cong [OF e(5), of gov_delegatedVotesRaw]
      arg_cong [OF e(5), of gov_delegatedVotes] by (simp_all add: strip_def)
  have cnt': "counters_inv s'" using cnt gov by (simp add: counters_inv_def hold circ)
  have "votes_of s' d = votes_of s d" for d
    unfolding votes_of_del e(2) by (simp add: del_of_upd undelegate_def delegate_to_def)
  then have v': "votes_inv s'" using v gov by (simp add: votes_inv_def voters_def)
  have disj: "n \<in> set (acc_nouns ?a) \<Longrightarrow> n \<in> represented s d \<longleftrightarrow> acc_delegate ?a = Some d" for n d
    unfolding represented_alt using b(2) by auto
  have aP: "acc_nouns ?a \<noteq> [] \<Longrightarrow> acc_delegate ?a = Some P"
    using di P by (metis or_string_Some)
  have rep': "represented s' d = (represented s d - set (acc_nouns ?a)) \<union>
      (if d = N then set (acc_nouns ?a) else {})" for d
  proof (rule set_eqI)
    fix n
    show "n \<in> represented s' d \<longleftrightarrow> n \<in> (represented s d - set (acc_nouns ?a)) \<union>
      (if d = N then set (acc_nouns ?a) else {})"
    proof (cases "n \<in> set (acc_nouns ?a)")
      case True
      then have "n \<in> represented s' d \<longleftrightarrow> d = N"
        unfolding represented_alt mem_Collect_eq nouns' using b(2) by (auto simp: a')
      with True show ?thesis by auto
    next
      case False
      then have "n \<in> represented s' d \<longleftrightarrow> n \<in> represented s d"
        unfolding represented_alt mem_Collect_eq nouns' by (metis a')
      with False show ?thesis by auto
    qed
  qed
  have dis: "distinct (acc_nouns ?a)" using b(1) [of A] by (simp add: balance_ok_def)
  have "distinct (del_nounsRepresented (del_of (st_delegates s') d)) \<and>
      set (del_nounsRepresented (del_of (st_delegates s') d)) = represented s' d" for d
  proof -
    have "d \<noteq> P \<Longrightarrow> represented s d \<inter> set (acc_nouns ?a) = {}" using disj aP by fastforce
    then show ?thesis
      using di dis PN unfolding rep' e(2)
      by (auto simp: del_of_upd undelegate_def delegate_to_def)
  qed
  moreover have "\<exists>d. acc_delegate (acc_or_new k s') = Some d \<and> st_delegates s' d \<noteq> None"
    if ne: "acc_nouns (acc_or_new k s') \<noteq> []" for k
  proof (cases "k = A")
    case True
    then show ?thesis by (simp add: a' e(2))
  next
    case False
    then obtain d where "acc_delegate (acc_or_new k s) = Some d" "st_delegates s d \<noteq> None"
      using di ne unfolding nouns' by blast
    with False show ?thesis by (auto simp: a' e(2))
  qed
  moreover have "acc_delegate (acc_or_new k s') \<noteq> Some []" for k
    using di by (simp add: a' N_def)
  ultimately have "delegation_inv s'" unfolding delegation_inv_iff by blast
  with own' cnt' v' show ?thesis by (simp add: token_inv_def)
qed

lemma delegateVotesChanged_effect:
  assumes wf: "wf_keys s" and D: "D = toHexString d"
    and s': "s' = handleDelegateVotesChanged c d p n s"
    and G: "G = getGovernanceEntity s"
  shows "st_accounts s' = st_accounts s"
    and "st_delegates s' = (st_delegates s)(D \<mapsto> (del_of (st_delegates s) D)
           \<lparr>del_delegatedVotesRaw := n, del_delegatedVotes := n\<rparr>)"
    and "st_nouns s' = st_nouns s"
    and "getGovernanceEntity s' = G
      \<lparr>gov_currentDelegates := gov_currentDelegates G + (if p = 0 \<and> n > 0 then 1 else 0)
          - (if n = 0 then 1 else 0),
       gov_delegatedVotesRaw := gov_delegatedVotesRaw G + (n - p),
       gov_delegatedVotes := gov_delegatedVotesRaw G + (n - p)\<rparr>"
proof -
  have id: "del_id (del_of (st_delegates s) D) = D"
    using wf by (simp add: del_or_new_id flip: del_or_new_of)
  have Gid: "gov_id G = GOVERNANCE" using wf G by (simp add: wf_gov_id)
  note unf = s' handleDelegateVotesChanged_def Let_def D [symmetric] G [symmetric]
  show "st_accounts s' = st_accounts s" unfolding unf by (simp add: case_prod_beta frames)
  show "st_nouns s' = st_nouns s" unfolding unf by (simp add: case_prod_beta frames)
  show "st_delegates s' = (st_delegates s)(D \<mapsto> (del_of (st_delegates s) D)
           \<lparr>del_delegatedVotesRaw := n, del_delegatedVotes := n\<rparr>)"
    unfolding unf using id by (simp add: case_prod_beta frames del_or_new_of)
  show "getGovernanceEntity s' = G
      \<lparr>gov_currentDelegates := gov_currentDelegates G + (if p = 0 \<and> n > 0 then 1 else 0)
          - (if n = 0 then 1 else 0),
       gov_delegatedVotesRaw := gov_delegatedVotesRaw G + (n - p),
       gov_delegatedVotes := gov_delegatedVotesRaw G + (n - p)\<rparr>"
    unfolding unf using Gid by (simp add: case_prod_beta getGov_save)
qed

text \<open>Changing one delegate's votes changes the set of voters and the sum by that delegate only.\<close>

lemma votes_update:
  assumes v: "votes_inv s" and n: "0 \<le> n" and vs': "votes_of s' = (votes_of s)(D := n)"
  shows "finite (voters s')"
    and "(\<Sum>d\<in>voters s'. votes_of s' d) = (\<Sum>d\<in>voters s. votes_of s d) + n - votes_of s D"
    and "int (card (voters s')) = int (card (voters s)) + (if n > 0 then 1 else 0)
           - (if votes_of s D > 0 then 1 else 0)"
proof -
  define R where "R = voters s - {D}"
  have fin: "finite (voters s)" and pos: "\<And>d. 0 \<le> votes_of s d" using v by (simp_all add: votes_inv_def)
  have vo: "voters s' = (if n > 0 then insert D R else R)"
    "voters s = (if votes_of s D > 0 then insert D R else R)"
    by (auto simp: voters_def vs' R_def)
  have R: "finite R" "D \<notin> R" using fin by (simp_all add: R_def)
  show "finite (voters s')" using R by (simp add: vo(1))
  have rest: "(\<Sum>d\<in>R. votes_of s' d) = (\<Sum>d\<in>R. votes_of s d)"
    using R by (intro sum.cong) (auto simp: vs')
  have "(\<Sum>d\<in>voters s'. votes_of s' d) = n + (\<Sum>d\<in>R. votes_of s d)"
    using R n rest vs' by (cases "n = 0") (simp_all add: vo(1))
  moreover have "(\<Sum>d\<in>voters s. votes_of s d) = votes_of s D + (\<Sum>d\<in>R. votes_of s d)"
    using R pos [of D] by (subst vo(2)) simp
  ultimately show "(\<Sum>d\<in>voters s'. votes_of s' d) = (\<Sum>d\<in>voters s. votes_of s d) + n - votes_of s D"
    by simp
  have "int (card (voters s')) = int (card R) + (if n > 0 then 1 else 0)"
    using R by (simp add: vo(1))
  moreover have "int (card (voters s)) = int (card R) + (if votes_of s D > 0 then 1 else 0)"
    using R by (subst vo(2)) simp
  ultimately show "int (card (voters s')) = int (card (voters s)) + (if n > 0 then 1 else 0)
           - (if votes_of s D > 0 then 1 else 0)" by simp
qed

lemma delegateVotesChanged_inv:
  assumes inv: "token_inv s" and legal: "legal_token_event (DelegateVotesChanged c d p n) s"
    and s': "s' = handleDelegateVotesChanged c d p n s"
  shows "token_inv s'"
proof -
  define D where "D = toHexString d"
  have own: "ownership_inv s" and del: "delegation_inv s" and cnt: "counters_inv s" and v: "votes_inv s"
    using inv by (simp_all add: token_inv_def)
  have wf: "wf_keys s" using own by (simp add: ownership_inv_def)
  note e = delegateVotesChanged_effect [OF wf D_def s' refl]
  have p: "p = votes_of s D" and n: "0 \<le> n" "n \<noteq> p" using legal by (auto simp: D_def)
  have acc': "acc_or_new k s' = acc_or_new k s" for k by (simp add: acc_or_new_def e(1))
  have same: "owns s' = owns s" "owner_of s' = owner_of s" "holders s' = holders s"
    "represented s' = represented s"
    by (auto simp: owns_def owner_of_def holders_def represented_def fun_eq_iff e)
  have wf': "wf_keys s'"
    using wf e(4) wf_gov_id [OF wf]
    by (auto simp: wf_keys_def e(1-3) del_of_def new_delegate_def
        getGovernanceEntity_def load_governance_def split: if_splits option.splits)
  have own': "ownership_inv s'" using own wf' unfolding ownership_inv_def same by (simp add: e(1,3))
  have cnt': "counters_inv s'"
    using cnt unfolding counters_inv_def same circulating_def by (simp add: e(4))
  have del': "delegation_inv s'"
    using del unfolding delegation_inv_iff acc' same e(2) by (simp add: del_of_upd) metis
  have vs': "votes_of s' = (votes_of s)(D := n)"
    by (simp add: fun_eq_iff votes_of_del e(2) del_of_upd)
  note u = votes_update [OF v n(1) vs']
  have pos: "0 \<le> votes_of s x" for x using v by (simp add: votes_inv_def)
  have "0 < votes_of s D \<longleftrightarrow> p \<noteq> 0" using pos [of D] p by auto
  then have "votes_inv s'"
    using v u(1,2,3) n p pos unfolding votes_inv_def e(4) by (auto simp: vs' simp del: u(2))
  with own' cnt' del' show ?thesis by (simp add: token_inv_def)
qed

lemma nounCreated_inv:
  assumes inv: "token_inv s" and s': "s' = handleNounCreated c t sd s"
  shows "token_inv s'"
proof -
  have wf: "wf_keys s" using inv by (simp add: token_inv_def ownership_inv_def)
  let ?n = "int_to_string t"
  have st: "st_accounts s' = st_accounts s" "st_delegates s' = st_delegates s"
    "getGovernanceEntity s' = getGovernanceEntity s" "st_governance s' = st_governance s"
    by (auto simp: s' handleNounCreated_def Let_def handler_defs getGovernanceEntity_def
        split: option.splits)
  have nouns: "st_nouns s' = (case st_nouns s ?n of None \<Rightarrow> st_nouns s
      | Some m \<Rightarrow> (st_nouns s)(?n \<mapsto> m\<lparr>noun_seed := Some ?n\<rparr>))"
    using wf by (auto simp: s' handleNounCreated_def Let_def handler_defs wf_keys_def split: option.splits)
  have own: "owner_of s' = owner_of s"
    by (auto simp: owner_of_def fun_eq_iff nouns split: option.splits)
  have same: "owns s' = owns s" "holders s' = holders s" "represented s' = represented s"
    "votes_of s' = votes_of s" "circulating s' = circulating s"
    by (auto simp: owns_def holders_def represented_def votes_of_def circulating_def fun_eq_iff st own)
  have "\<forall>k m. st_nouns s' k = Some m \<longrightarrow> noun_id m = k \<and> noun_owner m \<noteq> None"
    using inv by (auto simp: nouns token_inv_def ownership_inv_def wf_keys_def split: option.splits if_splits)
  then show ?thesis
    using inv unfolding token_inv_def ownership_inv_def counters_inv_def delegation_inv_def
      votes_inv_def voters_def wf_keys_def same own st by auto
qed

section \<open>The invariant holds in every run\<close>

lemma token_inv_step:
  "token_inv s \<Longrightarrow> legal_token_event e s \<Longrightarrow> handle_token_event e s = Some s' \<Longrightarrow> token_inv s'"
proof (cases e)
  case (Transfer c f t i)
  assume a: "token_inv s" "legal_token_event e s" "handle_token_event e s = Some s'"
  then have inv: "ownership_inv s" "counters_inv s" "delegation_inv s" "votes_inv s"
    by (simp_all add: token_inv_def)
  have l: "legal_token_event (Transfer c f t i) s" and s': "s' = handleTransfer c f t i s"
    using a Transfer by auto
  show ?thesis
    using transfer_ownership(1) [OF inv(1) l s'] transfer_counters [OF inv(1,2) l s']
      transfer_delegation [OF inv(1,3) l s'] transfer_votes [OF inv(1,4) l s']
    by (simp add: token_inv_def)
next
  case (DelegateChanged c d f t)
  assume "token_inv s" "legal_token_event e s" "handle_token_event e s = Some s'"
  with DelegateChanged show ?thesis by (metis delegateChanged_inv handle_token_event.simps(2) option.inject)
next
  case (DelegateVotesChanged c d p n)
  assume "token_inv s" "legal_token_event e s" "handle_token_event e s = Some s'"
  with DelegateVotesChanged show ?thesis
    by (metis delegateVotesChanged_inv handle_token_event.simps(3) option.inject)
next
  case (NounCreated c t sd)
  assume "token_inv s" "handle_token_event e s = Some s'"
  with NounCreated show ?thesis by (metis nounCreated_inv handle_token_event.simps(1) option.inject)
qed

interpretation token: machine handle_token_event legal_token_event token_inv
  by unfold_locales (rule token_inv_step)

lemma token_inv_empty: "token_inv empty_store"
  by (simp add: token_inv_def ownership_inv_def counters_inv_def delegation_inv_def votes_inv_def
      wf_keys_def owns_def owner_of_def holders_def circulating_def voters_def votes_of_def
      empty_store_def getGovernanceEntity_def load_governance_def new_governance_def)

section \<open>Properties\<close>

text \<open>
  C2: after any sequence of token events that the contract can emit, an account's balance is the
  number of Nouns it lists, it lists none twice, and it lists exactly the Nouns whose stored
  owner it is.
\<close>

theorem balances_agree_with_owners:
  assumes "legal_run handle_token_event legal_token_event es empty_store"
  shows "\<exists>s. run_events handle_token_event es empty_store = Some s \<and>
    (\<forall>k a. st_accounts s k = Some a \<longrightarrow>
       distinct (acc_nouns a) \<and> acc_tokenBalanceRaw a = int (length (acc_nouns a)) \<and>
       acc_tokenBalance a = acc_tokenBalanceRaw a \<and>
       (\<forall>n. n \<in> set (acc_nouns a) \<longleftrightarrow> owner_of s n = Some k))"
proof -
  obtain s where s: "run_events handle_token_event es empty_store = Some s" "token_inv s"
    using token.legal_run_inv [OF token_inv_empty assms] by blast
  then have "ownership_inv s" by (simp add: token_inv_def)
  then have "st_accounts s k = Some a \<longrightarrow> balance_ok a \<and> (\<forall>n. n \<in> set (acc_nouns a) \<longleftrightarrow> owner_of s n = Some k)"
    for k a unfolding ownership_inv_def owns_def by (metis option.inject)
  with s(1) show ?thesis unfolding balance_ok_def by blast
qed

text \<open>
  The governance counters are exact: as many current holders as accounts with a Noun, and a
  "total token holders" that is the number of Nouns not burned.
\<close>

theorem governance_counts_exact:
  assumes "legal_run handle_token_event legal_token_event es empty_store"
  shows "\<exists>s. run_events handle_token_event es empty_store = Some s \<and>
    gov_currentTokenHolders (getGovernanceEntity s) = int (card (holders s)) \<and>
    gov_totalTokenHolders (getGovernanceEntity s) = int (card (circulating s))"
  using token.legal_run_inv [OF token_inv_empty assms]
  by (auto simp: token_inv_def counters_inv_def)

text \<open>
  C3: every delegate lists exactly the Nouns of the accounts that delegate to it, each once, and
  every account with a Noun has a stored delegate.
\<close>

theorem delegates_represent_exactly:
  assumes "legal_run handle_token_event legal_token_event es empty_store"
  shows "\<exists>s. run_events handle_token_event es empty_store = Some s \<and>
    (\<forall>d e. st_delegates s d = Some e \<longrightarrow>
       distinct (del_nounsRepresented e) \<and> set (del_nounsRepresented e) = represented s d) \<and>
    (\<forall>k a. st_accounts s k = Some a \<longrightarrow> acc_nouns a \<noteq> [] \<longrightarrow>
       (\<exists>d. acc_delegate a = Some d \<and> st_delegates s d \<noteq> None))"
  using token.legal_run_inv [OF token_inv_empty assms]
  by (auto simp: token_inv_def delegation_inv_def)

text \<open>
  The delegated-vote total is the sum over the delegates with votes, and their number is
  counted exactly.
\<close>

theorem vote_totals_add_up:
  assumes "legal_run handle_token_event legal_token_event es empty_store"
  shows "\<exists>s. run_events handle_token_event es empty_store = Some s \<and>
    gov_delegatedVotes (getGovernanceEntity s) = (\<Sum>d\<in>voters s. votes_of s d) \<and>
    gov_currentDelegates (getGovernanceEntity s) = int (card (voters s))"
  using token.legal_run_inv [OF token_inv_empty assms]
  by (auto simp: token_inv_def votes_inv_def)

text \<open>
  The indexed owners refine the ledger: a transfer event moves exactly the named Noun to the
  named receiver and leaves every other owner alone.
\<close>

theorem transfer_refines_ledger:
  assumes "ownership_inv s" and "legal_token_event (Transfer c from to i) s"
  shows "owner_of (handleTransfer c from to i s) =
    (owner_of s)(int_to_string i \<mapsto> toHexString to)"
  using transfer_ownership(2) [OF assms refl] .

text \<open>A run on which the hypotheses hold: a Noun is minted and then sold.\<close>

definition demo_ctx :: event_ctx where
  "demo_ctx = \<lparr>ev_txHash = [1], ev_txIndex = 0, ev_logIndex = 0, ev_blockNumber = 1,
     ev_blockTimestamp = 1, ev_address = []\<rparr>"

definition demo_zero :: bytes where "demo_zero = replicate 20 0"

lemma demo_zero_hex: "toHexString demo_zero = ZERO_ADDRESS"
  by code_simp

definition demo_mint :: token_event where "demo_mint = Transfer demo_ctx demo_zero [2] 7"
definition demo_sale :: token_event where "demo_sale = Transfer demo_ctx [2] [4] 7"
definition demo_events :: "token_event list" where "demo_events = [demo_mint, demo_sale]"

lemma demo_mint_legal: "legal_token_event (Transfer demo_ctx demo_zero [2] 7) empty_store"
  by (simp add: demo_zero_hex empty_store_def) (simp add: demo_zero_def numeral_eq_Suc)

lemma demo_not_zero: "toHexString [2] \<noteq> ZERO_ADDRESS"
  by (simp add: demo_zero_hex [symmetric]) (simp add: demo_zero_def numeral_eq_Suc)

lemma demo_legal: "legal_run handle_token_event legal_token_event demo_events empty_store"
proof -
  have inv: "ownership_inv empty_store" using token_inv_empty by (simp add: token_inv_def)
  have "owner_of (handleTransfer demo_ctx demo_zero [2] 7 empty_store) (int_to_string 7) =
      Some (toHexString [2])"
    using transfer_ownership(2) [OF inv demo_mint_legal refl] by simp
  then show ?thesis
    using demo_mint_legal demo_not_zero
    by (simp add: demo_events_def demo_mint_def demo_sale_def del: legal_token_event.simps)
       (simp add: demo_not_zero)
qed

theorem balances_agree_with_owners_witness:
  "\<exists>s. run_events handle_token_event demo_events empty_store = Some s \<and>
    (\<forall>k a. st_accounts s k = Some a \<longrightarrow>
       distinct (acc_nouns a) \<and> acc_tokenBalanceRaw a = int (length (acc_nouns a)) \<and>
       acc_tokenBalance a = acc_tokenBalanceRaw a \<and>
       (\<forall>n. n \<in> set (acc_nouns a) \<longleftrightarrow> owner_of s n = Some k))"
  by (rule balances_agree_with_owners [OF demo_legal])

theorem governance_counts_exact_witness:
  "\<exists>s. run_events handle_token_event demo_events empty_store = Some s \<and>
    gov_currentTokenHolders (getGovernanceEntity s) = int (card (holders s)) \<and>
    gov_totalTokenHolders (getGovernanceEntity s) = int (card (circulating s))"
  by (rule governance_counts_exact [OF demo_legal])

theorem delegates_represent_exactly_witness:
  "\<exists>s. run_events handle_token_event demo_events empty_store = Some s \<and>
    (\<forall>d e. st_delegates s d = Some e \<longrightarrow>
       distinct (del_nounsRepresented e) \<and> set (del_nounsRepresented e) = represented s d) \<and>
    (\<forall>k a. st_accounts s k = Some a \<longrightarrow> acc_nouns a \<noteq> [] \<longrightarrow>
       (\<exists>d. acc_delegate a = Some d \<and> st_delegates s d \<noteq> None))"
  by (rule delegates_represent_exactly [OF demo_legal])

theorem vote_totals_add_up_witness:
  "\<exists>s. run_events handle_token_event demo_events empty_store = Some s \<and>
    gov_delegatedVotes (getGovernanceEntity s) = (\<Sum>d\<in>voters s. votes_of s d) \<and>
    gov_currentDelegates (getGovernanceEntity s) = int (card (voters s))"
  by (rule vote_totals_add_up [OF demo_legal])

theorem transfer_refines_ledger_witness:
  "owner_of (handleTransfer demo_ctx demo_zero [2] 7 empty_store) =
    (owner_of empty_store)(int_to_string 7 \<mapsto> toHexString [2])"
proof (rule transfer_refines_ledger)
  show "ownership_inv empty_store" using token_inv_empty by (simp add: token_inv_def)
  show "legal_token_event (Transfer demo_ctx demo_zero [2] 7) empty_store" by (rule demo_mint_legal)
qed

text \<open>
  delegating to the delegate one already has, which the token contract reports like any
  other delegation, lists the account's Nouns a second time and counts the account again.
\<close>

theorem redelegation_duplicates:
  assumes "wf_keys s"
  shows "st_delegates (handleDelegateChanged c d t t s) (toHexString t) =
    Some (delegate_to (acc_nouns (acc_or_new (toHexString d) s))
            (del_of (st_delegates s) (toHexString t)))"
  using handleDelegateChanged_effect(2) [OF assms refl refl refl refl, of c d t t] by simp

theorem redelegation_duplicates_witness:
  "st_delegates (handleDelegateChanged demo_ctx [2] [3] [3] empty_store) (toHexString [3]) =
    Some (delegate_to (acc_nouns (acc_or_new (toHexString [2]) empty_store))
            (del_of (st_delegates empty_store) (toHexString [3])))"
proof (rule redelegation_duplicates)
  show "wf_keys empty_store" using token_inv_empty by (simp add: token_inv_def ownership_inv_def)
qed

text \<open>
  a delegate first seen in a vote-balance event is stored, but the number of delegates ever
  seen does not grow: the governance entity loaded before the delegate was created is saved
  over the one that counted it.
\<close>

theorem votesChanged_forgets_new_delegate:
  assumes "wf_keys s" and "st_delegates s (toHexString d) = None"
  shows "st_delegates (handleDelegateVotesChanged c d p n s) (toHexString d) \<noteq> None \<and>
    gov_totalDelegates (getGovernanceEntity (handleDelegateVotesChanged c d p n s)) =
      gov_totalDelegates (getGovernanceEntity s)"
  using delegateVotesChanged_effect(2,4) [OF assms(1) refl refl refl] by simp

theorem votesChanged_forgets_new_delegate_witness:
  "st_delegates (handleDelegateVotesChanged demo_ctx [2] 0 1 empty_store) (toHexString [2]) \<noteq> None \<and>
    gov_totalDelegates (getGovernanceEntity (handleDelegateVotesChanged demo_ctx [2] 0 1 empty_store)) =
      gov_totalDelegates (getGovernanceEntity empty_store)"
proof (rule votesChanged_forgets_new_delegate)
  show "wf_keys empty_store" using token_inv_empty by (simp add: token_inv_def ownership_inv_def)
  show "st_delegates empty_store (toHexString [2]) = None" by (simp add: empty_store_def)
qed

end
