(* ===== verification/Subgraph_Auction.thy ===== *)
theory Subgraph_Auction
  imports Subgraph_Helpers
begin

text \<open>
  The auction handlers of the indexer, \<open>src/nouns-auction-house.ts\<close> of
  \<open>packages/nouns-subgraph\<close>: an auction is created for an indexed Noun, takes bids, is
  extended and is settled. An event that names an unknown Noun or auction is logged and
  otherwise ignored. The handlers never abort.
\<close>

section \<open>Handlers\<close>

definition handleAuctionCreated :: "event_ctx \<Rightarrow> int \<Rightarrow> int \<Rightarrow> int \<Rightarrow> store \<Rightarrow> store" where
  "handleAuctionCreated ctx nounId_param startTime endTime s =
     (let nounId = int_to_string nounId_param
      in case load_noun nounId s of
           None \<Rightarrow> log_error ''[handleAuctionCreated] Noun #{} not found. Hash: {}''
                     [nounId, toHexString (ev_txHash ctx)] s
         | Some noun \<Rightarrow>
             save_auction
               \<lparr>auc_id = nounId, auc_noun = noun_id noun, auc_amount = 0, auc_startTime = startTime,
                auc_endTime = endTime, auc_bidder = None, auc_settled = False\<rparr> s)"

definition handleAuctionBid :: "event_ctx \<Rightarrow> int \<Rightarrow> bytes \<Rightarrow> int \<Rightarrow> store \<Rightarrow> store" where
  "handleAuctionBid ctx nounId_param sender value_param s =
     (let nounId = int_to_string nounId_param;
          bidderAddress = toHexString sender;
          (bidder, s) = getOrCreateAccount bidderAddress s
      in case load_auction nounId s of
           None \<Rightarrow> log_error ''[handleAuctionBid] Auction not found for Noun #{}. Hash: {}''
                     [nounId, toHexString (ev_txHash ctx)] s
         | Some auction \<Rightarrow>
             let auction = auction\<lparr>auc_amount := value_param, auc_bidder := Some (acc_id bidder)\<rparr>;
                 s = save_auction auction s
             in save_bid
                  \<lparr>bid_id = toHexString (ev_txHash ctx), bid_noun = auc_noun auction,
                   bid_amount = auc_amount auction, bid_bidder = acc_id bidder,
                   bid_blockNumber = ev_blockNumber ctx, bid_txIndex = ev_txIndex ctx,
                   bid_auction = auc_id auction, bid_blockTimestamp = ev_blockTimestamp ctx\<rparr> s)"

definition handleAuctionExtended :: "event_ctx \<Rightarrow> int \<Rightarrow> int \<Rightarrow> store \<Rightarrow> store" where
  "handleAuctionExtended ctx nounId_param endTime s =
     (let nounId = int_to_string nounId_param
      in case load_auction nounId s of
           None \<Rightarrow> log_error ''[handleAuctionExtended] Auction not found for Noun #{}. Hash: {}''
                     [nounId, toHexString (ev_txHash ctx)] s
         | Some auction \<Rightarrow> save_auction (auction\<lparr>auc_endTime := endTime\<rparr>) s)"

definition handleAuctionSettled :: "event_ctx \<Rightarrow> int \<Rightarrow> store \<Rightarrow> store" where
  "handleAuctionSettled ctx nounId_param s =
     (let nounId = int_to_string nounId_param
      in case load_auction nounId s of
           None \<Rightarrow> log_error ''[handleAuctionSettled] Auction not found for Noun #{}. Hash: {}''
                     [nounId, toHexString (ev_txHash ctx)] s
         | Some auction \<Rightarrow> save_auction (auction\<lparr>auc_settled := True\<rparr>) s)"

datatype auction_event =
    AuctionCreated event_ctx int int int
  | AuctionBid event_ctx int bytes int
  | AuctionExtended event_ctx int int
  | AuctionSettled event_ctx int

fun handle_auction_event :: "auction_event \<Rightarrow> store \<Rightarrow> store option" where
  "handle_auction_event (AuctionCreated c n st en) s = Some (handleAuctionCreated c n st en s)"
| "handle_auction_event (AuctionBid c n b v) s = Some (handleAuctionBid c n b v s)"
| "handle_auction_event (AuctionExtended c n en) s = Some (handleAuctionExtended c n en s)"
| "handle_auction_event (AuctionSettled c n) s = Some (handleAuctionSettled c n s)"

section \<open>The abstract auction\<close>

text \<open>
  What the entities of one auction stand for: how it stands (highest bid and bidder, end,
  settled or not). Events that name another auction or that come before the Noun is indexed
  do not concern it.
\<close>

record auction_state =
  as_bid :: "(string \<times> int) option"
  as_end :: int
  as_settled :: bool

definition abs_auction :: "auction \<Rightarrow> auction_state" where
  "abs_auction a = \<lparr>as_bid = map_option (\<lambda>b. (b, auc_amount a)) (auc_bidder a),
     as_end = auc_endTime a, as_settled = auc_settled a\<rparr>"

definition abs_store :: "string \<Rightarrow> store \<Rightarrow> auction_state option" where
  "abs_store n s = map_option abs_auction (st_auctions s n)"

fun auction_event_noun :: "auction_event \<Rightarrow> string" where
  "auction_event_noun (AuctionCreated c n st en) = int_to_string n"
| "auction_event_noun (AuctionBid c n b v) = int_to_string n"
| "auction_event_noun (AuctionExtended c n en) = int_to_string n"
| "auction_event_noun (AuctionSettled c n) = int_to_string n"

fun auction_spec :: "auction_event \<Rightarrow> auction_state option \<Rightarrow> auction_state option" where
  "auction_spec (AuctionCreated c n st en) a = Some \<lparr>as_bid = None, as_end = en, as_settled = False\<rparr>"
| "auction_spec (AuctionBid c n b v) a = map_option (\<lambda>x. x\<lparr>as_bid := Some (toHexString b, v)\<rparr>) a"
| "auction_spec (AuctionExtended c n en) a = map_option (\<lambda>x. x\<lparr>as_end := en\<rparr>) a"
| "auction_spec (AuctionSettled c n) a = map_option (\<lambda>x. x\<lparr>as_settled := True\<rparr>) a"

text \<open>Auctions are stored under the id of their Noun, Nouns and accounts under their own.\<close>

definition auction_keys :: "store \<Rightarrow> bool" where
  "auction_keys s \<longleftrightarrow>
     (\<forall>k a. st_auctions s k = Some a \<longrightarrow> auc_id a = k \<and> auc_noun a = k) \<and>
     (\<forall>k n. st_nouns s k = Some n \<longrightarrow> noun_id n = k) \<and>
     (\<forall>k a. st_accounts s k = Some a \<longrightarrow> acc_id a = k)"

lemmas auction_handler_defs = handleAuctionCreated_def handleAuctionBid_def
  handleAuctionExtended_def handleAuctionSettled_def

lemma getOrCreateAccount_frame:
  "st_auctions (snd (getOrCreateAccount k s)) = st_auctions s"
  "st_nouns (snd (getOrCreateAccount k s)) = st_nouns s"
  "st_bids (snd (getOrCreateAccount k s)) = st_bids s"
  "st_accounts (snd (getOrCreateAccount k s)) k = Some (fst (getOrCreateAccount k s))"
  "k' \<noteq> k \<Longrightarrow> st_accounts (snd (getOrCreateAccount k s)) k' = st_accounts s k'"
  by (auto simp: getOrCreateAccount_eq handler_defs new_account_def split: option.splits)

lemma getOrCreateAccount_id: "auction_keys s \<Longrightarrow> acc_id (fst (getOrCreateAccount k s)) = k"
  by (auto simp: getOrCreateAccount_eq auction_keys_def load_account_def new_account_def
      split: option.splits)

lemma auction_keys_step:
  "auction_keys s \<Longrightarrow> handle_auction_event e s = Some s' \<Longrightarrow> auction_keys s'"
proof (cases e)
  case (AuctionBid c n b v)
  assume k: "auction_keys s" and s': "handle_auction_event e s = Some s'"
  let ?g = "getOrCreateAccount (toHexString b) s"
  have "\<forall>k a. st_accounts (snd ?g) k = Some a \<longrightarrow> acc_id a = k"
    using k getOrCreateAccount_id [OF k, of "toHexString b"] getOrCreateAccount_frame(4,5)
    by (metis auction_keys_def option.inject)
  then have kg: "auction_keys (snd ?g)"
    using k by (simp add: auction_keys_def getOrCreateAccount_frame)
  show ?thesis
    using AuctionBid s' kg
    by (auto simp: handleAuctionBid_def Let_def case_prod_beta handler_defs auction_keys_def
        split: option.splits if_splits)
qed (auto simp: auction_handler_defs Let_def handler_defs auction_keys_def
      split: option.splits if_splits)

interpretation auction: machine handle_auction_event "\<lambda>_ _. True" auction_keys
  by unfold_locales (rule auction_keys_step)

section \<open>Properties\<close>

text \<open>
  C11: each handler implements the abstract auction: on the auction it names, provided a created
  auction's Noun is indexed, it does what the specification says, and every other auction is
  untouched.
\<close>

theorem auction_refinement:
  assumes "auction_keys s" and "handle_auction_event e s = Some s'"
    and "st_nouns s (auction_event_noun e) \<noteq> None"
  shows "abs_store n s' = (if n = auction_event_noun e then auction_spec e (abs_store n s)
    else abs_store n s)"
proof (cases e)
  case (AuctionBid c i b v)
  then show ?thesis
    using assms getOrCreateAccount_id [OF assms(1), of "toHexString b"]
    by (auto simp: handleAuctionBid_def Let_def case_prod_beta handler_defs abs_store_def
        getOrCreateAccount_frame abs_auction_def auction_keys_def split: option.splits)
qed (use assms in \<open>auto simp: auction_handler_defs Let_def handler_defs abs_store_def
      abs_auction_def auction_keys_def split: option.splits\<close>)

definition auction_demo_ctx :: event_ctx where
  "auction_demo_ctx = \<lparr>ev_txHash = [9], ev_txIndex = 3, ev_logIndex = 0, ev_blockNumber = 10,
     ev_blockTimestamp = 100, ev_address = []\<rparr>"

definition auction_demo_store :: store where
  "auction_demo_store = empty_store
     \<lparr>st_nouns := [int_to_string 5 \<mapsto> \<lparr>noun_id = int_to_string 5, noun_seed = None, noun_owner = None\<rparr>]\<rparr>"

lemma auction_demo_keys: "auction_keys auction_demo_store"
  by (simp add: auction_keys_def auction_demo_store_def empty_store_def)

theorem auction_refinement_witness:
  "abs_store (int_to_string 5) (handleAuctionCreated auction_demo_ctx 5 100 200 auction_demo_store) =
    Some \<lparr>as_bid = None, as_end = 200, as_settled = False\<rparr>"
proof -
  have "abs_store (int_to_string 5) (handleAuctionCreated auction_demo_ctx 5 100 200 auction_demo_store) =
    (if int_to_string 5 = auction_event_noun (AuctionCreated auction_demo_ctx 5 100 200)
     then auction_spec (AuctionCreated auction_demo_ctx 5 100 200) (abs_store (int_to_string 5) auction_demo_store)
     else abs_store (int_to_string 5) auction_demo_store)"
    by (rule auction_refinement [OF auction_demo_keys]) (simp_all add: auction_demo_store_def)
  then show ?thesis by simp
qed

text \<open>
  An event that names a Noun or an auction that is not indexed changes no auction and no
  bid, and leaves an error in the log.
\<close>

theorem unknown_auction_ignored:
  assumes "handle_auction_event e s = Some s'"
    and "st_auctions s (auction_event_noun e) = None" and "st_nouns s (auction_event_noun e) = None"
  shows "st_auctions s' = st_auctions s \<and> st_bids s' = st_bids s \<and>
    length (st_logs s') = Suc (length (st_logs s))"
proof -
  have logs: "st_logs (snd (getOrCreateAccount k s)) = st_logs s" for k
    by (auto simp: getOrCreateAccount_eq handler_defs split: option.splits)
  show ?thesis
    using assms logs
    by (cases e) (auto simp: auction_handler_defs Let_def case_prod_beta handler_defs
        getOrCreateAccount_frame)
qed

theorem unknown_auction_ignored_witness:
  "st_auctions (handleAuctionSettled auction_demo_ctx 8 empty_store) = st_auctions empty_store \<and>
   st_bids (handleAuctionSettled auction_demo_ctx 8 empty_store) = st_bids empty_store \<and>
   length (st_logs (handleAuctionSettled auction_demo_ctx 8 empty_store)) = Suc (length (st_logs empty_store))"
  by (rule unknown_auction_ignored [of "AuctionSettled auction_demo_ctx 8"])
     (simp_all add: empty_store_def)

text \<open>
  the bid entity of an accepted bid agrees with the auction it is for: same amount, bidder
  and Noun, stored under the transaction hash.
\<close>

theorem bid_matches_auction:
  assumes "auction_keys s" and "st_auctions s (int_to_string i) \<noteq> None"
  shows "\<exists>a b. st_auctions (handleAuctionBid c i sender v s) (int_to_string i) = Some a \<and>
    st_bids (handleAuctionBid c i sender v s) (toHexString (ev_txHash c)) = Some b \<and>
    bid_amount b = v \<and> auc_amount a = v \<and> auc_bidder a = Some (bid_bidder b) \<and>
    bid_bidder b = toHexString sender \<and> bid_auction b = auc_id a \<and> bid_noun b = int_to_string i"
  using assms getOrCreateAccount_id [OF assms(1), of "toHexString sender"]
  by (auto simp: handleAuctionBid_def Let_def case_prod_beta handler_defs getOrCreateAccount_frame
      auction_keys_def)

definition auction_demo_open :: store where
  "auction_demo_open = handleAuctionCreated auction_demo_ctx 5 100 200 auction_demo_store"

lemma auction_demo_open_auction:
  "st_auctions auction_demo_open (int_to_string 5) \<noteq> None \<and> auction_keys auction_demo_open"
  using auction_keys_step [OF auction_demo_keys, of "AuctionCreated auction_demo_ctx 5 100 200"]
  by (simp add: auction_demo_open_def)
     (simp add: handleAuctionCreated_def auction_demo_store_def Let_def handler_defs)

theorem bid_matches_auction_witness:
  "\<exists>a b. st_auctions (handleAuctionBid auction_demo_ctx 5 [2] 77 auction_demo_open) (int_to_string 5) = Some a \<and>
    st_bids (handleAuctionBid auction_demo_ctx 5 [2] 77 auction_demo_open) (toHexString [9]) = Some b \<and>
    bid_amount b = 77 \<and> auc_amount a = 77 \<and> auc_bidder a = Some (bid_bidder b) \<and>
    bid_bidder b = toHexString [2] \<and> bid_auction b = auc_id a \<and> bid_noun b = int_to_string 5"
  using bid_matches_auction [of auction_demo_open 5 auction_demo_ctx "[2]" 77]
    auction_demo_open_auction by (simp add: auction_demo_ctx_def)

end
