(* ===== verification/Subgraph_Proposal.thy ===== *)
theory Subgraph_Proposal
  imports Subgraph_Helpers
begin

text \<open>
  \<open>src/custom-types/ParsedProposalV3.ts\<close> of \<open>packages/nouns-subgraph\<close>: the
  version-independent form of a \<open>ProposalCreated\<close> event, and the extraction of a title from
  a markdown description.
\<close>

section \<open>Descriptions and titles\<close>

definition newline :: string where "newline = [CHR 0x0A]"

text \<open>The two characters backslash and n, as events carry an escaped line break.\<close>

definition escaped_newline :: string where "escaped_newline = [CHR 0x5C, CHR ''n'']"

definition unescape_newlines :: "string \<Rightarrow> string" where
  "unescape_newlines d = js_join newline (js_split escaped_newline d)"

definition extractTitle :: "string \<Rightarrow> string" where
  "extractTitle description =
     (let parts = js_split_limit ''#'' 3 description;
          splitDescription = (if length parts > 1 then tl parts else parts);
          title = js_trim (js_join [] (js_split_limit newline 1 (js_join [] splitDescription)));
          title = js_replaceAll ''__'' [] (js_replaceAll ''**'' [] title)
      in if title = [] then ''Untitled'' else title)"

section \<open>Parsed proposals\<close>

record ParsedProposalV3 =
  pp_id :: string
  pp_proposer :: string
  pp_txHash :: string
  pp_logIndex :: string
  pp_targets :: "bytes list"
  pp_values :: "int list"
  pp_signatures :: "string list"
  pp_calldatas :: "bytes list"
  pp_createdTimestamp :: int
  pp_createdBlock :: int
  pp_createdTransactionHash :: bytes
  pp_startBlock :: int
  pp_endBlock :: int
  pp_updatePeriodEndBlock :: int
  pp_proposalThreshold :: int
  pp_quorumVotes :: int
  pp_description :: string
  pp_title :: string
  pp_status :: ProposalStatus
  pp_signers :: "string list"
  pp_adjustedTotalSupply :: int

text \<open>The parameters the two event versions share; \<open>v3_params\<close> adds what V3 brought.\<close>

record v1_params =
  ep_id :: int
  ep_proposer :: bytes
  ep_targets :: "bytes list"
  ep_values :: "int list"
  ep_signatures :: "string list"
  ep_calldatas :: "bytes list"
  ep_startBlock :: int
  ep_endBlock :: int
  ep_proposalThreshold :: int
  ep_quorumVotes :: int
  ep_description :: string

record v3_params = v1_params +
  ep_signers :: "bytes list"
  ep_updatePeriodEndBlock :: int

definition fromV1Event :: "event_ctx \<Rightarrow> v1_params \<Rightarrow> ParsedProposalV3" where
  "fromV1Event ctx e =
     (let description = unescape_newlines (ep_description e)
      in \<lparr>pp_id = int_to_string (ep_id e),
          pp_proposer = toHexString (ep_proposer e),
          pp_txHash = toHexString (ev_txHash ctx),
          pp_logIndex = int_to_string (ev_logIndex ctx),
          pp_targets = ep_targets e,
          pp_values = ep_values e,
          pp_signatures = ep_signatures e,
          pp_calldatas = ep_calldatas e,
          pp_createdTimestamp = ev_blockTimestamp ctx,
          pp_createdBlock = ev_blockNumber ctx,
          pp_createdTransactionHash = ev_txHash ctx,
          pp_startBlock = ep_startBlock e,
          pp_endBlock = ep_endBlock e,
          pp_updatePeriodEndBlock = BIGINT_ZERO,
          pp_proposalThreshold = ep_proposalThreshold e,
          pp_quorumVotes = ep_quorumVotes e,
          pp_description = description,
          pp_title = extractTitle description,
          pp_status = (if ev_blockNumber ctx \<ge> ep_startBlock e then ACTIVE else PENDING),
          pp_signers = [],
          pp_adjustedTotalSupply = BIGINT_ZERO\<rparr>)"

text \<open>
  The V3 form leaves \<open>logIndex\<close> at its default, the empty string, and asks the DAO contract
  for the adjusted total supply; a reverted call aborts.
\<close>

definition fromV3Event ::
  "graph_env \<Rightarrow> event_ctx \<Rightarrow> v3_params \<Rightarrow> ParsedProposalV3 option" where
  "fromV3Event env ctx e =
     (let description = unescape_newlines (ep_description e)
      in do {
        supply \<leftarrow> dao_adjustedTotalSupply env (ev_address ctx) (ev_blockNumber ctx);
        Some
         \<lparr>pp_id = int_to_string (ep_id e),
          pp_proposer = toHexString (ep_proposer e),
          pp_txHash = toHexString (ev_txHash ctx),
          pp_logIndex = [],
          pp_targets = ep_targets e,
          pp_values = ep_values e,
          pp_signatures = ep_signatures e,
          pp_calldatas = ep_calldatas e,
          pp_createdTimestamp = ev_blockTimestamp ctx,
          pp_createdBlock = ev_blockNumber ctx,
          pp_createdTransactionHash = ev_txHash ctx,
          pp_startBlock = ep_startBlock e,
          pp_endBlock = ep_endBlock e,
          pp_updatePeriodEndBlock = ep_updatePeriodEndBlock e,
          pp_proposalThreshold = ep_proposalThreshold e,
          pp_quorumVotes = ep_quorumVotes e,
          pp_description = description,
          pp_title = extractTitle description,
          pp_status = (if ev_blockNumber ctx \<ge> ep_startBlock e then ACTIVE else PENDING),
          pp_signers = map toHexString (ep_signers e),
          pp_adjustedTotalSupply = supply\<rparr>
      })"

section \<open>Lemmas\<close>

lemma set_split_go: "\<Union> (set ` set (split_go sep acc s)) \<subseteq> set acc \<union> set s"
proof (induction sep acc s rule: split_go.induct)
  case (2 sep acc c cs)
  then show ?case
    by (cases "sep \<noteq> [] \<and> prefix sep (c # cs)")
       (fastforce dest: in_set_dropD)+
qed simp

lemma set_js_split: "x \<in> set (js_split sep s) \<Longrightarrow> set x \<subseteq> set s"
  using set_split_go [of sep "[]" s] by (auto simp: js_split_def)

lemma set_js_join: "set (js_join sep xs) \<subseteq> \<Union> (set ` set xs) \<union> set sep"
  by (induction sep xs rule: js_join.induct) auto

lemma set_js_replaceAll: "set (js_replaceAll pat [] s) \<subseteq> set s"
  using set_js_split by (fastforce simp: js_replaceAll_def)

lemma set_js_trim: "set (js_trim s) \<subseteq> set s"
  by (auto simp: js_trim_def dest!: set_dropWhileD)

text \<open>The first piece of a split on a one-character separator does not contain it.\<close>

lemma hd_split_go_char: "c \<notin> set acc \<Longrightarrow> c \<notin> set (hd (split_go [c] acc s))"
  by (induction "[c]" acc s rule: split_go.induct) auto

lemma no_newline_first_line: "CHR 0x0A \<notin> set (concat (js_split_limit newline 1 s))"
proof -
  have "concat (take 1 (js_split newline s)) = hd (js_split newline s)"
    by (cases "js_split newline s") auto
  then show ?thesis
    using hd_split_go_char [of "CHR 0x0A" "[]" s]
    by (simp add: js_split_limit_def js_split_def newline_def)
qed

text \<open>A title is never empty and never spans lines, whatever the description.\<close>

theorem extractTitle_one_line:
  "extractTitle d \<noteq> [] \<and> CHR 0x0A \<notin> set (extractTitle d)"
proof -
  have "CHR 0x0A \<notin> set (js_replaceAll ''__'' [] (js_replaceAll ''**'' []
          (js_trim (concat (js_split_limit newline 1 t)))))" for t
    using no_newline_first_line [of t] set_js_replaceAll set_js_trim by blast
  then show ?thesis by (auto simp: extractTitle_def Let_def)
qed

text \<open>Unescaping as a one-pass function: the accumulator of the split is a prefix of the result.\<close>

fun unesc :: "string \<Rightarrow> string" where
  "unesc [] = []"
| "unesc [c] = [c]"
| "unesc (c # d # cs) =
     (if c = CHR 0x5C \<and> d = CHR ''n'' then CHR 0x0A # unesc cs else c # unesc (d # cs))"

lemma join_split_unesc: "js_join newline (split_go escaped_newline acc s) = acc @ unesc s"
proof (induction s arbitrary: acc rule: unesc.induct)
  case (3 c d cs)
  then show ?case by (simp add: escaped_newline_def newline_def js_join_Cons)
qed (simp_all add: escaped_newline_def)

lemma unescape_newlines_eq: "unescape_newlines d = unesc d"
  using join_split_unesc [of "[]" d] by (simp add: unescape_newlines_def js_split_def)

lemma unesc_hd_n: "unesc cs = CHR ''n'' # xs \<Longrightarrow> \<exists>ys. cs = CHR ''n'' # ys"
  by (cases cs rule: unesc.cases) (auto split: if_splits)

lemma unesc_no_escape: "\<not> sublist escaped_newline (unesc s)"
proof (induction s rule: unesc.induct)
  case (3 c d cs)
  show ?case
  proof (cases "c = CHR 0x5C \<and> d = CHR ''n''")
    case True
    with 3 show ?thesis by (simp add: sublist_Cons_right escaped_newline_def)
  next
    case False
    have "\<not> prefix escaped_newline (c # unesc (d # cs))"
    proof
      assume "prefix escaped_newline (c # unesc (d # cs))"
      then obtain xs where "c = CHR 0x5C" "unesc (d # cs) = CHR ''n'' # xs"
        by (auto simp: escaped_newline_def prefix_def)
      then show False using False unesc_hd_n [of "d # cs" xs] by auto
    qed
    with 3 False show ?thesis by (auto simp: sublist_Cons_right)
  qed
qed (simp_all add: escaped_newline_def sublist_Cons_right)

text \<open>
  The stored description has no escaped line break left, and storing it again (as an update
  of the proposal does) changes nothing more.
\<close>

theorem unescape_newlines_complete:
  "\<not> sublist escaped_newline (unescape_newlines d) \<and>
   unescape_newlines (unescape_newlines d) = unescape_newlines d"
proof -
  have no: "\<not> sublist escaped_newline (unescape_newlines d)"
    by (simp add: unescape_newlines_eq unesc_no_escape)
  then have "js_split escaped_newline (unescape_newlines d) = [unescape_newlines d]"
    by (intro js_split_no_sep) (simp_all add: escaped_newline_def)
  with no show ?thesis by (simp add: unescape_newlines_def [of "unescape_newlines d"])
qed

text \<open>The test descriptions of the title parser, and the limits of splitting at three hashes.\<close>

lemma extractTitle_examples:
  "extractTitle (''# One'' @ newline @ ''body'') = ''One''"
  "extractTitle ''## **Two**'' = ''Two''"
  "extractTitle ''### Three'' = ''Untitled''"
  "extractTitle ''# Fix #12 and #13'' = ''Fix 12 and''"
  by code_simp+

text \<open>
  The version entity of a V3 proposal is keyed without the log index: the parsed log index is
  empty, so two proposals created in one transaction get the same version key.
\<close>

theorem fromV3Event_logIndex:
  assumes "fromV3Event env ctx1 e1 = Some p1" and "fromV3Event env ctx2 e2 = Some p2"
    and "ev_txHash ctx1 = ev_txHash ctx2"
  shows "pp_txHash p1 @ ''-'' @ pp_logIndex p1 = pp_txHash p2 @ ''-'' @ pp_logIndex p2"
  using assms by (auto simp: fromV3Event_def Let_def)

end
