(* ===== verification/Subgraph_Dao.thy ===== *)
theory Subgraph_Dao
  imports Subgraph_Proposal
begin

text \<open>
  The governance handlers of the indexer, \<open>src/nouns-dao.ts\<close> of
  \<open>packages/nouns-subgraph\<close>: proposals, their updates and versions, votes, quorum
  parameters, and fork escrows. A handler returns the new store, or \<^const>\<open>None\<close> where the
  mapping aborts (a required field that was never set, a failed conversion or contract call).
\<close>

section \<open>Versions and matching candidates\<close>

definition markProposalCandidateIfExists ::
  "graph_env \<Rightarrow> proposal \<Rightarrow> bool \<Rightarrow> store \<Rightarrow> store option" where
  "markProposalCandidateIfExists env p isUpdate s =
     do {
       h \<leftarrow> calcEncodedProposalHash env p isUpdate;
       case load_candidate_content (toHexString h) s of
         None \<Rightarrow> Some s
       | Some candidate \<Rightarrow> do {
           let ids = (case cc_matchingProposalIds candidate of None \<Rightarrow> [] | Some x \<Rightarrow> x);
           n \<leftarrow> string_to_int (prop_id p);
           Some (save_candidate_content (candidate\<lparr>cc_matchingProposalIds := Some (ids @ [n])\<rparr>) s)
         }
     }"

definition captureProposalVersion ::
  "graph_env \<Rightarrow> string \<Rightarrow> string \<Rightarrow> proposal \<Rightarrow> bool \<Rightarrow> string \<Rightarrow> store \<Rightarrow> store option" where
  "captureProposalVersion env txHash logIndex p isUpdate updateMessage s =
     do {
       let versionId = txHash @ ''-'' @ logIndex;
       let previousVersion = getOrCreateProposalVersion versionId s;
       block \<leftarrow> prop_lastUpdatedBlock p;
       at \<leftarrow> prop_lastUpdatedTimestamp p;
       title \<leftarrow> prop_title p;
       description \<leftarrow> prop_description p;
       let previousVersion = previousVersion
         \<lparr>pv_proposal := Some (prop_id p), pv_createdBlock := Some block, pv_createdAt := Some at,
          pv_targets := prop_targets p, pv_values := prop_values p,
          pv_signatures := prop_signatures p, pv_calldatas := prop_calldatas p,
          pv_title := Some title, pv_description := Some description,
          pv_updateMessage := Some updateMessage\<rparr>;
       let s = save_proposal_version previousVersion s;
       markProposalCandidateIfExists env p isUpdate s
     }"

section \<open>Creation\<close>

definition handleProposalCreatedOnTimelockV1 :: "event_ctx \<Rightarrow> int \<Rightarrow> store \<Rightarrow> store" where
  "handleProposalCreatedOnTimelockV1 ctx i s =
     (let (proposal, s) = getOrCreateProposal (int_to_string i) s
      in save_proposal (proposal\<lparr>prop_onTimelockV1 := Some True\<rparr>) s)"

text \<open>The loop over the signers: each is looked up, created and logged if it is unknown.\<close>

fun signer_delegates :: "string \<Rightarrow> string list \<Rightarrow> store \<Rightarrow> (string list \<times> store) option" where
  "signer_delegates txHash [] s = Some ([], s)"
| "signer_delegates txHash (signerAddress # rest) s =
     do {
       let (r, s) = getOrCreateDelegateWithNullOption signerAddress True True s;
       let s = (if created r
                then log_error ''Signer delegate {} not found on ProposalCreated. tx_hash: {}''
                       [signerAddress, txHash] s
                else s);
       d \<leftarrow> entity r;
       (ids, s) \<leftarrow> signer_delegates txHash rest s;
       Some (del_id d # ids, s)
     }"

text \<open>The assignments that copy the parsed event into the proposal.\<close>

definition fill_proposal :: "ParsedProposalV3 \<Rightarrow> string \<Rightarrow> proposal \<Rightarrow> proposal" where
  "fill_proposal pp proposerId proposal = proposal
     \<lparr>prop_proposer := Some proposerId,
      prop_targets := Some (pp_targets pp),
      prop_values := Some (pp_values pp),
      prop_signatures := Some (pp_signatures pp),
      prop_calldatas := Some (pp_calldatas pp),
      prop_createdTimestamp := Some (pp_createdTimestamp pp),
      prop_createdBlock := Some (pp_createdBlock pp),
      prop_lastUpdatedTimestamp := Some (pp_createdTimestamp pp),
      prop_lastUpdatedBlock := Some (pp_createdBlock pp),
      prop_createdTransactionHash := Some (pp_createdTransactionHash pp),
      prop_startBlock := Some (pp_startBlock pp),
      prop_endBlock := Some (pp_endBlock pp),
      prop_updatePeriodEndBlock := Some (pp_updatePeriodEndBlock pp),
      prop_proposalThreshold := Some (pp_proposalThreshold pp),
      prop_quorumVotes := Some (pp_quorumVotes pp),
      prop_forVotes := Some BIGINT_ZERO,
      prop_againstVotes := Some BIGINT_ZERO,
      prop_abstainVotes := Some BIGINT_ZERO,
      prop_description := Some (pp_description pp),
      prop_title := Some (pp_title pp),
      prop_status := Some (pp_status pp),
      prop_objectionPeriodEndBlock := Some BIGINT_ZERO\<rparr>"

text \<open>The signers, the supply the quorum is measured against, and the vote snapshot block.\<close>

definition fill_supply ::
  "ParsedProposalV3 \<Rightarrow> string list \<Rightarrow> governance \<Rightarrow> proposal \<Rightarrow> proposal" where
  "fill_supply pp signerDelegates governance proposal = proposal
     \<lparr>prop_signers := Some signerDelegates,
      prop_totalSupply := Some (gov_totalTokenHolders governance),
      prop_adjustedTotalSupply :=
        Some (if pp_adjustedTotalSupply pp = BIGINT_ZERO then gov_totalTokenHolders governance
              else pp_adjustedTotalSupply pp)\<rparr>"

definition fill_snapshot :: "governance \<Rightarrow> proposal \<Rightarrow> proposal option" where
  "fill_snapshot governance proposal =
     do {
       useCreated \<leftarrow> (if gov_voteSnapshotBlockSwitchProposalId governance = BIGINT_ZERO
                     then Some True
                     else map_option (\<lambda>n. n < gov_voteSnapshotBlockSwitchProposalId governance)
                            (string_to_int (prop_id proposal)));
       Some (proposal\<lparr>prop_voteSnapshotBlock :=
               (if useCreated then prop_createdBlock proposal else prop_startBlock proposal)\<rparr>)
     }"

definition fill_quorum :: "dq_params \<Rightarrow> proposal \<Rightarrow> proposal" where
  "fill_quorum dynamicQuorum proposal = proposal
     \<lparr>prop_minQuorumVotesBPS := Some (dq_minQuorumVotesBPS dynamicQuorum),
      prop_maxQuorumVotesBPS := Some (dq_maxQuorumVotesBPS dynamicQuorum),
      prop_quorumCoefficient := Some (dq_quorumCoefficient dynamicQuorum)\<rparr>"

definition handleProposalCreated :: "graph_env \<Rightarrow> ParsedProposalV3 \<Rightarrow> store \<Rightarrow> store option" where
  "handleProposalCreated env pp s =
     do {
       let (proposal, s) = getOrCreateProposal (pp_id pp) s;
       let (proposerResult, s) = getOrCreateDelegateWithNullOption (pp_proposer pp) True True s;
       let s = (if created proposerResult \<and> pp_signers pp = []
                then log_error ''Delegate {} not found on ProposalCreated. tx_hash: {}''
                       [pp_proposer pp, pp_txHash pp] s
                else s);
       proposer \<leftarrow> entity proposerResult;
       let proposal = fill_proposal pp (del_id proposer) proposal;
       (signerDelegates, s) \<leftarrow> signer_delegates (pp_txHash pp) (pp_signers pp) s;
       let governance = getGovernanceEntity s;
       let proposal = fill_supply pp signerDelegates governance proposal;
       proposal \<leftarrow> fill_snapshot governance proposal;
       let (dynamicQuorum, s) = getOrCreateDynamicQuorumParams None s;
       let proposal = fill_quorum dynamicQuorum proposal;
       let s = save_proposal proposal s;
       captureProposalVersion env (pp_txHash pp) (pp_logIndex pp) proposal False [] s
     }"

definition handleProposalCreatedWithRequirements ::
  "graph_env \<Rightarrow> event_ctx \<Rightarrow> v1_params \<Rightarrow> store \<Rightarrow> store option" where
  "handleProposalCreatedWithRequirements env ctx e s = handleProposalCreated env (fromV1Event ctx e) s"

definition handleProposalCreatedWithRequirementsV3 ::
  "graph_env \<Rightarrow> event_ctx \<Rightarrow> v3_params \<Rightarrow> store \<Rightarrow> store option" where
  "handleProposalCreatedWithRequirementsV3 env ctx e s =
     do { pp \<leftarrow> fromV3Event env ctx e; handleProposalCreated env pp s }"

section \<open>Updates\<close>

definition handleProposalUpdated ::
  "graph_env \<Rightarrow> event_ctx \<Rightarrow> int \<Rightarrow> bytes list \<Rightarrow> int list \<Rightarrow> string list \<Rightarrow> bytes list \<Rightarrow>
   string \<Rightarrow> string \<Rightarrow> store \<Rightarrow> store option" where
  "handleProposalUpdated env ctx i targets vals signatures calldatas description updateMessage s =
     (let (proposal, s) = getOrCreateProposal (int_to_string i) s;
          proposal = proposal
            \<lparr>prop_lastUpdatedTimestamp := Some (ev_blockTimestamp ctx),
             prop_lastUpdatedBlock := Some (ev_blockNumber ctx),
             prop_targets := Some targets, prop_values := Some vals,
             prop_signatures := Some signatures, prop_calldatas := Some calldatas,
             prop_description := Some (unescape_newlines description),
             prop_title := Some (extractTitle (unescape_newlines description))\<rparr>;
          s = save_proposal proposal s
      in captureProposalVersion env (toHexString (ev_txHash ctx)) (int_to_string (ev_logIndex ctx))
           proposal True updateMessage s)"

definition handleProposalDescriptionUpdated ::
  "graph_env \<Rightarrow> event_ctx \<Rightarrow> int \<Rightarrow> string \<Rightarrow> string \<Rightarrow> store \<Rightarrow> store option" where
  "handleProposalDescriptionUpdated env ctx i description updateMessage s =
     (let (proposal, s) = getOrCreateProposal (int_to_string i) s;
          proposal = proposal
            \<lparr>prop_lastUpdatedTimestamp := Some (ev_blockTimestamp ctx),
             prop_lastUpdatedBlock := Some (ev_blockNumber ctx),
             prop_description := Some (unescape_newlines description),
             prop_title := Some (extractTitle (unescape_newlines description))\<rparr>;
          s = save_proposal proposal s
      in captureProposalVersion env (toHexString (ev_txHash ctx)) (int_to_string (ev_logIndex ctx))
           proposal True updateMessage s)"

definition handleProposalTransactionsUpdated ::
  "graph_env \<Rightarrow> event_ctx \<Rightarrow> int \<Rightarrow> bytes list \<Rightarrow> int list \<Rightarrow> string list \<Rightarrow> bytes list \<Rightarrow>
   string \<Rightarrow> store \<Rightarrow> store option" where
  "handleProposalTransactionsUpdated env ctx i targets vals signatures calldatas updateMessage s =
     (let (proposal, s) = getOrCreateProposal (int_to_string i) s;
          proposal = proposal
            \<lparr>prop_lastUpdatedTimestamp := Some (ev_blockTimestamp ctx),
             prop_lastUpdatedBlock := Some (ev_blockNumber ctx),
             prop_targets := Some targets, prop_values := Some vals,
             prop_signatures := Some signatures, prop_calldatas := Some calldatas\<rparr>;
          s = save_proposal proposal s
      in captureProposalVersion env (toHexString (ev_txHash ctx)) (int_to_string (ev_logIndex ctx))
           proposal True updateMessage s)"

section \<open>Status changes\<close>

definition handleProposalCanceled :: "event_ctx \<Rightarrow> int \<Rightarrow> store \<Rightarrow> store" where
  "handleProposalCanceled ctx i s =
     (let (proposal, s) = getOrCreateProposal (int_to_string i) s
      in save_proposal (proposal\<lparr>prop_status := Some CANCELLED,
           prop_canceledBlock := Some (ev_blockNumber ctx),
           prop_canceledTimestamp := Some (ev_blockTimestamp ctx)\<rparr>) s)"

definition handleProposalVetoed :: "event_ctx \<Rightarrow> int \<Rightarrow> store \<Rightarrow> store" where
  "handleProposalVetoed ctx i s =
     (let (proposal, s) = getOrCreateProposal (int_to_string i) s
      in save_proposal (proposal\<lparr>prop_status := Some VETOED,
           prop_vetoedBlock := Some (ev_blockNumber ctx),
           prop_vetoedTimestamp := Some (ev_blockTimestamp ctx)\<rparr>) s)"

text \<open>The governance entity is read before the proposal is looked up.\<close>

definition handleProposalQueued :: "event_ctx \<Rightarrow> int \<Rightarrow> int \<Rightarrow> store \<Rightarrow> store" where
  "handleProposalQueued ctx i eta s =
     (let governance = getGovernanceEntity s;
          (proposal, s) = getOrCreateProposal (int_to_string i) s;
          s = save_proposal (proposal\<lparr>prop_status := Some QUEUED,
                prop_executionETA := Some eta,
                prop_queuedBlock := Some (ev_blockNumber ctx),
                prop_queuedTimestamp := Some (ev_blockTimestamp ctx)\<rparr>) s
      in save_governance (governance
           \<lparr>gov_proposalsQueued := gov_proposalsQueued governance + BIGINT_ONE\<rparr>) s)"

definition handleProposalExecuted :: "event_ctx \<Rightarrow> int \<Rightarrow> store \<Rightarrow> store" where
  "handleProposalExecuted ctx i s =
     (let governance = getGovernanceEntity s;
          (proposal, s) = getOrCreateProposal (int_to_string i) s;
          s = save_proposal (proposal\<lparr>prop_status := Some EXECUTED,
                prop_executionETA := None,
                prop_executedBlock := Some (ev_blockNumber ctx),
                prop_executedTimestamp := Some (ev_blockTimestamp ctx)\<rparr>) s
      in save_governance (governance
           \<lparr>gov_proposalsQueued := gov_proposalsQueued governance - BIGINT_ONE\<rparr>) s)"

section \<open>Votes\<close>

definition voteId :: "bytes \<Rightarrow> int \<Rightarrow> string" where
  "voteId voter proposalId = toHexString voter @ ''-'' @ int_to_string proposalId"

definition count_vote :: "i32 \<Rightarrow> int \<Rightarrow> proposal \<Rightarrow> proposal option" where
  "count_vote support votes p =
     (if support = 0
      then map_option (\<lambda>v. p\<lparr>prop_againstVotes := Some (v + votes)\<rparr>) (prop_againstVotes p)
      else if support = 1
      then map_option (\<lambda>v. p\<lparr>prop_forVotes := Some (v + votes)\<rparr>) (prop_forVotes p)
      else if support = 2
      then map_option (\<lambda>v. p\<lparr>prop_abstainVotes := Some (v + votes)\<rparr>) (prop_abstainVotes p)
      else Some p)"

text \<open>The quorum is recomputed if dynamic quorum was configured before the proposal.\<close>

definition update_quorum :: "graph_env \<Rightarrow> dq_params \<Rightarrow> proposal \<Rightarrow> proposal option" where
  "update_quorum env dqParams p =
     (case dq_dynamicQuorumStartBlock dqParams of
        None \<Rightarrow> Some p
      | Some start \<Rightarrow> do {
          createdBlock \<leftarrow> prop_createdBlock p;
          if start < createdBlock
          then do {
            against \<leftarrow> prop_againstVotes p;
            adjusted \<leftarrow> prop_adjustedTotalSupply p;
            mn \<leftarrow> prop_minQuorumVotesBPS p;
            mx \<leftarrow> prop_maxQuorumVotesBPS p;
            coeff \<leftarrow> prop_quorumCoefficient p;
            q \<leftarrow> dynamicQuorumVotes env against adjusted mn mx coeff;
            Some (p\<lparr>prop_quorumVotes := Some q\<rparr>)
          }
          else Some p
        })"

text \<open>The assignments to the vote entity.\<close>

definition fill_vote ::
  "event_ctx \<Rightarrow> string \<Rightarrow> delegate \<Rightarrow> i32 \<Rightarrow> int \<Rightarrow> string \<Rightarrow> vote \<Rightarrow> vote" where
  "fill_vote ctx proposalId voter support votes reason vote =
     (let vote = vote
        \<lparr>vote_proposal := Some proposalId, vote_voter := Some (del_id voter),
         vote_votesRaw := Some votes, vote_votes := Some votes,
         vote_support := Some (support = 1), vote_supportDetailed := Some support,
         vote_nouns := Some (del_nounsRepresented voter),
         vote_blockNumber := Some (ev_blockNumber ctx),
         vote_blockTimestamp := Some (ev_blockTimestamp ctx)\<rparr>
      in if reason \<noteq> [] then vote\<lparr>vote_reason := Some reason\<rparr> else vote)"

definition handleVoteCast ::
  "graph_env \<Rightarrow> event_ctx \<Rightarrow> bytes \<Rightarrow> int \<Rightarrow> i32 \<Rightarrow> int \<Rightarrow> string \<Rightarrow> store \<Rightarrow> store option" where
  "handleVoteCast env ctx voterAddr proposalId support votes reason s =
     do {
       let (proposal, s) = getOrCreateProposal (int_to_string proposalId) s;
       let vote = getOrCreateVote (voteId voterAddr proposalId) s;
       let (voterResult, s) = getOrCreateDelegateWithNullOption (toHexString voterAddr) True True s;
       let s = (if created voterResult
                then log_error ''Delegate {} not found on VoteCast. tx_hash: {}''
                       [toHexString voterAddr, toHexString (ev_txHash ctx)] s
                else s);
       voter \<leftarrow> entity voterResult;
       let s = save_vote (fill_vote ctx (prop_id proposal) voter support votes reason vote) s;
       proposal \<leftarrow> count_vote support votes proposal;
       let (dqParams, s) = getOrCreateDynamicQuorumParams None s;
       proposal \<leftarrow> update_quorum env dqParams proposal;
       status \<leftarrow> prop_status proposal;
       let proposal = (if status = PENDING then proposal\<lparr>prop_status := Some ACTIVE\<rparr> else proposal);
       Some (save_proposal proposal s)
     }"

section \<open>Parameters\<close>

definition handleMinQuorumVotesBPSSet :: "event_ctx \<Rightarrow> i32 \<Rightarrow> store \<Rightarrow> store" where
  "handleMinQuorumVotesBPSSet ctx v s =
     (let (params, s) = getOrCreateDynamicQuorumParams (Some (ev_blockNumber ctx)) s
      in save_dq_params (params\<lparr>dq_minQuorumVotesBPS := v\<rparr>) s)"

definition handleMaxQuorumVotesBPSSet :: "event_ctx \<Rightarrow> i32 \<Rightarrow> store \<Rightarrow> store" where
  "handleMaxQuorumVotesBPSSet ctx v s =
     (let (params, s) = getOrCreateDynamicQuorumParams (Some (ev_blockNumber ctx)) s
      in save_dq_params (params\<lparr>dq_maxQuorumVotesBPS := v\<rparr>) s)"

definition handleQuorumCoefficientSet :: "event_ctx \<Rightarrow> int \<Rightarrow> store \<Rightarrow> store" where
  "handleQuorumCoefficientSet ctx v s =
     (let (params, s) = getOrCreateDynamicQuorumParams (Some (ev_blockNumber ctx)) s
      in save_dq_params (params\<lparr>dq_quorumCoefficient := v\<rparr>) s)"

definition handleProposalObjectionPeriodSet :: "event_ctx \<Rightarrow> int \<Rightarrow> int \<Rightarrow> store \<Rightarrow> store" where
  "handleProposalObjectionPeriodSet ctx i endBlock s =
     (let (proposal, s) = getOrCreateProposal (int_to_string i) s
      in save_proposal (proposal\<lparr>prop_objectionPeriodEndBlock := Some endBlock\<rparr>) s)"

definition handleSignatureCanceled :: "event_ctx \<Rightarrow> bytes \<Rightarrow> bytes \<Rightarrow> store \<Rightarrow> store" where
  "handleSignatureCanceled ctx signer sg s =
     (let sigId = toHexString signer @ ''-'' @ toHexString sg
      in case load_candidate_sig sigId s of
           None \<Rightarrow> log_error ''[handleSignatureCanceled] Sig {} not found. Hash: {}''
                     [sigId, toHexString (ev_txHash ctx)] s
         | Some x \<Rightarrow> save_candidate_sig (x\<lparr>cs_canceled := Some True\<rparr>) s)"

definition handleVoteSnapshotBlockSwitchProposalIdSet :: "event_ctx \<Rightarrow> int \<Rightarrow> store \<Rightarrow> store" where
  "handleVoteSnapshotBlockSwitchProposalIdSet ctx newId s =
     (let governance = getGovernanceEntity s
      in save_governance (governance\<lparr>gov_voteSnapshotBlockSwitchProposalId := newId\<rparr>) s)"

section \<open>Forks\<close>

definition genericUniqueId :: "event_ctx \<Rightarrow> string" where
  "genericUniqueId ctx = toHexString (ev_txHash ctx) @ ''-'' @ int_to_string (ev_logIndex ctx)"

definition forkNounId :: "fork \<Rightarrow> int \<Rightarrow> string" where
  "forkNounId f tokenId = fork_id f @ ''-'' @ int_to_string tokenId"

definition handleEscrowedToFork ::
  "event_ctx \<Rightarrow> int \<Rightarrow> bytes \<Rightarrow> int list \<Rightarrow> int list \<Rightarrow> string \<Rightarrow> store \<Rightarrow> store" where
  "handleEscrowedToFork ctx forkId owner tokenIds proposalIds reason s =
     (let fork = getOrCreateFork forkId s;
          (ownerDelegate, s) = getOrCreateDelegate (toHexString owner) s;
          deposit = \<lparr>ed_id = genericUniqueId ctx, ed_fork = fork_id fork,
                     ed_createdAt = ev_blockTimestamp ctx, ed_owner = del_id ownerDelegate,
                     ed_tokenIDs = tokenIds, ed_proposalIDs = proposalIds, ed_reason = reason\<rparr>;
          s = save_escrow_deposit deposit s;
          fork = fork\<lparr>fork_tokensInEscrowCount :=
                   fork_tokensInEscrowCount fork + word_of_nat (length tokenIds)\<rparr>;
          s = fold (\<lambda>t. save_escrowed_noun
                  \<lparr>en_id = forkNounId fork t, en_fork = fork_id fork, en_noun = int_to_string t,
                   en_owner = ed_owner deposit, en_escrowDeposit = ed_id deposit\<rparr>) tokenIds s
      in save_fork fork s)"

definition handleWithdrawFromForkEscrow ::
  "event_ctx \<Rightarrow> int \<Rightarrow> bytes \<Rightarrow> int list \<Rightarrow> store \<Rightarrow> store" where
  "handleWithdrawFromForkEscrow ctx forkId owner tokenIds s =
     (let fork = getOrCreateFork forkId s;
          (ownerDelegate, s) = getOrCreateDelegate (toHexString owner) s;
          s = save_escrow_withdrawal
                \<lparr>ew_id = genericUniqueId ctx, ew_fork = fork_id fork,
                 ew_createdAt = ev_blockTimestamp ctx, ew_owner = del_id ownerDelegate,
                 ew_tokenIDs = tokenIds\<rparr> s;
          fork = fork\<lparr>fork_tokensInEscrowCount :=
                   fork_tokensInEscrowCount fork - word_of_nat (length tokenIds)\<rparr>;
          s = fold (\<lambda>t. remove_escrowed_noun (forkNounId fork t)) tokenIds s
      in save_fork fork s)"

text \<open>A count that does not fit 32 bits aborts (\<open>BigInt.toI32\<close>).\<close>

definition handleExecuteFork ::
  "graph_env \<Rightarrow> event_ctx \<Rightarrow> int \<Rightarrow> bytes \<Rightarrow> bytes \<Rightarrow> int \<Rightarrow> int \<Rightarrow> store \<Rightarrow> store option" where
  "handleExecuteFork env ctx forkId forkTreasury forkToken forkEndTimestamp tokensInEscrow s =
     do {
       let fork = getOrCreateFork forkId s;
       let fork = fork
         \<lparr>fork_executed := Some True, fork_executedAt := Some (ev_blockTimestamp ctx),
          fork_forkingPeriodEndTimestamp := Some forkEndTimestamp,
          fork_forkTreasury := Some forkTreasury, fork_forkToken := Some forkToken\<rparr>;
       n \<leftarrow> bigint_toI32 env tokensInEscrow;
       let s = (if fork_tokensInEscrowCount fork \<noteq> n
                then log_warning
                       ''Number of tokens in escrow mismatch. Indexed count: {} vs Event count: {}''
                       [int_to_string (sint (fork_tokensInEscrowCount fork)),
                        int_to_string tokensInEscrow] s
                else s);
       let fork = fork\<lparr>fork_tokensInEscrowCount := n\<rparr>;
       let fork = fork\<lparr>fork_tokensForkingCount := fork_tokensInEscrowCount fork\<rparr>;
       Some (save_fork fork s)
     }"

definition handleJoinFork ::
  "event_ctx \<Rightarrow> int \<Rightarrow> bytes \<Rightarrow> int list \<Rightarrow> int list \<Rightarrow> string \<Rightarrow> store \<Rightarrow> store" where
  "handleJoinFork ctx forkId owner tokenIds proposalIds reason s =
     (let fork = getOrCreateFork forkId s;
          (ownerDelegate, s) = getOrCreateDelegate (toHexString owner) s;
          join = \<lparr>fj_id = genericUniqueId ctx, fj_fork = fork_id fork,
                  fj_createdAt = ev_blockTimestamp ctx, fj_owner = del_id ownerDelegate,
                  fj_tokenIDs = tokenIds, fj_proposalIDs = proposalIds, fj_reason = reason\<rparr>;
          s = save_fork_join join s;
          fork = fork\<lparr>fork_tokensForkingCount :=
                   fork_tokensForkingCount fork + word_of_nat (length tokenIds)\<rparr>;
          s = fold (\<lambda>t. save_fork_joined_noun
                  \<lparr>fjn_id = forkNounId fork t, fjn_fork = fork_id fork, fjn_noun = int_to_string t,
                   fjn_owner = fj_owner join, fjn_forkJoin = fj_id join\<rparr>) tokenIds s
      in save_fork fork s)"

section \<open>Dispatch\<close>

datatype dao_event =
    ProposalCreatedV1 event_ctx v1_params
  | ProposalCreatedV3 event_ctx v3_params
  | ProposalCreatedOnTimelockV1 event_ctx int
  | ProposalUpdated event_ctx int "bytes list" "int list" "string list" "bytes list" string string
  | ProposalDescriptionUpdated event_ctx int string string
  | ProposalTransactionsUpdated event_ctx int "bytes list" "int list" "string list" "bytes list" string
  | ProposalCanceled event_ctx int
  | ProposalVetoed event_ctx int
  | ProposalQueued event_ctx int int
  | ProposalExecuted event_ctx int
  | VoteCast event_ctx bytes int i32 int string
  | MinQuorumVotesBPSSet event_ctx i32
  | MaxQuorumVotesBPSSet event_ctx i32
  | QuorumCoefficientSet event_ctx int
  | ProposalObjectionPeriodSet event_ctx int int
  | SignatureCancelled event_ctx bytes bytes
  | EscrowedToFork event_ctx int bytes "int list" "int list" string
  | WithdrawFromForkEscrow event_ctx int bytes "int list"
  | ExecuteFork event_ctx int bytes bytes int int
  | JoinFork event_ctx int bytes "int list" "int list" string
  | VoteSnapshotBlockSwitchProposalIdSet event_ctx int

fun handle_dao_event :: "graph_env \<Rightarrow> dao_event \<Rightarrow> store \<Rightarrow> store option" where
  "handle_dao_event env (ProposalCreatedV1 c e) s = handleProposalCreatedWithRequirements env c e s"
| "handle_dao_event env (ProposalCreatedV3 c e) s = handleProposalCreatedWithRequirementsV3 env c e s"
| "handle_dao_event env (ProposalCreatedOnTimelockV1 c i) s = Some (handleProposalCreatedOnTimelockV1 c i s)"
| "handle_dao_event env (ProposalUpdated c i t v sg cd d m) s = handleProposalUpdated env c i t v sg cd d m s"
| "handle_dao_event env (ProposalDescriptionUpdated c i d m) s = handleProposalDescriptionUpdated env c i d m s"
| "handle_dao_event env (ProposalTransactionsUpdated c i t v sg cd m) s =
     handleProposalTransactionsUpdated env c i t v sg cd m s"
| "handle_dao_event env (ProposalCanceled c i) s = Some (handleProposalCanceled c i s)"
| "handle_dao_event env (ProposalVetoed c i) s = Some (handleProposalVetoed c i s)"
| "handle_dao_event env (ProposalQueued c i eta) s = Some (handleProposalQueued c i eta s)"
| "handle_dao_event env (ProposalExecuted c i) s = Some (handleProposalExecuted c i s)"
| "handle_dao_event env (VoteCast c v i spt n r) s = handleVoteCast env c v i spt n r s"
| "handle_dao_event env (MinQuorumVotesBPSSet c v) s = Some (handleMinQuorumVotesBPSSet c v s)"
| "handle_dao_event env (MaxQuorumVotesBPSSet c v) s = Some (handleMaxQuorumVotesBPSSet c v s)"
| "handle_dao_event env (QuorumCoefficientSet c v) s = Some (handleQuorumCoefficientSet c v s)"
| "handle_dao_event env (ProposalObjectionPeriodSet c i b) s = Some (handleProposalObjectionPeriodSet c i b s)"
| "handle_dao_event env (SignatureCancelled c sr sg) s = Some (handleSignatureCanceled c sr sg s)"
| "handle_dao_event env (EscrowedToFork c f ow t p r) s = Some (handleEscrowedToFork c f ow t p r s)"
| "handle_dao_event env (WithdrawFromForkEscrow c f ow t) s = Some (handleWithdrawFromForkEscrow c f ow t s)"
| "handle_dao_event env (ExecuteFork c f tr tk en n) s = handleExecuteFork env c f tr tk en n s"
| "handle_dao_event env (JoinFork c f ow t p r) s = Some (handleJoinFork c f ow t p r s)"
| "handle_dao_event env (VoteSnapshotBlockSwitchProposalIdSet c i) s =
     Some (handleVoteSnapshotBlockSwitchProposalIdSet c i s)"

end
