(* ===== verification/Subgraph_Dao_Inv.thy ===== *)
theory Subgraph_Dao_Inv
  imports Subgraph_Dao
begin

text \<open>
  The bookkeeping of the governance handlers. A store is seen through \<open>dao_view\<close>: proposals,
  votes, forks, escrowed and joined Nouns and the two proposal counters. The invariant says
  that a proposal's tallies are the sums of the stored votes, that the counters count, and
  that a fork's token counts are the numbers of stored Nouns; this theory shows that proposal
  and vote events keep it.
\<close>

section \<open>Effects of the building blocks\<close>

text \<open>The part of the store the invariants speak of.\<close>

record dao_view =
  v_proposals :: "string \<rightharpoonup> proposal"
  v_votes :: "string \<rightharpoonup> vote"
  v_forks :: "string \<rightharpoonup> fork"
  v_escrowed :: "string \<rightharpoonup> escrowed_noun"
  v_joined :: "string \<rightharpoonup> fork_joined_noun"
  v_govId :: string
  v_count :: int
  v_queued :: int

definition view :: "store \<Rightarrow> dao_view" where
  "view s = \<lparr>v_proposals = st_proposals s, v_votes = st_votes s, v_forks = st_forks s,
     v_escrowed = st_escrowedNouns s, v_joined = st_forkJoinedNouns s,
     v_govId = gov_id (getGovernanceEntity s), v_count = gov_proposals (getGovernanceEntity s),
     v_queued = gov_proposalsQueued (getGovernanceEntity s)\<rparr>"

lemma view_fields:
  "st_proposals s = v_proposals (view s)" "st_votes s = v_votes (view s)"
  "st_forks s = v_forks (view s)" "st_escrowedNouns s = v_escrowed (view s)"
  "st_forkJoinedNouns s = v_joined (view s)"
  by (simp_all add: view_def)

text \<open>How each kind of save shows in the view; saves of other entities do not show.\<close>

lemma view_save [simp]:
  "view (save_proposal p s) = (view s)\<lparr>v_proposals := (v_proposals (view s))(prop_id p \<mapsto> p)\<rparr>"
  "view (save_vote v s) = (view s)\<lparr>v_votes := (v_votes (view s))(vote_id v \<mapsto> v)\<rparr>"
  "view (save_fork f s) = (view s)\<lparr>v_forks := (v_forks (view s))(fork_id f \<mapsto> f)\<rparr>"
  "view (save_escrowed_noun n s) = (view s)\<lparr>v_escrowed := (v_escrowed (view s))(en_id n \<mapsto> n)\<rparr>"
  "view (remove_escrowed_noun k s) = (view s)\<lparr>v_escrowed := (v_escrowed (view s))(k := None)\<rparr>"
  "view (save_fork_joined_noun j s) = (view s)\<lparr>v_joined := (v_joined (view s))(fjn_id j \<mapsto> j)\<rparr>"
  "view (save_delegate d s) = view s"
  "view (save_dq_params q s) = view s"
  "view (save_proposal_version w s) = view s"
  "view (save_candidate_content cc s) = view s"
  "view (save_candidate_sig cs s) = view s"
  "view (save_escrow_deposit ed s) = view s"
  "view (save_escrow_withdrawal ew s) = view s"
  "view (save_fork_join fj s) = view s"
  "view (log_error m xs s) = view s"
  "view (log_warning m xs s) = view s"
  by (simp_all add: view_def handler_defs getGovernanceEntity_def)

lemma view_save_governance:
  "gov_id g = GOVERNANCE \<Longrightarrow> view (save_governance g s) = (view s)\<lparr>v_govId := GOVERNANCE,
     v_count := gov_proposals g, v_queued := gov_proposalsQueued g\<rparr>"
  by (simp add: view_def handler_defs getGovernanceEntity_def)

lemma view_delegate [simp]:
  "view (snd (getOrCreateDelegateWithNullOption k True True s)) = view s"
  by (auto simp: getOrCreateDelegateWithNullOption_def Let_def view_def handler_defs
      getGovernanceEntity_def split: option.splits)

lemma entity_delegate [simp]:
  "entity (fst (getOrCreateDelegateWithNullOption k True True s)) \<noteq> None"
  "entity (fst (getOrCreateDelegateWithNullOption k True True s)) = None \<longleftrightarrow> False"
  by (auto simp: getOrCreateDelegateWithNullOption_def Let_def split: option.splits)

lemma view_getOrCreateDelegate [simp]: "view (snd (getOrCreateDelegate k s)) = view s"
  using view_delegate [of k s]
  by (simp add: getOrCreateDelegate_def case_prod_beta split: option.splits)

lemma view_dq [simp]: "view (snd (getOrCreateDynamicQuorumParams b s)) = view s"
  by (simp add: getOrCreateDynamicQuorumParams_def Let_def split: option.splits)

lemma view_mark:
  "markProposalCandidateIfExists env p u s = Some s' \<Longrightarrow> view s' = view s"
  by (cases "calcEncodedProposalHash env p u";
      cases "load_candidate_content (toHexString (the (calcEncodedProposalHash env p u))) s")
     (auto simp: markProposalCandidateIfExists_def Let_def)

lemma proposal_known:
  "load_proposal k s = Some p \<Longrightarrow> getOrCreateProposal k s = (p, s)"
  by (simp add: getOrCreateProposal_def)

lemma view_capture:
  "captureProposalVersion env tx li p u m s = Some s' \<Longrightarrow> view s' = view s"
  by (auto simp: captureProposalVersion_def Let_def dest!: view_mark)

lemma view_signers:
  "signer_delegates tx xs s = Some (ids, s') \<Longrightarrow> view s' = view s"
proof (induction xs arbitrary: s ids)
  case (Cons x xs)
  then show ?case by (fastforce simp: Let_def case_prod_beta split: if_splits)
qed simp


section \<open>The invariant\<close>

definition weight :: "dao_view \<Rightarrow> string \<Rightarrow> int" where
  "weight v x = (case v_votes v x of None \<Rightarrow> 0 | Some w \<Rightarrow>
     (case vote_votes w of None \<Rightarrow> 0 | Some n \<Rightarrow> n))"

text \<open>The votes cast on a proposal for one of the three choices.\<close>

definition ballots :: "dao_view \<Rightarrow> string \<Rightarrow> i32 \<Rightarrow> string set" where
  "ballots v k c = {x. \<exists>w. v_votes v x = Some w \<and> vote_proposal w = Some k \<and>
     vote_supportDetailed w = Some c}"

definition tally :: "dao_view \<Rightarrow> string \<Rightarrow> i32 \<Rightarrow> int" where
  "tally v k c = (\<Sum>x\<in>ballots v k c. weight v x)"

definition tallies_ok :: "dao_view \<Rightarrow> bool" where
  "tallies_ok v \<longleftrightarrow> finite (dom (v_votes v)) \<and>
     (\<forall>k p. v_proposals v k = Some p \<longrightarrow> prop_id p = k \<and>
        prop_againstVotes p = Some (tally v k 0) \<and> prop_forVotes p = Some (tally v k 1) \<and>
        prop_abstainVotes p = Some (tally v k 2)) \<and>
     (\<forall>x w. v_votes v x = Some w \<longrightarrow> (\<exists>k \<in> dom (v_proposals v). vote_proposal w = Some k))"

definition queue :: "dao_view \<Rightarrow> string set" where
  "queue v = {k. \<exists>p. v_proposals v k = Some p \<and> prop_queuedBlock p \<noteq> None \<and>
     prop_executedBlock p = None}"

definition counts_ok :: "dao_view \<Rightarrow> bool" where
  "counts_ok v \<longleftrightarrow> finite (dom (v_proposals v)) \<and> v_govId v = GOVERNANCE \<and>
     v_count v = int (card (dom (v_proposals v))) \<and> v_queued v = int (card (queue v))"

definition escrow_of :: "dao_view \<Rightarrow> string \<Rightarrow> string set" where
  "escrow_of v k = {x. \<exists>n. v_escrowed v x = Some n \<and> en_fork n = k}"

definition joined_of :: "dao_view \<Rightarrow> string \<Rightarrow> string set" where
  "joined_of v k = {x. \<exists>n. v_joined v x = Some n \<and> fjn_fork n = k}"

definition fork_ok :: "dao_view \<Rightarrow> string \<Rightarrow> fork \<Rightarrow> bool" where
  "fork_ok v k f \<longleftrightarrow> fork_id f = k \<and>
     fork_tokensInEscrowCount f = word_of_nat (card (escrow_of v k)) \<and>
     fork_tokensForkingCount f =
       (if fork_executed f = Some True
        then word_of_nat (card (escrow_of v k) + card (joined_of v k)) else 0) \<and>
     (fork_executed f \<noteq> Some True \<longrightarrow> joined_of v k = {})"

definition forks_ok :: "dao_view \<Rightarrow> bool" where
  "forks_ok v \<longleftrightarrow> finite (dom (v_escrowed v)) \<and> finite (dom (v_joined v)) \<and>
     (\<forall>k f. v_forks v k = Some f \<longrightarrow> fork_ok v k f) \<and>
     (\<forall>k. v_forks v k = None \<longrightarrow> escrow_of v k = {} \<and> joined_of v k = {})"

definition dao_inv :: "store \<Rightarrow> bool" where
  "dao_inv s \<longleftrightarrow> tallies_ok (view s) \<and> counts_ok (view s) \<and> forks_ok (view s)"

text \<open>What the DAO contract guarantees about an event when it is emitted.\<close>

definition has_proposal :: "int \<Rightarrow> store \<Rightarrow> bool" where
  "has_proposal i s \<longleftrightarrow> load_proposal (int_to_string i) s \<noteq> None"

definition queue_marks :: "int \<Rightarrow> store \<Rightarrow> (int option \<times> int option) option" where
  "queue_marks i s = map_option (\<lambda>p. (prop_queuedBlock p, prop_executedBlock p))
     (load_proposal (int_to_string i) s)"

definition fork_done :: "int \<Rightarrow> store \<Rightarrow> bool" where
  "fork_done i s \<longleftrightarrow> fork_executed (getOrCreateFork i s) = Some True"

definition forkKey :: "int \<Rightarrow> int \<Rightarrow> string" where
  "forkKey i t = int_to_string i @ ''-'' @ int_to_string t"

fun legal_dao_event :: "dao_event \<Rightarrow> store \<Rightarrow> bool" where
  "legal_dao_event (ProposalCreatedV1 c e) s \<longleftrightarrow> \<not> has_proposal (ep_id e) s"
| "legal_dao_event (ProposalCreatedV3 c e) s \<longleftrightarrow> \<not> has_proposal (ep_id e) s"
| "legal_dao_event (ProposalCreatedOnTimelockV1 c i) s \<longleftrightarrow> has_proposal i s"
| "legal_dao_event (ProposalUpdated c i t v sg cd d m) s \<longleftrightarrow> has_proposal i s"
| "legal_dao_event (ProposalDescriptionUpdated c i d m) s \<longleftrightarrow> has_proposal i s"
| "legal_dao_event (ProposalTransactionsUpdated c i t v sg cd m) s \<longleftrightarrow> has_proposal i s"
| "legal_dao_event (ProposalCanceled c i) s \<longleftrightarrow> has_proposal i s"
| "legal_dao_event (ProposalVetoed c i) s \<longleftrightarrow> has_proposal i s"
| "legal_dao_event (ProposalQueued c i eta) s \<longleftrightarrow> queue_marks i s = Some (None, None)"
| "legal_dao_event (ProposalExecuted c i) s \<longleftrightarrow> (\<exists>b. queue_marks i s = Some (Some b, None))"
| "legal_dao_event (VoteCast c v i spt n r) s \<longleftrightarrow>
     has_proposal i s \<and> load_vote (voteId v i) s = None \<and> spt \<in> {0, 1, 2}"
| "legal_dao_event (ProposalObjectionPeriodSet c i b) s \<longleftrightarrow> has_proposal i s"
| "legal_dao_event (EscrowedToFork c f ow ts ps r) s \<longleftrightarrow>
     \<not> fork_done f s \<and> distinct ts \<and> (\<forall>t \<in> set ts. load_escrowed_noun (forkKey f t) s = None)"
| "legal_dao_event (WithdrawFromForkEscrow c f ow ts) s \<longleftrightarrow>
     \<not> fork_done f s \<and> distinct ts \<and>
     (\<forall>t \<in> set ts. map_option en_fork (load_escrowed_noun (forkKey f t) s) = Some (int_to_string f))"
| "legal_dao_event (ExecuteFork c f tr tk en n) s \<longleftrightarrow>
     \<not> fork_done f s \<and> n = sint (fork_tokensInEscrowCount (getOrCreateFork f s))"
| "legal_dao_event (JoinFork c f ow ts ps r) s \<longleftrightarrow>
     fork_done f s \<and> distinct ts \<and> (\<forall>t \<in> set ts. load_fork_joined_noun (forkKey f t) s = None)"
| "legal_dao_event _ s \<longleftrightarrow> True"

section \<open>Preservation: edits of a proposal\<close>

definition same_counts :: "proposal \<Rightarrow> proposal \<Rightarrow> bool" where
  "same_counts p q \<longleftrightarrow> prop_id q = prop_id p \<and> prop_againstVotes q = prop_againstVotes p \<and>
     prop_forVotes q = prop_forVotes p \<and> prop_abstainVotes q = prop_abstainVotes p \<and>
     prop_queuedBlock q = prop_queuedBlock p \<and> prop_executedBlock q = prop_executedBlock p"

definition edited :: "string \<Rightarrow> dao_view \<Rightarrow> dao_view \<Rightarrow> bool" where
  "edited k v v' \<longleftrightarrow> (\<exists>p q. v_proposals v k = Some p \<and> same_counts p q \<and>
     v' = v\<lparr>v_proposals := (v_proposals v)(k \<mapsto> q)\<rparr>)"

lemma editedI:
  "v_proposals v k = Some p \<Longrightarrow> same_counts p q \<Longrightarrow>
   edited k v (v\<lparr>v_proposals := (v_proposals v)(k \<mapsto> q)\<rparr>)"
  by (auto simp: edited_def)

lemma ballots_cong: "v_votes v' = v_votes v \<Longrightarrow> ballots v' k c = ballots v k c \<and> tally v' k c = tally v k c"
  by (simp add: ballots_def tally_def weight_def)

lemma forks_cong:
  "v_forks v' = v_forks v \<Longrightarrow> v_escrowed v' = v_escrowed v \<Longrightarrow> v_joined v' = v_joined v \<Longrightarrow>
   forks_ok v' = forks_ok v"
  by (simp add: forks_ok_def fork_ok_def escrow_of_def joined_of_def)

lemma tallies_edit:
  assumes v: "tallies_ok v" "v_proposals v k = Some p"
    and q: "prop_id q = prop_id p" "prop_againstVotes q = prop_againstVotes p"
      "prop_forVotes q = prop_forVotes p" "prop_abstainVotes q = prop_abstainVotes p"
    and v': "v_proposals v' = (v_proposals v)(k \<mapsto> q)" "v_votes v' = v_votes v"
  shows "tallies_ok v'"
proof -
  have d: "dom (v_proposals v') = dom (v_proposals v)" using v(2) v'(1) by auto
  have t: "tally v' j c = tally v j c" for j c using ballots_cong [OF v'(2)] by simp
  show ?thesis
    unfolding tallies_ok_def v'(2) d t
  proof (intro conjI allI impI)
    fix j r assume "v_proposals v' j = Some r"
    then have "v_proposals v j = Some r \<or> j = k \<and> r = q" using v'(1) by (simp split: if_splits)
    then show "prop_id r = j" "prop_againstVotes r = Some (tally v j 0)"
      "prop_forVotes r = Some (tally v j 1)" "prop_abstainVotes r = Some (tally v j 2)"
      using v q by (auto simp: tallies_ok_def)
  qed (use v in \<open>simp_all add: tallies_ok_def\<close>)
qed

lemma edited_inv:
  assumes "edited k v v'"
  shows "tallies_ok v \<Longrightarrow> tallies_ok v'" "counts_ok v \<Longrightarrow> counts_ok v'" "forks_ok v \<Longrightarrow> forks_ok v'"
proof -
  obtain p q where pq: "v_proposals v k = Some p" "same_counts p q"
      "v' = v\<lparr>v_proposals := (v_proposals v)(k \<mapsto> q)\<rparr>"
    using assms by (auto simp: edited_def)
  have d: "dom (v_proposals v') = dom (v_proposals v)" using pq(1,3) by auto
  have "j \<in> queue v' \<longleftrightarrow> j \<in> queue v" for j
    using pq by (cases "j = k") (simp_all add: queue_def same_counts_def)
  then have qu: "queue v' = queue v" by blast
  show "tallies_ok v \<Longrightarrow> tallies_ok v'"
    by (rule tallies_edit [OF _ pq(1)]) (use pq(2,3) in \<open>simp_all add: same_counts_def\<close>)
  show "counts_ok v \<Longrightarrow> counts_ok v'" using pq(3) d qu by (simp add: counts_ok_def)
  show "forks_ok v \<Longrightarrow> forks_ok v'" using pq(3) by (subst forks_cong) simp_all
qed

fun edit_target :: "dao_event \<Rightarrow> int option" where
  "edit_target (ProposalCreatedOnTimelockV1 c i) = Some i"
| "edit_target (ProposalUpdated c i t v sg cd d m) = Some i"
| "edit_target (ProposalDescriptionUpdated c i d m) = Some i"
| "edit_target (ProposalTransactionsUpdated c i t v sg cd m) = Some i"
| "edit_target (ProposalCanceled c i) = Some i"
| "edit_target (ProposalVetoed c i) = Some i"
| "edit_target (ProposalObjectionPeriodSet c i b) = Some i"
| "edit_target _ = None"

lemmas edit_handler_defs = handleProposalCreatedOnTimelockV1_def handleProposalUpdated_def
  handleProposalDescriptionUpdated_def handleProposalTransactionsUpdated_def
  handleProposalCanceled_def handleProposalVetoed_def handleProposalObjectionPeriodSet_def

lemma edit_events:
  assumes k: "tallies_ok (view s)" and l: "legal_dao_event e s"
    and h: "handle_dao_event env e s = Some s'" and i: "edit_target e = Some i"
  shows "edited (int_to_string i) (view s) (view s')"
proof -
  obtain p where p: "load_proposal (int_to_string i) s = Some p"
    using l i by (cases e) (auto simp: has_proposal_def)
  have id: "prop_id p = int_to_string i"
    using k p by (auto simp: tallies_ok_def view_def load_proposal_def)
  have vp: "v_proposals (view s) (int_to_string i) = Some p"
    using p by (simp add: view_def load_proposal_def)
  show ?thesis
    using i h p id
    by (cases e) (auto simp: edit_handler_defs proposal_known Let_def same_counts_def
        dest!: view_capture intro!: editedI [OF vp])
qed

section \<open>Preservation: creation, queueing and execution\<close>

lemma fill_snapshot_fields:
  assumes "fill_snapshot g p = Some q"
  shows "prop_id q = prop_id p \<and> prop_forVotes q = prop_forVotes p \<and>
    prop_againstVotes q = prop_againstVotes p \<and> prop_abstainVotes q = prop_abstainVotes p \<and>
    prop_queuedBlock q = prop_queuedBlock p \<and> prop_executedBlock q = prop_executedBlock p \<and>
    prop_status q = prop_status p"
  using assms by (auto simp: fill_snapshot_def)

text \<open>A new proposal is counted, saved with empty tallies, and captured as its first version.\<close>

lemma created_parts:
  assumes "handleProposalCreated env pp s = Some s'"
  obtains d :: delegate and ids s2 q where
    "view s2 = view (snd (getOrCreateProposal (pp_id pp) s))"
    "fill_snapshot (getGovernanceEntity s2) (fill_supply pp ids (getGovernanceEntity s2)
       (fill_proposal pp (del_id d) (fst (getOrCreateProposal (pp_id pp) s)))) = Some q"
    "captureProposalVersion env (pp_txHash pp) (pp_logIndex pp)
       (fill_quorum (fst (getOrCreateDynamicQuorumParams None s2)) q) False []
       (save_proposal (fill_quorum (fst (getOrCreateDynamicQuorumParams None s2)) q)
          (snd (getOrCreateDynamicQuorumParams None s2))) = Some s'"
proof -
  let ?r = "getOrCreateDelegateWithNullOption (pp_proposer pp) True True (snd (getOrCreateProposal (pp_id pp) s))"
  let ?s1 = "if created (fst ?r) \<and> pp_signers pp = []
    then log_error ''Delegate {} not found on ProposalCreated. tx_hash: {}''
           [pp_proposer pp, pp_txHash pp] (snd ?r) else snd ?r"
  from assms [unfolded handleProposalCreated_def Let_def case_prod_beta bind_eq_Some_iff]
  obtain d :: delegate and y q where y: "signer_delegates (pp_txHash pp) (pp_signers pp) ?s1 = Some y"
    and rest: "fill_snapshot (getGovernanceEntity (snd y))
       (fill_supply pp (fst y) (getGovernanceEntity (snd y))
       (fill_proposal pp (del_id d) (fst (getOrCreateProposal (pp_id pp) s)))) = Some q"
    "captureProposalVersion env (pp_txHash pp) (pp_logIndex pp)
       (fill_quorum (fst (getOrCreateDynamicQuorumParams None (snd y))) q) False []
       (save_proposal (fill_quorum (fst (getOrCreateDynamicQuorumParams None (snd y))) q)
          (snd (getOrCreateDynamicQuorumParams None (snd y)))) = Some s'"
    by (elim exE conjE) (rule that)
  from y have "view (snd y) = view (snd (getOrCreateProposal (pp_id pp) s))"
    by (cases y) (auto dest!: view_signers split: if_splits)
  then show ?thesis using rest by (rule that)
qed

lemma created_effect:
  assumes h: "handleProposalCreated env pp s = Some s'" and n: "load_proposal (pp_id pp) s = None"
    and g: "v_govId (view s) = GOVERNANCE"
  shows "\<exists>p. prop_id p = pp_id pp \<and> prop_forVotes p = Some 0 \<and> prop_againstVotes p = Some 0 \<and>
    prop_abstainVotes p = Some 0 \<and> prop_queuedBlock p = None \<and> prop_executedBlock p = None \<and>
    prop_status p = Some (pp_status pp) \<and>
    view s' = (view s)\<lparr>v_proposals := (v_proposals (view s))(pp_id pp \<mapsto> p),
      v_count := v_count (view s) + 1\<rparr>"
proof -
  from created_parts [OF h] obtain d :: delegate and ids s2 q where
    s2: "view s2 = view (snd (getOrCreateProposal (pp_id pp) s))"
    and q: "fill_snapshot (getGovernanceEntity s2) (fill_supply pp ids (getGovernanceEntity s2)
       (fill_proposal pp (del_id d) (fst (getOrCreateProposal (pp_id pp) s)))) = Some q"
    and c: "captureProposalVersion env (pp_txHash pp) (pp_logIndex pp)
       (fill_quorum (fst (getOrCreateDynamicQuorumParams None s2)) q) False []
       (save_proposal (fill_quorum (fst (getOrCreateDynamicQuorumParams None s2)) q)
          (snd (getOrCreateDynamicQuorumParams None s2))) = Some s'" .
  let ?p = "fill_quorum (fst (getOrCreateDynamicQuorumParams None s2)) q"
  let ?g = "getGovernanceEntity s"
  have "view (snd (getOrCreateProposal (pp_id pp) s)) = (view s)\<lparr>v_count := v_count (view s) + 1\<rparr>"
    using n g view_save_governance [of "?g\<lparr>gov_proposals := gov_proposals ?g + 1\<rparr>" s]
    by (simp add: getOrCreateProposal_def Let_def) (simp add: view_def)
  moreover have "prop_id ?p = pp_id pp" "prop_forVotes ?p = Some 0" "prop_againstVotes ?p = Some 0"
    "prop_abstainVotes ?p = Some 0" "prop_queuedBlock ?p = None" "prop_executedBlock ?p = None"
    "prop_status ?p = Some (pp_status pp)"
    using fill_snapshot_fields [OF q] n
    by (simp_all add: getOrCreateProposal_def Let_def new_proposal_def fill_supply_def
        fill_proposal_def fill_quorum_def)
  ultimately show ?thesis
    using view_capture [OF c] s2 by (intro exI [of _ ?p]) simp
qed

text \<open>A view that gained a fresh proposal with empty tallies.\<close>

lemma no_ballots:
  "tallies_ok v \<Longrightarrow> v_proposals v k = None \<Longrightarrow> ballots v k c = {}"
  by (fastforce simp: tallies_ok_def ballots_def)

lemma fresh_proposal_inv:
  assumes v: "v_proposals v k = None" and p: "prop_id p = k" "prop_forVotes p = Some 0"
      "prop_againstVotes p = Some 0" "prop_abstainVotes p = Some 0" "prop_queuedBlock p = None"
    and v': "v' = v\<lparr>v_proposals := (v_proposals v)(k \<mapsto> p), v_count := v_count v + 1\<rparr>"
  shows "tallies_ok v \<Longrightarrow> tallies_ok v'" "counts_ok v \<Longrightarrow> counts_ok v'" "forks_ok v \<Longrightarrow> forks_ok v'"
proof -
  have same: "v_votes v' = v_votes v" using v' by simp
  have t: "tally v' j c = tally v j c" for j c using ballots_cong [OF same] by simp
  show "tallies_ok v'" if "tallies_ok v"
    unfolding tallies_ok_def same t
  proof (intro conjI allI impI)
    fix j r assume r: "v_proposals v' j = Some r"
    have z: "tally v k c = 0" for c using no_ballots [OF that v] by (simp add: tally_def)
    show "prop_id r = j" "prop_againstVotes r = Some (tally v j 0)"
      "prop_forVotes r = Some (tally v j 1)" "prop_abstainVotes r = Some (tally v j 2)"
      using that r p z v' by (auto simp: tallies_ok_def split: if_splits)
  next
    fix x w assume "v_votes v x = Some w"
    then show "\<exists>j\<in>dom (v_proposals v'). vote_proposal w = Some j"
      using that v' by (fastforce simp: tallies_ok_def)
  qed (use that in \<open>simp add: tallies_ok_def\<close>)
  have "queue v' = queue v" using v p v' by (auto simp: queue_def)
  then show "counts_ok v'" if "counts_ok v"
    using that v v' by (simp add: counts_ok_def card_insert_if) (auto simp: dom_def)
  show "forks_ok v \<Longrightarrow> forks_ok v'" using v' by (subst forks_cong) simp_all
qed

lemma queue_effect:
  assumes p: "load_proposal (int_to_string i) s = Some p" and id: "prop_id p = int_to_string i"
    and g: "v_govId (view s) = GOVERNANCE"
  shows "\<exists>q. same_counts p (q\<lparr>prop_queuedBlock := prop_queuedBlock p\<rparr>) \<and> prop_queuedBlock q \<noteq> None \<and>
    prop_status q = Some QUEUED \<and>
    view (handleProposalQueued c i eta s) = (view s)\<lparr>
      v_proposals := (v_proposals (view s))(int_to_string i \<mapsto> q), v_queued := v_queued (view s) + 1\<rparr>"
  using g id
  by (intro exI [of _ "p\<lparr>prop_status := Some QUEUED, prop_executionETA := Some eta,
         prop_queuedBlock := Some (ev_blockNumber c), prop_queuedTimestamp := Some (ev_blockTimestamp c)\<rparr>"])
     (simp add: handleProposalQueued_def proposal_known [OF p] Let_def same_counts_def
        view_save_governance view_def [of s])

lemma execute_effect:
  assumes p: "load_proposal (int_to_string i) s = Some p" and id: "prop_id p = int_to_string i"
    and g: "v_govId (view s) = GOVERNANCE"
  shows "\<exists>q. same_counts p (q\<lparr>prop_executedBlock := prop_executedBlock p\<rparr>) \<and> prop_executedBlock q \<noteq> None \<and>
    prop_status q = Some EXECUTED \<and>
    view (handleProposalExecuted c i s) = (view s)\<lparr>
      v_proposals := (v_proposals (view s))(int_to_string i \<mapsto> q), v_queued := v_queued (view s) - 1\<rparr>"
  using g id
  by (intro exI [of _ "p\<lparr>prop_status := Some EXECUTED, prop_executionETA := None,
         prop_executedBlock := Some (ev_blockNumber c), prop_executedTimestamp := Some (ev_blockTimestamp c)\<rparr>"])
     (simp add: handleProposalExecuted_def proposal_known [OF p] Let_def same_counts_def
        view_save_governance view_def [of s])

text \<open>Tallies and forks do not see the marks of the queue.\<close>

lemma recount_inv:
  assumes v: "v_proposals v k = Some p" "same_counts p (p'\<lparr>prop_queuedBlock := prop_queuedBlock p,
      prop_executedBlock := prop_executedBlock p\<rparr>)"
    and v': "v' = v\<lparr>v_proposals := (v_proposals v)(k \<mapsto> p'), v_queued := n\<rparr>"
  shows "tallies_ok v \<Longrightarrow> tallies_ok v'" "forks_ok v \<Longrightarrow> forks_ok v'"
    "counts_ok v \<Longrightarrow> n = int (card (queue v')) \<Longrightarrow> counts_ok v'"
proof -
  have d: "dom (v_proposals v') = dom (v_proposals v)" using v v' by auto
  show "tallies_ok v \<Longrightarrow> tallies_ok v'"
    by (rule tallies_edit [OF _ v(1)]) (use v(2) v' in \<open>simp_all add: same_counts_def\<close>)
  show "forks_ok v \<Longrightarrow> forks_ok v'" using v' by (subst forks_cong) simp_all
  show "counts_ok v'" if "counts_ok v" "n = int (card (queue v'))"
    using that v' d by (simp add: counts_ok_def)
qed

lemma queue_finite: "counts_ok v \<Longrightarrow> finite (queue v)"
  by (rule finite_subset [of _ "dom (v_proposals v)"]) (auto simp: queue_def counts_ok_def)

lemma queued_inv:
  assumes v: "v_proposals v k = Some p" "same_counts p (q\<lparr>prop_queuedBlock := prop_queuedBlock p\<rparr>)"
      "prop_queuedBlock q \<noteq> None" "prop_queuedBlock p = None" "prop_executedBlock p = None"
    and v': "v' = v\<lparr>v_proposals := (v_proposals v)(k \<mapsto> q), v_queued := v_queued v + 1\<rparr>"
  shows "tallies_ok v \<Longrightarrow> tallies_ok v'" "forks_ok v \<Longrightarrow> forks_ok v'" "counts_ok v \<Longrightarrow> counts_ok v'"
proof -
  have s: "same_counts p (q\<lparr>prop_queuedBlock := prop_queuedBlock p, prop_executedBlock := prop_executedBlock p\<rparr>)"
    using v(2) by (simp add: same_counts_def)
  note r = recount_inv [OF v(1) s v']
  show "tallies_ok v \<Longrightarrow> tallies_ok v'" "forks_ok v \<Longrightarrow> forks_ok v'" using r(1,2) by blast+
  have "queue v' = insert k (queue v)" "k \<notin> queue v"
    using v v' by (auto simp: queue_def same_counts_def)
  then show "counts_ok v'" if "counts_ok v"
    using that queue_finite [OF that] by (intro r(3)) (simp_all add: counts_ok_def)
qed

lemma executed_inv:
  assumes v: "v_proposals v k = Some p" "same_counts p (q\<lparr>prop_executedBlock := prop_executedBlock p\<rparr>)"
      "prop_executedBlock q \<noteq> None" "prop_queuedBlock p \<noteq> None" "prop_executedBlock p = None"
    and v': "v' = v\<lparr>v_proposals := (v_proposals v)(k \<mapsto> q), v_queued := v_queued v - 1\<rparr>"
  shows "tallies_ok v \<Longrightarrow> tallies_ok v'" "forks_ok v \<Longrightarrow> forks_ok v'" "counts_ok v \<Longrightarrow> counts_ok v'"
proof -
  have s: "same_counts p (q\<lparr>prop_queuedBlock := prop_queuedBlock p, prop_executedBlock := prop_executedBlock p\<rparr>)"
    using v(2) by (simp add: same_counts_def)
  note r = recount_inv [OF v(1) s v']
  show "tallies_ok v \<Longrightarrow> tallies_ok v'" "forks_ok v \<Longrightarrow> forks_ok v'" using r(1,2) by blast+
  have "queue v' = queue v - {k}" "k \<in> queue v"
    using v v' by (auto simp: queue_def same_counts_def split: if_splits)
  then show "counts_ok v'" if "counts_ok v"
    using that queue_finite [OF that] by (intro r(3)) (simp_all only: counts_ok_def int_card_remove)
qed

section \<open>Preservation: votes\<close>

lemma update_quorum_fields:
  "update_quorum env d p = Some q \<Longrightarrow> q = p \<or> (\<exists>n. q = p\<lparr>prop_quorumVotes := Some n\<rparr>)"
  by (cases "dq_dynamicQuorumStartBlock d") (auto simp: update_quorum_def split: if_split_asm)

definition counted :: "i32 \<Rightarrow> int \<Rightarrow> proposal \<Rightarrow> proposal \<Rightarrow> bool" where
  "counted c n p q \<longleftrightarrow> prop_id q = prop_id p \<and>
     prop_queuedBlock q = prop_queuedBlock p \<and> prop_executedBlock q = prop_executedBlock p \<and>
     prop_againstVotes q = (if c = 0 then map_option (\<lambda>x. x + n) (prop_againstVotes p) else prop_againstVotes p) \<and>
     prop_forVotes q = (if c = 1 then map_option (\<lambda>x. x + n) (prop_forVotes p) else prop_forVotes p) \<and>
     prop_abstainVotes q = (if c = 2 then map_option (\<lambda>x. x + n) (prop_abstainVotes p) else prop_abstainVotes p) \<and>
     prop_status q = (if prop_status p = Some PENDING then Some ACTIVE else prop_status p)"

lemma count_vote_counted:
  assumes "count_vote c n p = Some q" and "update_quorum env d q = Some r"
    and "prop_status r = Some st"
  shows "counted c n p (if st = PENDING then r\<lparr>prop_status := Some ACTIVE\<rparr> else r)"
  using assms update_quorum_fields [OF assms(2)]
  by (auto simp: count_vote_def counted_def split: if_splits)

lemma vote_effect:
  assumes h: "handleVoteCast env c a i spt n reason s = Some s'"
    and p: "load_proposal (int_to_string i) s = Some p" and id: "prop_id p = int_to_string i"
    and new: "load_vote (voteId a i) s = None"
  shows "\<exists>q w. counted spt n p q \<and> vote_proposal w = Some (int_to_string i) \<and>
    vote_votes w = Some n \<and> vote_supportDetailed w = Some spt \<and>
    view s' = (view s)\<lparr>v_proposals := (v_proposals (view s))(int_to_string i \<mapsto> q),
      v_votes := (v_votes (view s))(voteId a i \<mapsto> w)\<rparr>"
proof -
  let ?r = "getOrCreateDelegateWithNullOption (toHexString a) True True s"
  let ?s1 = "if created (fst ?r) then log_error ''Delegate {} not found on VoteCast. tx_hash: {}''
                       [toHexString a, toHexString (ev_txHash c)] (snd ?r) else snd ?r"
  have vs1: "view ?s1 = view s" by simp
  from h [unfolded handleVoteCast_def proposal_known [OF p] Let_def case_prod_beta bind_eq_Some_iff fst_conv snd_conv]
  obtain voter :: delegate and q r st w where
    w: "vote_id w = voteId a i" "vote_proposal w = Some (int_to_string i)" "vote_votes w = Some n"
       "vote_supportDetailed w = Some spt"
    and q: "count_vote spt n p = Some q"
    and r: "update_quorum env (fst (getOrCreateDynamicQuorumParams None (save_vote w ?s1))) q = Some r"
    and st: "prop_status r = Some st"
    and s': "s' = save_proposal (if st = PENDING then r\<lparr>prop_status := Some ACTIVE\<rparr> else r)
        (snd (getOrCreateDynamicQuorumParams None (save_vote w ?s1)))"
    using id new by (elim exE conjE) (rule that, auto simp: getOrCreateVote_def new_vote_def fill_vote_def Let_def)
  note c = count_vote_counted [OF q r st]
  have "prop_id (if st = PENDING then r\<lparr>prop_status := Some ACTIVE\<rparr> else r) = int_to_string i"
    using c id by (simp add: counted_def)
  then have "view s' = (view s)\<lparr>v_proposals := (v_proposals (view s))
        (int_to_string i \<mapsto> (if st = PENDING then r\<lparr>prop_status := Some ACTIVE\<rparr> else r)),
      v_votes := (v_votes (view s))(voteId a i \<mapsto> w)\<rparr>"
    unfolding s' using w(1) vs1 by (simp del: if_split)
  with c w show ?thesis by blast
qed

lemma ballots_finite: "tallies_ok v \<Longrightarrow> finite (ballots v k c)"
  by (rule finite_subset [of _ "dom (v_votes v)"]) (auto simp: ballots_def tallies_ok_def)

lemma tally_new_vote:
  assumes "tallies_ok v" and x: "v_votes v x = None"
    and w: "vote_proposal w = Some k" "vote_votes w = Some n" "vote_supportDetailed w = Some c"
    and v': "v_votes v' = (v_votes v)(x \<mapsto> w)"
  shows "tally v' j d = (if j = k \<and> d = c then tally v j d + n else tally v j d)"
proof -
  have b: "ballots v' j d = (if j = k \<and> d = c then insert x (ballots v j d) else ballots v j d)"
    using x w v' by (auto simp: ballots_def)
  have nx: "x \<notin> ballots v j d" using x by (simp add: ballots_def)
  have "(\<Sum>y\<in>ballots v j d. weight v' y) = tally v j d"
    unfolding tally_def using nx v' by (intro sum.cong) (auto simp: weight_def)
  moreover have "weight v' x = n" using w(2) v' by (simp add: weight_def)
  ultimately show ?thesis
    using nx ballots_finite [OF assms(1), of j d]
    unfolding tally_def [of v'] b by auto
qed

lemma voted_inv:
  assumes p: "v_proposals v k = Some p" "counted c n p q"
    and w: "v_votes v x = None" "vote_proposal w = Some k" "vote_votes w = Some n"
      "vote_supportDetailed w = Some c"
    and v': "v' = v\<lparr>v_proposals := (v_proposals v)(k \<mapsto> q), v_votes := (v_votes v)(x \<mapsto> w)\<rparr>"
  shows "tallies_ok v \<Longrightarrow> tallies_ok v'" "counts_ok v \<Longrightarrow> counts_ok v'" "forks_ok v \<Longrightarrow> forks_ok v'"
proof -
  have d: "dom (v_proposals v') = dom (v_proposals v)" using p(1) v' by auto
  show "tallies_ok v'" if ok: "tallies_ok v"
  proof -
    have t: "tally v' j e = (if j = k \<and> e = c then tally v j e + n else tally v j e)" for j e
      using tally_new_vote [OF ok w, of v'] v' by simp
    show ?thesis
      unfolding tallies_ok_def d t
    proof (intro conjI allI impI)
      fix j r assume "v_proposals v' j = Some r"
      then have r: "j \<noteq> k \<and> v_proposals v j = Some r \<or> j = k \<and> r = q"
        using v' by (simp split: if_splits)
      then show "prop_id r = j"
        "prop_againstVotes r = Some (if j = k \<and> 0 = c then tally v j 0 + n else tally v j 0)"
        "prop_forVotes r = Some (if j = k \<and> 1 = c then tally v j 1 + n else tally v j 1)"
        "prop_abstainVotes r = Some (if j = k \<and> 2 = c then tally v j 2 + n else tally v j 2)"
        using ok p by (auto simp: tallies_ok_def counted_def)
    next
      fix y u assume "v_votes v' y = Some u"
      then show "\<exists>j\<in>dom (v_proposals v). vote_proposal u = Some j"
        using ok v' w(2) p(1) by (auto simp: tallies_ok_def split: if_splits)
    qed (use ok v' in \<open>simp add: tallies_ok_def\<close>)
  qed
  have "j \<in> queue v' \<longleftrightarrow> j \<in> queue v" for j
    using p v' by (cases "j = k") (simp_all add: queue_def counted_def)
  then have qu: "queue v' = queue v" by blast
  show "counts_ok v \<Longrightarrow> counts_ok v'" using v' d qu by (simp add: counts_ok_def)
  show "forks_ok v \<Longrightarrow> forks_ok v'" using v' by (subst forks_cong) simp_all
qed

end
