(* ===== verification/Subgraph_Quorum.thy ===== *)
theory Subgraph_Quorum
  imports Subgraph_Helpers
begin

text \<open>
  The dynamic quorum of \<open>src/utils/dynamicQuorum.ts\<close>, against the formula of the DAO
  contract: the minimum quorum in basis points plus the coefficient times the share of
  against votes, capped at the maximum, applied to the supply.
\<close>

definition quorum_bps :: "int \<Rightarrow> int \<Rightarrow> int \<Rightarrow> int \<Rightarrow> int \<Rightarrow> int" where
  "quorum_bps against tot mn mx coeff =
     min mx (mn + coeff * (against * 10000 div tot) div 1000000)"

definition quorum_spec :: "int \<Rightarrow> int \<Rightarrow> int \<Rightarrow> int \<Rightarrow> int \<Rightarrow> int" where
  "quorum_spec against tot mn mx coeff =
     tot * quorum_bps against tot mn mx coeff div 10000"

lemma sint_i32_bounds: "- (2 ^ 31) \<le> sint (w :: i32)" "sint (w :: i32) < 2 ^ 31"
  using sint_ge [of w] sint_lt [of w] by simp_all

lemma sint_word_of_int_i32:
  "- (2 ^ 31) \<le> n \<Longrightarrow> n < 2 ^ 31 \<Longrightarrow> sint (word_of_int n :: i32) = n"
  by (simp add: sint_sbintrunc' signed_take_bit_int_eq_self)

lemma quorum_bps_bounds:
  assumes "0 < tot" "0 \<le> against" "0 \<le> coeff" "0 \<le> mn" "mn \<le> mx"
  shows "mn \<le> quorum_bps against tot mn mx coeff"
    and "quorum_bps against tot mn mx coeff \<le> mx"
proof -
  have "0 \<le> coeff * (against * 10000 div tot) div 1000000"
    using assms by (simp add: pos_imp_zdiv_nonneg_iff)
  then show "mn \<le> quorum_bps against tot mn mx coeff"
    using assms by (simp add: quorum_bps_def)
  show "quorum_bps against tot mn mx coeff \<le> mx" by (simp add: quorum_bps_def)
qed

text \<open>Inside the 32-bit range the indexer computes the contract's formula.\<close>

lemma dynamicQuorumVotes_spec:
  assumes env: "toI32_in_range env"
    and "0 < tot" "0 \<le> against" "0 \<le> coeff" "0 \<le> sint mn" "sint mn \<le> sint mx"
    and fits: "sint mn + coeff * (against * 10000 div tot) div 1000000 < 2 ^ 31"
  shows "dynamicQuorumVotes env against tot mn mx coeff =
    Some (quorum_spec against tot (sint mn) (sint mx) coeff)"
proof -
  let ?adj = "coeff * (against * 10000 div tot) div 1000000"
  have share: "0 \<le> against * 10000 div tot" using assms by (simp add: pos_imp_zdiv_nonneg_iff)
  then have adj: "0 \<le> ?adj" using assms by (simp add: pos_imp_zdiv_nonneg_iff)
  have conv: "bigint_toI32 env (?adj + sint mn) = Some (word_of_int (?adj + sint mn))"
    using env fits adj assms(5) by (simp add: toI32_in_range_def add.commute)
  have val: "sint (word_of_int (?adj + sint mn) :: i32) = ?adj + sint mn"
    using fits adj assms(5) by (intro sint_word_of_int_i32) (simp_all add: add.commute)
  let ?q = "min (sint mx) (?adj + sint mn)"
  have q: "0 \<le> ?q" "?q < 2 ^ 31" using adj assms sint_i32_bounds [of mx] by auto
  then have "sint (word_of_int ?q :: i32) = ?q" by (intro sint_word_of_int_i32) auto
  then have res: "bigint_div (tot * sint (word_of_int ?q :: i32)) 10000 = Some (tot * ?q div 10000)"
    using q assms by simp
  have share_eq: "bigint_div (against * BIGINT_10K) tot = Some (against * 10000 div tot)"
    using assms by simp
  have adj_eq: "bigint_div (coeff * (against * 10000 div tot)) 1000000 = Some ?adj"
    using share assms by simp
  have "dynamicQuorumVotes env against tot mn mx coeff = Some (tot * ?q div 10000)"
    by (simp only: dynamicQuorumVotes_def share_eq adj_eq conv val res Let_def Option.bind.simps)
  then show ?thesis by (simp add: quorum_spec_def quorum_bps_def add.commute)
qed

text \<open>The contract's parameter ranges keep every intermediate value inside 32 bits.\<close>

lemma quorum_fits:
  assumes "0 < tot" "0 \<le> against" "against \<le> tot" "0 \<le> coeff" "coeff < 2 ^ 32"
    and "mn < 2 ^ 16"
  shows "mn + coeff * (against * 10000 div tot) div 1000000 < (2 :: int) ^ 31"
proof -
  have "against * 10000 div tot \<le> tot * 10000 div tot"
    using assms by (intro zdiv_mono1) auto
  then have s: "against * 10000 div tot \<le> 10000" using assms by simp
  have s0: "0 \<le> against * 10000 div tot" using assms by (simp add: pos_imp_zdiv_nonneg_iff)
  have "coeff * (against * 10000 div tot) \<le> 2 ^ 32 * 10000"
    using assms s s0 by (intro mult_mono) auto
  then have "coeff * (against * 10000 div tot) div 1000000 \<le> 2 ^ 32 * 10000 div 1000000"
    by (intro zdiv_mono1) auto
  then show ?thesis using assms by simp
qed

text \<open>
  C12: for every vote the contract can report (against votes within the supply, a coefficient below
  two to the 32, basis points below two to the 16), the quorum is computed without aborting,
  equals the contract's formula and lies between the minimum and the maximum quorum.
\<close>

theorem dynamicQuorumVotes_correct:
  assumes "toI32_in_range env"
    and "0 < tot" "0 \<le> against" "against \<le> tot" "0 \<le> coeff" "coeff < 2 ^ 32"
    and "0 \<le> sint mn" "sint mn \<le> sint mx" "sint mn < 2 ^ 16"
  shows "\<exists>q. dynamicQuorumVotes env against tot mn mx coeff = Some q \<and>
    q = quorum_spec against tot (sint mn) (sint mx) coeff \<and>
    tot * sint mn div 10000 \<le> q \<and> q \<le> tot * sint mx div 10000"
proof -
  have "dynamicQuorumVotes env against tot mn mx coeff =
      Some (quorum_spec against tot (sint mn) (sint mx) coeff)"
    using assms quorum_fits by (intro dynamicQuorumVotes_spec) auto
  moreover have "tot * sint mn div 10000 \<le> quorum_spec against tot (sint mn) (sint mx) coeff"
    using assms quorum_bps_bounds(1) [of tot against coeff "sint mn" "sint mx"]
    unfolding quorum_spec_def by (intro zdiv_mono1 mult_left_mono) auto
  moreover have "quorum_spec against tot (sint mn) (sint mx) coeff \<le> tot * sint mx div 10000"
    using assms quorum_bps_bounds(2) [of tot against coeff "sint mn" "sint mx"]
    unfolding quorum_spec_def by (intro zdiv_mono1 mult_left_mono) auto
  ultimately show ?thesis by blast
qed

definition id_env :: graph_env where
  "id_env = \<lparr>keccak256 = (\<lambda>b. b), abi_encode_tuple = (\<lambda>_. Some []),
     dao_adjustedTotalSupply = (\<lambda>_ _. Some 200),
     bigint_toI32 = (\<lambda>n. if - (2 ^ 31) \<le> n \<and> n < 2 ^ 31 then Some (word_of_int n) else None)\<rparr>"

lemma id_env_toI32: "toI32_in_range id_env"
  by (simp add: toI32_in_range_def id_env_def)

theorem dynamicQuorumVotes_correct_witness:
  "\<exists>q. dynamicQuorumVotes id_env 18 200 1000 4000 1000000 = Some q \<and>
    q = quorum_spec 18 200 1000 4000 1000000 \<and> 200 * 1000 div 10000 \<le> q \<and>
    q \<le> 200 * 4000 div 10000"
  using dynamicQuorumVotes_correct [OF id_env_toI32, of 200 18 1000000 1000 4000] by simp

text \<open>
  more against votes never lower the quorum.
\<close>

theorem dynamicQuorumVotes_mono:
  assumes "toI32_in_range env"
    and "0 < tot" "0 \<le> a" "a \<le> b" "b \<le> tot" "0 \<le> coeff" "coeff < 2 ^ 32"
    and "0 \<le> sint mn" "sint mn \<le> sint mx" "sint mn < 2 ^ 16"
  shows "the (dynamicQuorumVotes env a tot mn mx coeff)
    \<le> the (dynamicQuorumVotes env b tot mn mx coeff)"
proof -
  have "coeff * (a * 10000 div tot) div 1000000 \<le> coeff * (b * 10000 div tot) div 1000000"
    using assms by (intro zdiv_mono1 mult_left_mono) auto
  then have bps: "quorum_bps a tot (sint mn) (sint mx) coeff
      \<le> quorum_bps b tot (sint mn) (sint mx) coeff"
    by (auto simp: quorum_bps_def)
  have "quorum_spec a tot (sint mn) (sint mx) coeff
      \<le> quorum_spec b tot (sint mn) (sint mx) coeff"
    using bps assms unfolding quorum_spec_def by (intro zdiv_mono1 mult_left_mono) auto
  moreover have "dynamicQuorumVotes env a tot mn mx coeff =
      Some (quorum_spec a tot (sint mn) (sint mx) coeff)"
    using assms quorum_fits by (intro dynamicQuorumVotes_spec) auto
  moreover have "dynamicQuorumVotes env b tot mn mx coeff =
      Some (quorum_spec b tot (sint mn) (sint mx) coeff)"
    using assms quorum_fits by (intro dynamicQuorumVotes_spec) auto
  ultimately show ?thesis by simp
qed

theorem dynamicQuorumVotes_mono_witness:
  "the (dynamicQuorumVotes id_env 12 200 1000 4000 1000000)
    \<le> the (dynamicQuorumVotes id_env 18 200 1000 4000 1000000)"
  using dynamicQuorumVotes_mono [OF id_env_toI32, of 200 12 18 1000000 1000 4000] by simp

text \<open>A zero supply aborts the computation, and with it the handler that asked for it.\<close>

lemma dynamicQuorumVotes_zero_supply: "dynamicQuorumVotes env against 0 mn mx coeff = None"
  by (simp add: dynamicQuorumVotes_def bigint_div_def)

text \<open>The values of the project's own unit tests.\<close>

lemma dynamicQuorumVotes_tests:
  "dynamicQuorumVotes id_env 12 200 1000 4000 0 = Some 20"
  "dynamicQuorumVotes id_env 18 200 1000 4000 1000000 = Some 38"
  "dynamicQuorumVotes id_env 60 200 1000 10000 3000000 = Some 200"
  "dynamicQuorumVotes id_env 30 200 1000 4000 2000000 = Some 80"
  by (simp_all add: dynamicQuorumVotes_def id_env_def)

end
