(* ===== verification/Subgraph_Dao_Run.thy ===== *)
theory Subgraph_Dao_Run
  imports Subgraph_Dao_Inv Subgraph_Quorum
begin

text \<open>
  Fork events keep the invariant too, so it holds after every run of events the DAO contract
  can emit; the properties of the governance handlers follow.
\<close>

section \<open>Preservation: forks\<close>

definition the_fork :: "int \<Rightarrow> dao_view \<Rightarrow> fork" where
  "the_fork i v = (case v_forks v (int_to_string i) of
     None \<Rightarrow> getOrCreateFork i empty_store | Some f \<Rightarrow> f)"

lemma getOrCreateFork_view: "getOrCreateFork i s = the_fork i (view s)"
  by (simp add: getOrCreateFork_def the_fork_def view_def load_fork_def empty_store_def split: option.splits)

lemma the_fork_ok: "forks_ok v \<Longrightarrow> fork_ok v (int_to_string i) (the_fork i v)"
  by (cases "v_forks v (int_to_string i)")
     (auto simp: forks_ok_def the_fork_def getOrCreateFork_def load_fork_def empty_store_def fork_ok_def)

text \<open>The loops over the token ids.\<close>

lemma view_fold_escrow:
  "view (fold (\<lambda>t. save_escrowed_noun (g t)) ts s) =
     (view s)\<lparr>v_escrowed := fold (\<lambda>t m. m(en_id (g t) \<mapsto> g t)) ts (v_escrowed (view s))\<rparr>"
  by (induction ts arbitrary: s) simp_all

lemma view_fold_remove:
  "view (fold (\<lambda>t. remove_escrowed_noun (g t)) ts s) =
     (view s)\<lparr>v_escrowed := fold (\<lambda>t m. m(g t := None)) ts (v_escrowed (view s))\<rparr>"
  by (induction ts arbitrary: s) simp_all

lemma view_fold_join:
  "view (fold (\<lambda>t. save_fork_joined_noun (g t)) ts s) =
     (view s)\<lparr>v_joined := fold (\<lambda>t m. m(fjn_id (g t) \<mapsto> g t)) ts (v_joined (view s))\<rparr>"
  by (induction ts arbitrary: s) simp_all

lemma fold_upd_inj:
  "inj k \<Longrightarrow> fold (\<lambda>t m. m(k t \<mapsto> g t)) ts m x =
     (if x \<in> k ` set ts then Some (g (inv k x)) else m x)"
  by (induction ts rule: rev_induct) (auto simp: inv_f_f)

lemma fold_del_apply:
  "fold (\<lambda>t m. m(k t := None)) ts m x = (if x \<in> k ` set ts then None else m x)"
  by (induction ts rule: rev_induct) auto

lemma inj_forkKey: "inj (forkKey i)"
  by (rule injI) (simp add: forkKey_def)


lemma forks_update:
  assumes "forks_ok v" and f: "v_forks v' = (v_forks v)(k \<mapsto> f)" "fork_ok v' k f"
    and o: "\<And>j. j \<noteq> k \<Longrightarrow> escrow_of v' j = escrow_of v j" "\<And>j. j \<noteq> k \<Longrightarrow> joined_of v' j = joined_of v j"
    and fin: "finite (dom (v_escrowed v'))" "finite (dom (v_joined v'))"
  shows "forks_ok v'"
proof -
  have "fork_ok v' j g" if "v_forks v' j = Some g" for j g
    using assms that by (cases "j = k") (auto simp: forks_ok_def fork_ok_def)
  moreover have "escrow_of v' j = {} \<and> joined_of v' j = {}" if "v_forks v' j = None" for j
    using assms(1) f(1) o that by (cases "j = k") (auto simp: forks_ok_def)
  ultimately show ?thesis using fin by (simp add: forks_ok_def)
qed

lemma escrow_finite: "forks_ok v \<Longrightarrow> finite (escrow_of v k)"
  by (rule finite_subset [of _ "dom (v_escrowed v)"]) (auto simp: escrow_of_def forks_ok_def)

lemma joined_finite: "forks_ok v \<Longrightarrow> finite (joined_of v k)"
  by (rule finite_subset [of _ "dom (v_joined v)"]) (auto simp: joined_of_def forks_ok_def)

lemma dom_fold_upd: "dom (fold (\<lambda>t m. m(k t \<mapsto> g t)) ts m) = dom m \<union> k ` set ts"
  by (induction ts arbitrary: m) auto

lemma card_keys: "distinct ts \<Longrightarrow> card (forkKey i ` set ts) = length ts"
  using inj_forkKey [of i] by (simp add: card_image inj_on_def distinct_card)

lemma escrow_view:
  assumes v: "forks_ok (view s)"
  shows "\<exists>g. (\<forall>t. en_id (g t) = forkKey i t \<and> en_fork (g t) = int_to_string i) \<and>
    view (handleEscrowedToFork c i ow ts ps r s) = (view s)\<lparr>
      v_escrowed := fold (\<lambda>t m. m(forkKey i t \<mapsto> g t)) ts (v_escrowed (view s)),
      v_forks := (v_forks (view s))(int_to_string i \<mapsto> (the_fork i (view s))
        \<lparr>fork_tokensInEscrowCount := fork_tokensInEscrowCount (the_fork i (view s)) + word_of_nat (length ts)\<rparr>)\<rparr>"
proof -
  have id: "fork_id (the_fork i (view s)) = int_to_string i"
    using the_fork_ok [OF v] by (simp add: fork_ok_def)
  let ?g = "\<lambda>t. \<lparr>en_id = forkKey i t, en_fork = int_to_string i, en_noun = int_to_string t,
     en_owner = del_id (fst (getOrCreateDelegate (toHexString ow) s)), en_escrowDeposit = genericUniqueId c\<rparr>"
  show ?thesis
    by (rule exI [of _ ?g])
       (simp add: handleEscrowedToFork_def Let_def case_prod_beta getOrCreateFork_view id forkNounId_def
         view_fold_escrow forkKey_def)
qed

lemma escrow_step:
  assumes v: "forks_ok v" and l: "fork_executed (the_fork i v) \<noteq> Some True" "distinct ts"
      "\<forall>t \<in> set ts. v_escrowed v (forkKey i t) = None"
    and g: "\<forall>t. en_id (g t) = forkKey i t \<and> en_fork (g t) = int_to_string i"
    and v': "v' = v\<lparr>v_escrowed := fold (\<lambda>t m. m(forkKey i t \<mapsto> g t)) ts (v_escrowed v),
      v_forks := (v_forks v)(int_to_string i \<mapsto> (the_fork i v)
        \<lparr>fork_tokensInEscrowCount := fork_tokensInEscrowCount (the_fork i v) + word_of_nat (length ts)\<rparr>)\<rparr>"
  shows "forks_ok v'"
proof (rule forks_update [OF v, of _ "int_to_string i"])
  have e: "escrow_of v' j = (if j = int_to_string i then escrow_of v j \<union> forkKey i ` set ts else escrow_of v j)" for j
    using g l(3) v' by (auto simp: escrow_of_def fold_upd_inj [OF inj_forkKey] split: if_splits)
  have j: "joined_of v' k = joined_of v k" for k using v' by (simp add: joined_of_def)
  have "escrow_of v (int_to_string i) \<inter> forkKey i ` set ts = {}"
    using l(3) by (auto simp: escrow_of_def)
  then have "card (escrow_of v' (int_to_string i)) = card (escrow_of v (int_to_string i)) + length ts"
    using l(2) escrow_finite [OF v] by (simp add: e card_Un_disjoint card_keys)
  then show "fork_ok v' (int_to_string i) ((the_fork i v)
        \<lparr>fork_tokensInEscrowCount := fork_tokensInEscrowCount (the_fork i v) + word_of_nat (length ts)\<rparr>)"
    using the_fork_ok [OF v, of i] l(1) by (simp add: fork_ok_def j)
  show "k \<noteq> int_to_string i \<Longrightarrow> escrow_of v' k = escrow_of v k"
    "joined_of v' k = joined_of v k" for k by (simp_all add: e j)
  show "finite (dom (v_escrowed v'))" "finite (dom (v_joined v'))"
    using v v' by (simp_all add: dom_fold_upd forks_ok_def)
qed (simp add: v')

lemma withdraw_view:
  assumes v: "forks_ok (view s)"
  shows "view (handleWithdrawFromForkEscrow c i ow ts s) = (view s)\<lparr>
      v_escrowed := fold (\<lambda>t m. m(forkKey i t := None)) ts (v_escrowed (view s)),
      v_forks := (v_forks (view s))(int_to_string i \<mapsto> (the_fork i (view s))
        \<lparr>fork_tokensInEscrowCount := fork_tokensInEscrowCount (the_fork i (view s)) - word_of_nat (length ts)\<rparr>)\<rparr>"
proof -
  have id: "fork_id (the_fork i (view s)) = int_to_string i"
    using the_fork_ok [OF v] by (simp add: fork_ok_def)
  show ?thesis
    by (simp add: handleWithdrawFromForkEscrow_def Let_def case_prod_beta getOrCreateFork_view id
        forkNounId_def view_fold_remove forkKey_def)
qed

lemma withdraw_step:
  assumes v: "forks_ok v" and l: "fork_executed (the_fork i v) \<noteq> Some True" "distinct ts"
      "\<forall>t \<in> set ts. map_option en_fork (v_escrowed v (forkKey i t)) = Some (int_to_string i)"
    and v': "v' = v\<lparr>v_escrowed := fold (\<lambda>t m. m(forkKey i t := None)) ts (v_escrowed v),
      v_forks := (v_forks v)(int_to_string i \<mapsto> (the_fork i v)
        \<lparr>fork_tokensInEscrowCount := fork_tokensInEscrowCount (the_fork i v) - word_of_nat (length ts)\<rparr>)\<rparr>"
  shows "forks_ok v'"
proof (rule forks_update [OF v, of _ "int_to_string i"])
  let ?K = "forkKey i ` set ts"
  have e: "escrow_of v' j = escrow_of v j - ?K" for j
    using v' by (auto simp: escrow_of_def fold_del_apply split: if_splits)
  have j: "joined_of v' k = joined_of v k" for k using v' by (simp add: joined_of_def)
  have sub: "?K \<subseteq> escrow_of v (int_to_string i)" using l(3) by (auto simp: escrow_of_def)
  then have "card (escrow_of v' (int_to_string i)) = card (escrow_of v (int_to_string i)) - length ts"
    and "length ts \<le> card (escrow_of v (int_to_string i))"
    using l(2) escrow_finite [OF v] card_mono [OF escrow_finite [OF v] sub]
    by (simp_all add: e card_Diff_subset card_keys)
  then show "fork_ok v' (int_to_string i) ((the_fork i v)
        \<lparr>fork_tokensInEscrowCount := fork_tokensInEscrowCount (the_fork i v) - word_of_nat (length ts)\<rparr>)"
    using the_fork_ok [OF v, of i] l(1) by (simp add: fork_ok_def j of_nat_diff)
  have "escrow_of v k \<inter> ?K = {}" if "k \<noteq> int_to_string i" for k
    using l(3) that by (auto simp: escrow_of_def)
  then show "k \<noteq> int_to_string i \<Longrightarrow> escrow_of v' k = escrow_of v k"
    "joined_of v' k = joined_of v k" for k by (auto simp: e j)
  have "dom (v_escrowed v') \<subseteq> dom (v_escrowed v)"
    using v' by (auto simp: fold_del_apply split: if_splits)
  then show "finite (dom (v_escrowed v'))" "finite (dom (v_joined v'))"
    using v v' by (auto simp: forks_ok_def intro: finite_subset)
qed (simp add: v')

lemma execute_fork_view:
  assumes v: "forks_ok (view s)" and n: "n = sint (fork_tokensInEscrowCount (the_fork i (view s)))"
    and env: "toI32_in_range env" and h: "handleExecuteFork env c i tr tk en n s = Some s'"
  shows "\<exists>f. view s' = (view s)\<lparr>v_forks := (v_forks (view s))(int_to_string i \<mapsto> f)\<rparr> \<and>
    fork_id f = int_to_string i \<and> fork_executed f = Some True \<and>
    fork_tokensInEscrowCount f = fork_tokensInEscrowCount (the_fork i (view s)) \<and>
    fork_tokensForkingCount f = fork_tokensInEscrowCount f"
proof -
  have id: "fork_id (the_fork i (view s)) = int_to_string i"
    using the_fork_ok [OF v] by (simp add: fork_ok_def)
  have "bigint_toI32 env n = Some (fork_tokensInEscrowCount (the_fork i (view s)))"
    using env sint_ge [of "fork_tokensInEscrowCount (the_fork i (view s))"]
      sint_lt [of "fork_tokensInEscrowCount (the_fork i (view s))"]
    by (simp add: toI32_in_range_def n)
  then show ?thesis
    using h id by (auto simp: handleExecuteFork_def Let_def getOrCreateFork_view)
qed

lemma execute_fork_step:
  assumes v: "forks_ok v" and x: "fork_executed (the_fork i v) \<noteq> Some True"
    and f: "fork_id f = int_to_string i" "fork_executed f = Some True"
      "fork_tokensInEscrowCount f = fork_tokensInEscrowCount (the_fork i v)"
      "fork_tokensForkingCount f = fork_tokensInEscrowCount f"
    and v': "v' = v\<lparr>v_forks := (v_forks v)(int_to_string i \<mapsto> f)\<rparr>"
  shows "forks_ok v'"
proof (rule forks_update [OF v, of _ "int_to_string i" f])
  have e: "escrow_of v' k = escrow_of v k" "joined_of v' k = joined_of v k" for k
    using v' by (simp_all add: escrow_of_def joined_of_def)
  show "fork_ok v' (int_to_string i) f"
    using the_fork_ok [OF v, of i] x f by (simp add: fork_ok_def e)
  show "escrow_of v' k = escrow_of v k" "joined_of v' k = joined_of v k" for k by (simp_all add: e)
  show "finite (dom (v_escrowed v'))" "finite (dom (v_joined v'))"
    using v v' by (simp_all add: forks_ok_def)
qed (simp add: v')

lemma join_view:
  assumes v: "forks_ok (view s)"
  shows "\<exists>g. (\<forall>t. fjn_id (g t) = forkKey i t \<and> fjn_fork (g t) = int_to_string i) \<and>
    view (handleJoinFork c i ow ts ps r s) = (view s)\<lparr>
      v_joined := fold (\<lambda>t m. m(forkKey i t \<mapsto> g t)) ts (v_joined (view s)),
      v_forks := (v_forks (view s))(int_to_string i \<mapsto> (the_fork i (view s))
        \<lparr>fork_tokensForkingCount := fork_tokensForkingCount (the_fork i (view s)) + word_of_nat (length ts)\<rparr>)\<rparr>"
proof -
  have id: "fork_id (the_fork i (view s)) = int_to_string i"
    using the_fork_ok [OF v] by (simp add: fork_ok_def)
  let ?g = "\<lambda>t. \<lparr>fjn_id = forkKey i t, fjn_fork = int_to_string i, fjn_noun = int_to_string t,
     fjn_owner = del_id (fst (getOrCreateDelegate (toHexString ow) s)), fjn_forkJoin = genericUniqueId c\<rparr>"
  show ?thesis
    by (rule exI [of _ ?g])
       (simp add: handleJoinFork_def Let_def case_prod_beta getOrCreateFork_view id forkNounId_def
         view_fold_join forkKey_def)
qed

lemma join_step:
  assumes v: "forks_ok v" and l: "fork_executed (the_fork i v) = Some True" "distinct ts"
      "\<forall>t \<in> set ts. v_joined v (forkKey i t) = None"
    and g: "\<forall>t. fjn_id (g t) = forkKey i t \<and> fjn_fork (g t) = int_to_string i"
    and v': "v' = v\<lparr>v_joined := fold (\<lambda>t m. m(forkKey i t \<mapsto> g t)) ts (v_joined v),
      v_forks := (v_forks v)(int_to_string i \<mapsto> (the_fork i v)
        \<lparr>fork_tokensForkingCount := fork_tokensForkingCount (the_fork i v) + word_of_nat (length ts)\<rparr>)\<rparr>"
  shows "forks_ok v'"
proof (rule forks_update [OF v, of _ "int_to_string i"])
  have e: "joined_of v' j = (if j = int_to_string i then joined_of v j \<union> forkKey i ` set ts else joined_of v j)" for j
    using g l(3) v' by (auto simp: joined_of_def fold_upd_inj [OF inj_forkKey] split: if_splits)
  have j: "escrow_of v' k = escrow_of v k" for k using v' by (simp add: escrow_of_def)
  have "joined_of v (int_to_string i) \<inter> forkKey i ` set ts = {}"
    using l(3) by (auto simp: joined_of_def)
  then have "card (joined_of v' (int_to_string i)) = card (joined_of v (int_to_string i)) + length ts"
    using l(2) joined_finite [OF v] by (simp add: e card_Un_disjoint card_keys)
  then show "fork_ok v' (int_to_string i) ((the_fork i v)
        \<lparr>fork_tokensForkingCount := fork_tokensForkingCount (the_fork i v) + word_of_nat (length ts)\<rparr>)"
    using the_fork_ok [OF v, of i] l(1) by (simp add: fork_ok_def j)
  show "escrow_of v' k = escrow_of v k"
    "k \<noteq> int_to_string i \<Longrightarrow> joined_of v' k = joined_of v k" for k by (simp_all add: e j)
  show "finite (dom (v_escrowed v'))" "finite (dom (v_joined v'))"
    using v v' by (simp_all add: dom_fold_upd forks_ok_def)
qed (simp add: v')

text \<open>A fork event touches neither the proposals nor the votes nor the counters.\<close>

lemma fork_frame:
  "v_proposals v' = v_proposals v \<Longrightarrow> v_votes v' = v_votes v \<Longrightarrow> tallies_ok v' = tallies_ok v"
  "v_proposals v' = v_proposals v \<Longrightarrow> v_govId v' = v_govId v \<Longrightarrow> v_count v' = v_count v \<Longrightarrow>
   v_queued v' = v_queued v \<Longrightarrow> counts_ok v' = counts_ok v"
  by (simp_all add: tallies_ok_def tally_def ballots_def weight_def counts_ok_def queue_def)

section \<open>The machine\<close>

text \<open>Events that do not show in the view at all.\<close>

lemma invisible_events:
  "view (handleMinQuorumVotesBPSSet c b s) = view s"
  "view (handleMaxQuorumVotesBPSSet c b s) = view s"
  "view (handleQuorumCoefficientSet c n s) = view s"
  "view (handleSignatureCanceled c sr sg s) = view s"
  by (simp_all add: handleMinQuorumVotesBPSSet_def handleMaxQuorumVotesBPSSet_def
      handleQuorumCoefficientSet_def handleSignatureCanceled_def Let_def case_prod_beta
      split: option.splits)

lemma view_snapshot_switch:
  "v_govId (view s) = GOVERNANCE \<Longrightarrow> view (handleVoteSnapshotBlockSwitchProposalIdSet c n s) = view s"
  by (simp add: handleVoteSnapshotBlockSwitchProposalIdSet_def Let_def view_save_governance
      view_def [of s])

lemma known_proposal_view:
  assumes "tallies_ok (view s)" "load_proposal k s = Some p"
  shows "v_proposals (view s) k = Some p" "prop_id p = k"
  using assms by (auto simp: view_def load_proposal_def tallies_ok_def)


lemma created_inv:
  assumes "dao_inv s" "load_proposal (pp_id pp) s = None" "handleProposalCreated env pp s = Some s'"
  shows "dao_inv s'"
proof -
  have "v_govId (view s) = GOVERNANCE" using assms(1) by (simp add: dao_inv_def counts_ok_def)
  from created_effect [OF assms(3,2) this] obtain p where
    p: "prop_id p = pp_id pp" "prop_forVotes p = Some 0" "prop_againstVotes p = Some 0"
      "prop_abstainVotes p = Some 0" "prop_queuedBlock p = None"
    and v: "view s' = (view s)\<lparr>v_proposals := (v_proposals (view s))(pp_id pp \<mapsto> p),
      v_count := v_count (view s) + 1\<rparr>" by blast
  have "v_proposals (view s) (pp_id pp) = None" using assms(2) by (simp add: view_def load_proposal_def)
  from fresh_proposal_inv [OF this p v] show ?thesis using assms(1) by (simp add: dao_inv_def)
qed

lemma dao_inv_edit:
  assumes "dao_inv s" "legal_dao_event e s" "handle_dao_event env e s = Some s'" "edit_target e = Some i"
  shows "dao_inv s'"
proof -
  have "edited (int_to_string i) (view s) (view s')"
    using assms by (intro edit_events) (auto simp: dao_inv_def)
  from edited_inv [OF this] show ?thesis using assms(1) by (simp add: dao_inv_def)
qed

lemma dao_inv_queued:
  assumes i: "dao_inv s" and l: "legal_dao_event (ProposalQueued c i eta) s"
  shows "dao_inv (handleProposalQueued c i eta s)"
proof -
  obtain p where p: "load_proposal (int_to_string i) s = Some p"
      and m: "prop_queuedBlock p = None" "prop_executedBlock p = None"
    using l by (auto simp: queue_marks_def)
  have inv: "tallies_ok (view s)" "counts_ok (view s)" "forks_ok (view s)" "v_govId (view s) = GOVERNANCE"
    using i by (simp_all add: dao_inv_def counts_ok_def)
  note k = known_proposal_view [OF inv(1) p]
  from queue_effect [OF p k(2) inv(4), of c eta] obtain q where
    "same_counts p (q\<lparr>prop_queuedBlock := prop_queuedBlock p\<rparr>)" "prop_queuedBlock q \<noteq> None"
    and v: "view (handleProposalQueued c i eta s) = (view s)\<lparr>
      v_proposals := (v_proposals (view s))(int_to_string i \<mapsto> q), v_queued := v_queued (view s) + 1\<rparr>"
    by blast
  from queued_inv [OF k(1) this(1,2) m v] show ?thesis using inv by (simp add: dao_inv_def)
qed

lemma dao_inv_executed:
  assumes i: "dao_inv s" and l: "legal_dao_event (ProposalExecuted c i) s"
  shows "dao_inv (handleProposalExecuted c i s)"
proof -
  obtain p where p: "load_proposal (int_to_string i) s = Some p"
      and m: "prop_queuedBlock p \<noteq> None" "prop_executedBlock p = None"
    using l by (auto simp: queue_marks_def)
  have inv: "tallies_ok (view s)" "counts_ok (view s)" "forks_ok (view s)" "v_govId (view s) = GOVERNANCE"
    using i by (simp_all add: dao_inv_def counts_ok_def)
  note k = known_proposal_view [OF inv(1) p]
  from execute_effect [OF p k(2) inv(4), of c] obtain q where
    "same_counts p (q\<lparr>prop_executedBlock := prop_executedBlock p\<rparr>)" "prop_executedBlock q \<noteq> None"
    and v: "view (handleProposalExecuted c i s) = (view s)\<lparr>
      v_proposals := (v_proposals (view s))(int_to_string i \<mapsto> q), v_queued := v_queued (view s) - 1\<rparr>"
    by blast
  from executed_inv [OF k(1) this(1,2) m v] show ?thesis using inv by (simp add: dao_inv_def)
qed

lemma dao_inv_vote:
  assumes i: "dao_inv s" and l: "legal_dao_event (VoteCast c a i spt n r) s"
    and h: "handleVoteCast env c a i spt n r s = Some s'"
  shows "dao_inv s'"
proof -
  obtain p where p: "load_proposal (int_to_string i) s = Some p" using l by (auto simp: has_proposal_def)
  have inv: "tallies_ok (view s)" "counts_ok (view s)" "forks_ok (view s)"
    using i by (simp_all add: dao_inv_def)
  note k = known_proposal_view [OF inv(1) p]
  have x: "load_vote (voteId a i) s = None" using l by simp
  from vote_effect [OF h p k(2) x] obtain q w where
    q: "counted spt n p q" and w: "vote_proposal w = Some (int_to_string i)" "vote_votes w = Some n"
      "vote_supportDetailed w = Some spt"
    and v: "view s' = (view s)\<lparr>v_proposals := (v_proposals (view s))(int_to_string i \<mapsto> q),
      v_votes := (v_votes (view s))(voteId a i \<mapsto> w)\<rparr>" by blast
  have "v_votes (view s) (voteId a i) = None" using x by (simp add: view_def load_vote_def)
  from voted_inv [OF k(1) q this w v] show ?thesis using inv by (simp add: dao_inv_def)
qed

lemma dao_inv_forks:
  assumes "dao_inv s" "forks_ok (view s')"
    "v_proposals (view s') = v_proposals (view s)" "v_votes (view s') = v_votes (view s)"
    "v_govId (view s') = v_govId (view s)" "v_count (view s') = v_count (view s)"
    "v_queued (view s') = v_queued (view s)"
  shows "dao_inv s'"
  using assms fork_frame [of "view s'" "view s"] by (simp add: dao_inv_def)

lemma dao_inv_escrow:
  assumes i: "dao_inv s" and l: "legal_dao_event (EscrowedToFork c f ow ts ps r) s"
  shows "dao_inv (handleEscrowedToFork c f ow ts ps r s)"
proof -
  have v: "forks_ok (view s)" using i by (simp add: dao_inv_def)
  from escrow_view [OF v, of f c ow ts ps r] obtain g where g: "\<forall>t. en_id (g t) = forkKey f t \<and> en_fork (g t) = int_to_string f"
    and e: "view (handleEscrowedToFork c f ow ts ps r s) = (view s)\<lparr>
      v_escrowed := fold (\<lambda>t m. m(forkKey f t \<mapsto> g t)) ts (v_escrowed (view s)),
      v_forks := (v_forks (view s))(int_to_string f \<mapsto> (the_fork f (view s))
        \<lparr>fork_tokensInEscrowCount := fork_tokensInEscrowCount (the_fork f (view s)) + word_of_nat (length ts)\<rparr>)\<rparr>"
    by blast
  show ?thesis
  proof (rule dao_inv_forks [OF i])
    show "forks_ok (view (handleEscrowedToFork c f ow ts ps r s))"
      using l by (intro escrow_step [OF v _ _ _ g e])
        (auto simp: fork_done_def getOrCreateFork_view load_escrowed_noun_def view_def)
  qed (simp_all add: e)
qed


lemma dao_inv_withdraw:
  assumes i: "dao_inv s" and l: "legal_dao_event (WithdrawFromForkEscrow c f ow ts) s"
  shows "dao_inv (handleWithdrawFromForkEscrow c f ow ts s)"
proof -
  have v: "forks_ok (view s)" using i by (simp add: dao_inv_def)
  note e = withdraw_view [OF v, of c f ow ts]
  show ?thesis
  proof (rule dao_inv_forks [OF i])
    show "forks_ok (view (handleWithdrawFromForkEscrow c f ow ts s))"
      using l by (intro withdraw_step [OF v _ _ _ e])
        (auto simp: fork_done_def getOrCreateFork_view load_escrowed_noun_def view_def)
  qed (simp_all add: e)
qed

lemma dao_inv_executeFork:
  assumes i: "dao_inv s" and l: "legal_dao_event (ExecuteFork c f tr tk en n) s"
    and env: "toI32_in_range env" and h: "handleExecuteFork env c f tr tk en n s = Some s'"
  shows "dao_inv s'"
proof -
  have v: "forks_ok (view s)" using i by (simp add: dao_inv_def)
  have n: "n = sint (fork_tokensInEscrowCount (the_fork f (view s)))"
    and x: "fork_executed (the_fork f (view s)) \<noteq> Some True"
    using l by (simp_all add: getOrCreateFork_view fork_done_def)
  from execute_fork_view [OF v n env h] obtain fk where
    e: "view s' = (view s)\<lparr>v_forks := (v_forks (view s))(int_to_string f \<mapsto> fk)\<rparr>" and
    fk: "fork_id fk = int_to_string f" "fork_executed fk = Some True"
      "fork_tokensInEscrowCount fk = fork_tokensInEscrowCount (the_fork f (view s))"
      "fork_tokensForkingCount fk = fork_tokensInEscrowCount fk" by blast
  show ?thesis
    by (rule dao_inv_forks [OF i execute_fork_step [OF v x fk e]]) (simp_all add: e)
qed

lemma dao_inv_join:
  assumes i: "dao_inv s" and l: "legal_dao_event (JoinFork c f ow ts ps r) s"
  shows "dao_inv (handleJoinFork c f ow ts ps r s)"
proof -
  have v: "forks_ok (view s)" using i by (simp add: dao_inv_def)
  from join_view [OF v, of f c ow ts ps r] obtain g where g: "\<forall>t. fjn_id (g t) = forkKey f t \<and> fjn_fork (g t) = int_to_string f"
    and e: "view (handleJoinFork c f ow ts ps r s) = (view s)\<lparr>
      v_joined := fold (\<lambda>t m. m(forkKey f t \<mapsto> g t)) ts (v_joined (view s)),
      v_forks := (v_forks (view s))(int_to_string f \<mapsto> (the_fork f (view s))
        \<lparr>fork_tokensForkingCount := fork_tokensForkingCount (the_fork f (view s)) + word_of_nat (length ts)\<rparr>)\<rparr>"
    by blast
  show ?thesis
  proof (rule dao_inv_forks [OF i])
    show "forks_ok (view (handleJoinFork c f ow ts ps r s))"
      using l by (intro join_step [OF v _ _ _ g e])
        (auto simp: fork_done_def getOrCreateFork_view load_fork_joined_noun_def view_def)
  qed (simp_all add: e)
qed

lemma dao_inv_view: "dao_inv s \<Longrightarrow> view s' = view s \<Longrightarrow> dao_inv s'"
  by (simp add: dao_inv_def)

lemma dao_step_inv:
  assumes i: "dao_inv s" and l: "legal_dao_event e s" and env: "toI32_in_range env"
    and h: "handle_dao_event env e s = Some s'"
  shows "dao_inv s'"
proof (cases "edit_target e")
  case (Some n)
  show ?thesis using dao_inv_edit [OF i l h Some] .
next
  case None
  have g: "v_govId (view s) = GOVERNANCE" using i by (simp add: dao_inv_def counts_ok_def)
  show ?thesis
  proof (cases e)
    case (ProposalCreatedV1 c x)
    then show ?thesis using created_inv [OF i _ h [unfolded ProposalCreatedV1, simplified,
        unfolded handleProposalCreatedWithRequirements_def]] l
      by (simp add: has_proposal_def fromV1Event_def Let_def)
  next
    case (ProposalCreatedV3 c x)
    then obtain pp where pp: "fromV3Event env c x = Some pp" "handleProposalCreated env pp s = Some s'"
      using h by (auto simp: handleProposalCreatedWithRequirementsV3_def)
    then have "pp_id pp = int_to_string (ep_id x)" by (auto simp: fromV3Event_def Let_def)
    then show ?thesis using created_inv [OF i _ pp(2)] l ProposalCreatedV3 by (simp add: has_proposal_def)
  next
    case (ProposalQueued c n eta)
    then show ?thesis using dao_inv_queued [OF i] l h by auto
  next
    case (ProposalExecuted c n)
    then show ?thesis using dao_inv_executed [OF i] l h by auto
  next
    case (VoteCast c a n spt w r)
    then show ?thesis using dao_inv_vote [OF i] l h by (metis handle_dao_event.simps(11))
  next
    case (EscrowedToFork c f ow ts ps r)
    then show ?thesis using dao_inv_escrow [OF i] l h by auto
  next
    case (WithdrawFromForkEscrow c f ow ts)
    then show ?thesis using dao_inv_withdraw [OF i] l h by auto
  next
    case (ExecuteFork c f tr tk en n)
    then show ?thesis using dao_inv_executeFork [OF i _ env] l h by (metis handle_dao_event.simps(19))
  next
    case (JoinFork c f ow ts ps r)
    then show ?thesis using dao_inv_join [OF i] l h by auto
  qed (use None h dao_inv_view [OF i] view_snapshot_switch [OF g] in \<open>auto simp: invisible_events\<close>)
qed

lemma dao_inv_empty: "dao_inv empty_store"
  by (simp add: dao_inv_def view_def empty_store_def tallies_ok_def counts_ok_def forks_ok_def
      queue_def escrow_of_def joined_of_def getGovernanceEntity_def load_governance_def new_governance_def)

interpretation dao: machine "handle_dao_event env" "\<lambda>e s. toI32_in_range env \<and> legal_dao_event e s" dao_inv
  for env
  by unfold_locales (auto intro: dao_step_inv)

lemma dao_run_inv:
  assumes "toI32_in_range env" and "legal_run (handle_dao_event env) legal_dao_event es s" and "dao_inv s"
  shows "\<exists>s'. run_events (handle_dao_event env) es s = Some s' \<and> dao_inv s'"
  using dao.legal_run_inv [of s env es] assms by simp

end
