(* ===== verification/Subgraph_Hash.thy ===== *)
theory Subgraph_Hash
  imports Subgraph_Helpers
begin

text \<open>
  The content hash of a proposal (\<open>calcEncodedProposalHash\<close> of \<open>src/utils/helpers.ts\<close>), by
  which the indexer recognises the candidate a proposal came from. Padding to words loses
  nothing, so equal hashes mean equal content when the hash function itself does not collide.
\<close>

section \<open>Hexadecimal words\<close>

lemma of_base_hex_byte [simp]: "of_base 16 (hex_byte b) = Some (unat b)"
  using unat_byte_bound [of b]
  by (simp add: of_base_def hex_byte_def of_base_step_def)

lemma hex_pairs_hex_bytes: "hex_pairs (concat (map hex_byte bs) @ cs) = map_option ((@) bs) (hex_pairs cs)"
proof (induction bs)
  case Nil
  show ?case by (cases "hex_pairs cs") simp_all
next
  case (Cons b bs)
  have "of_base 16 [digit_char (unat b div 16), digit_char (unat b mod 16)] = Some (unat b)"
    using of_base_hex_byte [of b] by (simp add: hex_byte_def)
  then show ?case
    using Cons.IH by (cases "hex_pairs cs") (simp_all add: hex_byte_def)
qed

lemma fromHexString_toHexString: "fromHexString (toHexString bs) = Some bs"
  using hex_pairs_hex_bytes [of bs "[]"] by (simp add: fromHexString_def toHexString_def)

lemma replace_0x: "replace_first ''0x'' [] (''0x'' @ s) = s"
  by simp

lemma hex_byte_zero: "hex_byte 0 = ''00''"
  by code_simp

lemma concat_replicate_zero: "concat (replicate n (hex_byte 0)) = replicate (2 * n) (CHR ''0'')"
  by (induction n) (simp_all add: hex_byte_zero)

lemma length_concat_hex [simp]: "length (concat (map hex_byte bs)) = 2 * length bs"
  by (induction bs) simp_all

lemma no_0x_prefix: "\<not> prefix ''0x'' (concat (map hex_byte bs))"
proof (cases bs)
  case (Cons b bs')
  have "digit_char (unat b mod 16) \<noteq> CHR ''x''"
  proof
    assume x: "digit_char (unat b mod 16) = CHR ''x''"
    have "digit_val (digit_char (unat b mod 16)) = Some (unat b mod 16)" by simp
    then show False by (simp add: x digit_val_def) 
  qed
  then show ?thesis using Cons by (simp add: hex_byte_def)
qed simp

text \<open>A word of up to thirty-two bytes is padded with zero bytes on the left.\<close>

lemma pad_word_bytes:
  assumes "length bs \<le> 32"
  shows "pad_word (toHexString bs) = Some (replicate (32 - length bs) 0 @ bs)"
proof -
  have "js_padStart 64 (CHR ''0'') (concat (map hex_byte bs)) =
      concat (map hex_byte (replicate (32 - length bs) 0 @ bs))"
    using assms by (simp add: js_padStart_def map_replicate concat_replicate_zero algebra_simps)
  then show ?thesis
    using no_0x_prefix [of "replicate (32 - length bs) 0 @ bs"]
      hex_pairs_hex_bytes [of "replicate (32 - length bs) 0 @ bs" "[]"]
    by (simp add: pad_word_def toHexString_def fromHexString_def del: map_append concat_append)
qed

section \<open>Numbers as words\<close>

definition bytes_value :: "bytes \<Rightarrow> nat" where
  "bytes_value = foldl (\<lambda>a b. a * 256 + unat b) 0"

lemma hex_pairs_value:
  assumes "foldl (of_base_step 16) (Some a) s = Some n" and "even (length s)"
  shows "\<exists>w. hex_pairs s = Some w \<and> length w = length s div 2 \<and>
    foldl (\<lambda>a b. a * 256 + unat b) a w = n"
  using assms
proof (induction s arbitrary: a rule: hex_pairs.induct)
  case (3 c d cs)
  from "3.prems"(1) obtain x where x: "digit_val c = Some x" "x < 16"
      "foldl (of_base_step 16) (Some (a * 16 + x)) (d # cs) = Some n"
    by (rule foldl_of_base_Cons)
  from x(3) obtain y where y: "digit_val d = Some y" "y < 16"
      "foldl (of_base_step 16) (Some ((a * 16 + x) * 16 + y)) cs = Some n"
    by (rule foldl_of_base_Cons)
  note xy = x(1,2) y(1,2)
  have b: "of_base 16 [c, d] = Some (x * 16 + y)"
    using xy by (simp add: of_base_def of_base_step_def)
  have "foldl (of_base_step 16) (Some (a * 256 + (x * 16 + y))) cs = Some n"
    using y(3) by (simp add: algebra_simps)
  with 3 b obtain w where "hex_pairs cs = Some w" "length w = length cs div 2"
    "foldl (\<lambda>a b. a * 256 + unat b) (a * 256 + (x * 16 + y)) w = n"
    by auto
  moreover have "unat (word_of_nat (x * 16 + y) :: byte) = x * 16 + y"
    using xy by (subst unsigned_of_nat) (simp add: take_bit_nat_eq_self)
  ultimately show ?case using b by simp
qed simp_all

lemma foldl_no_x:
  "foldl (of_base_step 16) (Some a) s = Some n \<Longrightarrow> CHR ''x'' \<notin> set s"
proof (induction s arbitrary: a)
  case (Cons c s)
  from Cons.prems obtain d where "digit_val c = Some d" "d < 16"
      "foldl (of_base_step 16) (Some (a * 16 + d)) s = Some n"
    by (rule foldl_of_base_Cons)
  with Cons.IH show ?case by (auto simp: digit_val_def)
qed simp

lemma pad_word_number:
  assumes "0 \<le> i" "i < 2 ^ 256"
  shows "\<exists>w. pad_word (bigint_toHex i) = Some w \<and> length w = 32 \<and> bytes_value w = nat i"
proof -
  let ?s = "js_padStart 64 (CHR ''0'') (to_base 16 (nat i))"
  have "nat i < 16 ^ 64" using assms by (simp add: nat_less_iff)
  then have len: "length ?s = 64" using length_to_base_le [of 16 "nat i" 64] by simp
  have v: "foldl (of_base_step 16) (Some 0) ?s = Some (nat i)"
    using of_base_padded [of 16 64 "nat i"] by (simp add: of_base_def split: if_splits)
  then have "\<not> prefix ''0x'' ?s" using foldl_no_x [OF v] by (auto simp: prefix_def)
  moreover have "pad_word (bigint_toHex i) = fromHexString ?s"
    using assms by (simp add: pad_word_def bigint_toHex_def)
  ultimately show ?thesis
    using hex_pairs_value [OF v] len by (simp add: fromHexString_def bytes_value_def)
qed


section \<open>Concatenated words\<close>

lemma concat_fixed_inject:
  assumes "\<forall>x\<in>set xs \<union> set ys. length x = n" "0 < n"
  shows "concat xs = concat ys \<longleftrightarrow> xs = ys"
  using assms
proof (induction xs arbitrary: ys)
  case Nil
  then show ?case by (cases ys) auto
next
  case (Cons x xs)
  then show ?case by (cases ys) (auto simp: append_eq_append_conv)
qed

definition number_word :: "int \<Rightarrow> bytes" where
  "number_word i = the (pad_word (bigint_toHex i))"

definition is_uint256 :: "int \<Rightarrow> bool" where
  "is_uint256 i \<longleftrightarrow> 0 \<le> i \<and> i < 2 ^ 256"

lemma number_word:
  assumes "is_uint256 i"
  shows "pad_word (bigint_toHex i) = Some (number_word i)" "length (number_word i) = 32"
    "bytes_value (number_word i) = nat i"
  using pad_word_number [of i] assms by (auto simp: number_word_def is_uint256_def)

lemma number_word_inject: "is_uint256 i \<Longrightarrow> is_uint256 j \<Longrightarrow> number_word i = number_word j \<longleftrightarrow> i = j"
  using number_word(3) by (metis is_uint256_def nat_eq_iff2 nat_0_le)

definition address_word :: "bytes \<Rightarrow> bytes" where
  "address_word bs = replicate (32 - length bs) 0 @ bs"

lemma concat_words_addresses:
  "\<forall>b\<in>set bs. length b = 20 \<Longrightarrow>
   concat_words (map toHexString bs) = Some (concat (map address_word bs))"
  by (induction bs) (simp_all add: pad_word_bytes address_word_def)

lemma concat_words_numbers:
  "\<forall>i\<in>set is. is_uint256 i \<Longrightarrow>
   concat_words (map bigint_toHex is) = Some (concat (map number_word is))"
  by (induction "is") (simp_all add: number_word)

lemma concat_map_inject:
  assumes len: "\<forall>x\<in>set xs \<union> set ys. length (f x) = n" "0 < n"
    and inj: "inj_on f (set xs \<union> set ys)" and eq: "concat (map f xs) = concat (map f ys)"
  shows "xs = ys"
proof -
  have "\<forall>x\<in>set (map f xs) \<union> set (map f ys). length x = n" using len(1) by auto
  from concat_fixed_inject [OF this len(2)] eq have "map f xs = map f ys" by simp
  then show ?thesis using inj by (rule map_inj_on)
qed

lemma address_words_inject:
  assumes "\<forall>b\<in>set as \<union> set bs. length b = 20" "concat (map address_word as) = concat (map address_word bs)"
  shows "as = bs"
  by (rule concat_map_inject [OF _ _ _ assms(2), of 32])
     (use assms(1) in \<open>auto simp: inj_on_def address_word_def\<close>)

lemma number_words_inject:
  assumes "\<forall>b\<in>set as \<union> set bs. is_uint256 b" "concat (map number_word as) = concat (map number_word bs)"
  shows "as = bs"
  by (rule concat_map_inject [OF _ _ _ assms(2), of 32])
     (use assms(1) number_word(2) number_word_inject in \<open>auto simp: inj_on_def\<close>)

lemma unat_of_char: "unat (of_char c :: byte) = of_char c"
proof -
  have "(of_char c :: byte) = word_of_nat (of_char c)" by (simp only: of_nat_of_char)
  then have "unat (of_char c :: byte) = take_bit 8 (of_char c)" by (simp only: unsigned_of_nat) simp
  then show ?thesis by (simp add: take_bit_nat_eq_self)
qed

lemma fromUTF8_inject [simp]: "fromUTF8 a = fromUTF8 b \<longleftrightarrow> a = b"
proof -
  have "inj (of_char :: char \<Rightarrow> byte)"
    by (rule injI) (metis unat_of_char of_char_eq_iff)
  then show ?thesis by (simp add: fromUTF8_def inj_map_eq_map)
qed

section \<open>The hash identifies the content\<close>

record proposal_content =
  ct_proposer :: bytes
  ct_targets :: "bytes list"
  ct_values :: "int list"
  ct_signatures :: "string list"
  ct_calldatas :: "bytes list"
  ct_description :: string

text \<open>A proposal whose content is what the contract can report.\<close>

definition has_content :: "proposal \<Rightarrow> proposal_content \<Rightarrow> bool" where
  "has_content p c \<longleftrightarrow> prop_proposer p = Some (toHexString (ct_proposer c)) \<and>
     prop_targets p = Some (ct_targets c) \<and> prop_values p = Some (ct_values c) \<and>
     prop_signatures p = Some (ct_signatures c) \<and> prop_calldatas p = Some (ct_calldatas c) \<and>
     prop_description p = Some (ct_description c) \<and>
     length (ct_proposer c) = 20 \<and> (\<forall>t\<in>set (ct_targets c). length t = 20) \<and>
     (\<forall>v\<in>set (ct_values c). is_uint256 v)"

lemma preimages_of_content:
  assumes "has_content p c"
  shows "proposal_preimages env p = Some (ct_proposer c, concat (map address_word (ct_targets c)),
    concat (map number_word (ct_values c)),
    concat (map (\<lambda>x. keccak256 env (fromUTF8 x)) (ct_signatures c)),
    concat (map (keccak256 env) (ct_calldatas c)), fromUTF8 (ct_description c))"
  using assms
  by (simp add: has_content_def proposal_preimages_def Let_def concat_words_addresses
      concat_words_numbers address_fromString_def fromHexString_toHexString)


text \<open>What the hash function is applied to last: the encoded tuple, with the id in front in an update.\<close>

definition final_preimage :: "graph_env \<Rightarrow> proposal \<Rightarrow> bool \<Rightarrow> bytes option" where
  "final_preimage env p isUpdate =
     do {
       (addr, t, v, sg, cd, d) \<leftarrow> proposal_preimages env p;
       encoded \<leftarrow> abi_encode_tuple env (AbiAddress addr # map (\<lambda>b. AbiFixedBytes (keccak256 env b)) [t, v, sg, cd, d]);
       if isUpdate
       then do {
         n \<leftarrow> string_to_int (prop_id p);
         pid \<leftarrow> pad_word (bigint_toHex n);
         Some (pid @ encoded)
       }
       else Some encoded
     }"

lemma hash_of_final:
  "calcEncodedProposalHash env p u = map_option (keccak256 env) (final_preimage env p u)"
  by (auto simp: calcEncodedProposalHash_def final_preimage_def split: bind_split prod.split)

definition hash_inputs :: "graph_env \<Rightarrow> proposal_content \<Rightarrow> bytes set" where
  "hash_inputs env c =
     {concat (map address_word (ct_targets c)), concat (map number_word (ct_values c)),
      concat (map (\<lambda>x. keccak256 env (fromUTF8 x)) (ct_signatures c)),
      concat (map (keccak256 env) (ct_calldatas c)), fromUTF8 (ct_description c)} \<union>
     fromUTF8 ` set (ct_signatures c) \<union> set (ct_calldatas c)"

text \<open>Encodings of tuples of static values determine the tuple.\<close>

fun is_address :: "abi_value \<Rightarrow> bool" where
  "is_address (AbiAddress b) = True"
| "is_address (AbiFixedBytes b) = False"

definition abi_injective :: "graph_env \<Rightarrow> bool" where
  "abi_injective env \<longleftrightarrow>
     (\<forall>xs ys b. map is_address xs = map is_address ys \<longrightarrow> abi_encode_tuple env xs = Some b \<longrightarrow>
        abi_encode_tuple env ys = Some b \<longrightarrow> xs = ys)"

lemma content_injective:
  assumes S: "inj_on (keccak256 env) S" "\<forall>b\<in>S. length (keccak256 env b) = 32"
    and sub: "hash_inputs env c \<subseteq> S" "hash_inputs env d \<subseteq> S"
    and wf: "has_content p c" "has_content q d" and abi: "abi_injective env"
    and e: "abi_encode_tuple env (AbiAddress (ct_proposer c) # map (\<lambda>b. AbiFixedBytes (keccak256 env b))
        [concat (map address_word (ct_targets c)), concat (map number_word (ct_values c)),
         concat (map (\<lambda>x. keccak256 env (fromUTF8 x)) (ct_signatures c)),
         concat (map (keccak256 env) (ct_calldatas c)), fromUTF8 (ct_description c)]) = Some b"
      "abi_encode_tuple env (AbiAddress (ct_proposer d) # map (\<lambda>b. AbiFixedBytes (keccak256 env b))
        [concat (map address_word (ct_targets d)), concat (map number_word (ct_values d)),
         concat (map (\<lambda>x. keccak256 env (fromUTF8 x)) (ct_signatures d)),
         concat (map (keccak256 env) (ct_calldatas d)), fromUTF8 (ct_description d)]) = Some b"
  shows "c = d"
proof -
  note eq = abi [unfolded abi_injective_def, rule_format, OF _ e, simplified]
  have k: "x = y" if "keccak256 env x = keccak256 env y" "x \<in> hash_inputs env c" "y \<in> hash_inputs env d" for x y
    using S(1) sub that by (auto dest: inj_onD)
  have addr: "ct_proposer c = ct_proposer d" using eq by simp
  have "concat (map address_word (ct_targets c)) = concat (map address_word (ct_targets d))"
    by (rule k) (use eq in \<open>simp_all add: hash_inputs_def\<close>)
  then have t: "ct_targets c = ct_targets d"
    by (rule address_words_inject [rotated]) (use wf in \<open>auto simp: has_content_def\<close>)
  have "concat (map number_word (ct_values c)) = concat (map number_word (ct_values d))"
    by (rule k) (use eq in \<open>simp_all add: hash_inputs_def\<close>)
  then have v: "ct_values c = ct_values d"
    by (rule number_words_inject [rotated]) (use wf in \<open>auto simp: has_content_def\<close>)
  have "concat (map (\<lambda>x. keccak256 env (fromUTF8 x)) (ct_signatures c)) =
      concat (map (\<lambda>x. keccak256 env (fromUTF8 x)) (ct_signatures d))"
    by (rule k) (use eq in \<open>simp_all add: hash_inputs_def\<close>)
  moreover have m: "fromUTF8 x \<in> S" if "x \<in> set (ct_signatures c) \<union> set (ct_signatures d)" for x
    using that sub by (auto simp: hash_inputs_def)
  moreover have "inj_on (\<lambda>x. keccak256 env (fromUTF8 x)) (set (ct_signatures c) \<union> set (ct_signatures d))"
    by (rule inj_onI) (metis inj_onD [OF S(1)] m fromUTF8_inject)
  ultimately have s: "ct_signatures c = ct_signatures d"
    using S(2) by (intro concat_map_inject [of _ _ "\<lambda>x. keccak256 env (fromUTF8 x)" 32]) auto
  have "concat (map (keccak256 env) (ct_calldatas c)) = concat (map (keccak256 env) (ct_calldatas d))"
    by (rule k) (use eq in \<open>simp_all add: hash_inputs_def\<close>)
  moreover have m: "x \<in> S" if "x \<in> set (ct_calldatas c) \<union> set (ct_calldatas d)" for x
    using that sub by (auto simp: hash_inputs_def)
  moreover have "inj_on (keccak256 env) (set (ct_calldatas c) \<union> set (ct_calldatas d))"
    using S(1) by (rule inj_on_subset) (use m in blast)
  ultimately have cd: "ct_calldatas c = ct_calldatas d"
    using S(2) by (intro concat_map_inject [of _ _ "keccak256 env" 32]) auto
  have "fromUTF8 (ct_description c) = fromUTF8 (ct_description d)"
    by (rule k) (use eq in \<open>simp_all add: hash_inputs_def\<close>)
  with addr t v s cd show ?thesis by simp
qed


text \<open>
  C7: two proposals whose hashes are equal have the same proposer, targets, values, signatures,
  calldatas and description, provided the hash function has no collision among the byte
  strings it was applied to.
\<close>

theorem proposal_hash_injective:
  assumes S: "inj_on (keccak256 env) S" "\<forall>b\<in>S. length (keccak256 env b) = 32"
    and sub: "hash_inputs env c \<subseteq> S" "hash_inputs env d \<subseteq> S"
      "final_preimage env p u = Some f" "final_preimage env q u = Some g" "f \<in> S" "g \<in> S"
    and wf: "has_content p c" "has_content q d" and abi: "abi_injective env"
    and ids: "prop_id p = int_to_string i" "prop_id q = int_to_string j" "is_uint256 i" "is_uint256 j"
    and h: "calcEncodedProposalHash env p u = calcEncodedProposalHash env q u"
  shows "c = d \<and> (u \<longrightarrow> i = j)"
proof -
  have fg: "f = g" using h sub(3-6) S(1) by (simp add: hash_of_final inj_on_eq_iff)
  have "final_preimage env p u = Some f" "final_preimage env q u = Some f" using sub fg by auto
  then obtain b b' where
    b: "abi_encode_tuple env (AbiAddress (ct_proposer c) # map (\<lambda>b. AbiFixedBytes (keccak256 env b))
        [concat (map address_word (ct_targets c)), concat (map number_word (ct_values c)),
         concat (map (\<lambda>x. keccak256 env (fromUTF8 x)) (ct_signatures c)),
         concat (map (keccak256 env) (ct_calldatas c)), fromUTF8 (ct_description c)]) = Some b"
      "abi_encode_tuple env (AbiAddress (ct_proposer d) # map (\<lambda>b. AbiFixedBytes (keccak256 env b))
        [concat (map address_word (ct_targets d)), concat (map number_word (ct_values d)),
         concat (map (\<lambda>x. keccak256 env (fromUTF8 x)) (ct_signatures d)),
         concat (map (keccak256 env) (ct_calldatas d)), fromUTF8 (ct_description d)]) = Some b'"
    and f: "f = (if u then number_word i @ b else b)" "f = (if u then number_word j @ b' else b')"
    using ids number_word(1) [OF ids(3)] number_word(1) [OF ids(4)]
    by (auto simp: final_preimage_def preimages_of_content [OF wf(1)] preimages_of_content [OF wf(2)]
        split: if_splits)
  have "b = b' \<and> (u \<longrightarrow> number_word i = number_word j)"
    using f number_word(2) [OF ids(3)] number_word(2) [OF ids(4)] by (auto split: if_splits)
  with content_injective [OF S sub(1,2) wf abi] b ids(3,4) show ?thesis
    by (simp add: number_word_inject)
qed


text \<open>A runtime in which the hypotheses hold.\<close>

definition abi_word :: "abi_value \<Rightarrow> bytes" where
  "abi_word x = (case x of AbiAddress b \<Rightarrow> address_word b | AbiFixedBytes b \<Rightarrow> b)"

definition abi_ok :: "abi_value \<Rightarrow> bool" where
  "abi_ok x = (case x of AbiAddress b \<Rightarrow> length b = 20 | AbiFixedBytes b \<Rightarrow> length b = 32)"

definition demo_keccak :: "bytes \<Rightarrow> bytes" where
  "demo_keccak b = take 32 (word_of_nat (length b) # rev b @ replicate 32 0)"

definition demo_env :: graph_env where
  "demo_env = \<lparr>keccak256 = demo_keccak,
     abi_encode_tuple = (\<lambda>xs. if list_all abi_ok xs then Some (concat (map abi_word xs)) else None),
     dao_adjustedTotalSupply = (\<lambda>_ _. Some 200),
     bigint_toI32 = (\<lambda>n. if - (2 ^ 31) \<le> n \<and> n < 2 ^ 31 then Some (word_of_int n) else None)\<rparr>"

lemma demo_env_toI32: "toI32_in_range demo_env"
  by (simp add: toI32_in_range_def demo_env_def)

lemma abi_word_length: "abi_ok x \<Longrightarrow> length (abi_word x) = 32"
  by (cases x) (simp_all add: abi_ok_def abi_word_def address_word_def)

lemma abi_word_inject:
  "abi_ok x \<Longrightarrow> abi_ok y \<Longrightarrow> is_address x = is_address y \<Longrightarrow> abi_word x = abi_word y \<Longrightarrow> x = y"
  by (cases x; cases y) (simp_all add: abi_ok_def abi_word_def address_word_def)

lemma demo_env_abi: "abi_injective demo_env"
proof -
  have "xs = ys" if k: "map is_address xs = map is_address ys" and ok: "list_all abi_ok xs" "list_all abi_ok ys"
    and e: "concat (map abi_word xs) = concat (map abi_word ys)" for xs ys
  proof -
    have "\<forall>x\<in>set (map abi_word xs) \<union> set (map abi_word ys). length x = 32"
      using ok by (auto simp: list_all_iff abi_word_length)
    from concat_fixed_inject [OF this] e have m: "map abi_word xs = map abi_word ys" by simp
    from map_eq_imp_length_eq [OF k] k m ok show ?thesis
      by (induction xs ys rule: list_induct2) (auto intro: abi_word_inject)
  qed
  then show ?thesis by (auto simp: abi_injective_def demo_env_def split: if_splits)
qed

definition demo_content :: proposal_content where
  "demo_content = \<lparr>ct_proposer = replicate 20 1, ct_targets = [replicate 20 2], ct_values = [5],
     ct_signatures = [''f()''], ct_calldatas = [[7]], ct_description = ''D''\<rparr>"

definition demo_proposal :: "string \<Rightarrow> proposal" where
  "demo_proposal title = (new_proposal (int_to_string 9))
     \<lparr>prop_proposer := Some (toHexString (ct_proposer demo_content)),
      prop_targets := Some (ct_targets demo_content), prop_values := Some (ct_values demo_content),
      prop_signatures := Some (ct_signatures demo_content),
      prop_calldatas := Some (ct_calldatas demo_content),
      prop_description := Some (ct_description demo_content), prop_title := Some title\<rparr>"

lemma demo_has_content: "has_content (demo_proposal t) demo_content"
  by (simp add: has_content_def demo_proposal_def demo_content_def is_uint256_def)

definition demo_inputs :: "bytes list" where
  "demo_inputs = [address_word (replicate 20 2), number_word 5, demo_keccak (fromUTF8 ''f()''),
     demo_keccak [7], fromUTF8 ''D'', fromUTF8 ''f()'', [7]]"

definition demo_final :: bytes where
  "demo_final = number_word 9 @ concat (map abi_word (AbiAddress (replicate 20 1) #
     map (\<lambda>b. AbiFixedBytes (demo_keccak b)) [address_word (replicate 20 2), number_word 5,
       demo_keccak (fromUTF8 ''f()''), demo_keccak [7], fromUTF8 ''D'']))"

lemma demo_keccak_length: "length (demo_keccak b) = 32"
  by (simp add: demo_keccak_def)

lemma demo_number_words:
  "number_word 5 = replicate 31 0 @ [5]" "number_word 9 = replicate 31 0 @ [9]"
  by code_simp+

lemma demo_collision_free: "inj_on demo_keccak (set (demo_final # demo_inputs))"
proof -
  have "distinct (map demo_keccak (demo_final # demo_inputs))"
    by code_simp
  then show ?thesis by (simp only: distinct_map)
qed

lemma demo_hash_inputs: "hash_inputs demo_env demo_content \<subseteq> set (demo_final # demo_inputs)"
  by (simp add: hash_inputs_def demo_content_def demo_inputs_def demo_env_def)

lemma demo_final_preimage: "final_preimage demo_env (demo_proposal t) True = Some demo_final"
proof -
  have "prop_id (demo_proposal t) = int_to_string 9" by (simp add: demo_proposal_def new_proposal_def)
  then show ?thesis
    using number_word(1) [of 9]
    by (simp add: final_preimage_def preimages_of_content [OF demo_has_content] demo_env_def
        demo_content_def abi_ok_def demo_keccak_length demo_final_def is_uint256_def)
qed

text \<open>The same content, with the description computed by a replacement.\<close>

definition demo_content_again :: proposal_content where
  "demo_content_again = demo_content\<lparr>ct_description := js_replaceAll ''x'' [] ''Dx''\<rparr>"

lemma demo_content_again_eq: "demo_content_again = demo_content"
proof -
  have "js_replaceAll ''x'' [] ''Dx'' = ''D''" by code_simp
  then show ?thesis by (simp add: demo_content_again_def demo_content_def)
qed

theorem proposal_hash_injective_witness: "demo_content = demo_content_again"
proof -
  have h: "calcEncodedProposalHash demo_env (demo_proposal ''A'') True =
     calcEncodedProposalHash demo_env (demo_proposal ''B'') True"
    by (simp add: hash_of_final demo_final_preimage)
  have c: "has_content (demo_proposal ''B'') demo_content_again"
    "hash_inputs demo_env demo_content_again \<subseteq> set (demo_final # demo_inputs)"
    using demo_has_content demo_hash_inputs by (simp_all only: demo_content_again_eq)
  have "demo_content = demo_content_again \<and> (True \<longrightarrow> (9 :: int) = 9)"
  proof (rule proposal_hash_injective [OF _ _ demo_hash_inputs c(2) demo_final_preimage demo_final_preimage
        _ _ demo_has_content c(1) demo_env_abi _ _ _ _ h])
    show "inj_on (keccak256 demo_env) (set (demo_final # demo_inputs))"
      using demo_collision_free by (simp add: demo_env_def)
  qed (simp_all add: demo_env_def demo_keccak_length demo_proposal_def new_proposal_def is_uint256_def)
  then show ?thesis by (rule conjunct1)
qed

end
