(* ===== verification/Subgraph_Dao_Props.thy ===== *)
theory Subgraph_Dao_Props
  imports Subgraph_Dao_Run Subgraph_Hash
begin

text \<open>
  The properties of the governance handlers: the life cycle of a proposal, the quorum after a
  vote, versions, creation that never aborts, the frozen start of dynamic quorum, and the
  exactness of tallies, counters and fork counts after every legal run.
\<close>

section \<open>Status\<close>

text \<open>The life cycle of a proposal as the indexer is meant to follow it.\<close>

definition status_of :: "store \<Rightarrow> string \<Rightarrow> ProposalStatus option" where
  "status_of s k = (case st_proposals s k of None \<Rightarrow> None | Some p \<Rightarrow> prop_status p)"

definition opening_status :: "event_ctx \<Rightarrow> int \<Rightarrow> ProposalStatus" where
  "opening_status c start = (if start \<le> ev_blockNumber c then ACTIVE else PENDING)"

fun status_after :: "dao_event \<Rightarrow> (string \<Rightarrow> ProposalStatus option) \<Rightarrow> string \<Rightarrow> ProposalStatus option" where
  "status_after (ProposalCreatedV1 c e) st = st(int_to_string (ep_id e) \<mapsto> opening_status c (ep_startBlock e))"
| "status_after (ProposalCreatedV3 c e) st = st(int_to_string (ep_id e) \<mapsto> opening_status c (ep_startBlock e))"
| "status_after (ProposalCanceled c i) st = st(int_to_string i \<mapsto> CANCELLED)"
| "status_after (ProposalVetoed c i) st = st(int_to_string i \<mapsto> VETOED)"
| "status_after (ProposalQueued c i eta) st = st(int_to_string i \<mapsto> QUEUED)"
| "status_after (ProposalExecuted c i) st = st(int_to_string i \<mapsto> EXECUTED)"
| "status_after (VoteCast c v i spt n r) st =
     (if st (int_to_string i) = Some PENDING then st(int_to_string i \<mapsto> ACTIVE) else st)"
| "status_after _ st = st"

lemma status_upd:
  "v_proposals (view s') = (v_proposals (view s))(k \<mapsto> p) \<Longrightarrow>
   status_of s' = (status_of s)(k := prop_status p)"
  by (auto simp: status_of_def view_def fun_eq_iff)

lemma status_same: "v_proposals (view s') = v_proposals (view s) \<Longrightarrow> status_of s' = status_of s"
  by (simp add: status_of_def view_def fun_eq_iff)

lemma status_edit:
  assumes inv: "dao_inv s" and l: "legal_dao_event e s" and t: "edit_target e = Some i"
    and h: "handle_dao_event env e s = Some s'"
  shows "status_of s' = status_after e (status_of s)"
proof -
  have k: "tallies_ok (view s)" using inv by (simp add: dao_inv_def)
  obtain p where p: "load_proposal (int_to_string i) s = Some p"
    using l t by (cases e) (auto simp: has_proposal_def)
  note kp = known_proposal_view [OF k p]
  have st: "status_of s (int_to_string i) = prop_status p"
    using kp(1) by (simp add: status_of_def view_def)
  obtain q where q: "v_proposals (view s') = (v_proposals (view s))(int_to_string i \<mapsto> q)"
    and qs: "prop_status q = status_after e (status_of s) (int_to_string i)"
    using t h kp st
    by (cases e) (auto simp: edit_handler_defs proposal_known [OF p] Let_def dest!: view_capture)
  have "status_after e (status_of s) j = status_of s j" if "j \<noteq> int_to_string i" for j
    using t that by (cases e) auto
  then show ?thesis using status_upd [OF q] qs by (simp add: fun_eq_iff)
qed

lemma status_created:
  assumes "dao_inv s" "\<not> has_proposal i s" "pp_id pp = int_to_string i" "handleProposalCreated env pp s = Some s'"
  shows "status_of s' = (status_of s)(int_to_string i \<mapsto> pp_status pp)"
proof -
  have g: "v_govId (view s) = GOVERNANCE" using assms(1) by (simp add: dao_inv_def counts_ok_def)
  have n: "load_proposal (pp_id pp) s = None" using assms(2,3) by (simp add: has_proposal_def)
  from created_effect [OF assms(4) n g] obtain p where
    "prop_status p = Some (pp_status pp)" "v_proposals (view s') = (v_proposals (view s))(pp_id pp \<mapsto> p)"
    by auto
  then show ?thesis using status_upd [of s' s "pp_id pp" p] assms(3) by simp
qed

text \<open>
  C5: every event a DAO contract can emit moves the status of the proposal it names exactly as
  the life cycle says, and no other: a vote opens a pending proposal and never changes any
  other status.
\<close>

theorem status_refinement:
  assumes inv: "dao_inv s" and l: "legal_dao_event e s" and h: "handle_dao_event env e s = Some s'"
  shows "status_of s' = status_after e (status_of s)"
proof (cases "edit_target e")
  case (Some i)
  show ?thesis using status_edit [OF inv l Some h] .
next
  case None
  have k: "tallies_ok (view s)" and f: "forks_ok (view s)" and g: "v_govId (view s) = GOVERNANCE"
    using inv by (simp_all add: dao_inv_def counts_ok_def)
  show ?thesis
  proof (cases e)
    case (ProposalCreatedV1 c x)
    then show ?thesis using status_created [OF inv, of "ep_id x" "fromV1Event c x" env s'] l h
      by (simp add: handleProposalCreatedWithRequirements_def fromV1Event_def Let_def opening_status_def)
  next
    case (ProposalCreatedV3 c x)
    then obtain pp where pp: "fromV3Event env c x = Some pp" "handleProposalCreated env pp s = Some s'"
      using h by (auto simp: handleProposalCreatedWithRequirementsV3_def)
    then have "pp_id pp = int_to_string (ep_id x)" "pp_status pp = opening_status c (ep_startBlock x)"
      by (auto simp: fromV3Event_def Let_def opening_status_def)
    then show ?thesis using status_created [OF inv _ _ pp(2), of "ep_id x"] l ProposalCreatedV3 by simp
  next
    case (ProposalQueued c i eta)
    then obtain p where p: "load_proposal (int_to_string i) s = Some p" using l by (auto simp: queue_marks_def)
    from queue_effect [OF p known_proposal_view(2) [OF k p] g, of c eta] ProposalQueued h
    obtain q where "prop_status q = Some QUEUED"
      "v_proposals (view s') = (v_proposals (view s))(int_to_string i \<mapsto> q)" by auto
    with status_upd [of s' s "int_to_string i" q] ProposalQueued show ?thesis by simp
  next
    case (ProposalExecuted c i)
    then obtain p where p: "load_proposal (int_to_string i) s = Some p" using l by (auto simp: queue_marks_def)
    from execute_effect [OF p known_proposal_view(2) [OF k p] g, of c] ProposalExecuted h
    obtain q where "prop_status q = Some EXECUTED"
      "v_proposals (view s') = (v_proposals (view s))(int_to_string i \<mapsto> q)" by auto
    with status_upd [of s' s "int_to_string i" q] ProposalExecuted show ?thesis by simp
  next
    case (VoteCast c a i spt n r)
    then obtain p where p: "load_proposal (int_to_string i) s = Some p" using l by (auto simp: has_proposal_def)
    note kp = known_proposal_view [OF k p]
    have h': "handleVoteCast env c a i spt n r s = Some s'" and x: "load_vote (voteId a i) s = None"
      using h l VoteCast by auto
    from vote_effect [OF h' p kp(2) x] obtain q w where q: "counted spt n p q" and
      v: "view s' = (view s)\<lparr>v_proposals := (v_proposals (view s))(int_to_string i \<mapsto> q),
      v_votes := (v_votes (view s))(voteId a i \<mapsto> w)\<rparr>" by blast
    have "status_of s (int_to_string i) = prop_status p" using kp(1) by (simp add: status_of_def view_def)
    then show ?thesis using status_upd [of s' s "int_to_string i" q] v q VoteCast
      by (auto simp: counted_def fun_eq_iff)
  next
    case (EscrowedToFork c i ow ts ps r)
    with escrow_view [OF f, of i c ow ts ps r] h show ?thesis by (auto intro!: status_same)
  next
    case (WithdrawFromForkEscrow c i ow ts)
    with withdraw_view [OF f, of c i ow ts] h show ?thesis by (auto intro!: status_same)
  next
    case (ExecuteFork c i tr tk en n)
    with h show ?thesis by (auto simp: handleExecuteFork_def Let_def intro!: status_same)
  next
    case (JoinFork c i ow ts ps r)
    with join_view [OF f, of i c ow ts ps r] h show ?thesis by (auto intro!: status_same)
  qed (use None h view_snapshot_switch [OF g] in \<open>auto simp: invisible_events intro!: status_same\<close>)
qed

section \<open>Votes and the quorum\<close>

lemma count_vote_total:
  "prop_againstVotes p \<noteq> None \<Longrightarrow> prop_forVotes p \<noteq> None \<Longrightarrow> prop_abstainVotes p \<noteq> None \<Longrightarrow>
   \<exists>q. count_vote c n p = Some q"
  by (auto simp: count_vote_def)

lemma count_vote_fields:
  assumes "count_vote c n p = Some q"
  shows "prop_id q = prop_id p \<and> prop_status q = prop_status p \<and> prop_createdBlock q = prop_createdBlock p \<and>
    prop_adjustedTotalSupply q = prop_adjustedTotalSupply p \<and> prop_minQuorumVotesBPS q = prop_minQuorumVotesBPS p \<and>
    prop_maxQuorumVotesBPS q = prop_maxQuorumVotesBPS p \<and> prop_quorumCoefficient q = prop_quorumCoefficient p \<and>
    prop_againstVotes q = (if c = 0 then map_option (\<lambda>v. v + n) (prop_againstVotes p) else prop_againstVotes p)"
  using assms by (auto simp: count_vote_def split: if_splits)

lemma load_dq_cong: "st_dqParams s' = st_dqParams s \<Longrightarrow> load_dq_params k s' = load_dq_params k s"
  by (simp add: load_dq_params_def)

text \<open>A vote returns if the proposal is complete and its quorum can be computed.\<close>

lemma vote_stores:
  assumes p: "load_proposal (int_to_string i) s = Some p" and id: "prop_id p = int_to_string i"
    and some: "prop_againstVotes p \<noteq> None" "prop_forVotes p \<noteq> None" "prop_abstainVotes p \<noteq> None" "prop_status p \<noteq> None"
    and q: "count_vote spt n p = Some q"
    and dq: "load_dq_params LATEST s = Some d"
    and r: "update_quorum env d q = Some r"
  shows "\<exists>s'. handleVoteCast env c a i spt n reason s = Some s' \<and>
    load_proposal (int_to_string i) s' =
      Some (if prop_status r = Some PENDING then r\<lparr>prop_status := Some ACTIVE\<rparr> else r)"
proof -
  let ?r = "getOrCreateDelegateWithNullOption (toHexString a) True True s"
  obtain v where v: "entity (fst ?r) = Some v" using entity_delegate(1) by blast
  have dqs: "st_dqParams (snd ?r) = st_dqParams s"
    by (auto simp: getOrCreateDelegateWithNullOption_def Let_def handler_defs split: option.splits)
  have params: "fst (getOrCreateDynamicQuorumParams None s1) = d" if "st_dqParams s1 = st_dqParams s" for s1
    using dq load_dq_cong [OF that, of LATEST] by (simp add: getOrCreateDynamicQuorumParams_def Let_def)
  obtain st where st: "prop_status r = Some st" and rid: "prop_id r = int_to_string i"
    using update_quorum_fields [OF r] count_vote_fields [OF q] some(4) id by auto
  define s1 where "s1 = (if created (fst ?r)
     then log_error ''Delegate {} not found on VoteCast. tx_hash: {}''
            [toHexString a, toHexString (ev_txHash c)] (snd ?r) else snd ?r)"
  define s2 where "s2 = save_vote (fill_vote c (prop_id p) v spt n reason (getOrCreateVote (voteId a i) s)) s1"
  have "st_dqParams s2 = st_dqParams s"
    by (simp add: s2_def s1_def handler_defs dqs)
  note dd = params [OF this]
  let ?z = "if st = PENDING then r\<lparr>prop_status := Some ACTIVE\<rparr> else r"
  have "handleVoteCast env c a i spt n reason s =
      Some (save_proposal ?z (snd (getOrCreateDynamicQuorumParams None s2)))"
    by (simp add: handleVoteCast_def proposal_known [OF p] Let_def case_prod_beta v q dd r st
        flip: s1_def s2_def)
  moreover have "prop_id ?z = int_to_string i" using rid by simp
  ultimately show ?thesis using st by (auto simp: load_proposal_def save_proposal_def)
qed

lemma vote_returns:
  assumes p: "load_proposal (int_to_string i) s = Some p" and id: "prop_id p = int_to_string i"
    and some: "prop_againstVotes p \<noteq> None" "prop_forVotes p \<noteq> None" "prop_abstainVotes p \<noteq> None" "prop_status p \<noteq> None"
    and q: "count_vote spt n p = Some q"
    and dq: "load_dq_params LATEST s = Some d"
    and r: "update_quorum env d q = Some r"
  shows "\<exists>s' z. handleVoteCast env c a i spt n reason s = Some s' \<and>
    load_proposal (int_to_string i) s' = Some z \<and> prop_quorumVotes z = prop_quorumVotes r"
  using vote_stores [OF assms] by fastforce

text \<open>
  C6: under dynamic quorum a vote the contract can report is always indexed, and leaves the
  proposal with the quorum the contract computes from the against votes counted so far.
\<close>

theorem vote_sets_quorum:
  assumes env: "toI32_in_range env"
    and p: "load_proposal (int_to_string i) s = Some p" "prop_id p = int_to_string i"
      "prop_againstVotes p = Some against" "prop_forVotes p \<noteq> None" "prop_abstainVotes p \<noteq> None"
      "prop_status p \<noteq> None" "prop_createdBlock p = Some cb" "prop_adjustedTotalSupply p = Some tot"
      "prop_minQuorumVotesBPS p = Some mn" "prop_maxQuorumVotesBPS p = Some mx"
      "prop_quorumCoefficient p = Some coeff"
    and d: "load_dq_params LATEST s = Some d" "dq_dynamicQuorumStartBlock d = Some st" "st < cb"
    and rng: "0 \<le> against" "0 \<le> n" "against + n \<le> tot" "0 < tot" "0 \<le> coeff" "coeff < 2 ^ 32"
      "0 \<le> sint mn" "sint mn \<le> sint mx" "sint mn < 2 ^ 16"
  shows "\<exists>s' q. handleVoteCast env c a i spt n reason s = Some s' \<and>
    load_proposal (int_to_string i) s' = Some q \<and>
    prop_quorumVotes q = Some (quorum_spec (if spt = 0 then against + n else against) tot
      (sint mn) (sint mx) coeff)"
proof -
  obtain q where q: "count_vote spt n p = Some q" using count_vote_total [of p] p by auto
  define b where "b = (if spt = 0 then against + n else against)"
  have "0 \<le> b" "b \<le> tot" using rng by (auto simp: b_def)
  then have dyn: "dynamicQuorumVotes env b tot mn mx coeff = Some (quorum_spec b tot (sint mn) (sint mx) coeff)"
    using env rng quorum_fits by (intro dynamicQuorumVotes_spec) auto
  have "prop_againstVotes q = Some b" using count_vote_fields [OF q] p(3) by (simp add: b_def)
  then have "update_quorum env d q = Some (q\<lparr>prop_quorumVotes := Some (quorum_spec b tot (sint mn) (sint mx) coeff)\<rparr>)"
    using count_vote_fields [OF q] p d dyn by (simp add: update_quorum_def del: bind_eq_Some_iff)
  from vote_returns [OF p(1,2) _ p(4-6) q d(1) this] p(3) show ?thesis by (simp add: b_def)
qed

definition demo_dao_ctx :: event_ctx where
  "demo_dao_ctx = \<lparr>ev_txHash = [1], ev_txIndex = 0, ev_logIndex = 0, ev_blockNumber = 10,
     ev_blockTimestamp = 1, ev_address = []\<rparr>"

definition demo_voting_proposal :: proposal where
  "demo_voting_proposal = (new_proposal (int_to_string 3))
     \<lparr>prop_againstVotes := Some 10, prop_forVotes := Some 4, prop_abstainVotes := Some 0,
      prop_status := Some PENDING, prop_createdBlock := Some 50, prop_adjustedTotalSupply := Some 200,
      prop_minQuorumVotesBPS := Some 1000, prop_maxQuorumVotesBPS := Some 4000,
      prop_quorumCoefficient := Some 1000000\<rparr>"

definition demo_voting_store :: store where
  "demo_voting_store = save_proposal demo_voting_proposal (save_dq_params
     \<lparr>dq_id = LATEST, dq_minQuorumVotesBPS = 1000, dq_maxQuorumVotesBPS = 4000,
      dq_quorumCoefficient = 1000000, dq_dynamicQuorumStartBlock = Some 7\<rparr> empty_store)"

theorem vote_sets_quorum_witness:
  "\<exists>s' q. handleVoteCast demo_env demo_dao_ctx [1] 3 0 8 [] demo_voting_store = Some s' \<and>
    load_proposal (int_to_string 3) s' = Some q \<and>
    prop_quorumVotes q = Some (quorum_spec 18 200 1000 4000 1000000)"
proof -
  have p: "load_proposal (int_to_string 3) demo_voting_store = Some demo_voting_proposal"
    by (simp add: demo_voting_store_def proposal_store.load_save demo_voting_proposal_def new_proposal_def)
  have d: "load_dq_params LATEST demo_voting_store = Some \<lparr>dq_id = LATEST, dq_minQuorumVotesBPS = 1000,
      dq_maxQuorumVotesBPS = 4000, dq_quorumCoefficient = 1000000, dq_dynamicQuorumStartBlock = Some 7\<rparr>"
    by (simp add: demo_voting_store_def handler_defs)
  from vote_sets_quorum [OF demo_env_toI32 p, of 10 50 200 1000 4000 1000000, OF _ _ _ _ _ _ _ _ _ _ d,
      where n = 8 and c = demo_dao_ctx and a = "[1]" and spt = 0 and reason = "[]" and st = 7]
  show ?thesis by (simp add: demo_voting_proposal_def new_proposal_def)
qed

section \<open>The snapshot block\<close>

text \<open>
  The block at which voting power is measured is the creation block for proposals before
  the switch and the start block from the switch on; as long as no switch is set it is the
  creation block.
\<close>

lemma snapshot_block_rule:
  assumes "prop_id p = int_to_string i"
  shows "fill_snapshot g p = Some (p\<lparr>prop_voteSnapshotBlock :=
    (if gov_voteSnapshotBlockSwitchProposalId g \<noteq> 0 \<and> gov_voteSnapshotBlockSwitchProposalId g \<le> i
     then prop_startBlock p else prop_createdBlock p)\<rparr>)"
  using assms by (simp add: fill_snapshot_def del: bind_eq_Some_iff)

section \<open>Versions\<close>

text \<open>What a version records of a proposal.\<close>

definition version_of :: "string \<Rightarrow> proposal \<Rightarrow> string \<Rightarrow> proposal_version" where
  "version_of vid p msg = \<lparr>pv_id = vid, pv_proposal = Some (prop_id p),
     pv_createdBlock = prop_lastUpdatedBlock p, pv_createdAt = prop_lastUpdatedTimestamp p,
     pv_targets = prop_targets p, pv_values = prop_values p, pv_signatures = prop_signatures p,
     pv_calldatas = prop_calldatas p, pv_title = prop_title p, pv_description = prop_description p,
     pv_updateMessage = Some msg\<rparr>"

lemma mark_versions:
  "markProposalCandidateIfExists env p u s = Some s' \<Longrightarrow> st_proposalVersions s' = st_proposalVersions s"
  by (cases "calcEncodedProposalHash env p u";
      cases "load_candidate_content (toHexString (the (calcEncodedProposalHash env p u))) s")
     (auto simp: markProposalCandidateIfExists_def Let_def handler_defs)

lemma capture_version:
  assumes "captureProposalVersion env tx li p u m s = Some s'"
    and "\<forall>k v. st_proposalVersions s k = Some v \<longrightarrow> pv_id v = k"
  shows "st_proposalVersions s' = (st_proposalVersions s)
    (tx @ ''-'' @ li \<mapsto> version_of (tx @ ''-'' @ li) p m)"
proof -
  let ?k = "tx @ ''-'' @ li"
  let ?v = "getOrCreateProposalVersion ?k s"
  have id: "pv_id ?v = ?k"
    using assms(2) by (auto simp: getOrCreateProposalVersion_def load_proposal_version_def split: option.splits)
  have "?v\<lparr>pv_proposal := Some (prop_id p), pv_createdBlock := prop_lastUpdatedBlock p,
      pv_createdAt := prop_lastUpdatedTimestamp p, pv_targets := prop_targets p, pv_values := prop_values p,
      pv_signatures := prop_signatures p, pv_calldatas := prop_calldatas p, pv_title := prop_title p,
      pv_description := prop_description p, pv_updateMessage := Some m\<rparr> = version_of ?k p m"
    using id by (cases ?v) (simp add: version_of_def)
  then show ?thesis
    using assms(1) id
    by (auto simp: captureProposalVersion_def Let_def handler_defs dest!: mark_versions)
qed

definition versions_keyed :: "store \<Rightarrow> bool" where
  "versions_keyed s \<longleftrightarrow> (\<forall>k v. st_proposalVersions s k = Some v \<longrightarrow> pv_id v = k)"

fun version_event :: "dao_event \<Rightarrow> (event_ctx \<times> int \<times> string) option" where
  "version_event (ProposalUpdated c i t v sg cd d m) = Some (c, i, m)"
| "version_event (ProposalDescriptionUpdated c i d m) = Some (c, i, m)"
| "version_event (ProposalTransactionsUpdated c i t v sg cd m) = Some (c, i, m)"
| "version_event _ = None"

text \<open>
  Every update of a proposal stores a version under the transaction and log index of the
  event that equals the proposal as it now stands, with the update message, and keeps every
  other version.
\<close>

theorem updates_capture_versions:
  assumes inv: "dao_inv s" and l: "legal_dao_event e s" and vk: "versions_keyed s"
    and e: "version_event e = Some (c, i, m)" and h: "handle_dao_event env e s = Some s'"
  shows "\<exists>p. load_proposal (int_to_string i) s' = Some p \<and>
    st_proposalVersions s' = (st_proposalVersions s)
      (genericUniqueId c \<mapsto> version_of (genericUniqueId c) p m)"
proof -
  have k: "tallies_ok (view s)" using inv by (simp add: dao_inv_def)
  obtain p where p: "load_proposal (int_to_string i) s = Some p"
    using l e by (cases e) (auto simp: has_proposal_def)
  have id: "prop_id p = int_to_string i" by (rule known_proposal_view(2) [OF k p])
  have "\<exists>q. captureProposalVersion env (toHexString (ev_txHash c)) (int_to_string (ev_logIndex c)) q True m
      (save_proposal q s) = Some s' \<and> prop_id q = int_to_string i"
    using e h id
    by (cases e) (auto simp: handleProposalUpdated_def handleProposalDescriptionUpdated_def
        handleProposalTransactionsUpdated_def proposal_known [OF p] Let_def intro!: exI)
  then obtain q where q: "prop_id q = int_to_string i"
    and c: "captureProposalVersion env (toHexString (ev_txHash c)) (int_to_string (ev_logIndex c)) q True m
      (save_proposal q s) = Some s'" by blast
  have vk': "\<forall>k v. st_proposalVersions (save_proposal q s) k = Some v \<longrightarrow> pv_id v = k"
    using vk by (simp add: versions_keyed_def save_proposal_def)
  have "v_proposals (view s') = (v_proposals (view s))(int_to_string i \<mapsto> q)"
    using view_capture [OF c] q by simp
  then have "load_proposal (int_to_string i) s' = Some q" by (simp add: view_def load_proposal_def)
  moreover have "st_proposalVersions s' = (st_proposalVersions s)
      (genericUniqueId c \<mapsto> version_of (genericUniqueId c) q m)"
    using capture_version [OF c vk'] by (simp add: genericUniqueId_def save_proposal_def)
  ultimately show ?thesis by blast
qed


section \<open>Creation never aborts\<close>

text \<open>Encoding a tuple of well-sized static values succeeds, and hashes have thirty-two bytes.\<close>

definition runtime_total :: "graph_env \<Rightarrow> bool" where
  "runtime_total env \<longleftrightarrow> (\<forall>b. length (keccak256 env b) = 32) \<and>
     (\<forall>xs. list_all abi_ok xs \<longrightarrow> abi_encode_tuple env xs \<noteq> None)"

lemma hash_returns:
  assumes env: "runtime_total env" and c: "has_content p c"
    and id: "prop_id p = int_to_string i" "is_uint256 i"
  shows "\<exists>h. calcEncodedProposalHash env p u = Some h"
proof -
  have "abi_encode_tuple env (AbiAddress (ct_proposer c) # map (\<lambda>b. AbiFixedBytes (keccak256 env b)) bs) \<noteq> None" for bs
    using env c by (simp add: runtime_total_def list_all_iff abi_ok_def has_content_def)
  then obtain b where b: "abi_encode_tuple env (AbiAddress (ct_proposer c) # map (\<lambda>b. AbiFixedBytes (keccak256 env b))
      [concat (map address_word (ct_targets c)), concat (map number_word (ct_values c)),
       concat (map (\<lambda>x. keccak256 env (fromUTF8 x)) (ct_signatures c)),
       concat (map (keccak256 env) (ct_calldatas c)), fromUTF8 (ct_description c)]) = Some b" by blast
  have "final_preimage env p u = Some (if u then number_word i @ b else b)"
    by (simp add: final_preimage_def preimages_of_content [OF c] b id number_word(1) [OF id(2)]
        del: list.map bind_eq_Some_iff)
  then show ?thesis by (auto simp: hash_of_final)
qed

lemma capture_returns:
  assumes "runtime_total env" "has_content p c" and id: "prop_id p = int_to_string i" "is_uint256 i"
    and "prop_lastUpdatedBlock p \<noteq> None" "prop_lastUpdatedTimestamp p \<noteq> None" "prop_title p \<noteq> None"
  shows "\<exists>s'. captureProposalVersion env tx li p u m s = Some s'"
proof -
  obtain h where h: "calcEncodedProposalHash env p u = Some h" using hash_returns [OF assms(1-4)] by blast
  have "markProposalCandidateIfExists env p u s \<noteq> None" for s
    by (cases "load_candidate_content (toHexString h) s")
       (simp_all add: markProposalCandidateIfExists_def h id Let_def)
  moreover have "prop_description p \<noteq> None" using assms(2) by (simp add: has_content_def)
  ultimately show ?thesis using assms(5-7) by (auto simp: captureProposalVersion_def Let_def)
qed

lemma signers_return: "\<exists>y. signer_delegates tx xs s = Some y"
proof (induction xs arbitrary: s)
  case (Cons x xs)
  let ?r = "getOrCreateDelegateWithNullOption x True True s"
  obtain d where "entity (fst ?r) = Some d" using entity_delegate(1) by blast
  moreover obtain y where "signer_delegates tx xs (if created (fst ?r)
      then log_error ''Signer delegate {} not found on ProposalCreated. tx_hash: {}'' [x, tx] (snd ?r)
      else snd ?r) = Some y" using Cons.IH by blast
  ultimately show ?case by (simp add: Let_def case_prod_beta del: bind_eq_Some_iff)
qed simp

definition delegates_keyed :: "store \<Rightarrow> bool" where
  "delegates_keyed s \<longleftrightarrow> (\<forall>k d. st_delegates s k = Some d \<longrightarrow> del_id d = k)"

lemma delegate_entity:
  "delegates_keyed s \<Longrightarrow> \<exists>d. entity (fst (getOrCreateDelegateWithNullOption k True True s)) = Some d \<and> del_id d = k"
  by (auto simp: getOrCreateDelegateWithNullOption_def Let_def load_delegate_def delegates_keyed_def
      new_delegate_def split: option.splits)

lemma creation_returns:
  assumes env: "runtime_total env" and s: "delegates_keyed s" "\<not> has_proposal i s" and i: "is_uint256 i"
    and pp: "pp_id pp = int_to_string i" "pp_proposer pp = toHexString a" "length a = 20"
      "\<forall>t\<in>set (pp_targets pp). length t = 20" "\<forall>v\<in>set (pp_values pp). is_uint256 v"
  shows "\<exists>s' p. handleProposalCreated env pp s = Some s' \<and> load_proposal (int_to_string i) s' = Some p \<and>
    prop_status p = Some (pp_status pp) \<and> prop_forVotes p = Some 0"
proof -
  have n: "load_proposal (pp_id pp) s = None" using s(2) pp(1) by (simp add: has_proposal_def)
  let ?s0 = "snd (getOrCreateProposal (pp_id pp) s)"
  have p0: "fst (getOrCreateProposal (pp_id pp) s) = new_proposal (int_to_string i)"
    and k0: "delegates_keyed ?s0"
    using n s(1) pp(1) by (simp_all add: getOrCreateProposal_def Let_def delegates_keyed_def save_governance_def)
  obtain d where d: "entity (fst (getOrCreateDelegateWithNullOption (pp_proposer pp) True True ?s0)) = Some d"
    "del_id d = toHexString a" using delegate_entity [OF k0] pp(2) by metis
  let ?s1 = "if created (fst (getOrCreateDelegateWithNullOption (pp_proposer pp) True True ?s0)) \<and> pp_signers pp = []
    then log_error ''Delegate {} not found on ProposalCreated. tx_hash: {}'' [pp_proposer pp, pp_txHash pp]
      (snd (getOrCreateDelegateWithNullOption (pp_proposer pp) True True ?s0))
    else snd (getOrCreateDelegateWithNullOption (pp_proposer pp) True True ?s0)"
  obtain ids s2 where y: "signer_delegates (pp_txHash pp) (pp_signers pp) ?s1 = Some (ids, s2)"
    using signers_return [of "pp_txHash pp" "pp_signers pp" ?s1] by auto
  let ?p = "fill_supply pp ids (getGovernanceEntity s2) (fill_proposal pp (del_id d) (new_proposal (int_to_string i)))"
  have "prop_id ?p = int_to_string i" by (simp add: fill_supply_def fill_proposal_def new_proposal_def)
  note f = snapshot_block_rule [OF this, of "getGovernanceEntity s2"]
  define b where "b = (if gov_voteSnapshotBlockSwitchProposalId (getGovernanceEntity s2) \<noteq> 0 \<and>
     gov_voteSnapshotBlockSwitchProposalId (getGovernanceEntity s2) \<le> i then prop_startBlock ?p else prop_createdBlock ?p)"
  define q where "q = fill_quorum (fst (getOrCreateDynamicQuorumParams None s2)) (?p\<lparr>prop_voteSnapshotBlock := b\<rparr>)"
  let ?c = "\<lparr>ct_proposer = a, ct_targets = pp_targets pp, ct_values = pp_values pp,
    ct_signatures = pp_signatures pp, ct_calldatas = pp_calldatas pp, ct_description = pp_description pp\<rparr>"
  have q: "has_content q ?c" "prop_id q = int_to_string i" "prop_lastUpdatedBlock q \<noteq> None"
    "prop_lastUpdatedTimestamp q \<noteq> None" "prop_title q \<noteq> None" "prop_status q = Some (pp_status pp)" "prop_forVotes q = Some 0"
    using pp d(2)
    by (simp_all add: q_def has_content_def fill_quorum_def fill_supply_def fill_proposal_def new_proposal_def)
  let ?s3 = "save_proposal q (snd (getOrCreateDynamicQuorumParams None s2))"
  obtain s' where c: "captureProposalVersion env (pp_txHash pp) (pp_logIndex pp) q False [] ?s3 = Some s'"
    using capture_returns [OF env q(1,2) i q(3-5)] by blast
  have "handleProposalCreated env pp s = Some s'"
    using c unfolding q_def b_def
    by (simp add: handleProposalCreated_def Let_def case_prod_beta d(1) y p0 f del: bind_eq_Some_iff)
  moreover have "load_proposal (int_to_string i) s' = Some q"
    using view_capture [OF c] q(2) by (simp add: load_proposal_def view_fields)
  ultimately show ?thesis using q(6,7) by blast
qed

text \<open>
  C8: a creation event with addresses of twenty bytes and values of 256 bits is always indexed,
  whoever the proposer and the signers are: the handler does not abort.
\<close>

theorem creation_is_indexed:
  assumes "runtime_total env" "delegates_keyed s" "\<not> has_proposal i s" "is_uint256 i"
      "pp_id pp = int_to_string i" "pp_proposer pp = toHexString a" "length a = 20"
      "\<forall>t\<in>set (pp_targets pp). length t = 20" "\<forall>v\<in>set (pp_values pp). is_uint256 v"
  shows "\<exists>s' p. handleProposalCreated env pp s = Some s' \<and> load_proposal (int_to_string i) s' = Some p \<and>
    prop_status p = Some (pp_status pp) \<and> prop_forVotes p = Some 0"
  by (rule creation_returns [OF assms])

section \<open>Quorum parameters\<close>

lemma dq_frame [simp]:
  "st_dqParams (snd (getOrCreateDelegateWithNullOption k True True s)) = st_dqParams s"
  "st_dqParams (snd (getOrCreateProposal k s)) = st_dqParams s"
  "st_dqParams (log_error m xs s) = st_dqParams s"
  "st_dqParams (log_warning m xs s) = st_dqParams s"
  "st_dqParams (save_proposal p s) = st_dqParams s"
  "st_dqParams (save_vote v s) = st_dqParams s"
  "st_dqParams (save_governance g s) = st_dqParams s"
  "st_dqParams (save_fork f s) = st_dqParams s"
  "st_dqParams (save_proposal_version w s) = st_dqParams s"
  "st_dqParams (save_candidate_content cc s) = st_dqParams s"
  "st_dqParams (save_candidate_sig cs s) = st_dqParams s"
  by (auto simp: getOrCreateDelegateWithNullOption_def getOrCreateProposal_def Let_def handler_defs
      split: option.splits)

lemma dq_delegate [simp]: "st_dqParams (snd (getOrCreateDelegate k s)) = st_dqParams s"
  using dq_frame(1) [of k s] by (simp add: getOrCreateDelegate_def case_prod_beta split: option.splits)

lemma dq_folds [simp]:
  "st_dqParams (fold (\<lambda>t. save_escrowed_noun (g t)) ts s) = st_dqParams s"
  "st_dqParams (fold (\<lambda>t. remove_escrowed_noun (k t)) ts s) = st_dqParams s"
  "st_dqParams (fold (\<lambda>t. save_fork_joined_noun (j t)) ts s) = st_dqParams s"
  by (induction ts arbitrary: s) (simp_all add: handler_defs)

lemma dq_mark: "markProposalCandidateIfExists env p u s = Some s' \<Longrightarrow> st_dqParams s' = st_dqParams s"
  by (cases "calcEncodedProposalHash env p u";
      cases "load_candidate_content (toHexString (the (calcEncodedProposalHash env p u))) s")
     (auto simp: markProposalCandidateIfExists_def Let_def)

lemma dq_capture: "captureProposalVersion env tx li p u m s = Some s' \<Longrightarrow> st_dqParams s' = st_dqParams s"
  by (auto simp: captureProposalVersion_def Let_def dest!: dq_mark)

lemma dq_signers: "signer_delegates tx xs s = Some (ids, s') \<Longrightarrow> st_dqParams s' = st_dqParams s"
proof (induction xs arbitrary: s ids)
  case (Cons x xs)
  then show ?case by (fastforce simp: Let_def case_prod_beta split: if_splits)
qed simp

definition dq_keyed :: "store \<Rightarrow> bool" where
  "dq_keyed s \<longleftrightarrow> (\<forall>d. st_dqParams s LATEST = Some d \<longrightarrow> dq_id d = LATEST)"

definition start_block :: "store \<Rightarrow> int option" where
  "start_block s = (case st_dqParams s LATEST of None \<Rightarrow> None | Some d \<Rightarrow> dq_dynamicQuorumStartBlock d)"

definition frozen :: "int \<Rightarrow> store \<Rightarrow> bool" where
  "frozen b s \<longleftrightarrow> dq_keyed s \<and> start_block s = Some b"

lemma frozen_cong: "st_dqParams s' = st_dqParams s \<Longrightarrow> frozen b s' = frozen b s"
  by (simp add: frozen_def dq_keyed_def start_block_def)

lemma frozen_params:
  assumes "frozen b s"
  shows "snd (getOrCreateDynamicQuorumParams x s) = s"
    "dq_id (fst (getOrCreateDynamicQuorumParams x s)) = LATEST"
    "dq_dynamicQuorumStartBlock (fst (getOrCreateDynamicQuorumParams x s)) = Some b"
  using assms
  by (auto simp: getOrCreateDynamicQuorumParams_def Let_def frozen_def start_block_def load_dq_params_def
      dq_keyed_def split: option.splits)

lemma created_dq:
  assumes "handleProposalCreated env pp s = Some s'"
  obtains s2 where "st_dqParams s2 = st_dqParams s"
    "st_dqParams s' = st_dqParams (snd (getOrCreateDynamicQuorumParams None s2))"
proof -
  let ?r = "getOrCreateDelegateWithNullOption (pp_proposer pp) True True (snd (getOrCreateProposal (pp_id pp) s))"
  let ?s1 = "if created (fst ?r) \<and> pp_signers pp = []
    then log_error ''Delegate {} not found on ProposalCreated. tx_hash: {}''
           [pp_proposer pp, pp_txHash pp] (snd ?r) else snd ?r"
  from assms [unfolded handleProposalCreated_def Let_def case_prod_beta bind_eq_Some_iff]
  obtain y q where y: "signer_delegates (pp_txHash pp) (pp_signers pp) ?s1 = Some y"
    and c: "captureProposalVersion env (pp_txHash pp) (pp_logIndex pp)
       (fill_quorum (fst (getOrCreateDynamicQuorumParams None (snd y))) q) False []
       (save_proposal (fill_quorum (fst (getOrCreateDynamicQuorumParams None (snd y))) q)
          (snd (getOrCreateDynamicQuorumParams None (snd y)))) = Some s'"
    by (elim exE conjE) (rule that)
  from y have "st_dqParams (snd y) = st_dqParams s"
    by (cases y) (auto dest!: dq_signers split: if_splits)
  then show ?thesis using dq_capture [OF c] by (intro that) simp_all
qed

lemma vote_dq:
  assumes "handleVoteCast env c a i spt n reason s = Some s'"
  obtains s2 where "st_dqParams s2 = st_dqParams s"
    "st_dqParams s' = st_dqParams (snd (getOrCreateDynamicQuorumParams None s2))"
proof -
  let ?g = "getOrCreateProposal (int_to_string i) s"
  let ?r = "getOrCreateDelegateWithNullOption (toHexString a) True True (snd ?g)"
  let ?s1 = "if created (fst ?r) then log_error ''Delegate {} not found on VoteCast. tx_hash: {}''
                       [toHexString a, toHexString (ev_txHash c)] (snd ?r) else snd ?r"
  from assms [unfolded handleVoteCast_def Let_def case_prod_beta bind_eq_Some_iff]
  obtain w z where
    z: "Some (save_proposal z (snd (getOrCreateDynamicQuorumParams None (save_vote w ?s1)))) = Some s'"
    by (elim exE conjE) (rule that)
  show ?thesis using z by (intro that [of "save_vote w ?s1"]) auto
qed

fun uses_params :: "dao_event \<Rightarrow> bool" where
  "uses_params (ProposalCreatedV1 c e) = True"
| "uses_params (ProposalCreatedV3 c e) = True"
| "uses_params (VoteCast c v i spt n r) = True"
| "uses_params (MinQuorumVotesBPSSet c b) = True"
| "uses_params (MaxQuorumVotesBPSSet c b) = True"
| "uses_params (QuorumCoefficientSet c n) = True"
| "uses_params _ = False"

lemma dq_signature: "st_dqParams (handleSignatureCanceled c x y s) = st_dqParams s"
  by (simp add: handleSignatureCanceled_def Let_def split: option.split)

lemma dq_untouched:
  assumes "handle_dao_event env e s = Some s'" and "\<not> uses_params e"
  shows "st_dqParams s' = st_dqParams s"
  using assms
  by (cases e) (auto simp: edit_handler_defs Let_def case_prod_beta handleProposalQueued_def
      handleProposalExecuted_def handleEscrowedToFork_def handleWithdrawFromForkEscrow_def handleJoinFork_def
      handleExecuteFork_def handleVoteSnapshotBlockSwitchProposalIdSet_def save_escrow_deposit_def
      save_escrow_withdrawal_def save_fork_join_def dq_signature dest!: dq_capture)

lemma frozen_step:
  assumes f: "frozen b s" and h: "handle_dao_event env e s = Some s'"
  shows "frozen b s'"
proof -
  have through: "frozen b s'" if "st_dqParams s2 = st_dqParams s"
    "st_dqParams s' = st_dqParams (snd (getOrCreateDynamicQuorumParams None s2))" for s2
  proof -
    have "frozen b s2" using f frozen_cong [OF that(1)] by simp
    then show ?thesis using frozen_cong [OF that(2)] frozen_params(1) by metis
  qed
  have set: "frozen b (save_dq_params d s)" if "dq_id d = LATEST" "dq_dynamicQuorumStartBlock d = Some b" for d
    using that by (simp add: frozen_def dq_keyed_def start_block_def save_dq_params_def)
  show ?thesis
  proof (cases e)
    case (ProposalCreatedV1 c x)
    then show ?thesis using h created_dq through
      by (metis handle_dao_event.simps(1) handleProposalCreatedWithRequirements_def)
  next
    case (ProposalCreatedV3 c x)
    then obtain pp where "handleProposalCreated env pp s = Some s'"
      using h by (auto simp: handleProposalCreatedWithRequirementsV3_def)
    then show ?thesis using created_dq through by metis
  next
    case (VoteCast c a i spt n r)
    then show ?thesis using h vote_dq through by (metis handle_dao_event.simps(11))
  next
    case (MinQuorumVotesBPSSet c x)
    then show ?thesis using h frozen_params [OF f] set
      by (auto simp: handleMinQuorumVotesBPSSet_def case_prod_beta)
  next
    case (MaxQuorumVotesBPSSet c x)
    then show ?thesis using h frozen_params [OF f] set
      by (auto simp: handleMaxQuorumVotesBPSSet_def case_prod_beta)
  next
    case (QuorumCoefficientSet c x)
    then show ?thesis using h frozen_params [OF f] set
      by (auto simp: handleQuorumCoefficientSet_def case_prod_beta)
  qed (use f frozen_cong [OF dq_untouched [OF h]] in simp_all)
qed

interpretation dq: machine "handle_dao_event env" "\<lambda>_ _. True" "frozen b"
  for env b
  by unfold_locales (rule frozen_step)

text \<open>
  The block from which dynamic quorum applies is set once: whatever events follow, it stays
  the block of the first parameter event.
\<close>

theorem quorum_start_is_frozen:
  assumes "frozen b s" and "run_events (handle_dao_event env) es s = Some s'"
  shows "start_block s' = Some b"
  using dq.run_inv [OF _ assms] by (simp add: frozen_def)

theorem quorum_start_is_frozen_witness:
  "start_block (handleMaxQuorumVotesBPSSet demo_dao_ctx 4000 demo_voting_store) = Some 7"
proof (rule quorum_start_is_frozen)
  show "frozen 7 demo_voting_store"
    by (simp add: demo_voting_store_def frozen_def dq_keyed_def start_block_def) (simp add: save_dq_params_def)
  show "run_events (handle_dao_event demo_env) [MaxQuorumVotesBPSSet demo_dao_ctx 4000] demo_voting_store = Some (handleMaxQuorumVotesBPSSet demo_dao_ctx 4000 demo_voting_store)"
    by simp
qed

section \<open>Runs\<close>

text \<open>
  C4: after every run of events a DAO contract can emit, a proposal's for, against and abstain
  counts are the sums of the stored votes on it with that support.
\<close>

theorem tallies_are_sums_of_votes:
  assumes "toI32_in_range env" and "legal_run (handle_dao_event env) legal_dao_event es empty_store"
  shows "\<exists>s. run_events (handle_dao_event env) es empty_store = Some s \<and>
    (\<forall>k p. st_proposals s k = Some p \<longrightarrow> prop_againstVotes p = Some (tally (view s) k 0) \<and>
       prop_forVotes p = Some (tally (view s) k 1) \<and> prop_abstainVotes p = Some (tally (view s) k 2))"
  using dao_run_inv [OF assms dao_inv_empty]
  by (auto simp: dao_inv_def tallies_ok_def view_fields)

text \<open>
  The governance counters are exact: the number of proposals is the number stored, and the
  number of queued proposals is the number queued and not executed.
\<close>

theorem proposal_counters_exact:
  assumes "toI32_in_range env" and "legal_run (handle_dao_event env) legal_dao_event es empty_store"
  shows "\<exists>s. run_events (handle_dao_event env) es empty_store = Some s \<and>
    gov_proposals (getGovernanceEntity s) = int (card (dom (st_proposals s))) \<and>
    gov_proposalsQueued (getGovernanceEntity s) = int (card {k. \<exists>p. st_proposals s k = Some p \<and>
      prop_queuedBlock p \<noteq> None \<and> prop_executedBlock p = None})"
  using dao_run_inv [OF assms dao_inv_empty]
  by (auto simp: dao_inv_def counts_ok_def queue_def view_def)

text \<open>
  C9: the escrow count of a fork is the number of Nouns stored as escrowed for it, and once the
  fork is executed its forking count is that number plus the number of Nouns that joined.
\<close>

theorem fork_counts_exact:
  assumes "toI32_in_range env" and "legal_run (handle_dao_event env) legal_dao_event es empty_store"
  shows "\<exists>s. run_events (handle_dao_event env) es empty_store = Some s \<and>
    (\<forall>k f. st_forks s k = Some f \<longrightarrow>
       fork_tokensInEscrowCount f = word_of_nat (card (escrow_of (view s) k)) \<and>
       (fork_executed f = Some True \<longrightarrow> fork_tokensForkingCount f =
          word_of_nat (card (escrow_of (view s) k) + card (joined_of (view s) k))))"
  using dao_run_inv [OF assms dao_inv_empty]
  by (auto simp: dao_inv_def forks_ok_def fork_ok_def view_fields)

text \<open>A run: a proposal is created and voted on, then two Nouns are escrowed.\<close>

definition demo_v1 :: v1_params where
  "demo_v1 = \<lparr>ep_id = 3, ep_proposer = replicate 20 1, ep_targets = [replicate 20 2], ep_values = [5],
     ep_signatures = [''f()''], ep_calldatas = [[7]], ep_startBlock = 20, ep_endBlock = 30,
     ep_proposalThreshold = 1, ep_quorumVotes = 2, ep_description = ''D''\<rparr>"

definition demo_create :: dao_event where "demo_create = ProposalCreatedV1 demo_dao_ctx demo_v1"
definition demo_vote :: dao_event where "demo_vote = VoteCast demo_dao_ctx [1] 3 1 5 []"
definition demo_escrow :: dao_event where "demo_escrow = EscrowedToFork demo_dao_ctx 1 [1] [7, 8] [] []"

lemma demo_runtime: "runtime_total demo_env"
  by (simp add: runtime_total_def demo_env_def demo_keccak_length)

lemma empty_view: "view empty_store = \<lparr>v_proposals = Map.empty, v_votes = Map.empty, v_forks = Map.empty,
    v_escrowed = Map.empty, v_joined = Map.empty, v_govId = GOVERNANCE, v_count = 0, v_queued = 0\<rparr>"
  by (simp add: view_def empty_store_def getGovernanceEntity_def load_governance_def new_governance_def)

lemma empty_no_proposal: "\<not> has_proposal i empty_store" "load_proposal k empty_store = None"
  by (simp_all add: has_proposal_def load_proposal_def empty_store_def)

lemma demo_created:
  obtains s p where "handle_dao_event demo_env demo_create empty_store = Some s"
    "load_proposal (int_to_string 3) s = Some p" "prop_status p \<noteq> None" "dao_inv s"
    "v_votes (view s) = Map.empty" "v_forks (view s) = Map.empty" "v_escrowed (view s) = Map.empty"
    "\<exists>d. load_dq_params LATEST s = Some d \<and> dq_dynamicQuorumStartBlock d = None"
proof -
  let ?pp = "fromV1Event demo_dao_ctx demo_v1"
  have "delegates_keyed empty_store" by (simp add: delegates_keyed_def empty_store_def)
  from creation_returns [OF demo_runtime this empty_no_proposal(1) [of 3], of ?pp "replicate 20 1"]
  obtain s p where s: "handleProposalCreated demo_env ?pp empty_store = Some s"
    and p: "load_proposal (int_to_string 3) s = Some p" "prop_status p \<noteq> None"
    by (auto simp: fromV1Event_def Let_def demo_v1_def is_uint256_def)
  have h: "handle_dao_event demo_env demo_create empty_store = Some s"
    using s by (simp add: demo_create_def handleProposalCreatedWithRequirements_def)
  have inv: "dao_inv s"
    by (rule dao_step_inv [OF dao_inv_empty _ demo_env_toI32 h]) (simp add: demo_create_def empty_no_proposal)
  from created_effect [OF s empty_no_proposal(2)] have v: "v_votes (view s) = Map.empty"
    "v_forks (view s) = Map.empty" "v_escrowed (view s) = Map.empty" by (auto simp: empty_view)
  from created_dq [OF s] obtain s2 where "st_dqParams s2 = st_dqParams empty_store"
    "st_dqParams s = st_dqParams (snd (getOrCreateDynamicQuorumParams None s2))" by blast
  then have d: "\<exists>d. load_dq_params LATEST s = Some d \<and> dq_dynamicQuorumStartBlock d = None"
    by (simp add: load_dq_params_def getOrCreateDynamicQuorumParams_def Let_def save_dq_params_def empty_store_def)
  show ?thesis by (rule that [OF h p inv v d])
qed

lemma demo_voted:
  assumes s: "load_proposal (int_to_string 3) s = Some p" "prop_status p \<noteq> None" "dao_inv s"
    "v_votes (view s) = Map.empty" "load_dq_params LATEST s = Some d" "dq_dynamicQuorumStartBlock d = None"
  shows "legal_dao_event demo_vote s \<and> (\<exists>s'. handle_dao_event demo_env demo_vote s = Some s' \<and>
    v_forks (view s') = v_forks (view s) \<and> v_escrowed (view s') = v_escrowed (view s))"
proof -
  have k: "tallies_ok (view s)" using s(3) by (simp add: dao_inv_def)
  note kp = known_proposal_view [OF k s(1)]
  have t: "prop_againstVotes p \<noteq> None" "prop_forVotes p \<noteq> None" "prop_abstainVotes p \<noteq> None"
    using k kp(1) by (auto simp: tallies_ok_def)
  obtain q where q: "count_vote 1 5 p = Some q" using count_vote_total [OF t] by blast
  have r: "update_quorum demo_env d q = Some q" using s(6) by (simp add: update_quorum_def)
  obtain s' where h: "handleVoteCast demo_env demo_dao_ctx [1] 3 1 5 [] s = Some s'"
    using vote_returns [OF s(1) kp(2) t s(2) q s(5) r] by blast
  have new: "load_vote (voteId [1] 3) s = None" using s(4) by (simp add: load_vote_def view_fields)
  from vote_effect [OF h s(1) kp(2) new] h s(1) new show ?thesis
    by (auto simp: demo_vote_def has_proposal_def)
qed

lemma demo_dao_legal:
  "legal_run (handle_dao_event demo_env) legal_dao_event [demo_create, demo_vote, demo_escrow] empty_store"
proof -
  obtain s p d where s: "handle_dao_event demo_env demo_create empty_store = Some s"
    "load_proposal (int_to_string 3) s = Some p" "prop_status p \<noteq> None" "dao_inv s"
    "v_votes (view s) = Map.empty" "v_forks (view s) = Map.empty" "v_escrowed (view s) = Map.empty"
    "load_dq_params LATEST s = Some d" "dq_dynamicQuorumStartBlock d = None"
    using demo_created by metis
  from demo_voted [OF s(2-5) s(8,9)] obtain s' where v: "legal_dao_event demo_vote s"
    "handle_dao_event demo_env demo_vote s = Some s'"
    "v_forks (view s') = Map.empty" "v_escrowed (view s') = Map.empty" using s by auto
  have c: "legal_dao_event demo_create empty_store" by (simp add: demo_create_def empty_no_proposal)
  have "fork_executed (getOrCreateFork 1 empty_store) = None"
    by (simp add: getOrCreateFork_def load_fork_def empty_store_def)
  then have "\<not> fork_done 1 s'" "\<forall>k. load_escrowed_noun k s' = None"
    using v(3,4) by (simp_all add: fork_done_def getOrCreateFork_view the_fork_def load_escrowed_noun_def
        view_fields)
  then have e: "legal_dao_event demo_escrow s' \<and> handle_dao_event demo_env demo_escrow s' \<noteq> None"
    by (simp add: demo_escrow_def)
  from s(1) c v(1,2) e show ?thesis by (auto simp del: handle_dao_event.simps legal_dao_event.simps)
qed

theorem tallies_are_sums_of_votes_witness:
  "\<exists>s. run_events (handle_dao_event demo_env) [demo_create, demo_vote, demo_escrow] empty_store = Some s \<and>
    (\<forall>k p. st_proposals s k = Some p \<longrightarrow> prop_againstVotes p = Some (tally (view s) k 0) \<and>
       prop_forVotes p = Some (tally (view s) k 1) \<and> prop_abstainVotes p = Some (tally (view s) k 2))"
  by (rule tallies_are_sums_of_votes [OF demo_env_toI32 demo_dao_legal])

theorem proposal_counters_exact_witness:
  "\<exists>s. run_events (handle_dao_event demo_env) [demo_create, demo_vote, demo_escrow] empty_store = Some s \<and>
    gov_proposals (getGovernanceEntity s) = int (card (dom (st_proposals s))) \<and>
    gov_proposalsQueued (getGovernanceEntity s) = int (card {k. \<exists>p. st_proposals s k = Some p \<and>
      prop_queuedBlock p \<noteq> None \<and> prop_executedBlock p = None})"
  by (rule proposal_counters_exact [OF demo_env_toI32 demo_dao_legal])

theorem fork_counts_exact_witness:
  "\<exists>s. run_events (handle_dao_event demo_env) [demo_create, demo_vote, demo_escrow] empty_store = Some s \<and>
    (\<forall>k f. st_forks s k = Some f \<longrightarrow>
       fork_tokensInEscrowCount f = word_of_nat (card (escrow_of (view s) k)) \<and>
       (fork_executed f = Some True \<longrightarrow> fork_tokensForkingCount f =
          word_of_nat (card (escrow_of (view s) k) + card (joined_of (view s) k))))"
  by (rule fork_counts_exact [OF demo_env_toI32 demo_dao_legal])

theorem status_refinement_witness:
  "\<exists>s'. handle_dao_event demo_env demo_create empty_store = Some s' \<and>
     status_of s' = status_after demo_create (status_of empty_store)"
proof -
  obtain s where s: "handle_dao_event demo_env demo_create empty_store = Some s"
    using demo_created by metis
  have "legal_dao_event demo_create empty_store" by (simp add: demo_create_def empty_no_proposal)
  with s status_refinement [OF dao_inv_empty _ s] show ?thesis by blast
qed

theorem creation_is_indexed_witness:
  "\<exists>s' p. handleProposalCreated demo_env (fromV1Event demo_dao_ctx demo_v1) empty_store = Some s' \<and>
     load_proposal (int_to_string 3) s' = Some p \<and>
     prop_status p = Some (pp_status (fromV1Event demo_dao_ctx demo_v1)) \<and> prop_forVotes p = Some 0"
proof (rule creation_is_indexed [OF demo_runtime _ empty_no_proposal(1)])
  show "delegates_keyed empty_store" by (simp add: delegates_keyed_def empty_store_def)
  show "length (replicate 20 1 :: bytes) = 20" by simp
qed (simp_all add: fromV1Event_def Let_def demo_v1_def is_uint256_def)

definition demo_open_proposal :: proposal where
  "demo_open_proposal = (demo_proposal ''A'')
     \<lparr>prop_againstVotes := Some 0, prop_forVotes := Some 0, prop_abstainVotes := Some 0\<rparr>"

definition demo_open_store :: store where
  "demo_open_store = save_governance (new_governance\<lparr>gov_proposals := 1\<rparr>)
     (save_proposal demo_open_proposal empty_store)"

lemma demo_open_proposal_id: "prop_id demo_open_proposal = int_to_string 9"
  by (simp add: demo_open_proposal_def demo_proposal_def new_proposal_def)

lemma demo_open_view:
  "view demo_open_store = \<lparr>v_proposals = [int_to_string 9 \<mapsto> demo_open_proposal], v_votes = Map.empty,
     v_forks = Map.empty, v_escrowed = Map.empty, v_joined = Map.empty, v_govId = GOVERNANCE,
     v_count = 1, v_queued = 0\<rparr>"
  by (simp add: demo_open_store_def view_save_governance new_governance_def empty_view demo_open_proposal_id)

lemma demo_open_inv: "dao_inv demo_open_store"
  unfolding dao_inv_def demo_open_view
  by (simp add: tallies_ok_def tally_def ballots_def counts_ok_def queue_def forks_ok_def escrow_of_def
      joined_of_def demo_open_proposal_id)
     (simp add: demo_open_proposal_def demo_proposal_def new_proposal_def)

definition demo_update :: dao_event where
  "demo_update = ProposalDescriptionUpdated demo_dao_ctx 9 ''E'' ''m''"

lemma demo_update_returns:
  "legal_dao_event demo_update demo_open_store \<and> (\<exists>s'. handle_dao_event demo_env demo_update demo_open_store = Some s')"
proof -
  have p: "load_proposal (int_to_string 9) demo_open_store = Some demo_open_proposal"
    by (simp add: load_proposal_def view_fields demo_open_view)
  let ?q = "demo_open_proposal\<lparr>prop_lastUpdatedTimestamp := Some 1, prop_lastUpdatedBlock := Some 10,
    prop_description := Some (unescape_newlines ''E''), prop_title := Some (extractTitle (unescape_newlines ''E''))\<rparr>"
  have "has_content ?q (demo_content\<lparr>ct_description := unescape_newlines ''E''\<rparr>)"
    using demo_has_content [of "''A''"] by (simp add: has_content_def demo_open_proposal_def)
  from capture_returns [OF demo_runtime this, of 9] demo_open_proposal_id p show ?thesis
    by (simp add: demo_update_def handleProposalDescriptionUpdated_def proposal_known [OF p] Let_def
        has_proposal_def demo_dao_ctx_def is_uint256_def)
qed

theorem updates_capture_versions_witness:
  "\<exists>s' p. handle_dao_event demo_env demo_update demo_open_store = Some s' \<and>
    load_proposal (int_to_string 9) s' = Some p \<and>
    st_proposalVersions s' = (st_proposalVersions demo_open_store)
      (genericUniqueId demo_dao_ctx \<mapsto> version_of (genericUniqueId demo_dao_ctx) p ''m'')"
proof -
  obtain s' where s': "handle_dao_event demo_env demo_update demo_open_store = Some s'"
    and l: "legal_dao_event demo_update demo_open_store" using demo_update_returns by blast
  have vk: "versions_keyed demo_open_store"
    by (simp add: versions_keyed_def demo_open_store_def save_governance_def save_proposal_def empty_store_def)
  have "version_event demo_update = Some (demo_dao_ctx, 9, ''m'')" by (simp add: demo_update_def)
  from updates_capture_versions [OF demo_open_inv l vk this s'] s' show ?thesis by blast
qed

end
