(* ===== verification/Subgraph_Data.thy ===== *)
theory Subgraph_Data
  imports Subgraph_Proposal
begin

text \<open>
  The handlers of the DAO data contract, \<open>src/nouns-dao-data.ts\<close> of
  \<open>packages/nouns-subgraph\<close>: proposal candidates, their versions and contents, signatures
  that sponsor them, and feedback. A handler returns \<^const>\<open>None\<close> where the mapping aborts.
\<close>

section \<open>Candidates\<close>

definition captureProposalCandidateVersion ::
  "string \<Rightarrow> string \<Rightarrow> string \<Rightarrow> bytes list \<Rightarrow> int list \<Rightarrow> string list \<Rightarrow> bytes list \<Rightarrow> string \<Rightarrow>
   int \<Rightarrow> bytes \<Rightarrow> event_ctx \<Rightarrow> bytes \<Rightarrow> string \<Rightarrow> store \<Rightarrow> candidate_version \<times> store" where
  "captureProposalCandidateVersion txHash logIndex candidateId targets vals signatures calldatas
      description proposalIdToUpdate encodedProposalHash block proposer updateMessage s =
     (let content = (getOrCreateProposalCandidateContent (toHexString encodedProposalHash) s)
            \<lparr>cc_targets := Some targets, cc_values := Some vals, cc_signatures := Some signatures,
             cc_calldatas := Some calldatas, cc_description := Some description,
             cc_proposalIdToUpdate := Some proposalIdToUpdate,
             cc_title := Some (extractTitle description), cc_proposer := Some proposer,
             cc_encodedProposalHash := Some encodedProposalHash,
             cc_matchingProposalIds := Some []\<rparr>;
          s = save_candidate_content content s;
          versionId = txHash @ ''-'' @ logIndex;
          version = (getOrCreateProposalCandidateVersion versionId s)
            \<lparr>cv_content := Some (cc_id content), cv_proposal := Some candidateId,
             cv_createdTimestamp := Some (ev_blockTimestamp block),
             cv_createdBlock := Some (ev_blockNumber block),
             cv_updateMessage := Some updateMessage\<rparr>;
          s = save_candidate_version version s
      in (version, s))"

text \<open>What a created or updated candidate proposes.\<close>

record candidate_params =
  cp_msgSender :: bytes
  cp_slug :: string
  cp_targets :: "bytes list"
  cp_values :: "int list"
  cp_signatures :: "string list"
  cp_calldatas :: "bytes list"
  cp_description :: string
  cp_proposalIdToUpdate :: int
  cp_encodedProposalHash :: bytes

definition handleProposalCandidateCreated :: "event_ctx \<Rightarrow> candidate_params \<Rightarrow> store \<Rightarrow> store" where
  "handleProposalCandidateCreated ctx e s =
     (let (candidate, s) = getOrCreateProposalCandidate (candidateID (cp_msgSender e) (cp_slug e)) s;
          candidate = candidate
            \<lparr>cand_proposer := Some (cp_msgSender e), cand_slug := Some (cp_slug e),
             cand_createdTransactionHash := Some (ev_txHash ctx),
             cand_createdTimestamp := Some (ev_blockTimestamp ctx),
             cand_createdBlock := Some (ev_blockNumber ctx),
             cand_lastUpdatedTimestamp := Some (ev_blockTimestamp ctx),
             cand_lastUpdatedBlock := Some (ev_blockNumber ctx),
             cand_canceled := Some False, cand_number := Some (getCandidateIndex s)\<rparr>;
          (version, s) = captureProposalCandidateVersion (toHexString (ev_txHash ctx))
            (int_to_string (ev_logIndex ctx)) (cand_id candidate) (cp_targets e) (cp_values e)
            (cp_signatures e) (cp_calldatas e) (cp_description e) (cp_proposalIdToUpdate e)
            (cp_encodedProposalHash e) ctx (cp_msgSender e) [] s
      in save_candidate (candidate\<lparr>cand_latestVersion := Some (cv_id version)\<rparr>) s)"

text \<open>An update reads the stored proposer, which aborts on a candidate never created.\<close>

definition handleProposalCandidateUpdated ::
  "event_ctx \<Rightarrow> candidate_params \<Rightarrow> string \<Rightarrow> store \<Rightarrow> store option" where
  "handleProposalCandidateUpdated ctx e reason s =
     do {
       let (candidate, s) = getOrCreateProposalCandidate (candidateID (cp_msgSender e) (cp_slug e)) s;
       let candidate = candidate
         \<lparr>cand_lastUpdatedTimestamp := Some (ev_blockTimestamp ctx),
          cand_lastUpdatedBlock := Some (ev_blockNumber ctx)\<rparr>;
       proposer \<leftarrow> cand_proposer candidate;
       let (version, s) = captureProposalCandidateVersion (toHexString (ev_txHash ctx))
            (int_to_string (ev_logIndex ctx)) (cand_id candidate) (cp_targets e) (cp_values e)
            (cp_signatures e) (cp_calldatas e) (cp_description e) (cp_proposalIdToUpdate e)
            (cp_encodedProposalHash e) ctx proposer reason s;
       Some (save_candidate (candidate\<lparr>cand_latestVersion := Some (cv_id version)\<rparr>) s)
     }"

definition handleProposalCandidateCanceled :: "event_ctx \<Rightarrow> bytes \<Rightarrow> string \<Rightarrow> store \<Rightarrow> store" where
  "handleProposalCandidateCanceled ctx msgSender slug s =
     (let (candidate, s) = getOrCreateProposalCandidate (candidateID msgSender slug) s
      in save_candidate (candidate\<lparr>cand_canceled := Some True,
           cand_canceledTimestamp := Some (ev_blockTimestamp ctx),
           cand_canceledBlock := Some (ev_blockNumber ctx)\<rparr>) s)"

section \<open>Signatures\<close>

record sig_params =
  sp_signer :: bytes
  sp_sig :: bytes
  sp_expirationTimestamp :: int
  sp_proposer :: bytes
  sp_slug :: string
  sp_encodedPropHash :: bytes
  sp_sigDigest :: bytes
  sp_reason :: string

definition handleSignatureAdded :: "event_ctx \<Rightarrow> sig_params \<Rightarrow> store \<Rightarrow> store option" where
  "handleSignatureAdded ctx e s =
     do {
       let sigId = toHexString (sp_signer e) @ ''-'' @ toHexString (sp_sig e);
       let candidateSig = getOrCreateProposalCandidateSignature sigId s;
       let (candidate, s) = getOrCreateProposalCandidate (candidateID (sp_proposer e) (sp_slug e)) s;
       latestId \<leftarrow> cand_latestVersion candidate;
       latestVersion \<leftarrow> load_candidate_version latestId s;
       contentId \<leftarrow> cv_content latestVersion;
       latestContent \<leftarrow> load_candidate_content contentId s;
       latestHash \<leftarrow> cc_encodedProposalHash latestContent;
       if latestHash \<noteq> sp_encodedPropHash e
       then Some (log_error ''Wrong encodedProposalHash. Latest version: {}. Event: {}. tx_hash: {}''
              [toHexString latestHash, toHexString (sp_encodedPropHash e),
               toHexString (ev_txHash ctx)] s)
       else do {
         let (signer, s) = getOrCreateDelegate (toHexString (sp_signer e)) s;
         Some (save_candidate_sig (candidateSig
           \<lparr>cs_content := Some contentId, cs_signer := Some (del_id signer),
            cs_sig := Some (sp_sig e), cs_expirationTimestamp := Some (sp_expirationTimestamp e),
            cs_encodedProposalHash := Some (sp_encodedPropHash e),
            cs_sigDigest := Some (sp_sigDigest e), cs_reason := Some (sp_reason e),
            cs_createdBlock := Some (ev_blockNumber ctx),
            cs_createdTimestamp := Some (ev_blockTimestamp ctx)\<rparr>) s)
       }
     }"

section \<open>Feedback\<close>

definition handleFeedbackSent ::
  "event_ctx \<Rightarrow> bytes \<Rightarrow> int \<Rightarrow> i32 \<Rightarrow> string \<Rightarrow> store \<Rightarrow> store" where
  "handleFeedbackSent ctx msgSender proposalId support reason s =
     (let feedbackId = toHexString (ev_txHash ctx) @ ''-'' @ int_to_string (ev_logIndex ctx);
          feedback = getOrCreateProposalFeedback feedbackId s;
          (delegate, s) = getOrCreateDelegate (toHexString msgSender) s
      in save_proposal_feedback (feedback
           \<lparr>pf_createdTimestamp := Some (ev_blockTimestamp ctx),
            pf_createdBlock := Some (ev_blockNumber ctx),
            pf_proposal := Some (int_to_string proposalId), pf_voter := Some (del_id delegate),
            pf_supportDetailed := Some support, pf_votes := Some (del_delegatedVotes delegate),
            pf_reason := Some reason\<rparr>) s)"

definition handleCandidateFeedbackSent ::
  "event_ctx \<Rightarrow> bytes \<Rightarrow> bytes \<Rightarrow> string \<Rightarrow> i32 \<Rightarrow> string \<Rightarrow> store \<Rightarrow> store" where
  "handleCandidateFeedbackSent ctx msgSender proposer slug support reason s =
     (let feedbackId = toHexString (ev_txHash ctx) @ ''-'' @ int_to_string (ev_logIndex ctx);
          feedback = getOrCreateCandidateFeedback feedbackId s;
          (delegate, s) = getOrCreateDelegate (toHexString msgSender) s
      in save_candidate_feedback (feedback
           \<lparr>cf_createdTimestamp := Some (ev_blockTimestamp ctx),
            cf_createdBlock := Some (ev_blockNumber ctx),
            cf_candidate := Some (candidateID proposer slug), cf_voter := Some (del_id delegate),
            cf_supportDetailed := Some support, cf_votes := Some (del_delegatedVotes delegate),
            cf_reason := Some reason\<rparr>) s)"

section \<open>Dispatch\<close>

datatype data_event =
    ProposalCandidateCreated event_ctx candidate_params
  | ProposalCandidateUpdated event_ctx candidate_params string
  | ProposalCandidateCanceled event_ctx bytes string
  | SignatureAdded event_ctx sig_params
  | FeedbackSent event_ctx bytes int i32 string
  | CandidateFeedbackSent event_ctx bytes bytes string i32 string

fun handle_data_event :: "data_event \<Rightarrow> store \<Rightarrow> store option" where
  "handle_data_event (ProposalCandidateCreated c e) s = Some (handleProposalCandidateCreated c e s)"
| "handle_data_event (ProposalCandidateUpdated c e r) s = handleProposalCandidateUpdated c e r s"
| "handle_data_event (ProposalCandidateCanceled c m sl) s = Some (handleProposalCandidateCanceled c m sl s)"
| "handle_data_event (SignatureAdded c e) s = handleSignatureAdded c e s"
| "handle_data_event (FeedbackSent c m i spt r) s = Some (handleFeedbackSent c m i spt r s)"
| "handle_data_event (CandidateFeedbackSent c m p sl spt r) s =
     Some (handleCandidateFeedbackSent c m p sl spt r s)"

end
