(* ===== verification/Subgraph_Data_Props.thy ===== *)
theory Subgraph_Data_Props
  imports Subgraph_Data
begin

text \<open>
  The candidate bookkeeping: numbers, latest versions, contents and signatures stay consistent
  over every run of events the data contract can emit.
\<close>

section \<open>The invariant\<close>

definition content_ok :: "store \<Rightarrow> bool" where
  "content_ok s \<longleftrightarrow>
     (\<forall>k c. st_candidateContents s k = Some c \<longrightarrow> cc_id c = k \<and>
        (\<exists>h. cc_encodedProposalHash c = Some h \<and> k = toHexString h))"

text \<open>A version of a candidate, with its content stored.\<close>

definition version_ok :: "store \<Rightarrow> string \<Rightarrow> string \<Rightarrow> bool" where
  "version_ok s k v \<longleftrightarrow> (\<exists>w x. st_candidateVersions s v = Some w \<and> cv_proposal w = Some k \<and>
     cv_content w = Some x \<and> st_candidateContents s x \<noteq> None)"

definition latest_ok :: "store \<Rightarrow> bool" where
  "latest_ok s \<longleftrightarrow> (\<forall>v w. st_candidateVersions s v = Some w \<longrightarrow> cv_id w = v) \<and>
     (\<forall>k c. st_candidates s k = Some c \<longrightarrow> cand_id c = k \<and> cand_proposer c \<noteq> None \<and>
        (\<exists>v. cand_latestVersion c = Some v \<and> version_ok s k v))"

definition sigs_ok :: "store \<Rightarrow> bool" where
  "sigs_ok s \<longleftrightarrow> (\<forall>k g. st_candidateSigs s k = Some g \<longrightarrow> cs_id g = k \<and>
     (\<exists>h. cs_encodedProposalHash g = Some h \<and> cs_content g = Some (toHexString h)))"

definition numbers :: "store \<Rightarrow> int option set" where
  "numbers s = cand_number ` ran (st_candidates s)"

definition numbers_ok :: "store \<Rightarrow> bool" where
  "numbers_ok s \<longleftrightarrow> gov_id (getGovernanceEntity s) = GOVERNANCE \<and> finite (dom (st_candidates s)) \<and>
     getCandidateIndex s = int (card (dom (st_candidates s))) \<and>
     numbers s = Some ` {1..getCandidateIndex s}"

definition data_inv :: "store \<Rightarrow> bool" where
  "data_inv s \<longleftrightarrow> content_ok s \<and> latest_ok s \<and> sigs_ok s \<and> numbers_ok s"

text \<open>
  What the data contract guarantees: a candidate is created once, and updated, cancelled or
  signed only after that; no two events share a transaction and a log index.
\<close>

fun legal_data_event :: "data_event \<Rightarrow> store \<Rightarrow> bool" where
  "legal_data_event (ProposalCandidateCreated c e) s \<longleftrightarrow>
     load_candidate (candidateID (cp_msgSender e) (cp_slug e)) s = None \<and>
     load_candidate_version (toHexString (ev_txHash c) @ ''-'' @ int_to_string (ev_logIndex c)) s = None"
| "legal_data_event (ProposalCandidateUpdated c e r) s \<longleftrightarrow>
     load_candidate (candidateID (cp_msgSender e) (cp_slug e)) s \<noteq> None \<and>
     load_candidate_version (toHexString (ev_txHash c) @ ''-'' @ int_to_string (ev_logIndex c)) s = None"
| "legal_data_event (ProposalCandidateCanceled c m sl) s \<longleftrightarrow> load_candidate (candidateID m sl) s \<noteq> None"
| "legal_data_event (SignatureAdded c e) s \<longleftrightarrow> load_candidate (candidateID (sp_proposer e) (sp_slug e)) s \<noteq> None"
| "legal_data_event _ s \<longleftrightarrow> True"

section \<open>Effects\<close>

lemma candidate_known: "load_candidate k s = Some c \<Longrightarrow> getOrCreateProposalCandidate k s = (c, s)"
  by (simp add: getOrCreateProposalCandidate_def)

text \<open>Recording a version touches contents and versions only.\<close>

lemma capture_candidate_effect:
  assumes c: "content_ok s" and l: "\<forall>v w. st_candidateVersions s v = Some w \<longrightarrow> cv_id w = v"
    and h: "captureProposalCandidateVersion tx li k ts vs sg cd d u h ctx p m s = (w, s')"
  shows "cv_id w = tx @ ''-'' @ li"
    "\<exists>x. cc_id x = toHexString h \<and> cc_encodedProposalHash x = Some h \<and>
       st_candidateContents s' = (st_candidateContents s)(toHexString h \<mapsto> x)"
    "cv_proposal w = Some k" "cv_content w = Some (toHexString h)"
    "st_candidateVersions s' = (st_candidateVersions s)(tx @ ''-'' @ li \<mapsto> w)"
    "st_candidates s' = st_candidates s" "st_candidateSigs s' = st_candidateSigs s"
    "st_governance s' = st_governance s"
proof -
  have ci: "cc_id (getOrCreateProposalCandidateContent (toHexString h) s) = toHexString h"
    using c by (auto simp: getOrCreateProposalCandidateContent_def load_candidate_content_def content_ok_def
        split: option.splits)
  have vi: "cv_id (getOrCreateProposalCandidateVersion (tx @ ''-'' @ li) t) = tx @ ''-'' @ li"
    if "st_candidateVersions t = st_candidateVersions s" for t
    using l that by (auto simp: getOrCreateProposalCandidateVersion_def load_candidate_version_def
        split: option.splits)
  have vi': "cv_id (getOrCreateProposalCandidateVersion (tx @ ''-'' @ li) (save_candidate_content x s)) = tx @ ''-'' @ li"
    for x by (rule vi) (simp add: save_candidate_content_def)
  define x where "x = (getOrCreateProposalCandidateContent (toHexString h) s)
            \<lparr>cc_targets := Some ts, cc_values := Some vs, cc_signatures := Some sg,
             cc_calldatas := Some cd, cc_description := Some d, cc_proposalIdToUpdate := Some u,
             cc_title := Some (extractTitle d), cc_proposer := Some p,
             cc_encodedProposalHash := Some h, cc_matchingProposalIds := Some []\<rparr>"
  have x: "cc_id x = toHexString h" "cc_encodedProposalHash x = Some h" using ci by (simp_all add: x_def)
  have w: "w = (getOrCreateProposalCandidateVersion (tx @ ''-'' @ li) (save_candidate_content x s))
            \<lparr>cv_content := Some (cc_id x), cv_proposal := Some k,
             cv_createdTimestamp := Some (ev_blockTimestamp ctx),
             cv_createdBlock := Some (ev_blockNumber ctx), cv_updateMessage := Some m\<rparr>"
    and s': "s' = save_candidate_version w (save_candidate_content x s)"
    using h by (auto simp: captureProposalCandidateVersion_def Let_def x_def)
  have id: "cv_id w = tx @ ''-'' @ li" using vi' [of x] by (simp add: w)
  then show "cv_id w = tx @ ''-'' @ li" .
  show "cv_proposal w = Some k" "cv_content w = Some (toHexString h)" using x by (simp_all add: w)
  show "\<exists>x. cc_id x = toHexString h \<and> cc_encodedProposalHash x = Some h \<and>
       st_candidateContents s' = (st_candidateContents s)(toHexString h \<mapsto> x)"
    using x by (auto simp: s' save_candidate_version_def save_candidate_content_def)
  show "st_candidateVersions s' = (st_candidateVersions s)(tx @ ''-'' @ li \<mapsto> w)"
    "st_candidates s' = st_candidates s" "st_candidateSigs s' = st_candidateSigs s"
    "st_governance s' = st_governance s"
    using id by (simp_all add: s' save_candidate_version_def save_candidate_content_def)
qed

text \<open>A candidate saved with a version just captured for it.\<close>

lemma data_inv_capture:
  assumes inv: "content_ok s" "latest_ok s" "sigs_ok s"
    and new: "load_candidate_version (tx @ ''-'' @ li) s = None"
    and h: "captureProposalCandidateVersion tx li k ts vs sg cd d u h ctx p m s = (w, s')"
    and c: "cand_id c = k" "cand_proposer c \<noteq> None" "cand_latestVersion c = Some (cv_id w)"
  shows "content_ok (save_candidate c s')" "latest_ok (save_candidate c s')" "sigs_ok (save_candidate c s')"
    "st_candidates (save_candidate c s') = (st_candidates s)(k \<mapsto> c)"
    "st_governance (save_candidate c s') = st_governance s"
proof -
  have vk: "\<forall>v w. st_candidateVersions s v = Some w \<longrightarrow> cv_id w = v" using inv(2) by (simp add: latest_ok_def)
  note e = capture_candidate_effect [OF inv(1) vk h]
  let ?s = "save_candidate c s'"
  obtain x where x: "cc_id x = toHexString h" "cc_encodedProposalHash x = Some h"
    "st_candidateContents ?s = (st_candidateContents s)(toHexString h \<mapsto> x)"
    using e(2) by (auto simp: save_candidate_def)
  have v: "st_candidateVersions ?s = (st_candidateVersions s)(tx @ ''-'' @ li \<mapsto> w)"
    using e(5) by (simp add: save_candidate_def)
  show cs: "st_candidates ?s = (st_candidates s)(k \<mapsto> c)" "st_governance ?s = st_governance s"
    using e(6,8) c(1) by (simp_all add: save_candidate_def)
  show "content_ok ?s" using inv(1) x by (simp add: content_ok_def)
  show "sigs_ok ?s" using inv(3) e(7) by (simp add: sigs_ok_def save_candidate_def)
  have old: "version_ok ?s j y" if y: "version_ok s j y" for j y
  proof -
    obtain w' z where "st_candidateVersions s y = Some w'" "cv_proposal w' = Some j" "cv_content w' = Some z"
      "st_candidateContents s z \<noteq> None" using y by (auto simp: version_ok_def)
    moreover from this new have "y \<noteq> tx @ ''-'' @ li" by (auto simp: load_candidate_version_def)
    ultimately show ?thesis by (auto simp: version_ok_def v x)
  qed
  have new_ok: "version_ok ?s k (cv_id w)" using e(1,3,4) by (simp add: version_ok_def v x)
  show "latest_ok ?s"
    unfolding latest_ok_def cs(1) v
  proof (intro conjI allI impI)
    show "cv_id w' = y" if "((st_candidateVersions s)(tx @ ''-'' @ li \<mapsto> w)) y = Some w'" for y w'
      using that vk e(1) by (auto split: if_splits)
    fix j c' assume "((st_candidates s)(k \<mapsto> c)) j = Some c'"
    then have "j = k \<and> c' = c \<or> st_candidates s j = Some c'" by (simp split: if_splits)
    then show "cand_id c' = j" "cand_proposer c' \<noteq> None"
        "\<exists>y. cand_latestVersion c' = Some y \<and> version_ok ?s j y"
      using inv(2) c new_ok old unfolding latest_ok_def by metis+
  qed
qed

text \<open>Counting and numbering a new candidate, and saving a known one.\<close>

lemma numbers_new:
  assumes n: "numbers_ok s" and k: "st_candidates s k = None"
    and s': "st_candidates s' = (st_candidates s)(k \<mapsto> c)" "cand_number c = Some (getCandidateIndex s + 1)"
      "getCandidateIndex s' = getCandidateIndex s + 1" "gov_id (getGovernanceEntity s') = GOVERNANCE"
  shows "numbers_ok s'"
proof -
  have "numbers s' = insert (Some (getCandidateIndex s + 1)) (numbers s)"
    using k s'(1,2) by (simp add: numbers_def ran_map_upd)
  moreover have "{1..getCandidateIndex s + 1} = insert (getCandidateIndex s + 1) {1..getCandidateIndex s}"
    using n by (auto simp: numbers_ok_def)
  moreover have "k \<notin> dom (st_candidates s)" using k by auto
  ultimately show ?thesis using n s' by (simp add: numbers_ok_def)
qed

lemma numbers_same:
  assumes n: "numbers_ok s" and k: "st_candidates s k = Some b" "cand_number c = cand_number b"
    and s': "st_candidates s' = (st_candidates s)(k \<mapsto> c)" "st_governance s' = st_governance s"
  shows "numbers_ok s'"
proof -
  let ?m = "(st_candidates s)(k := None)"
  have "st_candidates s = ?m(k \<mapsto> b)" using k(1) by (auto simp: fun_eq_iff)
  then have "ran (st_candidates s) = insert b (ran ?m)"
    by (metis ran_map_upd fun_upd_same)
  moreover have "ran (st_candidates s') = insert c (ran ?m)"
    using ran_map_upd [of ?m k c] s'(1) by simp
  ultimately have "numbers s' = numbers s" using k(2) by (simp add: numbers_def)
  moreover have "dom (st_candidates s') = dom (st_candidates s)" using k(1) s'(1) by auto
  moreover have "getGovernanceEntity s' = getGovernanceEntity s"
    using s'(2) by (simp add: getGovernanceEntity_def load_governance_def)
  ultimately show ?thesis using n by (simp add: numbers_ok_def getCandidateIndex_def)
qed


section \<open>Preservation\<close>

lemma data_inv_created:
  assumes i: "data_inv s" and l: "legal_data_event (ProposalCandidateCreated c e) s"
  shows "data_inv (handleProposalCandidateCreated c e s)"
proof -
  let ?k = "candidateID (cp_msgSender e) (cp_slug e)" and ?g = "getGovernanceEntity s"
  let ?s1 = "save_governance (?g\<lparr>gov_candidates := gov_candidates ?g + 1\<rparr>) s"
  have inv: "content_ok s" "latest_ok s" "sigs_ok s" "numbers_ok s" using i by (simp_all add: data_inv_def)
  have k: "st_candidates s ?k = None" using l by (simp add: load_candidate_def)
  have o: "getOrCreateProposalCandidate ?k s = (new_candidate ?k, ?s1)"
    using l by (simp add: getOrCreateProposalCandidate_def Let_def)
  have g: "getGovernanceEntity ?s1 = ?g\<lparr>gov_candidates := gov_candidates ?g + 1\<rparr>"
    using inv(4) by (simp add: numbers_ok_def getGovernanceEntity_def governance_store.load_save)
  have inv1: "content_ok ?s1" "latest_ok ?s1" "sigs_ok ?s1"
    using inv by (simp_all add: content_ok_def latest_ok_def sigs_ok_def version_ok_def save_governance_def)
  have new: "load_candidate_version (toHexString (ev_txHash c) @ ''-'' @ int_to_string (ev_logIndex c)) ?s1 = None"
    using l by (simp add: load_candidate_version_def save_governance_def)
  obtain w s2 where h: "captureProposalCandidateVersion (toHexString (ev_txHash c))
            (int_to_string (ev_logIndex c)) ?k (cp_targets e) (cp_values e)
            (cp_signatures e) (cp_calldatas e) (cp_description e) (cp_proposalIdToUpdate e)
            (cp_encodedProposalHash e) c (cp_msgSender e) [] ?s1 = (w, s2)" by (rule prod.exhaust)
  define cd where "cd = (new_candidate ?k)
            \<lparr>cand_proposer := Some (cp_msgSender e), cand_slug := Some (cp_slug e),
             cand_createdTransactionHash := Some (ev_txHash c),
             cand_createdTimestamp := Some (ev_blockTimestamp c),
             cand_createdBlock := Some (ev_blockNumber c),
             cand_lastUpdatedTimestamp := Some (ev_blockTimestamp c),
             cand_lastUpdatedBlock := Some (ev_blockNumber c),
             cand_canceled := Some False, cand_number := Some (getCandidateIndex ?s1),
             cand_latestVersion := Some (cv_id w)\<rparr>"
  have cd: "cand_id cd = ?k" "cand_proposer cd \<noteq> None" "cand_latestVersion cd = Some (cv_id w)"
    "cand_number cd = Some (getCandidateIndex s + 1)"
    using g by (simp_all add: cd_def new_candidate_def getCandidateIndex_def)
  have r: "handleProposalCandidateCreated c e s = save_candidate cd s2"
    using o h by (simp add: handleProposalCandidateCreated_def Let_def cd_def new_candidate_def)
  note d = data_inv_capture [OF inv1 new h cd(1-3)]
  have "getGovernanceEntity (save_candidate cd s2) = getGovernanceEntity ?s1"
    using d(5) by (simp add: getGovernanceEntity_def load_governance_def)
  then have "numbers_ok (save_candidate cd s2)"
    using d(4) cd(4) g inv(4)
    by (intro numbers_new [OF inv(4) k]) (simp_all add: save_governance_def getCandidateIndex_def numbers_ok_def)
  then show ?thesis using d r by (simp add: data_inv_def)
qed

lemma data_inv_updated:
  assumes i: "data_inv s" and l: "legal_data_event (ProposalCandidateUpdated c e r) s"
  shows "\<exists>s'. handleProposalCandidateUpdated c e r s = Some s' \<and> data_inv s'"
proof -
  let ?k = "candidateID (cp_msgSender e) (cp_slug e)"
  have inv: "content_ok s" "latest_ok s" "sigs_ok s" "numbers_ok s" using i by (simp_all add: data_inv_def)
  obtain b where b: "load_candidate ?k s = Some b" using l by auto
  then have bk: "st_candidates s ?k = Some b" by (simp add: load_candidate_def)
  then have "cand_id b = ?k \<and> cand_proposer b \<noteq> None" using inv(2) unfolding latest_ok_def by blast
  then obtain p where p: "cand_id b = ?k" "cand_proposer b = Some p" by blast
  have new: "load_candidate_version (toHexString (ev_txHash c) @ ''-'' @ int_to_string (ev_logIndex c)) s = None"
    using l by simp
  obtain w s2 where h: "captureProposalCandidateVersion (toHexString (ev_txHash c))
            (int_to_string (ev_logIndex c)) ?k (cp_targets e) (cp_values e)
            (cp_signatures e) (cp_calldatas e) (cp_description e) (cp_proposalIdToUpdate e)
            (cp_encodedProposalHash e) c p r s = (w, s2)" by (rule prod.exhaust)
  define cd where "cd = b\<lparr>cand_lastUpdatedTimestamp := Some (ev_blockTimestamp c),
      cand_lastUpdatedBlock := Some (ev_blockNumber c), cand_latestVersion := Some (cv_id w)\<rparr>"
  have cd: "cand_id cd = ?k" "cand_proposer cd \<noteq> None" "cand_latestVersion cd = Some (cv_id w)"
    "cand_number cd = cand_number b" using p by (simp_all add: cd_def)
  have "handleProposalCandidateUpdated c e r s = Some (save_candidate cd s2)"
    using p h by (simp add: handleProposalCandidateUpdated_def candidate_known [OF b] Let_def cd_def
        del: bind_eq_Some_iff)
  moreover note d = data_inv_capture [OF inv(1-3) new h cd(1-3)]
  moreover have "numbers_ok (save_candidate cd s2)" by (rule numbers_same [OF inv(4) bk cd(4) d(4,5)])
  ultimately show ?thesis by (simp add: data_inv_def)
qed

lemma data_inv_canceled:
  assumes i: "data_inv s" and l: "legal_data_event (ProposalCandidateCanceled c m sl) s"
  shows "data_inv (handleProposalCandidateCanceled c m sl s)"
proof -
  let ?k = "candidateID m sl"
  have inv: "content_ok s" "latest_ok s" "sigs_ok s" "numbers_ok s" using i by (simp_all add: data_inv_def)
  obtain b where b: "load_candidate ?k s = Some b" using l by auto
  then have bk: "st_candidates s ?k = Some b" by (simp add: load_candidate_def)
  then have id: "cand_id b = ?k" using inv(2) by (auto simp: latest_ok_def)
  let ?c = "b\<lparr>cand_canceled := Some True, cand_canceledTimestamp := Some (ev_blockTimestamp c),
    cand_canceledBlock := Some (ev_blockNumber c)\<rparr>"
  have r: "handleProposalCandidateCanceled c m sl s = save_candidate ?c s"
    by (simp add: handleProposalCandidateCanceled_def candidate_known [OF b])
  have n: "numbers_ok (save_candidate ?c s)"
    by (rule numbers_same [OF inv(4) bk, of ?c]) (simp_all add: save_candidate_def id)
  have "latest_ok (save_candidate ?c s)"
    using inv(2) bk id by (auto simp: latest_ok_def version_ok_def save_candidate_def)
  then show ?thesis
    using inv n by (simp add: data_inv_def r) (simp add: content_ok_def sigs_ok_def save_candidate_def)
qed


text \<open>Creating a delegate changes no candidate data and no candidate count.\<close>

lemma data_inv_delegate:
  assumes "data_inv s"
  shows "data_inv (snd (getOrCreateDelegate k s))"
proof -
  let ?s = "snd (getOrCreateDelegate k s)"
  have "gov_id (getGovernanceEntity s) = GOVERNANCE" using assms by (simp add: data_inv_def numbers_ok_def)
  then have g: "gov_candidates (getGovernanceEntity ?s) = gov_candidates (getGovernanceEntity s)"
    "gov_id (getGovernanceEntity ?s) = GOVERNANCE"
    by (auto simp: getOrCreateDelegate_eq handler_defs getGovernanceEntity_def split: option.splits)
  have "st_candidates ?s = st_candidates s" "st_candidateVersions ?s = st_candidateVersions s"
    "st_candidateContents ?s = st_candidateContents s" "st_candidateSigs ?s = st_candidateSigs s"
    by (auto simp: getOrCreateDelegate_eq handler_defs split: option.splits)
  then show ?thesis
    using assms g by (simp add: data_inv_def content_ok_def latest_ok_def sigs_ok_def numbers_ok_def
        version_ok_def numbers_def getCandidateIndex_def)
qed

lemma data_inv_frame:
  assumes "data_inv s" "st_candidates s' = st_candidates s" "st_candidateVersions s' = st_candidateVersions s"
    "st_candidateContents s' = st_candidateContents s" "st_governance s' = st_governance s" "sigs_ok s'"
  shows "data_inv s'"
proof -
  have "getGovernanceEntity s' = getGovernanceEntity s"
    using assms(5) by (simp add: getGovernanceEntity_def load_governance_def)
  then show ?thesis
    using assms by (simp add: data_inv_def content_ok_def latest_ok_def numbers_ok_def
        version_ok_def numbers_def getCandidateIndex_def)
qed

text \<open>What a signature event does once the candidate's latest content is known.\<close>

lemma signature_cases:
  assumes i: "data_inv s" and b: "load_candidate (candidateID (sp_proposer e) (sp_slug e)) s = Some b"
  obtains v w x cc h where "cand_latestVersion b = Some v" "st_candidateVersions s v = Some w"
    "cv_content w = Some x" "st_candidateContents s x = Some cc" "cc_encodedProposalHash cc = Some h"
    "x = toHexString h"
    "handleSignatureAdded c e s = (if h \<noteq> sp_encodedPropHash e
       then Some (log_error ''Wrong encodedProposalHash. Latest version: {}. Event: {}. tx_hash: {}''
              [toHexString h, toHexString (sp_encodedPropHash e), toHexString (ev_txHash c)] s)
       else Some (save_candidate_sig
         ((getOrCreateProposalCandidateSignature (toHexString (sp_signer e) @ ''-'' @ toHexString (sp_sig e)) s)
           \<lparr>cs_content := Some x, cs_signer := Some (del_id (fst (getOrCreateDelegate (toHexString (sp_signer e)) s))),
            cs_sig := Some (sp_sig e), cs_expirationTimestamp := Some (sp_expirationTimestamp e),
            cs_encodedProposalHash := Some (sp_encodedPropHash e),
            cs_sigDigest := Some (sp_sigDigest e), cs_reason := Some (sp_reason e),
            cs_createdBlock := Some (ev_blockNumber c),
            cs_createdTimestamp := Some (ev_blockTimestamp c)\<rparr>)
         (snd (getOrCreateDelegate (toHexString (sp_signer e)) s))))"
proof -
  have "\<exists>v. cand_latestVersion b = Some v \<and> version_ok s (candidateID (sp_proposer e) (sp_slug e)) v"
    using i b unfolding data_inv_def latest_ok_def load_candidate_def by blast
  then obtain v w x cc where v: "cand_latestVersion b = Some v" "st_candidateVersions s v = Some w"
    "cv_content w = Some x" "st_candidateContents s x = Some cc" by (auto simp: version_ok_def)
  obtain h where h: "cc_encodedProposalHash cc = Some h" "x = toHexString h"
    using i v(4) unfolding data_inv_def content_ok_def by blast
  show ?thesis
    by (rule that [OF v h]) (simp add: handleSignatureAdded_def Let_def candidate_known [OF b]
        case_prod_beta load_candidate_version_def load_candidate_content_def v h(1) del: bind_eq_Some_iff)
qed

lemma data_inv_signature:
  assumes i: "data_inv s" and l: "legal_data_event (SignatureAdded c e) s"
  shows "\<exists>s'. handleSignatureAdded c e s = Some s' \<and> data_inv s'"
proof -
  obtain b where b: "load_candidate (candidateID (sp_proposer e) (sp_slug e)) s = Some b" using l by auto
  let ?id = "toHexString (sp_signer e) @ ''-'' @ toHexString (sp_sig e)"
  let ?d = "getOrCreateDelegate (toHexString (sp_signer e)) s"
  from signature_cases [OF i b, of c] obtain h x where
    r: "handleSignatureAdded c e s = (if h \<noteq> sp_encodedPropHash e
       then Some (log_error ''Wrong encodedProposalHash. Latest version: {}. Event: {}. tx_hash: {}''
              [toHexString h, toHexString (sp_encodedPropHash e), toHexString (ev_txHash c)] s)
       else Some (save_candidate_sig
         ((getOrCreateProposalCandidateSignature ?id s)
           \<lparr>cs_content := Some x, cs_signer := Some (del_id (fst ?d)),
            cs_sig := Some (sp_sig e), cs_expirationTimestamp := Some (sp_expirationTimestamp e),
            cs_encodedProposalHash := Some (sp_encodedPropHash e),
            cs_sigDigest := Some (sp_sigDigest e), cs_reason := Some (sp_reason e),
            cs_createdBlock := Some (ev_blockNumber c),
            cs_createdTimestamp := Some (ev_blockTimestamp c)\<rparr>) (snd ?d)))" and x: "x = toHexString h"
    by metis
  have id: "cs_id (getOrCreateProposalCandidateSignature ?id s) = ?id"
    using i by (auto simp: getOrCreateProposalCandidateSignature_def load_candidate_sig_def data_inv_def
        sigs_ok_def split: option.splits)
  show ?thesis
  proof (cases "h = sp_encodedPropHash e")
    case False
    have "data_inv (log_error m xs s)" for m xs
      by (rule data_inv_frame [OF i]) (use i in \<open>simp_all add: log_error_def data_inv_def sigs_ok_def\<close>)
    then show ?thesis using r False by simp
  next
    case True
    note d = data_inv_delegate [OF i, of "toHexString (sp_signer e)"]
    have "data_inv (save_candidate_sig g (snd ?d))"
      if "cs_id g = ?id" "cs_encodedProposalHash g = Some h" "cs_content g = Some (toHexString h)" for g
    proof (rule data_inv_frame [OF d])
      show "sigs_ok (save_candidate_sig g (snd ?d))"
        using d that by (simp add: data_inv_def sigs_ok_def save_candidate_sig_def)
    qed (simp_all add: save_candidate_sig_def)
    then show ?thesis using r True id x by simp
  qed
qed

lemma data_step_inv:
  assumes i: "data_inv s" and l: "legal_data_event e s" and h: "handle_data_event e s = Some s'"
  shows "data_inv s'"
proof (cases e)
  case (ProposalCandidateCreated c p)
  with data_inv_created [OF i] l h show ?thesis by auto
next
  case (ProposalCandidateUpdated c p r)
  with data_inv_updated [OF i] l h show ?thesis by fastforce
next
  case (ProposalCandidateCanceled c m sl)
  with data_inv_canceled [OF i] l h show ?thesis by auto
next
  case (SignatureAdded c p)
  with data_inv_signature [OF i] l h show ?thesis by fastforce
next
  case (FeedbackSent c m p spt r)
  have d: "data_inv (snd (getOrCreateDelegate (toHexString m) s))" by (rule data_inv_delegate [OF i])
  then have "sigs_ok (snd (getOrCreateDelegate (toHexString m) s))" by (simp add: data_inv_def)
  with data_inv_frame [OF d, of s'] h FeedbackSent show ?thesis
    by (auto simp: handleFeedbackSent_def Let_def case_prod_beta save_proposal_feedback_def sigs_ok_def)
next
  case (CandidateFeedbackSent c m p sl spt r)
  have d: "data_inv (snd (getOrCreateDelegate (toHexString m) s))" by (rule data_inv_delegate [OF i])
  then have "sigs_ok (snd (getOrCreateDelegate (toHexString m) s))" by (simp add: data_inv_def)
  with data_inv_frame [OF d, of s'] h CandidateFeedbackSent show ?thesis
    by (auto simp: handleCandidateFeedbackSent_def Let_def case_prod_beta save_candidate_feedback_def sigs_ok_def)
qed

lemma data_inv_empty: "data_inv empty_store"
  by (simp add: data_inv_def content_ok_def latest_ok_def sigs_ok_def numbers_ok_def numbers_def
      getCandidateIndex_def getGovernanceEntity_def load_governance_def new_governance_def empty_store_def)

interpretation data: machine handle_data_event legal_data_event data_inv
  by unfold_locales (rule data_step_inv)


section \<open>Properties\<close>

text \<open>
  After every run of events the data contract can emit, the candidates are numbered from one
  to their count, each number used once.
\<close>

theorem candidates_are_numbered:
  assumes "legal_run handle_data_event legal_data_event es empty_store"
  shows "\<exists>s. run_events handle_data_event es empty_store = Some s \<and>
    gov_candidates (getGovernanceEntity s) = int (card (dom (st_candidates s))) \<and>
    bij_betw (\<lambda>k. cand_number (the (st_candidates s k))) (dom (st_candidates s))
      (Some ` {1..gov_candidates (getGovernanceEntity s)})"
proof -
  from data.legal_run_inv [OF data_inv_empty assms] obtain s where
    s: "run_events handle_data_event es empty_store = Some s" "numbers_ok s" by (auto simp: data_inv_def)
  let ?f = "\<lambda>k. cand_number (the (st_candidates s k))" and ?D = "dom (st_candidates s)"
  have "ran (st_candidates s) = (\<lambda>k. the (st_candidates s k)) ` ?D" by (force simp: ran_def image_iff)
  then have im: "?f ` ?D = Some ` {1..getCandidateIndex s}"
    using s(2) by (simp add: numbers_ok_def numbers_def image_image)
  have "card (?f ` ?D) = card ?D"
    using s(2) by (simp add: im card_image numbers_ok_def)
  then have "inj_on ?f ?D" using s(2) by (simp add: eq_card_imp_inj_on numbers_ok_def)
  with im s show ?thesis by (auto simp: bij_betw_def numbers_ok_def getCandidateIndex_def)
qed

text \<open>
  After every such run the latest version of every candidate is stored, belongs to that
  candidate, and its content is stored under the hexadecimal form of its own hash.
\<close>

theorem latest_versions_resolve:
  assumes "legal_run handle_data_event legal_data_event es empty_store"
  shows "\<exists>s. run_events handle_data_event es empty_store = Some s \<and>
    (\<forall>k c. st_candidates s k = Some c \<longrightarrow> (\<exists>v w h x. cand_latestVersion c = Some v \<and>
       load_candidate_version v s = Some w \<and> cv_proposal w = Some k \<and>
       cv_content w = Some (toHexString h) \<and> load_candidate_content (toHexString h) s = Some x \<and>
       cc_encodedProposalHash x = Some h))"
proof -
  from data.legal_run_inv [OF data_inv_empty assms] obtain s where
    s: "run_events handle_data_event es empty_store = Some s" "latest_ok s" "content_ok s" by (auto simp: data_inv_def)
  have "\<exists>v w h x. cand_latestVersion c = Some v \<and> load_candidate_version v s = Some w \<and> cv_proposal w = Some k \<and>
       cv_content w = Some (toHexString h) \<and> load_candidate_content (toHexString h) s = Some x \<and>
       cc_encodedProposalHash x = Some h" if c: "st_candidates s k = Some c" for k c
  proof -
    obtain v where v: "cand_latestVersion c = Some v" "version_ok s k v"
      using s(2) c unfolding latest_ok_def by blast
    then obtain w y x where w: "st_candidateVersions s v = Some w" "cv_proposal w = Some k" "cv_content w = Some y"
      "st_candidateContents s y = Some x" by (auto simp: version_ok_def)
    moreover obtain h where "cc_encodedProposalHash x = Some h" "y = toHexString h"
      using s(3) w(4) unfolding content_ok_def by blast
    ultimately show ?thesis using v by (auto simp: load_candidate_version_def load_candidate_content_def)
  qed
  with s(1) show ?thesis by blast
qed

text \<open>
  C10: every stored sponsor signature points at the content it signed: its content id is the
  hexadecimal form of the hash in the signature event.
\<close>

theorem signatures_sign_their_content:
  assumes "legal_run handle_data_event legal_data_event es empty_store"
  shows "\<exists>s. run_events handle_data_event es empty_store = Some s \<and>
    (\<forall>k g. st_candidateSigs s k = Some g \<longrightarrow>
       (\<exists>h. cs_encodedProposalHash g = Some h \<and> cs_content g = Some (toHexString h)))"
  using data.legal_run_inv [OF data_inv_empty assms] by (auto simp: data_inv_def sigs_ok_def)

text \<open>
  A signature over anything but the candidate's latest content is not stored: the handler
  logs an error and changes nothing else.
\<close>

theorem stale_signature_ignored:
  assumes "data_inv s" and "load_candidate (candidateID (sp_proposer e) (sp_slug e)) s = Some b"
    and "cand_latestVersion b = Some v" and "load_candidate_version v s = Some w"
    and "cv_content w \<noteq> Some (toHexString (sp_encodedPropHash e))"
  shows "\<exists>m xs. handleSignatureAdded c e s = Some (log_error m xs s)"
proof -
  from signature_cases [OF assms(1,2), of c] obtain v' w' x h where
    "cand_latestVersion b = Some v'" "st_candidateVersions s v' = Some w'" "cv_content w' = Some x" "x = toHexString h"
    and r: "h \<noteq> sp_encodedPropHash e \<Longrightarrow> \<exists>m xs. handleSignatureAdded c e s = Some (log_error m xs s)"
    by (metis (no_types, lifting))
  then have "h \<noteq> sp_encodedPropHash e" using assms(3-5) by (auto simp: load_candidate_version_def)
  then show ?thesis by (rule r)
qed

text \<open>
  Posting a candidate whose content is already stored forgets the proposals that content
  was matched with: the list of matching proposals is reset to empty.
\<close>

theorem recapture_forgets_matches:
  "load_candidate_content (toHexString h) s = Some x \<Longrightarrow> cc_id x = toHexString h \<Longrightarrow>
   map_option cc_matchingProposalIds (load_candidate_content (toHexString h)
     (snd (captureProposalCandidateVersion tx li k ts vs sg cd d u h ctx p m s))) = Some (Some [])"
  by (simp add: captureProposalCandidateVersion_def Let_def getOrCreateProposalCandidateContent_def)
     (simp add: handler_defs)

section \<open>Witnesses\<close>

definition demo_data_ctx :: "int \<Rightarrow> event_ctx" where
  "demo_data_ctx i = \<lparr>ev_txHash = [1], ev_txIndex = 0, ev_logIndex = i, ev_blockNumber = 10,
     ev_blockTimestamp = 1, ev_address = []\<rparr>"

definition demo_candidate :: candidate_params where
  "demo_candidate = \<lparr>cp_msgSender = [1], cp_slug = ''a'', cp_targets = [], cp_values = [], cp_signatures = [],
     cp_calldatas = [], cp_description = ''# T'', cp_proposalIdToUpdate = 0, cp_encodedProposalHash = [9]\<rparr>"

definition demo_sig :: "bytes \<Rightarrow> sig_params" where
  "demo_sig h = \<lparr>sp_signer = [2], sp_sig = [3], sp_expirationTimestamp = 100, sp_proposer = [1], sp_slug = ''a'',
     sp_encodedPropHash = h, sp_sigDigest = [], sp_reason = []\<rparr>"

definition demo_candidate_store :: store where
  "demo_candidate_store = handleProposalCandidateCreated (demo_data_ctx 0) demo_candidate empty_store"

definition demo_data_events :: "data_event list" where
  "demo_data_events = [ProposalCandidateCreated (demo_data_ctx 0) demo_candidate,
     SignatureAdded (demo_data_ctx 1) (demo_sig [9])]"

lemma demo_candidate_loads:
  "\<exists>b w. load_candidate (candidateID [1] ''a'') demo_candidate_store = Some b \<and>
    cand_latestVersion b = Some (toHexString [1] @ ''-'' @ int_to_string 0) \<and>
    load_candidate_version (toHexString [1] @ ''-'' @ int_to_string 0) demo_candidate_store = Some w \<and>
    cv_content w = Some (toHexString [9])"
  by (simp add: demo_candidate_store_def handleProposalCandidateCreated_def Let_def demo_candidate_def
      demo_data_ctx_def captureProposalCandidateVersion_def getOrCreateProposalCandidate_def
      getOrCreateProposalCandidateContent_def getOrCreateProposalCandidateVersion_def handler_defs empty_store_def
      new_candidate_def)

lemma demo_candidate_legal:
  "legal_data_event (ProposalCandidateCreated (demo_data_ctx 0) demo_candidate) empty_store"
  by (simp add: handler_defs empty_store_def)

lemma demo_candidate_inv: "data_inv demo_candidate_store"
  unfolding demo_candidate_store_def by (rule data_inv_created [OF data_inv_empty demo_candidate_legal])

lemma demo_data_legal: "legal_run handle_data_event legal_data_event demo_data_events empty_store"
proof -
  have l: "legal_data_event (SignatureAdded (demo_data_ctx 1) (demo_sig [9])) demo_candidate_store"
    using demo_candidate_loads by (auto simp: demo_sig_def)
  from data_inv_signature [OF demo_candidate_inv l] l demo_candidate_legal show ?thesis
    by (auto simp: demo_data_events_def simp flip: demo_candidate_store_def simp del: legal_data_event.simps)
qed

theorem candidates_are_numbered_witness:
  "\<exists>s. run_events handle_data_event demo_data_events empty_store = Some s \<and>
    gov_candidates (getGovernanceEntity s) = int (card (dom (st_candidates s))) \<and>
    bij_betw (\<lambda>k. cand_number (the (st_candidates s k))) (dom (st_candidates s))
      (Some ` {1..gov_candidates (getGovernanceEntity s)})"
  by (rule candidates_are_numbered [OF demo_data_legal])

theorem latest_versions_resolve_witness:
  "\<exists>s. run_events handle_data_event demo_data_events empty_store = Some s \<and>
    (\<forall>k c. st_candidates s k = Some c \<longrightarrow> (\<exists>v w h x. cand_latestVersion c = Some v \<and>
       load_candidate_version v s = Some w \<and> cv_proposal w = Some k \<and>
       cv_content w = Some (toHexString h) \<and> load_candidate_content (toHexString h) s = Some x \<and>
       cc_encodedProposalHash x = Some h))"
  by (rule latest_versions_resolve [OF demo_data_legal])

theorem signatures_sign_their_content_witness:
  "\<exists>s. run_events handle_data_event demo_data_events empty_store = Some s \<and>
    (\<forall>k g. st_candidateSigs s k = Some g \<longrightarrow>
       (\<exists>h. cs_encodedProposalHash g = Some h \<and> cs_content g = Some (toHexString h)))"
  by (rule signatures_sign_their_content [OF demo_data_legal])

theorem stale_signature_ignored_witness:
  "\<exists>m xs. handleSignatureAdded (demo_data_ctx 1) (demo_sig [8]) demo_candidate_store =
     Some (log_error m xs demo_candidate_store)"
proof -
  obtain b w where b: "load_candidate (candidateID [1] ''a'') demo_candidate_store = Some b"
    "cand_latestVersion b = Some (toHexString [1] @ ''-'' @ int_to_string 0)"
    "load_candidate_version (toHexString [1] @ ''-'' @ int_to_string 0) demo_candidate_store = Some w"
    "cv_content w = Some (toHexString [9])" using demo_candidate_loads by blast
  have "load_candidate (candidateID (sp_proposer (demo_sig [8])) (sp_slug (demo_sig [8]))) demo_candidate_store = Some b"
    using b(1) by (simp add: demo_sig_def)
  from stale_signature_ignored [OF demo_candidate_inv this b(2,3)] b(4) show ?thesis by (simp add: demo_sig_def)
qed

theorem recapture_forgets_matches_witness:
  "map_option cc_matchingProposalIds (load_candidate_content (toHexString [9])
     (snd (captureProposalCandidateVersion ''0x02'' ''0'' ''b'' [] [] [] [] ''# T'' 0 [9] (demo_data_ctx 2) [1] []
       (save_candidate_content \<lparr>cc_id = toHexString [9], cc_proposer = None, cc_targets = None, cc_values = None,
          cc_signatures = None, cc_calldatas = None, cc_description = None, cc_proposalIdToUpdate = None,
          cc_title = None, cc_encodedProposalHash = None, cc_matchingProposalIds = Some [7]\<rparr> empty_store)))) = Some (Some [])"
  by (rule recapture_forgets_matches) (simp add: candidate_content_store.load_save, simp)

end
