(* ===== verification/Sdk_Image.thy ===== *)
theory Sdk_Image
  imports Nouns_Prelude
begin

text \<open>
  The image library of \<open>packages/nouns-sdk\<close> (\<open>src/image\<close>): the run-length encoder of an
  image (\<open>image.ts\<close>), the decoder and SVG builder (\<open>svg-builder.ts\<close>), the collection encoder
  with its shared palette (\<open>png-collection-encoder.ts\<close>), and the number printing they share
  (\<open>utils.ts\<close>). A JavaScript \<open>Map\<close> is an association list in insertion order.
\<close>

section \<open>Utilities\<close>

definition int_to_hex :: "int \<Rightarrow> string" where
  "int_to_hex c = (if c < 0 then CHR ''-'' # to_base 16 (nat (- c)) else to_base 16 (nat c))"

definition toPaddedHex :: "int \<Rightarrow> string" where
  "toPaddedHex c = js_padStart 2 (CHR ''0'') (int_to_hex c)"

definition rgbToHex :: "int \<Rightarrow> int \<Rightarrow> int \<Rightarrow> string" where
  "rgbToHex r g b = toPaddedHex r @ toPaddedHex g @ toPaddedHex b"

section \<open>Types\<close>

record RGBAColor =
  rgba_r :: int
  rgba_g :: int
  rgba_b :: int
  rgba_a :: int

record ImageBounds =
  ib_top :: int
  ib_right :: int
  ib_bottom :: int
  ib_left :: int

record DecodedImage =
  di_paletteIndex :: nat
  di_bounds :: ImageBounds
  di_rects :: "(nat \<times> nat) list"

record PngImage =
  png_width :: int
  png_height :: int
  png_rgbaAt :: "int \<Rightarrow> int \<Rightarrow> RGBAColor"

type_synonym colors = "(string, nat) js_map"

section \<open>The encoder\<close>

definition isTransparentColumn :: "PngImage \<Rightarrow> int \<Rightarrow> bool" where
  "isTransparentColumn im column =
     list_all (\<lambda>row. rgba_a (png_rgbaAt im column row) = 0) [0..png_height im - 1]"

definition isTransparentRow :: "PngImage \<Rightarrow> int \<Rightarrow> bool" where
  "isTransparentRow im row =
     list_all (\<lambda>column. rgba_a (png_rgbaAt im column row) = 0) [0..png_width im - 1]"

text \<open>The four loops of \<open>calcBounds\<close>.\<close>

function scan_bottom :: "(int \<Rightarrow> bool) \<Rightarrow> int \<Rightarrow> int" where
  "scan_bottom t bottom = (if 0 < bottom \<and> t bottom then scan_bottom t (bottom - 1) else bottom)"
  by pat_completeness auto
termination by (relation "measure (\<lambda>(t, b). nat b)") auto

function scan_up :: "(int \<Rightarrow> bool) \<Rightarrow> int \<Rightarrow> int \<Rightarrow> int" where
  "scan_up t limit i = (if i < limit \<and> t i then scan_up t limit (i + 1) else i)"
  by pat_completeness auto
termination by (relation "measure (\<lambda>(t, l, i). nat (l - i))") auto

function scan_right :: "(int \<Rightarrow> bool) \<Rightarrow> int \<Rightarrow> int" where
  "scan_right t right = (if 0 \<le> right \<and> t right then scan_right t (right - 1) else right)"
  by pat_completeness auto
termination by (relation "measure (\<lambda>(t, r). nat (r + 1))") auto

declare scan_bottom.simps [simp del] scan_up.simps [simp del] scan_right.simps [simp del]

definition calcBounds :: "PngImage \<Rightarrow> ImageBounds" where
  "calcBounds im =
     (let bottom = scan_bottom (isTransparentRow im) (png_height im - 1);
          top = scan_up (isTransparentRow im) bottom 0;
          right = scan_right (isTransparentColumn im) (png_width im - 1);
          left = scan_up (isTransparentColumn im) right 0
      in \<lparr>ib_top = top, ib_right = right + 1, ib_bottom = bottom, ib_left = left\<rparr>)"

text \<open>The pixels inside the bounds, row by row.\<close>

definition bounds_pixels :: "ImageBounds \<Rightarrow> (int \<times> int) list" where
  "bounds_pixels b =
     concat (map (\<lambda>y. map (\<lambda>x. (x, y)) [ib_left b..ib_right b - 1]) [ib_top b..ib_bottom b])"

text \<open>One pixel: a new colour is added to the palette, also when the pixel is transparent.\<close>

definition pixel_index :: "RGBAColor \<Rightarrow> colors \<Rightarrow> nat \<times> colors" where
  "pixel_index c colors =
     (let hexColor = rgbToHex (rgba_r c) (rgba_g c) (rgba_b c);
          colors = (if js_has colors hexColor then colors
                    else js_set colors hexColor (length colors))
      in (if rgba_a c = 0 then 0 else the (js_get colors hexColor), colors))"

fun pixel_indexes :: "PngImage \<Rightarrow> (int \<times> int) list \<Rightarrow> colors \<Rightarrow> nat list \<times> colors" where
  "pixel_indexes im [] colors = ([], colors)"
| "pixel_indexes im ((x, y) # ps) colors =
     (let (i, colors) = pixel_index (png_rgbaAt im x y) colors;
          (is, colors) = pixel_indexes im ps colors
      in (i # is, colors))"

text \<open>
  The loop of \<open>encode\<close>: the encoding and the \<open>tuples\<close> field. The run still open at the end is
  written to the encoding only.
\<close>

fun encode_loop :: "nat \<Rightarrow> nat \<Rightarrow> nat list \<Rightarrow> (nat \<times> nat) list \<times> (nat \<times> nat)" where
  "encode_loop previous count [] = ([], (count, previous))"
| "encode_loop previous count (d # ds) =
     (if d \<noteq> previous \<or> count = 255
      then let (runs, open) = encode_loop d 1 ds in ((count, previous) # runs, open)
      else encode_loop previous (count + 1) ds)"

definition encode_pair :: "nat \<times> nat \<Rightarrow> string" where
  "encode_pair p = toPaddedHex (int (fst p)) @ toPaddedHex (int (snd p))"

definition encode_runs :: "nat list \<Rightarrow> (nat \<times> nat) list" where
  "encode_runs data = (case data of [] \<Rightarrow> []
     | previous # ds \<Rightarrow> (let (runs, open) = encode_loop previous 1 ds in runs @ [open]))"

definition encode :: "nat list \<Rightarrow> string" where
  "encode data = concat (map encode_pair (encode_runs data))"

definition encode_tuples :: "nat list \<Rightarrow> (nat \<times> nat) list" where
  "encode_tuples data = (case data of [] \<Rightarrow> [] | previous # ds \<Rightarrow> fst (encode_loop previous 1 ds))"

definition bounds_hex :: "ImageBounds \<Rightarrow> string" where
  "bounds_hex b = concat (map toPaddedHex [0, ib_top b, ib_right b, ib_bottom b, ib_left b])"

definition toRLE :: "PngImage \<Rightarrow> colors \<Rightarrow> string \<times> colors" where
  "toRLE im colors =
     (let bounds = calcBounds im;
          (indexes, colors) = pixel_indexes im (bounds_pixels bounds) colors
      in (''0x'' @ bounds_hex bounds @ encode indexes, colors))"

section \<open>The decoder\<close>

text \<open>\<open>image.replace(/^0x/, '')\<close>.\<close>

definition strip_0x :: "string \<Rightarrow> string" where
  "strip_0x s = (if prefix ''0x'' s then drop 2 s else s)"

text \<open>\<open>match(/.{1,4}/g)\<close> on a text without line breaks.\<close>

function chunks4 :: "string \<Rightarrow> string list" where
  "chunks4 s = (if s = [] then [] else take 4 s # chunks4 (drop 4 s))"
  by pat_completeness auto
termination by (relation "measure length") auto

declare chunks4.simps [simp del]

text \<open>
  \<open>parseInt(s, 16)\<close> on the hexadecimal digits of encoded images; \<^const>\<open>None\<close> stands for
  \<open>NaN\<close>. The decoder gives \<^const>\<open>None\<close> as soon as one field is \<open>NaN\<close>.
\<close>

definition parse_hex :: "string \<Rightarrow> nat option" where
  "parse_hex s = of_base 16 (takeWhile (\<lambda>c. case digit_val c of None \<Rightarrow> False | Some d \<Rightarrow> d < 16) s)"

definition decode_rect :: "string \<Rightarrow> (nat \<times> nat) option" where
  "decode_rect rect =
     do { l \<leftarrow> parse_hex (js_substring rect 0 2); c \<leftarrow> parse_hex (js_substring rect 2 4); Some (l, c) }"

definition decodeImage :: "string \<Rightarrow> DecodedImage option" where
  "decodeImage img =
     (let data = strip_0x img
      in do {
        paletteIndex \<leftarrow> parse_hex (js_substring data 0 2);
        top \<leftarrow> parse_hex (js_substring data 2 4);
        right \<leftarrow> parse_hex (js_substring data 4 6);
        bottom \<leftarrow> parse_hex (js_substring data 6 8);
        left \<leftarrow> parse_hex (js_substring data 8 10);
        rects \<leftarrow> those (map decode_rect (chunks4 (js_substring_from data 10)));
        Some \<lparr>di_paletteIndex = paletteIndex,
              di_bounds = \<lparr>ib_top = int top, ib_right = int right, ib_bottom = int bottom,
                           ib_left = int left\<rparr>,
              di_rects = rects\<rparr>
      })"

section \<open>Drawing\<close>

definition getRectLength :: "int \<Rightarrow> int \<Rightarrow> int \<Rightarrow> int" where
  "getRectLength currentX drawLength rightBound =
     (let remainingPixelsInLine = rightBound - currentX
      in if drawLength \<le> remainingPixelsInLine then drawLength else remainingPixelsInLine)"

record rect =
  rc_length :: int
  rc_x :: int
  rc_y :: int
  rc_fill :: string

text \<open>The inner loop: one run, drawn line by line. It ends because every round draws a pixel.\<close>

function draw_run ::
  "ImageBounds \<Rightarrow> nat \<Rightarrow> string \<Rightarrow> int \<Rightarrow> int \<Rightarrow> int \<Rightarrow> rect list \<times> int \<times> int" where
  "draw_run b colorIndex hexColor drawLength currentX currentY =
     (let len = getRectLength currentX drawLength (ib_right b)
      in if 0 < len
         then let rs = (if colorIndex \<noteq> 0
                        then [\<lparr>rc_length = len, rc_x = currentX, rc_y = currentY, rc_fill = hexColor\<rparr>]
                        else []);
                  x = currentX + len;
                  (x', y') = (if x = ib_right b then (ib_left b, currentY + 1) else (x, currentY));
                  (rs', x'', y'') = draw_run b colorIndex hexColor (drawLength - len) x' y'
              in (rs @ rs', x'', y'')
         else ([], currentX, currentY))"
  by pat_completeness auto
termination
  by (relation "measure (\<lambda>(b, c, h, d, x, y). nat d)") (auto simp: getRectLength_def Let_def split: if_splits)

declare draw_run.simps [simp del]

definition palette_color :: "string list \<Rightarrow> nat \<Rightarrow> string" where
  "palette_color paletteColors i = (if i < length paletteColors then paletteColors ! i else ''undefined'')"

fun draw_rects ::
  "ImageBounds \<Rightarrow> string list \<Rightarrow> (nat \<times> nat) list \<Rightarrow> int \<Rightarrow> int \<Rightarrow> rect list" where
  "draw_rects b paletteColors [] x y = []"
| "draw_rects b paletteColors ((drawLength, colorIndex) # draws) x y =
     (let (rs, x', y') = draw_run b colorIndex (palette_color paletteColors colorIndex) (int drawLength) x y
      in rs @ draw_rects b paletteColors draws x' y')"

definition draw_part :: "string list \<Rightarrow> DecodedImage \<Rightarrow> rect list" where
  "draw_part paletteColors d =
     draw_rects (di_bounds d) paletteColors (di_rects d) (ib_left (di_bounds d)) (ib_top (di_bounds d))"

definition rect_tag :: "rect \<Rightarrow> string" where
  "rect_tag r = ''<rect width=\"'' @ int_to_string (rc_length r * 10) @ ''\" height=\"10\" x=\"'' @
     int_to_string (rc_x r * 10) @ ''\" y=\"'' @ int_to_string (rc_y r * 10) @ ''\" fill=\"#'' @
     rc_fill r @ ''\" />''"

definition svg_head :: "string option \<Rightarrow> string" where
  "svg_head bgColor =
     ''<svg width=\"320\" height=\"320\" viewBox=\"0 0 320 320\" xmlns=\"http://www.w3.org/2000/svg\" shape-rendering=\"crispEdges\"><rect width=\"100%\" height=\"100%\" fill=\"'' @
     (case bgColor of None \<Rightarrow> ''none'' | Some c \<Rightarrow> if c = [] then ''none'' else CHR ''#'' # c) @ ''\" />''"

fun build_parts :: "string list \<Rightarrow> string list \<Rightarrow> string \<Rightarrow> string option" where
  "build_parts paletteColors [] result = Some result"
| "build_parts paletteColors (part # parts) result =
     (case decodeImage part of
        None \<Rightarrow> None
      | Some d \<Rightarrow> build_parts paletteColors parts (result @ concat (map rect_tag (draw_part paletteColors d))))"

definition buildSVG :: "string list \<Rightarrow> string list \<Rightarrow> string option \<Rightarrow> string option" where
  "buildSVG parts paletteColors bgColor =
     map_option (\<lambda>svgWithoutEndTag. svgWithoutEndTag @ ''</svg>'')
       (build_parts paletteColors parts (svg_head bgColor))"

section \<open>The collection encoder\<close>

record PNGCollectionEncoder =
  pce_colors :: colors
  pce_images :: "(string, string) js_map"
  pce_folders :: "(string, string list) js_map"

fun set_colors :: "string list \<Rightarrow> nat \<Rightarrow> colors \<Rightarrow> colors" where
  "set_colors [] index colors = colors"
| "set_colors (c # cs) index colors = set_colors cs (Suc index) (js_set colors c index)"

definition new_encoder :: "string list \<Rightarrow> PNGCollectionEncoder" where
  "new_encoder colors =
     \<lparr>pce_colors = set_colors colors 0 [([], 0)], pce_images = [], pce_folders = []\<rparr>"

definition encodeImage ::
  "string \<Rightarrow> PngImage \<Rightarrow> string option \<Rightarrow> PNGCollectionEncoder \<Rightarrow> string \<times> PNGCollectionEncoder" where
  "encodeImage name png folder e =
     (let (rle, colors) = toRLE png (pce_colors e);
          e = e\<lparr>pce_colors := colors, pce_images := js_set (pce_images e) name rle\<rparr>;
          e = (case folder of
                 None \<Rightarrow> e
               | Some f \<Rightarrow> if f = [] then e
                   else e\<lparr>pce_folders := js_set (pce_folders e) f
                          ((case js_get (pce_folders e) f of None \<Rightarrow> [] | Some ns \<Rightarrow> ns) @ [name])\<rparr>)
      in (rle, e))"

text \<open>
  A file listed in a folder after it was written once is read as undefined (\<open>None\<close>).
\<close>

fun format_folder ::
  "string list \<Rightarrow> (string, string) js_map \<Rightarrow> (string \<times> string option) list \<times> (string, string) js_map" where
  "format_folder [] images = ([], images)"
| "format_folder (filename # fs) images =
     (let (rest, images') = format_folder fs (js_delete images filename)
      in ((filename, js_get images filename) # rest, images'))"

fun format_folders ::
  "(string, string list) js_map \<Rightarrow> (string, string) js_map \<Rightarrow>
   (string, (string \<times> string option) list) js_map \<times> (string, string) js_map" where
  "format_folders [] images = ([], images)"
| "format_folders ((folder, filenames) # fs) images =
     (let (files, images) = format_folder filenames images;
          (rest, images) = format_folders fs images
      in ((folder, files) # rest, images))"

definition format ::
  "bool \<Rightarrow> PNGCollectionEncoder \<Rightarrow> (string, (string \<times> string option) list) js_map" where
  "format flatten e =
     (let (result, images) =
            (if \<not> flatten \<and> pce_folders e \<noteq> [] then format_folders (pce_folders e) (pce_images e)
             else ([], pce_images e))
      in if images \<noteq> [] then js_set result ''root'' (map (\<lambda>(f, d). (f, Some d)) images) else result)"

definition encoder_images :: "PNGCollectionEncoder \<Rightarrow> (string \<times> string option) list option" where
  "encoder_images e = js_get (format True e) ''root''"

definition encoder_data ::
  "PNGCollectionEncoder \<Rightarrow> string list \<times> (string, (string \<times> string option) list) js_map" where
  "encoder_data e = (map fst (pce_colors e), format False e)"

end
