(* ===== verification/Sdk_Rle.thy ===== *)
theory Sdk_Rle
  imports Sdk_Image
begin

text \<open>
  The run-length code of \<open>packages/nouns-sdk\<close>: bytes as two hexadecimal digits, runs of at most
  255 equal colour indexes, and the decoder that inverts both.
\<close>

section \<open>Bytes as hexadecimal digits\<close>

lemma toPaddedHex_length: "0 \<le> c \<Longrightarrow> c < 256 \<Longrightarrow> length (toPaddedHex c) = 2"
  using length_to_base_le [of 16 "nat c" 2] by (simp add: toPaddedHex_def int_to_hex_def)

lemma of_base_toPaddedHex: "0 \<le> c \<Longrightarrow> of_base 16 (toPaddedHex c) = Some (nat c)"
  by (simp add: toPaddedHex_def int_to_hex_def of_base_padded)

lemma parse_toPaddedHex:
  assumes "0 \<le> c"
  shows "parse_hex (toPaddedHex c) = Some (nat c)"
proof -
  have "foldl (of_base_step 16) (Some 0) (toPaddedHex c) = Some (nat c)"
    using of_base_toPaddedHex [OF assms] by (simp add: of_base_def split: if_splits)
  from of_base_digits [OF this]
  have "takeWhile (\<lambda>c. case digit_val c of None \<Rightarrow> False | Some d \<Rightarrow> d < 16) (toPaddedHex c) = toPaddedHex c"
    by (intro takeWhile_eq_all_conv [THEN iffD2]) fastforce
  then show ?thesis by (simp only: parse_hex_def of_base_toPaddedHex [OF assms])
qed


lemma encode_pair_length: "n < 256 \<Longrightarrow> c < 256 \<Longrightarrow> length (encode_pair (n, c)) = 4"
  by (simp add: encode_pair_def toPaddedHex_length)

lemma decode_encode_pair: "n < 256 \<Longrightarrow> c < 256 \<Longrightarrow> decode_rect (encode_pair (n, c)) = Some (n, c)"
  by (simp add: decode_rect_def encode_pair_def js_substring_def clamp_index_def Let_def
      toPaddedHex_length parse_toPaddedHex del: bind_eq_Some_iff)

lemma chunks4_uniform:
  "\<forall>x\<in>set xs. length x = 4 \<Longrightarrow> chunks4 (concat xs) = xs"
proof (induction xs)
  case Nil
  show ?case by (simp add: chunks4.simps)
next
  case (Cons x xs)
  then have "x @ concat xs \<noteq> []" by auto
  with Cons show ?case by (simp add: chunks4.simps [of "x @ concat xs"])
qed

definition bytes_pairs :: "(nat \<times> nat) list \<Rightarrow> bool" where
  "bytes_pairs rs \<longleftrightarrow> (\<forall>(n, c)\<in>set rs. n < 256 \<and> c < 256)"

lemma decode_pairs:
  "bytes_pairs rs \<Longrightarrow> those (map decode_rect (chunks4 (concat (map encode_pair rs)))) = Some rs"
proof -
  assume b: "bytes_pairs rs"
  then have "chunks4 (concat (map encode_pair rs)) = map encode_pair rs"
    by (intro chunks4_uniform) (auto simp: bytes_pairs_def encode_pair_length)
  moreover have "those (map decode_rect (map encode_pair rs)) = Some rs"
    using b by (induction rs) (auto simp: bytes_pairs_def decode_encode_pair)
  ultimately show ?thesis by simp
qed

section \<open>Runs\<close>

definition expand :: "(nat \<times> nat) list \<Rightarrow> nat list" where
  "expand rs = concat (map (\<lambda>(n, c). replicate n c) rs)"

lemma expand_simps [simp]:
  "expand [] = []" "expand ((n, c) # rs) = replicate n c @ expand rs" "expand (rs @ ss) = expand rs @ expand ss"
  by (simp_all add: expand_def)

lemma encode_loop_expand:
  "encode_loop p n ds = (runs, open) \<Longrightarrow> expand (runs @ [open]) = replicate n p @ ds"
proof (induction p n ds arbitrary: runs "open" rule: encode_loop.induct)
  case (2 p n d ds)
  show ?case
  proof (cases "d \<noteq> p \<or> n = 255")
    case True
    obtain rs o' where "encode_loop d 1 ds = (rs, o')" by (rule prod.exhaust)
    with 2 True show ?thesis by (auto simp: Let_def)
  next
    case False
    with 2 show ?thesis by (simp add: replicate_app_Cons_same)
  qed
qed simp

lemma encode_loop_bounds:
  "encode_loop p n ds = (runs, open) \<Longrightarrow> 1 \<le> n \<Longrightarrow> n \<le> 255 \<Longrightarrow>
   \<forall>(m, c)\<in>set (runs @ [open]). 1 \<le> m \<and> m \<le> 255 \<and> c \<in> insert p (set ds)"
proof (induction p n ds arbitrary: runs "open" rule: encode_loop.induct)
  case (2 p n d ds)
  show ?case
  proof (cases "d \<noteq> p \<or> n = 255")
    case True
    obtain rs o' where r: "encode_loop d 1 ds = (rs, o')" by (rule prod.exhaust)
    from "2.IH"(1) [OF True r] have "\<forall>(m, c)\<in>set (rs @ [o']). 1 \<le> m \<and> m \<le> 255 \<and> c \<in> insert d (set ds)" by simp
    with "2.prems" True r show ?thesis by auto
  next
    case False
    then have r: "encode_loop p (n + 1) ds = (runs, open)" and n: "n + 1 \<le> 255"
      using "2.prems" by auto
    from "2.IH"(2) [OF False r _ n] False show ?thesis by auto
  qed
qed auto

lemma expand_encode_runs: "expand (encode_runs data) = data"
proof (cases data)
  case (Cons d ds)
  obtain runs op where "encode_loop d 1 ds = (runs, op)" by (rule prod.exhaust)
  with encode_loop_expand [OF this] Cons show ?thesis by (simp add: encode_runs_def)
qed (simp add: encode_runs_def)

lemma encode_runs_bounds:
  "\<forall>(m, c)\<in>set (encode_runs data). 1 \<le> m \<and> m \<le> 255 \<and> c \<in> set data"
proof (cases data)
  case (Cons d ds)
  obtain runs op where "encode_loop d 1 ds = (runs, op)" by (rule prod.exhaust)
  with encode_loop_bounds [OF this] Cons show ?thesis by (simp add: encode_runs_def)
qed (simp add: encode_runs_def)


section \<open>Decoding what was encoded\<close>

definition byte_bounds :: "ImageBounds \<Rightarrow> bool" where
  "byte_bounds b \<longleftrightarrow> (\<forall>i\<in>{ib_top b, ib_right b, ib_bottom b, ib_left b}. 0 \<le> i \<and> i < 256)"

lemma encode_runs_bytes: "\<forall>i\<in>set idx. i < 256 \<Longrightarrow> bytes_pairs (encode_runs idx)"
  using encode_runs_bounds [of idx] by (fastforce simp: bytes_pairs_def)

lemma decode_rle:
  assumes "byte_bounds b" and "\<forall>i\<in>set idx. i < 256"
  shows "decodeImage (''0x'' @ bounds_hex b @ encode idx) =
    Some \<lparr>di_paletteIndex = 0, di_bounds = b, di_rects = encode_runs idx\<rparr>"
proof -
  have l: "length (toPaddedHex 0) = 2" "length (toPaddedHex (ib_top b)) = 2" "length (toPaddedHex (ib_right b)) = 2"
    "length (toPaddedHex (ib_bottom b)) = 2" "length (toPaddedHex (ib_left b)) = 2"
    using assms(1) by (simp_all add: byte_bounds_def toPaddedHex_length)
  have p: "parse_hex (toPaddedHex 0) = Some 0" "parse_hex (toPaddedHex (ib_top b)) = Some (nat (ib_top b))"
    "parse_hex (toPaddedHex (ib_right b)) = Some (nat (ib_right b))"
    "parse_hex (toPaddedHex (ib_bottom b)) = Some (nat (ib_bottom b))"
    "parse_hex (toPaddedHex (ib_left b)) = Some (nat (ib_left b))"
    using assms(1) by (simp_all add: byte_bounds_def parse_toPaddedHex)
  have r: "those (map decode_rect (chunks4 (encode idx))) = Some (encode_runs idx)"
    unfolding encode_def by (rule decode_pairs [OF encode_runs_bytes [OF assms(2)]])
  show ?thesis
    using assms(1)
    by (simp add: decodeImage_def strip_0x_def bounds_hex_def js_substring_def js_substring_from_def
        clamp_index_def Let_def l p r byte_bounds_def del: bind_eq_Some_iff)
qed

section \<open>Properties\<close>

text \<open>
  Decoding inverts encoding: the bounds come back, and the runs expand to the colour indexes
  that were encoded.
\<close>

theorem rle_roundtrip:
  assumes "byte_bounds b" and "\<forall>i\<in>set idx. i < 256"
  shows "\<exists>d. decodeImage (''0x'' @ bounds_hex b @ encode idx) = Some d \<and> di_bounds d = b \<and>
    expand (di_rects d) = idx"
  using decode_rle [OF assms] by (simp add: expand_encode_runs)

theorem rle_roundtrip_witness:
  "\<exists>d. decodeImage (''0x'' @ bounds_hex \<lparr>ib_top = 1, ib_right = 4, ib_bottom = 1, ib_left = 2\<rparr> @ encode [7, 7]) = Some d \<and>
    di_bounds d = \<lparr>ib_top = 1, ib_right = 4, ib_bottom = 1, ib_left = 2\<rparr> \<and> expand (di_rects d) = [7, 7]"
  by (rule rle_roundtrip) (simp_all add: byte_bounds_def)

text \<open>
  Canonical runs: each has a length from 1 to 255, and two neighbours have different colours
  unless the first is full.
\<close>

definition canonical :: "(nat \<times> nat) list \<Rightarrow> bool" where
  "canonical rs \<longleftrightarrow> (\<forall>(n, c)\<in>set rs. 1 \<le> n \<and> n \<le> 255) \<and>
     (\<forall>i. Suc i < length rs \<longrightarrow> snd (rs ! i) \<noteq> snd (rs ! Suc i) \<or> fst (rs ! i) = 255)"

lemma encode_loop_adjacent:
  "encode_loop p n ds = (runs, open) \<Longrightarrow> 
   snd (hd (runs @ [open])) = p \<and> (\<forall>i. Suc i < length (runs @ [open]) \<longrightarrow>
     snd ((runs @ [open]) ! i) \<noteq> snd ((runs @ [open]) ! Suc i) \<or> fst ((runs @ [open]) ! i) = 255)"
proof (induction p n ds arbitrary: runs "open" rule: encode_loop.induct)
  case (2 p n d ds)
  show ?case
  proof (cases "d \<noteq> p \<or> n = 255")
    case True
    obtain rs o' where r: "encode_loop d 1 ds = (rs, o')" by (rule prod.exhaust)
    note IH = "2.IH"(1) [OF True r]
    have e: "runs = (n, p) # rs" "open = o'" using "2.prems" True r by auto
    have "snd ((rs @ [o']) ! 0) = d" using IH by (simp add: hd_conv_nth)
    then have "snd ((runs @ [open]) ! i) \<noteq> snd ((runs @ [open]) ! Suc i) \<or> fst ((runs @ [open]) ! i) = 255"
      if "Suc i < length (runs @ [open])" for i
      using IH True that by (cases i) (auto simp: e)
    then show ?thesis by (simp add: e)
  next
    case False
    with 2 show ?thesis by simp
  qed
qed simp

text \<open>
  The runs of an encoding are canonical: every run has a length from 1 to 255, and two
  neighbouring runs have different colours unless the first of them is full.
\<close>

theorem encode_runs_canonical: "canonical (encode_runs data)"
proof (cases data)
  case (Cons d ds)
  obtain runs op where r: "encode_loop d 1 ds = (runs, op)" by (rule prod.exhaust)
  have e: "encode_runs data = runs @ [op]" using Cons r by (simp add: encode_runs_def)
  show ?thesis
    unfolding canonical_def e using encode_loop_adjacent [OF r] encode_loop_bounds [OF r] by fastforce
qed (simp add: canonical_def encode_runs_def)

text \<open>
  The \<open>tuples\<close> field misses the last run of every image.
\<close>

theorem encode_tuples_drops_last:
  "data \<noteq> [] \<Longrightarrow> encode_tuples data = butlast (encode_runs data)"
  by (cases data) (auto simp: encode_tuples_def encode_runs_def split: prod.splits)

end
