(* ===== verification/Sdk_Draw.thy ===== *)
theory Sdk_Draw
  imports Sdk_Rle
begin

text \<open>
  From pixels to pixels: the bounds of an image hold all its visible pixels, the palette gives
  every colour one index, and the rectangles drawn from the encoding paint exactly the pixels of
  the image.
\<close>

section \<open>Bounds\<close>

lemma scan_bottom_spec:
  "0 \<le> n \<Longrightarrow> 0 \<le> scan_bottom t n \<and> scan_bottom t n \<le> n \<and> (\<forall>i. scan_bottom t n < i \<and> i \<le> n \<longrightarrow> t i)"
proof (induction t n rule: scan_bottom.induct)
  case (1 t n)
  show ?case
  proof (cases "0 < n \<and> t n")
    case True
    then have IH: "0 \<le> scan_bottom t (n - 1) \<and> scan_bottom t (n - 1) \<le> n - 1 \<and>
        (\<forall>i. scan_bottom t (n - 1) < i \<and> i \<le> n - 1 \<longrightarrow> t i)" using 1 by simp
    have "t i" if "scan_bottom t (n - 1) < i" "i \<le> n" for i
      using IH True that by (cases "i = n") auto
    with IH True show ?thesis by (simp add: scan_bottom.simps [of t n])
  next
    case False
    then show ?thesis using 1 by (auto simp: scan_bottom.simps [of t n])
  qed
qed

lemma scan_right_spec:
  "- 1 \<le> n \<Longrightarrow> - 1 \<le> scan_right t n \<and> scan_right t n \<le> n \<and> (\<forall>i. scan_right t n < i \<and> i \<le> n \<longrightarrow> t i)"
proof (induction t n rule: scan_right.induct)
  case (1 t n)
  show ?case
  proof (cases "0 \<le> n \<and> t n")
    case True
    then have IH: "- 1 \<le> scan_right t (n - 1) \<and> scan_right t (n - 1) \<le> n - 1 \<and>
        (\<forall>i. scan_right t (n - 1) < i \<and> i \<le> n - 1 \<longrightarrow> t i)" using 1 by simp
    have "t i" if "scan_right t (n - 1) < i" "i \<le> n" for i
      using IH True that by (cases "i = n") auto
    with IH True show ?thesis by (simp add: scan_right.simps [of t n])
  next
    case False
    then show ?thesis using 1 by (auto simp: scan_right.simps [of t n])
  qed
qed

lemma scan_up_spec:
  "n \<le> scan_up t l n \<and> (n \<le> l \<longrightarrow> scan_up t l n \<le> l) \<and> (l < n \<longrightarrow> scan_up t l n = n) \<and>
   (\<forall>i. n \<le> i \<and> i < scan_up t l n \<longrightarrow> t i)"
proof (induction t l n rule: scan_up.induct)
  case (1 t l n)
  show ?case
  proof (cases "n < l \<and> t n")
    case True
    then have IH: "n + 1 \<le> scan_up t l (n + 1) \<and> (n + 1 \<le> l \<longrightarrow> scan_up t l (n + 1) \<le> l) \<and>
        (\<forall>i. n + 1 \<le> i \<and> i < scan_up t l (n + 1) \<longrightarrow> t i)" using 1 by simp
    have "t i" if "n \<le> i" "i < scan_up t l (n + 1)" for i
      using IH True that by (cases "i = n") auto
    with IH True show ?thesis by (simp add: scan_up.simps [of t l n])
  next
    case False
    then show ?thesis by (auto simp: scan_up.simps [of t l n])
  qed
qed

text \<open>Every pixel that is not transparent lies inside the bounds, and the bounds inside the image.\<close>

lemma row_opaque: "0 \<le> x \<Longrightarrow> x < png_width im \<Longrightarrow> rgba_a (png_rgbaAt im x y) \<noteq> 0 \<Longrightarrow> \<not> isTransparentRow im y"
  by (auto simp: isTransparentRow_def list_all_iff)

lemma column_opaque: "0 \<le> y \<Longrightarrow> y < png_height im \<Longrightarrow> rgba_a (png_rgbaAt im x y) \<noteq> 0 \<Longrightarrow> \<not> isTransparentColumn im x"
  by (auto simp: isTransparentColumn_def list_all_iff)

lemma calcBounds_range:
  assumes "0 < png_width im" "0 < png_height im"
  shows "0 \<le> ib_left (calcBounds im)" "ib_left (calcBounds im) \<le> ib_right (calcBounds im)"
    "ib_right (calcBounds im) \<le> png_width im" "0 \<le> ib_top (calcBounds im)"
    "ib_top (calcBounds im) \<le> ib_bottom (calcBounds im)" "ib_bottom (calcBounds im) < png_height im"
  using scan_bottom_spec [of "png_height im - 1" "isTransparentRow im"]
    scan_right_spec [of "png_width im - 1" "isTransparentColumn im"]
    scan_up_spec [of 0 "isTransparentRow im" "scan_bottom (isTransparentRow im) (png_height im - 1)"]
    scan_up_spec [of 0 "isTransparentColumn im" "scan_right (isTransparentColumn im) (png_width im - 1)"] assms
  by (auto simp: calcBounds_def Let_def)

lemma calcBounds_contains:
  assumes x: "0 \<le> x" "x < png_width im" and y: "0 \<le> y" "y < png_height im"
    and a: "rgba_a (png_rgbaAt im x y) \<noteq> 0"
  shows "ib_left (calcBounds im) \<le> x \<and> x < ib_right (calcBounds im) \<and>
    ib_top (calcBounds im) \<le> y \<and> y \<le> ib_bottom (calcBounds im)"
proof -
  note r = row_opaque [OF x a] and c = column_opaque [OF y a]
  let ?b = "scan_bottom (isTransparentRow im) (png_height im - 1)"
  let ?r = "scan_right (isTransparentColumn im) (png_width im - 1)"
  have "y \<le> ?b" using scan_bottom_spec [of "png_height im - 1" "isTransparentRow im"] y r
    by (meson diff_ge_0_iff_ge linorder_not_less zle_diff1_eq order_le_less_trans)
  moreover have "x \<le> ?r" using scan_right_spec [of "png_width im - 1" "isTransparentColumn im"] x c by force
  moreover have "scan_up (isTransparentRow im) ?b 0 \<le> y"
    using scan_up_spec [of 0 "isTransparentRow im" ?b] y r by force
  moreover have "scan_up (isTransparentColumn im) ?r 0 \<le> x"
    using scan_up_spec [of 0 "isTransparentColumn im" ?r] x c by force
  ultimately show ?thesis by (simp add: calcBounds_def Let_def)
qed

section \<open>Pixels in order\<close>

lemma bounds_pixels_nth:
  assumes "ib_left b \<le> x" "x < ib_right b" "ib_top b \<le> y" "y \<le> ib_bottom b"
  shows "nat ((y - ib_top b) * (ib_right b - ib_left b) + (x - ib_left b)) < length (bounds_pixels b) \<and>
    bounds_pixels b ! nat ((y - ib_top b) * (ib_right b - ib_left b) + (x - ib_left b)) = (x, y)"
proof -
  let ?w = "nat (ib_right b - ib_left b)" and ?f = "\<lambda>y. map (\<lambda>x. (x, y)) [ib_left b..ib_right b - 1]"
  let ?i = "nat (y - ib_top b)" and ?j = "nat (x - ib_left b)"
  have u: "\<forall>y\<in>set [ib_top b..ib_bottom b]. length (?f y) = ?w" by simp
  have ij: "?i < length [ib_top b..ib_bottom b]" "?j < ?w" using assms by auto
  have e: "nat ((y - ib_top b) * (ib_right b - ib_left b) + (x - ib_left b)) = ?i * ?w + ?j"
    using assms by (simp add: nat_add_distrib nat_mult_distrib)
  have "?i * ?w + ?j < Suc ?i * ?w" using ij(2) by simp
  also have "\<dots> \<le> length [ib_top b..ib_bottom b] * ?w" using ij(1) by (metis Suc_leI mult_le_mono1)
  finally have "?i * ?w + ?j < length (bounds_pixels b)"
    unfolding bounds_pixels_def by (simp only: length_concat_uniform [OF u])
  moreover have "bounds_pixels b ! (?i * ?w + ?j) = (x, y)"
    unfolding bounds_pixels_def using nth_concat_uniform [OF u ij] assms by (simp add: nth_upto)
  ultimately show ?thesis by (simp add: e)
qed

lemma length_bounds_pixels:
  "length (bounds_pixels b) = nat (ib_bottom b - ib_top b + 1) * nat (ib_right b - ib_left b)"
  unfolding bounds_pixels_def
  by (subst length_concat_uniform [where n = "nat (ib_right b - ib_left b)"]) simp_all

section \<open>The palette\<close>

text \<open>Colour \<open>i\<close> of the palette has index \<open>i\<close>, and the first one stands for transparent.\<close>

definition wf_palette :: "colors \<Rightarrow> bool" where
  "wf_palette m \<longleftrightarrow> m \<noteq> [] \<and> fst (hd m) = [] \<and> distinct (map fst m) \<and> map snd m = [0..<length m]"

lemma js_set_new: "\<not> js_has m k \<Longrightarrow> js_set m k v = m @ [(k, v)]"
  by (induction m) (auto simp: js_has_def)

lemma rgbToHex_nonempty [simp]: "rgbToHex r g b \<noteq> []"
proof -
  have "length (toPaddedHex r) \<ge> 2" by (simp add: toPaddedHex_def)
  then show ?thesis by (auto simp: rgbToHex_def)
qed

lemma wf_palette_get:
  assumes "wf_palette m" "js_has m k"
  shows "\<exists>i<length m. js_get m k = Some i \<and> map fst m ! i = k \<and> (k \<noteq> [] \<longrightarrow> i \<noteq> 0)"
proof -
  obtain i where i: "i < length m" "fst (m ! i) = k"
    using assms(2) by (auto simp: js_has_def in_set_conv_nth)
  have "map snd m ! i = i" using assms(1) i(1) by (simp add: wf_palette_def)
  then have "m ! i = (k, i)" using i by (auto simp: prod_eq_iff)
  then have "js_get m k = Some i"
    using assms(1) i(1) nth_mem [OF i(1)] by (simp add: js_get_def wf_palette_def map_of_eq_Some_iff)
  moreover have "k \<noteq> [] \<longrightarrow> i \<noteq> 0" using assms(1) i by (cases i) (auto simp: wf_palette_def hd_conv_nth)
  ultimately show ?thesis using i by auto
qed

lemma pixel_index_spec:
  assumes w: "wf_palette m" and p: "pixel_index c m = (i, m')"
  shows "wf_palette m'" "\<exists>n. m' = m @ n" "i < length m'"
    "(i \<noteq> 0) = (rgba_a c \<noteq> 0)"
    "rgba_a c \<noteq> 0 \<Longrightarrow> map fst m' ! i = rgbToHex (rgba_r c) (rgba_g c) (rgba_b c)"
proof -
  let ?h = "rgbToHex (rgba_r c) (rgba_g c) (rgba_b c)"
  have m': "m' = (if js_has m ?h then m else m @ [(?h, length m)])"
    using p by (auto simp: pixel_index_def Let_def js_set_new split: if_splits)
  then show wf: "wf_palette m'" using w by (auto simp: wf_palette_def js_has_def)
  show "\<exists>n. m' = m @ n" using m' by auto
  have "js_has m' ?h" using m' by (auto simp: js_has_def)
  from wf_palette_get [OF wf this] obtain j where j: "j < length m'" "js_get m' ?h = Some j"
    "map fst m' ! j = ?h" "j \<noteq> 0" by auto
  have i: "i = (if rgba_a c = 0 then 0 else j)"
    using p j(2) m' by (auto simp: pixel_index_def Let_def js_set_new split: if_splits)
  show "i < length m'" using i j(1) wf by (auto simp: wf_palette_def)
  show "(i \<noteq> 0) = (rgba_a c \<noteq> 0)" using i j(4) by auto
  show "rgba_a c \<noteq> 0 \<Longrightarrow> map fst m' ! i = ?h" using i j(3) by simp
qed

lemma pixel_indexes_spec:
  assumes "wf_palette m" and "pixel_indexes im ps m = (is, m')"
  shows "wf_palette m' \<and> (\<exists>n. m' = m @ n) \<and> length is = length ps \<and>
    (\<forall>k<length ps. is ! k < length m' \<and>
       (let c = png_rgbaAt im (fst (ps ! k)) (snd (ps ! k)) in
          (is ! k \<noteq> 0) = (rgba_a c \<noteq> 0) \<and>
          (rgba_a c \<noteq> 0 \<longrightarrow> map fst m' ! (is ! k) = rgbToHex (rgba_r c) (rgba_g c) (rgba_b c))))"
  using assms
proof (induction ps arbitrary: m "is" m')
  case Nil
  then show ?case by auto
next
  case (Cons p ps)
  obtain x y where xy: "p = (x, y)" by fastforce
  obtain i m1 where i: "pixel_index (png_rgbaAt im x y) m = (i, m1)" by fastforce
  obtain js m2 where js: "pixel_indexes im ps m1 = (js, m2)" by fastforce
  have r: "is = i # js" "m' = m2" using Cons.prems(2) xy i js by (auto simp: Let_def)
  note s = pixel_index_spec [OF Cons.prems(1) i]
  note IH = Cons.IH [OF s(1) js]
  obtain n where n: "m2 = m1 @ n" using IH by blast
  have "map fst m2 ! i = map fst m1 ! i" using s(3) n by (simp add: nth_append)
  moreover have "i < length m2" using s(3) n by simp
  ultimately show ?case
    using IH s n r xy by (auto simp: nth_Cons Let_def split: nat.splits)
qed

section \<open>Drawing\<close>

definition covers :: "rect \<Rightarrow> int \<Rightarrow> int \<Rightarrow> bool" where
  "covers r x y \<longleftrightarrow> rc_y r = y \<and> rc_x r \<le> x \<and> x < rc_x r + rc_length r"

definition painted :: "rect list \<Rightarrow> int \<Rightarrow> int \<Rightarrow> string \<Rightarrow> bool" where
  "painted rs x y f \<longleftrightarrow> (\<exists>r\<in>set rs. covers r x y \<and> rc_fill r = f)"

lemma painted_simps [simp]:
  "painted [] x y f = False" "painted (rs @ rs') x y f = (painted rs x y f \<or> painted rs' x y f)"
  by (auto simp: painted_def)

text \<open>The position of a pixel in the row-major order of the bounds.\<close>

definition pos :: "ImageBounds \<Rightarrow> int \<Rightarrow> int \<Rightarrow> int" where
  "pos b x y = y * (ib_right b - ib_left b) + (x - ib_left b)"

definition in_line :: "ImageBounds \<Rightarrow> int \<Rightarrow> bool" where
  "in_line b x \<longleftrightarrow> ib_left b \<le> x \<and> x < ib_right b"

lemma pos_less_row:
  assumes "in_line b u" "in_line b x" "v < y"
  shows "pos b u v < pos b x y - (x - ib_left b)"
proof -
  have "(v + 1) * (ib_right b - ib_left b) \<le> y * (ib_right b - ib_left b)"
    using assms by (intro mult_right_mono) (auto simp: in_line_def)
  then show ?thesis using assms(1) by (simp add: pos_def in_line_def algebra_simps)
qed

lemma pos_inject:
  assumes "in_line b u" "in_line b x"
  shows "pos b u v = pos b x y \<longleftrightarrow> u = x \<and> v = y"
proof
  assume e: "pos b u v = pos b x y"
  have "\<not> v < y" using pos_less_row [OF assms, of v y] e assms(2) by (auto simp: in_line_def)
  moreover have "\<not> y < v" using pos_less_row [OF assms(2,1), of y v] e assms(1) by (auto simp: in_line_def)
  ultimately show "u = x \<and> v = y" using e by (simp add: pos_def)
qed simp

lemma segment_pos:
  assumes u: "in_line b u" and x: "in_line b x" and n: "x + n \<le> ib_right b"
  shows "v = y \<and> x \<le> u \<and> u < x + n \<longleftrightarrow> pos b x y \<le> pos b u v \<and> pos b u v < pos b x y + n"
proof (cases v y rule: linorder_cases)
  case less
  with pos_less_row [OF u x less] x show ?thesis by (auto simp: in_line_def)
next
  case equal
  then show ?thesis by (auto simp: pos_def)
next
  case greater
  have "pos b x y + n \<le> pos b u v"
  proof -
    have "(y + 1) * (ib_right b - ib_left b) \<le> v * (ib_right b - ib_left b)"
      using greater x by (intro mult_right_mono) (auto simp: in_line_def)
    then show ?thesis using u n by (simp add: pos_def in_line_def algebra_simps)
  qed
  with greater show ?thesis by auto
qed

lemma draw_run_spec:
  "draw_run b c h d x y = (rs, x', y') \<Longrightarrow> in_line b x \<Longrightarrow> 0 \<le> d \<Longrightarrow>
   in_line b x' \<and> pos b x' y' = pos b x y + d \<and> (\<forall>u v f. painted rs u v f \<longrightarrow> in_line b u) \<and>
   (\<forall>u v f. in_line b u \<longrightarrow> painted rs u v f =
      (c \<noteq> 0 \<and> f = h \<and> pos b x y \<le> pos b u v \<and> pos b u v < pos b x y + d))"
proof (induction b c h d x y arbitrary: rs x' y' rule: draw_run.induct)
  case (1 b c h d x y)
  let ?n = "getRectLength x d (ib_right b)"
  show ?case
  proof (cases "0 < ?n")
    case False
    then have "d = 0" using "1.prems"(2,3) by (auto simp: getRectLength_def in_line_def Let_def split: if_splits)
    moreover have "rs = []" "x' = x" "y' = y"
      using "1.prems"(1) False by (simp_all add: draw_run.simps [of b c h d x y] Let_def)
    ultimately show ?thesis using "1.prems"(2) by auto
  next
    case True
    have n: "?n \<le> d" "x + ?n \<le> ib_right b" by (auto simp: getRectLength_def Let_def)
    define x1 where "x1 = (if x + ?n = ib_right b then ib_left b else x + ?n)"
    define y1 where "y1 = (if x + ?n = ib_right b then y + 1 else y)"
    obtain rs' x2 y2 where r: "draw_run b c h (d - ?n) x1 y1 = (rs', x2, y2)" by (metis prod_cases3)
    let ?r = "if c \<noteq> 0 then [\<lparr>rc_length = ?n, rc_x = x, rc_y = y, rc_fill = h\<rparr>] else []"
    have e: "rs = ?r @ rs'" "x' = x2" "y' = y2"
      using "1.prems"(1) r True by (auto simp: draw_run.simps [of b c h d x y] Let_def x1_def y1_def split: if_splits)
    have x1: "in_line b x1" using "1.prems"(2) n True by (auto simp: x1_def in_line_def)
    have p1: "pos b x1 y1 = pos b x y + ?n" by (auto simp: x1_def y1_def pos_def algebra_simps)
    have IH: "in_line b x2 \<and> pos b x2 y2 = pos b x1 y1 + (d - ?n) \<and> (\<forall>u v f. painted rs' u v f \<longrightarrow> in_line b u) \<and>
      (\<forall>u v f. in_line b u \<longrightarrow> painted rs' u v f =
        (c \<noteq> 0 \<and> f = h \<and> pos b x1 y1 \<le> pos b u v \<and> pos b u v < pos b x1 y1 + (d - ?n)))"
      using "1.IH" [OF refl True refl refl refl _ r x1] n(1) by (simp add: x1_def y1_def)
    have seg: "painted ?r u v f = (c \<noteq> 0 \<and> f = h \<and> pos b x y \<le> pos b u v \<and> pos b u v < pos b x y + ?n)"
      if "in_line b u" for u v f
      using segment_pos [OF that "1.prems"(2) n(2), of v y] by (auto simp: painted_def covers_def)
    have "painted rs u v f = (c \<noteq> 0 \<and> f = h \<and> pos b x y \<le> pos b u v \<and> pos b u v < pos b x y + d)"
      if "in_line b u" for u v f
      unfolding e painted_simps seg [OF that] using IH that p1 n(1) True by auto
    moreover have "painted ?r u v f \<Longrightarrow> in_line b u" for u v f
      using "1.prems"(2) n(2) by (auto simp: painted_def covers_def in_line_def split: if_splits)
    ultimately show ?thesis using IH p1 unfolding e painted_simps by auto
  qed
qed

lemma draw_rects_in_line:
  "in_line b x \<Longrightarrow> painted (draw_rects b pal rs x y) u v f \<Longrightarrow> in_line b u"
proof (induction rs arbitrary: x y)
  case (Cons r rs)
  obtain n c where r: "r = (n, c)" by fastforce
  obtain ds x' y' where d: "draw_run b c (palette_color pal c) (int n) x y = (ds, x', y')" by (metis prod_cases3)
  from draw_run_spec [OF d Cons.prems(1)] Cons.IH [of x' y'] Cons.prems(2) d r show ?case by auto
qed simp

text \<open>A list of runs paints the pixel at each position with the colour the run gives it.\<close>

lemma draw_rects_spec:
  assumes "in_line b x" and "in_line b u"
  shows "painted (draw_rects b pal rs x y) u v f \<longleftrightarrow>
    (\<exists>i<length (expand rs). pos b u v = pos b x y + int i \<and> expand rs ! i \<noteq> 0 \<and> f = palette_color pal (expand rs ! i))"
  using assms(1)
proof (induction rs arbitrary: x y)
  case Nil
  then show ?case by simp
next
  case (Cons r rs)
  obtain n c where r: "r = (n, c)" by fastforce
  obtain ds x' y' where d: "draw_run b c (palette_color pal c) (int n) x y = (ds, x', y')" by (metis prod_cases3)
  note s = draw_run_spec [OF d Cons.prems, simplified]
  let ?p = "pos b u v - pos b x y"
  have "painted (draw_rects b pal (r # rs) x y) u v f \<longleftrightarrow>
      c \<noteq> 0 \<and> f = palette_color pal c \<and> 0 \<le> ?p \<and> ?p < int n \<or>
      (\<exists>i<length (expand rs). ?p = int n + int i \<and> expand rs ! i \<noteq> 0 \<and> f = palette_color pal (expand rs ! i))"
  proof -
    have "draw_rects b pal (r # rs) x y = ds @ draw_rects b pal rs x' y'" using d r by simp
    moreover have "painted ds u v f = (c \<noteq> 0 \<and> f = palette_color pal c \<and> 0 \<le> ?p \<and> ?p < int n)"
      using s assms(2) by (auto simp: algebra_simps)
    moreover have "pos b u v = pos b x' y' + int i \<longleftrightarrow> ?p = int n + int i" for i using s by auto
    ultimately show ?thesis using Cons.IH [of x' y'] s by simp
  qed
  also have "\<dots> \<longleftrightarrow> (\<exists>i<length (expand (r # rs)). ?p = int i \<and> expand (r # rs) ! i \<noteq> 0 \<and>
      f = palette_color pal (expand (r # rs) ! i))" (is "?L \<longleftrightarrow> ?R")
  proof
    assume ?L
    then show ?R
    proof
      assume a: "c \<noteq> 0 \<and> f = palette_color pal c \<and> 0 \<le> ?p \<and> ?p < int n"
      then show ?R by (intro exI [of _ "nat ?p"]) (simp add: r nth_append nat_less_iff)
    next
      assume "\<exists>i<length (expand rs). ?p = int n + int i \<and> expand rs ! i \<noteq> 0 \<and> f = palette_color pal (expand rs ! i)"
      then obtain i where "i < length (expand rs)" "?p = int n + int i" "expand rs ! i \<noteq> 0"
        "f = palette_color pal (expand rs ! i)" by blast
      then show ?R by (intro exI [of _ "n + i"]) (simp add: r nth_append)
    qed
  next
    assume ?R
    then obtain i where i: "i < length (expand (r # rs))" "?p = int i" "expand (r # rs) ! i \<noteq> 0"
      "f = palette_color pal (expand (r # rs) ! i)" by blast
    show ?L
    proof (cases "i < n")
      case True
      with i show ?thesis by (simp add: r nth_append)
    next
      case False
      with i show ?thesis by (intro disjI2 exI [of _ "i - n"]) (simp add: r nth_append)
    qed
  qed
  finally show ?case by (simp add: algebra_simps)
qed


section \<open>From pixels to pixels\<close>

lemma bounds_width_0:
  assumes "ib_right b \<le> ib_left b"
  shows "bounds_pixels b = []"
  using assms by (simp add: bounds_pixels_def)

lemma outside_rows:
  assumes "in_line b x" "in_line b (ib_left b)" "y < ib_top b \<or> ib_bottom b < y" "ib_top b \<le> ib_bottom b"
    "i < nat (ib_bottom b - ib_top b + 1) * nat (ib_right b - ib_left b)"
  shows "pos b x y \<noteq> pos b (ib_left b) (ib_top b) + int i"
  using assms(3)
proof
  assume "y < ib_top b"
  from pos_less_row [OF assms(1,2) this] show ?thesis by simp
next
  assume y: "ib_bottom b < y"
  let ?w = "ib_right b - ib_left b"
  have "int i < (ib_bottom b - ib_top b + 1) * ?w"
    using assms(2,4,5) by (simp add: in_line_def nat_mult_distrib [symmetric] zless_nat_eq_int_zless)
  then have "pos b (ib_left b) (ib_top b) + int i < (ib_bottom b + 1) * ?w"
    by (simp add: pos_def algebra_simps)
  also have "\<dots> \<le> y * ?w" using y assms(2) by (intro mult_right_mono) (auto simp: in_line_def)
  also have "\<dots> \<le> pos b x y" using assms(1) by (simp add: pos_def in_line_def)
  finally show ?thesis by simp
qed

lemma draw_encoded:
  assumes w: "wf_palette colors" and e: "toRLE im colors = (rle, colors')"
    and dim: "0 < png_width im" "png_width im < 256" "0 < png_height im" "png_height im < 256"
    and pal: "length colors' \<le> 256" and xy: "0 \<le> x" "x < png_width im" "0 \<le> y" "y < png_height im"
  shows "\<exists>d. decodeImage rle = Some d \<and>
    (\<forall>f. painted (draw_part (map fst colors' @ later) d) x y f \<longleftrightarrow>
      rgba_a (png_rgbaAt im x y) \<noteq> 0 \<and> f = rgbToHex (rgba_r (png_rgbaAt im x y))
        (rgba_g (png_rgbaAt im x y)) (rgba_b (png_rgbaAt im x y)))"
proof -
  let ?b = "calcBounds im" and ?c = "png_rgbaAt im x y"
  note rng = calcBounds_range [OF dim(1,3)]
  obtain idx where idx: "pixel_indexes im (bounds_pixels ?b) colors = (idx, colors')"
    and rle: "rle = ''0x'' @ bounds_hex ?b @ encode idx"
    using e by (auto simp: toRLE_def Let_def split: prod.splits)
  note s = pixel_indexes_spec [OF w idx]
  have bytes: "\<forall>i\<in>set idx. i < 256" using s pal by (fastforce simp: in_set_conv_nth)
  have bb: "byte_bounds ?b" using rng dim by (auto simp: byte_bounds_def)
  let ?d = "\<lparr>di_paletteIndex = 0, di_bounds = ?b, di_rects = encode_runs idx\<rparr>"
  have d: "decodeImage rle = Some ?d" unfolding rle by (rule decode_rle [OF bb bytes])
  have "painted (draw_part (map fst colors' @ later) ?d) x y f \<longleftrightarrow>
      rgba_a ?c \<noteq> 0 \<and> f = rgbToHex (rgba_r ?c) (rgba_g ?c) (rgba_b ?c)" for f
  proof (cases "ib_left ?b \<le> x \<and> x < ib_right ?b \<and> ib_top ?b \<le> y \<and> y \<le> ib_bottom ?b")
    case True
    let ?k = "nat ((y - ib_top ?b) * (ib_right ?b - ib_left ?b) + (x - ib_left ?b))"
    have k: "?k < length (bounds_pixels ?b)" "bounds_pixels ?b ! ?k = (x, y)"
      using bounds_pixels_nth [of ?b x y] True by auto
    have "0 \<le> (y - ib_top ?b) * (ib_right ?b - ib_left ?b) + (x - ib_left ?b)"
      using True by (intro add_nonneg_nonneg mult_nonneg_nonneg) auto
    then have kp: "pos ?b x y = pos ?b (ib_left ?b) (ib_top ?b) + int ?k"
      by (simp add: pos_def algebra_simps)
    have l: "in_line ?b (ib_left ?b)" "in_line ?b x" using True by (auto simp: in_line_def)
    have "painted (draw_part (map fst colors' @ later) ?d) x y f \<longleftrightarrow>
        idx ! ?k \<noteq> 0 \<and> f = palette_color (map fst colors' @ later) (idx ! ?k)"
      using draw_rects_spec [OF l, of "map fst colors' @ later" "encode_runs idx" "ib_top ?b" y f] k(1) s kp
      by (auto simp: draw_part_def expand_encode_runs)
    moreover have "idx ! ?k < length colors'" "(idx ! ?k \<noteq> 0) = (rgba_a ?c \<noteq> 0)"
      "rgba_a ?c \<noteq> 0 \<longrightarrow> map fst colors' ! (idx ! ?k) = rgbToHex (rgba_r ?c) (rgba_g ?c) (rgba_b ?c)"
      using s [THEN conjunct2, THEN conjunct2, THEN conjunct2, rule_format, OF k(1), unfolded k(2) Let_def fst_conv snd_conv]
      by blast+
    ultimately show ?thesis by (auto simp: palette_color_def nth_append)
  next
    case out: False
    then have a: "rgba_a ?c = 0" using calcBounds_contains [OF xy] by blast
    have "\<not> painted (draw_part (map fst colors' @ later) ?d) x y f"
    proof (cases "ib_left ?b < ib_right ?b")
      case True
      then have l: "in_line ?b (ib_left ?b)" by (simp add: in_line_def)
      have len: "length idx = nat (ib_bottom ?b - ib_top ?b + 1) * nat (ib_right ?b - ib_left ?b)"
        using s by (simp add: length_bounds_pixels)
      show ?thesis
      proof
        assume p: "painted (draw_part (map fst colors' @ later) ?d) x y f"
        then have x: "in_line ?b x" using draw_rects_in_line [OF l] by (simp add: draw_part_def)
        from p draw_rects_spec [OF l x, of "map fst colors' @ later" "encode_runs idx" "ib_top ?b" y f]
        obtain i where i: "i < length idx" "pos ?b x y = pos ?b (ib_left ?b) (ib_top ?b) + int i"
          by (auto simp: draw_part_def expand_encode_runs)
        have y: "y < ib_top ?b \<or> ib_bottom ?b < y" using out x by (auto simp: in_line_def)
        from outside_rows [OF x l y rng(5) i(1) [unfolded len]] i(2) show False by simp
      qed
    next
      case False
      then have "idx = []" using s bounds_width_0 [of ?b] by simp
      then show ?thesis by (simp add: draw_part_def encode_runs_def)
    qed
    with a show ?thesis by simp
  qed
  with d show ?thesis by blast
qed


section \<open>Properties\<close>

text \<open>
  C13: drawing an encoded image gives back its pixels. For an image of at most 255 by 255 pixels
  whose palette has at most 256 colours, the encoding decodes, and a pixel is painted with a
  colour exactly if the pixel is not transparent and has that colour; this holds for every
  later extension of the palette too.
\<close>

theorem encoded_image_draws_itself:
  assumes "wf_palette colors" and "toRLE im colors = (rle, colors')"
    and "0 < png_width im" "png_width im < 256" "0 < png_height im" "png_height im < 256"
    and "length colors' \<le> 256" and "0 \<le> x" "x < png_width im" "0 \<le> y" "y < png_height im"
  shows "\<exists>d. decodeImage rle = Some d \<and>
    (\<forall>f. painted (draw_part (map fst colors' @ later) d) x y f \<longleftrightarrow>
      rgba_a (png_rgbaAt im x y) \<noteq> 0 \<and> f = rgbToHex (rgba_r (png_rgbaAt im x y))
        (rgba_g (png_rgbaAt im x y)) (rgba_b (png_rgbaAt im x y)))"
  by (rule draw_encoded [OF assms])

text \<open>A one-line image: a red, a transparent and a red pixel.\<close>

definition demo_png :: PngImage where
  "demo_png = \<lparr>png_width = 3, png_height = 1, png_rgbaAt = (\<lambda>x y.
     if x = 1 then \<lparr>rgba_r = 0, rgba_g = 0, rgba_b = 0, rgba_a = 0\<rparr>
     else \<lparr>rgba_r = 255, rgba_g = 0, rgba_b = 0, rgba_a = 255\<rparr>)\<rparr>"

lemma demo_png_rle:
  "toRLE demo_png [([], 0)] = (''0x0000030000010101000101'', [([], 0), (''ff0000'', 1), (''000000'', 2)])"
  by code_simp

theorem encoded_image_draws_itself_witness:
  "\<exists>d. decodeImage ''0x0000030000010101000101'' = Some d \<and>
    (\<forall>f. painted (draw_part [[], ''ff0000'', ''000000''] d) 2 0 f \<longleftrightarrow> f = rgbToHex 255 0 0)"
proof -
  have "wf_palette [([], 0)]" by (simp add: wf_palette_def)
  from encoded_image_draws_itself [OF this demo_png_rle, of 2 0 "[]"] show ?thesis
    by (simp add: demo_png_def)
qed


end
