(* ===== verification/Sdk_Collection.thy ===== *)
theory Sdk_Collection
  imports Sdk_Draw "HOL-Library.Multiset"
begin

text \<open>
  The collection encoder of \<open>packages/nouns-sdk\<close>: one palette shared by all images, which only
  grows, and a folder structure that lists every image once.
\<close>

section \<open>The collection encoder\<close>

lemma set_colors_fresh:
  assumes "wf_palette m" "n = length m" "distinct cs" "set cs \<inter> set (map fst m) = {}"
  shows "wf_palette (set_colors cs n m) \<and> map fst (set_colors cs n m) = map fst m @ cs"
  using assms
proof (induction cs arbitrary: m n)
  case (Cons c cs)
  have s: "js_set m c n = m @ [(c, n)]" using Cons.prems(4) by (intro js_set_new) (auto simp: js_has_def)
  have "wf_palette (m @ [(c, n)])" using Cons.prems by (auto simp: wf_palette_def)
  with Cons.IH [of "m @ [(c, n)]" "Suc n"] Cons.prems s show ?case by auto
qed simp

text \<open>An existing palette whose first entry is the transparent one is taken over as it is.\<close>

lemma new_encoder_palette:
  assumes "distinct cs" "cs = [] \<or> hd cs = []"
  shows "wf_palette (pce_colors (new_encoder cs)) \<and>
    map fst (pce_colors (new_encoder cs)) = (if cs = [] then [[]] else cs)"
proof (cases cs)
  case Nil
  then show ?thesis by (simp add: new_encoder_def wf_palette_def)
next
  case (Cons c ds)
  with assms have "c = []" "distinct ds" "[] \<notin> set ds" by auto
  with set_colors_fresh [of "[([], 0)]" 1 ds] Cons show ?thesis
    by (simp add: new_encoder_def wf_palette_def)
qed

lemma toRLE_palette:
  assumes "wf_palette m" "toRLE im m = (r, m')"
  shows "wf_palette m' \<and> prefix m m'"
  using pixel_indexes_spec [OF assms(1)] assms(2)
  by (auto simp: toRLE_def Let_def prefix_def split: prod.splits)

fun encode_all :: "(string \<times> PngImage \<times> string option) list \<Rightarrow> PNGCollectionEncoder \<Rightarrow> PNGCollectionEncoder" where
  "encode_all [] e = e"
| "encode_all ((n, p, f) # xs) e = encode_all xs (snd (encodeImage n p f e))"

lemma encodeImage_fields:
  assumes "encodeImage n p f e = (r, e')"
  shows "toRLE p (pce_colors e) = (r, pce_colors e')" "pce_images e' = js_set (pce_images e) n r"
    "pce_folders e' = (case f of None \<Rightarrow> pce_folders e | Some d \<Rightarrow> if d = [] then pce_folders e
       else js_set (pce_folders e) d ((case js_get (pce_folders e) d of None \<Rightarrow> [] | Some ns \<Rightarrow> ns) @ [n]))"
  using assms by (auto simp: encodeImage_def Let_def split: prod.splits option.splits)

lemma encode_all_palette:
  "wf_palette (pce_colors e) \<Longrightarrow>
   wf_palette (pce_colors (encode_all xs e)) \<and> prefix (pce_colors e) (pce_colors (encode_all xs e))"
proof (induction xs arbitrary: e)
  case (Cons x xs)
  obtain n p f where x: "x = (n, p, f)" by (rule prod_cases3)
  obtain r e' where e': "encodeImage n p f e = (r, e')" by (rule prod.exhaust)
  have "wf_palette (pce_colors e') \<and> prefix (pce_colors e) (pce_colors e')"
    by (rule toRLE_palette [OF Cons.prems encodeImage_fields(1) [OF e']])
  with Cons.IH [of e'] show ?case using x e' prefix_order.trans by (auto simp del: prefix_order.trans)
qed simp

section \<open>Formatting\<close>

definition folder_files :: "PNGCollectionEncoder \<Rightarrow> string list" where
  "folder_files e = concat (map snd (pce_folders e))"

definition encoder_inv :: "PNGCollectionEncoder \<Rightarrow> bool" where
  "encoder_inv e \<longleftrightarrow> distinct (map fst (pce_images e)) \<and> distinct (folder_files e) \<and>
     set (folder_files e) \<subseteq> set (map fst (pce_images e)) \<and> ''root'' \<notin> set (map fst (pce_folders e))"

lemma js_set_keys: "map fst (js_set m k v) = (if k \<in> set (map fst m) then map fst m else map fst m @ [k])"
  by (induction m) force+

lemma folder_append:
  "mset (concat (map snd (js_set fs d ((case js_get fs d of None \<Rightarrow> [] | Some ns \<Rightarrow> ns) @ [n])))) =
   add_mset n (mset (concat (map snd fs)))"
  by (induction fs) (auto simp: js_get_def)

lemma encodeImage_inv:
  assumes i: "encoder_inv e" and n: "n \<notin> set (map fst (pce_images e))" and f: "f \<noteq> Some ''root''"
    and e': "encodeImage n p f e = (r, e')"
  shows "encoder_inv e' \<and> map fst (pce_images e') = map fst (pce_images e) @ [n]"
proof -
  note F = encodeImage_fields [OF e']
  have im: "map fst (pce_images e') = map fst (pce_images e) @ [n]" using n by (simp add: F(2) js_set_keys)
  have "pce_folders e' = pce_folders e \<or> mset (folder_files e') = add_mset n (mset (folder_files e))"
  proof (cases f)
    case (Some d)
    with folder_append [of "pce_folders e" d n] show ?thesis by (auto simp: F(3) folder_files_def)
  qed (simp add: F(3))
  then have fol: "distinct (folder_files e')" "set (folder_files e') \<subseteq> set (map fst (pce_images e'))"
  proof -
    assume a: "pce_folders e' = pce_folders e \<or> mset (folder_files e') = add_mset n (mset (folder_files e))"
    have nf: "n \<notin> set (folder_files e)" using i n by (auto simp: encoder_inv_def)
    from a show "distinct (folder_files e')"
    proof
      assume "mset (folder_files e') = add_mset n (mset (folder_files e))"
      then have "mset (folder_files e') = mset (n # folder_files e)" by simp
      from mset_eq_imp_distinct_iff [OF this] show ?thesis using i nf by (simp add: encoder_inv_def)
    qed (use i in \<open>simp add: encoder_inv_def folder_files_def\<close>)
    from a show "set (folder_files e') \<subseteq> set (map fst (pce_images e'))"
    proof
      assume "mset (folder_files e') = add_mset n (mset (folder_files e))"
      then have "set (folder_files e') = insert n (set (folder_files e))"
        by (metis set_mset_add_mset_insert set_mset_mset)
      then show ?thesis using i unfolding im encoder_inv_def by auto
    qed (use i in \<open>auto simp: encoder_inv_def folder_files_def im simp del: set_map\<close>)
  qed
  have "''root'' \<notin> set (map fst (pce_folders e'))"
    using i f by (auto simp: F(3) js_set_keys encoder_inv_def simp del: set_map split: option.splits)
  with fol im n i show ?thesis by (simp add: encoder_inv_def)
qed

lemma encode_all_inv:
  assumes "encoder_inv e" "distinct (map fst xs)" "set (map fst xs) \<inter> set (map fst (pce_images e)) = {}"
    "\<forall>(n, p, f)\<in>set xs. f \<noteq> Some ''root''"
  shows "encoder_inv (encode_all xs e) \<and>
    map fst (pce_images (encode_all xs e)) = map fst (pce_images e) @ map fst xs"
  using assms
proof (induction xs arbitrary: e)
  case (Cons x xs)
  obtain n p f where x: "x = (n, p, f)" by (rule prod_cases3)
  obtain r e' where e': "encodeImage n p f e = (r, e')" by (rule prod.exhaust)
  have "encoder_inv e' \<and> map fst (pce_images e') = map fst (pce_images e) @ [n]"
    by (rule encodeImage_inv [OF Cons.prems(1) _ _ e']) (use Cons.prems(3,4) x in auto)
  with Cons.IH [of e'] Cons.prems x e' show ?case by auto
qed simp

lemma format_folder_eq:
  "distinct fs \<Longrightarrow> format_folder fs im =
     (map (\<lambda>f. (f, map_of im f)) fs, filter (\<lambda>x. fst x \<notin> set fs) im)"
proof (induction fs arbitrary: im)
  case (Cons f fs)
  have "map_of (js_delete im f) g = map_of im g" if "g \<noteq> f" for g
    using that by (induction im) (auto simp: js_delete_def)
  then have "map (\<lambda>g. (g, map_of (js_delete im f) g)) fs = map (\<lambda>g. (g, map_of im g)) fs"
    using Cons.prems by (intro map_cong refl) (metis distinct.simps(2))
  with Cons show ?case by (auto simp: js_get_def js_delete_def intro: filter_cong)
qed simp

lemma format_folders_eq:
  "distinct (concat (map snd fo)) \<Longrightarrow> format_folders fo im =
     (map (\<lambda>(k, fs). (k, map (\<lambda>f. (f, map_of im f)) fs)) fo,
      filter (\<lambda>x. fst x \<notin> set (concat (map snd fo))) im)"
proof (induction fo arbitrary: im)
  case (Cons x fo)
  obtain k fs where x: "x = (k, fs)" by (rule prod.exhaust)
  let ?im = "filter (\<lambda>x. fst x \<notin> set fs) im"
  have m: "map_of ?im g = map_of im g" if "g \<notin> set fs" for g
    using that by (induction im) auto
  have "map (\<lambda>(k, hs). (k, map (\<lambda>f. (f, map_of ?im f)) hs)) fo = map (\<lambda>(k, hs). (k, map (\<lambda>f. (f, map_of im f)) hs)) fo"
    using Cons.prems x by (intro map_cong refl) (fastforce intro!: m)
  with Cons x show ?case by (auto simp: format_folder_eq intro: filter_cong)
qed simp

lemma listed_files:
  assumes "distinct (map fst im)" "distinct L" "set L \<subseteq> set (map fst im)"
  shows "mset (map (\<lambda>f. (f, map_of im f)) L) = mset (map (\<lambda>(f, d). (f, Some d)) (filter (\<lambda>x. fst x \<in> set L) im))"
proof -
  have "distinct (map (\<lambda>f. (f, map_of im f)) L)" using assms(2) by (simp add: distinct_map inj_on_def)
  moreover have "distinct (map (\<lambda>(f, d). (f, Some d)) (filter (\<lambda>x. fst x \<in> set L) im))"
    using assms(1) by (auto simp: distinct_map inj_on_def distinct_filter)
  moreover have "set (map (\<lambda>f. (f, map_of im f)) L) = set (map (\<lambda>(f, d). (f, Some d)) (filter (\<lambda>x. fst x \<in> set L) im))"
    using assms(1,3) by (force simp: image_iff)
  ultimately show ?thesis by (simp only: set_eq_iff_mset_eq_distinct)
qed


lemma mset_map_partition:
  "mset (map g (filter P l)) + mset (map g (filter (\<lambda>x. \<not> P x) l)) = mset (map g l)"
  by (induction l) auto

lemma format_complete:
  assumes "encoder_inv e"
  shows "mset (concat (map snd (format False e))) = mset (map (\<lambda>(f, d). (f, Some d)) (pce_images e))"
proof -
  let ?im = "pce_images e" and ?L = "folder_files e" and ?S = "\<lambda>(f, d). (f, Some d)"
  have i: "distinct (map fst ?im)" "distinct ?L" "set ?L \<subseteq> set (map fst ?im)" "''root'' \<notin> set (map fst (pce_folders e))"
    using assms by (auto simp: encoder_inv_def)
  let ?rest = "filter (\<lambda>x. fst x \<notin> set ?L) ?im"
  let ?res = "map (\<lambda>(k, fs). (k, map (\<lambda>f. (f, map_of ?im f)) fs)) (pce_folders e)"
  have "format False e = (if ?rest \<noteq> [] then js_set ?res ''root'' (map ?S ?rest) else ?res)"
    using format_folders_eq [of "pce_folders e" ?im] i(2)
    by (cases "pce_folders e = []") (simp_all add: format_def folder_files_def Let_def)
  moreover have "\<not> js_has ?res ''root''" using i(4) by (force simp: js_has_def)
  ultimately have "format False e = ?res @ (if ?rest \<noteq> [] then [(''root'', map ?S ?rest)] else [])"
    by (simp add: js_set_new)
  moreover have "mset (concat (map snd (A @ (if r \<noteq> [] then [(''root'', map ?S r)] else [])))) =
      mset (concat (map snd A)) + mset (map ?S r)" for A r by simp
  ultimately have "mset (concat (map snd (format False e))) = mset (concat (map snd ?res)) + mset (map ?S ?rest)"
    by (simp only:)
  also have "concat (map snd ?res) = map (\<lambda>f. (f, map_of ?im f)) ?L"
    by (simp add: folder_files_def map_concat comp_def case_prod_beta)
  also have "mset \<dots> + mset (map ?S ?rest) = mset (map ?S ?im)"
    unfolding listed_files [OF i(1-3)] by (rule mset_map_partition)
  finally show ?thesis .
qed

text \<open>
  After encoding images with distinct names into a new collection, the folder structure
  written out lists every image exactly once, with the data encoded for it.
\<close>

theorem format_lists_every_image:
  assumes "distinct (map fst xs)" and "\<forall>(n, p, f)\<in>set xs. f \<noteq> Some ''root''"
  shows "mset (concat (map snd (snd (encoder_data (encode_all xs (new_encoder cs)))))) =
      mset (map (\<lambda>(f, d). (f, Some d)) (pce_images (encode_all xs (new_encoder cs)))) \<and>
    map fst (pce_images (encode_all xs (new_encoder cs))) = map fst xs"
proof -
  have e: "encoder_inv (new_encoder cs)" "pce_images (new_encoder cs) = []"
    by (simp_all add: encoder_inv_def folder_files_def new_encoder_def)
  note r = encode_all_inv [OF e(1) assms(1) _ assms(2)]
  then show ?thesis using e(2) by (simp add: encoder_data_def format_complete)
qed

theorem format_lists_every_image_witness:
  "mset (concat (map snd (snd (encoder_data (encode_all
      [(''a'', demo_png, Some ''heads''), (''b'', demo_png, None)] (new_encoder [])))))) =
      mset (map (\<lambda>(f, d). (f, Some d)) (pce_images (encode_all
      [(''a'', demo_png, Some ''heads''), (''b'', demo_png, None)] (new_encoder [])))) \<and>
    map fst (pce_images (encode_all
      [(''a'', demo_png, Some ''heads''), (''b'', demo_png, None)] (new_encoder []))) = [''a'', ''b'']"
  using format_lists_every_image [of "[(''a'', demo_png, Some ''heads''), (''b'', demo_png, None)]" "[]"] by simp

text \<open>
  The shared palette stays well-formed and only grows at its end, however many images are
  encoded after a palette whose first colour is the transparent one: colour indexes never change.
\<close>

theorem palette_only_grows:
  assumes "distinct cs" and "cs = [] \<or> hd cs = []"
  shows "wf_palette (pce_colors (encode_all xs (new_encoder cs))) \<and>
    prefix (if cs = [] then [[]] else cs) (fst (encoder_data (encode_all xs (new_encoder cs))))"
  using encode_all_palette [of "new_encoder cs" xs] new_encoder_palette [OF assms]
  by (auto simp: encoder_data_def prefix_def)

theorem palette_only_grows_witness:
  "wf_palette (pce_colors (encode_all [(''a'', demo_png, None)] (new_encoder [[], ''ffffff'']))) \<and>
    prefix [[], ''ffffff''] (fst (encoder_data (encode_all [(''a'', demo_png, None)] (new_encoder [[], ''ffffff'']))))"
  using palette_only_grows [of "[[], ''ffffff'']" "[(''a'', demo_png, None)]"] by simp

end
