(* ===== verification/Webapp_Js.thy ===== *)
theory Webapp_Js
  imports Nouns_Prelude "HOL-Library.Multiset"
begin

text \<open>
  The parts of the JavaScript library that the web application relies on besides those of the
  prelude: \<open>Array.prototype.sort\<close> with a comparator, the comparison of strings with \<open>>\<close>,
  \<open>parseInt\<close>, and regular expressions. A regular expression is a matcher that lists, in the
  order in which the backtracking engine tries them, the ways to match a prefix of a text: the
  matched part and the rest. The first way in which the whole expression matches is the match.
\<close>

section \<open>Sorting\<close>

text \<open>
  Each element goes in front of the first one that the comparator puts after it. With a
  consistent comparator this is the stable sorted order that the language prescribes.
\<close>

fun js_insert :: "('a \<Rightarrow> 'a \<Rightarrow> int) \<Rightarrow> 'a \<Rightarrow> 'a list \<Rightarrow> 'a list" where
  "js_insert cmp x [] = [x]"
| "js_insert cmp x (y # ys) = (if cmp x y < 0 then x # y # ys else y # js_insert cmp x ys)"

definition js_sort :: "('a \<Rightarrow> 'a \<Rightarrow> int) \<Rightarrow> 'a list \<Rightarrow> 'a list" where
  "js_sort cmp xs = foldl (\<lambda>ys x. js_insert cmp x ys) [] xs"

lemma mset_js_insert [simp]: "mset (js_insert cmp x ys) = add_mset x (mset ys)"
  by (induction ys) auto

lemma mset_foldl_js_insert: "mset (foldl (\<lambda>ys x. js_insert cmp x ys) acc xs) = mset xs + mset acc"
  by (induction xs arbitrary: acc) auto

lemma mset_js_sort [simp]: "mset (js_sort cmp xs) = mset xs"
  by (simp add: js_sort_def mset_foldl_js_insert)

lemma set_js_sort [simp]: "set (js_sort cmp xs) = set xs"
  using mset_js_sort by (metis set_mset_mset)

lemma length_js_sort [simp]: "length (js_sort cmp xs) = length xs"
  using mset_js_sort by (metis size_mset)

lemma set_js_insert [simp]: "set (js_insert cmp x ys) = insert x (set ys)"
  by (induction ys) auto

text \<open>What a comparator must promise on the elements at hand for the order to be determined.\<close>

locale consistent_comparator =
  fixes cmp :: "'a \<Rightarrow> 'a \<Rightarrow> int"
    and A :: "'a set"
  assumes cmp_total: "x \<in> A \<Longrightarrow> y \<in> A \<Longrightarrow> x \<noteq> y \<Longrightarrow> \<not> cmp x y < 0 \<Longrightarrow> cmp y x \<le> 0"
    and cmp_trans: "x \<in> A \<Longrightarrow> y \<in> A \<Longrightarrow> z \<in> A \<Longrightarrow> cmp x y \<le> 0 \<Longrightarrow> cmp y z \<le> 0 \<Longrightarrow> cmp x z \<le> 0"
begin

lemma sorted_js_insert:
  "\<lbrakk>sorted_wrt (\<lambda>x y. cmp x y \<le> 0) ys; set ys \<subseteq> A; x \<in> A; x \<notin> set ys\<rbrakk> \<Longrightarrow>
   sorted_wrt (\<lambda>x y. cmp x y \<le> 0) (js_insert cmp x ys)"
proof (induction ys)
  case (Cons y ys)
  show ?case
  proof (cases "cmp x y < 0")
    case True
    have "cmp x z \<le> 0" if "z \<in> set ys" for z
      using cmp_trans [of x y z] Cons.prems True that by auto
    with True Cons.prems show ?thesis by auto
  next
    case False
    then have "cmp y x \<le> 0" using cmp_total [of x y] Cons.prems by auto
    with False Cons show ?thesis by auto
  qed
qed simp

lemma sorted_foldl_js_insert:
  "\<lbrakk>sorted_wrt (\<lambda>x y. cmp x y \<le> 0) acc; set acc \<subseteq> A; set xs \<subseteq> A; distinct xs;
    set xs \<inter> set acc = {}\<rbrakk> \<Longrightarrow>
   sorted_wrt (\<lambda>x y. cmp x y \<le> 0) (foldl (\<lambda>ys x. js_insert cmp x ys) acc xs)"
proof (induction xs arbitrary: acc)
  case (Cons x xs)
  have "sorted_wrt (\<lambda>x y. cmp x y \<le> 0) (js_insert cmp x acc)"
    using Cons.prems by (intro sorted_js_insert) auto
  then show ?case using Cons.prems by (auto intro!: Cons.IH)
qed simp

lemma sorted_js_sort:
  "set xs \<subseteq> A \<Longrightarrow> distinct xs \<Longrightarrow> sorted_wrt (\<lambda>x y. cmp x y \<le> 0) (js_sort cmp xs)"
  unfolding js_sort_def by (rule sorted_foldl_js_insert) auto

end

text \<open>Sorting by the difference of a number works for all lists, also with equal numbers.\<close>

lemma sorted_js_insert_key:
  fixes k :: "'a \<Rightarrow> int"
  assumes "sorted_wrt (\<lambda>x y. k x \<le> k y) ys"
  shows "sorted_wrt (\<lambda>x y. k x \<le> k y) (js_insert (\<lambda>a b. k a - k b) x ys)"
  using assms by (induction ys) auto

lemma sorted_js_sort_key:
  fixes k :: "'a \<Rightarrow> int"
  shows "sorted_wrt (\<lambda>x y. k x \<le> k y) (js_sort (\<lambda>a b. k a - k b) xs)"
proof -
  have "sorted_wrt (\<lambda>x y. k x \<le> k y) acc \<Longrightarrow>
      sorted_wrt (\<lambda>x y. k x \<le> k y) (foldl (\<lambda>ys x. js_insert (\<lambda>a b. k a - k b) x ys) acc xs)" for acc
    by (induction xs arbitrary: acc) (auto intro: sorted_js_insert_key)
  then show ?thesis by (simp add: js_sort_def)
qed

lemma sorted_js_sort_key_desc:
  fixes k :: "'a \<Rightarrow> int"
  shows "sorted_wrt (\<lambda>x y. k y \<le> k x) (js_sort (\<lambda>a b. k b - k a) xs)"
  using sorted_js_sort_key [of "\<lambda>x. - k x" xs] by simp

section \<open>Comparing and reading strings\<close>

text \<open>\<open>s < t\<close> on strings: by code units, a proper prefix comes first.\<close>

fun js_str_less :: "string \<Rightarrow> string \<Rightarrow> bool" where
  "js_str_less s [] = False"
| "js_str_less [] (c # cs) = True"
| "js_str_less (a # s) (b # t) = ((of_char a :: nat) < of_char b \<or> a = b \<and> js_str_less s t)"

text \<open>
  \<open>parseInt(s)\<close>: white space, a sign, then the longest run of decimal digits; \<open>NaN\<close> (\<open>None\<close>)
  when there is none. A prefix \<open>0x\<close>, which \<open>parseInt\<close> would read in base 16, does not occur in
  the decimal numbers it is applied to.
\<close>

definition is_decimal :: "char \<Rightarrow> bool" where
  "is_decimal c = (case digit_val c of None \<Rightarrow> False | Some d \<Rightarrow> d < 10)"

definition parseInt :: "string \<Rightarrow> int option" where
  "parseInt s =
     (case dropWhile is_space s of
        [] \<Rightarrow> None
      | c # cs \<Rightarrow>
          if c = CHR ''-'' then map_option (\<lambda>n. - int n) (of_base 10 (takeWhile is_decimal cs))
          else if c = CHR ''+'' then map_option int (of_base 10 (takeWhile is_decimal cs))
          else map_option int (of_base 10 (takeWhile is_decimal (c # cs))))"

lemma digit_not_space: "d < 10 \<Longrightarrow> \<not> is_space (digit_char d)"
  using digit_val_char [of d] by (auto simp: is_space_def digit_val_def)

lemma digit_char_not_plus: "n < 36 \<Longrightarrow> digit_char n \<noteq> CHR ''+''"
  using digit_val_char [of n] by (auto simp: digit_val_def)

lemma to_base_all_decimal: "\<forall>c\<in>set (to_base 10 n). is_decimal c"
proof -
  have "foldl (of_base_step 10) (Some 0) (to_base 10 n) = Some n"
    using foldl_to_base [of 10 0 n] by simp
  from of_base_digits [OF this] show ?thesis by (auto simp: is_decimal_def)
qed

lemma takeWhile_to_base [simp]: "takeWhile is_decimal (to_base 10 n) = to_base 10 n"
  using to_base_all_decimal by (simp add: takeWhile_eq_all_conv)

lemma dropWhile_space_to_base [simp]: "dropWhile is_space (to_base 10 n) = to_base 10 n"
proof (cases "to_base 10 n")
  case (Cons c cs)
  obtain d where "d < 10" "hd (to_base 10 n) = digit_char d"
    using hd_to_base_digit [of 10 n] by auto
  with Cons show ?thesis using digit_not_space by auto
qed simp

text \<open>Reading back a printed number.\<close>

lemma parseInt_int_to_string [simp]: "parseInt (int_to_string i) = Some i"
proof (cases "i < 0")
  case True
  have "\<not> is_space (CHR ''-'')" by (simp add: is_space_def)
  with True show ?thesis by (simp add: parseInt_def int_to_string_def of_base_to_base)
next
  case False
  obtain c cs where eq: "to_base 10 (nat i) = c # cs"
    using to_base_nonempty by (meson neq_Nil_conv)
  obtain d where d: "d < 10" "hd (to_base 10 (nat i)) = digit_char d"
    using hd_to_base_digit [of 10 "nat i"] by auto
  with eq have "c \<noteq> CHR ''-''" "c \<noteq> CHR ''+''"
    using digit_char_not_minus [of d] digit_char_not_plus [of d] by auto
  moreover have "dropWhile is_space (c # cs) = c # cs" "takeWhile is_decimal (c # cs) = c # cs"
    using dropWhile_space_to_base [of "nat i"] takeWhile_to_base [of "nat i"] eq by auto
  moreover have "of_base 10 (c # cs) = Some (nat i)"
    using of_base_to_base [of 10 "nat i"] eq by simp
  ultimately show ?thesis
    using False eq by (simp add: parseInt_def int_to_string_def)
qed

interpretation parseInt_codec: codec int_to_string parseInt "\<lambda>_. True"
  by unfold_locales simp

section \<open>Regular expressions\<close>

type_synonym matches = "(string \<times> string) list"

text \<open>A class of characters, repeated at least \<open>lo\<close> and at most \<open>hi\<close> times: greedy and lazy.\<close>

definition rx_lengths :: "(char \<Rightarrow> bool) \<Rightarrow> nat \<Rightarrow> nat option \<Rightarrow> string \<Rightarrow> nat list" where
  "rx_lengths p lo hi s =
     (let k = length (takeWhile p s)
      in [lo..<Suc (case hi of None \<Rightarrow> k | Some h \<Rightarrow> min h k)])"

definition rx_greedy :: "(char \<Rightarrow> bool) \<Rightarrow> nat \<Rightarrow> nat option \<Rightarrow> string \<Rightarrow> matches" where
  "rx_greedy p lo hi s = map (\<lambda>i. (take i s, drop i s)) (rev (rx_lengths p lo hi s))"

definition rx_lazy :: "(char \<Rightarrow> bool) \<Rightarrow> nat \<Rightarrow> nat option \<Rightarrow> string \<Rightarrow> matches" where
  "rx_lazy p lo hi s = map (\<lambda>i. (take i s, drop i s)) (rx_lengths p lo hi s)"

definition rx_lit :: "string \<Rightarrow> string \<Rightarrow> matches" where
  "rx_lit w s = (if prefix w s then [(w, drop (length w) s)] else [])"

definition first_match :: "'a list \<Rightarrow> 'a option" where
  "first_match ms = (case ms of [] \<Rightarrow> None | m # _ \<Rightarrow> Some m)"

text \<open>
  \<open>replace(/re/g, \<dots>)\<close>: from left to right, each match becomes its replacement and the search
  goes on behind it. The matcher gives the replacement and the rest; it never matches the empty
  text.
\<close>

function rx_replace :: "(string \<Rightarrow> (string \<times> string) option) \<Rightarrow> string \<Rightarrow> string" where
  "rx_replace m [] = []"
| "rx_replace m (c # cs) =
     (case m (c # cs) of
        None \<Rightarrow> c # rx_replace m cs
      | Some (r, rest) \<Rightarrow> if length rest \<le> length cs then r @ rx_replace m rest else c # rx_replace m cs)"
  by pat_completeness auto
termination by (relation "measure (length \<circ> snd)") auto

lemma rx_replace_no_match: "(\<And>t. suffix t s \<Longrightarrow> m t = None) \<Longrightarrow> rx_replace m s = s"
  by (induction s) (auto simp: suffix_Cons)

lemma mem_rx_greedy:
  "(u, v) \<in> set (rx_greedy p lo hi s) \<Longrightarrow> u @ v = s \<and> list_all p u \<and> lo \<le> length u"
proof -
  assume "(u, v) \<in> set (rx_greedy p lo hi s)"
  then obtain i where i: "i \<in> set (rx_lengths p lo hi s)" "u = take i s" "v = drop i s"
    by (auto simp: rx_greedy_def)
  then have le: "lo \<le> i" "i \<le> length (takeWhile p s)"
    by (auto simp: rx_lengths_def Let_def split: option.splits)
  then have "take i s = take i (takeWhile p s)"
    by (metis takeWhile_dropWhile_id take_append take_all_iff diff_is_0_eq take_0 append_Nil2)
  then have "list_all p u" using i le
    by (auto simp: list_all_iff dest!: in_set_takeD set_takeWhileD)
  moreover have "length u = i" using i le length_takeWhile_le [of p s] by simp
  ultimately show ?thesis using i le by simp
qed

lemma rx_greedy_first:
  assumes "list_all p u" "v = [] \<or> \<not> p (hd v)" "lo \<le> length u"
    "case hi of None \<Rightarrow> True | Some h \<Rightarrow> length u \<le> h"
  shows "\<exists>ms. rx_greedy p lo hi (u @ v) = (u, v) # ms"
proof -
  have t: "takeWhile p (u @ v) = u"
    using assms(1,2) by (cases v) (auto simp: takeWhile_append list_all_iff)
  have "rx_lengths p lo hi (u @ v) = [lo..<length u] @ [length u]"
    using assms(3,4) by (auto simp: rx_lengths_def t Let_def min_absorb2 split: option.splits)
  then show ?thesis by (simp add: rx_greedy_def)
qed

lemma first_match_Cons: "first_match (m # ms) = Some m"
  by (simp add: first_match_def)

lemma first_match_append: "ms \<noteq> [] \<Longrightarrow> first_match (ms @ ns) = first_match ms"
  by (cases ms) (auto simp: first_match_def)

section \<open>Splitting at a character\<close>

lemma replaceAll_absent: "pat \<noteq> [] \<Longrightarrow> \<not> sublist pat s \<Longrightarrow> js_replaceAll pat rep s = s"
  by (simp add: js_replaceAll_def js_split_no_sep)

lemma split_go_char_acc:
  "c \<notin> set u \<Longrightarrow> split_go [c] acc (u @ c # v) = (acc @ u) # split_go [c] [] v"
  by (induction u arbitrary: acc) auto

lemma js_split_first: "c \<notin> set u \<Longrightarrow> js_split [c] (u @ c # v) = u # js_split [c] v"
  by (simp add: js_split_def split_go_char_acc)

lemma js_trim_space_pad:
  assumes "t \<noteq> []" "\<not> is_space (hd t)" "\<not> is_space (last t)"
  shows "js_trim (CHR '' '' # t) = t"
proof -
  have "dropWhile is_space t = t" "dropWhile is_space (rev t) = rev t"
    using assms by (cases t, auto) (cases "rev t", auto simp: hd_rev [symmetric])
  moreover have "is_space (CHR '' '')" by (simp add: is_space_def)
  ultimately show ?thesis by (simp add: js_trim_def)
qed


lemma split_go_acc: "split_go [c] acc s = (acc @ hd (split_go [c] [] s)) # tl (split_go [c] [] s)"
proof (induction s arbitrary: acc)
  case (Cons x s)
  show ?case
  proof (cases "x = c")
    case False
    have "split_go [c] acc (x # s) = split_go [c] (acc @ [x]) s"
         "split_go [c] [] (x # s) = split_go [c] [x] s" using False by auto
    with Cons.IH [of "acc @ [x]"] Cons.IH [of "[x]"] show ?thesis by simp
  qed simp
qed simp

lemma split_go_absent: "c \<notin> set u \<Longrightarrow> split_go [c] acc (u @ v) = split_go [c] (acc @ u) v"
  by (induction u arbitrary: acc) auto

lemma js_split_absent_prefix:
  "c \<notin> set u \<Longrightarrow> js_split [c] (u @ v) = (u @ hd (js_split [c] v)) # tl (js_split [c] v)"
  using split_go_acc [of c u v] by (simp add: js_split_def split_go_absent)

section \<open>Mapping a function that may fail\<close>

lemma those_map_total:
  "(\<And>i. i < n \<Longrightarrow> \<exists>x. f i = Some x) \<Longrightarrow> \<exists>xs. those (map f [0..<n]) = Some xs \<and> length xs = n \<and>
     (\<forall>i<n. f i = Some (xs ! i))"
proof (induction n)
  case (Suc n)
  then obtain xs where xs: "those (map f [0..<n]) = Some xs" "length xs = n" "\<forall>i<n. f i = Some (xs ! i)"
    by (metis less_SucI)
  obtain x where x: "f n = Some x" using Suc.prems by auto
  have snoc: "those (as @ [Some b]) = map_option (\<lambda>ys. ys @ [b]) (those as)" for as :: "'a option list" and b
    by (induction as) (auto split: option.splits simp: option.map_comp o_def)
  show ?case using xs x snoc [of "map f [0..<n]" x] by (auto simp: nth_append less_Suc_eq)
qed simp

end
