(* ===== verification/Assets_Seed.thy ===== *)
theory Assets_Seed
  imports Webapp_Js
begin

text \<open>
  Noun seeds (\<open>packages/nouns-assets/src/utils.ts\<close>): the parts of a seed, a random seed, and the
  seed of a Noun from a block hash, which emulates the contract \<open>NounsSeeder.sol\<close>. The image
  data is a parameter. Of the ethers library the code uses the hash and two conversions of big
  numbers; the conversions are an interface with the behaviour the library documents.
\<close>

section \<open>Types\<close>

record NounSeed =
  ns_background :: nat
  ns_body :: nat
  ns_accessory :: nat
  ns_head :: nat
  ns_glasses :: nat

text \<open>\<open>image-data.json\<close>: the colours and the parts, each a file name and its data.\<close>

record image_data =
  im_bgcolors :: "string list"
  im_bodies :: "(string \<times> string) list"
  im_accessories :: "(string \<times> string) list"
  im_heads :: "(string \<times> string) list"
  im_glasses :: "(string \<times> string) list"

record NounData =
  nd_parts :: "(string \<times> string) option list"
  nd_background :: "string option"

record bignumber =
  bn_from :: "string \<Rightarrow> nat option"
  bn_toHexString :: "nat \<Rightarrow> string"

section \<open>Parts\<close>

definition at_index :: "'a list \<Rightarrow> nat \<Rightarrow> 'a option" where
  "at_index xs i = (if i < length xs then Some (xs ! i) else None)"

definition getNounData :: "image_data \<Rightarrow> NounSeed \<Rightarrow> NounData" where
  "getNounData im seed =
     \<lparr>nd_parts = [at_index (im_bodies im) (ns_body seed), at_index (im_accessories im) (ns_accessory seed),
        at_index (im_heads im) (ns_head seed), at_index (im_glasses im) (ns_glasses seed)],
      nd_background = at_index (im_bgcolors im) (ns_background seed)\<rparr>"

text \<open>\<open>images[partType][partIndex].data\<close>; an unknown type or index throws.\<close>

definition part_list :: "image_data \<Rightarrow> string \<Rightarrow> (string \<times> string) list option" where
  "part_list im partType = map_of [(''bodies'', im_bodies im), (''accessories'', im_accessories im),
     (''heads'', im_heads im), (''glasses'', im_glasses im)] partType"

definition getPartData :: "image_data \<Rightarrow> string \<Rightarrow> nat \<Rightarrow> string option" where
  "getPartData im partType partIndex =
     do { parts \<leftarrow> part_list im partType; part \<leftarrow> at_index parts partIndex; Some (snd part) }"

text \<open>\<open>Math.floor(Math.random() * n)\<close>, where a random number is one of the fractions
  \<open>k / 2\<^sup>5\<^sup>3\<close> below one.\<close>

definition random_index :: "nat \<Rightarrow> nat \<Rightarrow> nat" where
  "random_index k n = k * n div 2 ^ 53"

definition getRandomNounSeed :: "image_data \<Rightarrow> (nat \<Rightarrow> nat) \<Rightarrow> NounSeed" where
  "getRandomNounSeed im random =
     \<lparr>ns_background = random_index (random 0) (length (im_bgcolors im)),
      ns_body = random_index (random 1) (length (im_bodies im)),
      ns_accessory = random_index (random 2) (length (im_accessories im)),
      ns_head = random_index (random 3) (length (im_heads im)),
      ns_glasses = random_index (random 4) (length (im_glasses im))\<rparr>"

section \<open>Seeds from block hashes\<close>

definition shiftRightAndCast :: "bignumber \<Rightarrow> string \<Rightarrow> nat \<Rightarrow> nat \<Rightarrow> string option" where
  "shiftRightAndCast bn val shiftAmount uintSize =
     do {
       n \<leftarrow> bn_from bn val;
       let shifted = bn_toHexString bn (n div 2 ^ shiftAmount);
       Some (''0x'' @ js_substring_from shifted (int (length shifted) - int (uintSize div 4)))
     }"

definition getPseudorandomPart :: "bignumber \<Rightarrow> string \<Rightarrow> nat \<Rightarrow> nat \<Rightarrow> nat \<Rightarrow> nat option" where
  "getPseudorandomPart bn pseudorandomness partCount shiftAmount uintSize =
     do {
       hex \<leftarrow> shiftRightAndCast bn pseudorandomness shiftAmount uintSize;
       n \<leftarrow> bn_from bn hex;
       if partCount = 0 then None else Some (n mod partCount)
     }"

definition getNounSeedFromBlockHash ::
  "bignumber \<Rightarrow> (string \<Rightarrow> nat \<Rightarrow> string) \<Rightarrow> image_data \<Rightarrow> nat \<Rightarrow> string \<Rightarrow> NounSeed option" where
  "getNounSeedFromBlockHash bn keccak im nounId blockHash =
     (let pseudorandomness = keccak blockHash nounId
      in do {
        background \<leftarrow> getPseudorandomPart bn pseudorandomness (length (im_bgcolors im)) 0 48;
        body \<leftarrow> getPseudorandomPart bn pseudorandomness (length (im_bodies im)) 48 48;
        accessory \<leftarrow> getPseudorandomPart bn pseudorandomness (length (im_accessories im)) 96 48;
        head \<leftarrow> getPseudorandomPart bn pseudorandomness (length (im_heads im)) 144 48;
        glasses \<leftarrow> getPseudorandomPart bn pseudorandomness (length (im_glasses im)) 192 48;
        Some \<lparr>ns_background = background, ns_body = body, ns_accessory = accessory, ns_head = head,
              ns_glasses = glasses\<rparr>
      })"

text \<open>\<open>generateSeed\<close> of the contract: casts to 48 bits cut, then reduce by the number of parts.\<close>

definition seeder_part :: "256 word \<Rightarrow> nat \<Rightarrow> nat \<Rightarrow> nat" where
  "seeder_part pseudorandomness shiftAmount partCount =
     unat (ucast (drop_bit shiftAmount pseudorandomness) :: 48 word) mod partCount"

definition generateSeed :: "256 word \<Rightarrow> image_data \<Rightarrow> NounSeed" where
  "generateSeed pseudorandomness im =
     \<lparr>ns_background = seeder_part pseudorandomness 0 (length (im_bgcolors im)),
      ns_body = seeder_part pseudorandomness 48 (length (im_bodies im)),
      ns_accessory = seeder_part pseudorandomness 96 (length (im_accessories im)),
      ns_head = seeder_part pseudorandomness 144 (length (im_heads im)),
      ns_glasses = seeder_part pseudorandomness 192 (length (im_glasses im))\<rparr>"

section \<open>Big numbers\<close>

definition even_hex :: "nat \<Rightarrow> string" where
  "even_hex n = (if odd (length (to_base 16 n)) then ''0'' else []) @ to_base 16 n"

lemma of_base_step_simps:
  "of_base_step b None c = None"
  "of_base_step b (Some a) c = (case digit_val c of None \<Rightarrow> None | Some d \<Rightarrow> if d < b then Some (a * b + d) else None)"
  by (simp_all add: of_base_step_def)

lemma foldl_of_base_shift:
  "foldl (of_base_step b) (Some a) v = map_option (\<lambda>r. a * b ^ length v + r) (foldl (of_base_step b) (Some 0) v)"
proof (induction v rule: rev_induct)
  case (snoc c v)
  show ?case
  proof (cases "foldl (of_base_step b) (Some 0) v")
    case None
    then show ?thesis using snoc by (simp add: of_base_step_simps)
  next
    case (Some r)
    then show ?thesis using snoc
      by (auto simp: of_base_step_simps algebra_simps split: option.splits)
  qed
qed simp

lemma foldl_of_base_less: "foldl (of_base_step b) (Some 0) v = Some r \<Longrightarrow> 0 < b \<Longrightarrow> r < b ^ length v"
proof (induction v arbitrary: r rule: rev_induct)
  case (snoc c v)
  then obtain q d where q: "foldl (of_base_step b) (Some 0) v = Some q" "d < b" "r = q * b + d"
    by (cases "foldl (of_base_step b) (Some 0) v") (auto simp: of_base_step_simps split: option.splits if_splits)
  with snoc have "q < b ^ length v" by simp
  then have "(q + 1) * b \<le> b ^ length v * b" by (intro mult_right_mono) auto
  then have "q * b + d < b ^ length v * b" using q(2) by simp
  then show ?case using q(3) by (simp add: mult.commute)
qed simp

text \<open>The last digits of a numeral denote the number reduced by a power of the base.\<close>

lemma of_base_suffix:
  assumes "of_base b (u @ v) = Some n" "v \<noteq> []" "0 < b"
  shows "of_base b v = Some (n mod b ^ length v)"
proof -
  have f: "foldl (of_base_step b) (foldl (of_base_step b) (Some 0) u) v = Some n"
    using assms(1,2) by (simp add: of_base_def)
  obtain a where a: "foldl (of_base_step b) (Some 0) u = Some a"
    using f by (cases "foldl (of_base_step b) (Some 0) u") auto
  then obtain r where r: "foldl (of_base_step b) (Some 0) v = Some r" "n = a * b ^ length v + r"
    using f foldl_of_base_shift [of b a v] by auto
  with foldl_of_base_less [OF r(1) assms(3)] assms(2) show ?thesis by (simp add: of_base_def)
qed

lemma of_base_even_hex: "of_base 16 (even_hex n) = Some n"
  using foldl_of_base_zeros [of 16 1 "to_base 16 n"] foldl_to_base [of 16 0 n]
  by (auto simp: even_hex_def of_base_def)

lemma length_even_hex_ge: "2 ^ 40 \<le> n \<Longrightarrow> 12 \<le> length (even_hex n)"
proof (rule ccontr)
  assume n: "2 ^ 40 \<le> n" and "\<not> 12 \<le> length (even_hex n)"
  moreover have "even (length (even_hex n))" by (simp add: even_hex_def)
  ultimately have "length (to_base 16 n) \<le> 10"
    by (auto simp: even_hex_def split: if_splits elim!: evenE oddE)
  moreover have "n < 16 ^ length (to_base 16 n)"
    using foldl_of_base_less [of 16 "to_base 16 n" n] foldl_to_base [of 16 0 n] by simp
  ultimately have "n < 16 ^ 10"
    by (meson less_le_trans one_le_numeral power_increasing)
  with n show False by simp
qed

lemma length_even_hex_le:
  assumes "n < 2 ^ 40"
  shows "length (even_hex n) \<le> 10"
proof -
  have "length (to_base 16 n) \<le> 10" using assms by (intro length_to_base_le) auto
  then show ?thesis by (cases "length (to_base 16 n) = 10") (auto simp: even_hex_def)
qed

text \<open>What the library promises: whole bytes in hexadecimal, and reading of hexadecimal digits.\<close>

locale ethers_bignumber =
  fixes bn :: bignumber
  assumes toHexString_spec: "bn_toHexString bn n = ''0x'' @ even_hex n"
    and from_spec: "bn_from bn (''0x'' @ ds) = of_base 16 ds"
begin

lemma cast_large:
  assumes "bn_from bn val = Some n" "2 ^ 40 \<le> n div 2 ^ s"
  shows "Option.bind (shiftRightAndCast bn val s 48) (bn_from bn) = Some (n div 2 ^ s mod 2 ^ 48)"
proof -
  let ?e = "even_hex (n div 2 ^ s)"
  let ?k = "length ?e - 12"
  have len: "12 \<le> length ?e" using assms(2) by (rule length_even_hex_ge)
  have "js_substring_from (''0x'' @ ?e) (int (length (''0x'' @ ?e)) - 12) = drop ?k ?e"
    using len by (simp add: js_substring_from_def clamp_index_def nat_diff_distrib drop_Cons' Suc_diff_le)
  then have "shiftRightAndCast bn val s 48 = Some (''0x'' @ drop ?k ?e)"
    using assms(1) by (simp add: shiftRightAndCast_def toHexString_spec)
  moreover have "of_base 16 (drop ?k ?e) = Some (n div 2 ^ s mod 16 ^ length (drop ?k ?e))"
    using len of_base_even_hex [of "n div 2 ^ s"]
    by (intro of_base_suffix [of 16 "take ?k ?e"]) auto
  ultimately show ?thesis using len from_spec [of "drop ?k ?e"] by simp
qed

lemma cast_small:
  assumes "bn_from bn val = Some n" "n div 2 ^ s < 2 ^ 40"
  shows "Option.bind (shiftRightAndCast bn val s 48) (bn_from bn) = None"
proof -
  let ?e = "even_hex (n div 2 ^ s)"
  have "length ?e \<le> 10" using assms(2) by (rule length_even_hex_le)
  then have "js_substring_from (''0x'' @ ?e) (int (length (''0x'' @ ?e)) - 12) = ''0x'' @ ?e"
    by (simp add: js_substring_from_def clamp_index_def)
  then have "shiftRightAndCast bn val s 48 = Some (''0x'' @ ''0x'' @ ?e)"
    using assms(1) by (simp add: shiftRightAndCast_def toHexString_spec)
  moreover have "of_base 16 (''0x'' @ ?e) = None"
    by (simp add: of_base_def of_base_step_simps digit_val_def)
  ultimately show ?thesis using from_spec [of "''0x'' @ ?e"] by simp
qed

lemma part_eq:
  "getPseudorandomPart bn val partCount s 48 =
     Option.bind (Option.bind (shiftRightAndCast bn val s 48) (bn_from bn))
       (\<lambda>n. if partCount = 0 then None else Some (n mod partCount))"
  by (cases "shiftRightAndCast bn val s 48") (simp_all add: getPseudorandomPart_def)

lemma part_large:
  "bn_from bn val = Some n \<Longrightarrow> 2 ^ 40 \<le> n div 2 ^ s \<Longrightarrow> 0 < partCount \<Longrightarrow>
   getPseudorandomPart bn val partCount s 48 = Some (n div 2 ^ s mod 2 ^ 48 mod partCount)"
  by (simp add: part_eq cast_large del: bind_eq_Some_iff)

lemma part_small:
  "bn_from bn val = Some n \<Longrightarrow> n div 2 ^ s < 2 ^ 40 \<Longrightarrow> getPseudorandomPart bn val partCount s 48 = None"
  by (simp add: part_eq cast_small del: bind_eq_Some_iff)

end

lemma seeder_part_eq: "seeder_part w s k = unat w div 2 ^ s mod 2 ^ 48 mod k"
proof -
  have "unat (drop_bit s w) = unat w div 2 ^ s" 
    by (subst unat_drop_bit_eq) (simp only: drop_bit_nat_def nat_int drop_bit_eq_div)
  then show ?thesis by (simp add: seeder_part_def unsigned_ucast_eq take_bit_eq_mod)
qed

lemma shift_mono: "2 ^ 40 \<le> (n :: nat) div 2 ^ 192 \<Longrightarrow> s \<le> 192 \<Longrightarrow> 2 ^ 40 \<le> n div 2 ^ s"
proof -
  assume a: "2 ^ 40 \<le> n div 2 ^ 192" and s: "s \<le> 192"
  have "(2 :: nat) ^ s \<le> 2 ^ 192" using s by (rule power_increasing) simp
  then have "n div 2 ^ 192 \<le> n div 2 ^ s" by (rule div_le_mono2 [rotated]) simp
  with a show ?thesis by (rule le_trans)
qed

definition has_all_parts :: "image_data \<Rightarrow> bool" where
  "has_all_parts im \<longleftrightarrow> im_bgcolors im \<noteq> [] \<and> im_bodies im \<noteq> [] \<and> im_accessories im \<noteq> [] \<and>
     im_heads im \<noteq> [] \<and> im_glasses im \<noteq> []"

text \<open>The library's conversions, as documented.\<close>

definition ethers_bn :: bignumber where
  "ethers_bn = \<lparr>bn_from = (\<lambda>s. if prefix ''0x'' s then of_base 16 (drop 2 s) else of_base 10 s),
     bn_toHexString = (\<lambda>n. ''0x'' @ even_hex n)\<rparr>"

interpretation ethers: ethers_bignumber ethers_bn
  by unfold_locales (simp_all add: ethers_bn_def)

text \<open>
  C1: For every hash the seed computed off chain is the seed the contract computes, with the casts
  to 48 bits, and all its parts exist; except that the computation throws when the top 64 bits of
  the hash are below \<open>2\<^sup>4\<^sup>0\<close>, because the cast then keeps the prefix of the hexadecimal text.
\<close>

theorem seed_matches_seeder:
  assumes "ethers_bignumber bn" and "bn_from bn (keccak blockHash nounId) = Some (unat w)"
    and "has_all_parts im"
  shows "getNounSeedFromBlockHash bn keccak im nounId blockHash =
      (if 2 ^ 40 \<le> unat w div 2 ^ 192 then Some (generateSeed w im) else None) \<and>
    None \<notin> set (nd_parts (getNounData im (generateSeed w im))) \<and>
    nd_background (getNounData im (generateSeed w im)) \<noteq> None"
proof -
  note small = ethers_bignumber.part_small [OF assms(1,2)]
  note large = ethers_bignumber.part_large [OF assms(1,2)]
  have pos: "0 < length (im_bgcolors im)" "0 < length (im_bodies im)" "0 < length (im_accessories im)"
      "0 < length (im_heads im)" "0 < length (im_glasses im)"
    using assms(3) by (auto simp: has_all_parts_def)
  have "getNounSeedFromBlockHash bn keccak im nounId blockHash =
      (if 2 ^ 40 \<le> unat w div 2 ^ 192 then Some (generateSeed w im) else None)"
  proof (cases "2 ^ 40 \<le> unat w div 2 ^ 192")
    case True
    note big = shift_mono [OF True]
    show ?thesis
      using True large [OF big [of 0] pos(1)] large [OF big [of 48] pos(2)] large [OF big [of 96] pos(3)]
        large [OF big [of 144] pos(4)] large [OF big [of 192] pos(5)]
      by (simp add: getNounSeedFromBlockHash_def generateSeed_def seeder_part_eq del: bind_eq_Some_iff)
  next
    case False
    then have "getPseudorandomPart bn (keccak blockHash nounId) (length (im_glasses im)) 192 48 = None"
      by (intro small) simp
    then have "getNounSeedFromBlockHash bn keccak im nounId blockHash \<noteq> Some x" for x
      by (auto simp: getNounSeedFromBlockHash_def)
    then have "getNounSeedFromBlockHash bn keccak im nounId blockHash = None" by (meson not_Some_eq)
    with False show ?thesis by simp
  qed
  moreover have "None \<notin> set (nd_parts (getNounData im (generateSeed w im)))"
      "nd_background (getNounData im (generateSeed w im)) \<noteq> None"
    using pos by (simp_all add: getNounData_def generateSeed_def at_index_def seeder_part_def)
  ultimately show ?thesis by simp
qed

definition demo_images :: image_data where
  "demo_images = \<lparr>im_bgcolors = [''d5d7e1'', ''e1d7d5''], im_bodies = [(''b'', ''0x'')], im_accessories = [(''a'', ''0x'')],
     im_heads = [(''h'', ''0x'')], im_glasses = [(''g'', ''0x'')]\<rparr>"

theorem seed_matches_seeder_witness:
  "getNounSeedFromBlockHash ethers_bn (\<lambda>_ _. ''0x'' @ to_base 16 (2 ^ 255 + 1)) demo_images 7 ''0x00'' =
     Some \<lparr>ns_background = 1, ns_body = 0, ns_accessory = 0, ns_head = 0, ns_glasses = 0\<rparr>"
proof -
  define w :: "256 word" where "w = word_of_nat (2 ^ 255 + 1)"
  have w: "unat w = 2 ^ 255 + 1" by (simp add: w_def unsigned_of_nat take_bit_eq_mod)
  have "bn_from ethers_bn ((\<lambda>(_ :: string) (_ :: nat). ''0x'' @ to_base 16 (2 ^ 255 + 1)) ''0x00'' 7) = Some (unat w)"
    using of_base_to_base [of 16 "2 ^ 255 + 1"] unfolding w by (simp add: ethers_bn_def)
  moreover have "has_all_parts demo_images" by (simp add: has_all_parts_def demo_images_def)
  ultimately have "getNounSeedFromBlockHash ethers_bn (\<lambda>_ _. ''0x'' @ to_base 16 (2 ^ 255 + 1)) demo_images 7 ''0x00'' =
      (if 2 ^ 40 \<le> unat w div 2 ^ 192 then Some (generateSeed w demo_images) else None)"
    by (rule seed_matches_seeder [OF ethers.ethers_bignumber_axioms,
          where keccak = "\<lambda>_ _. ''0x'' @ to_base 16 (2 ^ 255 + 1)", THEN conjunct1])
  moreover have "(2 :: nat) ^ 40 \<le> unat w div 2 ^ 192" unfolding w by simp
  moreover have "generateSeed w demo_images =
      \<lparr>ns_background = 1, ns_body = 0, ns_accessory = 0, ns_head = 0, ns_glasses = 0\<rparr>"
    unfolding generateSeed_def seeder_part_eq w by (simp add: demo_images_def)
  ultimately show ?thesis by simp
qed

end
