(* ===== verification/Webapp_Text.thy ===== *)
theory Webapp_Text
  imports Webapp_Js Subgraph_Proposal
begin

text \<open>
  The text functions of the web application (\<open>packages/nouns-webapp/src/wrappers/nounsDao.ts\<close>):
  the title of a proposal description, the removal of markdown emphasis, and the two repairs of
  links. A text may be \<open>undefined\<close> or \<open>null\<close>, which is \<^const>\<open>None\<close>.
\<close>

section \<open>Titles\<close>

abbreviation not_newline :: "char \<Rightarrow> bool" where
  "not_newline c \<equiv> c \<noteq> CHR 0x0A"

text \<open>\<open>/^\s*#{1,6}\s+([^\n]+)/\<close>, with the text of the group.\<close>

definition hash_matches :: "string \<Rightarrow> string list" where
  "hash_matches body =
     [title. (_, r1) \<leftarrow> rx_greedy is_space 0 None body,
             (_, r2) \<leftarrow> rx_greedy (\<lambda>c. c = CHR ''#'') 1 (Some 6) r1,
             (_, r3) \<leftarrow> rx_greedy is_space 1 None r2,
             (title, _) \<leftarrow> rx_greedy not_newline 1 None r3]"

text \<open>\<open>/^\s*([^\n]+)\n(={3,25}|-{3,25})/\<close>, with the text of the first group.\<close>

definition equal_matches :: "string \<Rightarrow> string list" where
  "equal_matches body =
     [title. (_, r1) \<leftarrow> rx_greedy is_space 0 None body,
             (title, r2) \<leftarrow> rx_greedy not_newline 1 None r1,
             (_, r3) \<leftarrow> rx_lit newline r2,
             _ \<leftarrow> rx_greedy (\<lambda>c. c = CHR ''='') 3 (Some 25) r3 @
                  rx_greedy (\<lambda>c. c = CHR ''-'') 3 (Some 25) r3]"

definition extractHashTitle :: "string \<Rightarrow> string option" where
  "extractHashTitle body = first_match (hash_matches body)"

definition extractEqualTitle :: "string \<Rightarrow> string option" where
  "extractEqualTitle body = first_match (equal_matches body)"

definition extractTitle_web :: "string option \<Rightarrow> string option" where
  "extractTitle_web body =
     (case body of
        None \<Rightarrow> None
      | Some b \<Rightarrow>
          if b = [] then None
          else (case extractHashTitle b of Some t \<Rightarrow> Some t | None \<Rightarrow> extractEqualTitle b))"

definition removeBold :: "string option \<Rightarrow> string option" where
  "removeBold = map_option (js_replaceAll ''**'' [])"

definition removeItalics :: "string option \<Rightarrow> string option" where
  "removeItalics = map_option (js_replaceAll ''__'' [])"

definition removeMarkdownStyle :: "string option \<Rightarrow> string option" where
  "removeMarkdownStyle t = removeBold (removeItalics t)"

text \<open>The title shown for a description: \<open>R.pipe(extractTitle, removeMarkdownStyle)(d) ?? 'Untitled'\<close>.\<close>

definition display_title :: "string option \<Rightarrow> string" where
  "display_title description =
     (case removeMarkdownStyle (extractTitle_web description) of None \<Rightarrow> ''Untitled'' | Some t \<Rightarrow> t)"

section \<open>Links\<close>

text \<open>\<open>/\[(.*?)\]\(((?!https?:\/\/|#)[^)]+)\)/g\<close> and its replacement \<open>[$1](https://$2)\<close>.\<close>

definition has_scheme :: "string \<Rightarrow> bool" where
  "has_scheme s = (prefix ''http://'' s \<or> prefix ''https://'' s \<or> prefix ''#'' s)"

definition line_char :: "char \<Rightarrow> bool" where
  "line_char c = (c \<noteq> CHR 0x0A \<and> c \<noteq> CHR 0x0D)"

definition link_match :: "string \<Rightarrow> (string \<times> string) option" where
  "link_match s = first_match
     [(''['' @ label @ ''](https://'' @ url @ '')'', r5).
        (_, r1) \<leftarrow> rx_lit ''['' s,
        (label, r2) \<leftarrow> rx_lazy line_char 0 None r1,
        (_, r3) \<leftarrow> rx_lit ''](''  r2,
        \<not> has_scheme r3,
        (url, r4) \<leftarrow> rx_greedy (\<lambda>c. c \<noteq> CHR '')'') 1 None r3,
        (_, r5) \<leftarrow> rx_lit '')'' r4]"

definition addMissingSchemes :: "string option \<Rightarrow> string option" where
  "addMissingSchemes = map_option (rx_replace link_match)"

text \<open>\<open>/(https:\/\/www.dropbox.com\/([^?]+))\?dl=1/g\<close>, where a dot stands for any character of a
  line, and its replacement \<open>$1?raw=1\<close>.\<close>

definition dropbox_match :: "string \<Rightarrow> (string \<times> string) option" where
  "dropbox_match s = first_match
     [(a @ d1 @ b @ d2 @ c @ path @ ''?raw=1'', r7).
        (a, r1) \<leftarrow> rx_lit ''https://www'' s,
        (d1, r2) \<leftarrow> rx_greedy line_char 1 (Some 1) r1,
        (b, r3) \<leftarrow> rx_lit ''dropbox'' r2,
        (d2, r4) \<leftarrow> rx_greedy line_char 1 (Some 1) r3,
        (c, r5) \<leftarrow> rx_lit ''com/'' r4,
        (path, r6) \<leftarrow> rx_greedy (\<lambda>c. c \<noteq> CHR ''?'') 1 None r5,
        (_, r7) \<leftarrow> rx_lit ''?dl=1'' r6]"

definition replaceInvalidDropboxImageLinks :: "string option \<Rightarrow> string option" where
  "replaceInvalidDropboxImageLinks = map_option (rx_replace dropbox_match)"

section \<open>Descriptions\<close>

text \<open>\<open>replace(/(^['\"]|['\"]$)/g, '')\<close>: a quote at either end of the text is dropped.\<close>

definition is_quote :: "char \<Rightarrow> bool" where
  "is_quote c = (c = CHR 0x27 \<or> c = CHR 0x22)"

definition strip_quotes :: "string \<Rightarrow> string" where
  "strip_quotes s =
     (let s = (case s of [] \<Rightarrow> [] | c # cs \<Rightarrow> if is_quote c then cs else s)
      in if s \<noteq> [] \<and> is_quote (last s) then butlast s else s)"

definition clean_description :: "string option \<Rightarrow> string option" where
  "clean_description = map_option (\<lambda>d. strip_quotes (unescape_newlines d))"

section \<open>Lemmas\<close>

lemma hash_matches_title:
  assumes "1 \<le> k" "k \<le> 6" "t \<noteq> []" "CHR 0x0A \<notin> set t" "\<not> is_space (hd t)"
  shows "\<exists>ts. hash_matches (replicate k (CHR ''#'') @ CHR '' '' # t @ newline @ body) = t # ts"
proof -
  let ?h = "replicate k (CHR ''#'')" and ?r3 = "t @ newline @ body"
  let ?d = "?h @ CHR '' '' # ?r3"
  have "hd ?d = CHR ''#''" using assms(1) by (cases k) auto
  then obtain m1 where m1: "rx_greedy is_space 0 None ?d = ([], ?d) # m1"
    using rx_greedy_first [of is_space "[]" ?d 0 None] by (auto simp: is_space_def)
  obtain m2 where m2: "rx_greedy (\<lambda>c. c = CHR ''#'') 1 (Some 6) ?d = (?h, CHR '' '' # ?r3) # m2"
    using rx_greedy_first [of "\<lambda>c. c = CHR ''#''" ?h "CHR '' '' # ?r3" 1 "Some 6"] assms(1,2)
    by (auto simp: list_all_iff)
  obtain m3 where m3: "rx_greedy is_space 1 None (CHR '' '' # ?r3) = ([CHR '' ''], ?r3) # m3"
    using rx_greedy_first [of is_space "[CHR '' '']" ?r3 1 None] assms(3,5)
    by (auto simp: is_space_def)
  obtain m4 where m4: "rx_greedy not_newline 1 None ?r3 = (t, newline @ body) # m4"
    using rx_greedy_first [of not_newline t "newline @ body" 1 None] assms(3,4)
    by (auto simp: list_all_iff newline_def Suc_le_eq)
  show ?thesis by (simp add: hash_matches_def m1 m2 m3 m4 del: One_nat_def)
qed

lemma first_line_of_rest:
  assumes "CHR ''#'' \<notin> set t" "CHR 0x0A \<notin> set t"
  shows "js_split_limit newline 1
    (concat (take (Suc k) (js_split ''#'' (CHR '' '' # t @ newline @ body)))) = [CHR '' '' # t]"
proof -
  have "js_split ''#'' (CHR '' '' # t @ newline @ body) =
      (CHR '' '' # t @ newline @ hd (js_split ''#'' body)) # tl (js_split ''#'' body)"
    using js_split_absent_prefix [of "CHR ''#''" "CHR '' '' # t @ newline" body] assms
    by (simp add: newline_def)
  then show ?thesis
    using js_split_first [of "CHR 0x0A" "CHR '' '' # t"] assms
    by (simp add: js_split_limit_def newline_def)
qed

lemma subgraph_title:
  assumes "k = 1 \<or> k = 2" "CHR ''#'' \<notin> set t" "CHR 0x0A \<notin> set t"
    "t \<noteq> []" "\<not> is_space (hd t)" "\<not> is_space (last t)"
    "\<not> sublist ''**'' t" "\<not> sublist ''__'' t"
  shows "extractTitle (replicate k (CHR ''#'') @ CHR '' '' # t @ newline @ body) = t"
proof -
  let ?r = "CHR '' '' # t @ newline @ body"
  have ne: "js_split ''#'' ?r \<noteq> []" by simp
  have "js_split_limit ''#'' 3 (replicate k (CHR ''#'') @ ?r) = replicate k [] @ take (3 - k) (js_split ''#'' ?r)"
    using assms(1) by (auto simp: js_split_limit_def js_split_def numeral_2_eq_2 numeral_3_eq_3)
  moreover obtain j where "3 - k = Suc j" using assms(1) by (cases "3 - k") auto
  moreover have "length (take (Suc j) (js_split ''#'' ?r)) \<ge> 1" for j
    using ne by (cases "js_split ''#'' ?r") auto
  ultimately show ?thesis
    using first_line_of_rest [OF assms(2,3), of j body] js_trim_space_pad [OF assms(4,5,6)] assms
    by (auto simp: extractTitle_def Let_def replaceAll_absent numeral_2_eq_2)
qed

text \<open>
  The indexer and the web application extract the same title, each with its own algorithm,
  from a description that opens with a heading of one or two hashes: a line that does not start
  or end with white space and holds no hash and no emphasis.
\<close>

theorem titles_agree:
  assumes "k = 1 \<or> k = 2" "CHR ''#'' \<notin> set t" "CHR 0x0A \<notin> set t"
    "t \<noteq> []" "\<not> is_space (hd t)" "\<not> is_space (last t)"
    "\<not> sublist ''**'' t" "\<not> sublist ''__'' t"
    "d = replicate k (CHR ''#'') @ CHR '' '' # t @ newline @ body"
  shows "extractTitle d = t \<and> display_title (Some d) = t"
proof -
  obtain ts where "hash_matches d = t # ts"
    using hash_matches_title [of k t body] assms by auto
  then have "extractTitle_web (Some d) = Some t"
    using assms(9) by (auto simp: extractTitle_web_def extractHashTitle_def first_match_Cons)
  then show ?thesis
    using subgraph_title [OF assms(1-8), of body] assms(7-9)
    by (simp add: display_title_def removeMarkdownStyle_def removeBold_def removeItalics_def replaceAll_absent)
qed

theorem titles_agree_witness:
  "extractTitle (''# Fund X'' @ newline @ ''Body # 2'') = ''Fund X'' \<and>
   display_title (Some (''# Fund X'' @ newline @ ''Body # 2'')) = ''Fund X''"
  using titles_agree [of 1 "''Fund X''" "''# Fund X'' @ newline @ ''Body # 2''" "''Body # 2''"]
  by (simp add: is_space_def sublist_code)

end
