(* ===== verification/Webapp_Proposal.thy ===== *)
theory Webapp_Proposal
  imports Webapp_Text
begin

text \<open>
  Proposals in the web application (\<open>packages/nouns-webapp/src/wrappers/nounsDao.ts\<close>): the
  answers of the indexer, their transaction details, the state shown for a proposal, and the
  parsed proposals. \<open>undefined\<close>, \<open>null\<close> and \<open>NaN\<close> are \<^const>\<open>None\<close>; a comparison with \<open>NaN\<close>
  is false. An uncaught exception makes the result of a function \<^const>\<open>None\<close> where the function
  can throw. Enumeration members are written in mixed case (\<open>ProposalState.PENDING\<close> is
  \<open>Pending\<close>), because the indexer's status type has members of the same names.

  Code outside the repository is collected in a record of parameters: hashing, ether
  formatting and ABI decoding of the ethers library.
\<close>

section \<open>Types\<close>

datatype ProposalState = Undetermined | Pending | Active | Cancelled | Defeated | Succeeded
  | Queued | Expired | Executed | Vetoed | ObjectionPeriod | Updatable

text \<open>\<open>ProposalState[name]\<close>.\<close>

definition proposal_state_named :: "string \<Rightarrow> ProposalState option" where
  "proposal_state_named = map_of
     [(''UNDETERMINED'', Undetermined), (''PENDING'', Pending), (''ACTIVE'', Active),
      (''CANCELLED'', Cancelled), (''DEFEATED'', Defeated), (''SUCCEEDED'', Succeeded),
      (''QUEUED'', Queued), (''EXPIRED'', Expired), (''EXECUTED'', Executed), (''VETOED'', Vetoed),
      (''OBJECTION_PERIOD'', ObjectionPeriod), (''UPDATABLE'', Updatable)]"

datatype detail_value = ValueText string | ValueBN int

record ProposalDetail =
  pd_target :: string
  pd_value :: "detail_value option"
  pd_functionSig :: "string option"
  pd_callData :: "string option"

record PartialProposal =
  pa_id :: "string option"
  pa_title :: string
  pa_status :: "ProposalState option"
  pa_forCount :: "int option"
  pa_againstCount :: "int option"
  pa_abstainCount :: "int option"
  pa_startBlock :: "int option"
  pa_endBlock :: "int option"
  pa_eta :: "int option"
  pa_quorumVotes :: "int option"
  pa_objectionPeriodEndBlock :: "int option"
  pa_updatePeriodEndBlock :: "int option"

record Proposal = PartialProposal +
  po_description :: string
  po_createdBlock :: "int option"
  po_createdTimestamp :: "int option"
  po_proposer :: "string option"
  po_proposalThreshold :: "int option"
  po_details :: "ProposalDetail list option"
  po_transactionHash :: string
  po_signers :: "string list option"
  po_onTimelockV1 :: bool
  po_voteSnapshotBlock :: "int option"

text \<open>
  Transaction details come from the indexer, with the field \<open>values\<close>, or from a decoded log, an
  array whose element 3 holds the values.
\<close>

record ProposalTransactionDetails =
  ptd_targets :: "string list option"
  ptd_values :: "string list option"
  ptd_result3 :: "string list option"
  ptd_signatures :: "string list"
  ptd_calldatas :: "string list"
  ptd_encodedProposalHash :: "string option"

record PartialProposalSubgraphEntity =
  pe_id :: string
  pe_title :: "string option"
  pe_status :: string
  pe_forVotes :: string
  pe_againstVotes :: string
  pe_abstainVotes :: string
  pe_startBlock :: string
  pe_endBlock :: string
  pe_executionETA :: "string option"
  pe_quorumVotes :: string
  pe_objectionPeriodEndBlock :: string
  pe_updatePeriodEndBlock :: string
  pe_onTimelockV1 :: "bool option"
  pe_signers :: "string list option"

record ProposalSubgraphEntity = PartialProposalSubgraphEntity +
  pf_targets :: "string list option"
  pf_values :: "string list option"
  pf_signatures :: "string list"
  pf_calldatas :: "string list"
  pf_encodedProposalHash :: "string option"
  pf_description :: "string option"
  pf_createdBlock :: string
  pf_createdTransactionHash :: string
  pf_createdTimestamp :: string
  pf_proposer :: "string option"
  pf_proposalThreshold :: string
  pf_voteSnapshotBlock :: string

record web_env =
  we_keccak_text :: "string \<Rightarrow> string"
  we_formatEther :: "int \<Rightarrow> string"
  we_abiDecode :: "string list \<Rightarrow> string \<Rightarrow> string list option"

section \<open>Transaction details\<close>

definition concatSelectorToCalldata :: "web_env \<Rightarrow> string \<Rightarrow> string \<Rightarrow> string" where
  "concatSelectorToCalldata env signature callData =
     (if signature \<noteq> []
      then js_substring (we_keccak_text env signature) 0 10 @ js_substring_from callData 2
      else callData)"

text \<open>An element of an array, \<open>undefined\<close> outside its bounds.\<close>

definition js_nth :: "'a list \<Rightarrow> nat \<Rightarrow> 'a option" where
  "js_nth xs i = (if i < length xs then Some (xs ! i) else None)"

text \<open>
  \<open>signature.substring(0, length - 1).split(/\((.*)/s)\<close>: the part in front of the first opening
  parenthesis and, if there is one, the part behind it.
\<close>

definition split_signature :: "string \<Rightarrow> string \<times> string option" where
  "split_signature signature =
     (let s = js_substring signature 0 (int (length signature) - 1);
          name = takeWhile (\<lambda>c. c \<noteq> CHR ''('') s
      in (name, case dropWhile (\<lambda>c. c \<noteq> CHR ''('') s of [] \<Rightarrow> None | _ # types \<Rightarrow> Some types))"

text \<open>\<open>types.split(/,(?![^(]*\))/g)\<close>: at each comma behind which no closing parenthesis comes
  before the next opening one.\<close>

fun split_types :: "string \<Rightarrow> string \<Rightarrow> string list" where
  "split_types acc [] = [acc]"
| "split_types acc (c # cs) =
     (if c = CHR '','' \<and> CHR '')'' \<notin> set (takeWhile (\<lambda>d. d \<noteq> CHR ''('') cs)
      then acc # split_types [] cs
      else split_types (acc @ [c]) cs)"

text \<open>\<open>value.gt(0) ? `{ value: \<dots> ETH }<end>` : ''\<close>.\<close>

definition ether_note :: "web_env \<Rightarrow> int \<Rightarrow> string \<Rightarrow> string" where
  "ether_note env val ending =
     (if 0 < val then ''{ value: '' @ we_formatEther env val @ '' ETH }'' @ ending else [])"

text \<open>\<open>EthersBN.from\<close> of a decimal text throws on anything else.\<close>

definition detail_amount :: "ProposalTransactionDetails \<Rightarrow> nat \<Rightarrow> string option" where
  "detail_amount details i =
     (case Option.bind (ptd_values details) (\<lambda>vs. js_nth vs i) of
        Some v \<Rightarrow> Some v
      | None \<Rightarrow> Option.bind (ptd_result3 details) (\<lambda>vs. js_nth vs i))"

definition raw_detail :: "web_env \<Rightarrow> string \<Rightarrow> string \<Rightarrow> string option \<Rightarrow> int \<Rightarrow> ProposalDetail option" where
  "raw_detail env target signature callData val =
     (case callData of
        None \<Rightarrow> if signature = [] then Some \<lparr>pd_target = target, pd_value = Some (ValueText (ether_note env val '' '')),
                  pd_functionSig = None, pd_callData = None\<rparr> else None
      | Some c \<Rightarrow> Some \<lparr>pd_target = target, pd_value = Some (ValueText (ether_note env val '' '')),
           pd_functionSig = None, pd_callData = Some (concatSelectorToCalldata env signature c)\<rparr>)"

definition format_detail ::
  "web_env \<Rightarrow> ProposalTransactionDetails \<Rightarrow> string \<Rightarrow> nat \<Rightarrow> ProposalDetail option" where
  "format_detail env details target i =
     do {
       signature \<leftarrow> js_nth (ptd_signatures details) i;
       val \<leftarrow> (case detail_amount details i of None \<Rightarrow> Some 0 | Some v \<Rightarrow> string_to_int v);
       let callData = js_nth (ptd_calldatas details) i;
       let (name, types) = split_signature signature;
       if name = [] \<or> types = None \<or> types = Some [] then
         (if callData \<noteq> None \<and> callData \<noteq> Some [] \<and> callData \<noteq> Some ''0x''
          then raw_detail env target signature callData val
          else Some \<lparr>pd_target = target, pd_value = None,
                 pd_functionSig = Some (if name = [] then ''transfer'' else name),
                 pd_callData = Some (case types of
                    Some (t # ts) \<Rightarrow> t # ts
                  | _ \<Rightarrow> we_formatEther env val @ '' ETH'')\<rparr>)
       else
         (case Option.bind callData (we_abiDecode env (split_types [] (the types))) of
            Some decoded \<Rightarrow> Some \<lparr>pd_target = target,
               pd_value = Some (ValueText (ether_note env val [])), pd_functionSig = Some name,
               pd_callData = Some (js_join '','' decoded)\<rparr>
          | None \<Rightarrow> raw_detail env target signature callData val)
     }"

text \<open>The outer result is \<^const>\<open>None\<close> when formatting throws; without targets there are no details.\<close>

definition formatProposalTransactionDetails ::
  "web_env \<Rightarrow> ProposalTransactionDetails \<Rightarrow> ProposalDetail list option option" where
  "formatProposalTransactionDetails env details =
     (case ptd_targets details of
        None \<Rightarrow> Some None
      | Some ts \<Rightarrow> map_option Some
          (those (map (\<lambda>i. format_detail env details (ts ! i) i) [0..<length ts])))"

definition update_detail :: "ProposalTransactionDetails \<Rightarrow> string \<Rightarrow> nat \<Rightarrow> ProposalDetail option" where
  "update_detail details target i =
     do {
       amount \<leftarrow> detail_amount details i;
       val \<leftarrow> string_to_int amount;
       Some \<lparr>pd_target = target, pd_value = Some (ValueBN val),
             pd_functionSig = js_nth (ptd_signatures details) i,
             pd_callData = js_nth (ptd_calldatas details) i\<rparr>
     }"

definition formatProposalTransactionDetailsToUpdate ::
  "ProposalTransactionDetails \<Rightarrow> ProposalDetail list option option" where
  "formatProposalTransactionDetailsToUpdate details =
     (case ptd_targets details of
        None \<Rightarrow> None
      | Some ts \<Rightarrow> map_option Some
          (those (map (\<lambda>i. update_detail details (ts ! i) i) [0..<length ts])))"

section \<open>The state of a proposal\<close>

text \<open>Comparisons with a number that may be \<open>NaN\<close>.\<close>

definition le_num :: "int \<Rightarrow> int option \<Rightarrow> bool" where
  "le_num b x = (case x of None \<Rightarrow> False | Some n \<Rightarrow> b \<le> n)"

definition gt_num :: "int \<Rightarrow> int option \<Rightarrow> bool" where
  "gt_num b x = (case x of None \<Rightarrow> False | Some n \<Rightarrow> n < b)"

text \<open>\<open>BigNumber.lte\<close> and \<open>lt\<close> on decimal texts.\<close>

definition bn_cmp :: "(int \<Rightarrow> int \<Rightarrow> bool) \<Rightarrow> string \<Rightarrow> string \<Rightarrow> bool" where
  "bn_cmp r a b = (case (string_to_int a, string_to_int b) of (Some m, Some n) \<Rightarrow> r m n | _ \<Rightarrow> False)"

text \<open>A text is true unless it is missing or empty.\<close>

definition truthy :: "string option \<Rightarrow> bool" where
  "truthy s = (s \<noteq> None \<and> s \<noteq> Some [])"

definition GRACE_PERIOD :: "bool \<Rightarrow> bool \<Rightarrow> int" where
  "GRACE_PERIOD isDaoGteV3 onTimelockV1 =
     (if isDaoGteV3 \<and> \<not> onTimelockV1 then 21 * 60 * 60 * 24 else 14 * 60 * 60 * 24)"

text \<open>\<open>blockTimestamp\<close> is a \<open>Date\<close>, in milliseconds; dividing by 1000 is compared without rounding.\<close>

definition getProposalState ::
  "int option \<Rightarrow> int option \<Rightarrow> 'a PartialProposalSubgraphEntity_scheme \<Rightarrow> bool \<Rightarrow> bool \<Rightarrow> ProposalState option" where
  "getProposalState blockNumber blockTimestamp p isDaoGteV3 onTimelockV1 =
     (let status = proposal_state_named (pe_status p) in
      if status = Some Pending \<or> status = Some Active then
        (case blockNumber of
           None \<Rightarrow> Some Undetermined
         | Some b \<Rightarrow>
             if b = 0 then Some Undetermined
             else if isDaoGteV3 \<and> pe_updatePeriodEndBlock p \<noteq> [] \<and>
                     le_num b (parseInt (pe_updatePeriodEndBlock p)) then Some Updatable
             else if le_num b (parseInt (pe_startBlock p)) then Some Pending
             else if isDaoGteV3 \<and> gt_num b (string_to_int (pe_endBlock p)) \<and>
                     (case parseInt (pe_objectionPeriodEndBlock p) of None \<Rightarrow> False | Some n \<Rightarrow> 0 < n) \<and>
                     le_num b (parseInt (pe_objectionPeriodEndBlock p)) then Some ObjectionPeriod
             else if gt_num b (parseInt (pe_endBlock p)) \<and>
                     gt_num b (parseInt (pe_objectionPeriodEndBlock p)) then
               (if bn_cmp (\<le>) (pe_forVotes p) (pe_againstVotes p) \<or>
                   bn_cmp (<) (pe_forVotes p) (pe_quorumVotes p) then Some Defeated
                else if \<not> truthy (pe_executionETA p) then Some Succeeded
                else Some Active)
             else Some Active)
      else if status = Some Queued then
        (case (blockTimestamp, pe_executionETA p) of
           (Some t, Some eta) \<Rightarrow>
             if eta = [] then Some Undetermined
             else (case parseInt eta of
                     None \<Rightarrow> status
                   | Some n \<Rightarrow> if 1000 * (n + GRACE_PERIOD isDaoGteV3 onTimelockV1) \<le> t
                               then Some Expired else status)
         | _ \<Rightarrow> Some Undetermined)
      else status)"

section \<open>Parsed proposals\<close>

definition eta_date :: "string option \<Rightarrow> int option" where
  "eta_date eta = (if truthy eta then map_option (\<lambda>n. n * 1000) (string_to_int (the eta)) else None)"

definition date_of_seconds :: "int option \<Rightarrow> int" where
  "date_of_seconds timestamp = (case timestamp of None \<Rightarrow> 0 | Some t \<Rightarrow> t) * 1000"

definition parsePartialSubgraphProposal ::
  "PartialProposalSubgraphEntity option \<Rightarrow> int option \<Rightarrow> int option \<Rightarrow> bool \<Rightarrow> PartialProposal option" where
  "parsePartialSubgraphProposal proposal blockNumber timestamp isDaoGteV3 =
     map_option (\<lambda>p.
       \<lparr>pa_id = Some (pe_id p),
        pa_title = (case pe_title p of None \<Rightarrow> ''Untitled'' | Some t \<Rightarrow> t),
        pa_status = getProposalState blockNumber (Some (date_of_seconds timestamp)) p isDaoGteV3
                      (pe_onTimelockV1 p \<noteq> None),
        pa_forCount = parseInt (pe_forVotes p),
        pa_againstCount = parseInt (pe_againstVotes p),
        pa_abstainCount = parseInt (pe_abstainVotes p),
        pa_startBlock = parseInt (pe_startBlock p),
        pa_endBlock = parseInt (pe_endBlock p),
        pa_eta = eta_date (pe_executionETA p),
        pa_quorumVotes = parseInt (pe_quorumVotes p),
        pa_objectionPeriodEndBlock = None,
        pa_updatePeriodEndBlock = parseInt (pe_updatePeriodEndBlock p)\<rparr>) proposal"

definition parse_description :: "string option \<Rightarrow> string option" where
  "parse_description d = addMissingSchemes (replaceInvalidDropboxImageLinks (clean_description d))"

definition entity_details :: "ProposalSubgraphEntity \<Rightarrow> ProposalTransactionDetails" where
  "entity_details p =
     \<lparr>ptd_targets = pf_targets p, ptd_values = pf_values p, ptd_result3 = None,
      ptd_signatures = pf_signatures p, ptd_calldatas = pf_calldatas p,
      ptd_encodedProposalHash = pf_encodedProposalHash p\<rparr>"

definition parseSubgraphProposal ::
  "web_env \<Rightarrow> ProposalSubgraphEntity option \<Rightarrow> int option \<Rightarrow> int option \<Rightarrow> bool \<Rightarrow> bool \<Rightarrow>
   Proposal option option" where
  "parseSubgraphProposal env proposal blockNumber timestamp toUpdate isDaoGteV3 =
     (case proposal of
        None \<Rightarrow> Some None
      | Some p \<Rightarrow>
          do {
            let description = parse_description (pf_description p);
            let transactionDetails = entity_details p;
            details \<leftarrow> (if toUpdate then formatProposalTransactionDetailsToUpdate transactionDetails
                         else formatProposalTransactionDetails env transactionDetails);
            let onTimelockV1 = (pe_onTimelockV1 p \<noteq> None);
            Some (Some
              \<lparr>pa_id = Some (pe_id p),
               pa_title = display_title description,
               pa_status = getProposalState blockNumber (Some (date_of_seconds timestamp)) p isDaoGteV3
                             onTimelockV1,
               pa_forCount = parseInt (pe_forVotes p),
               pa_againstCount = parseInt (pe_againstVotes p),
               pa_abstainCount = parseInt (pe_abstainVotes p),
               pa_startBlock = parseInt (pe_startBlock p),
               pa_endBlock = parseInt (pe_endBlock p),
               pa_eta = eta_date (pe_executionETA p),
               pa_quorumVotes = parseInt (pe_quorumVotes p),
               pa_objectionPeriodEndBlock = parseInt (pe_objectionPeriodEndBlock p),
               pa_updatePeriodEndBlock = parseInt (pe_updatePeriodEndBlock p),
               po_description = (case description of None \<Rightarrow> ''No description.'' | Some d \<Rightarrow> d),
               po_createdBlock = parseInt (pf_createdBlock p),
               po_createdTimestamp = parseInt (pf_createdTimestamp p),
               po_proposer = pf_proposer p,
               po_proposalThreshold = parseInt (pf_proposalThreshold p),
               po_details = details,
               po_transactionHash = pf_createdTransactionHash p,
               po_signers = pe_signers p,
               po_onTimelockV1 = onTimelockV1,
               po_voteSnapshotBlock = parseInt (pf_voteSnapshotBlock p)\<rparr>)
          })"

end
