(* ===== verification/Webapp_State.thy ===== *)
theory Webapp_State
  imports Webapp_Proposal
begin

text \<open>
  The state that the web application shows for a proposal against the state the DAO contract
  reports (\<open>stateInternal\<close> of \<open>NounsDAOV3Proposals.sol\<close>), along the whole path: the contract's
  proposal, the entity the indexer keeps for it, the answer to the proposals query, and the
  parsed proposal.
\<close>

section \<open>The state of a proposal on chain\<close>

text \<open>The fields of the contract's proposal that its state depends on; \<open>ch_quorumVotes\<close> is the
  value of \<open>quorumVotes(proposalId)\<close>.\<close>

record chain_proposal =
  ch_vetoed :: bool
  ch_canceled :: bool
  ch_executed :: bool
  ch_updatePeriodEndBlock :: int
  ch_startBlock :: int
  ch_endBlock :: int
  ch_objectionPeriodEndBlock :: int
  ch_forVotes :: int
  ch_againstVotes :: int
  ch_quorumVotes :: int
  ch_eta :: int
  ch_onTimelockV1 :: bool

definition isDefeated :: "chain_proposal \<Rightarrow> bool" where
  "isDefeated c = (ch_forVotes c \<le> ch_againstVotes c \<or> ch_forVotes c < ch_quorumVotes c)"

definition stateInternal :: "int \<Rightarrow> int \<Rightarrow> int \<Rightarrow> chain_proposal \<Rightarrow> ProposalState" where
  "stateInternal gracePeriod block timestamp c =
     (if ch_vetoed c then Vetoed
      else if ch_canceled c then Cancelled
      else if block \<le> ch_updatePeriodEndBlock c then Updatable
      else if block \<le> ch_startBlock c then Pending
      else if block \<le> ch_endBlock c then Active
      else if block \<le> ch_objectionPeriodEndBlock c then ObjectionPeriod
      else if isDefeated c then Defeated
      else if ch_eta c = 0 then Succeeded
      else if ch_executed c then Executed
      else if ch_eta c + gracePeriod \<le> timestamp then Expired
      else Queued)"

text \<open>\<open>GRACE_PERIOD\<close> of the first and of the second executor.\<close>

definition timelock_grace :: "chain_proposal \<Rightarrow> int" where
  "timelock_grace c = (if ch_onTimelockV1 c then 14 else 21) * 86400"

text \<open>A proposal has an execution time only once it has succeeded, and is executed only then.\<close>

definition queued_after_success :: "int \<Rightarrow> chain_proposal \<Rightarrow> bool" where
  "queued_after_success block c \<longleftrightarrow> (ch_eta c = 0 \<and> \<not> ch_executed c) \<or>
     (0 < ch_eta c \<and> ch_updatePeriodEndBlock c < block \<and> ch_startBlock c < block \<and>
      ch_endBlock c < block \<and> ch_objectionPeriodEndBlock c < block \<and> \<not> isDefeated c)"

section \<open>What the indexer serves\<close>

definition status_name :: "ProposalStatus \<Rightarrow> string" where
  "status_name st = (case st of PENDING \<Rightarrow> ''PENDING'' | ACTIVE \<Rightarrow> ''ACTIVE'' | CANCELLED \<Rightarrow> ''CANCELLED''
     | VETOED \<Rightarrow> ''VETOED'' | QUEUED \<Rightarrow> ''QUEUED'' | EXECUTED \<Rightarrow> ''EXECUTED'')"

text \<open>The answer to \<open>partialProposalsQuery\<close> for one stored proposal: big integers as decimal
  texts. A required field that is unset cannot be served.\<close>

definition partial_response :: "proposal \<Rightarrow> PartialProposalSubgraphEntity option" where
  "partial_response p =
     do {
       status \<leftarrow> prop_status p;
       forVotes \<leftarrow> prop_forVotes p;
       againstVotes \<leftarrow> prop_againstVotes p;
       abstainVotes \<leftarrow> prop_abstainVotes p;
       quorumVotes \<leftarrow> prop_quorumVotes p;
       startBlock \<leftarrow> prop_startBlock p;
       endBlock \<leftarrow> prop_endBlock p;
       updatePeriodEndBlock \<leftarrow> prop_updatePeriodEndBlock p;
       objectionPeriodEndBlock \<leftarrow> prop_objectionPeriodEndBlock p;
       Some \<lparr>pe_id = prop_id p, pe_title = prop_title p, pe_status = status_name status,
         pe_forVotes = int_to_string forVotes, pe_againstVotes = int_to_string againstVotes,
         pe_abstainVotes = int_to_string abstainVotes,
         pe_startBlock = int_to_string startBlock, pe_endBlock = int_to_string endBlock,
         pe_executionETA = map_option int_to_string (prop_executionETA p),
         pe_quorumVotes = int_to_string quorumVotes,
         pe_objectionPeriodEndBlock = int_to_string objectionPeriodEndBlock,
         pe_updatePeriodEndBlock = int_to_string updatePeriodEndBlock,
         pe_onTimelockV1 = prop_onTimelockV1 p, pe_signers = prop_signers p\<rparr>
     }"

text \<open>The indexer is up to date with the contract; the execution time is dropped on execution.\<close>

definition indexes :: "chain_proposal \<Rightarrow> proposal \<Rightarrow> bool" where
  "indexes c p \<longleftrightarrow>
     (\<exists>st. prop_status p = Some st \<and>
       (if ch_vetoed c then st = VETOED
        else if ch_canceled c then st = CANCELLED
        else if ch_executed c then st = EXECUTED
        else if ch_eta c \<noteq> 0 then st = QUEUED
        else st = PENDING \<or> st = ACTIVE)) \<and>
     prop_forVotes p = Some (ch_forVotes c) \<and> prop_againstVotes p = Some (ch_againstVotes c) \<and>
     prop_abstainVotes p \<noteq> None \<and>
     prop_quorumVotes p = Some (ch_quorumVotes c) \<and>
     prop_startBlock p = Some (ch_startBlock c) \<and> prop_endBlock p = Some (ch_endBlock c) \<and>
     prop_updatePeriodEndBlock p = Some (ch_updatePeriodEndBlock c) \<and>
     prop_objectionPeriodEndBlock p = Some (ch_objectionPeriodEndBlock c) \<and>
     prop_executionETA p = (if ch_eta c = 0 \<or> ch_executed c then None else Some (ch_eta c)) \<and>
     prop_onTimelockV1 p = (if ch_onTimelockV1 c then Some True else None)"

lemma int_to_string_nonempty [simp]: "int_to_string i \<noteq> []"
  by (simp add: int_to_string_def)

lemmas status_names = status_name_def proposal_state_named_def


text \<open>The entity served for an indexed proposal, field by field.\<close>

definition serves :: "chain_proposal \<Rightarrow> PartialProposalSubgraphEntity \<Rightarrow> bool" where
  "serves c e \<longleftrightarrow>
     pe_forVotes e = int_to_string (ch_forVotes c) \<and> pe_againstVotes e = int_to_string (ch_againstVotes c) \<and>
     pe_quorumVotes e = int_to_string (ch_quorumVotes c) \<and>
     pe_startBlock e = int_to_string (ch_startBlock c) \<and> pe_endBlock e = int_to_string (ch_endBlock c) \<and>
     pe_updatePeriodEndBlock e = int_to_string (ch_updatePeriodEndBlock c) \<and>
     pe_objectionPeriodEndBlock e = int_to_string (ch_objectionPeriodEndBlock c) \<and>
     pe_executionETA e = (if ch_eta c = 0 \<or> ch_executed c then None else Some (int_to_string (ch_eta c))) \<and>
     pe_onTimelockV1 e = (if ch_onTimelockV1 c then Some True else None)"

lemma partial_response_serves:
  assumes "indexes c p"
  obtains e st where "partial_response p = Some e" "serves c e" "prop_status p = Some st"
    "pe_status e = status_name st"
  using assms
  by (auto simp: indexes_def partial_response_def serves_def)

lemma open_state:
  assumes "serves c e" and "pe_status e = status_name PENDING \<or> pe_status e = status_name ACTIVE"
    and "0 < b" "0 \<le> ch_endBlock c" "ch_eta c = 0" "\<not> ch_vetoed c" "\<not> ch_canceled c"
  shows "getProposalState (Some b) t' e True lock = Some (stateInternal g b t c)"
proof -
  have "proposal_state_named (pe_status e) = Some Pending \<or> proposal_state_named (pe_status e) = Some Active"
    using assms(2) by (auto simp: status_names)
  then show ?thesis
    using assms(1,3-)
    by (simp add: getProposalState_def serves_def stateInternal_def le_num_def gt_num_def bn_cmp_def
        truthy_def isDefeated_def Let_def)
qed

lemma queued_state:
  assumes "serves c e" and "pe_status e = status_name QUEUED" and "queued_after_success b c"
    and "ch_eta c \<noteq> 0" "\<not> ch_vetoed c" "\<not> ch_canceled c" "\<not> ch_executed c"
  shows "getProposalState bn (Some (t * 1000)) e True (ch_onTimelockV1 c) =
    Some (stateInternal (timelock_grace c) b t c)"
proof -
  have "proposal_state_named (pe_status e) = Some Queued"
    using assms(2) by (simp add: status_names)
  then show ?thesis
    using assms(1,3-)
    by (auto simp: getProposalState_def serves_def stateInternal_def queued_after_success_def
        timelock_grace_def GRACE_PERIOD_def)
qed

lemma closed_status:
  "proposal_state_named (pe_status e) = Some x \<Longrightarrow> x \<notin> {Pending, Active, Queued} \<Longrightarrow>
   getProposalState bn t' e v3 lock = Some x"
  by (simp add: getProposalState_def Let_def)

lemma final_state:
  assumes "indexes c p" "prop_status p = Some st" "pe_status e = status_name st" "queued_after_success b c"
    and "ch_vetoed c \<or> ch_canceled c \<or> ch_executed c"
  shows "getProposalState bn t' e v3 lock = Some (stateInternal g b t c)"
proof -
  have "if ch_vetoed c then st = VETOED else if ch_canceled c then st = CANCELLED else st = EXECUTED"
    using assms(1,2,5) by (simp add: indexes_def split: if_splits)
  then have "proposal_state_named (pe_status e) =
      Some (if ch_vetoed c then Vetoed else if ch_canceled c then Cancelled else Executed)"
    using assms(3) by (simp add: status_names split: if_splits)
  from closed_status [OF this] show ?thesis
    using assms(4,5) by (auto simp: stateInternal_def queued_after_success_def)
qed

lemma shown_state:
  assumes "indexes c p" and "queued_after_success b c" and "0 < b" "0 \<le> ch_endBlock c"
  shows "\<exists>e pp. partial_response p = Some e \<and>
    parsePartialSubgraphProposal (Some e) (Some b) (Some t) True = Some pp \<and>
    pa_status pp = Some (stateInternal (timelock_grace c) b t c)"
proof -
  obtain e st where e: "partial_response p = Some e" "serves c e" "prop_status p = Some st"
      "pe_status e = status_name st"
    using assms(1) by (rule partial_response_serves)
  have tl: "(pe_onTimelockV1 e \<noteq> None) = ch_onTimelockV1 c" using e(2) by (auto simp: serves_def)
  have "getProposalState (Some b) (Some (t * 1000)) e True (ch_onTimelockV1 c) =
      Some (stateInternal (timelock_grace c) b t c)"
  proof (cases "ch_vetoed c \<or> ch_canceled c \<or> ch_executed c")
    case True
    then show ?thesis using final_state [OF assms(1) e(3,4) assms(2)] by blast
  next
    case False
    then show ?thesis
      using assms e open_state [OF e(2) _ assms(3,4)] queued_state [OF e(2) _ assms(2)]
      by (cases "ch_eta c = 0") (auto simp: indexes_def)
  qed
  then show ?thesis using e(1) tl by (simp add: parsePartialSubgraphProposal_def date_of_seconds_def)
qed

text \<open>
  C14: For a proposal that the indexer keeps up to date, the web application (DAO version 3 or
  later) shows exactly the state the contract reports for the same block and time, through the
  query, the parsing of its decimal texts and the expiry of both timelocks.
\<close>

theorem shown_state_is_chain_state:
  assumes "indexes c p" and "queued_after_success b c" and "0 < b" "0 \<le> ch_endBlock c"
  shows "\<exists>e pp. partial_response p = Some e \<and>
    parsePartialSubgraphProposal (Some e) (Some b) (Some t) True = Some pp \<and>
    pa_status pp = Some (stateInternal (timelock_grace c) b t c)"
  using assms by (rule shown_state)

theorem shown_state_is_chain_state_witness:
  "\<exists>e pp. partial_response ((new_proposal ''7'')
       \<lparr>prop_status := Some QUEUED, prop_forVotes := Some 80, prop_againstVotes := Some 10, prop_abstainVotes := Some 0,
        prop_quorumVotes := Some 70, prop_startBlock := Some 100, prop_endBlock := Some 200,
        prop_updatePeriodEndBlock := Some 50, prop_objectionPeriodEndBlock := Some 0,
        prop_executionETA := Some 1000\<rparr>) = Some e \<and>
    parsePartialSubgraphProposal (Some e) (Some 300) (Some 2000000) True = Some pp \<and>
    pa_status pp = Some (stateInternal (21 * 86400) 300 2000000
      \<lparr>ch_vetoed = False, ch_canceled = False, ch_executed = False, ch_updatePeriodEndBlock = 50,
       ch_startBlock = 100, ch_endBlock = 200, ch_objectionPeriodEndBlock = 0, ch_forVotes = 80,
       ch_againstVotes = 10, ch_quorumVotes = 70, ch_eta = 1000, ch_onTimelockV1 = False\<rparr>)"
  using shown_state_is_chain_state [of
      "\<lparr>ch_vetoed = False, ch_canceled = False, ch_executed = False, ch_updatePeriodEndBlock = 50,
       ch_startBlock = 100, ch_endBlock = 200, ch_objectionPeriodEndBlock = 0, ch_forVotes = 80,
       ch_againstVotes = 10, ch_quorumVotes = 70, ch_eta = 1000, ch_onTimelockV1 = False\<rparr>"
      "(new_proposal ''7'')
       \<lparr>prop_status := Some QUEUED, prop_forVotes := Some 80, prop_againstVotes := Some 10, prop_abstainVotes := Some 0,
        prop_quorumVotes := Some 70, prop_startBlock := Some 100, prop_endBlock := Some 200,
        prop_updatePeriodEndBlock := Some 50, prop_objectionPeriodEndBlock := Some 0,
        prop_executionETA := Some 1000\<rparr>" 300 2000000]
  by (simp add: indexes_def queued_after_success_def isDefeated_def timelock_grace_def new_proposal_def
      del: bind_eq_Some_iff)

end
