(* ===== verification/Webapp_Dao.thy ===== *)
theory Webapp_Dao
  imports Webapp_Proposal
begin

text \<open>
  The hooks of \<open>packages/nouns-webapp/src/wrappers/nounsDao.ts\<close>. A hook is a function of what
  it reads: the results of contract calls, the answers of the indexer, the current block. Contract
  calls are a parameter, from a request to the list of returned values; \<^const>\<open>None\<close> stands for a
  call that is pending or skipped. The answer to a query is a record of its three fields.
\<close>

section \<open>Contract calls\<close>

datatype cval = CInt int | CBool bool | CText string | CReceipt bool int | CQuorumParams int int int

record call_request =
  cr_address :: string
  cr_method :: string
  cr_args :: "string list"

type_synonym chain_calls = "call_request \<Rightarrow> cval list option"

text \<open>The addresses of the configuration.\<close>

record web_config =
  wc_nounsDAOProxy :: string
  wc_nounsDAOData :: "string option"
  wc_nounsDAOLogicV2 :: "string option"
  wc_daoGteV3 :: bool

text \<open>\<open>useContractCall(request) || []\<close>, where a skipped request is \<open>false\<close>.\<close>

definition useContractCall :: "chain_calls \<Rightarrow> call_request option \<Rightarrow> cval list" where
  "useContractCall chain req = (case Option.bind req chain of None \<Rightarrow> [] | Some r \<Rightarrow> r)"

text \<open>\<open>const [x] = \<dots>; return x?.toNumber()\<close>. The outer result is \<^const>\<open>None\<close> when the number is
  not safe and \<open>toNumber\<close> throws.\<close>

definition call_number :: "chain_calls \<Rightarrow> call_request option \<Rightarrow> int option option" where
  "call_number chain req =
     (case useContractCall chain req of
        CInt n # _ \<Rightarrow> if \<bar>n\<bar> \<le> 2 ^ 53 - 1 then Some (Some n) else None
      | _ \<Rightarrow> Some None)"

definition dao_call :: "web_config \<Rightarrow> string \<Rightarrow> string list \<Rightarrow> call_request option" where
  "dao_call cfg method args =
     Some \<lparr>cr_address = wc_nounsDAOProxy cfg, cr_method = method, cr_args = args\<rparr>"

definition useCurrentQuorum :: "chain_calls \<Rightarrow> string \<Rightarrow> int \<Rightarrow> bool \<Rightarrow> int option option" where
  "useCurrentQuorum chain nounsDao proposalId skip =
     call_number chain (if skip then None
       else Some \<lparr>cr_address = nounsDao, cr_method = ''quorumVotes'', cr_args = [int_to_string proposalId]\<rparr>)"

record DynamicQuorumParams =
  dqp_minQuorumVotesBPS :: int
  dqp_maxQuorumVotesBPS :: int
  dqp_quorumCoefficient :: int

definition useDynamicQuorumProps :: "chain_calls \<Rightarrow> string \<Rightarrow> int \<Rightarrow> DynamicQuorumParams option" where
  "useDynamicQuorumProps chain nounsDao block =
     (case useContractCall chain (Some \<lparr>cr_address = nounsDao, cr_method = ''getDynamicQuorumParamsAt'',
             cr_args = [int_to_string block]\<rparr>) of
        CQuorumParams a b c # _ \<Rightarrow> Some \<lparr>dqp_minQuorumVotesBPS = a, dqp_maxQuorumVotesBPS = b, dqp_quorumCoefficient = c\<rparr>
      | _ \<Rightarrow> None)"

definition receipt_request :: "web_config \<Rightarrow> string \<Rightarrow> string \<Rightarrow> call_request option" where
  "receipt_request cfg proposalId account = dao_call cfg ''getReceipt'' [proposalId, account]"

definition useHasVotedOnProposal :: "chain_calls \<Rightarrow> web_config \<Rightarrow> string \<Rightarrow> string \<Rightarrow> bool" where
  "useHasVotedOnProposal chain cfg account proposalId =
     (case useContractCall chain (receipt_request cfg proposalId account) of
        CReceipt hasVoted _ # _ \<Rightarrow> hasVoted | _ \<Rightarrow> False)"

definition useProposalVote :: "chain_calls \<Rightarrow> web_config \<Rightarrow> string \<Rightarrow> string \<Rightarrow> string" where
  "useProposalVote chain cfg account proposalId =
     (let voteStatus = (case useContractCall chain (receipt_request cfg proposalId account) of
            CReceipt _ support # _ \<Rightarrow> support | _ \<Rightarrow> - 1)
      in if voteStatus = 0 then ''Against''
         else if voteStatus = 1 then ''For''
         else if voteStatus = 2 then ''Abstain''
         else [])"

definition useProposalCount :: "chain_calls \<Rightarrow> web_config \<Rightarrow> int option option" where
  "useProposalCount chain cfg = call_number chain (dao_call cfg ''proposalCount'' [])"

definition useProposalThreshold :: "chain_calls \<Rightarrow> web_config \<Rightarrow> int option option" where
  "useProposalThreshold chain cfg = call_number chain (dao_call cfg ''proposalThreshold'' [])"

definition useForkThreshold :: "chain_calls \<Rightarrow> web_config \<Rightarrow> int option option" where
  "useForkThreshold chain cfg = call_number chain (dao_call cfg ''forkThreshold'' [])"

definition useNumTokensInForkEscrow :: "chain_calls \<Rightarrow> web_config \<Rightarrow> int option option" where
  "useNumTokensInForkEscrow chain cfg = call_number chain (dao_call cfg ''numTokensInForkEscrow'' [])"

definition useAdjustedTotalSupply :: "chain_calls \<Rightarrow> web_config \<Rightarrow> int option option" where
  "useAdjustedTotalSupply chain cfg = call_number chain (dao_call cfg ''adjustedTotalSupply'' [])"

definition useForkThresholdBPS :: "chain_calls \<Rightarrow> web_config \<Rightarrow> int option option" where
  "useForkThresholdBPS chain cfg = call_number chain (dao_call cfg ''forkThresholdBPS'' [])"

definition useLastMinuteWindowInBlocks :: "chain_calls \<Rightarrow> web_config \<Rightarrow> int option option" where
  "useLastMinuteWindowInBlocks chain cfg = call_number chain (dao_call cfg ''lastMinuteWindowInBlocks'' [])"

definition useIsForkPeriodActive :: "chain_calls \<Rightarrow> web_config \<Rightarrow> bool" where
  "useIsForkPeriodActive chain cfg =
     (case useContractCall chain (dao_call cfg ''isForkPeriodActive'' []) of CBool b # _ \<Rightarrow> b | _ \<Rightarrow> False)"

text \<open>\<open>toLowerCase\<close> on the ASCII letters of addresses.\<close>

definition lower_char :: "char \<Rightarrow> char" where
  "lower_char c = (let k = of_char c :: nat in if 65 \<le> k \<and> k \<le> 90 then char_of (k + 32) else c)"

definition toLowerCase :: "string \<Rightarrow> string" where
  "toLowerCase s = map lower_char s"

definition useIsDaoGteV3 :: "chain_calls \<Rightarrow> web_config \<Rightarrow> bool" where
  "useIsDaoGteV3 chain cfg =
     (let implementation = (case useContractCall chain (dao_call cfg ''implementation'' []) of
            CText a # _ \<Rightarrow> Some a | _ \<Rightarrow> None)
      in if truthy implementation \<and> truthy (wc_nounsDAOLogicV2 cfg) \<and>
            toLowerCase (the implementation) \<noteq> toLowerCase (the (wc_nounsDAOLogicV2 cfg))
         then True
         else wc_daoGteV3 cfg)"

section \<open>All proposals\<close>

record 'd query_result =
  qr_loading :: bool
  qr_error :: "string option"
  qr_data :: "'d option"

record 'd hook_data =
  hd_loading :: bool
  hd_error :: "string option"
  hd_data :: 'd

definition useAllProposalsViaSubgraph ::
  "PartialProposalSubgraphEntity list query_result \<Rightarrow> bool \<Rightarrow> int option \<Rightarrow> int option \<Rightarrow>
   PartialProposal option list hook_data" where
  "useAllProposalsViaSubgraph q isDaoGteV3 blockNumber timestamp =
     \<lparr>hd_loading = qr_loading q, hd_error = qr_error q,
      hd_data = (case qr_data q of None \<Rightarrow> []
        | Some ps \<Rightarrow> map (\<lambda>p. parsePartialSubgraphProposal (Some p) blockNumber timestamp isDaoGteV3) ps)\<rparr>"

definition countToIndices :: "int option \<Rightarrow> int list" where
  "countToIndices proposalCount = (case proposalCount of None \<Rightarrow> [] | Some n \<Rightarrow> map (\<lambda>i. int i + 1) [0..<nat n])"

record ProposalCallResult =
  pc_id :: int
  pc_abstainVotes :: int
  pc_againstVotes :: int
  pc_forVotes :: int
  pc_startBlock :: int
  pc_endBlock :: int
  pc_eta :: int
  pc_quorumVotes :: int
  pc_objectionPeriodEndBlock :: int
  pc_updatePeriodEndBlock :: int

text \<open>A decoded \<open>ProposalCreated\<close> log, and the formatted one.\<close>

record created_log =
  cl_description :: string
  cl_transactionHash :: string
  cl_details :: ProposalTransactionDetails

record formatted_log =
  fl_description :: string
  fl_transactionHash :: string
  fl_details :: "ProposalDetail list option"

text \<open>\<open>useLogsResult?.logs?.map(\<dots>)\<close>: without a filter there are no logs; formatting may throw.\<close>

definition format_log :: "web_env \<Rightarrow> created_log \<Rightarrow> formatted_log option" where
  "format_log env l = map_option (\<lambda>ds. \<lparr>fl_description = cl_description l,
     fl_transactionHash = cl_transactionHash l, fl_details = ds\<rparr>)
     (formatProposalTransactionDetails env (cl_details l))"

definition useFormattedProposalCreatedLogs ::
  "web_env \<Rightarrow> bool \<Rightarrow> created_log list option \<Rightarrow> formatted_log list option option" where
  "useFormattedProposalCreatedLogs env skip logs =
     (case (if skip then None else logs) of
        None \<Rightarrow> Some None
      | Some ls \<Rightarrow> map_option Some (those (map (format_log env) ls)))"

definition text_of :: "('r \<Rightarrow> int) \<Rightarrow> string \<Rightarrow> 'r option \<Rightarrow> int option" where
  "text_of field dflt r = parseInt (case r of None \<Rightarrow> dflt | Some p \<Rightarrow> int_to_string (field p))"

definition chain_proposal_row ::
  "ProposalCallResult option \<Rightarrow> ProposalState option \<Rightarrow> formatted_log option \<Rightarrow> PartialProposal" where
  "chain_proposal_row proposal state log =
     (let description = addMissingSchemes (map_option (\<lambda>l. unescape_newlines (fl_description l)) log)
      in \<lparr>pa_id = map_option (\<lambda>p. int_to_string (pc_id p)) proposal,
          pa_title = display_title description,
          pa_status = Some (case state of None \<Rightarrow> Undetermined | Some s \<Rightarrow> s),
          pa_forCount = text_of pc_forVotes ''0'' proposal,
          pa_againstCount = text_of pc_againstVotes ''0'' proposal,
          pa_abstainCount = text_of pc_abstainVotes ''0'' proposal,
          pa_startBlock = text_of pc_startBlock [] proposal,
          pa_endBlock = text_of pc_endBlock [] proposal,
          pa_eta = map_option (\<lambda>p. pc_eta p * 1000) proposal,
          pa_quorumVotes = text_of pc_quorumVotes ''0'' proposal,
          pa_objectionPeriodEndBlock = text_of pc_objectionPeriodEndBlock [] proposal,
          pa_updatePeriodEndBlock = text_of pc_updatePeriodEndBlock [] proposal\<rparr>)"

text \<open>
  The results of the two batches of contract calls and the formatted logs give one row per
  proposal; while the logs are missing the data is empty and loading.
\<close>

definition useAllProposalsViaChain ::
  "ProposalCallResult option list \<Rightarrow> ProposalState option list \<Rightarrow> formatted_log list option \<Rightarrow>
   PartialProposal option list hook_data" where
  "useAllProposalsViaChain proposals proposalStates formattedLogs =
     (let logs = (case formattedLogs of None \<Rightarrow> [] | Some ls \<Rightarrow> ls)
      in if proposals \<noteq> [] \<and> logs = []
         then \<lparr>hd_loading = True, hd_error = None, hd_data = []\<rparr>
         else \<lparr>hd_loading = False, hd_error = None,
               hd_data = map (\<lambda>i. Some (chain_proposal_row (proposals ! i)
                   (Option.bind (js_nth proposalStates i) (\<lambda>s. s)) (js_nth logs i))) [0..<length proposals]\<rparr>)"

definition useAllProposals ::
  "PartialProposal option list hook_data \<Rightarrow> (bool \<Rightarrow> PartialProposal option list hook_data) \<Rightarrow>
   PartialProposal option list hook_data" where
  "useAllProposals subgraph viaChain =
     (let onchain = viaChain (hd_error subgraph = None)
      in if hd_error subgraph \<noteq> None then onchain else subgraph)"

section \<open>Versions of a proposal\<close>

record ProposalVersion =
  ve_id :: string
  ve_createdAt :: int
  ve_updateMessage :: string
  ve_description :: string
  ve_targets :: "string list option"
  ve_values :: "string list option"
  ve_signatures :: "string list"
  ve_calldatas :: "string list"
  ve_title :: string
  ve_details :: "ProposalDetail list option"
  ve_proposal :: string
  ve_versionNumber :: nat

definition version_details :: "ProposalVersion \<Rightarrow> ProposalTransactionDetails" where
  "version_details v =
     \<lparr>ptd_targets = ve_targets v, ptd_values = ve_values v, ptd_result3 = None,
      ptd_signatures = ve_signatures v, ptd_calldatas = ve_calldatas v,
      ptd_encodedProposalHash = Some []\<rparr>"

definition version_order :: "ProposalVersion \<Rightarrow> ProposalVersion \<Rightarrow> int" where
  "version_order a b = (if ve_createdAt b < ve_createdAt a then 1 else - 1)"

definition number_version :: "web_env \<Rightarrow> nat \<Rightarrow> ProposalVersion \<Rightarrow> ProposalVersion option" where
  "number_version env i v =
     map_option (\<lambda>ds. v\<lparr>ve_versionNumber := i + 1, ve_details := ds\<rparr>)
       (formatProposalTransactionDetails env (version_details v))"

definition useProposalVersions ::
  "web_env \<Rightarrow> ProposalVersion list option \<Rightarrow> ProposalVersion list option option" where
  "useProposalVersions env proposalVersions =
     (case proposalVersions of
        None \<Rightarrow> Some None
      | Some vs \<Rightarrow>
          let s = js_sort version_order vs
          in map_option Some (those (map (\<lambda>i. number_version env i (s ! i)) [0..<length s])))"

definition useProposal ::
  "web_env \<Rightarrow> ProposalSubgraphEntity query_result \<Rightarrow> int option \<Rightarrow> int option \<Rightarrow> bool \<Rightarrow> bool \<Rightarrow>
   Proposal option option" where
  "useProposal env q blockNumber timestamp toUpdate isDaoGteV3 =
     parseSubgraphProposal env (qr_data q) blockNumber timestamp toUpdate isDaoGteV3"

section \<open>Proposers and updatable proposals\<close>

record ProposalProposerAndSigners =
  ps_id :: string
  ps_proposer :: string
  ps_signers :: "string list"

definition useActivePendingUpdatableProposers ::
  "ProposalProposerAndSigners list query_result \<Rightarrow> string list hook_data" where
  "useActivePendingUpdatableProposers q =
     \<lparr>hd_loading = qr_loading q, hd_error = qr_error q,
      hd_data = (case qr_data q of None \<Rightarrow> []
        | Some ps \<Rightarrow> concat (map (\<lambda>p. ps_proposer p # ps_signers p) ps))\<rparr>"

definition useUpdatableProposalIds ::
  "ProposalProposerAndSigners list query_result \<Rightarrow> int option list option hook_data" where
  "useUpdatableProposalIds q =
     \<lparr>hd_loading = qr_loading q, hd_error = qr_error q,
      hd_data = map_option (map (\<lambda>p. string_to_int (ps_id p))) (qr_data q)\<rparr>"

definition checkHasActiveOrPendingProposalOrCandidate ::
  "ProposalState \<Rightarrow> string option \<Rightarrow> string option \<Rightarrow> bool" where
  "checkHasActiveOrPendingProposalOrCandidate latestProposalStatus latestProposalProposer account =
     (truthy account \<and> truthy latestProposalProposer \<and>
      (latestProposalStatus = Active \<or> latestProposalStatus = Pending \<or> latestProposalStatus = Updatable) \<and>
      toLowerCase (the latestProposalProposer) = toLowerCase (the account))"

section \<open>Sending transactions\<close>

text \<open>
  Each sending hook binds a method of the DAO contract; sending gives the request. The refundable
  votes estimate the gas first and send the estimate plus a pad.
\<close>

record tx_request =
  tx_contract :: string
  tx_method :: string
  tx_args :: "string list"
  tx_gasLimit :: "int option"

definition useContractFunction :: "string \<Rightarrow> string \<Rightarrow> string list \<Rightarrow> tx_request" where
  "useContractFunction contract method args =
     \<lparr>tx_contract = contract, tx_method = method, tx_args = args, tx_gasLimit = None\<rparr>"

definition refundable :: "(string \<Rightarrow> string list \<Rightarrow> int) \<Rightarrow> web_config \<Rightarrow> string \<Rightarrow> string list \<Rightarrow> tx_request" where
  "refundable estimateGas cfg method args =
     (let gasLimit = estimateGas method args
      in (useContractFunction (wc_nounsDAOProxy cfg) method args)\<lparr>tx_gasLimit := Some (gasLimit + 30000)\<rparr>)"

definition useCastRefundableVote ::
  "(string \<Rightarrow> string list \<Rightarrow> int) \<Rightarrow> web_config \<Rightarrow> string list \<Rightarrow> tx_request" where
  "useCastRefundableVote estimateGas cfg = refundable estimateGas cfg ''castRefundableVote''"

definition useCastRefundableVoteWithReason ::
  "(string \<Rightarrow> string list \<Rightarrow> int) \<Rightarrow> web_config \<Rightarrow> string list \<Rightarrow> tx_request" where
  "useCastRefundableVoteWithReason estimateGas cfg = refundable estimateGas cfg ''castRefundableVoteWithReason''"

definition useCastVote :: "web_config \<Rightarrow> string list \<Rightarrow> tx_request" where
  "useCastVote cfg = useContractFunction (wc_nounsDAOProxy cfg) ''castVote''"

definition useCastVoteWithReason :: "web_config \<Rightarrow> string list \<Rightarrow> tx_request" where
  "useCastVoteWithReason cfg = useContractFunction (wc_nounsDAOProxy cfg) ''castVoteWithReason''"

definition usePropose :: "web_config \<Rightarrow> string list \<Rightarrow> tx_request" where
  "usePropose cfg = useContractFunction (wc_nounsDAOProxy cfg) ''propose''"

definition useProposeOnTimelockV1 :: "web_config \<Rightarrow> string list \<Rightarrow> tx_request" where
  "useProposeOnTimelockV1 cfg = useContractFunction (wc_nounsDAOProxy cfg) ''proposeOnTimelockV1''"

definition useUpdateProposal :: "web_config \<Rightarrow> string list \<Rightarrow> tx_request" where
  "useUpdateProposal cfg = useContractFunction (wc_nounsDAOProxy cfg) ''updateProposal''"

definition useUpdateProposalTransactions :: "web_config \<Rightarrow> string list \<Rightarrow> tx_request" where
  "useUpdateProposalTransactions cfg = useContractFunction (wc_nounsDAOProxy cfg) ''updateProposalTransactions''"

definition useUpdateProposalDescription :: "web_config \<Rightarrow> string list \<Rightarrow> tx_request" where
  "useUpdateProposalDescription cfg = useContractFunction (wc_nounsDAOProxy cfg) ''updateProposalDescription''"

definition useQueueProposal :: "web_config \<Rightarrow> string list \<Rightarrow> tx_request" where
  "useQueueProposal cfg = useContractFunction (wc_nounsDAOProxy cfg) ''queue''"

definition useCancelProposal :: "web_config \<Rightarrow> string list \<Rightarrow> tx_request" where
  "useCancelProposal cfg = useContractFunction (wc_nounsDAOProxy cfg) ''cancel''"

definition useExecuteProposal :: "web_config \<Rightarrow> string list \<Rightarrow> tx_request" where
  "useExecuteProposal cfg = useContractFunction (wc_nounsDAOProxy cfg) ''execute''"

definition useExecuteProposalOnTimelockV1 :: "web_config \<Rightarrow> string list \<Rightarrow> tx_request" where
  "useExecuteProposalOnTimelockV1 cfg = useContractFunction (wc_nounsDAOProxy cfg) ''executeOnTimelockV1''"

definition useEscrowToFork :: "web_config \<Rightarrow> string list \<Rightarrow> tx_request" where
  "useEscrowToFork cfg = useContractFunction (wc_nounsDAOProxy cfg) ''escrowToFork''"

definition useWithdrawFromForkEscrow :: "web_config \<Rightarrow> string list \<Rightarrow> tx_request" where
  "useWithdrawFromForkEscrow cfg = useContractFunction (wc_nounsDAOProxy cfg) ''withdrawFromForkEscrow''"

definition useJoinFork :: "web_config \<Rightarrow> string list \<Rightarrow> tx_request" where
  "useJoinFork cfg = useContractFunction (wc_nounsDAOProxy cfg) ''joinFork''"

definition useExecuteFork :: "web_config \<Rightarrow> string list \<Rightarrow> tx_request" where
  "useExecuteFork cfg = useContractFunction (wc_nounsDAOProxy cfg) ''executeFork''"

definition useCancelSignature :: "web_config \<Rightarrow> string list \<Rightarrow> tx_request" where
  "useCancelSignature cfg = useContractFunction (wc_nounsDAOProxy cfg) ''cancelSig''"

end
