(* ===== verification/Webapp_Fork.thy ===== *)
theory Webapp_Fork
  imports Webapp_Dao
begin

text \<open>
  Forks in the web application (\<open>packages/nouns-webapp/src/wrappers/nounsDao.ts\<close>): the escrow
  events and the time line that mixes them with the events of the fork's life cycle.
\<close>

section \<open>Types\<close>

record EscrowDeposit =
  dp_eventType :: string
  dp_id :: string
  dp_createdAt :: string
  dp_owner :: string
  dp_reason :: string
  dp_tokenIDs :: "string list"
  dp_proposalIDs :: "string list"

record EscrowWithdrawal =
  wd_eventType :: string
  wd_id :: string
  wd_createdAt :: string
  wd_owner :: string
  wd_tokenIDs :: "string list"

record ForkCycleEvent =
  fc_eventType :: string
  fc_id :: string
  fc_createdAt :: "string option"

datatype escrow_event = Deposit EscrowDeposit | Withdrawal EscrowWithdrawal | Cycle ForkCycleEvent

text \<open>Every field of a fork may be missing while the query is loading.\<close>

record Fork =
  fk_id :: "string option"
  fk_forkID :: "string option"
  fk_executed :: "bool option"
  fk_executedAt :: "string option"
  fk_forkTreasury :: "string option"
  fk_forkToken :: "string option"
  fk_tokensForkingCount :: "int option"
  fk_tokensInEscrowCount :: "int option"
  fk_forkingPeriodEndTimestamp :: "string option"
  fk_addedNouns :: "string list"

record ForkSubgraphEntity =
  fe_id :: string
  fe_forkID :: string
  fe_executed :: "bool option"
  fe_executedAt :: "string option"
  fe_forkTreasury :: "string option"
  fe_forkToken :: "string option"
  fe_tokensForkingCount :: int
  fe_tokensInEscrowCount :: int
  fe_forkingPeriodEndTimestamp :: "string option"
  fe_escrowedNouns :: "string list option"
  fe_joinedNouns :: "string list option"

section \<open>Hooks\<close>

definition useEscrowDepositEvents :: "EscrowDeposit list query_result \<Rightarrow> EscrowDeposit list hook_data" where
  "useEscrowDepositEvents q =
     \<lparr>hd_loading = qr_loading q, hd_error = qr_error q,
      hd_data = (case qr_data q of None \<Rightarrow> []
        | Some ds \<Rightarrow> map (\<lambda>d. d\<lparr>dp_eventType := ''EscrowDeposit''\<rparr>) ds)\<rparr>"

definition useEscrowWithdrawalEvents ::
  "EscrowWithdrawal list query_result \<Rightarrow> EscrowWithdrawal list hook_data" where
  "useEscrowWithdrawalEvents q =
     \<lparr>hd_loading = qr_loading q, hd_error = qr_error q,
      hd_data = (case qr_data q of None \<Rightarrow> []
        | Some ws \<Rightarrow> map (\<lambda>w. w\<lparr>wd_eventType := ''EscrowWithdrawal''\<rparr>) ws)\<rparr>"

definition useForkJoins :: "EscrowDeposit list query_result \<Rightarrow> EscrowDeposit list hook_data" where
  "useForkJoins q =
     \<lparr>hd_loading = qr_loading q, hd_error = qr_error q,
      hd_data = (case qr_data q of None \<Rightarrow> []
        | Some js \<Rightarrow> map (\<lambda>j. j\<lparr>dp_eventType := ''ForkJoin''\<rparr>) js)\<rparr>"

definition useForkDetails :: "ForkSubgraphEntity query_result \<Rightarrow> Fork hook_data" where
  "useForkDetails q =
     (let fork = qr_data q;
          joined = (case Option.bind fork fe_joinedNouns of None \<Rightarrow> [] | Some ns \<Rightarrow> ns);
          escrowed = (case Option.bind fork fe_escrowedNouns of None \<Rightarrow> [] | Some ns \<Rightarrow> ns)
      in \<lparr>hd_loading = qr_loading q, hd_error = qr_error q,
          hd_data = \<lparr>fk_id = map_option fe_id fork, fk_forkID = map_option fe_forkID fork,
            fk_executed = Option.bind fork fe_executed, fk_executedAt = Option.bind fork fe_executedAt,
            fk_forkTreasury = Option.bind fork fe_forkTreasury, fk_forkToken = Option.bind fork fe_forkToken,
            fk_tokensForkingCount = map_option fe_tokensForkingCount fork,
            fk_tokensInEscrowCount = map_option fe_tokensInEscrowCount fork,
            fk_forkingPeriodEndTimestamp = Option.bind fork fe_forkingPeriodEndTimestamp,
            fk_addedNouns = escrowed @ joined\<rparr>\<rparr>)"

definition useForks :: "Fork list query_result \<Rightarrow> Fork list option hook_data" where
  "useForks q = \<lparr>hd_loading = qr_loading q, hd_error = qr_error q, hd_data = qr_data q\<rparr>"

definition useIsForkActive :: "Fork list query_result \<Rightarrow> bool hook_data" where
  "useIsForkActive q =
     \<lparr>hd_loading = qr_loading q, hd_error = qr_error q,
      hd_data = (case qr_data q of None \<Rightarrow> False | Some fs \<Rightarrow> 0 < length fs)\<rparr>"

section \<open>The time line\<close>

definition event_createdAt :: "escrow_event \<Rightarrow> string option" where
  "event_createdAt e =
     (case e of Deposit d \<Rightarrow> Some (dp_createdAt d) | Withdrawal w \<Rightarrow> Some (wd_createdAt w)
      | Cycle c \<Rightarrow> fc_createdAt c)"

text \<open>\<open>endTimestamp ? endTimestamp.toString() : null\<close> of \<open>x && +x\<close>.\<close>

definition fork_end_text :: "string option \<Rightarrow> string option" where
  "fork_end_text t =
     (if truthy t then (case string_to_int (the t) of None \<Rightarrow> None
        | Some n \<Rightarrow> if n = 0 then None else Some (int_to_string n))
      else None)"

definition fork_events :: "Fork \<Rightarrow> escrow_event list" where
  "fork_events forkDetails =
     [Cycle \<lparr>fc_eventType = ''ForkExecuted'', fc_id = ''fork-executed'', fc_createdAt = fk_executedAt forkDetails\<rparr>,
      Cycle \<lparr>fc_eventType = ''ForkingEnded'', fc_id = ''fork-ended'',
             fc_createdAt = fork_end_text (fk_forkingPeriodEndTimestamp forkDetails)\<rparr>]"

definition event_order :: "escrow_event \<Rightarrow> escrow_event \<Rightarrow> int" where
  "event_order a b =
     (if truthy (event_createdAt a) \<and> truthy (event_createdAt b) \<and>
         js_str_less (the (event_createdAt b)) (the (event_createdAt a)) then - 1 else 1)"

definition eventsWithforkCycleEvents :: "escrow_event list \<Rightarrow> Fork \<Rightarrow> escrow_event list" where
  "eventsWithforkCycleEvents events forkDetails = js_sort event_order (events @ fork_events forkDetails)"

definition first_error :: "string option list \<Rightarrow> string option" where
  "first_error es = (case filter (\<lambda>e. e \<noteq> None) es of [] \<Rightarrow> None | e # _ \<Rightarrow> e)"

definition useEscrowEvents ::
  "EscrowDeposit list query_result \<Rightarrow> EscrowWithdrawal list query_result \<Rightarrow>
   ForkSubgraphEntity query_result \<Rightarrow> EscrowDeposit list query_result \<Rightarrow> escrow_event list hook_data" where
  "useEscrowEvents deposits withdrawals fork joins =
     (let d = useEscrowDepositEvents deposits;
          w = useEscrowWithdrawalEvents withdrawals;
          f = useForkDetails fork;
          j = useForkJoins joins;
          data = map Deposit (hd_data d) @ map Withdrawal (hd_data w) @ map Deposit (hd_data j)
      in \<lparr>hd_loading = hd_loading d \<or> hd_loading w \<or> hd_loading f \<or> hd_loading j,
          hd_error = first_error [hd_error d, hd_error w, hd_error f, hd_error j],
          hd_data = eventsWithforkCycleEvents data (hd_data f)\<rparr>)"

section \<open>Lemmas\<close>

lemma js_str_less_irrefl [simp]: "\<not> js_str_less s s"
  by (induction s) auto

lemma js_str_less_trans: "js_str_less a b \<Longrightarrow> js_str_less b c \<Longrightarrow> js_str_less a c"
proof (induction a b arbitrary: c rule: js_str_less.induct)
  case (2 y ys)
  then show ?case by (cases c) auto
next
  case (3 x xs y ys)
  then show ?case by (cases c) auto
qed simp

lemma js_str_less_total: "s \<noteq> t \<Longrightarrow> js_str_less s t \<or> js_str_less t s"
proof (induction s t rule: js_str_less.induct)
  case (1 s)
  then show ?case by (cases s) auto
next
  case (3 a s b t)
  show ?case
  proof (cases "a = b")
    case True
    with 3 show ?thesis by auto
  next
    case False
    then have "(of_char a :: nat) \<noteq> of_char b" by simp
    then show ?thesis by (metis js_str_less.simps(3) linorder_neqE_nat)
  qed
qed simp

lemma event_order_le_0:
  "event_order a b \<le> 0 \<Longrightarrow> js_str_less (the (event_createdAt b)) (the (event_createdAt a))"
  by (simp add: event_order_def split: if_splits)

text \<open>Newest first, in the order of the texts.\<close>

lemma event_order_consistent:
  assumes "\<forall>e\<in>A. truthy (event_createdAt e)" and "inj_on event_createdAt A"
  shows "consistent_comparator event_order A"
proof
  fix x y assume A: "x \<in> A" "y \<in> A" "x \<noteq> y" "\<not> event_order x y < 0"
  then have "event_createdAt x \<noteq> event_createdAt y" using assms(2) by (auto dest: inj_onD)
  moreover have "truthy (event_createdAt x)" "truthy (event_createdAt y)" using assms(1) A by auto
  ultimately show "event_order y x \<le> 0"
    using A(4) js_str_less_total by (auto simp: event_order_def truthy_def split: if_splits)
next
  fix x y z assume A: "x \<in> A" "y \<in> A" "z \<in> A" "event_order x y \<le> 0" "event_order y z \<le> 0"
  have "js_str_less (the (event_createdAt z)) (the (event_createdAt x))"
    by (rule js_str_less_trans [OF event_order_le_0 [OF A(5)] event_order_le_0 [OF A(4)]])
  then show "event_order x z \<le> 0" using A(1,3) assms(1) by (simp add: event_order_def)
qed

text \<open>
  The time line of a fork shows every escrow event and both events of the fork's life cycle
  exactly once, and newest first (in the order of the time texts) when every event has a time
  and no two times are equal.
\<close>

theorem fork_timeline:
  assumes "\<forall>e\<in>set (events @ fork_events f). truthy (event_createdAt e)"
    and "distinct (map event_createdAt (events @ fork_events f))"
  shows "mset (eventsWithforkCycleEvents events f) = mset events + mset (fork_events f) \<and>
    sorted_wrt (\<lambda>a b. js_str_less (the (event_createdAt b)) (the (event_createdAt a)))
      (eventsWithforkCycleEvents events f)"
proof -
  let ?es = "events @ fork_events f"
  have "inj_on event_createdAt (set ?es)" "distinct ?es"
    using assms(2) by (simp_all only: distinct_map)
  then have "sorted_wrt (\<lambda>a b. event_order a b \<le> 0) (js_sort event_order ?es)"
    using consistent_comparator.sorted_js_sort [OF event_order_consistent [OF assms(1)]] by blast
  then have "sorted_wrt (\<lambda>a b. js_str_less (the (event_createdAt b)) (the (event_createdAt a)))
      (js_sort event_order ?es)"
    by (rule sorted_wrt_mono_rel [rotated]) (rule event_order_le_0)
  then show ?thesis by (simp add: eventsWithforkCycleEvents_def)
qed

theorem fork_timeline_witness:
  "mset (eventsWithforkCycleEvents
     [Withdrawal \<lparr>wd_eventType = [], wd_id = ''w'', wd_createdAt = ''150'', wd_owner = ''o'', wd_tokenIDs = [''3'']\<rparr>]
     \<lparr>fk_id = Some ''0'', fk_forkID = Some ''0'', fk_executed = Some True, fk_executedAt = Some ''200'',
      fk_forkTreasury = None, fk_forkToken = None, fk_tokensForkingCount = None, fk_tokensInEscrowCount = None,
      fk_forkingPeriodEndTimestamp = Some ''300'', fk_addedNouns = []\<rparr>) =
   {#Withdrawal \<lparr>wd_eventType = [], wd_id = ''w'', wd_createdAt = ''150'', wd_owner = ''o'', wd_tokenIDs = [''3'']\<rparr>#} +
   mset (fork_events
     \<lparr>fk_id = Some ''0'', fk_forkID = Some ''0'', fk_executed = Some True, fk_executedAt = Some ''200'',
      fk_forkTreasury = None, fk_forkToken = None, fk_tokensForkingCount = None, fk_tokensInEscrowCount = None,
      fk_forkingPeriodEndTimestamp = Some ''300'', fk_addedNouns = []\<rparr>)"
proof -
  have "string_to_int ''300'' = Some 300" "int_to_string 300 = ''300''" by code_simp+
  then show ?thesis
    using fork_timeline [of "[Withdrawal \<lparr>wd_eventType = [], wd_id = ''w'', wd_createdAt = ''150'', wd_owner = ''o'', wd_tokenIDs = [''3'']\<rparr>]"
      "\<lparr>fk_id = Some ''0'', fk_forkID = Some ''0'', fk_executed = Some True, fk_executedAt = Some ''200'',
      fk_forkTreasury = None, fk_forkToken = None, fk_tokensForkingCount = None, fk_tokensInEscrowCount = None,
      fk_forkingPeriodEndTimestamp = Some ''300'', fk_addedNouns = []\<rparr>"]
    by (simp add: truthy_def event_createdAt_def fork_events_def fork_end_text_def)
qed

end
