(* ===== verification/Webapp_Data.thy ===== *)
theory Webapp_Data
  imports Webapp_Dao
begin

text \<open>
  Proposal candidates in the web application (\<open>packages/nouns-webapp/src/wrappers/nounsData.ts\<close>):
  the sponsors of a candidate and their votes, the parsed candidates, and the versions of a
  candidate. Time stamps are whole seconds.
\<close>

section \<open>Types\<close>

record Delegate =
  dg_id :: string
  dg_nounsRepresented :: "string list"

record CandidateSignature =
  sg_reason :: string
  sg_expirationTimestamp :: int
  sg_sig :: string
  sg_canceled :: bool
  sg_signer :: string
  sg_proposals :: "string list"
  sg_voteCount :: "int option"
  sg_activeOrPendingProposal :: "bool option"

text \<open>The content of the latest version of a candidate, as the indexer answers.\<close>

record candidate_answer =
  ca_description :: "string option"
  ca_targets :: "string list option"
  ca_values :: "string list option"
  ca_signatures :: "string list"
  ca_calldatas :: "string list"
  ca_encodedProposalHash :: "string option"
  ca_proposalIdToUpdate :: "string option"
  ca_contentSignatures :: "CandidateSignature list option"
  ca_matchingProposalIds :: "string list"

record ProposalCandidateSubgraphEntity =
  pcs_id :: string
  pcs_slug :: string
  pcs_proposer :: string
  pcs_lastUpdatedTimestamp :: int
  pcs_canceled :: bool
  pcs_createdTransactionHash :: string
  pcs_versions :: "string list"
  pcs_content :: candidate_answer

record ProposalCandidateInfo =
  pci_id :: string
  pci_slug :: string
  pci_proposer :: string
  pci_lastUpdatedTimestamp :: int
  pci_canceled :: bool
  pci_versionsCount :: nat
  pci_createdTransactionHash :: string

record ProposalCandidate = ProposalCandidateInfo +
  pci_isProposal :: bool
  pci_proposalIdToUpdate :: "string option"
  pci_matchingProposalIds :: "string list"
  pci_requiredVotes :: int
  pci_neededVotes :: int
  pci_proposerVotes :: int
  pci_voteCount :: int
  pcv_title :: string
  pcv_description :: string
  pcv_details :: "ProposalDetail list"
  pcv_transactionHash :: "string option"
  pcv_contentSignatures :: "CandidateSignature list"
  pcv_targets :: "string list option"
  pcv_values :: "string list option"
  pcv_signatures :: "string list"
  pcv_calldatas :: "string list"

section \<open>Sponsors\<close>

fun dedupe :: "string list \<Rightarrow> string list \<Rightarrow> string list" where
  "dedupe uniqueSigners [] = uniqueSigners"
| "dedupe uniqueSigners (signer # signers) =
     dedupe (if signer \<notin> set uniqueSigners then uniqueSigners @ [signer] else uniqueSigners) signers"

definition deDupeSigners :: "string list \<Rightarrow> string list" where
  "deDupeSigners signers = dedupe [] signers"

definition delegate_votes :: "Delegate list option \<Rightarrow> string \<Rightarrow> int" where
  "delegate_votes snapshot signer =
     (case Option.bind snapshot (find (\<lambda>d. dg_id d = signer)) of
        None \<Rightarrow> 0 | Some d \<Rightarrow> int (length (dg_nounsRepresented d)))"

text \<open>\<open>proposalIdToUpdate && updatableProposalIds?.includes(proposalIdToUpdate ?? 0)\<close>.\<close>

definition parentProposalIsUpdatable :: "int option \<Rightarrow> int option list option \<Rightarrow> bool" where
  "parentProposalIsUpdatable proposalIdToUpdate updatableProposalIds =
     (case (proposalIdToUpdate, updatableProposalIds) of
        (Some i, Some is) \<Rightarrow> i \<noteq> 0 \<and> Some i \<in> set is | _ \<Rightarrow> False)"

definition sig_with_votes :: "Delegate list option \<Rightarrow> (string \<Rightarrow> bool) \<Rightarrow> CandidateSignature \<Rightarrow> CandidateSignature" where
  "sig_with_votes snapshot busy signature =
     signature\<lparr>sg_voteCount := Some (delegate_votes snapshot (sg_signer signature)),
               sg_activeOrPendingProposal := Some (busy (sg_signer signature))\<rparr>"

text \<open>The loop over the valid signatures: the votes counted so far and the signatures shown.\<close>

fun count_signers ::
  "Delegate list option \<Rightarrow> (string \<Rightarrow> bool) \<Rightarrow> CandidateSignature list \<Rightarrow> int \<Rightarrow> CandidateSignature list \<Rightarrow>
   int \<times> CandidateSignature list" where
  "count_signers snapshot busy [] voteCount activeSigs = (voteCount, activeSigs)"
| "count_signers snapshot busy (signature # sigs) voteCount activeSigs =
     count_signers snapshot busy sigs
       (if busy (sg_signer signature) then voteCount else voteCount + delegate_votes snapshot (sg_signer signature))
       (activeSigs @ [sig_with_votes snapshot busy signature])"

definition filterSigners ::
  "int \<Rightarrow> Delegate list option \<Rightarrow> string list \<Rightarrow> CandidateSignature list option \<Rightarrow> int option \<Rightarrow>
   int option list option \<Rightarrow> CandidateSignature list \<times> int" where
  "filterSigners timestampNow delegateSnapshot activePendingProposers signers proposalIdToUpdate
     updatableProposalIds =
     (let sigsFiltered = filter (\<lambda>sig. \<not> sg_canceled sig \<and> timestampNow < sg_expirationTimestamp sig)
            (case signers of None \<Rightarrow> [] | Some ss \<Rightarrow> ss);
          busy = (\<lambda>signer. \<not> parentProposalIsUpdatable proposalIdToUpdate updatableProposalIds \<and>
                    signer \<in> set activePendingProposers);
          (voteCount, activeSigs) = count_signers delegateSnapshot busy sigsFiltered 0 [];
          filteredSignatures = filter (\<lambda>sig. \<not> sg_canceled sig \<and>
            timestampNow < 1000 * sg_expirationTimestamp sig) activeSigs
      in (js_sort (\<lambda>a b. sg_expirationTimestamp a - sg_expirationTimestamp b) filteredSignatures, voteCount))"

section \<open>Candidates\<close>

definition answer_details :: "candidate_answer \<Rightarrow> ProposalTransactionDetails" where
  "answer_details c =
     \<lparr>ptd_targets = ca_targets c, ptd_values = ca_values c, ptd_result3 = None,
      ptd_signatures = ca_signatures c, ptd_calldatas = ca_calldatas c,
      ptd_encodedProposalHash = ca_encodedProposalHash c\<rparr>"

definition requiredVotes :: "int \<Rightarrow> int \<Rightarrow> int" where
  "requiredVotes threshold proposerVotes =
     (if threshold + 1 - proposerVotes > 0 then threshold + 1 - proposerVotes else 0)"

text \<open>
  Parsing throws when formatting the details throws, and when there are no details: the field
  \<open>encodedProposalHash\<close> is then read of \<open>undefined\<close>. Read of the list of details it is
  \<open>undefined\<close> itself.
\<close>

definition parseSubgraphCandidate ::
  "web_env \<Rightarrow> ProposalCandidateSubgraphEntity \<Rightarrow> int \<Rightarrow> int \<Rightarrow> int \<Rightarrow> string list \<Rightarrow> bool \<Rightarrow>
   Delegate list option \<Rightarrow> int option list option \<Rightarrow> ProposalCandidate option" where
  "parseSubgraphCandidate env candidate proposerVotes threshold timestamp activePendingProposers
     toUpdate delegateSnapshot updatableProposalIds =
     do {
       let c = pcs_content candidate;
       let description = clean_description (ca_description c);
       let transactionDetails = answer_details c;
       formatted \<leftarrow> (if toUpdate then formatProposalTransactionDetailsToUpdate transactionDetails
                      else formatProposalTransactionDetails env transactionDetails);
       details \<leftarrow> formatted;
       let (activeSigs, voteCount) = filterSigners timestamp delegateSnapshot activePendingProposers
             (ca_contentSignatures c)
             (if truthy (ca_proposalIdToUpdate c) then parseInt (the (ca_proposalIdToUpdate c)) else None)
             updatableProposalIds;
       Some \<lparr>pci_id = pcs_id candidate, pci_slug = pcs_slug candidate, pci_proposer = pcs_proposer candidate,
         pci_lastUpdatedTimestamp = pcs_lastUpdatedTimestamp candidate, pci_canceled = pcs_canceled candidate,
         pci_versionsCount = length (pcs_versions candidate),
         pci_createdTransactionHash = pcs_createdTransactionHash candidate,
         pci_isProposal = (0 < length (ca_matchingProposalIds c)),
         pci_proposalIdToUpdate = ca_proposalIdToUpdate c,
         pci_matchingProposalIds = ca_matchingProposalIds c,
         pci_requiredVotes = requiredVotes threshold proposerVotes,
         pci_neededVotes = requiredVotes threshold proposerVotes,
         pci_proposerVotes = proposerVotes,
         pci_voteCount = voteCount,
         pcv_title = display_title description,
         pcv_description = (case description of None \<Rightarrow> ''No description.'' | Some d \<Rightarrow> d),
         pcv_details = details, pcv_transactionHash = None,
         pcv_contentSignatures = activeSigs,
         pcv_targets = ca_targets c, pcv_values = ca_values c,
         pcv_signatures = ca_signatures c, pcv_calldatas = ca_calldatas c\<rparr>
     }"

text \<open>What the list of candidates reads besides the candidates themselves.\<close>

record candidate_inputs =
  cin_timestampNow :: int
  cin_threshold :: int
  cin_activePendingProposers :: "string list"
  cin_updatableProposalIds :: "int option list option"
  cin_delegatesAt :: "string list \<Rightarrow> Delegate list option"

definition unmatchedCandidates ::
  "ProposalCandidateSubgraphEntity list \<Rightarrow> ProposalCandidateSubgraphEntity list" where
  "unmatchedCandidates cs =
     filter (\<lambda>c. length (ca_matchingProposalIds (pcs_content c)) = 0 \<and> \<not> pcs_canceled c) cs"

definition candidate_signers :: "ProposalCandidateSubgraphEntity \<Rightarrow> string list" where
  "candidate_signers c =
     (case ca_contentSignatures (pcs_content c) of None \<Rightarrow> [] | Some ss \<Rightarrow> map sg_signer ss)"

definition useCandidateProposals ::
  "web_env \<Rightarrow> candidate_inputs \<Rightarrow> ProposalCandidateSubgraphEntity list query_result \<Rightarrow>
   ProposalCandidate list option hook_data option" where
  "useCandidateProposals env i q =
     (let unmatched = map_option unmatchedCandidates (qr_data q);
          proposerDelegates = cin_delegatesAt i (case unmatched of None \<Rightarrow> [] | Some cs \<Rightarrow> map pcs_proposer cs);
          allSigners = map_option (\<lambda>cs. concat (map candidate_signers cs)) unmatched;
          snapshot = cin_delegatesAt i (case allSigners of None \<Rightarrow> [] | Some ss \<Rightarrow> deDupeSigners ss);
          parse = (\<lambda>c. parseSubgraphCandidate env c
             (delegate_votes proposerDelegates (toLowerCase (pcs_proposer c)))
             (cin_threshold i) (cin_timestampNow i) (cin_activePendingProposers i) False snapshot
             (cin_updatableProposalIds i))
      in map_option (\<lambda>d. \<lparr>hd_loading = qr_loading q, hd_error = qr_error q, hd_data = d\<rparr>)
         (case (proposerDelegates, unmatched) of
            (Some _, Some cs) \<Rightarrow> map_option
               (\<lambda>ps. Some (js_sort (\<lambda>a b. pci_lastUpdatedTimestamp a - pci_lastUpdatedTimestamp b) ps))
               (those (map parse cs))
          | _ \<Rightarrow> Some None))"

definition useCandidateProposal ::
  "web_env \<Rightarrow> candidate_inputs \<Rightarrow> ProposalCandidateSubgraphEntity query_result \<Rightarrow> bool \<Rightarrow>
   ProposalCandidate option hook_data option" where
  "useCandidateProposal env i q toUpdate =
     (let allSigners = map_option candidate_signers (qr_data q);
          proposerDelegates = cin_delegatesAt i (case qr_data q of None \<Rightarrow> [] | Some c \<Rightarrow> [pcs_proposer c]);
          proposerNounVotes = (case proposerDelegates of
             Some (d # _) \<Rightarrow> int (length (dg_nounsRepresented d)) | _ \<Rightarrow> 0);
          snapshot = cin_delegatesAt i (case allSigners of None \<Rightarrow> [] | Some ss \<Rightarrow> deDupeSigners ss)
      in map_option (\<lambda>d. \<lparr>hd_loading = qr_loading q, hd_error = qr_error q, hd_data = d\<rparr>)
         (case (proposerDelegates, qr_data q) of
            (Some _, Some c) \<Rightarrow> map_option Some
               (parseSubgraphCandidate env c proposerNounVotes (cin_threshold i) (cin_timestampNow i)
                  (cin_activePendingProposers i) toUpdate snapshot (cin_updatableProposalIds i))
          | _ \<Rightarrow> Some None))"

section \<open>Versions of a candidate\<close>

record candidate_version_answer =
  cva_createdTimestamp :: int
  cva_updateMessage :: string
  cva_content :: candidate_answer

record ProposalCandidateVersionsSubgraphEntity =
  pcvs_id :: string
  pcvs_slug :: string
  pcvs_proposer :: string
  pcvs_lastUpdatedTimestamp :: int
  pcvs_canceled :: bool
  pcvs_createdTransactionHash :: string
  pcvs_versions :: "candidate_version_answer list"
  pcvs_latestDescription :: "string option"

record ProposalCandidateVersionContent =
  vc_title :: string
  vc_description :: string
  vc_details :: "ProposalDetail list option"
  vc_createdAt :: int
  vc_updateMessage :: string
  vc_versionNumber :: int

record ProposalCandidateVersions = ProposalCandidateInfo +
  vs_title :: string
  vs_description :: string
  vs_versions :: "ProposalCandidateVersionContent list"

definition version_content ::
  "web_env \<Rightarrow> int \<Rightarrow> candidate_version_answer \<Rightarrow> ProposalCandidateVersionContent option" where
  "version_content env number v =
     (let description = clean_description (ca_description (cva_content v))
      in map_option (\<lambda>details.
           \<lparr>vc_title = display_title description,
            vc_description = (case description of None \<Rightarrow> ''No description.'' | Some d \<Rightarrow> d),
            vc_details = details, vc_createdAt = cva_createdTimestamp v,
            vc_updateMessage = cva_updateMessage v, vc_versionNumber = number\<rparr>)
         (formatProposalTransactionDetails env (answer_details (cva_content v))))"

definition parseSubgraphCandidateVersions ::
  "web_env \<Rightarrow> ProposalCandidateVersionsSubgraphEntity option \<Rightarrow> ProposalCandidateVersions option option" where
  "parseSubgraphCandidateVersions env candidateVersions =
     (case candidateVersions of
        None \<Rightarrow> Some None
      | Some cv \<Rightarrow>
          let versionsByDate = js_sort (\<lambda>a b. cva_createdTimestamp b - cva_createdTimestamp a) (pcvs_versions cv);
              n = length (pcvs_versions cv)
          in map_option (\<lambda>versions. Some
               \<lparr>pci_id = pcvs_id cv, pci_slug = pcvs_slug cv, pci_proposer = pcvs_proposer cv,
                pci_lastUpdatedTimestamp = pcvs_lastUpdatedTimestamp cv, pci_canceled = pcvs_canceled cv,
                pci_versionsCount = n, pci_createdTransactionHash = pcvs_createdTransactionHash cv,
                vs_title = display_title (pcvs_latestDescription cv),
                vs_description = (case pcvs_latestDescription cv of None \<Rightarrow> ''No description.'' | Some d \<Rightarrow> d),
                vs_versions = versions\<rparr>)
             (those (map (\<lambda>i. version_content env (int n - int i) (versionsByDate ! i)) [0..<length versionsByDate])))"

definition useCandidateProposalVersions ::
  "web_env \<Rightarrow> ProposalCandidateVersionsSubgraphEntity query_result \<Rightarrow>
   ProposalCandidateVersions option hook_data option" where
  "useCandidateProposalVersions env q =
     map_option (\<lambda>d. \<lparr>hd_loading = qr_loading q, hd_error = qr_error q, hd_data = d\<rparr>)
       (parseSubgraphCandidateVersions env (qr_data q))"

section \<open>Costs, feedback and transactions\<close>

definition data_call :: "web_config \<Rightarrow> string \<Rightarrow> call_request option" where
  "data_call cfg method =
     map_option (\<lambda>a. \<lparr>cr_address = a, cr_method = method, cr_args = []\<rparr>) (wc_nounsDAOData cfg)"

definition useGetCreateCandidateCost :: "chain_calls \<Rightarrow> web_config \<Rightarrow> cval option" where
  "useGetCreateCandidateCost chain cfg = js_nth (useContractCall chain (data_call cfg ''createCandidateCost'')) 0"

definition useGetUpdateCandidateCost :: "chain_calls \<Rightarrow> web_config \<Rightarrow> cval option" where
  "useGetUpdateCandidateCost chain cfg = js_nth (useContractCall chain (data_call cfg ''updateCandidateCost'')) 0"

definition data_address :: "web_config \<Rightarrow> string" where
  "data_address cfg = the (wc_nounsDAOData cfg)"

definition useCreateProposalCandidate :: "web_config \<Rightarrow> string list \<Rightarrow> tx_request" where
  "useCreateProposalCandidate cfg = useContractFunction (data_address cfg) ''createProposalCandidate''"

definition useCancelCandidate :: "web_config \<Rightarrow> string list \<Rightarrow> tx_request" where
  "useCancelCandidate cfg = useContractFunction (data_address cfg) ''cancelProposalCandidate''"

definition useAddSignature :: "web_config \<Rightarrow> string list \<Rightarrow> tx_request" where
  "useAddSignature cfg = useContractFunction (data_address cfg) ''addSignature''"

definition useUpdateProposalCandidate :: "web_config \<Rightarrow> string list \<Rightarrow> tx_request" where
  "useUpdateProposalCandidate cfg = useContractFunction (data_address cfg) ''updateProposalCandidate''"

definition useCancelSignature_data :: "web_config \<Rightarrow> string list \<Rightarrow> tx_request" where
  "useCancelSignature_data cfg = useContractFunction (data_address cfg) ''cancelSig''"

definition useSendFeedback :: "web_config \<Rightarrow> string option \<Rightarrow> string list \<Rightarrow> tx_request" where
  "useSendFeedback cfg proposalType = useContractFunction (data_address cfg)
     (if proposalType = Some ''candidate'' then ''sendCandidateFeedback'' else ''sendFeedback'')"

definition useProposeBySigs :: "web_config \<Rightarrow> string list \<Rightarrow> tx_request" where
  "useProposeBySigs cfg = useContractFunction (wc_nounsDAOProxy cfg) ''proposeBySigs''"

definition useUpdateProposalBySigs :: "web_config \<Rightarrow> string list \<Rightarrow> tx_request" where
  "useUpdateProposalBySigs cfg = useContractFunction (wc_nounsDAOProxy cfg) ''updateProposalBySigs''"

end
