(* ===== verification/Webapp_Details.thy ===== *)
theory Webapp_Details
  imports Webapp_Proposal
begin

text \<open>
  The transactions of a proposal as the web application lists them: splitting a signature into
  its name and argument types, and the details shown for each call.
\<close>

section \<open>Splitting argument types\<close>

text \<open>Types without nested tuples: at most one pair of parentheses, commas only inside it.\<close>

definition plain :: "string \<Rightarrow> bool" where
  "plain s = (set s \<inter> {CHR ''('', CHR '')'', CHR '',''} = {})"

definition flat_type :: "string \<Rightarrow> bool" where
  "flat_type t \<longleftrightarrow> plain t \<or> (\<exists>a b c. t = a @ ''('' @ b @ '')'' @ c \<and> plain a \<and> plain c \<and>
     CHR ''('' \<notin> set b \<and> CHR '')'' \<notin> set b)"

text \<open>A closing parenthesis comes before the next opening one.\<close>

definition closes :: "string \<Rightarrow> bool" where
  "closes s = (CHR '')'' \<in> set (takeWhile (\<lambda>d. d \<noteq> CHR ''('') s))"

lemma closes_simps [simp]:
  "closes [] = False"
  "closes (c # s) = (c = CHR '')'' \<or> c \<noteq> CHR ''('' \<and> closes s)"
  by (auto simp: closes_def)

lemma closes_plain: "plain a \<Longrightarrow> closes (a @ s) = closes s"
  by (induction a) (auto simp: plain_def)

lemma split_types_simps:
  "split_types acc (c # cs) = (if c = CHR '','' \<and> \<not> closes cs then acc # split_types [] cs
     else split_types (acc @ [c]) cs)"
  by (simp add: closes_def)

declare split_types.simps(2) [simp del] split_types_simps [simp]

lemma split_types_plain: "plain a \<Longrightarrow> split_types acc (a @ s) = split_types (acc @ a) s"
  by (induction a arbitrary: acc) (auto simp: plain_def)

lemma split_types_inside:
  "CHR ''('' \<notin> set b \<Longrightarrow> split_types acc (b @ CHR '')'' # s) = split_types (acc @ b @ '')'') s"
proof (induction b arbitrary: acc)
  case (Cons c b)
  have "closes (b @ CHR '')'' # s)" using Cons.prems by (induction b) auto
  with Cons show ?case by auto
qed simp

lemma split_types_flat: "flat_type t \<Longrightarrow> split_types acc (t @ s) = split_types (acc @ t) s"
  unfolding flat_type_def
proof (elim disjE exE conjE)
  fix a b c assume "t = a @ ''('' @ b @ '')'' @ c" "plain a" "plain c" "CHR ''('' \<notin> set b"
  then show ?thesis
    using split_types_plain [of a] split_types_plain [of c] split_types_inside [of b] by simp
qed (rule split_types_plain)

lemma closes_flat: "flat_type t \<Longrightarrow> closes (t @ s) \<Longrightarrow> plain t \<and> closes s"
  by (auto simp: flat_type_def closes_plain)

lemma join_not_closes: "\<forall>t\<in>set ts. flat_type t \<Longrightarrow> \<not> closes (js_join '','' ts)"
proof (induction ts)
  case (Cons t ts)
  show ?case
  proof
    assume c: "closes (js_join '','' (t # ts))"
    show False
    proof (cases ts)
      case Nil
      with c Cons.prems closes_flat [of t "[]"] show False by simp
    next
      case (Cons u us)
      then have "js_join '','' (t # ts) = t @ '','' @ js_join '','' ts" by simp
      with c Cons.prems closes_flat [of t "'','' @ js_join '','' ts"]
      have "closes (js_join '','' ts)" by simp
      with Cons.IH Cons.prems show False by simp
    qed
  qed
qed simp

lemma split_types_join:
  "ts \<noteq> [] \<Longrightarrow> \<forall>t\<in>set ts. flat_type t \<Longrightarrow> split_types [] (js_join '','' ts) = ts"
proof (induction ts)
  case (Cons t ts)
  note IH = Cons.IH and prems = Cons.prems
  show ?case
  proof (cases ts)
    case Nil
    with prems show ?thesis using split_types_flat [of t "[]" "[]"] by simp
  next
    case (Cons u us)
    have "\<not> closes (js_join '','' ts)" using prems join_not_closes [of ts] by simp
    with Cons IH prems show ?thesis
      using split_types_flat [of t "[]" "'','' @ js_join '','' ts"] by simp
  qed
qed simp

lemma split_signature_call:
  assumes "CHR ''('' \<notin> set name"
  shows "split_signature (name @ ''('' @ types @ '')'') = (name, Some types)"
proof -
  have "js_substring (name @ ''('' @ types @ '')'') 0 (int (length (name @ ''('' @ types @ '')'')) - 1) =
      name @ CHR ''('' # types"
    by (simp add: js_substring_def clamp_index_def Let_def nat_add_distrib)
  moreover have "takeWhile (\<lambda>c. c \<noteq> CHR ''('') (name @ CHR ''('' # types) = name"
    using assms by (subst takeWhile_append2) auto
  moreover have "dropWhile (\<lambda>c. c \<noteq> CHR ''('') (name @ CHR ''('' # types) = CHR ''('' # types"
    using assms by (subst dropWhile_append2) auto
  ultimately show ?thesis by (simp add: split_signature_def Let_def)
qed


section \<open>Details\<close>

text \<open>One signature, one value in decimal and one calldata per target.\<close>

definition wf_details :: "ProposalTransactionDetails \<Rightarrow> string list \<Rightarrow> bool" where
  "wf_details d ts \<longleftrightarrow> ptd_targets d = Some ts \<and>
     (\<exists>vs. ptd_values d = Some vs \<and> length vs = length ts \<and> (\<forall>v\<in>set vs. string_to_int v \<noteq> None)) \<and>
     length (ptd_signatures d) = length ts \<and> length (ptd_calldatas d) = length ts"

lemma wf_amount:
  assumes "wf_details d ts" "i < length ts"
  obtains val where "(case detail_amount d i of None \<Rightarrow> Some 0 | Some v \<Rightarrow> string_to_int v) = Some val"
proof -
  obtain vs where vs: "ptd_values d = Some vs" "length vs = length ts" "\<forall>v\<in>set vs. string_to_int v \<noteq> None"
    using assms(1) by (auto simp: wf_details_def)
  then have "vs ! i \<in> set vs" using assms(2) by simp
  then obtain val where "string_to_int (vs ! i) = Some val" using vs(3) by blast
  with that show ?thesis using vs assms(2) by (simp add: detail_amount_def js_nth_def)
qed

lemma raw_detail_Some [simp]:
  "raw_detail env target signature (Some c) val =
     Some \<lparr>pd_target = target, pd_value = Some (ValueText (ether_note env val '' '')),
       pd_functionSig = None, pd_callData = Some (concatSelectorToCalldata env signature c)\<rparr>"
  by (simp add: raw_detail_def)

lemma format_detail_total:
  assumes "wf_details d ts" "i < length ts"
  shows "\<exists>x. format_detail env d target i = Some x \<and> pd_target x = target"
proof -
  obtain val where val: "(case detail_amount d i of None \<Rightarrow> Some 0 | Some v \<Rightarrow> string_to_int v) = Some val"
    using assms by (rule wf_amount)
  have "js_nth (ptd_signatures d) i = Some (ptd_signatures d ! i)"
       "js_nth (ptd_calldatas d) i = Some (ptd_calldatas d ! i)"
    using assms by (auto simp: wf_details_def js_nth_def)
  then show ?thesis
    by (auto simp: format_detail_def val Let_def split: prod.splits option.splits)
qed

lemma format_detail_call:
  assumes "wf_details d ts" "i < length ts"
    and "ptd_signatures d ! i = name @ ''('' @ js_join '','' tys @ '')''" "name \<noteq> []" "CHR ''('' \<notin> set name"
    and "js_join '','' tys \<noteq> []" "\<forall>t\<in>set tys. flat_type t"
    and "format_detail env d target i = Some x"
  shows "case we_abiDecode env tys (ptd_calldatas d ! i) of
      Some decoded \<Rightarrow> pd_functionSig x = Some name \<and> pd_callData x = Some (js_join '','' decoded)
    | None \<Rightarrow> pd_functionSig x = None \<and>
        pd_callData x = Some (concatSelectorToCalldata env (ptd_signatures d ! i) (ptd_calldatas d ! i))"
proof -
  obtain val where val: "(case detail_amount d i of None \<Rightarrow> Some 0 | Some v \<Rightarrow> string_to_int v) = Some val"
    using assms(1,2) by (rule wf_amount)
  have n: "js_nth (ptd_signatures d) i = Some (ptd_signatures d ! i)"
       "js_nth (ptd_calldatas d) i = Some (ptd_calldatas d ! i)"
    using assms by (auto simp: wf_details_def js_nth_def)
  have s: "split_signature (ptd_signatures d ! i) = (name, Some (js_join '','' tys))"
    using split_signature_call [OF assms(5)] assms(3) by simp
  have "tys \<noteq> []" using assms(6) by auto
  then have t: "split_types [] (js_join '','' tys) = tys" using assms(7) by (rule split_types_join)
  show ?thesis
    using assms(4,6,8) by (auto simp: format_detail_def val n s t Let_def split: option.splits)
qed

text \<open>
  C15: For well-formed transaction details, formatting does not throw and lists the targets in
  order, one detail each. A call whose signature has a name and argument types without nested
  tuples is decoded with exactly those types: its name and decoded arguments are shown, and
  when the calldata does not decode the raw calldata with the selector in front.
\<close>

theorem details_show_each_call:
  assumes "wf_details d ts"
  shows "\<exists>ds. formatProposalTransactionDetails env d = Some (Some ds) \<and> map pd_target ds = ts \<and>
    (\<forall>i name tys. i < length ts \<and> name \<noteq> [] \<and> CHR ''('' \<notin> set name \<and> js_join '','' tys \<noteq> [] \<and>
       (\<forall>t\<in>set tys. flat_type t) \<and> ptd_signatures d ! i = name @ ''('' @ js_join '','' tys @ '')'' \<longrightarrow>
       (case we_abiDecode env tys (ptd_calldatas d ! i) of
          Some decoded \<Rightarrow> pd_functionSig (ds ! i) = Some name \<and> pd_callData (ds ! i) = Some (js_join '','' decoded)
        | None \<Rightarrow> pd_functionSig (ds ! i) = None \<and> pd_callData (ds ! i) =
            Some (concatSelectorToCalldata env (ptd_signatures d ! i) (ptd_calldatas d ! i))))"
proof -
  let ?f = "\<lambda>i. format_detail env d (ts ! i) i"
  obtain ds where ds: "those (map ?f [0..<length ts]) = Some ds" "length ds = length ts"
      "\<forall>i<length ts. ?f i = Some (ds ! i)"
    using those_map_total [of "length ts" ?f] format_detail_total [OF assms] by blast
  have "pd_target (ds ! i) = ts ! i" if "i < length ts" for i
    using format_detail_total [OF assms that, of env "ts ! i"] ds(3) that by auto
  then have "map pd_target ds = ts" using ds(2) by (simp add: list_eq_iff_nth_eq)
  moreover have "formatProposalTransactionDetails env d = Some (Some ds)"
    using assms ds(1) by (simp add: formatProposalTransactionDetails_def wf_details_def)
  ultimately show ?thesis
    using format_detail_call [OF assms] ds(3) by blast
qed

definition demo_web_env :: web_env where
  "demo_web_env = \<lparr>we_keccak_text = (\<lambda>_. ''0x00000000''), we_formatEther = int_to_string,
     we_abiDecode = (\<lambda>types _. if types = [''uint256'', ''(bool,bool)''] then Some [''7'', ''true,false''] else None)\<rparr>"

definition demo_details :: ProposalTransactionDetails where
  "demo_details = \<lparr>ptd_targets = Some [''0xa''], ptd_values = Some [''0''], ptd_result3 = None,
     ptd_signatures = [''pay(uint256,(bool,bool))''], ptd_calldatas = [''0x00''],
     ptd_encodedProposalHash = None\<rparr>"

theorem details_show_each_call_witness:
  "\<exists>ds. formatProposalTransactionDetails demo_web_env demo_details = Some (Some ds) \<and>
     map pd_target ds = [''0xa''] \<and> pd_functionSig (ds ! 0) = Some ''pay'' \<and>
     pd_callData (ds ! 0) = Some ''7,true,false''"
proof -
  have "string_to_int ''0'' = Some 0" by code_simp
  then have wf: "wf_details demo_details [''0xa'']" by (simp add: wf_details_def demo_details_def)
  have "flat_type ''uint256''" by (simp add: flat_type_def plain_def)
  moreover have "flat_type ''(bool,bool)''"
    unfolding flat_type_def
    by (rule disjI2, rule exI [of _ "[]"], rule exI [of _ "''bool,bool''"], rule exI [of _ "[]"])
      (simp add: plain_def)
  moreover have "we_abiDecode demo_web_env [''uint256'', ''(bool,bool)''] (ptd_calldatas demo_details ! 0) =
      Some [''7'', ''true,false'']"
    by (simp add: demo_web_env_def)
  moreover have "ptd_signatures demo_details ! 0 = ''pay'' @ ''('' @ js_join '','' [''uint256'', ''(bool,bool)''] @ '')''"
    by (simp add: demo_details_def)
  moreover obtain ds where ds: "formatProposalTransactionDetails demo_web_env demo_details = Some (Some ds)"
      "map pd_target ds = [''0xa'']"
      "\<forall>i name tys. i < length [''0xa''] \<and> name \<noteq> [] \<and> CHR ''('' \<notin> set name \<and> js_join '','' tys \<noteq> [] \<and>
       (\<forall>t\<in>set tys. flat_type t) \<and> ptd_signatures demo_details ! i = name @ ''('' @ js_join '','' tys @ '')'' \<longrightarrow>
       (case we_abiDecode demo_web_env tys (ptd_calldatas demo_details ! i) of
          Some decoded \<Rightarrow> pd_functionSig (ds ! i) = Some name \<and> pd_callData (ds ! i) = Some (js_join '','' decoded)
        | None \<Rightarrow> pd_functionSig (ds ! i) = None \<and> pd_callData (ds ! i) =
            Some (concatSelectorToCalldata demo_web_env (ptd_signatures demo_details ! i) (ptd_calldatas demo_details ! i)))"
    using details_show_each_call [OF wf, of demo_web_env] by (elim exE conjE) (rule that)
  ultimately show ?thesis
    using ds(3) [rule_format, of 0 "''pay''" "[''uint256'', ''(bool,bool)'']"] by simp
qed

end
