(* ===== verification/Webapp_Data_Props.thy ===== *)
theory Webapp_Data_Props
  imports Webapp_Data Webapp_Details
begin

text \<open>
  Properties of proposal candidates and of versions in the web application: who counts as a
  sponsor, when a candidate has enough votes, and how versions are numbered.
\<close>

section \<open>Sponsors\<close>

lemma dedupe_props: "distinct acc \<Longrightarrow> distinct (dedupe acc ss) \<and> set (dedupe acc ss) = set acc \<union> set ss"
  by (induction acc ss rule: dedupe.induct) auto

lemma deDupeSigners_props: "distinct (deDupeSigners ss) \<and> set (deDupeSigners ss) = set ss"
  using dedupe_props [of "[]" ss] by (simp add: deDupeSigners_def)

interpretation expiration_order: consistent_comparator
  "\<lambda>a b. sg_expirationTimestamp a - sg_expirationTimestamp b" UNIV
  by unfold_locales auto

interpretation update_order: consistent_comparator
  "\<lambda>a b :: ProposalCandidate. pci_lastUpdatedTimestamp a - pci_lastUpdatedTimestamp b" UNIV
  by unfold_locales auto

text \<open>Which signatures count: neither cancelled nor expired, and whose signer has no open
  proposal unless the candidate updates a proposal that can still be updated.\<close>

definition sponsor_valid :: "int \<Rightarrow> CandidateSignature \<Rightarrow> bool" where
  "sponsor_valid now sig \<longleftrightarrow> \<not> sg_canceled sig \<and> now < sg_expirationTimestamp sig"

definition sponsor_busy :: "string list \<Rightarrow> int option \<Rightarrow> int option list option \<Rightarrow> string \<Rightarrow> bool" where
  "sponsor_busy proposers pid ids signer \<longleftrightarrow>
     \<not> parentProposalIsUpdatable pid ids \<and> signer \<in> set proposers"

lemma count_signers_eq:
  "count_signers sn busy ss n as =
     (n + (\<Sum>s\<leftarrow>ss. if busy (sg_signer s) then 0 else delegate_votes sn (sg_signer s)),
      as @ map (sig_with_votes sn busy) ss)"
  by (induction ss arbitrary: n as) auto

lemma sig_with_votes_simps [simp]:
  "sg_canceled (sig_with_votes sn busy s) = sg_canceled s"
  "sg_expirationTimestamp (sig_with_votes sn busy s) = sg_expirationTimestamp s"
  by (simp_all add: sig_with_votes_def)

lemma filterSigners_eq:
  assumes "0 \<le> now"
  shows "filterSigners now sn proposers (Some ss) pid ids =
    (js_sort (\<lambda>a b. sg_expirationTimestamp a - sg_expirationTimestamp b)
       (map (sig_with_votes sn (sponsor_busy proposers pid ids)) (filter (sponsor_valid now) ss)),
     \<Sum>s\<leftarrow>filter (sponsor_valid now) ss.
       if sponsor_busy proposers pid ids (sg_signer s) then 0 else delegate_votes sn (sg_signer s))"
proof -
  let ?b = "sponsor_busy proposers pid ids" and ?v = "filter (sponsor_valid now) ss"
  have b: "?b = (\<lambda>signer. \<not> parentProposalIsUpdatable pid ids \<and> signer \<in> set proposers)"
    by (simp add: sponsor_busy_def fun_eq_iff)
  have v: "sponsor_valid now = (\<lambda>sig. \<not> sg_canceled sig \<and> now < sg_expirationTimestamp sig)"
    by (simp add: sponsor_valid_def fun_eq_iff)
  have "filter (\<lambda>sig. \<not> sg_canceled sig \<and> now < 1000 * sg_expirationTimestamp sig) (map (sig_with_votes sn ?b) ?v) =
      map (sig_with_votes sn ?b) ?v"
    by (rule filter_True) (use assms in \<open>auto simp: sponsor_valid_def\<close>)
  then show ?thesis
    by (simp add: filterSigners_def count_signers_eq b v Let_def)
qed

text \<open>
  C16: The sponsors shown are exactly the signatures that are neither cancelled nor expired, each
  with its signer's votes, in the order of expiry; the vote count is the sum of the votes of
  those whose signer has no open proposal (any signer counts while the proposal to update can
  be updated).
\<close>

theorem sponsors_counted:
  assumes "0 \<le> now" and "filterSigners now sn proposers (Some ss) pid ids = (shown, votes)"
  shows "votes = (\<Sum>s\<leftarrow>filter (sponsor_valid now) ss.
      if sponsor_busy proposers pid ids (sg_signer s) then 0 else delegate_votes sn (sg_signer s)) \<and>
    mset shown = mset (map (sig_with_votes sn (sponsor_busy proposers pid ids)) (filter (sponsor_valid now) ss)) \<and>
    sorted_wrt (\<lambda>a b. sg_expirationTimestamp a \<le> sg_expirationTimestamp b) shown"
  using assms filterSigners_eq [OF assms(1)] sorted_js_sort_key [of sg_expirationTimestamp] by auto

theorem sponsors_counted_witness:
  "snd (filterSigners 100 (Some [\<lparr>dg_id = ''a'', dg_nounsRepresented = [''1'', ''2'']\<rparr>]) [''b'']
     (Some [\<lparr>sg_reason = [], sg_expirationTimestamp = 200, sg_sig = [], sg_canceled = False, sg_signer = ''a'',
             sg_proposals = [], sg_voteCount = None, sg_activeOrPendingProposal = None\<rparr>]) None None) = 2"
proof -
  obtain shown votes where "filterSigners 100 (Some [\<lparr>dg_id = ''a'', dg_nounsRepresented = [''1'', ''2'']\<rparr>]) [''b'']
     (Some [\<lparr>sg_reason = [], sg_expirationTimestamp = 200, sg_sig = [], sg_canceled = False, sg_signer = ''a'',
             sg_proposals = [], sg_voteCount = None, sg_activeOrPendingProposal = None\<rparr>]) None None = (shown, votes)"
    by (rule prod.exhaust)
  with sponsors_counted [OF _ this] show ?thesis
    by (simp add: sponsor_valid_def sponsor_busy_def delegate_votes_def)
qed

section \<open>Votes\<close>

lemma delegate_votes_nonneg: "0 \<le> delegate_votes sn s"
  by (simp add: delegate_votes_def split: option.splits)

lemma count_signers_nonneg: "0 \<le> n \<Longrightarrow> 0 \<le> fst (count_signers sn busy ss n as)"
  by (induction ss arbitrary: n as) (auto simp: delegate_votes_nonneg)

lemma filterSigners_nonneg: "0 \<le> snd (filterSigners now sn proposers ss pid ids)"
proof -
  let ?c = "count_signers sn (\<lambda>signer. \<not> parentProposalIsUpdatable pid ids \<and> signer \<in> set proposers)
    (filter (\<lambda>sig. \<not> sg_canceled sig \<and> now < sg_expirationTimestamp sig)
      (case ss of None \<Rightarrow> [] | Some ss \<Rightarrow> ss)) 0 []"
  obtain n as where c: "?c = (n, as)" by (rule prod.exhaust)
  moreover have "0 \<le> fst ?c" by (rule count_signers_nonneg) simp
  ultimately have "0 \<le> n" by simp
  then show ?thesis by (simp add: filterSigners_def c)
qed

lemma parse_candidate_votes:
  assumes "parseSubgraphCandidate env c proposerVotes threshold now proposers toUpdate sn ids = Some pc"
  shows "0 \<le> pci_voteCount pc \<and> pci_requiredVotes pc = requiredVotes threshold proposerVotes"
proof -
  let ?f = "filterSigners now sn proposers (ca_contentSignatures (pcs_content c))
    (if truthy (ca_proposalIdToUpdate (pcs_content c))
     then parseInt (the (ca_proposalIdToUpdate (pcs_content c))) else None) ids"
  obtain sigs votes where f: "?f = (sigs, votes)" by (rule prod.exhaust)
  then have "0 \<le> votes" using filterSigners_nonneg by (metis snd_conv)
  then show ?thesis using assms by (auto simp: parseSubgraphCandidate_def Let_def f)
qed

text \<open>
  A candidate shows at least as many sponsor votes as it requires exactly when the proposer's
  votes and the sponsors' votes together exceed the proposal threshold.
\<close>

theorem threshold_reached:
  assumes "parseSubgraphCandidate env c proposerVotes threshold now proposers toUpdate sn ids = Some pc"
  shows "pci_requiredVotes pc \<le> pci_voteCount pc \<longleftrightarrow> threshold < proposerVotes + pci_voteCount pc"
  using parse_candidate_votes [OF assms] by (auto simp: requiredVotes_def)

definition demo_candidate :: ProposalCandidateSubgraphEntity where
  "demo_candidate = \<lparr>pcs_id = ''c'', pcs_slug = ''s'', pcs_proposer = ''p'', pcs_lastUpdatedTimestamp = 1,
     pcs_canceled = False, pcs_createdTransactionHash = [], pcs_versions = [],
     pcs_content = \<lparr>ca_description = None, ca_targets = Some [], ca_values = Some [], ca_signatures = [],
       ca_calldatas = [], ca_encodedProposalHash = None, ca_proposalIdToUpdate = None,
       ca_contentSignatures = None, ca_matchingProposalIds = []\<rparr>\<rparr>"

theorem threshold_reached_witness:
  "\<exists>pc. parseSubgraphCandidate demo_web_env demo_candidate 1 2 100 [] False None None = Some pc \<and>
     (pci_requiredVotes pc \<le> pci_voteCount pc \<longleftrightarrow> 2 < 1 + pci_voteCount pc)"
proof -
  have "\<exists>pc. parseSubgraphCandidate demo_web_env demo_candidate 1 2 100 [] False None None = Some pc"
    by (auto simp: parseSubgraphCandidate_def demo_candidate_def formatProposalTransactionDetails_def
        answer_details_def Let_def split: prod.splits)
  then show ?thesis using threshold_reached [of demo_web_env demo_candidate 1 2 100 "[]" False None None] by blast
qed

section \<open>Versions\<close>

lemma version_content_props:
  "version_content env k v = Some x \<Longrightarrow> vc_versionNumber x = k \<and> vc_createdAt x = cva_createdTimestamp v"
  by (auto simp: version_content_def Let_def)

lemma number_version_props:
  "number_version env i v = Some x \<Longrightarrow>
   ve_versionNumber x = Suc i \<and> ve_createdAt x = ve_createdAt v \<and> ve_id x = ve_id v"
  by (auto simp: number_version_def)

text \<open>
  The versions of a candidate are listed newest first and numbered down from their count to
  one; every version is listed, provided no transaction makes formatting throw.
\<close>

theorem candidate_versions_numbered:
  assumes "\<forall>v\<in>set (pcvs_versions cv). formatProposalTransactionDetails env (answer_details (cva_content v)) \<noteq> None"
    and "n = length (pcvs_versions cv)"
  shows "\<exists>r. parseSubgraphCandidateVersions env (Some cv) = Some (Some r) \<and>
    map vc_versionNumber (vs_versions r) = rev (map int [1..<Suc n]) \<and>
    mset (map vc_createdAt (vs_versions r)) = mset (map cva_createdTimestamp (pcvs_versions cv)) \<and>
    sorted_wrt (\<lambda>a b. vc_createdAt b \<le> vc_createdAt a) (vs_versions r)"
proof -
  let ?s = "js_sort (\<lambda>a b. cva_createdTimestamp b - cva_createdTimestamp a) (pcvs_versions cv)"
  let ?f = "\<lambda>i. version_content env (int n - int i) (?s ! i)"
  have "\<exists>x. ?f i = Some x" if "i < n" for i
  proof -
    have "?s ! i \<in> set (pcvs_versions cv)" using that assms(2) by (metis length_js_sort nth_mem set_js_sort)
    then show ?thesis using assms(1) by (auto simp: version_content_def Let_def)
  qed
  then obtain vs where vs: "those (map ?f [0..<n]) = Some vs" "length vs = n" "\<forall>i<n. ?f i = Some (vs ! i)"
    using those_map_total [of n ?f] by blast
  have nth: "vc_versionNumber (vs ! i) = int n - int i \<and> vc_createdAt (vs ! i) = cva_createdTimestamp (?s ! i)"
    if "i < n" for i
    using vs(3) that version_content_props by blast
  have created: "map vc_createdAt vs = map cva_createdTimestamp ?s"
    using vs(2) nth assms(2) by (simp add: list_eq_iff_nth_eq)
  have "map vc_versionNumber vs = rev (map int [1..<Suc n])"
    using vs(2) nth by (simp add: list_eq_iff_nth_eq rev_nth of_nat_diff del: upt_Suc)
  moreover have "mset (map vc_createdAt vs) = mset (map cva_createdTimestamp (pcvs_versions cv))"
    by (simp only: created mset_map mset_js_sort)
  moreover have "sorted_wrt (\<lambda>a b. vc_createdAt b \<le> vc_createdAt a) vs"
  proof -
    have "sorted_wrt (\<lambda>a b. b \<le> a) (map vc_createdAt vs)"
      using sorted_js_sort_key_desc [of cva_createdTimestamp "pcvs_versions cv"]
      by (simp add: created sorted_wrt_map)
    then show ?thesis by (simp add: sorted_wrt_map)
  qed
  ultimately show ?thesis
    using vs(1) assms(2) by (auto simp: parseSubgraphCandidateVersions_def Let_def)
qed

definition demo_candidate_versions :: ProposalCandidateVersionsSubgraphEntity where
  "demo_candidate_versions =
     \<lparr>pcvs_id = ''c'', pcvs_slug = ''s'', pcvs_proposer = ''p'', pcvs_lastUpdatedTimestamp = 9, pcvs_canceled = False,
      pcvs_createdTransactionHash = [],
      pcvs_versions = [\<lparr>cva_createdTimestamp = 5, cva_updateMessage = [], cva_content = pcs_content demo_candidate\<rparr>,
        \<lparr>cva_createdTimestamp = 9, cva_updateMessage = ''u'', cva_content = pcs_content demo_candidate\<rparr>],
      pcvs_latestDescription = None\<rparr>"

theorem candidate_versions_numbered_witness:
  "\<exists>r. parseSubgraphCandidateVersions demo_web_env (Some demo_candidate_versions) = Some (Some r) \<and>
     map vc_versionNumber (vs_versions r) = [2, 1]"
proof -
  have "\<forall>v\<in>set (pcvs_versions demo_candidate_versions).
      formatProposalTransactionDetails demo_web_env (answer_details (cva_content v)) \<noteq> None"
    by (simp add: demo_candidate_versions_def demo_candidate_def formatProposalTransactionDetails_def answer_details_def)
  moreover have "2 = length (pcvs_versions demo_candidate_versions)" by (simp add: demo_candidate_versions_def)
  ultimately have "\<exists>r. parseSubgraphCandidateVersions demo_web_env (Some demo_candidate_versions) = Some (Some r) \<and>
      map vc_versionNumber (vs_versions r) = rev (map int [1..<Suc 2]) \<and>
      mset (map vc_createdAt (vs_versions r)) = mset (map cva_createdTimestamp (pcvs_versions demo_candidate_versions)) \<and>
      sorted_wrt (\<lambda>a b. vc_createdAt b \<le> vc_createdAt a) (vs_versions r)"
    by (rule candidate_versions_numbered)
  then show ?thesis by (elim exE conjE) (simp add: upt_rec)
qed

lemma version_order_consistent:
  "inj_on ve_createdAt A \<Longrightarrow> consistent_comparator version_order A"
  by unfold_locales (auto simp: version_order_def dest: inj_onD split: if_splits)

text \<open>
  The versions of a proposal are listed oldest first and numbered from one; every version is
  listed once, provided the creation times differ and no transaction makes formatting throw.
\<close>

theorem proposal_versions_numbered:
  assumes "\<forall>v\<in>set vs. formatProposalTransactionDetails env (version_details v) \<noteq> None"
    and "distinct (map ve_createdAt vs)"
  shows "\<exists>ns. useProposalVersions env (Some vs) = Some (Some ns) \<and>
    map ve_versionNumber ns = [1..<Suc (length vs)] \<and>
    mset (map ve_id ns) = mset (map ve_id vs) \<and>
    sorted_wrt (\<lambda>a b. ve_createdAt a < ve_createdAt b) ns"
proof -
  let ?s = "js_sort version_order vs" and ?n = "length vs"
  let ?f = "\<lambda>i. number_version env i (?s ! i)"
  have "\<exists>x. ?f i = Some x" if "i < ?n" for i
  proof -
    have "?s ! i \<in> set vs" using that by (metis length_js_sort nth_mem set_js_sort)
    then show ?thesis using assms(1) by (auto simp: number_version_def)
  qed
  then obtain ns where ns: "those (map ?f [0..<?n]) = Some ns" "length ns = ?n" "\<forall>i<?n. ?f i = Some (ns ! i)"
    using those_map_total [of ?n ?f] by blast
  have nth: "ve_versionNumber (ns ! i) = Suc i \<and> ve_createdAt (ns ! i) = ve_createdAt (?s ! i) \<and>
      ve_id (ns ! i) = ve_id (?s ! i)" if "i < ?n" for i
    using ns(3) that number_version_props by blast
  have created: "map ve_createdAt ns = map ve_createdAt ?s" and ids: "map ve_id ns = map ve_id ?s"
    using ns(2) nth by (simp_all add: list_eq_iff_nth_eq)
  have "sorted_wrt (\<lambda>a b. version_order a b \<le> 0) ?s"
    using consistent_comparator.sorted_js_sort [OF version_order_consistent, of "set vs" vs] assms(2)
    by (simp add: distinct_map)
  then have "sorted_wrt (\<lambda>a b. ve_createdAt a \<le> ve_createdAt b) ?s"
    by (rule sorted_wrt_mono_rel [rotated]) (auto simp: version_order_def split: if_splits)
  then have "sorted_wrt (\<le>) (map ve_createdAt ns)" by (simp add: created sorted_wrt_map)
  moreover have "mset (map ve_createdAt ns) = mset (map ve_createdAt vs)"
    by (simp only: created mset_map mset_js_sort)
  then have "distinct (map ve_createdAt ns)" using assms(2) mset_eq_imp_distinct_iff by blast
  ultimately have "sorted_wrt (<) (map ve_createdAt ns)" by (simp only: strict_sorted_iff)
  then have "sorted_wrt (\<lambda>a b. ve_createdAt a < ve_createdAt b) ns" by (simp add: sorted_wrt_map)
  moreover have "map ve_versionNumber ns = [1..<Suc ?n]"
    by (rule nth_equalityI) (simp_all add: ns(2) nth [THEN conjunct1] del: upt_Suc)
  moreover have "mset (map ve_id ns) = mset (map ve_id vs)" by (simp only: ids mset_map mset_js_sort)
  moreover have "useProposalVersions env (Some vs) = Some (Some ns)"
    using ns(1) by (simp add: useProposalVersions_def Let_def)
  ultimately show ?thesis by blast
qed

definition demo_version :: "string \<Rightarrow> int \<Rightarrow> ProposalVersion" where
  "demo_version i t = \<lparr>ve_id = i, ve_createdAt = t, ve_updateMessage = [], ve_description = [], ve_targets = Some [],
     ve_values = Some [], ve_signatures = [], ve_calldatas = [], ve_title = [], ve_details = None,
     ve_proposal = ''1'', ve_versionNumber = 0\<rparr>"

theorem proposal_versions_numbered_witness:
  "\<exists>ns. useProposalVersions demo_web_env (Some [demo_version ''b'' 8, demo_version ''a'' 3]) = Some (Some ns) \<and>
     map ve_versionNumber ns = [1, 2] \<and> sorted_wrt (\<lambda>a b. ve_createdAt a < ve_createdAt b) ns"
proof -
  have "\<forall>v\<in>set [demo_version ''b'' 8, demo_version ''a'' 3].
      formatProposalTransactionDetails demo_web_env (version_details v) \<noteq> None"
    by (simp add: demo_version_def formatProposalTransactionDetails_def version_details_def)
  moreover have "distinct (map ve_createdAt [demo_version ''b'' 8, demo_version ''a'' 3])"
    by (simp add: demo_version_def)
  ultimately have "\<exists>ns. useProposalVersions demo_web_env (Some [demo_version ''b'' 8, demo_version ''a'' 3]) = Some (Some ns) \<and>
      map ve_versionNumber ns = [1..<Suc (length [demo_version ''b'' 8, demo_version ''a'' 3])] \<and>
      mset (map ve_id ns) = mset (map ve_id [demo_version ''b'' 8, demo_version ''a'' 3]) \<and>
      sorted_wrt (\<lambda>a b. ve_createdAt a < ve_createdAt b) ns"
    by (rule proposal_versions_numbered)
  then show ?thesis by (elim exE conjE) (simp add: upt_rec)
qed

end
