(* ===== verification/Webapp_Logs.thy ===== *)
theory Webapp_Logs
  imports Webapp_Js
begin

text \<open>
  Event logs in the web application (\<open>packages/nouns-webapp\<close>): the keys of filters
  (\<open>src/utils/logParsing.ts\<close>), the store of fetched logs (\<open>src/state/slices/logs.ts\<close>), the updater
  that decides what to fetch and in which block ranges (\<open>src/state/updaters/logs.ts\<close>), and the
  hook that reads the store (\<open>src/hooks/useLogs.ts\<close>).
\<close>

section \<open>Filters and keys\<close>

datatype topic = Topic string | Topics "string list" | NoTopic

record EventFilter =
  ef_address :: "string option"
  ef_topics :: "topic list option"
  ef_fromBlock :: "int option"

record Log =
  lg_topics :: "string list"
  lg_transactionHash :: string
  lg_data :: string

definition topic_key :: "topic \<Rightarrow> string" where
  "topic_key topic = (case topic of
     Topics ts \<Rightarrow> js_join '';'' ts
   | Topic t \<Rightarrow> if t = [] then [CHR 0x00] else t
   | NoTopic \<Rightarrow> [CHR 0x00])"

definition filterToKey :: "EventFilter \<Rightarrow> string" where
  "filterToKey flt =
     (case ef_address flt of None \<Rightarrow> [] | Some a \<Rightarrow> a) @ '':'' @
     (case ef_topics flt of None \<Rightarrow> [] | Some ts \<Rightarrow> js_join ''-'' (map topic_key ts))"

definition key_topic :: "string \<Rightarrow> topic" where
  "key_topic topic =
     (case js_split '';'' topic of [p] \<Rightarrow> Topic p | parts \<Rightarrow> Topics parts)"

text \<open>Without a colon the second piece is \<open>undefined\<close> and splitting it throws.\<close>

definition keyToFilter :: "string \<Rightarrow> EventFilter option" where
  "keyToFilter key =
     (case js_split '':'' key of
        address # topics # _ \<Rightarrow>
          Some \<lparr>ef_address = (if length address = 0 then None else Some address),
                ef_topics = Some (map key_topic (js_split ''-'' topics)), ef_fromBlock = None\<rparr>
      | _ \<Rightarrow> None)"

section \<open>The store of logs\<close>

record log_results =
  lr_blockNumber :: int
  lr_logs :: "Log list option"
  lr_error :: bool

record log_entry =
  le_listeners :: int
  le_fetchingBlockNumber :: "int option"
  le_results :: "log_results option"

type_synonym LogsState = "(string, log_entry) js_map"

datatype logs_action =
    AddListener EventFilter
  | RemoveListener EventFilter
  | FetchingLogs "EventFilter list" int
  | FetchedLogs EventFilter int "Log list"
  | FetchedLogsError EventFilter int

definition addListener :: "EventFilter \<Rightarrow> LogsState \<Rightarrow> LogsState" where
  "addListener flt state =
     (let key = filterToKey flt
      in case js_get state key of
           None \<Rightarrow> js_set state key \<lparr>le_listeners = 1, le_fetchingBlockNumber = None, le_results = None\<rparr>
         | Some e \<Rightarrow> js_set state key (e\<lparr>le_listeners := le_listeners e + 1\<rparr>))"

fun fetchingLogs :: "EventFilter list \<Rightarrow> int \<Rightarrow> LogsState \<Rightarrow> LogsState" where
  "fetchingLogs [] blockNumber state = state"
| "fetchingLogs (flt # filters) blockNumber state =
     fetchingLogs filters blockNumber
       (case js_get state (filterToKey flt) of
          None \<Rightarrow> state
        | Some e \<Rightarrow> js_set state (filterToKey flt) (e\<lparr>le_fetchingBlockNumber := Some blockNumber\<rparr>))"

text \<open>New results replace the old ones unless those are of a later block.\<close>

definition store_results :: "string \<Rightarrow> log_results \<Rightarrow> LogsState \<Rightarrow> LogsState" where
  "store_results key results state =
     (case js_get state key of
        None \<Rightarrow> state
      | Some e \<Rightarrow>
          if (case le_results e of None \<Rightarrow> False | Some r \<Rightarrow> lr_blockNumber r > lr_blockNumber results)
          then state
          else js_set state key (e\<lparr>le_results := Some results\<rparr>))"

definition fetchedLogs :: "EventFilter \<Rightarrow> int \<Rightarrow> Log list \<Rightarrow> LogsState \<Rightarrow> LogsState" where
  "fetchedLogs flt blockNumber logs =
     store_results (filterToKey flt) \<lparr>lr_blockNumber = blockNumber, lr_logs = Some logs, lr_error = False\<rparr>"

definition fetchedLogsError :: "EventFilter \<Rightarrow> int \<Rightarrow> LogsState \<Rightarrow> LogsState" where
  "fetchedLogsError flt blockNumber =
     store_results (filterToKey flt) \<lparr>lr_blockNumber = blockNumber, lr_logs = None, lr_error = True\<rparr>"

definition removeListener :: "EventFilter \<Rightarrow> LogsState \<Rightarrow> LogsState" where
  "removeListener flt state =
     (let key = filterToKey flt
      in case js_get state key of
           None \<Rightarrow> state
         | Some e \<Rightarrow> js_set state key (e\<lparr>le_listeners := le_listeners e - 1\<rparr>))"

fun logs_reducer :: "logs_action \<Rightarrow> LogsState \<Rightarrow> LogsState" where
  "logs_reducer (AddListener f) state = addListener f state"
| "logs_reducer (RemoveListener f) state = removeListener f state"
| "logs_reducer (FetchingLogs fs b) state = fetchingLogs fs b state"
| "logs_reducer (FetchedLogs f b logs) state = fetchedLogs f b logs state"
| "logs_reducer (FetchedLogsError f b) state = fetchedLogsError f b state"

section \<open>The updater\<close>

definition MAX_BLOCKS_PER_CALL :: int where "MAX_BLOCKS_PER_CALL = 1000000"

definition needs_fetch :: "int \<Rightarrow> log_entry \<Rightarrow> bool" where
  "needs_fetch blockNumber e =
     (if le_listeners e = 0 then False
      else if (case le_fetchingBlockNumber e of None \<Rightarrow> False | Some b \<Rightarrow> blockNumber \<le> b) then False
      else if (case le_results e of None \<Rightarrow> False | Some r \<Rightarrow> blockNumber \<le> lr_blockNumber r) then False
      else True)"

definition filtersNeedFetch :: "int option \<Rightarrow> LogsState \<Rightarrow> EventFilter option list" where
  "filtersNeedFetch blockNumber state =
     (case blockNumber of None \<Rightarrow> []
      | Some b \<Rightarrow> map (\<lambda>(key, e). keyToFilter key) (filter (\<lambda>(key, e). needs_fetch b e) state))"

text \<open>The loop that cuts the blocks into ranges; it ends because every round moves on.\<close>

function block_ranges :: "int \<Rightarrow> int \<Rightarrow> (int \<times> int) list" where
  "block_ranges fromBlock blockNumber =
     (if fromBlock \<le> blockNumber
      then (fromBlock, min (fromBlock + MAX_BLOCKS_PER_CALL) blockNumber) #
           block_ranges (fromBlock + MAX_BLOCKS_PER_CALL) blockNumber
      else [])"
  by pat_completeness auto
termination
  by (relation "measure (\<lambda>(f, b). nat (b - f + 1))") (auto simp: MAX_BLOCKS_PER_CALL_def)

declare block_ranges.simps [simp del]

definition fetch_ranges :: "EventFilter \<Rightarrow> int \<Rightarrow> (int \<times> int) list" where
  "fetch_ranges flt blockNumber =
     block_ranges (case ef_fromBlock flt of None \<Rightarrow> 0 | Some b \<Rightarrow> b) blockNumber"

text \<open>
  One round of the updater for one filter: the provider's answer for each range, in order. The
  provider is a parameter; a failed call makes the round fail.
\<close>

definition fetch_filter ::
  "(EventFilter \<Rightarrow> int \<times> int \<Rightarrow> Log list option) \<Rightarrow> int \<Rightarrow> EventFilter \<Rightarrow> LogsState \<Rightarrow> LogsState" where
  "fetch_filter getLogs blockNumber flt state =
     (case those (map (getLogs flt) (fetch_ranges flt blockNumber)) of
        Some logs \<Rightarrow> fetchedLogs flt blockNumber (concat logs) state
      | None \<Rightarrow> fetchedLogsError flt blockNumber state)"

section \<open>The hook\<close>

datatype logs_status = INVALID | LOADING | SYNCING | ERROR | SYNCED

definition useLogs :: "EventFilter option \<Rightarrow> int option \<Rightarrow> LogsState \<Rightarrow> Log list option \<times> logs_status" where
  "useLogs flt blockNumber logs =
     (case (flt, blockNumber) of
        (Some f, Some b) \<Rightarrow>
          if b = 0 then (None, INVALID)
          else (case Option.bind (js_get logs (filterToKey f)) le_results of
                  None \<Rightarrow> (None, LOADING)
                | Some r \<Rightarrow> if lr_error r then (None, ERROR)
                            else (lr_logs r, if b \<le> lr_blockNumber r then SYNCED else SYNCING))
      | _ \<Rightarrow> (None, INVALID))"

section \<open>Lemmas\<close>

definition results_block :: "LogsState \<Rightarrow> string \<Rightarrow> int option" where
  "results_block state key = map_option lr_blockNumber (Option.bind (js_get state key) le_results)"

text \<open>The results of a filter are never replaced by those of an earlier block.\<close>

definition no_older :: "LogsState \<Rightarrow> LogsState \<Rightarrow> bool" where
  "no_older s s' \<longleftrightarrow>
     (\<forall>key b. results_block s key = Some b \<longrightarrow> (\<exists>b'. results_block s' key = Some b' \<and> b \<le> b'))"

lemma no_older_refl [simp]: "no_older s s"
  by (simp add: no_older_def)

lemma no_older_trans: "no_older r s \<Longrightarrow> no_older s t \<Longrightarrow> no_older r t"
  unfolding no_older_def by (meson order_trans)

lemma no_older_keep:
  "js_get s key = Some e \<Longrightarrow> le_results e' = le_results e \<Longrightarrow> no_older s (js_set s key e')"
  by (auto simp: no_older_def results_block_def js_get_set)

lemma no_older_fetching: "no_older s (fetchingLogs fs b s)"
proof (induction fs b s rule: fetchingLogs.induct)
  case (2 f fs b s)
  have "no_older s (case js_get s (filterToKey f) of None \<Rightarrow> s
      | Some e \<Rightarrow> js_set s (filterToKey f) (e\<lparr>le_fetchingBlockNumber := Some b\<rparr>))"
    by (auto split: option.splits intro: no_older_keep)
  with "2.IH" show ?case by (simp add: no_older_trans)
qed simp

lemma no_older_store: "no_older s (store_results key r s)"
  by (auto simp: store_results_def no_older_def results_block_def js_get_set not_less split: option.splits)

lemma no_older_step: "no_older s (logs_reducer a s)"
proof (cases a)
  case (AddListener f)
  then show ?thesis
    by (auto simp: addListener_def Let_def no_older_def results_block_def js_get_set split: option.splits)
next
  case (RemoveListener f)
  then show ?thesis
    by (auto simp: removeListener_def Let_def split: option.splits intro: no_older_keep)
qed (simp_all add: no_older_fetching no_older_store fetchedLogs_def fetchedLogsError_def)

interpretation logs_machine: machine "\<lambda>a s. Some (logs_reducer a s)" "\<lambda>_ _. True" "no_older s0" for s0
  by unfold_locales (auto intro: no_older_trans no_older_step)

text \<open>
  Along every sequence of actions, in whatever order answers and errors of concurrent fetches
  arrive, the stored results of a filter never fall back to an earlier block.
\<close>

theorem logs_never_go_back:
  assumes "run_events (\<lambda>a s. Some (logs_reducer a s)) actions s = Some s'"
    and "results_block s key = Some b"
  shows "\<exists>b'. results_block s' key = Some b' \<and> b \<le> b'"
  using logs_machine.run_inv [of s s actions s'] assms by (simp add: no_older_def)

definition demo_filter :: EventFilter where
  "demo_filter = \<lparr>ef_address = Some ''0xa'', ef_topics = Some [Topic ''0x1''], ef_fromBlock = None\<rparr>"

theorem logs_never_go_back_witness:
  "\<exists>b'. results_block (logs_reducer (FetchedLogs demo_filter 7 []) (logs_reducer (FetchedLogs demo_filter 9 [])
       (addListener demo_filter []))) (filterToKey demo_filter) = Some b' \<and> 9 \<le> b'"
proof (rule logs_never_go_back)
  show "run_events (\<lambda>a s. Some (logs_reducer a s)) [FetchedLogs demo_filter 7 []]
      (logs_reducer (FetchedLogs demo_filter 9 []) (addListener demo_filter [])) =
    Some (logs_reducer (FetchedLogs demo_filter 7 []) (logs_reducer (FetchedLogs demo_filter 9 [])
       (addListener demo_filter [])))" by simp
  show "results_block (logs_reducer (FetchedLogs demo_filter 9 []) (addListener demo_filter []))
      (filterToKey demo_filter) = Some 9"
    by (simp add: results_block_def fetchedLogs_def store_results_def addListener_def js_get_def)
qed

section \<open>Block ranges\<close>

lemma block_ranges_bounds:
  "(lo, hi) \<in> set (block_ranges f n) \<Longrightarrow> f \<le> lo \<and> lo \<le> hi \<and> hi \<le> n"
proof (induction f n rule: block_ranges.induct)
  case (1 f n)
  then show ?case
    by (subst (asm) block_ranges.simps) (auto simp: MAX_BLOCKS_PER_CALL_def split: if_splits)
qed

lemma block_ranges_cover:
  "f \<le> b \<Longrightarrow> b \<le> n \<Longrightarrow> \<exists>(lo, hi)\<in>set (block_ranges f n). lo \<le> b \<and> b \<le> hi"
proof (induction f n rule: block_ranges.induct)
  case (1 f n)
  then show ?case
    by (subst block_ranges.simps) (cases "b \<le> f + MAX_BLOCKS_PER_CALL", auto)
qed

lemma block_ranges_Nil: "n < f \<Longrightarrow> block_ranges f n = []"
  by (subst block_ranges.simps) simp

lemma block_ranges_length:
  "f \<le> n \<Longrightarrow> int (length (block_ranges f n)) = (n - f) div MAX_BLOCKS_PER_CALL + 1"
proof (induction f n rule: block_ranges.induct)
  case (1 f n)
  show ?case
  proof (cases "f + MAX_BLOCKS_PER_CALL \<le> n")
    case True
    have "(n - (f + MAX_BLOCKS_PER_CALL)) div MAX_BLOCKS_PER_CALL = (n - f) div MAX_BLOCKS_PER_CALL - 1"
      using div_add_self2 [of MAX_BLOCKS_PER_CALL "n - (f + MAX_BLOCKS_PER_CALL)"]
      by (simp add: MAX_BLOCKS_PER_CALL_def)
    with 1 True show ?thesis by (subst block_ranges.simps) simp
  next
    case False
    then have "(n - f) div MAX_BLOCKS_PER_CALL = 0"
      using "1.prems" by (intro div_pos_pos_trivial) (auto simp: MAX_BLOCKS_PER_CALL_def)
    with False "1.prems" show ?thesis
      by (subst block_ranges.simps) (simp add: block_ranges_Nil)
  qed
qed

lemma block_ranges_chain:
  "Suc i < length (block_ranges f n) \<Longrightarrow> snd (block_ranges f n ! i) = fst (block_ranges f n ! Suc i)"
proof (induction f n arbitrary: i rule: block_ranges.induct)
  case (1 f n)
  let ?r = "block_ranges (f + MAX_BLOCKS_PER_CALL) n"
  have f: "f \<le> n" using "1.prems" by (subst (asm) block_ranges.simps) (auto split: if_splits)
  then have e: "block_ranges f n = (f, min (f + MAX_BLOCKS_PER_CALL) n) # ?r" by (subst block_ranges.simps) simp
  show ?case
  proof (cases i)
    case 0
    then have ne: "?r \<noteq> []" using "1.prems" e by auto
    then have "f + MAX_BLOCKS_PER_CALL \<le> n" by (rule contrapos_np) (simp add: block_ranges_Nil)
    moreover from this have "fst (?r ! 0) = f + MAX_BLOCKS_PER_CALL" by (subst block_ranges.simps) simp
    ultimately show ?thesis using e 0 by simp
  next
    case (Suc j)
    then show ?thesis using "1.IH" [OF f, of j] "1.prems" e by simp
  qed
qed

text \<open>
  C19: The loop that cuts the blocks into ranges ends after a number of rounds given by the distance;
  a block is in some range exactly when it lies between the first and the current block. Two
  consecutive ranges share their boundary block, which is therefore fetched twice.
\<close>

theorem fetch_ranges_cover:
  assumes "fetch_ranges flt n = ranges" and "first = (case ef_fromBlock flt of None \<Rightarrow> 0 | Some b \<Rightarrow> b)"
    and "first \<le> n"
  shows "int (length ranges) = (n - first) div 1000000 + 1 \<and>
    (\<forall>b. (\<exists>(lo, hi)\<in>set ranges. lo \<le> b \<and> b \<le> hi) = (first \<le> b \<and> b \<le> n)) \<and>
    (\<forall>i. Suc i < length ranges \<longrightarrow> snd (ranges ! i) = fst (ranges ! Suc i))"
proof -
  have r: "ranges = block_ranges first n" using assms(1,2) by (simp add: fetch_ranges_def)
  have "(\<exists>(lo, hi)\<in>set ranges. lo \<le> b \<and> b \<le> hi) = (first \<le> b \<and> b \<le> n)" for b
    using block_ranges_cover [of first b n] block_ranges_bounds [of _ _ first n] unfolding r by fastforce
  then show ?thesis
    using block_ranges_length [OF assms(3)] block_ranges_chain [of _ first n]
    by (simp add: r MAX_BLOCKS_PER_CALL_def)
qed

theorem fetch_ranges_cover_witness:
  "length (fetch_ranges demo_filter 2500000) = 3 \<and>
   (\<exists>(lo, hi)\<in>set (fetch_ranges demo_filter 2500000). lo \<le> 1234567 \<and> 1234567 \<le> hi)"
proof -
  have "(0 :: int) = (case ef_fromBlock demo_filter of None \<Rightarrow> 0 | Some b \<Rightarrow> b)" by (simp add: demo_filter_def)
  from fetch_ranges_cover [OF refl this, of 2500000] show ?thesis by auto
qed

section \<open>Keys\<close>

definition key_text :: "string \<Rightarrow> bool" where
  "key_text s \<longleftrightarrow> s \<noteq> [] \<and> set s \<inter> {CHR '':'', CHR ''-'', CHR '';''} = {}"

fun wf_topic :: "topic \<Rightarrow> bool" where
  "wf_topic (Topic t) = key_text t"
| "wf_topic (Topics ts) = (2 \<le> length ts \<and> list_all key_text ts)"
| "wf_topic NoTopic = False"

lemma split_join_char:
  "xs \<noteq> [] \<Longrightarrow> \<forall>x\<in>set xs. c \<notin> set x \<Longrightarrow> js_split [c] (js_join [c] xs) = xs"
proof (induction xs)
  case (Cons x xs)
  show ?case
  proof (cases xs)
    case Nil
    then show ?thesis using Cons.prems js_split_absent_prefix [of c x "[]"] by (simp add: js_split_def)
  next
    case (Cons y ys)
    then show ?thesis using Cons.IH Cons.prems js_split_first [of c x "js_join [c] xs"] by simp
  qed
qed simp

lemma chars_of_join: "set (js_join sep xs) \<subseteq> set sep \<union> \<Union> (set ` set xs)"
  by (induction sep xs rule: js_join.induct) auto

lemma topic_key_chars:
  assumes "wf_topic t"
  shows "CHR '':'' \<notin> set (topic_key t) \<and> CHR ''-'' \<notin> set (topic_key t) \<and> key_topic (topic_key t) = t"
proof (cases t)
  case (Topic s)
  then have "js_split '';'' s = [s]"
    using assms js_split_absent_prefix [of "CHR '';''" s "[]"] by (simp add: key_text_def js_split_def)
  with Topic assms show ?thesis by (simp add: topic_key_def key_topic_def key_text_def)
next
  case (Topics ts)
  then have "js_split '';'' (js_join '';'' ts) = ts"
    using assms by (intro split_join_char) (auto simp: list_all_iff key_text_def)
  moreover obtain x y zs where "ts = x # y # zs"
    using Topics assms by (cases ts; cases "tl ts") auto
  ultimately show ?thesis
    using Topics assms chars_of_join [of "'';''" ts]
    by (auto simp: topic_key_def key_topic_def key_text_def list_all_iff)
qed (use assms in simp)

text \<open>A filter survives the round trip through its key, except for its first block.\<close>

lemma filter_key_roundtrip:
  assumes "ef_address f = Some a" "key_text a" "ef_topics f = Some ts" "ts \<noteq> []" "list_all wf_topic ts"
  shows "keyToFilter (filterToKey f) = Some (f\<lparr>ef_fromBlock := None\<rparr>)"
proof -
  let ?k = "js_join ''-'' (map topic_key ts)"
  have t: "\<forall>x\<in>set ts. CHR '':'' \<notin> set (topic_key x) \<and> CHR ''-'' \<notin> set (topic_key x) \<and> key_topic (topic_key x) = x"
    using assms(5) topic_key_chars by (auto simp: list_all_iff)
  have "CHR '':'' \<notin> set ?k" using chars_of_join [of "''-''" "map topic_key ts"] t by auto
  then have "js_split '':'' (filterToKey f) = [a, ?k]"
    using js_split_first [of "CHR '':''" a ?k] js_split_absent_prefix [of "CHR '':''" ?k "[]"] assms
    by (simp add: filterToKey_def key_text_def js_split_def)
  moreover have "js_split ''-'' ?k = map topic_key ts" using assms(4) t by (intro split_join_char) auto
  moreover have "map (key_topic \<circ> topic_key) ts = ts" using t by (intro map_idI) simp
  ultimately show ?thesis using assms by (simp add: keyToFilter_def key_text_def)
qed

end
