(* ===== verification/Webapp_Auction.thy ===== *)
theory Webapp_Auction
  imports Webapp_Js
begin

text \<open>
  Auctions in the web application (\<open>packages/nouns-webapp/src\<close>): the state of the current auction
  (\<open>state/slices/auction.ts\<close>), past auctions and the auction on display
  (\<open>state/slices/pastAuctions.ts\<close>, \<open>state/slices/onDisplayAuction.ts\<close>), the choice of the auction to
  show (\<open>wrappers/onDisplayAuction.ts\<close>, \<open>utils/nounderNoun.ts\<close>) and the order of bids
  (\<open>utils/compareBids.ts\<close>). A big number is kept in the store as the object that \<open>toJSON\<close> gives
  and read back with \<open>BigNumber.from\<close>; it is its value here.
\<close>

section \<open>Types\<close>

record BidEvent =
  be_nounId :: int
  be_sender :: string
  be_value :: int
  be_extended :: bool
  be_transactionHash :: string
  be_transactionIndex :: int
  be_timestamp :: int

record Auction =
  au_amount :: int
  au_bidder :: string
  au_startTime :: int
  au_endTime :: int
  au_nounId :: int
  au_settled :: bool

record AuctionState =
  as_activeAuction :: "Auction option"
  as_bids :: "BidEvent list"

record AuctionCreateEvent =
  ac_nounId :: int
  ac_startTime :: int
  ac_endTime :: int

section \<open>The current auction\<close>

definition initialState :: AuctionState where
  "initialState = \<lparr>as_activeAuction = None, as_bids = []\<rparr>"

definition reduxSafeNewAuction :: "AuctionCreateEvent \<Rightarrow> Auction" where
  "reduxSafeNewAuction auction =
     \<lparr>au_amount = 0, au_bidder = [], au_startTime = ac_startTime auction, au_endTime = ac_endTime auction,
      au_nounId = ac_nounId auction, au_settled = False\<rparr>"

text \<open>\<open>bids.reduce(\<dots>)\<close> without an initial value, on a list that is not empty.\<close>

fun maxBid :: "BidEvent \<Rightarrow> BidEvent list \<Rightarrow> BidEvent" where
  "maxBid prev [] = prev"
| "maxBid prev (current # bids) = maxBid (if be_value prev > be_value current then prev else current) bids"

definition containsBid :: "BidEvent list \<Rightarrow> BidEvent \<Rightarrow> bool" where
  "containsBid bidEvents bidEvent = (be_transactionHash bidEvent \<in> set (map be_transactionHash bidEvents))"

datatype auction_action =
    SetActiveAuction AuctionCreateEvent
  | SetFullAuction Auction
  | AppendBid BidEvent
  | SetAuctionSettled int string int
  | SetAuctionExtended int int

definition setActiveAuction :: "AuctionCreateEvent \<Rightarrow> AuctionState \<Rightarrow> AuctionState" where
  "setActiveAuction payload state = state\<lparr>as_activeAuction := Some (reduxSafeNewAuction payload), as_bids := []\<rparr>"

definition setFullAuction :: "Auction \<Rightarrow> AuctionState \<Rightarrow> AuctionState" where
  "setFullAuction payload state = state\<lparr>as_activeAuction := Some payload\<rparr>"

definition appendBid :: "BidEvent \<Rightarrow> AuctionState \<Rightarrow> AuctionState" where
  "appendBid bid state =
     (case as_activeAuction state of
        None \<Rightarrow> state
      | Some a \<Rightarrow>
          if au_nounId a \<noteq> be_nounId bid then state
          else if containsBid (as_bids state) bid then state
          else let m = maxBid bid (as_bids state)
               in state\<lparr>as_bids := bid # as_bids state,
                        as_activeAuction := Some (a\<lparr>au_amount := be_value m, au_bidder := be_sender m\<rparr>)\<rparr>)"

definition setAuctionSettled :: "int \<Rightarrow> string \<Rightarrow> int \<Rightarrow> AuctionState \<Rightarrow> AuctionState" where
  "setAuctionSettled nounId winner amount state =
     (case as_activeAuction state of
        None \<Rightarrow> state
      | Some a \<Rightarrow>
          if au_nounId a \<noteq> nounId then state
          else state\<lparr>as_activeAuction := Some (a\<lparr>au_settled := True, au_bidder := winner, au_amount := amount\<rparr>)\<rparr>)"

definition setAuctionExtended :: "int \<Rightarrow> int \<Rightarrow> AuctionState \<Rightarrow> AuctionState" where
  "setAuctionExtended nounId endTime state =
     (case as_activeAuction state of
        None \<Rightarrow> state
      | Some a \<Rightarrow>
          if au_nounId a \<noteq> nounId then state
          else state\<lparr>as_activeAuction := Some (a\<lparr>au_endTime := endTime\<rparr>)\<rparr>)"

fun auction_reducer :: "auction_action \<Rightarrow> AuctionState \<Rightarrow> AuctionState" where
  "auction_reducer (SetActiveAuction e) state = setActiveAuction e state"
| "auction_reducer (SetFullAuction a) state = setFullAuction a state"
| "auction_reducer (AppendBid b) state = appendBid b state"
| "auction_reducer (SetAuctionSettled i w x) state = setAuctionSettled i w x state"
| "auction_reducer (SetAuctionExtended i t) state = setAuctionExtended i t state"

section \<open>Past auctions\<close>

record past_bid =
  pb_id :: string
  pb_bidder :: string
  pb_amount :: int
  pb_txIndex :: int
  pb_blockTimestamp :: int

record past_auction =
  pu_id :: int
  pu_amount :: int
  pu_bidder :: "string option"
  pu_startTime :: int
  pu_endTime :: int
  pu_bids :: "past_bid list"

definition reduxSafePastAuctions :: "past_auction list \<Rightarrow> AuctionState list" where
  "reduxSafePastAuctions auctions = map (\<lambda>auction.
     \<lparr>as_activeAuction = Some \<lparr>au_amount = pu_amount auction,
        au_bidder = (case pu_bidder auction of None \<Rightarrow> [] | Some b \<Rightarrow> b),
        au_startTime = pu_startTime auction, au_endTime = pu_endTime auction, au_nounId = pu_id auction,
        au_settled = False\<rparr>,
      as_bids = map (\<lambda>bid. \<lparr>be_nounId = pu_id auction, be_sender = pb_bidder bid, be_value = pb_amount bid,
        be_extended = False, be_transactionHash = pb_id bid, be_transactionIndex = pb_txIndex bid,
        be_timestamp = pb_blockTimestamp bid\<rparr>) (pu_bids auction)\<rparr>) auctions"

section \<open>The auction on display\<close>

record OnDisplayAuctionState =
  od_firstAuctionNounId :: int
  od_lastAuctionNounId :: "int option"
  od_onDisplayAuctionNounId :: "int option"

definition setFirstAuctionNounId :: "int \<Rightarrow> OnDisplayAuctionState \<Rightarrow> OnDisplayAuctionState" where
  "setFirstAuctionNounId i state = state\<lparr>od_firstAuctionNounId := i\<rparr>"

definition setLastAuctionNounId :: "int \<Rightarrow> OnDisplayAuctionState \<Rightarrow> OnDisplayAuctionState" where
  "setLastAuctionNounId i state = state\<lparr>od_lastAuctionNounId := Some i\<rparr>"

definition setOnDisplayAuctionNounId :: "int \<Rightarrow> OnDisplayAuctionState \<Rightarrow> OnDisplayAuctionState" where
  "setOnDisplayAuctionNounId i state = state\<lparr>od_onDisplayAuctionNounId := Some i\<rparr>"

definition setPrevOnDisplayAuctionNounId :: "OnDisplayAuctionState \<Rightarrow> OnDisplayAuctionState" where
  "setPrevOnDisplayAuctionNounId state =
     (case od_onDisplayAuctionNounId state of
        None \<Rightarrow> state
      | Some i \<Rightarrow> if i = 0 then state else state\<lparr>od_onDisplayAuctionNounId := Some (i - 1)\<rparr>)"

definition setNextOnDisplayAuctionNounId :: "OnDisplayAuctionState \<Rightarrow> OnDisplayAuctionState" where
  "setNextOnDisplayAuctionNounId state =
     (case od_onDisplayAuctionNounId state of
        None \<Rightarrow> state
      | Some i \<Rightarrow> if od_lastAuctionNounId state = Some i then state
                  else state\<lparr>od_onDisplayAuctionNounId := Some (i + 1)\<rparr>)"

definition isNounderNoun :: "int \<Rightarrow> bool" where
  "isNounderNoun nounId = (nounId mod 10 = 0 \<or> nounId = 0)"

definition findAuction :: "int \<Rightarrow> AuctionState list \<Rightarrow> Auction option" where
  "findAuction i auctions =
     Option.bind (find (\<lambda>s. case as_activeAuction s of None \<Rightarrow> False | Some a \<Rightarrow> au_nounId a = i) auctions)
       as_activeAuction"

definition generateEmptyNounderAuction :: "int \<Rightarrow> AuctionState list \<Rightarrow> Auction" where
  "generateEmptyNounderAuction nounId pastAuctions =
     \<lparr>au_amount = 0, au_bidder = [],
      au_startTime = (case findAuction (nounId + 1) pastAuctions of None \<Rightarrow> 0 | Some a \<Rightarrow> au_startTime a),
      au_endTime = 0, au_nounId = nounId, au_settled = False\<rparr>"

definition deserializeAuction :: "Auction \<Rightarrow> Auction" where
  "deserializeAuction a = a\<lparr>au_settled := False\<rparr>"

definition useOnDisplayAuction ::
  "AuctionState \<Rightarrow> OnDisplayAuctionState \<Rightarrow> AuctionState list \<Rightarrow> Auction option" where
  "useOnDisplayAuction auction od pastAuctions =
     (case (od_onDisplayAuctionNounId od, as_activeAuction auction) of
        (Some i, Some current) \<Rightarrow>
          if i = au_nounId current then Some (deserializeAuction current)
          else if isNounderNoun i \<or> i < od_firstAuctionNounId od
          then Some (deserializeAuction (generateEmptyNounderAuction i pastAuctions))
          else map_option deserializeAuction (findAuction i pastAuctions)
      | _ \<Rightarrow> None)"

section \<open>Bids\<close>

definition generateBidScore :: "BidEvent \<Rightarrow> int" where
  "generateBidScore bid = be_timestamp bid * 1000000 + be_transactionIndex bid"

text \<open>The difference is small enough for \<open>toNumber\<close>.\<close>

definition compareBids :: "BidEvent \<Rightarrow> BidEvent \<Rightarrow> int" where
  "compareBids bidA bidB = generateBidScore bidB - generateBidScore bidA"

definition deserializeBids :: "BidEvent list \<Rightarrow> BidEvent list" where
  "deserializeBids bids = js_sort compareBids bids"

definition useAuctionBids ::
  "AuctionState \<Rightarrow> OnDisplayAuctionState \<Rightarrow> AuctionState list \<Rightarrow> int \<Rightarrow> BidEvent list option" where
  "useAuctionBids auction od pastAuctions auctionNounId =
     (if od_lastAuctionNounId od = Some auctionNounId then Some (deserializeBids (as_bids auction))
      else map_option (\<lambda>s. deserializeBids (as_bids s))
        (find (\<lambda>s. case as_activeAuction s of None \<Rightarrow> False | Some a \<Rightarrow> au_nounId a = auctionNounId) pastAuctions))"

definition useNounCanVoteTimestamp :: "AuctionState list \<Rightarrow> int \<Rightarrow> int" where
  "useNounCanVoteTimestamp pastAuctions nounId =
     (let nextNounId = nounId + 1;
          nextNounIdForQuery = (if isNounderNoun nextNounId then nextNounId + 1 else nextNounId)
      in case findAuction nextNounIdForQuery pastAuctions of None \<Rightarrow> 0 | Some a \<Rightarrow> au_startTime a)"

section \<open>The highest bid\<close>

lemma maxBid_props:
  "maxBid b bs \<in> set (b # bs) \<and> (\<forall>c\<in>set (b # bs). be_value c \<le> be_value (maxBid b bs))"
proof (induction b bs rule: maxBid.induct)
  case (2 prev current bids)
  then show ?case by (auto split: if_splits)
qed simp

text \<open>
  The bids of one auction in a sequence of actions, oldest first, each transaction once.
\<close>

fun accepted :: "int \<Rightarrow> auction_action list \<Rightarrow> BidEvent list \<Rightarrow> BidEvent list" where
  "accepted i [] acc = acc"
| "accepted i (AppendBid b # as) acc =
     accepted i as (if be_nounId b = i \<and> be_transactionHash b \<notin> set (map be_transactionHash acc)
                    then acc @ [b] else acc)"
| "accepted i (_ # as) acc = accepted i as acc"

fun last_end :: "int \<Rightarrow> auction_action list \<Rightarrow> int \<Rightarrow> int" where
  "last_end i [] t = t"
| "last_end i (SetAuctionExtended j t' # as) t = last_end i as (if j = i then t' else t)"
| "last_end i (_ # as) t = last_end i as t"

fun while_open :: "auction_action \<Rightarrow> bool" where
  "while_open (AppendBid b) = True"
| "while_open (SetAuctionExtended i t) = True"
| "while_open _ = False"

text \<open>What the store holds of an open auction, given the bids accepted so far.\<close>

definition shows_auction :: "int \<Rightarrow> int \<Rightarrow> int \<Rightarrow> BidEvent list \<Rightarrow> AuctionState \<Rightarrow> bool" where
  "shows_auction i start end bids state \<longleftrightarrow> as_bids state = rev bids \<and>
     (\<exists>a. as_activeAuction state = Some a \<and> au_nounId a = i \<and> au_startTime a = start \<and> au_endTime a = end \<and>
        \<not> au_settled a \<and>
        (if bids = [] then au_amount a = 0 \<and> au_bidder a = []
         else \<exists>m\<in>set bids. au_amount a = be_value m \<and> au_bidder a = be_sender m \<and>
                (\<forall>b\<in>set bids. be_value b \<le> be_value m)))"

lemma appendBid_shows:
  assumes "shows_auction i start end bids state"
  shows "shows_auction i start end
    (if be_nounId b = i \<and> be_transactionHash b \<notin> set (map be_transactionHash bids) then bids @ [b] else bids)
    (appendBid b state)"
proof -
  obtain a where a: "as_activeAuction state = Some a" "au_nounId a = i" "au_startTime a = start" "au_endTime a = end"
      "\<not> au_settled a" and bids: "as_bids state = rev bids"
    using assms by (auto simp: shows_auction_def)
  show ?thesis
  proof (cases "be_nounId b = i \<and> be_transactionHash b \<notin> set (map be_transactionHash bids)")
    case True
    then have "appendBid b state = (let m = maxBid b (rev bids) in state\<lparr>as_bids := b # rev bids,
        as_activeAuction := Some (a\<lparr>au_amount := be_value m, au_bidder := be_sender m\<rparr>)\<rparr>)"
      using a bids by (simp add: appendBid_def containsBid_def)
    then show ?thesis using True a maxBid_props [of b "rev bids"] by (auto simp: shows_auction_def Let_def)
  next
    case False
    then have "appendBid b state = state" using a bids by (auto simp: appendBid_def containsBid_def)
    moreover have "(if be_nounId b = i \<and> be_transactionHash b \<notin> set (map be_transactionHash bids)
        then bids @ [b] else bids) = bids"
      using False by (rule if_not_P)
    ultimately show ?thesis using assms by (simp only:)
  qed
qed

lemma extended_shows:
  "shows_auction i start end bids state \<Longrightarrow>
   shows_auction i start (if j = i then t else end) bids (setAuctionExtended j t state)"
  by (auto simp: shows_auction_def setAuctionExtended_def)

lemma actions_show:
  "shows_auction i start end bids state \<Longrightarrow> list_all while_open as \<Longrightarrow>
   shows_auction i start (last_end i as end) (accepted i as bids) (fold auction_reducer as state)"
proof (induction as arbitrary: state bids "end")
  case (Cons x as)
  then have later: "list_all while_open as" and x: "while_open x" by simp_all
  show ?case
  proof (cases x)
    case (AppendBid b)
    with Cons.IH [OF appendBid_shows [OF Cons.prems(1), of b] later] show ?thesis
      by (simp only: fold_simps auction_reducer.simps accepted.simps last_end.simps)
  next
    case (SetAuctionExtended j t)
    with Cons.IH [OF extended_shows [OF Cons.prems(1), of j t] later] show ?thesis
      by (simp only: fold_simps auction_reducer.simps accepted.simps last_end.simps)
  qed (use x in simp_all)
qed simp

lemma opened_shows: "shows_auction (ac_nounId e) (ac_startTime e) (ac_endTime e) [] (setActiveAuction e s)"
  by (simp add: shows_auction_def setActiveAuction_def reduxSafeNewAuction_def)

lemma open_auction_shows:
  "list_all while_open as \<Longrightarrow>
   shows_auction (ac_nounId e) (ac_startTime e) (last_end (ac_nounId e) as (ac_endTime e))
     (accepted (ac_nounId e) as []) (fold auction_reducer (SetActiveAuction e # as) s)"
  by (simp add: actions_show [OF opened_shows])


definition demo_bid :: "int \<Rightarrow> string \<Rightarrow> int \<Rightarrow> string \<Rightarrow> BidEvent" where
  "demo_bid i who v h = \<lparr>be_nounId = i, be_sender = who, be_value = v, be_extended = False,
     be_transactionHash = h, be_transactionIndex = 0, be_timestamp = 0\<rparr>"

definition demo_actions :: "auction_action list" where
  "demo_actions = [AppendBid (demo_bid 7 ''ann'' 5 ''h1''), AppendBid (demo_bid 6 ''bob'' 9 ''h0''),
     AppendBid (demo_bid 7 ''cid'' 8 ''h2''), SetAuctionExtended 7 300, AppendBid (demo_bid 7 ''ann'' 5 ''h1'')]"


section \<open>The auction on display\<close>

text \<open>
  Stepping through the auctions stays between the first Noun and the last auction, and a step back
  undoes a step forward.
\<close>

definition on_display_ok :: "OnDisplayAuctionState \<Rightarrow> bool" where
  "on_display_ok od = (case (od_onDisplayAuctionNounId od, od_lastAuctionNounId od) of
     (Some i, Some l) \<Rightarrow> 0 \<le> i \<and> i \<le> l | _ \<Rightarrow> False)"

lemma next_on_display_ok: "on_display_ok od \<Longrightarrow> on_display_ok (setNextOnDisplayAuctionNounId od)"
  by (auto simp: on_display_ok_def setNextOnDisplayAuctionNounId_def split: option.splits)

lemma prev_on_display_ok: "on_display_ok od \<Longrightarrow> on_display_ok (setPrevOnDisplayAuctionNounId od)"
  by (auto simp: on_display_ok_def setPrevOnDisplayAuctionNounId_def split: option.splits)

lemma prev_next_on_display:
  "on_display_ok od \<Longrightarrow> od_onDisplayAuctionNounId od \<noteq> od_lastAuctionNounId od \<Longrightarrow>
   setPrevOnDisplayAuctionNounId (setNextOnDisplayAuctionNounId od) = od"
  by (auto simp: on_display_ok_def setPrevOnDisplayAuctionNounId_def setNextOnDisplayAuctionNounId_def
      split: option.splits)

end
