(* ===== verification/Webapp_Activity.thy ===== *)
theory Webapp_Activity
  imports Webapp_Auction Webapp_Dao Subgraph_Token_Run
begin

text \<open>
  The activity feed of a Noun (\<open>packages/nouns-webapp/src/wrappers/nounActivity.ts\<close>): the votes, the
  transfers and the delegations of a Noun from three queries, merged by block number, with the events
  of its birth and its auction replaced by one entry for the winner.

  A hook is a function of the results of its queries; \<open>None\<close> is an exception. A block number is
  \<open>None\<close> when it is not a number, and a comparison with it gives \<open>NaN\<close>, which sorting treats as
  equality.
\<close>

section \<open>Types\<close>

record NounVoteHistory =
  nv_blockNumber :: string
  nv_proposal :: string
  nv_supportDetailed :: int
  nv_voter :: string

record transfer_row =
  tr_id :: string
  tr_previousHolder :: string
  tr_newHolder :: string
  tr_blockNumber :: string

record delegation_row =
  dr_id :: string
  dr_previousDelegate :: string
  dr_newDelegate :: string
  dr_blockNumber :: string

datatype noun_event =
    ProposalVoteEvent PartialProposal "string option" "int option"
  | DelegationEvent string string string
  | TransferEvent string string string
  | NounWinEvent int string string

record NounProfileEvent =
  ne_blockNumber :: "int option"
  ne_payload :: noun_event

record NounProfileEventFetcherResponse =
  nr_data :: "NounProfileEvent list option"
  nr_error :: bool
  nr_loading :: bool

abbreviation still_loading :: NounProfileEventFetcherResponse where
  "still_loading \<equiv> \<lparr>nr_data = None, nr_error = False, nr_loading = True\<rparr>"

abbreviation failed :: NounProfileEventFetcherResponse where
  "failed \<equiv> \<lparr>nr_data = None, nr_error = True, nr_loading = False\<rparr>"

abbreviation loaded :: "NounProfileEvent list \<Rightarrow> NounProfileEventFetcherResponse" where
  "loaded events \<equiv> \<lparr>nr_data = Some events, nr_error = False, nr_loading = False\<rparr>"

section \<open>Votes\<close>

text \<open>The last vote of the list on a proposal.\<close>

definition nounVotes :: "NounVoteHistory list \<Rightarrow> string \<rightharpoonup> NounVoteHistory" where
  "nounVotes votes = fold (\<lambda>h acc. acc(nv_proposal h \<mapsto> h)) votes Map.empty"

definition no_votes :: "PartialProposal \<Rightarrow> bool" where
  "no_votes p = (case (pa_forCount p, pa_abstainCount p, pa_againstCount p) of
     (Some f, Some ab, Some ag) \<Rightarrow> f + ab + ag = 0 | _ \<Rightarrow> False)"

text \<open>
  Whether a proposal is kept: \<open>None\<close> when the proposal or its creation time is missing (a property of
  \<open>undefined\<close>) or the time is not a number (\<open>BigNumber.gt\<close> throws).
\<close>

definition keep_proposal :: "string list option \<Rightarrow> int \<Rightarrow> nat \<Rightarrow> PartialProposal option \<Rightarrow> bool option" where
  "keep_proposal timestamps nounCanVoteTimestamp i proposal =
     (case proposal of
        None \<Rightarrow> None
      | Some p \<Rightarrow>
          if \<not> truthy (pa_id p) then Some False
          else case timestamps of
            None \<Rightarrow> None
          | Some ts \<Rightarrow>
              if length ts \<le> i then None
              else case parseInt (ts ! i) of
                None \<Rightarrow> None
              | Some createdAt \<Rightarrow>
                  if createdAt < nounCanVoteTimestamp then Some False
                  else Some (\<not> (pa_status p = Some Cancelled \<and> no_votes p)))"

fun filter_proposals :: "string list option \<Rightarrow> int \<Rightarrow> nat \<Rightarrow> PartialProposal option list \<Rightarrow> PartialProposal list option" where
  "filter_proposals timestamps t i [] = Some []"
| "filter_proposals timestamps t i (p # ps) =
     (case keep_proposal timestamps t i p of
        None \<Rightarrow> None
      | Some b \<Rightarrow> map_option (\<lambda>rest. if b then the p # rest else rest) (filter_proposals timestamps t (Suc i) ps))"

definition vote_event :: "(string \<rightharpoonup> NounVoteHistory) \<Rightarrow> PartialProposal \<Rightarrow> NounProfileEvent" where
  "vote_event votes proposal =
     (case Option.bind (pa_id proposal) votes of
        None \<Rightarrow> \<lparr>ne_blockNumber = pa_endBlock proposal, ne_payload = ProposalVoteEvent proposal None None\<rparr>
      | Some vote \<Rightarrow> \<lparr>ne_blockNumber = parseInt (nv_blockNumber vote),
          ne_payload = ProposalVoteEvent proposal (Some (nv_voter vote)) (Some (nv_supportDetailed vote))\<rparr>)"

text \<open>The answer of the voting history is the list of votes, or \<open>None\<close> for an unknown Noun.\<close>

definition useNounProposalVoteEvents ::
  "NounVoteHistory list option query_result \<Rightarrow> string list query_result \<Rightarrow> int \<Rightarrow> PartialProposal option list \<Rightarrow>
   NounProfileEventFetcherResponse option" where
  "useNounProposalVoteEvents q timestamps nounCanVoteTimestamp proposals =
     (if qr_loading q \<or> proposals = [] \<or> qr_loading timestamps then Some still_loading
      else if qr_error q \<noteq> None \<or> qr_error timestamps \<noteq> None then Some failed
      else case Option.bind (qr_data q) id of
        None \<Rightarrow> None
      | Some votes \<Rightarrow>
          map_option (\<lambda>kept. loaded (map (vote_event (nounVotes votes)) kept))
            (filter_proposals (qr_data timestamps) nounCanVoteTimestamp 0 proposals))"

section \<open>Transfers and delegations\<close>

text \<open>\<open>id.substring(0, id.indexOf('_'))\<close>; without an underscore the index is -1 and the result empty.\<close>

definition before_underscore :: "string \<Rightarrow> string" where
  "before_underscore i = (if CHR ''_'' \<in> set i then takeWhile (\<lambda>c. c \<noteq> CHR ''_'') i else [])"

definition transfer_event_of :: "transfer_row \<Rightarrow> NounProfileEvent" where
  "transfer_event_of row = \<lparr>ne_blockNumber = parseInt (tr_blockNumber row),
     ne_payload = TransferEvent (tr_previousHolder row) (tr_newHolder row) (before_underscore (tr_id row))\<rparr>"

definition delegation_event_of :: "delegation_row \<Rightarrow> NounProfileEvent" where
  "delegation_event_of row = \<lparr>ne_blockNumber = parseInt (dr_blockNumber row),
     ne_payload = DelegationEvent (dr_previousDelegate row) (dr_newDelegate row) (before_underscore (dr_id row))\<rparr>"

definition useNounTransferEvents :: "transfer_row list query_result \<Rightarrow> NounProfileEventFetcherResponse option" where
  "useNounTransferEvents q =
     (if qr_loading q then Some still_loading
      else if qr_error q \<noteq> None then Some failed
      else map_option (\<lambda>rows. loaded (map transfer_event_of rows)) (qr_data q))"

definition useDelegationEvents :: "delegation_row list query_result \<Rightarrow> NounProfileEventFetcherResponse option" where
  "useDelegationEvents q =
     (if qr_loading q then Some still_loading
      else if qr_error q \<noteq> None then Some failed
      else map_option (\<lambda>rows. loaded (map delegation_event_of rows)) (qr_data q))"

section \<open>The feed\<close>

definition block_order :: "NounProfileEvent \<Rightarrow> NounProfileEvent \<Rightarrow> int" where
  "block_order a b = (case (ne_blockNumber a, ne_blockNumber b) of (Some x, Some y) \<Rightarrow> x - y | _ \<Rightarrow> 0)"

text \<open>\<open>slice(0, end)\<close>, which counts a negative end from the end of the list.\<close>

definition slice_to :: "'a list \<Rightarrow> int \<Rightarrow> 'a list" where
  "slice_to xs n = take (nat (if n < 0 then int (length xs) + n else n)) xs"

text \<open>The entry for the winner; \<open>None\<close> is the exception that the code catches.\<close>

definition win_event :: "int \<Rightarrow> NounProfileEvent list \<Rightarrow> NounProfileEvent option" where
  "win_event nounId transfers =
     (let sorted = js_sort block_order transfers; i = (if nounId mod 10 = 0 then 0 else 1)
      in if i < length sorted
         then (case ne_payload (sorted ! i) of
                 TransferEvent sender receiver hash \<Rightarrow>
                   Some \<lparr>ne_blockNumber = ne_blockNumber (sorted ! i), ne_payload = NounWinEvent nounId receiver hash\<rparr>
               | _ \<Rightarrow> None)
         else None)"

definition merge_activity ::
  "int \<Rightarrow> NounProfileEvent list \<Rightarrow> NounProfileEvent list \<Rightarrow> NounProfileEvent list \<Rightarrow> NounProfileEvent list" where
  "merge_activity nounId votesData nounTransferData delegationEventsData =
     (let events = rev (js_sort block_order (votesData @ nounTransferData @ delegationEventsData));
          postProcessedEvents = slice_to events (int (length events) - (if nounId mod 10 = 0 then 2 else 4))
      in case win_event nounId nounTransferData of
           None \<Rightarrow> postProcessedEvents
         | Some win \<Rightarrow> postProcessedEvents @ [win])"

definition useNounActivity ::
  "int \<Rightarrow> NounProfileEventFetcherResponse \<Rightarrow> NounProfileEventFetcherResponse \<Rightarrow> NounProfileEventFetcherResponse \<Rightarrow>
   NounProfileEventFetcherResponse" where
  "useNounActivity nounId votes transfers delegations =
     (if nr_loading delegations \<or> nr_loading transfers \<or> nr_loading votes then still_loading
      else if nr_error votes \<or> nr_error transfers \<or> nr_error delegations then failed
      else case (nr_data transfers, nr_data votes, nr_data delegations) of
        (Some ts, Some vs, Some ds) \<Rightarrow> loaded (merge_activity nounId vs ts ds)
      | _ \<Rightarrow> still_loading)"

section \<open>Sorted by block\<close>

text \<open>The elements of a sorted list that lie below all others come first.\<close>

lemma sorted_prefix:
  fixes key :: "'a \<Rightarrow> int"
  assumes "sorted_wrt (\<lambda>x y. key x \<le> key y) xs" "mset xs = mset as + mset bs"
    "\<And>a b. a \<in> set as \<Longrightarrow> b \<in> set bs \<Longrightarrow> key a < key b"
  shows "mset (take (length as) xs) = mset as \<and> mset (drop (length as) xs) = mset bs"
proof -
  define P where "P x \<longleftrightarrow> (\<forall>b\<in>set bs. key x < key b)" for x
  have split: "xs = filter P xs @ filter (\<lambda>x. \<not> P x) xs"
    using assms(1)
  proof (induction xs)
    case (Cons x xs)
    show ?case
    proof (cases "P x")
      case False
      then have "\<forall>y\<in>set xs. \<not> P y" using Cons.prems by (force simp: P_def)
      then show ?thesis using False by (simp add: filter_empty_conv)
    qed (use Cons in simp)
  qed simp
  have "mset (filter P xs) = filter_mset P (mset as) + filter_mset P (mset bs)"
    by (simp add: assms(2))
  moreover have "filter_mset P (mset as) = mset as" "filter_mset P (mset bs) = {#}"
    using assms(3) by (auto simp: P_def filter_mset_eq_conv intro!: filter_mset_cong)
  ultimately have as: "mset (filter P xs) = mset as" by simp
  then have "length (filter P xs) = length as" by (metis size_mset)
  with split have "take (length as) xs = filter P xs" "drop (length as) xs = filter (\<lambda>x. \<not> P x) xs"
    by (metis append_eq_conv_conj)+
  moreover have "mset (filter (\<lambda>x. \<not> P x) xs) = mset bs"
    using assms(2) as split by (metis add_left_imp_eq mset_append)
  ultimately show ?thesis using as by simp
qed

abbreviation block_of :: "NounProfileEvent \<Rightarrow> int" where "block_of e \<equiv> the (ne_blockNumber e)"

definition dated :: "NounProfileEvent list \<Rightarrow> bool" where
  "dated es = list_all (\<lambda>e. ne_blockNumber e \<noteq> None) es"

lemma js_insert_cong:
  "(\<And>y. y \<in> set ys \<Longrightarrow> f x y = g x y) \<Longrightarrow> js_insert f x ys = js_insert g x ys"
  by (induction ys) auto

lemma js_sort_cong:
  assumes "\<And>x y. x \<in> set xs \<Longrightarrow> y \<in> set xs \<Longrightarrow> f x y = g x y"
  shows "js_sort f xs = js_sort g xs"
proof -
  have "foldl (\<lambda>ys x. js_insert f x ys) acc us = foldl (\<lambda>ys x. js_insert g x ys) acc us"
    if "set us \<subseteq> set xs" "set acc \<subseteq> set xs" for us acc
    using that
  proof (induction us arbitrary: acc)
    case (Cons u us)
    then have "js_insert f u acc = js_insert g u acc" using assms by (intro js_insert_cong) auto
    with Cons show ?case by simp
  qed simp
  then show ?thesis by (simp add: js_sort_def)
qed

lemma sorted_by_block:
  assumes "dated es"
  shows "sorted_wrt (\<lambda>x y. block_of x \<le> block_of y) (js_sort block_order es)"
proof -
  have "js_sort block_order es = js_sort (\<lambda>a b. block_of a - block_of b) es"
    using assms by (intro js_sort_cong) (auto simp: dated_def list_all_iff block_order_def split: option.splits)
  then show ?thesis by (simp add: sorted_js_sort_key)
qed

lemma sorted_unique:
  fixes key :: "'a \<Rightarrow> int"
  assumes "sorted_wrt (\<lambda>x y. key x \<le> key y) xs" "sorted_wrt (\<lambda>x y. key x < key y) ys" "mset xs = mset ys"
  shows "xs = ys"
proof -
  have "sorted_wrt (<) (map key ys)" using assms(2) by (simp add: sorted_wrt_map)
  then have ys: "inj_on key (set ys)" "sorted (map key ys)" by (simp_all add: strict_sorted_iff distinct_map)
  have "sorted (map key xs)" using assms(1) by (simp add: sorted_wrt_map)
  with assms(3) ys(1) have "sort_key key ys = xs" by (intro sort_key_inj_key_eq) simp_all
  moreover have "sort_key key ys = ys" using ys by (intro sort_key_inj_key_eq) simp_all
  ultimately show ?thesis by simp
qed

section \<open>A complete feed\<close>

text \<open>
  The history of a Noun: its first transfers and delegations (its birth, and for a Noun that was
  auctioned the hand-over to the winner), all before everything else.
\<close>

definition birth_events :: "int \<Rightarrow> nat" where
  "birth_events nounId = (if nounId mod 10 = 0 then 1 else 2)"

record noun_history =
  nh_births :: "NounProfileEvent list"
  nh_delegated :: "NounProfileEvent list"
  nh_votes :: "NounProfileEvent list"
  nh_transfers :: "NounProfileEvent list"
  nh_delegations :: "NounProfileEvent list"

definition later_events :: "noun_history \<Rightarrow> NounProfileEvent list" where
  "later_events h = nh_votes h @ nh_transfers h @ nh_delegations h"

definition history_of :: "int \<Rightarrow> noun_history \<Rightarrow> bool" where
  "history_of nounId h \<longleftrightarrow>
     length (nh_births h) = birth_events nounId \<and> length (nh_delegated h) = birth_events nounId \<and>
     dated (nh_births h @ nh_delegated h @ later_events h) \<and>
     sorted_wrt (\<lambda>x y. block_of x < block_of y) (nh_births h) \<and>
     list_all (\<lambda>b. list_all (\<lambda>e. block_of b < block_of e) (later_events h)) (nh_births h @ nh_delegated h)"

lemma birth_transfers_first:
  assumes "history_of nounId h" "mset ts = mset (nh_births h @ nh_transfers h)"
  shows "take (birth_events nounId) (js_sort block_order ts) = nh_births h"
proof -
  have "set ts = set (nh_births h @ nh_transfers h)" using assms(2) by (metis set_mset_mset)
  then have "dated ts" using assms(1) by (auto simp: history_of_def dated_def list_all_iff later_events_def)
  then have sorted: "sorted_wrt (\<lambda>x y. block_of x \<le> block_of y) (js_sort block_order ts)" by (rule sorted_by_block)
  have "mset (take (length (nh_births h)) (js_sort block_order ts)) = mset (nh_births h)"
    using sorted_prefix [OF sorted, of "nh_births h" "nh_transfers h"] assms
    by (simp add: history_of_def list_all_iff later_events_def)
  moreover have "sorted_wrt (\<lambda>x y. block_of x < block_of y) (nh_births h)" "length (nh_births h) = birth_events nounId"
    using assms(1) by (simp_all add: history_of_def)
  ultimately show ?thesis using sorted_unique [OF sorted_wrt_take [OF sorted]] by simp
qed

lemma later_events_last:
  assumes "history_of nounId h" "mset es = mset (nh_births h @ nh_delegated h @ later_events h)"
  shows "mset (drop (2 * birth_events nounId) (js_sort block_order es)) = mset (later_events h)"
    "sorted_wrt (\<lambda>x y. block_of x \<le> block_of y) (js_sort block_order es)"
proof -
  have "set es = set (nh_births h @ nh_delegated h @ later_events h)" using assms(2) by (metis set_mset_mset)
  then have "dated es" using assms(1) by (auto simp: history_of_def dated_def list_all_iff)
  then show sorted: "sorted_wrt (\<lambda>x y. block_of x \<le> block_of y) (js_sort block_order es)" by (rule sorted_by_block)
  show "mset (drop (2 * birth_events nounId) (js_sort block_order es)) = mset (later_events h)"
    using sorted_prefix [OF sorted, of "nh_births h @ nh_delegated h" "later_events h"] assms
    by (simp add: history_of_def list_all_iff mult_2)
qed

lemma slice_to_rev:
  "n \<le> length xs \<Longrightarrow> slice_to (rev xs) (int (length xs) - int n) = rev (drop n xs)"
  by (simp add: slice_to_def take_rev nat_diff_distrib)

lemma activity_feed:
  assumes "history_of nounId h" "ne_payload (last (nh_births h)) = TransferEvent sender winner hash"
    "mset vs = mset (nh_votes h)" "mset ts = mset (nh_births h @ nh_transfers h)"
    "mset ds = mset (nh_delegated h @ nh_delegations h)"
  shows "\<exists>feed. useNounActivity nounId (loaded vs) (loaded ts) (loaded ds) = loaded (feed @
      [\<lparr>ne_blockNumber = ne_blockNumber (last (nh_births h)), ne_payload = NounWinEvent nounId winner hash\<rparr>]) \<and>
    mset feed = mset (later_events h) \<and> sorted_wrt (\<lambda>x y. block_of y \<le> block_of x) feed"
proof -
  let ?n = "birth_events nounId" and ?s = "js_sort block_order (vs @ ts @ ds)"
  have all: "mset (vs @ ts @ ds) = mset (nh_births h @ nh_delegated h @ later_events h)"
    using assms(3-5) by (simp add: later_events_def)
  have n: "length (nh_births h) = ?n" "0 < ?n" "2 * ?n \<le> length ?s"
    using assms(1) mset_eq_length [OF all] by (auto simp: history_of_def birth_events_def)
  have T: "take ?n (js_sort block_order ts) = nh_births h" by (rule birth_transfers_first [OF assms(1,4)])
  then have "?n \<le> length (js_sort block_order ts)" using n(1) by (metis length_take min.cobounded1 min_def)
  moreover have "js_sort block_order ts ! (?n - 1) = last (nh_births h)"
    using n T by (metis diff_less last_conv_nth length_greater_0_conv less_numeral_extra(1) nth_take)
  ultimately have win: "win_event nounId ts =
      Some \<lparr>ne_blockNumber = ne_blockNumber (last (nh_births h)), ne_payload = NounWinEvent nounId winner hash\<rparr>"
    using assms(2) by (auto simp: win_event_def Let_def birth_events_def split: if_splits)
  have "slice_to (rev ?s) (int (length ?s) - (if nounId mod 10 = 0 then 2 else 4)) = rev (drop (2 * ?n) ?s)"
    using slice_to_rev [OF n(3)] by (simp add: birth_events_def split: if_splits)
  moreover have "mset (rev (drop (2 * ?n) ?s)) = mset (later_events h)"
    using later_events_last(1) [OF assms(1) all] by simp
  moreover have "sorted_wrt (\<lambda>x y. block_of y \<le> block_of x) (rev (drop (2 * ?n) ?s))"
    using sorted_wrt_drop [OF later_events_last(2) [OF assms(1) all]] by (simp add: sorted_wrt_rev)
  ultimately show ?thesis
    by (intro exI [of _ "rev (drop (2 * ?n) ?s)"]) (simp add: useNounActivity_def merge_activity_def win Let_def)
qed

text \<open>
  The activity feed of a Noun whose first transfers and delegations (its birth, and unless it
  went to the founders the hand-over to the winner of its auction) precede everything else, in
  whatever order the three queries answer: the feed shows every later vote, transfer and delegation
  exactly once, newest first, and below them one entry that names the first holder as the winner,
  with the block and the transaction of the hand-over.
\<close>
theorem noun_activity_feed:
  assumes "history_of nounId h" "ne_payload (last (nh_births h)) = TransferEvent sender winner hash"
    "mset vs = mset (nh_votes h)" "mset ts = mset (nh_births h @ nh_transfers h)"
    "mset ds = mset (nh_delegated h @ nh_delegations h)"
  shows "\<exists>feed. useNounActivity nounId (loaded vs) (loaded ts) (loaded ds) = loaded (feed @
      [\<lparr>ne_blockNumber = ne_blockNumber (last (nh_births h)), ne_payload = NounWinEvent nounId winner hash\<rparr>]) \<and>
    mset feed = mset (later_events h) \<and> sorted_wrt (\<lambda>x y. block_of y \<le> block_of x) feed"
  by (rule activity_feed [OF assms])

definition demo_transfer :: "int \<Rightarrow> string \<Rightarrow> string \<Rightarrow> string \<Rightarrow> NounProfileEvent" where
  "demo_transfer b x y t = \<lparr>ne_blockNumber = Some b, ne_payload = TransferEvent x y t\<rparr>"

definition demo_delegation :: "int \<Rightarrow> string \<Rightarrow> string \<Rightarrow> string \<Rightarrow> NounProfileEvent" where
  "demo_delegation b x y t = \<lparr>ne_blockNumber = Some b, ne_payload = DelegationEvent x y t\<rparr>"

definition demo_history :: noun_history where
  "demo_history =
     \<lparr>nh_births = [demo_transfer 5 ''0'' ''house'' ''t1'', demo_transfer 9 ''house'' ''ann'' ''t2''],
      nh_delegated = [demo_delegation 5 ''0'' ''house'' ''t1'', demo_delegation 9 ''house'' ''ann'' ''t2''],
      nh_votes = [], nh_transfers = [demo_transfer 20 ''ann'' ''bob'' ''t3''],
      nh_delegations = [demo_delegation 20 ''ann'' ''bob'' ''t3'', demo_delegation 15 ''ann'' ''cid'' ''t4'']\<rparr>"

theorem noun_activity_feed_witness:
  "\<exists>feed. useNounActivity 7 (loaded []) (loaded (rev (nh_births demo_history @ nh_transfers demo_history)))
      (loaded (nh_delegated demo_history @ nh_delegations demo_history)) =
      loaded (feed @ [\<lparr>ne_blockNumber = Some 9, ne_payload = NounWinEvent 7 ''ann'' ''t2''\<rparr>]) \<and>
    mset feed = mset (later_events demo_history)"
proof -
  have "history_of 7 demo_history"
    by (simp add: history_of_def demo_history_def birth_events_def dated_def later_events_def demo_transfer_def
        demo_delegation_def)
  moreover have "ne_payload (last (nh_births demo_history)) = TransferEvent ''house'' ''ann'' ''t2''"
    "ne_blockNumber (last (nh_births demo_history)) = Some 9" "nh_votes demo_history = []"
    by (simp_all add: demo_history_def demo_transfer_def)
  ultimately show ?thesis
    using noun_activity_feed [of 7 demo_history "''house''" "''ann''" "''t2''" "[]"
        "rev (nh_births demo_history @ nh_transfers demo_history)" "nh_delegated demo_history @ nh_delegations demo_history"]
    by (elim exE conjE meta_impE) auto
qed

section \<open>From the indexer to the feed\<close>

text \<open>The answers to \<open>nounTransferHistoryQuery\<close> and \<open>nounDelegationHistoryQuery\<close> for one stored entity.\<close>

definition transfer_answer :: "transfer_event \<Rightarrow> transfer_row" where
  "transfer_answer e = \<lparr>tr_id = te_id e, tr_previousHolder = te_previousHolder e, tr_newHolder = te_newHolder e,
     tr_blockNumber = int_to_string (te_blockNumber e)\<rparr>"

definition delegation_answer :: "delegation_event \<Rightarrow> delegation_row" where
  "delegation_answer e = \<lparr>dr_id = de_id e, dr_previousDelegate = de_previousDelegate e,
     dr_newDelegate = de_newDelegate e, dr_blockNumber = int_to_string (de_blockNumber e)\<rparr>"

lemma events_frames:
  "st_transferEvents (snd (getOrCreateAccount k s)) = st_transferEvents s"
  "st_delegationEvents (snd (getOrCreateAccount k s)) = st_delegationEvents s"
  "st_transferEvents (snd (getOrCreateDelegate k s)) = st_transferEvents s"
  "st_delegationEvents (snd (getOrCreateDelegate k s)) = st_delegationEvents s"
  by (auto simp: getOrCreateAccount_eq getOrCreateDelegate_eq handler_defs split: option.splits)

lemma fromHolder_events:
  assumes "transfer_fromHolder F n a g s = (a', g', s')"
  shows "st_transferEvents s' = st_transferEvents s" "st_delegationEvents s' = st_delegationEvents s"
    "acc_delegate a' = acc_delegate a" "acc_id a' = acc_id a"
  using assms events_frames
  by (auto simp: transfer_fromHolder_def Let_def handler_defs case_prod_beta split: if_splits option.splits)

lemma toHolder_events:
  "st_transferEvents (transfer_toHolder ctx T n a b g s) = st_transferEvents s"
  "st_delegationEvents (transfer_toHolder ctx T n a b g s) = (st_delegationEvents s)
     (toHexString (ev_txHash ctx) @ ''_'' @ n \<mapsto> delegation_entity ctx n (acc_id a)
        (or_string (acc_delegate a) (acc_id a)) (or_string (acc_delegate b) (acc_id b)))"
  using events_frames
  by (auto simp: transfer_toHolder_def delegation_entity_def Let_def handler_defs case_prod_beta split: option.splits)

lemma before_underscore_hash: "before_underscore (toHexString b @ ''_'' @ n) = toHexString b"
proof -
  have hex: "digit_char d \<noteq> CHR ''_''" if "d < 16" for d
    using digit_val_char [of d] that by (auto simp: digit_val_def)
  have "c \<noteq> CHR ''_''" if "c \<in> set (hex_byte w)" for c w
    using that unat_byte_bound [of w] hex [of "unat w div 16"] hex [of "unat w mod 16"]
    by (auto simp: hex_byte_def less_mult_imp_div_less)
  then have "CHR ''_'' \<notin> set (toHexString b)" by (auto simp: toHexString_def)
  then have "takeWhile (\<lambda>c. c \<noteq> CHR ''_'') (toHexString b @ ''_'' @ n) = toHexString b"
    by (subst takeWhile_append2) auto
  then show ?thesis by (simp add: before_underscore_def)
qed

lemma handleTransfer_events:
  fixes ctx :: event_ctx and i :: int
  assumes "wf_keys s"
  defines "k \<equiv> toHexString (ev_txHash ctx) @ ''_'' @ int_to_string i"
  shows "st_transferEvents (handleTransfer ctx f t i s) = (st_transferEvents s)(k \<mapsto>
      \<lparr>te_id = k, te_noun = int_to_string i, te_previousHolder = toHexString f, te_newHolder = toHexString t,
       te_blockNumber = ev_blockNumber ctx, te_blockTimestamp = ev_blockTimestamp ctx\<rparr>)"
    "st_delegationEvents (handleTransfer ctx f t i s) = (st_delegationEvents s)(k \<mapsto>
      delegation_entity ctx (int_to_string i) (toHexString f)
        (or_string (acc_delegate (acc_or_new (toHexString f) s)) (toHexString f))
        (or_string (acc_delegate (acc_or_new (toHexString t) s)) (toHexString t)))"
proof -
  let ?s = "snd (getOrCreateAccount (toHexString f) s)"
  have to: "acc_or_new (toHexString t) ?s = acc_or_new (toHexString t) s"
    by (auto simp: acc_or_new_def snd_getOrCreateAccount)
  let ?f = "acc_or_new (toHexString f) s" and ?t = "acc_or_new (toHexString t) s"
  let ?te = "\<lparr>te_id = k, te_noun = int_to_string i, te_previousHolder = acc_id ?f, te_newHolder = acc_id ?t,
       te_blockNumber = ev_blockNumber ctx, te_blockTimestamp = ev_blockTimestamp ctx\<rparr>"
  define u where "u = save_transfer_event ?te (snd (getOrCreateAccount (toHexString t) ?s))"
  obtain a' g' s' where r: "transfer_fromHolder (toHexString f) (int_to_string i) ?f
      (getGovernanceEntity (snd (getOrCreateAccount (toHexString t) ?s))) u = (a', g', s')"
    by (metis prod_cases3)
  have eq: "handleTransfer ctx f t i s = transfer_toHolder ctx (toHexString t) (int_to_string i) a' ?t g' s'"
    using r by (simp add: handleTransfer_def Let_def case_prod_beta fst_getOrCreateAccount to u_def k_def)
  have u: "st_transferEvents u = (st_transferEvents s)(k \<mapsto> ?te)" "st_delegationEvents u = st_delegationEvents s"
    by (simp_all add: u_def handler_defs events_frames)
  note ids = acc_or_new_id [OF assms(1)]
  show "st_transferEvents (handleTransfer ctx f t i s) = (st_transferEvents s)(k \<mapsto>
      \<lparr>te_id = k, te_noun = int_to_string i, te_previousHolder = toHexString f, te_newHolder = toHexString t,
       te_blockNumber = ev_blockNumber ctx, te_blockTimestamp = ev_blockTimestamp ctx\<rparr>)"
    by (simp add: eq toHolder_events fromHolder_events [OF r] u ids)
  show "st_delegationEvents (handleTransfer ctx f t i s) = (st_delegationEvents s)(k \<mapsto>
      delegation_entity ctx (int_to_string i) (toHexString f)
        (or_string (acc_delegate ?f) (toHexString f)) (or_string (acc_delegate ?t) (toHexString t)))"
    by (simp add: eq toHolder_events fromHolder_events [OF r] u ids k_def)
qed

text \<open>
  A transfer on chain reaches the activity feed unchanged: after the indexer handles the event,
  the entities it stores under the transaction's hash and the Noun's number are answered by the two
  history queries and read by the web application as one transfer between the same two addresses and
  one delegation between their delegates, both with the event's block and the transaction's hash.
\<close>
theorem transfer_reaches_feed:
  assumes "wf_keys s"
  shows "\<exists>e d. load_transfer_event (toHexString (ev_txHash ctx) @ ''_'' @ int_to_string i)
        (handleTransfer ctx f t i s) = Some e \<and>
      load_delegation_event (toHexString (ev_txHash ctx) @ ''_'' @ int_to_string i)
        (handleTransfer ctx f t i s) = Some d \<and>
      transfer_event_of (transfer_answer e) = \<lparr>ne_blockNumber = Some (ev_blockNumber ctx),
        ne_payload = TransferEvent (toHexString f) (toHexString t) (toHexString (ev_txHash ctx))\<rparr> \<and>
      delegation_event_of (delegation_answer d) = \<lparr>ne_blockNumber = Some (ev_blockNumber ctx),
        ne_payload = DelegationEvent (or_string (acc_delegate (acc_or_new (toHexString f) s)) (toHexString f))
          (or_string (acc_delegate (acc_or_new (toHexString t) s)) (toHexString t)) (toHexString (ev_txHash ctx))\<rparr>"
  using before_underscore_hash
  by (simp add: load_transfer_event_def load_delegation_event_def handleTransfer_events [OF assms]
      transfer_event_of_def delegation_event_of_def transfer_answer_def delegation_answer_def delegation_entity_def)

theorem transfer_reaches_feed_witness:
  "wf_keys empty_store \<and>
   (\<exists>e. load_transfer_event (toHexString [1] @ ''_'' @ int_to_string 7)
      (handleTransfer \<lparr>ev_txHash = [1], ev_txIndex = 0, ev_logIndex = 0, ev_blockNumber = 5, ev_blockTimestamp = 60,
         ev_address = []\<rparr> [0] [2] 7 empty_store) = Some e)"
proof -
  have "wf_keys empty_store" using token_inv_empty by (simp add: token_inv_def ownership_inv_def)
  with transfer_reaches_feed [of empty_store "\<lparr>ev_txHash = [1], ev_txIndex = 0, ev_logIndex = 0,
      ev_blockNumber = 5, ev_blockTimestamp = 60, ev_address = []\<rparr>" 7 "[0]" "[2]"] show ?thesis by auto
qed

end
