(* ===== verification/Webapp_Amounts.thy ===== *)
theory Webapp_Amounts
  imports Complex_Main Webapp_Js
begin

text \<open>
  Amounts of money as texts and as JavaScript numbers (\<open>packages/nouns-webapp/src/utils/usdcUtils.ts\<close>,
  \<open>formatTokenAmount\<close> and \<open>getTokenAddressForCurrency\<close> of \<open>utils/streamingPaymentUtils\<close>).

  A finite number is a rational with a 53-bit significand, rounded to nearest, ties to even; amounts
  are neither so small nor so large that the exponent matters. \<open>None\<close> is \<open>NaN\<close>. \<open>utils.parseEther\<close>
  of the library \<open>ethers\<close> and the addresses of the configuration are parameters.
\<close>

section \<open>Double-precision numbers\<close>

fun bits :: "nat \<Rightarrow> nat" where
  "bits n = (if n = 0 then 0 else Suc (bits (n div 2)))"

declare bits.simps [simp del]

definition half_even :: "rat \<Rightarrow> int" where
  "half_even x =
     (let n = \<lfloor>x\<rfloor>; r = x - of_int n
      in if r < 1 / 2 then n else if 1 / 2 < r then n + 1 else if even n then n else n + 1)"

text \<open>The exponent \<open>e\<close> with \<open>2\<^sup>5\<^sup>2 \<le> q / 2\<^sup>e < 2\<^sup>5\<^sup>3\<close>.\<close>

definition exponent :: "rat \<Rightarrow> int" where
  "exponent q =
     (case quotient_of q of (n, d) \<Rightarrow>
        let k = int (bits (nat n)) - int (bits (nat d))
        in if q < 2 powi k then k - 53 else k - 52)"

definition round_pos :: "rat \<Rightarrow> rat" where
  "round_pos q = (let e = exponent q in of_int (half_even (q / 2 powi e)) * 2 powi e)"

definition to_double :: "rat \<Rightarrow> rat" where
  "to_double q = (if q = 0 then 0 else if q < 0 then - round_pos (- q) else round_pos q)"

definition math_round :: "rat \<Rightarrow> int" where
  "math_round x = \<lfloor>x + 1 / 2\<rfloor>"

section \<open>Reading numbers\<close>

text \<open>The digits after a point and their number; the exponent of the scientific notation.\<close>

definition digits_value :: "string \<Rightarrow> nat" where
  "digits_value ds = (case of_base 10 ds of None \<Rightarrow> 0 | Some n \<Rightarrow> n)"

definition read_exponent :: "string \<Rightarrow> int" where
  "read_exponent s =
     (case s of
        c # cs \<Rightarrow>
          if c = CHR ''e'' \<or> c = CHR ''E''
          then (let negative = (cs \<noteq> [] \<and> hd cs = CHR ''-'');
                    ds = takeWhile is_decimal (if cs \<noteq> [] \<and> (hd cs = CHR ''-'' \<or> hd cs = CHR ''+'') then tl cs else cs)
                in if negative then - int (digits_value ds) else int (digits_value ds))
          else 0
      | [] \<Rightarrow> 0)"

definition read_decimal :: "string \<Rightarrow> rat option" where
  "read_decimal s =
     (let ip = takeWhile is_decimal s; r = dropWhile is_decimal s;
          fp = (if r \<noteq> [] \<and> hd r = CHR ''.'' then takeWhile is_decimal (tl r) else []);
          r' = (if r \<noteq> [] \<and> hd r = CHR ''.'' then dropWhile is_decimal (tl r) else r)
      in if ip = [] \<and> fp = [] then None
         else Some (of_nat (digits_value (ip @ fp)) * 10 powi (read_exponent r' - int (length fp))))"

text \<open>\<open>parseFloat\<close>: the longest decimal prefix behind white space, rounded to a double. The text
  \<open>Infinity\<close> is not an amount.\<close>

definition parseFloat :: "string \<Rightarrow> rat option" where
  "parseFloat s =
     map_option to_double
       (case dropWhile is_space s of
          [] \<Rightarrow> None
        | c # cs \<Rightarrow>
            if c = CHR ''-'' then map_option uminus (read_decimal cs)
            else if c = CHR ''+'' then read_decimal cs
            else read_decimal (c # cs))"

section \<open>Printing numbers\<close>

text \<open>The number of digits before the point, at most 0 for a number below 1.\<close>

definition magnitude :: "rat \<Rightarrow> int" where
  "magnitude x =
     (if 1 \<le> x then int (length (to_base 10 (nat \<lfloor>x\<rfloor>)))
      else 1 - int (length (to_base 10 (nat (\<lceil>1 / x\<rceil> - 1)))))"

text \<open>
  The shortest digits that are read back as the number: a number \<open>s\<close> of \<open>k\<close> digits, from 1 to 17, and the
  position \<open>n\<close> of the point, one further when rounding reaches a power of ten.
\<close>

definition digits_of :: "rat \<Rightarrow> nat \<Rightarrow> int \<times> int" where
  "digits_of x k =
     (let n = magnitude x; s = math_round (x / 10 powi (n - int k))
      in if s = 10 ^ k then (10 ^ (k - 1), n + 1) else (s, n))"

definition reads_back :: "rat \<Rightarrow> nat \<Rightarrow> bool" where
  "reads_back x k = (case digits_of x k of (s, n) \<Rightarrow> to_double (of_int s * 10 powi (n - int k)) = x)"

definition shortest :: "rat \<Rightarrow> nat" where
  "shortest x = (case find (reads_back x) [1..<18] of None \<Rightarrow> 17 | Some k \<Rightarrow> k)"

definition zeros :: "int \<Rightarrow> string" where
  "zeros n = replicate (nat n) (CHR ''0'')"

text \<open>\<open>Number.prototype.toString\<close> for a finite number.\<close>

definition print_pos :: "rat \<Rightarrow> string" where
  "print_pos x =
     (let k = int (shortest x); n = snd (digits_of x (shortest x)); s = int_to_string (fst (digits_of x (shortest x)));
          e = n - 1; sign = (if e < 0 then ''-'' else ''+'')
      in if k \<le> n \<and> n \<le> 21 then s @ zeros (n - k)
         else if 0 < n \<and> n \<le> 21 then take (nat n) s @ ''.'' @ drop (nat n) s
         else if - 6 < n \<and> n \<le> 0 then ''0.'' @ zeros (- n) @ s
         else if k = 1 then s @ ''e'' @ sign @ int_to_string \<bar>e\<bar>
         else take 1 s @ ''.'' @ drop 1 s @ ''e'' @ sign @ int_to_string \<bar>e\<bar>)"

definition number_toString :: "rat option \<Rightarrow> string" where
  "number_toString x =
     (case x of None \<Rightarrow> ''NaN'' | Some q \<Rightarrow>
        if q = 0 then ''0'' else if q < 0 then ''-'' @ print_pos (- q) else print_pos q)"

text \<open>\<open>toFixed(3)\<close> below \<open>10\<^sup>2\<^sup>1\<close>.\<close>

definition fixed3 :: "rat \<Rightarrow> string" where
  "fixed3 q =
     (let n = nat (math_round (q * 1000)); m = to_base 10 n; s = zeros (4 - int (length m)) @ m
      in take (length s - 3) s @ ''.'' @ drop (length s - 3) s)"

definition toFixed3 :: "rat option \<Rightarrow> string" where
  "toFixed3 x =
     (case x of None \<Rightarrow> ''NaN'' | Some q \<Rightarrow>
        if \<bar>q\<bar> < 10 ^ 21 then (if q < 0 then ''-'' @ fixed3 (- q) else fixed3 q) else number_toString x)"

section \<open>Amounts\<close>

definition human2ContractUSDCFormat :: "string \<Rightarrow> string" where
  "human2ContractUSDCFormat humanReadableUSDCAmt =
     number_toString (map_option (\<lambda>x. of_int (math_round (to_double (x * 1000000)))) (parseFloat humanReadableUSDCAmt))"

definition contract2humanUSDCFormat :: "string \<Rightarrow> bool \<Rightarrow> string" where
  "contract2humanUSDCFormat contractUSCDAmt allDecimals =
     (let x = map_option (\<lambda>x. to_double (x / 1000000)) (parseFloat contractUSCDAmt)
      in if allDecimals then number_toString x else toFixed3 x)"

datatype SupportedCurrency = ETH | WETH | STETH | USDC

record addresses =
  ad_nounsStreamFactory :: "string option"
  ad_usdcToken :: "string option"
  ad_weth :: "string option"
  ad_steth :: "string option"
  ad_payerContract :: "string option"
  ad_tokenBuyer :: "string option"

text \<open>\<open>parseEther\<close> throws on a text that is not a decimal number; \<open>None\<close> is the exception.\<close>

definition formatTokenAmount ::
  "(string \<Rightarrow> string option) \<Rightarrow> string option \<Rightarrow> SupportedCurrency option \<Rightarrow> string option" where
  "formatTokenAmount parseEther amount currency =
     (let amt = (case amount of None \<Rightarrow> ''0'' | Some a \<Rightarrow> a)
      in case currency of
           Some USDC \<Rightarrow> Some (human2ContractUSDCFormat amt)
         | Some WETH \<Rightarrow> parseEther amt
         | Some STETH \<Rightarrow> parseEther amt
         | _ \<Rightarrow> Some amt)"

definition getTokenAddressForCurrency :: "addresses \<Rightarrow> SupportedCurrency option \<Rightarrow> string option" where
  "getTokenAddressForCurrency addresses currency =
     (case currency of
        Some USDC \<Rightarrow> ad_usdcToken addresses
      | Some WETH \<Rightarrow> ad_weth addresses
      | Some STETH \<Rightarrow> ad_steth addresses
      | _ \<Rightarrow> Some [])"

section \<open>Rounding\<close>

lemma bits_bounds: "0 < n \<Longrightarrow> 2 ^ (bits n - 1) \<le> n \<and> n < 2 ^ bits n \<and> 0 < bits n"
proof (induction n rule: bits.induct)
  case (1 n)
  show ?case
  proof (cases "n div 2 = 0")
    case True
    then have "n = 1" using "1.prems" by auto
    then show ?thesis by (simp add: bits.simps [of "Suc 0"] bits.simps [of 0])
  next
    case False
    then have IH: "2 ^ (bits (n div 2) - 1) \<le> n div 2" "n div 2 < 2 ^ bits (n div 2)" "0 < bits (n div 2)"
      using "1.IH" "1.prems" by auto
    have b: "bits n = Suc (bits (n div 2))" using "1.prems" by (simp add: bits.simps [of n])
    have "2 ^ (bits n - 1) = 2 * (2::nat) ^ (bits (n div 2) - 1)"
      using IH(3) b by (cases "bits (n div 2)") auto
    with IH(1,2) b show ?thesis by (simp, linarith)
  qed
qed

lemma exponent_bounds:
  assumes "0 < q"
  shows "2 ^ 52 \<le> q / 2 powi exponent q" "q / 2 powi exponent q < 2 ^ 53"
proof -
  obtain n d where nd: "quotient_of q = (n, d)" by (cases "quotient_of q")
  have d: "0 < d" and q: "q = of_int n / of_int d"
    using quotient_of_denom_pos [OF nd] quotient_of_div [OF nd] by auto
  have n: "0 < n" using assms d q by (simp add: zero_less_divide_iff)
  define a b where "a = bits (nat n)" and "b = bits (nat d)"
  have "2 ^ (a - 1) \<le> nat n" "nat n < 2 ^ a" "0 < a" "2 ^ (b - 1) \<le> nat d" "nat d < 2 ^ b" "0 < b"
    using bits_bounds [of "nat n"] bits_bounds [of "nat d"] n d by (auto simp: a_def b_def)
  then have I: "2 ^ (a - 1) \<le> n" "n < 2 ^ a" "2 ^ (b - 1) \<le> d" "d < 2 ^ b"
    using n d by (auto simp: nat_less_iff nat_le_iff le_nat_iff)
  have ab: "(2::rat) ^ a = 2 * 2 ^ (a - 1)" "(2::rat) ^ b = 2 * 2 ^ (b - 1)"
    using \<open>0 < a\<close> \<open>0 < b\<close> by (cases a; cases b; simp)+
  from I have R: "2 ^ (a - 1) \<le> rat_of_int n" "rat_of_int n < 2 ^ a" "2 ^ (b - 1) \<le> rat_of_int d" "rat_of_int d < 2 ^ b"
    using of_int_le_iff [of "2 ^ (a - 1)" n, where 'a = rat] of_int_less_iff [of n "2 ^ a", where 'a = rat]
      of_int_le_iff [of "2 ^ (b - 1)" d, where 'a = rat] of_int_less_iff [of d "2 ^ b", where 'a = rat] by simp_all
  define k where "k = int a - int b"
  have pk: "2 powi k = (2::rat) ^ a / 2 ^ b" by (simp add: k_def power_int_diff)
  have lo: "2 powi k / 2 < q"
  proof -
    have "2 ^ a / 2 ^ b / 2 = (2::rat) ^ (a - 1) / 2 ^ b" using ab by simp
    also have "\<dots> \<le> of_int n / 2 ^ b" using R by (simp add: divide_right_mono)
    also have "\<dots> < of_int n / of_int d" using R n d by (intro divide_strict_left_mono) auto
    finally show ?thesis by (simp add: pk q)
  qed
  have hi: "q < 2 * 2 powi k"
  proof -
    have "q < 2 ^ a / of_int d" using R d by (simp add: q divide_strict_right_mono)
    also have "\<dots> \<le> 2 ^ a / 2 ^ (b - 1)" using R d by (intro divide_left_mono) auto
    also have "\<dots> = 2 * (2 ^ a / 2 ^ b)" using ab by simp
    finally show ?thesis by (simp add: pk)
  qed
  have e: "exponent q = (if q < 2 powi k then k - 53 else k - 52)"
    by (simp add: exponent_def nd a_def b_def k_def Let_def)
  have p: "(2::rat) powi (k - 53) = 2 powi k / 2 ^ 53" "(2::rat) powi (k - 52) = 2 powi k / 2 ^ 52" "0 < (2::rat) powi k"
    by (simp_all add: power_int_diff)
  show "2 ^ 52 \<le> q / 2 powi exponent q" "q / 2 powi exponent q < 2 ^ 53"
    using lo hi p by (auto simp: e field_simps)
qed

lemma half_even_error: "\<bar>of_int (half_even x) - x\<bar> \<le> 1 / 2"
proof -
  have "of_int \<lfloor>x\<rfloor> \<le> x" "x < of_int \<lfloor>x\<rfloor> + 1" by linarith+
  then show ?thesis by (auto simp: half_even_def Let_def abs_le_iff)
qed

lemma half_even_int [simp]: "half_even (of_int n) = n"
  by (simp add: half_even_def)

lemma round_pos_error:
  assumes "0 < q"
  shows "\<bar>round_pos q - q\<bar> \<le> q / 2 ^ 53"
proof -
  define p where "p = (2::rat) powi exponent q"
  have p: "0 < p" by (simp add: p_def)
  have "\<bar>of_int (half_even (q / p)) - q / p\<bar> \<le> 1 / 2" by (rule half_even_error)
  moreover have "round_pos q - q = (of_int (half_even (q / p)) - q / p) * p"
    using p by (simp add: round_pos_def p_def Let_def field_simps)
  ultimately have "\<bar>round_pos q - q\<bar> \<le> p / 2" using p by (simp add: abs_mult)
  moreover have "2 ^ 52 * p \<le> q" using exponent_bounds(1) [OF assms] p by (simp add: p_def field_simps)
  ultimately show ?thesis by simp
qed

lemma round_pos_exact:
  assumes "0 < q" "q < 2 ^ 53" "q = of_int n"
  shows "round_pos q = q"
proof -
  define e where "e = exponent q"
  have "e \<le> 0"
  proof (rule ccontr)
    assume "\<not> e \<le> 0"
    then have "(2::rat) powi 1 \<le> 2 powi e" by (intro power_int_increasing) auto
    then have "2 ^ 52 * 2 \<le> 2 ^ 52 * (2::rat) powi e" by simp
    moreover have "2 ^ 52 * 2 powi e \<le> q" using exponent_bounds(1) [OF assms(1)] by (simp add: e_def field_simps)
    ultimately show False using assms(2) by simp
  qed
  then have "q / 2 powi e = of_int (n * 2 ^ nat (- e))"
    by (simp add: assms(3) power_int_def field_simps)
  then have "of_int (half_even (q / 2 powi e)) = q / 2 powi e" by (simp only: half_even_int)
  then show ?thesis by (simp add: round_pos_def Let_def flip: e_def)
qed

lemma to_double_int: "0 \<le> n \<Longrightarrow> n < 2 ^ 53 \<Longrightarrow> to_double (of_int n) = of_int n"
  using round_pos_exact [of "of_int n" n] of_int_less_iff [of n "2 ^ 53", where 'a = rat]
  by (auto simp: to_double_def)

lemma to_double_error: "0 \<le> q \<Longrightarrow> \<bar>to_double q - q\<bar> \<le> q / 2 ^ 53"
  using round_pos_error [of q] by (auto simp: to_double_def)

lemma math_round_near: "\<bar>x - of_int n\<bar> < 1 / 2 \<Longrightarrow> math_round x = n"
  unfolding math_round_def floor_eq_iff by linarith

text \<open>Multiplying by a million and rounding gives the exact number of millionths.\<close>

lemma scaled_exact:
  assumes "0 \<le> q" "q * 1000000 = of_int m" "m < 2 ^ 50"
  shows "math_round (to_double (to_double q * 1000000)) = m"
proof (rule math_round_near)
  define x where "x = to_double q * 1000000"
  have M: "rat_of_int m < 2 ^ 50" "0 \<le> rat_of_int m"
    using assms of_int_less_iff [of m "2 ^ 50", where 'a = rat] by (simp_all flip: assms(2))
  have scaled: "\<bar>to_double q - q\<bar> * 1000000 \<le> q / 2 ^ 53 * 1000000"
    using to_double_error [OF assms(1)] by (intro mult_right_mono) auto
  have a: "\<bar>x - of_int m\<bar> \<le> of_int m / 2 ^ 53"
  proof -
    have "x - of_int m = (to_double q - q) * 1000000" by (simp only: x_def left_diff_distrib assms(2))
    then have "\<bar>x - of_int m\<bar> = \<bar>to_double q - q\<bar> * 1000000" by (simp only: abs_mult abs_numeral)
    also have "\<dots> \<le> q * 1000000 / 2 ^ 53" using scaled by simp
    finally show ?thesis by (simp only: assms(2))
  qed
  have "rat_of_int m / 2 ^ 53 \<le> of_int m" using M(2) by simp
  with a have "0 \<le> x \<and> x \<le> 2 * of_int m" using M(2) by linarith
  then have x: "0 \<le> x" "x \<le> 2 * of_int m" by blast+
  then have b: "\<bar>to_double x - x\<bar> \<le> 2 * of_int m / 2 ^ 53"
    using to_double_error [of x] by (auto simp: field_simps)
  have "\<bar>to_double x - of_int m\<bar> \<le> \<bar>to_double x - x\<bar> + \<bar>x - of_int m\<bar>" by simp
  then have "\<bar>to_double x - of_int m\<bar> \<le> 3 * of_int m / 2 ^ 53" using a b by linarith
  moreover have "3 * rat_of_int m / 2 ^ 53 < 3 * 2 ^ 50 / 2 ^ 53" using M(1) by simp
  ultimately show "\<bar>to_double (to_double q * 1000000) - of_int m\<bar> < 1 / 2" by (simp add: x_def)
qed
section \<open>Printed integers\<close>

lemma to_base_shift: "0 < n \<Longrightarrow> to_base 10 (n * 10 ^ k) = to_base 10 n @ replicate k (CHR ''0'')"
proof (induction k)
  case (Suc k)
  have "to_base 10 (n * 10 ^ Suc k) = to_base 10 (n * 10 ^ k) @ [digit_char 0]"
    using Suc.prems by (subst to_base.simps) (simp add: mult.commute)
  moreover have "digit_char 0 = CHR ''0''" by code_simp
  ultimately show ?case using Suc by (simp add: replicate_append_same)
qed simp

lemma to_base_bounds: "0 < n \<Longrightarrow> 10 ^ (length (to_base 10 n) - 1) \<le> n \<and> n < 10 ^ length (to_base 10 n)"
proof (induction "10::nat" n rule: to_base.induct)
  case (1 n)
  show ?case
  proof (cases "n < 10")
    case True
    with "1.prems" show ?thesis by (simp add: to_base.simps [of 10 n])
  next
    case False
    have IH: "10 ^ (length (to_base 10 (n div 10)) - 1) \<le> n div 10" "n div 10 < 10 ^ length (to_base 10 (n div 10))"
      using "1.hyps" False by auto
    have l: "length (to_base 10 n) = Suc (length (to_base 10 (n div 10)))"
      using False by (subst to_base.simps) simp
    obtain j where j: "length (to_base 10 (n div 10)) = Suc j" by (metis length_0_conv to_base_nonempty not0_implies_Suc)
    from IH show ?thesis by (simp add: l j) linarith
  qed
qed

lemma math_round_int [simp]: "math_round (of_int m) = m"
  by (rule math_round_near) simp

lemma magnitude_int: "0 < m \<Longrightarrow> magnitude (of_int m) = int (length (to_base 10 (nat m)))"
  by (simp add: magnitude_def)

lemma digits_full:
  assumes "0 < m"
  shows "digits_of (of_int m) (length (to_base 10 (nat m))) = (m, int (length (to_base 10 (nat m))))"
proof -
  have "int (nat m) < int (10 ^ length (to_base 10 (nat m)))"
    using to_base_bounds [of "nat m"] assms by (subst of_nat_less_iff) simp
  then have "m < 10 ^ length (to_base 10 (nat m))" using assms by simp
  then show ?thesis using assms by (simp add: digits_of_def magnitude_int Let_def)
qed

lemma to_base_short: "0 < m \<Longrightarrow> m < 10 ^ 17 \<Longrightarrow> length (to_base 10 m) \<le> 17"
proof (rule ccontr)
  assume m: "0 < m" "m < 10 ^ 17" "\<not> length (to_base 10 m) \<le> 17"
  then have "(10::nat) ^ 17 \<le> 10 ^ (length (to_base 10 m) - 1)" by (intro power_increasing) auto
  with to_base_bounds [OF m(1)] m(2) show False by linarith
qed

lemma reads_back_full: "0 < m \<Longrightarrow> m < 2 ^ 53 \<Longrightarrow> reads_back (of_int m) (length (to_base 10 (nat m)))"
  by (simp add: reads_back_def digits_full to_double_int)

lemma find_first:
  "find P [a..<b] = Some k \<Longrightarrow> P k \<and> a \<le> k \<and> k < b \<and> (\<forall>j. a \<le> j \<and> j < k \<longrightarrow> \<not> P j)"
proof -
  assume "find P [a..<b] = Some k"
  then obtain i where i: "i < length [a..<b]" "P ([a..<b] ! i)" "k = [a..<b] ! i" "\<forall>j<i. \<not> P ([a..<b] ! j)"
    by (auto simp: find_Some_iff)
  then have "k = a + i" "i < b - a" by simp_all
  moreover have "\<not> P j" if "a \<le> j" "j < k" for j
    using i(4) [rule_format, of "j - a"] that \<open>k = a + i\<close> \<open>i < b - a\<close> by simp
  ultimately show ?thesis using i(2,3) by auto
qed

lemma shortest_spec:
  assumes "0 < m" "m < 2 ^ 50"
  shows "reads_back (of_int m) (shortest (of_int m))" "0 < shortest (of_int m)"
    "shortest (of_int m) \<le> length (to_base 10 (nat m))"
proof -
  let ?D = "length (to_base 10 (nat m))"
  have D: "1 \<le> ?D" "?D \<le> 17" using assms to_base_short [of "nat m"] to_base_nonempty [of 10 "nat m"]
    by (auto simp: Suc_le_eq nat_less_iff simp del: to_base.simps)
  have full: "reads_back (of_int m) ?D" using assms by (intro reads_back_full) auto
  then have "find (reads_back (of_int m)) [1..<18] \<noteq> None"
    using D by (auto simp: find_None_iff intro!: exI [of _ ?D])
  then obtain k where k: "find (reads_back (of_int m)) [1..<18] = Some k" by blast
  have "reads_back (of_int m) k" "1 \<le> k" "k \<le> ?D"
    using find_first [OF k] full D not_le by blast+
  then show "reads_back (of_int m) (shortest (of_int m))" "0 < shortest (of_int m)"
    "shortest (of_int m) \<le> ?D" using k by (simp_all add: shortest_def)
qed

lemma digits_pos:
  assumes "0 < m" "0 < k" "k \<le> length (to_base 10 (nat m))"
  shows "0 < fst (digits_of (of_int m) k)" "int (length (to_base 10 (nat m))) \<le> snd (digits_of (of_int m) k)"
    "snd (digits_of (of_int m) k) \<le> int (length (to_base 10 (nat m))) + 1"
proof -
  let ?D = "length (to_base 10 (nat m))"
  have "int (10 ^ (?D - 1)) \<le> m" using to_base_bounds [of "nat m"] assms(1) by linarith
  then have lo: "(10::rat) ^ (?D - 1) \<le> of_int m"
    using of_int_le_iff [of "10 ^ (?D - 1)" m, where 'a = rat] by simp
  have p: "(10::rat) powi (int ?D - int k) = 10 ^ (?D - k)" using assms(3) by (simp add: power_int_def nat_diff_distrib)
  have "(10::rat) ^ (?D - k) \<le> 10 ^ (?D - 1)" using assms(2) by (intro power_increasing) auto
  with lo have "(10::rat) ^ (?D - k) \<le> of_int m" by linarith
  then have "1 \<le> of_int m / (10::rat) powi (int ?D - int k)" unfolding p by (simp add: le_divide_eq)
  then have "1 \<le> math_round (of_int m / 10 powi (int ?D - int k))" unfolding math_round_def le_floor_iff of_int_1 by linarith
  then show "0 < fst (digits_of (of_int m) k)" "int ?D \<le> snd (digits_of (of_int m) k)"
    "snd (digits_of (of_int m) k) \<le> int ?D + 1"
    using assms by (auto simp: digits_of_def magnitude_int Let_def)
qed

lemma to_double_int_inject:
  assumes "to_double (of_int c) = of_int m" "0 < c" "m < 2 ^ 50"
  shows "c = m"
proof (cases "c < 2 ^ 53")
  case True
  then show ?thesis using assms to_double_int [of c] by simp
next
  case False
  have "\<bar>rat_of_int m - of_int c\<bar> \<le> of_int c / 2 ^ 53" using to_double_error [of "of_int c"] assms by simp
  moreover have "of_int c / 2 ^ 53 \<le> rat_of_int c / 2" using assms(2) by simp
  ultimately have "rat_of_int c \<le> 2 * of_int m" by linarith
  then have "c \<le> 2 * m" using of_int_le_iff [of c "2 * m", where 'a = rat] by simp
  then show ?thesis using False assms(3) by simp
qed

text \<open>Integers below \<open>2\<^sup>5\<^sup>0\<close> are printed with all their digits.\<close>

lemma number_toString_int:
  assumes "0 \<le> m" "m < 2 ^ 50"
  shows "number_toString (Some (of_int m)) = int_to_string m"
proof (cases "m = 0")
  case True
  have "int_to_string 0 = ''0''" by code_simp
  with True show ?thesis by (simp add: number_toString_def)
next
  case False
  then have m: "0 < m" using assms by simp
  let ?x = "rat_of_int m" and ?D = "length (to_base 10 (nat m))"
  define k where "k = shortest ?x"
  obtain s n where sn: "digits_of ?x k = (s, n)" by (cases "digits_of ?x k")
  have k: "reads_back ?x k" "0 < k" "k \<le> ?D" using shortest_spec [OF m assms(2)] by (simp_all add: k_def)
  have s: "0 < s" "int ?D \<le> n" "n \<le> int ?D + 1" using digits_pos [OF m k(2,3)] sn by simp_all
  then have kn: "int k \<le> n" using k(3) by linarith
  then have "(10::rat) powi (n - int k) = 10 ^ nat (n - int k)" by (simp add: power_int_def)
  with k(1) have "to_double (of_int (s * 10 ^ nat (n - int k))) = ?x" by (simp add: reads_back_def sn)
  from to_double_int_inject [OF this _ assms(2)] have eq: "s * 10 ^ nat (n - int k) = m" using s(1) by simp
  have "?D \<le> 17" using m assms(2) to_base_short [of "nat m"] by (simp add: nat_less_iff)
  then have "print_pos ?x = int_to_string s @ zeros (n - int k)"
    using s kn by (simp add: print_pos_def Let_def sn flip: k_def)
  also have "\<dots> = to_base 10 (nat s) @ replicate (nat (n - int k)) (CHR ''0'')"
    using s(1) by (simp add: int_to_string_def zeros_def)
  also have "\<dots> = to_base 10 (nat s * 10 ^ nat (n - int k))" using s(1) by (subst to_base_shift) simp_all
  also have "nat s * 10 ^ nat (n - int k) = nat m" using eq s(1) by (simp add: nat_mult_distrib nat_power_eq flip: eq)
  finally show ?thesis using m by (simp add: number_toString_def int_to_string_def)
qed
section \<open>Exact amounts\<close>

definition decimal_text :: "string \<Rightarrow> string \<Rightarrow> string" where
  "decimal_text ip fp = ip @ (if fp = [] then [] else ''.'' @ fp)"

lemma not_decimal [simp]: "\<not> is_decimal (CHR ''.'')" "\<not> is_decimal (CHR ''-'')" "\<not> is_decimal (CHR ''+'')"
  by (simp_all add: is_decimal_def digit_val_def)

lemma decimal_not_space: "is_decimal c \<Longrightarrow> \<not> is_space c"
  by (auto simp: is_decimal_def is_space_def digit_val_def)

lemma takeWhile_decimals: "list_all is_decimal ip \<Longrightarrow> takeWhile is_decimal (ip @ CHR ''.'' # r) = ip"
  "list_all is_decimal ip \<Longrightarrow> dropWhile is_decimal (ip @ CHR ''.'' # r) = CHR ''.'' # r"
  "list_all is_decimal ip \<Longrightarrow> takeWhile is_decimal ip = ip" "list_all is_decimal ip \<Longrightarrow> dropWhile is_decimal ip = []"
  by (induction ip) auto

lemma read_decimal_text:
  assumes "list_all is_decimal ip" "list_all is_decimal fp" "ip \<noteq> []"
  shows "read_decimal (decimal_text ip fp) = Some (of_nat (digits_value (ip @ fp)) / 10 ^ length fp)"
  using assms by (auto simp: read_decimal_def decimal_text_def takeWhile_decimals Let_def read_exponent_def
      power_int_minus divide_inverse)

lemma parseFloat_text:
  assumes "list_all is_decimal ip" "list_all is_decimal fp" "ip \<noteq> []"
  shows "parseFloat (decimal_text ip fp) = Some (to_double (of_nat (digits_value (ip @ fp)) / 10 ^ length fp))"
proof -
  obtain c cs where ip: "ip = c # cs" using assms(3) by (cases ip) auto
  then have c: "is_decimal c" "\<not> is_space c" "c \<noteq> CHR ''-''" "c \<noteq> CHR ''+''"
    using assms(1) decimal_not_space [of c] by auto
  then have "dropWhile is_space (decimal_text ip fp) = decimal_text ip fp" by (simp add: ip decimal_text_def)
  moreover obtain ds where "decimal_text ip fp = c # ds" by (simp add: ip decimal_text_def)
  ultimately show ?thesis using read_decimal_text [OF assms] c by (simp add: parseFloat_def)
qed

lemma usdc_exact:
  assumes "list_all is_decimal ip" "list_all is_decimal fp" "ip \<noteq> []" "length fp \<le> 6"
    "digits_value (ip @ fp) * 10 ^ (6 - length fp) < 2 ^ 50"
  shows "human2ContractUSDCFormat (decimal_text ip fp) = int_to_string (int (digits_value (ip @ fp) * 10 ^ (6 - length fp)))"
proof -
  let ?v = "digits_value (ip @ fp)" and ?m = "int (digits_value (ip @ fp) * 10 ^ (6 - length fp))"
  let ?q = "rat_of_nat ?v / 10 ^ length fp"
  have "(10::rat) ^ 6 = 10 ^ (6 - length fp) * 10 ^ length fp" using assms(4) by (simp flip: power_add)
  then have "?q * 1000000 = of_int ?m" by (simp add: field_simps)
  moreover have "?m < 2 ^ 50" using assms(5) by (metis of_nat_less_iff of_nat_numeral of_nat_power)
  ultimately have "math_round (to_double (to_double ?q * 1000000)) = ?m" by (intro scaled_exact) auto
  then show ?thesis
    using parseFloat_text [OF assms(1-3)] number_toString_int [of ?m] \<open>?m < 2 ^ 50\<close>
    by (simp add: human2ContractUSDCFormat_def)
qed

lemma digits_value_snoc:
  assumes "list_all is_decimal (xs @ [c])"
  shows "digits_value (xs @ [c]) = digits_value xs * 10 + the (digit_val c)" "the (digit_val c) < 10"
proof -
  have fold: "list_all is_decimal ys \<Longrightarrow>
      foldl (of_base_step 10) (Some a) ys = Some (foldl (\<lambda>a c. a * 10 + the (digit_val c)) a ys)" for ys a
    by (induction ys arbitrary: a) (auto simp: of_base_step_def is_decimal_def split: option.splits)
  have val: "list_all is_decimal ys \<Longrightarrow> digits_value ys = foldl (\<lambda>a c. a * 10 + the (digit_val c)) 0 ys" for ys
    by (simp add: digits_value_def of_base_def fold)
  show "digits_value (xs @ [c]) = digits_value xs * 10 + the (digit_val c)" using assms by (simp add: val)
  show "the (digit_val c) < 10" using assms by (auto simp: is_decimal_def split: option.splits)
qed

lemma digit_val_inject: "is_decimal c \<Longrightarrow> is_decimal d \<Longrightarrow> the (digit_val c) = the (digit_val d) \<Longrightarrow> c = d"
proof -
  assume a: "is_decimal c" "is_decimal d" "the (digit_val c) = the (digit_val d)"
  define m n :: nat where "m = of_char c" and "n = of_char d"
  have "m = n" using a by (auto simp: is_decimal_def digit_val_def Let_def simp flip: m_def n_def split: if_splits)
  then show "c = d" by (simp add: m_def n_def)
qed

lemma digits_value_inject:
  "\<lbrakk>list_all is_decimal xs; list_all is_decimal ys; length xs = length ys; digits_value xs = digits_value ys\<rbrakk> \<Longrightarrow> xs = ys"
proof (induction xs arbitrary: ys rule: rev_induct)
  case (snoc c xs)
  obtain zs d where ys: "ys = zs @ [d]" using snoc.prems(3) by (cases ys rule: rev_cases) auto
  note v = digits_value_snoc [OF snoc.prems(1)] digits_value_snoc [OF snoc.prems(2) [unfolded ys]]
  have "digits_value xs = digits_value zs \<and> the (digit_val c) = the (digit_val d)"
    using v snoc.prems(4) unfolding ys by presburger
  then show ?case using snoc.IH [of zs] snoc.prems digit_val_inject [of c d] by (simp add: ys)
qed simp

lemma digits_value_bound: "list_all is_decimal xs \<Longrightarrow> digits_value xs < 10 ^ length xs"
proof (induction xs rule: rev_induct)
  case (snoc c xs)
  then show ?case using digits_value_snoc [OF snoc.prems] by simp
qed (simp add: digits_value_def of_base_def)

lemma digits_value_append:
  "list_all is_decimal (xs @ ys) \<Longrightarrow> digits_value (xs @ ys) = digits_value xs * 10 ^ length ys + digits_value ys"
proof (induction ys rule: rev_induct)
  case Nil
  then show ?case by (simp add: digits_value_def of_base_def)
next
  case (snoc c ys)
  have all: "list_all is_decimal ((xs @ ys) @ [c])" "list_all is_decimal (ys @ [c])" using snoc.prems by simp_all
  then show ?case using digits_value_snoc [OF all(1)] digits_value_snoc [OF all(2)] snoc.IH
    by (simp add: algebra_simps)
qed

lemma digits_value_to_base [simp]: "digits_value (to_base 10 n) = n"
  by (simp add: digits_value_def of_base_to_base)

lemma to_base_decimals [simp]: "list_all is_decimal (to_base 10 n)"
  using to_base_all_decimal by (simp add: list_all_iff)

lemma decimals_zeros [simp]: "list_all is_decimal (zeros n)" "digits_value (zeros n) = 0"
proof -
  have "digits_value (replicate k (CHR ''0'')) = 0" for k
    using foldl_of_base_zeros [of 10 k "[]"] by (simp add: digits_value_def of_base_def)
  then show "list_all is_decimal (zeros n)" "digits_value (zeros n) = 0"
    by (simp_all add: zeros_def list_all_iff is_decimal_def digit_val_def)
qed

text \<open>Padded with zeros to at least four digits, a number has the digits of its thousands and of the rest.\<close>

lemma padded_digits:
  assumes "list_all is_decimal fp" "length fp = 3"
  shows "(let m = to_base 10 (n * 1000 + digits_value fp) in zeros (4 - int (length m)) @ m) = to_base 10 n @ fp"
proof -
  let ?k = "n * 1000 + digits_value fp"
  let ?m = "to_base 10 ?k"
  have f: "digits_value fp < 1000" using digits_value_bound [OF assms(1)] assms(2) by simp
  have len: "length (zeros (4 - int (length ?m)) @ ?m) = length (to_base 10 n) + 3"
  proof (cases "n = 0")
    case True
    have "length ?m \<le> 3" using True f by (intro length_to_base_le) simp_all
    then show ?thesis using True by (simp add: zeros_def to_base.simps [of 10 0])
  next
    case False
    define l where "l = length (to_base 10 n)"
    have n: "10 ^ (l - 1) \<le> n" "n < 10 ^ l" "0 < l" using to_base_bounds [of n] False by (auto simp: l_def)
    have lo: "10 ^ (l - 1 + 3) \<le> ?k" using n(1) by (simp add: power_add)
    have hi: "?k < 10 ^ (l + 3)" using n(2) f by (simp add: power_add) 
    have m: "10 ^ (length ?m - 1) \<le> ?k" "?k < 10 ^ length ?m" using to_base_bounds [of ?k] False by auto
    have "(10::nat) ^ (length ?m - 1) < 10 ^ (l + 3)" "(10::nat) ^ (l - 1 + 3) < 10 ^ length ?m" using lo hi m by linarith+
    then have "length ?m - 1 < l + 3" "l - 1 + 3 < length ?m" by simp_all
    then have "length ?m = l + 3" using n(3) by linarith
    then show ?thesis by (simp add: zeros_def l_def Suc_le_eq)
  qed
  have "zeros (4 - int (length ?m)) @ ?m = to_base 10 n @ fp"
    using assms len by (intro digits_value_inject) (simp_all add: digits_value_append)
  then show ?thesis by (simp only: Let_def)
qed

lemma int_to_string_nat: "int_to_string (int m) = to_base 10 m"
  by (simp add: int_to_string_def)

lemma fixed3_near:
  assumes "0 \<le> k" "k < 2 ^ 40"
  shows "math_round (to_double (of_int k / 1000) * 1000) = k"
proof (rule math_round_near)
  have K: "rat_of_int k < 2 ^ 40" using assms(2) of_int_less_iff [of k "2 ^ 40", where 'a = rat] by simp
  define x where "x = to_double (of_int k / 1000)"
  have "\<bar>x - of_int k / 1000\<bar> \<le> of_int k / 1000 / 2 ^ 53"
    unfolding x_def using assms(1) by (intro to_double_error) simp
  then have "\<bar>x - of_int k / 1000\<bar> * 1000 \<le> of_int k / 1000 / 2 ^ 53 * 1000" by (intro mult_right_mono) simp_all
  moreover have "\<bar>x * 1000 - of_int k\<bar> = \<bar>x - of_int k / 1000\<bar> * 1000"
    by (simp add: abs_mult_pos left_diff_distrib)
  ultimately have "\<bar>x * 1000 - of_int k\<bar> \<le> of_int k / 2 ^ 53" by simp
  also have "\<dots> < 2 ^ 40 / 2 ^ 53" using K by simp
  finally show "\<bar>to_double (of_int k / 1000) * 1000 - of_int k\<bar> < 1 / 2" by (simp add: x_def)
qed

text \<open>
  An amount of USDC with up to six decimals, below 1.1 billion, is converted to exactly that many
  millionths, although the computation uses binary floating-point numbers: the amount is read, multiplied and
  rounded without error, and printed with all its digits.
\<close>

theorem usdc_amount_exact:
  assumes "list_all is_decimal ip" "list_all is_decimal fp" "ip \<noteq> []" "length fp \<le> 6"
    "digits_value (ip @ fp) * 10 ^ (6 - length fp) < 2 ^ 50"
  shows "human2ContractUSDCFormat (decimal_text ip fp) = int_to_string (int (digits_value (ip @ fp) * 10 ^ (6 - length fp)))"
  using assms by (rule usdc_exact)

theorem usdc_amount_exact_witness: "human2ContractUSDCFormat ''0.000035'' = ''35''"
proof -
  have "list_all is_decimal ''0''" "list_all is_decimal ''000035''" by (simp_all add: is_decimal_def digit_val_def)
  moreover have "decimal_text ''0'' ''000035'' = ''0.000035''" "digits_value ''0000035'' = 35" "int_to_string 35 = ''35''"
    by code_simp+
  ultimately show ?thesis using usdc_amount_exact [of "''0''" "''000035''"] by simp
qed

text \<open>
  An amount of USDC with three decimals, below one billion, is shown again exactly as it was entered
  after it has been converted to millionths for the contract and back.
\<close>

theorem usdc_roundtrip:
  assumes "list_all is_decimal fp" "length fp = 3" "n < 10 ^ 9"
  shows "contract2humanUSDCFormat (human2ContractUSDCFormat (to_base 10 n @ ''.'' @ fp)) False = to_base 10 n @ ''.'' @ fp"
proof -
  define k where "k = n * 1000 + digits_value fp"
  have f: "digits_value fp < 1000" using digits_value_bound [OF assms(1)] assms(2) by simp
  then have k: "k < 10 ^ 12" using assms(3) by (simp add: k_def)
  have shown: "to_base 10 n @ ''.'' @ fp = decimal_text (to_base 10 n) fp"
    using assms(2) by (auto simp: decimal_text_def)
  have v: "digits_value (to_base 10 n @ fp) = k" using assms by (subst digits_value_append) (simp_all add: k_def)
  have "human2ContractUSDCFormat (decimal_text (to_base 10 n) fp) = int_to_string (int (k * 1000))"
  proof -
    have "digits_value (to_base 10 n @ fp) * 10 ^ (6 - length fp) < 2 ^ 50" using k unfolding v assms(2) by simp
    from usdc_exact [OF to_base_decimals assms(1) to_base_nonempty _ this] show ?thesis
      unfolding v assms(2) by simp
  qed
  also have "int_to_string (int (k * 1000)) = decimal_text (to_base 10 (k * 1000)) []"
    by (simp only: int_to_string_nat decimal_text_def) simp
  finally have sent: "human2ContractUSDCFormat (decimal_text (to_base 10 n) fp) = decimal_text (to_base 10 (k * 1000)) []" .
  have "parseFloat (decimal_text (to_base 10 (k * 1000)) []) = Some (to_double (of_int (int (k * 1000))))"
    by (subst parseFloat_text) simp_all
  also have "to_double (of_int (int (k * 1000))) = of_int (int k) * 1000" using k by (subst to_double_int) simp_all
  finally have "contract2humanUSDCFormat (decimal_text (to_base 10 (k * 1000)) []) False =
      toFixed3 (Some (to_double (of_int (int k) / 1000)))"
    by (simp add: contract2humanUSDCFormat_def)
  moreover have "toFixed3 (Some (to_double (of_int (int k) / 1000))) = to_base 10 n @ ''.'' @ fp"
  proof -
    have r: "math_round (to_double (of_int (int k) / 1000) * 1000) = int k" using k by (intro fixed3_near) simp_all
    define x where "x = to_double (of_int (int k) / 1000)"
    have K: "rat_of_int (int k) < 10 ^ 12" "0 \<le> rat_of_int (int k)"
      using k of_int_less_iff [of "int k" "10 ^ 12", where 'a = rat] by simp_all
    have "\<bar>x - of_int (int k) / 1000\<bar> \<le> of_int (int k) / 1000 / 2 ^ 53"
      unfolding x_def using K(2) by (intro to_double_error) simp
    moreover have "of_int (int k) / 1000 / 2 ^ 53 \<le> rat_of_int (int k) / 1000" using K(2) by simp
    ultimately have "0 \<le> x \<and> x \<le> 2 * (of_int (int k) / 1000)" by linarith
    then have small: "\<bar>x\<bar> < 10 ^ 21" "0 \<le> x" using K by simp_all
    have r': "nat (math_round (x * 1000)) = k" using r by (simp add: x_def)
    have s: "zeros (4 - int (length (to_base 10 k))) @ to_base 10 k = to_base 10 n @ fp"
      using padded_digits [OF assms(1,2), of n] by (simp only: Let_def k_def)
    have "fixed3 x = to_base 10 n @ ''.'' @ fp"
      unfolding fixed3_def Let_def r' s using assms(2) by simp
    then have "toFixed3 (Some x) = to_base 10 n @ ''.'' @ fp" using small by (simp add: toFixed3_def)
    then show ?thesis by (simp only: x_def)
  qed
  ultimately show ?thesis by (simp only: shown sent)
qed
theorem usdc_roundtrip_witness:
  "contract2humanUSDCFormat (human2ContractUSDCFormat (to_base 10 4 @ ''.'' @ ''350'')) False = to_base 10 4 @ ''.'' @ ''350''"
proof -
  have "list_all is_decimal ''350''" by (simp add: is_decimal_def digit_val_def)
  then show ?thesis by (intro usdc_roundtrip) simp_all
qed

end
