(* ===== verification/Webapp_Draft.thy ===== *)
theory Webapp_Draft
  imports Webapp_Amounts Webapp_Dao
begin

text \<open>
  Drafts of proposals and candidates: the transactions that the dialog of actions builds
  (\<open>packages/nouns-webapp/src/components/ProposalActionsModal/steps\<close>, \<open>hooks/useStreamPaymentTransactions.ts\<close>),
  the state of the pages that collect them (\<open>pages/CreateProposal\<close>, \<open>pages/CreateCandidate\<close>,
  \<open>pages/EditProposal\<close>, \<open>pages/EditCandidate\<close>) and the calls that the pages send.

  The encoder of call data and \<open>parseEther\<close> of the library \<open>ethers\<close> are parameters; \<open>None\<close> is an
  exception. A number that may be \<open>NaN\<close> is optional. The amounts that an edited proposal brings along
  are objects, which the code compares by identity; a stored amount carries its object.
\<close>

section \<open>Transactions\<close>

datatype tx_value = TextValue string | StoredBN nat int

record ProposalTransaction =
  pt_address :: string
  pt_value :: tx_value
  pt_signature :: "string option"
  pt_calldata :: "string option"
  pt_decodedCalldata :: "string option"
  pt_usdcValue :: "int option option"

text \<open>JSON values and \<open>JSON.stringify\<close>.\<close>

datatype json = JText string | JNumber int | JNull | JBool bool | JArray "json list" | JObject "(string \<times> json) list"

definition json_escape :: "char \<Rightarrow> string" where
  "json_escape c =
     (if c = CHR 0x22 then [CHR 0x5C, CHR 0x22] else if c = CHR 0x5C then [CHR 0x5C, CHR 0x5C]
      else if c = CHR 0x0A then [CHR 0x5C, CHR ''n''] else [c])"

definition json_quoted :: "string \<Rightarrow> string" where
  "json_quoted s = [CHR 0x22] @ concat (map json_escape s) @ [CHR 0x22]"

fun json_text :: "json \<Rightarrow> string" where
  "json_text (JText s) = json_quoted s"
| "json_text (JNumber n) = int_to_string n"
| "json_text JNull = ''null''"
| "json_text (JBool b) = (if b then ''true'' else ''false'')"
| "json_text (JArray js) = ''['' @ js_join '','' (map json_text js) @ '']''"
| "json_text (JObject ps) = ''{'' @ js_join '','' (map (\<lambda>p. json_quoted (fst p) @ '':'' @ json_text (snd p)) ps) @ ''}''"

definition json_list :: "json list \<Rightarrow> string" where
  "json_list js = json_text (JArray js)"

definition json_opt :: "string option \<Rightarrow> json" where
  "json_opt s = (case s of None \<Rightarrow> JNull | Some t \<Rightarrow> JText t)"

definition json_num :: "int option \<Rightarrow> json" where
  "json_num n = (case n of None \<Rightarrow> JNull | Some i \<Rightarrow> JNumber i)"

definition or_empty :: "string option \<Rightarrow> string" where
  "or_empty s = (case s of None \<Rightarrow> [] | Some t \<Rightarrow> t)"

definition or_zero :: "string option \<Rightarrow> string" where
  "or_zero s = (case s of None \<Rightarrow> ''0'' | Some t \<Rightarrow> t)"

section \<open>Actions\<close>

record ProposalActionModalState =
  ms_address :: string
  ms_amount :: "string option"
  ms_TransferFundsCurrency :: "SupportedCurrency option"
  ms_streamStartTimestamp :: "int option"
  ms_streamEndTimestamp :: "int option"
  ms_function :: "string option"
  ms_hasAbi :: bool
  ms_args :: "json list option"

record action_env =
  ae_addresses :: addresses
  ae_parseEther :: "string \<Rightarrow> string option"
  ae_encode :: "string \<Rightarrow> json list \<Rightarrow> string option"

text \<open>\<open>state.amount ? parseEther(state.amount) : '0'\<close>.\<close>

definition ether_value :: "action_env \<Rightarrow> string option \<Rightarrow> string option" where
  "ether_value env amount = (if truthy amount then ae_parseEther env (the amount) else Some ''0'')"

definition usdc_units :: "string option \<Rightarrow> int option" where
  "usdc_units amount = map_option (\<lambda>x. math_round (to_double (x * 1000000))) (parseFloat (or_zero amount))"

text \<open>
  \<open>handleActionAdd\<close> of the review of a transfer; no transaction for an unsupported currency. Adding a
  transaction to an address that is not configured throws.
\<close>

definition transfer_handleActionAdd :: "action_env \<Rightarrow> ProposalActionModalState \<Rightarrow> ProposalTransaction list option" where
  "transfer_handleActionAdd env state =
     (case ms_TransferFundsCurrency state of
        Some ETH \<Rightarrow> map_option (\<lambda>v. [\<lparr>pt_address = ms_address state, pt_value = TextValue v, pt_signature = Some [],
            pt_calldata = Some ''0x'', pt_decodedCalldata = None, pt_usdcValue = None\<rparr>])
          (ether_value env (ms_amount state))
      | Some STETH \<Rightarrow>
          (case (ae_parseEther env (or_zero (ms_amount state)), ad_steth (ae_addresses env)) of
             (Some v, Some steth) \<Rightarrow>
               let vals = [JText (ms_address state), JText v]
               in map_option (\<lambda>c. [\<lparr>pt_address = steth, pt_value = TextValue ''0'',
                    pt_signature = Some ''transfer(address,uint256)'', pt_calldata = Some c,
                    pt_decodedCalldata = Some (json_list vals), pt_usdcValue = None\<rparr>])
                    (ae_encode env ''transfer(address,uint256)'' vals)
           | _ \<Rightarrow> None)
      | Some USDC \<Rightarrow>
          (let units = usdc_units (ms_amount state);
               vals = [JText (ms_address state), JText (number_toString (map_option of_int units))]
           in case ad_payerContract (ae_addresses env) of
                None \<Rightarrow> None
              | Some payer \<Rightarrow> map_option (\<lambda>c. [\<lparr>pt_address = payer, pt_value = TextValue ''0'',
                  pt_signature = Some ''sendOrRegisterDebt(address,uint256)'', pt_calldata = Some c,
                  pt_decodedCalldata = Some (json_list vals), pt_usdcValue = Some units\<rparr>])
                  (ae_encode env ''sendOrRegisterDebt(address,uint256)'' vals))
      | _ \<Rightarrow> Some [])"

text \<open>\<open>handleActionAdd\<close> of the review of a function call; without an ABI there is no call data.\<close>

definition call_handleActionAdd :: "action_env \<Rightarrow> ProposalActionModalState \<Rightarrow> ProposalTransaction list option" where
  "call_handleActionAdd env state =
     (let args = (case ms_args state of None \<Rightarrow> [] | Some as \<Rightarrow> as)
      in case ether_value env (ms_amount state) of
           None \<Rightarrow> None
         | Some v \<Rightarrow>
             if ms_hasAbi state
             then map_option (\<lambda>c. [\<lparr>pt_address = ms_address state, pt_value = TextValue v, pt_signature = ms_function state,
                    pt_calldata = Some c, pt_decodedCalldata = Some (json_list args), pt_usdcValue = None\<rparr>])
                    (ae_encode env (or_empty (ms_function state)) args)
             else Some [\<lparr>pt_address = ms_address state, pt_value = TextValue v, pt_signature = ms_function state,
                    pt_calldata = None, pt_decodedCalldata = Some (json_list args), pt_usdcValue = None\<rparr>])"

definition fundStreamFunction :: string where
  "fundStreamFunction = ''createStream(address,uint256,address,uint256,uint256,uint8,address)''"

text \<open>The parameters of the stream, in the order of the function.\<close>

definition stream_args :: "ProposalActionModalState \<Rightarrow> string \<Rightarrow> string option \<Rightarrow> string \<Rightarrow> json list" where
  "stream_args state amount token predictedAddress =
     [JText (ms_address state), JText amount, json_opt token, json_num (ms_streamStartTimestamp state),
      json_num (ms_streamEndTimestamp state), JNumber 0, JText predictedAddress]"

definition create_stream ::
  "action_env \<Rightarrow> ProposalActionModalState \<Rightarrow> string \<Rightarrow> ProposalTransaction option" where
  "create_stream env state predictedAddress =
     (let a = ae_addresses env; amount = or_zero (ms_amount state);
          isUSDC = (ms_TransferFundsCurrency state = Some USDC)
      in case (if isUSDC then Some (human2ContractUSDCFormat amount) else ae_parseEther env amount,
               formatTokenAmount (ae_parseEther env) (ms_amount state) (ms_TransferFundsCurrency state)) of
           (Some shown, Some sent) \<Rightarrow>
             map_option (\<lambda>c. \<lparr>pt_address = or_empty (ad_nounsStreamFactory a), pt_value = TextValue ''0'',
               pt_signature = Some fundStreamFunction, pt_calldata = Some c,
               pt_decodedCalldata = Some (json_list (stream_args state shown (if isUSDC then ad_usdcToken a else ad_weth a)
                 predictedAddress)),
               pt_usdcValue = Some (if isUSDC then parseInt (human2ContractUSDCFormat amount) else Some 0)\<rparr>)
               (ae_encode env fundStreamFunction
                 (stream_args state sent (getTokenAddressForCurrency a (ms_TransferFundsCurrency state)) predictedAddress))
         | _ \<Rightarrow> None)"

definition wrap_ether :: "action_env \<Rightarrow> ProposalActionModalState \<Rightarrow> ProposalTransaction option" where
  "wrap_ether env state =
     map_option (\<lambda>v. \<lparr>pt_address = or_empty (ad_weth (ae_addresses env)), pt_value = TextValue v,
       pt_signature = Some ''deposit()'', pt_calldata = Some ''0x'', pt_decodedCalldata = Some (json_list []),
       pt_usdcValue = Some (Some 0)\<rparr>) (ether_value env (ms_amount state))"

definition fund_weth :: "action_env \<Rightarrow> ProposalActionModalState \<Rightarrow> string \<Rightarrow> ProposalTransaction option" where
  "fund_weth env state predictedAddress =
     (case ae_parseEther env (or_zero (ms_amount state)) of
        None \<Rightarrow> None
      | Some v \<Rightarrow>
          map_option (\<lambda>c. \<lparr>pt_address = or_empty (ad_weth (ae_addresses env)), pt_value = TextValue ''0'',
            pt_signature = Some ''transfer(address,uint256)'', pt_calldata = Some c,
            pt_decodedCalldata = Some (json_list [JText predictedAddress, JText v]), pt_usdcValue = Some (Some 0)\<rparr>)
            (ae_encode env ''transfer(address,uint256)'' [JText predictedAddress, JText v]))"

definition fund_usdc :: "action_env \<Rightarrow> ProposalActionModalState \<Rightarrow> string \<Rightarrow> ProposalTransaction option" where
  "fund_usdc env state predictedAddress =
     (let amount = human2ContractUSDCFormat (or_zero (ms_amount state));
          vals = [JText predictedAddress, JText amount]
      in map_option (\<lambda>c. \<lparr>pt_address = or_empty (ad_payerContract (ae_addresses env)), pt_value = TextValue ''0'',
           pt_signature = Some ''sendOrRegisterDebt(address,uint256)'', pt_calldata = Some c,
           pt_decodedCalldata = Some (json_list vals), pt_usdcValue = Some (parseInt amount)\<rparr>)
           (ae_encode env ''sendOrRegisterDebt(address,uint256)'' vals))"

definition useStreamPaymentTransactions ::
  "action_env \<Rightarrow> ProposalActionModalState \<Rightarrow> string option \<Rightarrow> ProposalTransaction list option" where
  "useStreamPaymentTransactions env state predictedAddress =
     (if \<not> truthy predictedAddress then Some []
      else let p = the predictedAddress
           in if ms_TransferFundsCurrency state \<noteq> Some USDC
              then those [create_stream env state p, wrap_ether env state, fund_weth env state p]
              else those [create_stream env state p, fund_usdc env state p])"

section \<open>Drafts\<close>

record draft =
  df_transactions :: "ProposalTransaction list"
  df_total :: "int option"
  df_topUp :: string
  df_showModal :: bool
  df_edited :: bool

definition new_draft :: draft where
  "new_draft = \<lparr>df_transactions = [], df_total = Some 0, df_topUp = ''0'', df_showModal = False, df_edited = False\<rparr>"

definition with_0x :: "string \<Rightarrow> string" where
  "with_0x s = (if prefix ''0x'' s then s else ''0x'' @ s)"

text \<open>
  The loop over added transactions. Each USDC amount is added to the total of the last rendering, so a
  later one replaces an earlier one. Call data that is missing throws; the totals set before stay.
\<close>

fun prepare :: "int option \<Rightarrow> int option \<Rightarrow> ProposalTransaction list \<Rightarrow> int option \<times> ProposalTransaction list option" where
  "prepare old new [] = (new, Some [])"
| "prepare old new (t # ts) =
     (case pt_calldata t of
        None \<Rightarrow> (new, None)
      | Some c \<Rightarrow>
          let t' = t\<lparr>pt_address := with_0x (pt_address t), pt_calldata := Some (with_0x c)\<rparr>;
              new' = (case pt_usdcValue t of
                 Some (Some v) \<Rightarrow> if v \<noteq> 0 then map_option (\<lambda>n. n + v) old else new
               | _ \<Rightarrow> new)
          in case prepare old new' ts of (n, r) \<Rightarrow> (n, map_option (\<lambda>us. t' # us) r))"

definition handleAddProposalAction :: "ProposalTransaction list \<Rightarrow> draft \<Rightarrow> draft" where
  "handleAddProposalAction transactions d =
     (case prepare (df_total d) (df_total d) transactions of
        (new, None) \<Rightarrow> d\<lparr>df_total := new\<rparr>
      | (new, Some ts) \<Rightarrow> d\<lparr>df_total := new, df_transactions := df_transactions d @ ts, df_showModal := False,
          df_edited := True\<rparr>)"

text \<open>Removing a transaction that does not exist throws before anything is set.\<close>

definition handleRemoveProposalAction :: "nat \<Rightarrow> draft \<Rightarrow> draft" where
  "handleRemoveProposalAction i d =
     (if i < length (df_transactions d)
      then d\<lparr>df_total := (case pt_usdcValue (df_transactions d ! i) of
               None \<Rightarrow> df_total d
             | Some None \<Rightarrow> None
             | Some (Some v) \<Rightarrow> map_option (\<lambda>n. n - v) (df_total d)),
             df_transactions := take i (df_transactions d) @ drop (Suc i) (df_transactions d), df_edited := True\<rparr>
      else d)"

fun set_first_value :: "string option \<Rightarrow> string \<Rightarrow> ProposalTransaction list \<Rightarrow> ProposalTransaction list" where
  "set_first_value a v [] = []"
| "set_first_value a v (t # ts) =
     (if Some (pt_address t) = a then t\<lparr>pt_value := TextValue v\<rparr> # ts else t # set_first_value a v ts)"

definition positive :: "int option \<Rightarrow> bool" where
  "positive n = (case n of None \<Rightarrow> False | Some i \<Rightarrow> 0 < i)"

text \<open>The effect that adds or updates the transaction which refills the token buyer.\<close>

definition top_up_effect :: "string option \<Rightarrow> string option \<Rightarrow> draft \<Rightarrow> draft" where
  "top_up_effect tokenBuyer ethNeeded d =
     (case ethNeeded of
        None \<Rightarrow> d
      | Some e \<Rightarrow>
          if e \<noteq> df_topUp d \<and> positive (df_total d)
          then let hasTokenBuyerTopUp = (\<exists>t\<in>set (df_transactions d). Some (pt_address t) = tokenBuyer);
                   d' = (if positive (parseInt e) \<and> \<not> hasTokenBuyerTopUp
                         then handleAddProposalAction [\<lparr>pt_address = or_empty tokenBuyer, pt_value = TextValue e,
                                pt_signature = Some [], pt_calldata = Some ''0x'', pt_decodedCalldata = None,
                                pt_usdcValue = None\<rparr>] d
                         else if positive (parseInt e)
                         then d\<lparr>df_transactions := set_first_value tokenBuyer e (df_transactions d)\<rparr>
                         else d)
               in d'\<lparr>df_topUp := e\<rparr>
          else d)"

definition BUFFER_BPS :: int where "BUFFER_BPS = 5000"

text \<open>\<open>useEthNeeded\<close>: the answer of the token buyer for an amount, unless the request is skipped.\<close>

definition useEthNeeded :: "(string \<Rightarrow> int option \<Rightarrow> int \<Rightarrow> int option) \<Rightarrow> string \<Rightarrow> int option \<Rightarrow> bool \<Rightarrow> string option" where
  "useEthNeeded call address additionalTokens skip =
     (if skip then None else map_option int_to_string (call address additionalTokens BUFFER_BPS))"

section \<open>Calls\<close>

record tx_arrays =
  ta_targets :: "string list"
  ta_values :: "tx_value list"
  ta_signatures :: "string option list"
  ta_calldatas :: "string option list"

definition arrays_of :: "ProposalTransaction list \<Rightarrow> tx_arrays" where
  "arrays_of ts = \<lparr>ta_targets = map pt_address ts, ta_values = map pt_value ts, ta_signatures = map pt_signature ts,
     ta_calldatas = map pt_calldata ts\<rparr>"

text \<open>The pages that update replace a missing signature by the empty text.\<close>

definition filled_arrays_of :: "ProposalTransaction list \<Rightarrow> tx_arrays" where
  "filled_arrays_of ts = (arrays_of ts)\<lparr>ta_signatures := map (\<lambda>t. Some (or_empty (pt_signature t))) ts\<rparr>"

definition describe :: "string \<Rightarrow> string \<Rightarrow> string" where
  "describe title body = ''# '' @ title @ newline @ newline @ body"

datatype draft_call =
    Propose tx_arrays string
  | ProposeOnTimelockV1 tx_arrays string
  | CreateProposalCandidate tx_arrays string string string "int option"
  | UpdateProposalCandidate tx_arrays string "string option" int string int
  | UpdateProposal string tx_arrays string string
  | UpdateProposalTransactions string tx_arrays string
  | UpdateProposalDescription string string string

definition isFormInvalid :: "draft \<Rightarrow> string \<Rightarrow> string \<Rightarrow> bool" where
  "isFormInvalid d titleValue bodyValue \<longleftrightarrow> df_transactions d = [] \<or> titleValue = [] \<or> bodyValue = []"

definition hasEnoughVote :: "int option \<Rightarrow> int option \<Rightarrow> bool" where
  "hasEnoughVote availableVotes proposalThreshold =
     (case (availableVotes, proposalThreshold) of (Some v, Some t) \<Rightarrow> v \<noteq> 0 \<and> t < v | _ \<Rightarrow> False)"

definition handleCreateProposal :: "bool \<Rightarrow> string \<Rightarrow> string \<Rightarrow> draft \<Rightarrow> draft_call option" where
  "handleCreateProposal isProposeOnV1 titleValue bodyValue d =
     (if df_transactions d = [] then None
      else Some ((if isProposeOnV1 then ProposeOnTimelockV1 else Propose) (arrays_of (df_transactions d))
        (describe titleValue bodyValue)))"

text \<open>\<open>title.toLowerCase().replace(/ /g, '-').replace(/[^\w-]+/g, '')\<close>.\<close>

definition slug_char :: "char \<Rightarrow> bool" where
  "slug_char c = ((of_char c :: nat) \<in> {48..57} \<union> {65..90} \<union> {97..122} \<or> c = CHR ''_'' \<or> c = CHR ''-'')"

definition title_slug :: "string \<Rightarrow> string" where
  "title_slug title = filter slug_char (map (\<lambda>c. if c = CHR '' '' then CHR ''-'' else c) (toLowerCase title))"

definition candidate_handleCreateProposal ::
  "string \<Rightarrow> string \<Rightarrow> string \<Rightarrow> int option \<Rightarrow> int option \<Rightarrow> draft \<Rightarrow> draft_call" where
  "candidate_handleCreateProposal titleValue bodyValue slug availableVotes createCandidateCost d =
     CreateProposalCandidate (arrays_of (df_transactions d)) (describe titleValue bodyValue) slug ''0''
       (if positive availableVotes then Some 0 else createCandidateCost)"

section \<open>Editing\<close>

text \<open>Characters with a meaning in regular expressions; a title with one is not matched literally.\<close>

definition regex_special :: "char \<Rightarrow> bool" where
  "regex_special c = (c \<in> set ''^$.*+?()[]{}|'' \<or> c = CHR 0x5C)"

fun remove_first :: "string \<Rightarrow> string \<Rightarrow> string" where
  "remove_first pat [] = []"
| "remove_first pat (c # cs) = (if prefix pat (c # cs) then drop (length pat) (c # cs) else c # remove_first pat cs)"

text \<open>
  The heading is searched with \<open>new RegExp(`# ${title}\n\n`)\<close>, with the title as it is. What a pattern with
  special characters does is the parameter \<open>special\<close>; \<open>None\<close> when it is not a regular expression.
\<close>

definition removeTitleFromDescription ::
  "(string \<Rightarrow> string \<Rightarrow> string option) \<Rightarrow> string \<Rightarrow> string \<Rightarrow> string option" where
  "removeTitleFromDescription special description title =
     (let pat = ''# '' @ title @ newline @ newline
      in if list_ex regex_special title then special pat description else Some (remove_first pat description))"

record edit_page =
  ep_draft :: draft
  ep_titleValue :: string
  ep_bodyValue :: string
  ep_originalTitleValue :: string
  ep_originalBodyValue :: string
  ep_originalTransactions :: "ProposalTransaction list"
  ep_commitMessage :: string
  ep_slug :: string
  ep_isTitleEdited :: bool
  ep_isBodyEdited :: bool

text \<open>The amount of the \<open>i\<close>-th transaction of the proposal is one object, here and in the original list.\<close>

definition stored_value :: "nat \<Rightarrow> detail_value option \<Rightarrow> tx_value" where
  "stored_value i v = (case v of None \<Rightarrow> TextValue ''0'' | Some (ValueText s) \<Rightarrow> TextValue s | Some (ValueBN n) \<Rightarrow> StoredBN i n)"

definition stored_transaction :: "nat \<Rightarrow> ProposalDetail \<Rightarrow> ProposalTransaction" where
  "stored_transaction i txn = \<lparr>pt_address = pd_target txn, pt_value = stored_value i (pd_value txn),
     pt_signature = Some (or_empty (pd_functionSig txn)), pt_calldata = pd_callData txn, pt_decodedCalldata = None,
     pt_usdcValue = None\<rparr>"

definition stored_transactions :: "ProposalDetail list \<Rightarrow> ProposalTransaction list" where
  "stored_transactions details = map (\<lambda>i. stored_transaction i (details ! i)) [0..<length details]"

text \<open>The slug of an update gets a random suffix, the parameter \<open>random\<close>, when the proposal has signers.\<close>

definition candidateUpdateSlug :: "string \<Rightarrow> string \<Rightarrow> string" where
  "candidateUpdateSlug random slug = slug @ ''-update-'' @ random"

definition open_proposal ::
  "(string \<Rightarrow> string \<Rightarrow> string option) \<Rightarrow> string \<Rightarrow> bool \<Rightarrow> string \<Rightarrow> string \<Rightarrow> ProposalDetail list \<Rightarrow> edit_page option" where
  "open_proposal special random isProposedBySigners title description details =
     map_option (\<lambda>body. \<lparr>ep_draft = new_draft\<lparr>df_transactions := stored_transactions details\<rparr>, ep_titleValue = title,
       ep_bodyValue = body, ep_originalTitleValue = title, ep_originalBodyValue = body,
       ep_originalTransactions = stored_transactions details, ep_commitMessage = [],
       ep_slug = (if isProposedBySigners then candidateUpdateSlug random (title_slug title) else title_slug title),
       ep_isTitleEdited = False, ep_isBodyEdited = False\<rparr>)
       (removeTitleFromDescription special description title)"

text \<open>
  Typing. The body is compared with the stored description without the heading of the title in the
  editor. Whenever one of the two flags changes, the flag of the draft is set to their disjunction.
\<close>

definition edited_effect :: "edit_page \<Rightarrow> edit_page \<Rightarrow> edit_page" where
  "edited_effect old p =
     (if ep_isTitleEdited p \<noteq> ep_isTitleEdited old \<or> ep_isBodyEdited p \<noteq> ep_isBodyEdited old
      then p\<lparr>ep_draft := (ep_draft p)\<lparr>df_edited := ep_isTitleEdited p \<or> ep_isBodyEdited p\<rparr>\<rparr> else p)"

definition handleTitleInput :: "string \<Rightarrow> bool \<Rightarrow> string \<Rightarrow> string \<Rightarrow> edit_page \<Rightarrow> edit_page" where
  "handleTitleInput random isProposedBySigners proposal_title title p =
     p\<lparr>ep_titleValue := title,
       ep_slug := (if isProposedBySigners \<and> title = proposal_title then candidateUpdateSlug random title
                   else title_slug title),
       ep_isTitleEdited := (title \<noteq> proposal_title)\<rparr>"

definition handleBodyInput :: "string option \<Rightarrow> string \<Rightarrow> edit_page \<Rightarrow> edit_page" where
  "handleBodyInput isolatedDescription body p =
     p\<lparr>ep_bodyValue := body, ep_isBodyEdited := (Some body \<noteq> isolatedDescription)\<rparr>"

definition candidate_handleTitleInput :: "string \<Rightarrow> string \<Rightarrow> edit_page \<Rightarrow> edit_page" where
  "candidate_handleTitleInput content_title title p =
     p\<lparr>ep_titleValue := title, ep_isTitleEdited := (title \<noteq> content_title)\<rparr>"

text \<open>Loading a candidate; the page keeps neither originals nor a slug, and missing signatures stay missing.\<close>

definition open_candidate ::
  "(string \<Rightarrow> string \<Rightarrow> string option) \<Rightarrow> string \<Rightarrow> string \<Rightarrow> ProposalDetail list \<Rightarrow> edit_page option" where
  "open_candidate special title description details =
     map_option (\<lambda>body. \<lparr>ep_draft = new_draft\<lparr>df_transactions :=
         map (\<lambda>i. (stored_transaction i (details ! i))\<lparr>pt_signature := pd_functionSig (details ! i)\<rparr>) [0..<length details]\<rparr>,
       ep_titleValue = title, ep_bodyValue = body, ep_originalTitleValue = [], ep_originalBodyValue = [],
       ep_originalTransactions = [], ep_commitMessage = [], ep_slug = [],
       ep_isTitleEdited = False, ep_isBodyEdited = False\<rparr>)
       (removeTitleFromDescription special description title)"

text \<open>The original list holds the targets and amounts that are compared.\<close>

fun isTransactionsEdited :: "ProposalTransaction list \<Rightarrow> ProposalTransaction list \<Rightarrow> bool" where
  "isTransactionsEdited [] [] = False"
| "isTransactionsEdited (o' # os) (t # ts) =
     (pt_address o' \<noteq> pt_address t \<or> pt_value o' \<noteq> pt_value t \<or> isTransactionsEdited os ts)"
| "isTransactionsEdited _ _ = True"

definition isDescriptionEdited :: "edit_page \<Rightarrow> bool" where
  "isDescriptionEdited p \<longleftrightarrow> ep_originalTitleValue p \<noteq> ep_titleValue p \<or> ep_originalBodyValue p \<noteq> ep_bodyValue p"

definition handleUpdateProposal :: "string \<Rightarrow> edit_page \<Rightarrow> draft_call option" where
  "handleUpdateProposal proposalId p =
     (let ts = df_transactions (ep_draft p); description = describe (ep_titleValue p) (ep_bodyValue p);
          edited = isTransactionsEdited (ep_originalTransactions p) ts
      in if ts = [] then None
         else if isDescriptionEdited p \<and> \<not> edited
         then Some (UpdateProposalDescription proposalId description (ep_commitMessage p))
         else if \<not> isDescriptionEdited p \<and> edited
         then Some (UpdateProposalTransactions proposalId (filled_arrays_of ts) (ep_commitMessage p))
         else if isDescriptionEdited p \<and> edited
         then Some (UpdateProposal proposalId (filled_arrays_of ts) description (ep_commitMessage p))
         else None)"

definition edit_isFormInvalid :: "edit_page \<Rightarrow> bool" where
  "edit_isFormInvalid p \<longleftrightarrow>
     \<not> (df_edited (ep_draft p) \<or> isTransactionsEdited (ep_originalTransactions p) (df_transactions (ep_draft p)) \<or>
         isDescriptionEdited p) \<or>
     df_transactions (ep_draft p) = [] \<or> ep_titleValue p = [] \<or> ep_bodyValue p = [] \<or> ep_slug p = []"

definition candidate_isFormInvalid :: "edit_page \<Rightarrow> bool" where
  "candidate_isFormInvalid p \<longleftrightarrow> \<not> df_edited (ep_draft p)"

definition handleCreateNewCandidate ::
  "string \<Rightarrow> int option \<Rightarrow> int option \<Rightarrow> edit_page \<Rightarrow> draft_call option" where
  "handleCreateNewCandidate proposalId availableVotes createCandidateCost p =
     (if df_transactions (ep_draft p) = [] \<or> ep_titleValue p = [] \<or> ep_bodyValue p = [] \<or> ep_slug p = [] \<or> proposalId = []
      then None
      else Some (CreateProposalCandidate (arrays_of (df_transactions (ep_draft p)))
        (describe (ep_titleValue p) (ep_bodyValue p)) (ep_slug p) proposalId
        (if positive availableVotes then Some 0 else createCandidateCost)))"

definition candidate_handleUpdateProposal ::
  "string option \<Rightarrow> int \<Rightarrow> int option \<Rightarrow> int option \<Rightarrow> edit_page \<Rightarrow> draft_call option" where
  "candidate_handleUpdateProposal slug proposalIdToUpdate availableVotes updateCandidateCost p =
     (if df_transactions (ep_draft p) = [] then None
      else Some (UpdateProposalCandidate (filled_arrays_of (df_transactions (ep_draft p)))
        (describe (ep_titleValue p) (ep_bodyValue p)) slug proposalIdToUpdate (ep_commitMessage p)
        (if positive availableVotes then 0 else (case updateCandidateCost of None \<Rightarrow> 0 | Some c \<Rightarrow> c))))"

section \<open>Reading streams\<close>

record stream_info =
  si_recipient :: string
  si_streamAddress :: "string option"
  si_startTime :: "int option"
  si_endTime :: "int option"
  si_streamAmount :: "int option"
  si_tokenAddress :: string
  si_nonce :: "string option"

definition parseStreamCreationCallData :: "string \<Rightarrow> stream_info" where
  "parseStreamCreationCallData callData =
     (let a = js_split '','' callData
      in if length a < 6
         then \<lparr>si_recipient = [], si_streamAddress = Some [], si_startTime = Some 0, si_endTime = Some 0,
               si_streamAmount = Some 0, si_tokenAddress = [], si_nonce = None\<rparr>
         else \<lparr>si_recipient = a ! 0, si_streamAddress = js_nth a 6, si_startTime = parseInt (a ! 3),
               si_endTime = parseInt (a ! 4), si_streamAmount = parseInt (a ! 1), si_tokenAddress = a ! 2,
               si_nonce = Some (a ! 5)\<rparr>)"

end
