(* ===== verification/Webapp_Draft_Props.thy ===== *)
theory Webapp_Draft_Props
  imports Webapp_Draft
begin

text \<open>
  What the pages that create and edit proposals guarantee: the total of the USDC payments, the
  transaction that refills the token buyer, and that an update brings the stored proposal to what
  the editor shows. Every page is a machine whose steps are the actions of the user and the answers
  of the token buyer, in any order.
\<close>

section \<open>Steps of a draft\<close>

datatype draft_event = AddActions "ProposalTransaction list" | RemoveAction nat | EthAnswer "string option"

definition draft_step :: "string option \<Rightarrow> draft_event \<Rightarrow> draft \<Rightarrow> draft option" where
  "draft_step tokenBuyer e d = Some (case e of
     AddActions ts \<Rightarrow> handleAddProposalAction ts d
   | RemoveAction i \<Rightarrow> handleRemoveProposalAction i d
   | EthAnswer needed \<Rightarrow> top_up_effect tokenBuyer needed d)"

text \<open>The USDC amount of a transaction, and batches with at most one of them.\<close>

definition usdc_of :: "ProposalTransaction \<Rightarrow> int" where
  "usdc_of t = (case pt_usdcValue t of Some (Some v) \<Rightarrow> v | _ \<Rightarrow> 0)"

definition usdc_number :: "ProposalTransaction \<Rightarrow> bool" where
  "usdc_number t \<longleftrightarrow> pt_usdcValue t \<noteq> Some None"

definition single_payment :: "ProposalTransaction list \<Rightarrow> bool" where
  "single_payment ts \<longleftrightarrow> (\<forall>t\<in>set ts. usdc_number t \<and> pt_calldata t \<noteq> None) \<and>
     length (filter (\<lambda>t. usdc_of t \<noteq> 0) ts) \<le> 1"

definition draft_legal :: "draft_event \<Rightarrow> draft \<Rightarrow> bool" where
  "draft_legal e d = (case e of AddActions ts \<Rightarrow> single_payment ts | _ \<Rightarrow> True)"

definition hex_transaction :: "ProposalTransaction \<Rightarrow> bool" where
  "hex_transaction t \<longleftrightarrow> prefix ''0x'' (pt_address t) \<and> (\<exists>c. pt_calldata t = Some c \<and> prefix ''0x'' c)"

definition draft_inv :: "draft \<Rightarrow> bool" where
  "draft_inv d \<longleftrightarrow> (\<forall>t\<in>set (df_transactions d). hex_transaction t \<and> usdc_number t) \<and>
     df_total d = Some (sum_list (map usdc_of (df_transactions d)))"

section \<open>Adding and removing\<close>

definition hexed :: "ProposalTransaction \<Rightarrow> ProposalTransaction" where
  "hexed t = t\<lparr>pt_address := with_0x (pt_address t), pt_calldata := map_option with_0x (pt_calldata t)\<rparr>"

lemma hexed_simps [simp]:
  "pt_value (hexed t) = pt_value t" "pt_usdcValue (hexed t) = pt_usdcValue t"
  "usdc_of (hexed t) = usdc_of t" "usdc_number (hexed t) = usdc_number t"
  "pt_calldata t \<noteq> None \<Longrightarrow> hex_transaction (hexed t)"
  by (cases "pt_calldata t"; simp add: hexed_def usdc_of_def usdc_number_def hex_transaction_def with_0x_def)+

lemma prepare_step:
  assumes "pt_calldata t \<noteq> None" "usdc_number t"
  shows "prepare (Some n) new (t # ts) =
    (let r = prepare (Some n) (if usdc_of t = 0 then new else Some (n + usdc_of t)) ts
     in (fst r, map_option (\<lambda>us. hexed t # us) (snd r)))"
  using assms
  by (cases "pt_usdcValue t"; simp add: case_prod_unfold Let_def hexed_def usdc_of_def usdc_number_def
      split: option.splits) auto

lemma prepare_adds:
  "\<forall>t\<in>set ts. usdc_number t \<and> pt_calldata t \<noteq> None \<Longrightarrow> snd (prepare (Some n) new ts) = Some (map hexed ts)"
proof (induction ts arbitrary: new)
  case (Cons t ts)
  then show ?case using prepare_step [of t n new ts] by (simp add: Let_def)
qed simp

lemma prepare_total:
  assumes "\<forall>t\<in>set ts. usdc_number t \<and> pt_calldata t \<noteq> None"
  shows "fst (prepare (Some n) new ts) = (case filter (\<lambda>v. v \<noteq> 0) (map usdc_of ts) of [] \<Rightarrow> new | vs \<Rightarrow> Some (n + last vs))"
  using assms
proof (induction ts arbitrary: new)
  case (Cons t ts)
  then show ?case using prepare_step [of t n new ts] by (auto simp: Let_def split: list.splits)
qed simp

lemma sum_list_filter_nonzero: "filter (\<lambda>v. v \<noteq> 0) vs = [] \<Longrightarrow> sum_list vs = (0::int)"
  by (induction vs) (auto split: if_splits)

lemma sum_single:
  "length (filter (\<lambda>v. v \<noteq> 0) vs) \<le> 1 \<Longrightarrow>
     sum_list vs = (case filter (\<lambda>v. v \<noteq> (0::int)) vs of [] \<Rightarrow> 0 | us \<Rightarrow> last us)"
proof (induction vs)
  case (Cons v vs)
  then show ?case
    by (cases "v = 0"; cases "filter (\<lambda>v. v \<noteq> 0) vs") (auto simp: sum_list_filter_nonzero)
qed simp

text \<open>Adding a batch with at most one payment keeps the total exact.\<close>

lemma add_total:
  assumes "single_payment ts" "df_total d = Some n"
  shows "handleAddProposalAction ts d = d\<lparr>df_total := Some (n + sum_list (map usdc_of ts)),
    df_transactions := df_transactions d @ map hexed ts, df_showModal := False, df_edited := True\<rparr>"
proof -
  have ts: "\<forall>t\<in>set ts. usdc_number t \<and> pt_calldata t \<noteq> None"
    using assms(1) by (auto simp: single_payment_def)
  have "length (filter (\<lambda>v. v \<noteq> 0) (map usdc_of ts)) \<le> 1"
    using assms(1) by (simp add: single_payment_def filter_map comp_def)
  then have "fst (prepare (Some n) (Some n) ts) = Some (n + sum_list (map usdc_of ts))"
    using sum_single prepare_total [OF ts] by (auto split: list.splits)
  then show ?thesis
    using prepare_adds [OF ts, of n "Some n"] assms(2)
    by (simp add: handleAddProposalAction_def case_prod_unfold)
qed

lemma sum_list_remove:
  "i < length xs \<Longrightarrow> sum_list (take i xs @ drop (Suc i) xs) = sum_list xs - (xs ! i :: int)"
  by (induction xs arbitrary: i) (auto simp: nth_Cons split: nat.splits)

lemma remove_total:
  assumes "draft_inv d" "i < length (df_transactions d)"
  shows "df_total (handleRemoveProposalAction i d) =
    Some (sum_list (map usdc_of (df_transactions (handleRemoveProposalAction i d))))"
proof -
  let ?ts = "df_transactions d"
  have "usdc_number (?ts ! i)" using assms by (simp add: draft_inv_def)
  then have "df_total (handleRemoveProposalAction i d) = Some (sum_list (map usdc_of ?ts) - usdc_of (?ts ! i))"
    using assms by (auto simp: handleRemoveProposalAction_def draft_inv_def usdc_of_def usdc_number_def split: option.splits)
  moreover have "sum_list (map usdc_of (take i ?ts @ drop (Suc i) ?ts)) = sum_list (map usdc_of ?ts) - usdc_of (?ts ! i)"
    using sum_list_remove [of i "map usdc_of ?ts"] assms(2) by (simp add: take_map drop_map)
  ultimately show ?thesis using assms(2) by (simp add: handleRemoveProposalAction_def)
qed

lemma remove_subset: "set (df_transactions (handleRemoveProposalAction i d)) \<subseteq> set (df_transactions d)"
  by (auto simp: handleRemoveProposalAction_def dest: in_set_takeD in_set_dropD)

lemma remove_inv: "draft_inv d \<Longrightarrow> draft_inv (handleRemoveProposalAction i d)"
  using remove_total [of d i] remove_subset [of i d]
  by (cases "i < length (df_transactions d)") (auto simp: draft_inv_def handleRemoveProposalAction_def)

section \<open>Refilling the token buyer\<close>

definition top_up_transaction :: "string option \<Rightarrow> string \<Rightarrow> ProposalTransaction" where
  "top_up_transaction tokenBuyer e = \<lparr>pt_address = or_empty tokenBuyer, pt_value = TextValue e,
     pt_signature = Some [], pt_calldata = Some ''0x'', pt_decodedCalldata = None, pt_usdcValue = None\<rparr>"

lemma value_simps [simp]:
  "usdc_of (t\<lparr>pt_value := v\<rparr>) = usdc_of t" "usdc_number (t\<lparr>pt_value := v\<rparr>) = usdc_number t"
  "hex_transaction (t\<lparr>pt_value := v\<rparr>) = hex_transaction t"
  by (simp_all add: usdc_of_def usdc_number_def hex_transaction_def)

lemma set_first_usdc [simp]: "map usdc_of (set_first_value a v ts) = map usdc_of ts"
  by (induction ts) auto

lemma set_first_all:
  "\<forall>t\<in>set ts. P t \<Longrightarrow> (\<And>t v. P (t\<lparr>pt_value := v\<rparr>) = P t) \<Longrightarrow> \<forall>t\<in>set (set_first_value a v ts). P t"
  by (induction ts) auto

lemma single_top_up [simp]: "single_payment [top_up_transaction a e]" "usdc_of (top_up_transaction a e) = 0"
  by (auto simp: single_payment_def top_up_transaction_def usdc_of_def usdc_number_def)

lemma top_up_skips:
  "top_up_effect a None d = d" "\<not> (e \<noteq> df_topUp d \<and> positive (df_total d)) \<Longrightarrow> top_up_effect a (Some e) d = d"
  by (auto simp: top_up_effect_def)

lemma top_up_works:
  assumes "e \<noteq> df_topUp d" "positive (df_total d)"
  shows "top_up_effect a (Some e) d =
    (if \<not> positive (parseInt e) then d
     else if \<exists>t\<in>set (df_transactions d). Some (pt_address t) = a
     then d\<lparr>df_transactions := set_first_value a e (df_transactions d)\<rparr>
     else handleAddProposalAction [top_up_transaction a e] d)\<lparr>df_topUp := e\<rparr>"
  using assms by (simp add: top_up_effect_def top_up_transaction_def Let_def)

lemma top_up_cases:
  obtains (same) "top_up_effect a needed d = d"
  | (added) e where "needed = Some e"
      "top_up_effect a needed d = (handleAddProposalAction [top_up_transaction a e] d)\<lparr>df_topUp := e\<rparr>"
  | (reset) e where "needed = Some e"
      "top_up_effect a needed d = d\<lparr>df_transactions := set_first_value a e (df_transactions d), df_topUp := e\<rparr>"
  | (noted) e where "needed = Some e" "top_up_effect a needed d = d\<lparr>df_topUp := e\<rparr>"
proof (cases needed)
  case None
  then show ?thesis using same top_up_skips(1) by simp
next
  case (Some e)
  consider "\<not> (e \<noteq> df_topUp d \<and> positive (df_total d))"
    | "e \<noteq> df_topUp d" "positive (df_total d)" by blast
  then show ?thesis
  proof cases
    case 1
    then show ?thesis using same top_up_skips(2) Some by blast
  next
    case 2
    note eq = top_up_works [OF 2, of a]
    show ?thesis
    proof (cases "positive (parseInt e) \<and> (\<exists>t\<in>set (df_transactions d). Some (pt_address t) = a)")
      case True
      then show ?thesis using reset [OF Some] eq Some by simp
    next
      case False
      then show ?thesis using added [OF Some] noted [OF Some] eq Some by (cases "positive (parseInt e)") simp_all
    qed
  qed
qed

lemma add_inv: "draft_inv d \<Longrightarrow> single_payment ts \<Longrightarrow> draft_inv (handleAddProposalAction ts d)"
  by (auto simp: draft_inv_def add_total single_payment_def comp_def)

lemma top_up_inv:
  assumes "draft_inv d"
  shows "draft_inv (top_up_effect a needed d)"
proof (cases rule: top_up_cases [of a needed d])
  case same
  then show ?thesis using assms by simp
next
  case (added e)
  then show ?thesis using add_inv [OF assms single_top_up(1)] by (simp add: draft_inv_def)
next
  case (reset e)
  have "\<forall>t\<in>set (set_first_value a e (df_transactions d)). hex_transaction t \<and> usdc_number t"
    by (rule set_first_all) (use assms in \<open>simp_all add: draft_inv_def\<close>)
  with reset show ?thesis using assms by (simp add: draft_inv_def)
next
  case (noted e)
  then show ?thesis using assms by (simp add: draft_inv_def)
qed

interpretation drafts: machine "draft_step tokenBuyer" draft_legal draft_inv for tokenBuyer
proof (unfold_locales, goal_cases)
  case (1 s e s')
  then show ?case
    by (cases e) (auto simp: draft_step_def draft_legal_def intro: add_inv remove_inv top_up_inv)
qed

text \<open>
  However a proposer adds actions with at most one USDC payment each, removes actions and the
  answers of the token buyer arrive, the total that the page shows and sends to the token buyer is
  the sum of the USDC payments in the list, and every transaction has a target and call data in
  hexadecimal notation.
\<close>

theorem draft_total_exact:
  assumes "legal_run (draft_step tokenBuyer) draft_legal es new_draft"
  shows "\<exists>d. run_events (draft_step tokenBuyer) es new_draft = Some d \<and>
    df_total d = Some (sum_list (map usdc_of (df_transactions d))) \<and>
    (\<forall>t\<in>set (df_transactions d). hex_transaction t)"
proof -
  have "draft_inv new_draft" by (simp add: draft_inv_def new_draft_def)
  then obtain d where "run_events (draft_step tokenBuyer) es new_draft = Some d" "draft_inv d"
    using drafts.legal_run_inv [OF _ assms] by blast
  then show ?thesis by (auto simp: draft_inv_def)
qed

definition demo_payment :: ProposalTransaction where
  "demo_payment = \<lparr>pt_address = ''0xpayer'', pt_value = TextValue ''0'', pt_signature = Some ''pay'', pt_calldata = Some ''00'',
     pt_decodedCalldata = None, pt_usdcValue = Some (Some 7)\<rparr>"

theorem draft_total_exact_witness:
  "\<exists>d. run_events (draft_step (Some ''0xbuyer''))
      [AddActions [demo_payment], EthAnswer (Some ''30''), AddActions [demo_payment], RemoveAction 0, EthAnswer (Some ''20'')]
      new_draft = Some d \<and> df_total d = Some (sum_list (map usdc_of (df_transactions d))) \<and>
    (\<forall>t\<in>set (df_transactions d). hex_transaction t)"
proof (rule draft_total_exact)
  have "single_payment [demo_payment]"
    by (simp add: single_payment_def usdc_number_def usdc_of_def demo_payment_def)
  then show "legal_run (draft_step (Some ''0xbuyer'')) draft_legal
      [AddActions [demo_payment], EthAnswer (Some ''30''), AddActions [demo_payment], RemoveAction 0, EthAnswer (Some ''20'')]
      new_draft"
    by (simp add: draft_legal_def draft_step_def)
qed

section \<open>Streams of USDC\<close>

lemma stream_usdc_pair:
  assumes "useStreamPaymentTransactions env st (Some p) = Some ts" "p \<noteq> []"
    "ms_TransferFundsCurrency st = Some USDC" "parseInt (human2ContractUSDCFormat (or_zero (ms_amount st))) = Some v"
  obtains a b where "ts = [a, b]" "pt_usdcValue a = Some (Some v)" "pt_usdcValue b = Some (Some v)"
    "pt_calldata a \<noteq> None" "pt_calldata b \<noteq> None"
proof -
  from assms obtain a b where "create_stream env st p = Some a" "fund_usdc env st p = Some b" "ts = [a, b]"
    by (auto simp: useStreamPaymentTransactions_def truthy_def split: option.splits)
  with that show ?thesis
    using assms(3,4) by (auto simp: create_stream_def fund_usdc_def Let_def split: option.splits)
qed

text \<open>
  Adding a stream of USDC counts its amount once although both of its transactions carry it, so
  that removing the two transactions again leaves the total short by the amount.
\<close>

theorem usdc_stream_miscounted:
  assumes "useStreamPaymentTransactions env st (Some p) = Some ts" "p \<noteq> []"
    "ms_TransferFundsCurrency st = Some USDC" "parseInt (human2ContractUSDCFormat (or_zero (ms_amount st))) = Some v"
    "v \<noteq> 0" "df_total d = Some n"
  defines "d1 \<equiv> handleAddProposalAction ts d" and "k \<equiv> length (df_transactions d)"
  defines "d2 \<equiv> handleRemoveProposalAction k (handleRemoveProposalAction k d1)"
  shows "df_total d1 = Some (n + v) \<and>
    sum_list (map usdc_of (df_transactions d1)) = sum_list (map usdc_of (df_transactions d)) + 2 * v \<and>
    df_transactions d2 = df_transactions d \<and> df_total d2 = Some (n - v)"
proof -
  obtain a b where ab: "ts = [a, b]" "pt_usdcValue a = Some (Some v)" "pt_usdcValue b = Some (Some v)"
    "pt_calldata a \<noteq> None" "pt_calldata b \<noteq> None"
    using stream_usdc_pair [OF assms(1-4)] by blast
  then have u: "usdc_number a" "usdc_number b" "usdc_of a = v" "usdc_of b = v"
    by (simp_all add: usdc_number_def usdc_of_def)
  have "prepare (Some n) (Some n) ts = (Some (n + v), Some [hexed a, hexed b])"
    using ab u assms(5) by (simp add: prepare_step Let_def del: prepare.simps(2))
  then have d1: "d1 = d\<lparr>df_total := Some (n + v), df_transactions := df_transactions d @ [hexed a, hexed b],
      df_showModal := False, df_edited := True\<rparr>"
    using assms(6) by (simp add: d1_def handleAddProposalAction_def)
  then show ?thesis
    using ab u by (simp add: d2_def k_def handleRemoveProposalAction_def nth_append)
qed

definition demo_action_env :: action_env where
  "demo_action_env = \<lparr>ae_addresses = \<lparr>ad_nounsStreamFactory = Some ''0xf'', ad_usdcToken = Some ''0xu'', ad_weth = Some ''0xw'',
       ad_steth = Some ''0xs'', ad_payerContract = Some ''0xp'', ad_tokenBuyer = Some ''0xb''\<rparr>,
     ae_parseEther = (\<lambda>s. if s \<noteq> [] \<and> list_all is_decimal s then Some (s @ replicate 18 (CHR ''0'')) else None),
     ae_encode = (\<lambda>f args. Some (json_list args))\<rparr>"

definition demo_stream :: "SupportedCurrency \<Rightarrow> ProposalActionModalState" where
  "demo_stream currency = \<lparr>ms_address = ''0xr'', ms_amount = Some ''5'', ms_TransferFundsCurrency = Some currency,
     ms_streamStartTimestamp = Some 100, ms_streamEndTimestamp = Some 200, ms_function = None, ms_hasAbi = False, ms_args = None\<rparr>"

lemma demo_usdc: "human2ContractUSDCFormat ''5'' = int_to_string 5000000"
proof -
  have "list_all is_decimal ''5''" by (simp add: is_decimal_def digit_val_def)
  moreover have "decimal_text ''5'' [] = ''5''" "digits_value ''5'' = 5" by code_simp+
  ultimately show ?thesis using usdc_exact [of "''5''" "[]"] by simp
qed

lemma demo_stream_usdc:
  obtains ts where "useStreamPaymentTransactions demo_action_env (demo_stream USDC) (Some ''0xq'') = Some ts"
  by (simp add: useStreamPaymentTransactions_def create_stream_def fund_usdc_def demo_action_env_def demo_stream_def
      Let_def truthy_def formatTokenAmount_def)

theorem usdc_stream_miscounted_witness:
  "\<exists>ts. useStreamPaymentTransactions demo_action_env (demo_stream USDC) (Some ''0xq'') = Some ts \<and>
     df_total (handleRemoveProposalAction 0 (handleRemoveProposalAction 0 (handleAddProposalAction ts new_draft))) =
       Some (- 5000000)"
proof -
  obtain ts where ts: "useStreamPaymentTransactions demo_action_env (demo_stream USDC) (Some ''0xq'') = Some ts"
    by (rule demo_stream_usdc)
  have "parseInt (human2ContractUSDCFormat (or_zero (ms_amount (demo_stream USDC)))) = Some 5000000"
    by (simp add: demo_stream_def or_zero_def demo_usdc)
  then show ?thesis
    using usdc_stream_miscounted [OF ts, of 5000000 new_draft 0] ts by (simp add: demo_stream_def new_draft_def)
qed

section \<open>The refill\<close>

lemma find_set_first:
  "\<exists>t\<in>set ts. pt_address t = b \<Longrightarrow>
    \<exists>t. find (\<lambda>t. pt_address t = b) (set_first_value (Some b) e ts) = Some t \<and> pt_value t = TextValue e"
  by (induction ts) auto

lemma others_set_first:
  "filter (\<lambda>t. pt_address t \<noteq> b) (set_first_value (Some b) e ts) = filter (\<lambda>t. pt_address t \<noteq> b) ts"
  by (induction ts) auto

lemma find_append_new: "\<forall>t\<in>set xs. \<not> P t \<Longrightarrow> P y \<Longrightarrow> find P (xs @ [y]) = Some y"
  by (induction xs) auto

lemma length_set_first [simp]: "length (set_first_value a v ts) = length ts"
  by (induction ts) auto

text \<open>
  When the token buyer needs a new amount of ether and USDC payments are planned, the proposal
  afterwards holds a transaction that sends the buyer this amount, in the place of the earlier
  refill where there is one; all other transactions and the total stay, and the effect is stable.
\<close>

theorem top_up_pays_the_buyer:
  assumes "prefix ''0x'' b" "e \<noteq> df_topUp d" "positive (parseInt e)" "positive (df_total d)"
  defines "d' \<equiv> top_up_effect (Some b) (Some e) d"
  shows "(\<exists>t. find (\<lambda>t. pt_address t = b) (df_transactions d') = Some t \<and> pt_value t = TextValue e) \<and>
    filter (\<lambda>t. pt_address t \<noteq> b) (df_transactions d') = filter (\<lambda>t. pt_address t \<noteq> b) (df_transactions d) \<and>
    length (df_transactions d') =
      length (df_transactions d) + (if \<exists>t\<in>set (df_transactions d). pt_address t = b then 0 else 1) \<and>
    df_total d' = df_total d \<and> top_up_effect (Some b) (Some e) d' = d'"
proof (cases "\<exists>t\<in>set (df_transactions d). pt_address t = b")
  case True
  then have d': "d' = d\<lparr>df_transactions := set_first_value (Some b) e (df_transactions d), df_topUp := e\<rparr>"
    using assms by (simp add: top_up_works)
  then have "top_up_effect (Some b) (Some e) d' = d'" by (simp add: top_up_skips)
  then show ?thesis using True find_set_first others_set_first d' by simp
next
  case False
  obtain n where n: "df_total d = Some n" using assms(4) by (auto simp: positive_def split: option.splits)
  let ?t = "hexed (top_up_transaction (Some b) e)"
  have t: "pt_address ?t = b" "pt_value ?t = TextValue e" "usdc_of ?t = 0"
    using assms(1) by (simp_all add: hexed_def with_0x_def top_up_transaction_def or_empty_def usdc_of_def)
  have "handleAddProposalAction [top_up_transaction (Some b) e] d = d\<lparr>df_total := Some n,
      df_transactions := df_transactions d @ [?t], df_showModal := False, df_edited := True\<rparr>"
    using add_total [OF single_top_up(1) n] by simp
  then have d': "d' = d\<lparr>df_total := Some n, df_transactions := df_transactions d @ [?t], df_showModal := False,
      df_edited := True, df_topUp := e\<rparr>"
    using assms False by (simp add: top_up_works)
  then have "top_up_effect (Some b) (Some e) d' = d'" by (simp add: top_up_skips)
  moreover have "find (\<lambda>t. pt_address t = b) (df_transactions d') = Some ?t"
    using d' False t by (simp add: find_append_new)
  ultimately show ?thesis using d' t n False by simp
qed

theorem top_up_pays_the_buyer_witness:
  "df_total (top_up_effect (Some ''0xb'') (Some ''30'') (new_draft\<lparr>df_total := Some 7\<rparr>)) = Some 7"
proof -
  have "positive (parseInt ''30'')" by code_simp
  then show ?thesis
    using top_up_pays_the_buyer [of "''0xb''" "''30''" "new_draft\<lparr>df_total := Some 7\<rparr>"]
    by (simp add: new_draft_def positive_def)
qed

section \<open>Editing\<close>

datatype page_event = Draft draft_event | TitleInput string | BodyInput string | CommitInput string

text \<open>
  Steps of the page that edits a proposal. Every rendering computes the stored description without
  the heading in the editor; the page is lost when this throws.
\<close>

definition isolatedDescription ::
  "(string \<Rightarrow> string \<Rightarrow> string option) \<Rightarrow> string \<Rightarrow> edit_page \<Rightarrow> string option" where
  "isolatedDescription special description p =
     (if description = [] then Some [] else removeTitleFromDescription special description (ep_titleValue p))"

record page_env =
  pe_special :: "string \<Rightarrow> string \<Rightarrow> string option"
  pe_random :: string
  pe_isProposedBySigners :: bool
  pe_tokenBuyer :: "string option"
  pe_storedTitle :: string
  pe_description :: string

definition page_step :: "page_env \<Rightarrow> page_event \<Rightarrow> edit_page \<Rightarrow> edit_page option" where
  "page_step env e p = (case e of
     Draft de \<Rightarrow> map_option (\<lambda>d. p\<lparr>ep_draft := d\<rparr>) (draft_step (pe_tokenBuyer env) de (ep_draft p))
   | TitleInput s \<Rightarrow>
       (let p' = handleTitleInput (pe_random env) (pe_isProposedBySigners env) (pe_storedTitle env) s p
        in map_option (\<lambda>_. edited_effect p p') (isolatedDescription (pe_special env) (pe_description env) p'))
   | BodyInput s \<Rightarrow>
       map_option (\<lambda>iso. edited_effect p (handleBodyInput (Some iso) s p))
         (isolatedDescription (pe_special env) (pe_description env) p)
   | CommitInput s \<Rightarrow> Some (p\<lparr>ep_commitMessage := s\<rparr>))"

text \<open>The dialog of actions makes new texts for the amounts of its transactions.\<close>

definition text_value :: "ProposalTransaction \<Rightarrow> bool" where
  "text_value t \<longleftrightarrow> (\<exists>s. pt_value t = TextValue s)"

definition page_legal :: "page_event \<Rightarrow> edit_page \<Rightarrow> bool" where
  "page_legal e p = (case e of Draft (AddActions ts) \<Rightarrow> (\<forall>t\<in>set ts. text_value t) | _ \<Rightarrow> True)"

lemma transfer_has_text: "transfer_handleActionAdd env st = Some ts \<Longrightarrow> t \<in> set ts \<Longrightarrow> text_value t"
  by (cases "ms_TransferFundsCurrency st")
    (auto simp: transfer_handleActionAdd_def text_value_def Let_def split: option.splits SupportedCurrency.splits)

lemma call_has_text: "call_handleActionAdd env st = Some ts \<Longrightarrow> t \<in> set ts \<Longrightarrow> text_value t"
  by (auto simp: call_handleActionAdd_def text_value_def Let_def split: option.splits if_splits)

lemma stream_parts_have_texts:
  "create_stream env st p = Some t \<Longrightarrow> text_value t" "fund_usdc env st p = Some t \<Longrightarrow> text_value t"
  "fund_weth env st p = Some t \<Longrightarrow> text_value t" "wrap_ether env st = Some t \<Longrightarrow> text_value t"
  by (auto simp: create_stream_def fund_usdc_def fund_weth_def wrap_ether_def text_value_def Let_def split: option.splits)

lemma stream_has_text: "useStreamPaymentTransactions env st q = Some ts \<Longrightarrow> t \<in> set ts \<Longrightarrow> text_value t"
  by (auto simp: useStreamPaymentTransactions_def Let_def stream_parts_have_texts split: option.splits if_splits)

text \<open>A transaction with an amount of the stored proposal is a transaction of the stored proposal.\<close>

definition from_store :: "ProposalDetail list \<Rightarrow> ProposalTransaction \<Rightarrow> bool" where
  "from_store details t = (case pt_value t of TextValue _ \<Rightarrow> True
     | StoredBN i n \<Rightarrow> i < length details \<and> t = stored_transaction i (details ! i))"

definition page_inv :: "string \<Rightarrow> string \<Rightarrow> ProposalDetail list \<Rightarrow> edit_page \<Rightarrow> bool" where
  "page_inv title body details p \<longleftrightarrow>
     ep_originalTitleValue p = title \<and> ep_originalBodyValue p = body \<and>
     ep_originalTransactions p = stored_transactions details \<and>
     (\<forall>t\<in>set (df_transactions (ep_draft p)). from_store details t)"

lemma text_from_store: "text_value t \<Longrightarrow> from_store details t"
  by (auto simp: text_value_def from_store_def)

lemma prepare_added:
  "prepare old new ts = (n, Some us) \<Longrightarrow> map pt_value us = map pt_value ts"
  by (induction ts arbitrary: new us n) (auto simp: Let_def split: option.splits prod.splits)

lemma added_from_store:
  assumes "\<forall>t\<in>set ts. text_value t" "\<forall>t\<in>set (df_transactions d). from_store details t"
  shows "\<forall>t\<in>set (df_transactions (handleAddProposalAction ts d)). from_store details t"
proof (cases "prepare (df_total d) (df_total d) ts")
  case (Pair n r)
  show ?thesis
  proof (cases r)
    case None
    then show ?thesis using Pair assms by (simp add: handleAddProposalAction_def)
  next
    case (Some us)
    have eq: "pt_value ` set us = pt_value ` set ts"
      using prepare_added [of "df_total d" "df_total d" ts n us] Pair Some by (metis set_map)
    have "text_value t" if "t \<in> set us" for t
    proof -
      from that eq obtain t' where "t' \<in> set ts" "pt_value t = pt_value t'" by (metis image_iff)
      then show ?thesis using assms(1) by (simp add: text_value_def)
    qed
    then have "\<forall>t\<in>set us. from_store details t" by (auto intro: text_from_store)
    then show ?thesis using Pair Some assms by (auto simp: handleAddProposalAction_def)
  qed
qed

lemma set_first_from_store:
  "\<forall>t\<in>set ts. from_store details t \<Longrightarrow> \<forall>t\<in>set (set_first_value a v ts). from_store details t"
  by (induction ts) (auto simp: from_store_def)

lemma draft_step_from_store:
  assumes "draft_step a e d = Some d'" "\<forall>t\<in>set (df_transactions d). from_store details t"
    "\<And>ts. e = AddActions ts \<Longrightarrow> \<forall>t\<in>set ts. text_value t"
  shows "\<forall>t\<in>set (df_transactions d'). from_store details t"
proof (cases e)
  case (AddActions ts)
  then show ?thesis using assms added_from_store [of ts d details] by (simp add: draft_step_def)
next
  case (RemoveAction i)
  then show ?thesis using assms remove_subset [of i d] by (auto simp: draft_step_def)
next
  case (EthAnswer needed)
  then have d': "d' = top_up_effect a needed d" using assms(1) by (simp add: draft_step_def)
  show ?thesis
  proof (cases rule: top_up_cases [of a needed d])
    case (added e')
    then show ?thesis
      using added_from_store [of "[top_up_transaction a e']" d details] assms(2) d'
      by (simp add: text_value_def top_up_transaction_def)
  next
    case (reset e')
    then show ?thesis using set_first_from_store assms(2) d' by simp
  qed (use assms(2) d' in simp_all)
qed

lemma edited_effect_inv: "page_inv title body details p \<Longrightarrow> page_inv title body details (edited_effect q p)"
  by (simp add: page_inv_def edited_effect_def)

lemma page_step_inv:
  assumes "page_inv title body details p" "page_legal e p" "page_step env e p = Some p'"
  shows "page_inv title body details p'"
proof (cases e)
  case (Draft de)
  then obtain d where d: "draft_step (pe_tokenBuyer env) de (ep_draft p) = Some d" "p' = p\<lparr>ep_draft := d\<rparr>"
    using assms(3) by (auto simp: page_step_def)
  have "\<forall>t\<in>set (df_transactions d). from_store details t"
    by (rule draft_step_from_store [OF d(1)]) (use assms(1,2) Draft in \<open>simp_all add: page_inv_def page_legal_def\<close>)
  then show ?thesis using assms(1) d(2) by (simp add: page_inv_def)
next
  case (TitleInput s)
  then obtain q where "p' = edited_effect p q" "page_inv title body details q"
    using assms by (auto simp: page_step_def page_inv_def handleTitleInput_def Let_def)
  then show ?thesis by (simp add: edited_effect_inv)
next
  case (BodyInput s)
  then obtain q where "p' = edited_effect p q" "page_inv title body details q"
    using assms by (auto simp: page_step_def page_inv_def handleBodyInput_def)
  then show ?thesis by (simp add: edited_effect_inv)
qed (use assms in \<open>auto simp: page_step_def page_inv_def\<close>)

interpretation editing: machine "page_step env" page_legal "page_inv title body details" for env title body details
  by unfold_locales (rule page_step_inv)

text \<open>What the update functions of the DAO do to the stored transactions and the stored description.\<close>

fun applied_update :: "draft_call \<Rightarrow> tx_arrays \<times> string \<Rightarrow> tx_arrays \<times> string" where
  "applied_update (UpdateProposal _ a d _) _ = (a, d)"
| "applied_update (UpdateProposalTransactions _ a _) (_, d) = (a, d)"
| "applied_update (UpdateProposalDescription _ d _) (a, _) = (a, d)"
| "applied_update _ x = x"

text \<open>The indexer gives the amount of every transaction.\<close>

definition has_amount :: "ProposalDetail \<Rightarrow> bool" where
  "has_amount x \<longleftrightarrow> (\<exists>n. pd_value x = Some (ValueBN n))"

lemma length_stored [simp]: "length (stored_transactions details) = length details"
  by (simp add: stored_transactions_def)

lemma nth_stored [simp]: "i < length details \<Longrightarrow> stored_transactions details ! i = stored_transaction i (details ! i)"
  by (simp add: stored_transactions_def)

lemma stored_amount: "has_amount x \<Longrightarrow> \<exists>n. pt_value (stored_transaction i x) = StoredBN i n"
  by (auto simp: has_amount_def stored_transaction_def stored_value_def)

lemma not_edited:
  "\<not> isTransactionsEdited os ts \<longleftrightarrow> length os = length ts \<and>
     (\<forall>i<length os. pt_address (os ! i) = pt_address (ts ! i) \<and> pt_value (os ! i) = pt_value (ts ! i))"
  by (induction os ts rule: isTransactionsEdited.induct) (auto simp: less_Suc_eq_0_disj)

text \<open>Comparing targets and amounts is enough, because the amounts are compared by identity.\<close>

lemma edited_iff:
  assumes "\<forall>x\<in>set details. has_amount x" "\<forall>t\<in>set ts. from_store details t"
  shows "isTransactionsEdited (stored_transactions details) ts \<longleftrightarrow> ts \<noteq> stored_transactions details"
proof
  show "ts \<noteq> stored_transactions details" if "isTransactionsEdited (stored_transactions details) ts"
    using that not_edited [of "stored_transactions details" "stored_transactions details"] by auto
  show "isTransactionsEdited (stored_transactions details) ts" if "ts \<noteq> stored_transactions details"
  proof (rule ccontr)
    assume "\<not> isTransactionsEdited (stored_transactions details) ts"
    then have same: "length ts = length details"
        "\<And>i. i < length details \<Longrightarrow> pt_value (ts ! i) = pt_value (stored_transaction i (details ! i))"
      by (auto simp: not_edited)
    have "ts ! i = stored_transaction i (details ! i)" if i: "i < length details" for i
    proof -
      obtain n where "pt_value (ts ! i) = StoredBN i n"
        using stored_amount [of "details ! i" i] same(2) [OF i] assms(1) i by auto
      moreover have "from_store details (ts ! i)" using assms(2) same(1) i by simp
      ultimately show ?thesis by (simp add: from_store_def)
    qed
    then have "ts = stored_transactions details" using same(1) by (simp add: list_eq_iff_nth_eq)
    with that show False by simp
  qed
qed

lemma stored_from_store: "\<forall>x\<in>set details. has_amount x \<Longrightarrow> t \<in> set (stored_transactions details) \<Longrightarrow> from_store details t"
proof -
  assume a: "\<forall>x\<in>set details. has_amount x" "t \<in> set (stored_transactions details)"
  then obtain i where i: "i < length details" "t = stored_transaction i (details ! i)"
    by (auto simp: stored_transactions_def)
  then show ?thesis using stored_amount [of "details ! i" i] a(1) by (auto simp: from_store_def)
qed

lemma heading_removed:
  assumes "\<not> list_ex regex_special title"
  shows "removeTitleFromDescription special (describe title body) title = Some body"
proof -
  have "prefix (''# '' @ title @ newline @ newline) (describe title body)" by (simp add: describe_def prefix_def)
  moreover have "drop (length (''# '' @ title @ newline @ newline)) (describe title body) = body"
    by (simp add: describe_def)
  ultimately show ?thesis using assms
    by (simp add: removeTitleFromDescription_def Let_def describe_def)
qed

lemma web_title:
  assumes "title \<noteq> []" "CHR 0x0A \<notin> set title" "\<not> is_space (hd title)" "\<not> sublist ''**'' title" "\<not> sublist ''__'' title"
  shows "display_title (Some (describe title body)) = title"
proof -
  obtain ts where "hash_matches (describe title body) = title # ts"
    using hash_matches_title [of 1 title "newline @ body"] assms(1-3) by (auto simp: describe_def)
  moreover have "describe title body \<noteq> []" by (simp add: describe_def)
  ultimately have "extractTitle_web (Some (describe title body)) = Some title"
    by (auto simp: extractTitle_web_def extractHashTitle_def first_match_Cons)
  then show ?thesis
    using assms(4,5) by (simp add: display_title_def removeMarkdownStyle_def removeBold_def removeItalics_def replaceAll_absent)
qed


definition demo_page_env :: page_env where
  "demo_page_env = \<lparr>pe_special = (\<lambda>_ _. None), pe_random = ''ab'', pe_isProposedBySigners = False,
     pe_tokenBuyer = Some ''0xb'', pe_storedTitle = display_title (Some (describe ''Fund X'' ''Body'')),
     pe_description = describe ''Fund X'' ''Body''\<rparr>"

definition demo_stored :: "ProposalDetail list" where
  "demo_stored = [\<lparr>pd_target = ''0xa'', pd_value = Some (ValueBN 1), pd_functionSig = Some ''f()'', pd_callData = Some ''0x''\<rparr>]"


text \<open>
  A candidate whose transactions were edited cannot be sent once a changed title has been typed back:
  the flag then forgets the transactions.
\<close>

lemma candidate_edit_forgotten:
  assumes "\<not> ep_isTitleEdited p" "\<not> ep_isBodyEdited p" "title \<noteq> stored"
  defines "p1 \<equiv> edited_effect p (candidate_handleTitleInput stored title p)"
  defines "p2 \<equiv> edited_effect p1 (candidate_handleTitleInput stored stored p1)"
  shows "candidate_isFormInvalid p2" "df_transactions (ep_draft p2) = df_transactions (ep_draft p)"
  using assms by (simp_all add: edited_effect_def candidate_handleTitleInput_def candidate_isFormInvalid_def)

section \<open>Streams\<close>

text \<open>
  A stream of USDC or WETH is created with the amount, the token and the times that are shown to
  the voters, and funded with exactly this amount: the last transaction pays it to the predicted
  address of the stream, and for WETH the transaction before wraps the same amount of ether.
\<close>

theorem stream_is_funded:
  assumes "useStreamPaymentTransactions env st (Some q) = Some ts" "q \<noteq> []"
    "ms_TransferFundsCurrency st = Some c" "c = USDC \<or> c = WETH" "truthy (ms_amount st)"
  defines "token \<equiv> getTokenAddressForCurrency (ae_addresses env) (Some c)"
  shows "\<exists>amount. formatTokenAmount (ae_parseEther env) (ms_amount st) (Some c) = Some amount \<and>
    pt_calldata (hd ts) = ae_encode env fundStreamFunction (stream_args st amount token q) \<and>
    pt_decodedCalldata (hd ts) = Some (json_list (stream_args st amount token q)) \<and>
    pt_decodedCalldata (last ts) = Some (json_list [JText q, JText amount]) \<and>
    pt_calldata (last ts) = ae_encode env (the (pt_signature (last ts))) [JText q, JText amount] \<and>
    (c = WETH \<longrightarrow> pt_value (ts ! 1) = TextValue amount \<and> pt_address (ts ! 1) = or_empty token) \<and>
    length ts = (if c = WETH then 3 else 2)"
proof (cases "c = USDC")
  case True
  from assms True obtain a b where ab: "create_stream env st q = Some a" "fund_usdc env st q = Some b" "ts = [a, b]"
    by (auto simp: useStreamPaymentTransactions_def truthy_def split: option.splits)
  then show ?thesis
    using assms(3) True
    by (auto simp: create_stream_def fund_usdc_def formatTokenAmount_def getTokenAddressForCurrency_def token_def or_zero_def
        Let_def split: option.splits)
next
  case False
  with assms(4) have c: "c = WETH" by simp
  from assms c obtain a b e where ab: "create_stream env st q = Some a" "wrap_ether env st = Some b"
      "fund_weth env st q = Some e" "ts = [a, b, e]"
    by (auto simp: useStreamPaymentTransactions_def truthy_def split: option.splits)
  then obtain amt where amt: "ms_amount st = Some amt" "amt \<noteq> []" using assms(5) by (auto simp: truthy_def split: option.splits)
  with ab show ?thesis
    using assms(3) c
    by (auto simp: create_stream_def fund_weth_def wrap_ether_def ether_value_def formatTokenAmount_def
        getTokenAddressForCurrency_def token_def or_zero_def truthy_def Let_def split: option.splits)
qed

theorem stream_is_funded_witness:
  "\<exists>ts. useStreamPaymentTransactions demo_action_env (demo_stream WETH) (Some ''0xq'') = Some ts \<and> length ts = 3 \<and>
     pt_address (ts ! 1) = ''0xw''"
proof -
  have "list_all is_decimal ''5''" by (simp add: is_decimal_def digit_val_def)
  then obtain ts where ts: "useStreamPaymentTransactions demo_action_env (demo_stream WETH) (Some ''0xq'') = Some ts"
    by (simp add: useStreamPaymentTransactions_def create_stream_def fund_weth_def wrap_ether_def ether_value_def
        demo_action_env_def demo_stream_def Let_def truthy_def formatTokenAmount_def or_zero_def)
  have "ms_TransferFundsCurrency (demo_stream WETH) = Some WETH" "truthy (ms_amount (demo_stream WETH))"
    by (simp_all add: demo_stream_def truthy_def)
  from stream_is_funded [OF ts _ this(1) _ this(2)]
  have "length ts = 3 \<and> pt_address (ts ! 1) = or_empty (getTokenAddressForCurrency (ae_addresses demo_action_env) (Some WETH))"
    by (elim exE conjE impE | simp)+
  then show ?thesis using ts
    by (simp add: demo_action_env_def getTokenAddressForCurrency_def or_empty_def)
qed

lemma split_join:
  "xs \<noteq> [] \<Longrightarrow> \<forall>x\<in>set xs. c \<notin> set x \<Longrightarrow> js_split [c] (js_join [c] xs) = xs"
proof (induction xs)
  case (Cons x xs)
  show ?case
  proof (cases "xs = []")
    case True
    then show ?thesis using Cons.prems js_split_absent_prefix [of c x "[]"] by (simp add: js_split_def)
  next
    case False
    then show ?thesis using Cons js_split_first [of c x "js_join [c] xs"] by (simp add: js_join_Cons)
  qed
qed simp

lemma comma_not_in_int: "CHR '','' \<notin> set (int_to_string i)"
proof -
  have "\<not> is_decimal (CHR '','')" by code_simp
  then show ?thesis using to_base_all_decimal by (auto simp: int_to_string_def)
qed

text \<open>The details of a stream are read back from the decoded arguments of its creation.\<close>

lemma stream_read_back:
  assumes "CHR '','' \<notin> set recipient" "CHR '','' \<notin> set token" "CHR '','' \<notin> set nonce" "CHR '','' \<notin> set stream"
  shows "parseStreamCreationCallData (js_join '','' [recipient, int_to_string amount, token, int_to_string start,
      int_to_string stop, nonce, stream]) =
    \<lparr>si_recipient = recipient, si_streamAddress = Some stream, si_startTime = Some start, si_endTime = Some stop,
     si_streamAmount = Some amount, si_tokenAddress = token, si_nonce = Some nonce\<rparr>"
proof -
  have "CHR '','' \<notin> set (int_to_string i)" for i by (rule comma_not_in_int)
  then have "js_split '','' (js_join '','' [recipient, int_to_string amount, token, int_to_string start,
      int_to_string stop, nonce, stream]) = [recipient, int_to_string amount, token, int_to_string start,
      int_to_string stop, nonce, stream]"
    using assms by (intro split_join) auto
  then show ?thesis by (simp add: parseStreamCreationCallData_def js_nth_def Let_def numeral_eq_Suc)
qed

end
