(* ===== verification/Webapp_Wizard.thy ===== *)
theory Webapp_Wizard
  imports Webapp_Draft
begin

text \<open>
  The dialog that adds an action to a draft (\<open>packages/nouns-webapp/src/components/ProposalActionsModal\<close>):
  its steps, the state of every step, the effects that run after a rendering, and the buttons.

  A step that is left loses its own state; what it passed on is in the shared state of the dialog. An
  event that the step on screen does not offer changes nothing. \<open>None\<close> is an exception while rendering,
  which takes the page down; an exception in a button leaves everything as it was. The check of
  addresses, the parser of JSON texts, the library's interfaces of contracts and the answers of
  Etherscan are parameters. Interfaces are objects, compared by identity: each has a number.
\<close>

section \<open>State\<close>

datatype ProposalActionCreationStep =
    SELECT_ACTION_TYPE
  | LUMP_SUM_DETAILS
  | LUMP_SUM_REVIEW
  | FUNCTION_CALL_SELECT_FUNCTION
  | FUNCTION_CALL_ADD_ARGUMENTS
  | FUNCTION_CALL_REVIEW
  | STREAM_PAYMENT_PAYMENT_DETAILS
  | STREAM_PAYMENT_DATE_DETAILS
  | STREAM_PAYMENT_REVIEW

datatype ProposalActionType = LUMP_SUM | STREAM | FUNCTION_CALL

definition type_text :: "ProposalActionType \<Rightarrow> string" where
  "type_text t = (case t of LUMP_SUM \<Rightarrow> ''Transfer Funds'' | STREAM \<Rightarrow> ''Stream Funds'' | FUNCTION_CALL \<Rightarrow> ''Function Call'')"

text \<open>The functions of an interface, in the order of its keys, with the types of their inputs.\<close>

record contract_abi =
  abi_object :: nat
  abi_functions :: "(string \<times> string list) list"

record wizard_state = ProposalActionModalState +
  ws_actionType :: ProposalActionType
  ws_abi :: "contract_abi option"

record contract_info =
  ci_Proxy :: string
  ci_Implementation :: string
  ci_ABI :: string

record wizard_env =
  we_action :: action_env
  we_isAddress :: "string \<Rightarrow> bool"
  we_parse :: "string \<Rightarrow> json option"
  we_interface :: "string \<Rightarrow> (string \<times> string list) list option"
  we_etherscan :: "string \<Rightarrow> contract_info option option"
  we_predicted :: "wizard_state \<Rightarrow> string option"

record transfer_step =
  td_currency :: SupportedCurrency
  td_amount :: string
  td_formattedAmount :: string
  td_address :: string
  td_valid :: bool

record function_step =
  fs_address :: string
  fs_abi :: "contract_abi option"
  fs_value :: string
  fs_func :: "string option"
  fs_uploadValid :: "bool option"
  fs_fileName :: "string option"
  fs_valid :: bool
  fs_requests :: "string list"
  fs_timers :: nat

record args_step =
  ea_args :: "string option list"
  ea_valid :: bool
  ea_invalid :: bool

record date_step =
  sd_startTimestamp :: "int option"
  sd_endTimestamp :: "int option"

datatype step_local =
    Selecting ProposalActionCreationStep
  | Transferring transfer_step
  | Choosing function_step
  | Entering args_step
  | Paying transfer_step
  | Dating date_step
  | Reviewing

record wizard =
  wz_step :: ProposalActionCreationStep
  wz_state :: wizard_state
  wz_local :: step_local
  wz_objects :: nat

section \<open>Choosing the type of action\<close>

definition proposalActionTypeToProposalActionCreationStep :: "string \<Rightarrow> ProposalActionCreationStep" where
  "proposalActionTypeToProposalActionCreationStep actionTypeString =
     (if actionTypeString = type_text LUMP_SUM then LUMP_SUM_DETAILS
      else if actionTypeString = type_text STREAM then STREAM_PAYMENT_PAYMENT_DETAILS
      else FUNCTION_CALL_SELECT_FUNCTION)"

definition type_of_text :: "string \<Rightarrow> ProposalActionType" where
  "type_of_text s = (case find (\<lambda>t. type_text t = s) [LUMP_SUM, STREAM, FUNCTION_CALL] of
     Some t \<Rightarrow> t | None \<Rightarrow> LUMP_SUM)"

text \<open>The entries of the lists that are not disabled.\<close>

definition type_options :: "string list" where
  "type_options = [''Transfer Funds'', ''Function Call'']"

definition transfer_currencies :: "SupportedCurrency list" where
  "transfer_currencies = [ETH]"

definition stream_currencies :: "SupportedCurrency list" where
  "stream_currencies = [USDC, WETH]"

section \<open>Amount and recipient\<close>

text \<open>The effect of the two payment steps. The flag is never taken back.\<close>

definition validate_payment :: "wizard_env \<Rightarrow> transfer_step \<Rightarrow> transfer_step" where
  "validate_payment env l =
     (if we_isAddress env (td_address l) \<and> (case parseFloat (td_amount l) of None \<Rightarrow> False | Some x \<Rightarrow> 0 < x) \<and> \<not> td_valid l
      then l\<lparr>td_valid := True\<rparr> else l)"

definition mount_transfer :: "wizard_env \<Rightarrow> wizard_state \<Rightarrow> transfer_step" where
  "mount_transfer env state = validate_payment env
     \<lparr>td_currency = (case ms_TransferFundsCurrency state of None \<Rightarrow> ETH | Some c \<Rightarrow> c), td_amount = or_empty (ms_amount state),
      td_formattedAmount = or_empty (ms_amount state), td_address = ms_address state, td_valid = False\<rparr>"

definition mount_payment :: "wizard_env \<Rightarrow> wizard_state \<Rightarrow> transfer_step" where
  "mount_payment env state = validate_payment env
     \<lparr>td_currency = USDC, td_amount = or_empty (ms_amount state), td_formattedAmount = or_empty (ms_amount state),
      td_address = ms_address state, td_valid = False\<rparr>"

definition payment_state :: "transfer_step \<Rightarrow> wizard_state \<Rightarrow> wizard_state" where
  "payment_state l state =
     state\<lparr>ms_amount := Some (td_amount l), ms_address := td_address l, ms_TransferFundsCurrency := Some (td_currency l)\<rparr>"

text \<open>When the fields are shown as invalid. The amount is read a second time by the library's big numbers.\<close>

definition recipient_isInvalid :: "wizard_env \<Rightarrow> transfer_step \<Rightarrow> bool" where
  "recipient_isInvalid env l = (if td_address l = [] then False else \<not> we_isAddress env (td_address l))"

section \<open>Choosing a function\<close>

definition getABI :: "wizard_env \<Rightarrow> string \<Rightarrow> string option" where
  "getABI env address =
     (case we_etherscan env address of
        Some (Some info) \<Rightarrow>
          if ci_Proxy info = ''1'' \<and> we_isAddress env (ci_Implementation info)
          then (case we_etherscan env (ci_Implementation info) of Some (Some impl) \<Rightarrow> Some (ci_ABI impl) | _ \<Rightarrow> None)
          else Some (ci_ABI info)
      | _ \<Rightarrow> None)"

definition downloaded :: string where "downloaded = ''etherscan-abi-download.json''"

text \<open>
  The three effects: the first when the step appears or the flag changes, the second when the address,
  the flag of the upload or the flag changes, the third when the interface is another object. They
  read the state of the rendering they belong to.
\<close>

definition effect_state :: "wizard_env \<Rightarrow> wizard_state \<Rightarrow> function_step \<Rightarrow> function_step \<Rightarrow> function_step" where
  "effect_state env state cur l =
     (case ws_abi state of
        None \<Rightarrow> l
      | Some a \<Rightarrow>
          let l' = l\<lparr>fs_abi := Some a, fs_fileName := Some downloaded\<rparr>
          in if 0 < length (ms_address state) \<and> we_isAddress env (ms_address state) \<and> \<not> fs_valid cur
             then l'\<lparr>fs_valid := True\<rparr> else l')"

definition effect_upload :: "wizard_env \<Rightarrow> function_step \<Rightarrow> function_step \<Rightarrow> function_step" where
  "effect_upload env cur l =
     (if 0 < length (fs_address cur) \<and> we_isAddress env (fs_address cur) \<and> fs_uploadValid cur = Some True \<and> \<not> fs_valid cur
      then l\<lparr>fs_valid := True\<rparr> else l)"

definition first_function :: "contract_abi \<Rightarrow> string option" where
  "first_function abi = (case abi_functions abi of [] \<Rightarrow> None | (f, _) # _ \<Rightarrow> Some f)"

definition effect_abi :: "function_step \<Rightarrow> function_step \<Rightarrow> function_step" where
  "effect_abi cur l = (case fs_abi cur of None \<Rightarrow> l | Some a \<Rightarrow> l\<lparr>fs_func := first_function a\<rparr>)"

text \<open>One round of effects after the rendering of \<open>cur\<close>, which follows that of \<open>old\<close>.\<close>

definition round_of_effects :: "wizard_env \<Rightarrow> wizard_state \<Rightarrow> function_step option \<Rightarrow> function_step \<Rightarrow> function_step" where
  "round_of_effects env state old cur =
     (let changed = (\<lambda>f. case old of None \<Rightarrow> True | Some l \<Rightarrow> f l);
          a = (if changed (\<lambda>l. fs_valid l \<noteq> fs_valid cur) then effect_state env state cur cur else cur);
          b = (if changed (\<lambda>l. fs_address l \<noteq> fs_address cur \<or> fs_uploadValid l \<noteq> fs_uploadValid cur \<or> fs_valid l \<noteq> fs_valid cur)
               then effect_upload env cur a else a)
      in if changed (\<lambda>l. fs_abi l \<noteq> fs_abi cur) then effect_abi cur b else b)"

text \<open>Three rounds; after them no effect changes anything.\<close>

definition settle :: "wizard_env \<Rightarrow> wizard_state \<Rightarrow> function_step option \<Rightarrow> function_step \<Rightarrow> function_step" where
  "settle env state old cur =
     (let l1 = round_of_effects env state old cur; l2 = round_of_effects env state (Some cur) l1 in round_of_effects env state (Some l1) l2)"

definition mount_function :: "wizard_env \<Rightarrow> wizard_state \<Rightarrow> function_step" where
  "mount_function env state = settle env state None
     \<lparr>fs_address = ms_address state, fs_abi = None, fs_value = or_empty (ms_amount state),
      fs_func = Some (or_empty (ms_function state)), fs_uploadValid = None, fs_fileName = Some [], fs_valid = False,
      fs_requests = [], fs_timers = 0\<rparr>"

definition setABIInvalid :: "function_step \<Rightarrow> function_step" where
  "setABIInvalid l = l\<lparr>fs_uploadValid := Some False, fs_fileName := None, fs_timers := Suc (fs_timers l)\<rparr>"

text \<open>An interface was read from a text: it is a new object.\<close>

definition setABI :: "nat \<Rightarrow> (string \<times> string list) list \<Rightarrow> string \<Rightarrow> function_step \<Rightarrow> function_step" where
  "setABI n fns name l = l\<lparr>fs_abi := Some \<lparr>abi_object = n, abi_functions = fns\<rparr>, fs_uploadValid := Some True,
     fs_fileName := Some name\<rparr>"

definition validateAndSetABI :: "wizard_env \<Rightarrow> nat \<Rightarrow> string \<Rightarrow> string \<Rightarrow> function_step \<Rightarrow> function_step" where
  "validateAndSetABI env n name content l =
     (case we_interface env content of None \<Rightarrow> setABIInvalid l | Some fns \<Rightarrow> setABI n fns name l)"

text \<open>
  The second half of \<open>populateABIIfExists\<close>, when the answer for an address arrives; answers arrive in
  any order. The variable of the timer belongs to one rendering, so no timer is ever cleared.
\<close>

definition populateABIIfExists :: "wizard_env \<Rightarrow> nat \<Rightarrow> string \<Rightarrow> function_step \<Rightarrow> function_step" where
  "populateABIIfExists env n address l =
     (case Option.bind (getABI env address) (we_interface env) of
        None \<Rightarrow> l\<lparr>fs_uploadValid := None, fs_fileName := None\<rparr>
      | Some fns \<Rightarrow> setABI n fns downloaded l)"

definition type_address :: "wizard_env \<Rightarrow> string \<Rightarrow> function_step \<Rightarrow> function_step" where
  "type_address env s l =
     l\<lparr>fs_address := s, fs_requests := (if we_isAddress env s then fs_requests l @ [s] else fs_requests l)\<rparr>"

definition function_state :: "function_step \<Rightarrow> wizard_state \<Rightarrow> wizard_state" where
  "function_state l state = state\<lparr>ws_abi := fs_abi l, ms_hasAbi := (fs_abi l \<noteq> None), ms_amount := Some (fs_value l),
     ms_address := fs_address l, ms_function := fs_func l\<rparr>"

section \<open>Entering arguments\<close>

definition function_inputs :: "contract_abi option \<Rightarrow> string \<Rightarrow> string list option" where
  "function_inputs abi func = Option.bind abi (\<lambda>a. map_of (abi_functions a) func)"

definition parse_argument :: "wizard_env \<Rightarrow> string list option \<Rightarrow> nat \<Rightarrow> string option \<Rightarrow> json option" where
  "parse_argument env inputs i arg =
     (case arg of
        None \<Rightarrow> Some JNull
      | Some a \<Rightarrow>
          (case inputs of
             None \<Rightarrow> Some (JText a)
           | Some types \<Rightarrow>
               if i < length types
               then if types ! i = ''tuple'' \<or> suffix ''[]'' (types ! i) then we_parse env a else Some (JText a)
               else None))"

text \<open>\<open>None\<close> is an exception, of \<open>JSON.parse\<close> or for an argument that the function does not have.\<close>

definition parseArguments :: "wizard_env \<Rightarrow> contract_abi option \<Rightarrow> string \<Rightarrow> string option list \<Rightarrow> json list option" where
  "parseArguments env abi func args =
     those (map (\<lambda>i. parse_argument env (function_inputs abi func) i (args ! i)) [0..<length args])"

text \<open>The review puts every argument on the screen; React throws for an object.\<close>

fun renderable :: "json \<Rightarrow> bool" where
  "renderable (JArray js) = list_all renderable js"
| "renderable (JObject ps) = False"
| "renderable _ = True"

datatype validity = Fine | NotFine | Thrown

definition argumentsValidator :: "wizard_env \<Rightarrow> contract_abi option \<Rightarrow> string \<Rightarrow> string option list \<Rightarrow> validity" where
  "argumentsValidator env abi func a =
     (if func = [] then Fine
      else if abi = None then NotFine
      else case (parseArguments env abi func a, function_inputs abi func) of
             (Some vals, Some _) \<Rightarrow> (if ae_encode (we_action env) func vals \<noteq> None then Fine else Thrown)
           | _ \<Rightarrow> Thrown)"

text \<open>
  The effects after a change of the arguments. The message appears when the validator catches an
  exception; the next round takes it away, since the other effect also runs when the message changes.
\<close>

definition validate_arguments :: "wizard_env \<Rightarrow> wizard_state \<Rightarrow> args_step \<Rightarrow> args_step" where
  "validate_arguments env state l =
     (let v = argumentsValidator env (ws_abi state) (or_empty (ms_function state)) (ea_args l);
          cleared = (if ea_invalid l then l\<lparr>ea_invalid := False\<rparr> else l)
      in if v = Thrown then cleared\<lparr>ea_invalid := True\<rparr>
         else if v = Fine \<and> \<not> ea_valid l then cleared\<lparr>ea_valid := True\<rparr> else cleared)"

definition clear_message :: "args_step \<Rightarrow> args_step" where
  "clear_message l = (if ea_invalid l then l\<lparr>ea_invalid := False\<rparr> else l)"

definition settle_arguments :: "wizard_env \<Rightarrow> wizard_state \<Rightarrow> args_step \<Rightarrow> args_step" where
  "settle_arguments env state l =
     (let l1 = validate_arguments env state l;
          l2 = (if ea_valid l1 \<noteq> ea_valid l then validate_arguments env state l1 else l1)
      in clear_message l2)"

definition mount_arguments :: "wizard_env \<Rightarrow> wizard_state \<Rightarrow> args_step" where
  "mount_arguments env state = settle_arguments env state \<lparr>ea_args = [], ea_valid = False, ea_invalid = False\<rparr>"

text \<open>Assignment to an index of an array; past the end it leaves holes.\<close>

definition setArgument :: "nat \<Rightarrow> string \<Rightarrow> string option list \<Rightarrow> string option list" where
  "setArgument index value args = (args @ replicate (Suc index - length args) None)[index := Some value]"

definition arguments_isNextBtnDisabled :: "wizard_state \<Rightarrow> args_step \<Rightarrow> bool" where
  "arguments_isNextBtnDisabled state l =
     (case function_inputs (ws_abi state) (or_empty (ms_function state)) of
        None \<Rightarrow> False
      | Some types \<Rightarrow> if types = [] then False else \<not> ea_valid l)"

section \<open>Dates\<close>

text \<open>
  \<open>new Date(s).valueOf() / 1000\<close> for the texts that a date field delivers: empty or year, month and day.
\<close>

definition leap_year :: "int \<Rightarrow> bool" where
  "leap_year y \<longleftrightarrow> y mod 4 = 0 \<and> (y mod 100 \<noteq> 0 \<or> y mod 400 = 0)"

definition days_before_month :: "int \<Rightarrow> nat \<Rightarrow> int" where
  "days_before_month y m =
     sum_list (take (m - 1) [31, if leap_year y then 29 else 28, 31, 30, 31, 30, 31, 31, 30, 31, 30, 31])"

definition days_before_year :: "int \<Rightarrow> int" where
  "days_before_year y = 365 * (y - 1970) + ((y - 1) div 4 - 492) - ((y - 1) div 100 - 19) + ((y - 1) div 400 - 4)"

definition toUnixEpoch :: "string \<Rightarrow> int option" where
  "toUnixEpoch dateString =
     (case map parseInt (js_split ''-'' dateString) of
        [Some y, Some m, Some d] \<Rightarrow>
          if 1 \<le> m \<and> m \<le> 12 \<and> 1 \<le> d \<and> d \<le> 31
          then Some (86400 * (days_before_year y + days_before_month y (nat m) + d - 1)) else None
      | _ \<Rightarrow> None)"

definition positive_time :: "int option \<Rightarrow> bool" where
  "positive_time t = (case t of None \<Rightarrow> False | Some x \<Rightarrow> 0 < x)"

definition less_time :: "int option \<Rightarrow> int option \<Rightarrow> bool" where
  "less_time s t = (case (s, t) of (Some x, Some y) \<Rightarrow> x < y | _ \<Rightarrow> False)"

definition startDate_isInvalid :: "int \<Rightarrow> date_step \<Rightarrow> bool" where
  "startDate_isInvalid now l \<longleftrightarrow> positive_time (sd_startTimestamp l) \<and> less_time (sd_startTimestamp l) (Some now)"

definition endDate_isInvalid :: "date_step \<Rightarrow> bool" where
  "endDate_isInvalid l \<longleftrightarrow> positive_time (sd_endTimestamp l) \<and> less_time (sd_endTimestamp l) (sd_startTimestamp l)"

definition dates_isNextBtnDisabled :: "date_step \<Rightarrow> bool" where
  "dates_isNextBtnDisabled l \<longleftrightarrow>
     positive_time (sd_startTimestamp l) \<and> positive_time (sd_endTimestamp l) \<and> less_time (sd_endTimestamp l) (sd_startTimestamp l)"

definition date_state :: "date_step \<Rightarrow> wizard_state \<Rightarrow> wizard_state" where
  "date_state l state = state\<lparr>ms_streamStartTimestamp := sd_startTimestamp l, ms_streamEndTimestamp := sd_endTimestamp l\<rparr>"

section \<open>The dialog\<close>

definition mount_step :: "wizard_env \<Rightarrow> ProposalActionCreationStep \<Rightarrow> wizard_state \<Rightarrow> step_local" where
  "mount_step env step state = (case step of
     SELECT_ACTION_TYPE \<Rightarrow> Selecting (proposalActionTypeToProposalActionCreationStep (type_text (ws_actionType state)))
   | LUMP_SUM_DETAILS \<Rightarrow> Transferring (mount_transfer env state)
   | FUNCTION_CALL_SELECT_FUNCTION \<Rightarrow> Choosing (mount_function env state)
   | FUNCTION_CALL_ADD_ARGUMENTS \<Rightarrow> Entering (mount_arguments env state)
   | STREAM_PAYMENT_PAYMENT_DETAILS \<Rightarrow> Paying (mount_payment env state)
   | STREAM_PAYMENT_DATE_DETAILS \<Rightarrow> Dating \<lparr>sd_startTimestamp = None, sd_endTimestamp = None\<rparr>
   | _ \<Rightarrow> Reviewing)"

definition setStep :: "wizard_env \<Rightarrow> ProposalActionCreationStep \<Rightarrow> wizard_state \<Rightarrow> wizard \<Rightarrow> wizard" where
  "setStep env step state w = w\<lparr>wz_step := step, wz_state := state, wz_local := mount_step env step state\<rparr>"

definition initial_state :: wizard_state where
  "initial_state = \<lparr>ms_address = [], ms_amount = None, ms_TransferFundsCurrency = None, ms_streamStartTimestamp = None,
     ms_streamEndTimestamp = None, ms_function = None, ms_hasAbi = False, ms_args = None, ws_actionType = LUMP_SUM, ws_abi = None\<rparr>"

definition open_wizard :: "wizard_env \<Rightarrow> wizard" where
  "open_wizard env = \<lparr>wz_step = SELECT_ACTION_TYPE, wz_state = initial_state,
     wz_local = mount_step env SELECT_ACTION_TYPE initial_state, wz_objects = 0\<rparr>"

text \<open>The step that the back button leads to; none closes the dialog.\<close>

definition previous_step :: "ProposalActionCreationStep \<Rightarrow> ProposalActionCreationStep option" where
  "previous_step step = (case step of
     SELECT_ACTION_TYPE \<Rightarrow> None
   | LUMP_SUM_DETAILS \<Rightarrow> Some SELECT_ACTION_TYPE
   | LUMP_SUM_REVIEW \<Rightarrow> Some LUMP_SUM_DETAILS
   | FUNCTION_CALL_SELECT_FUNCTION \<Rightarrow> Some SELECT_ACTION_TYPE
   | FUNCTION_CALL_ADD_ARGUMENTS \<Rightarrow> Some FUNCTION_CALL_SELECT_FUNCTION
   | FUNCTION_CALL_REVIEW \<Rightarrow> Some FUNCTION_CALL_ADD_ARGUMENTS
   | STREAM_PAYMENT_PAYMENT_DETAILS \<Rightarrow> Some SELECT_ACTION_TYPE
   | STREAM_PAYMENT_DATE_DETAILS \<Rightarrow> Some STREAM_PAYMENT_PAYMENT_DETAILS
   | STREAM_PAYMENT_REVIEW \<Rightarrow> Some STREAM_PAYMENT_DATE_DETAILS)"

text \<open>What the fields of the step on screen do.\<close>

datatype field_event =
    ChooseType string
  | ChooseCurrency SupportedCurrency
  | TypeAmount string string
  | TypeAddress string
  | TypeValue string
  | ChooseFunction string
  | AbiAnswer string
  | UploadABI string string
  | AbiTimeout
  | TypeArgument nat string
  | PickStart string
  | PickEnd string

definition choose_type :: "string \<Rightarrow> wizard \<Rightarrow> wizard" where
  "choose_type s w = w\<lparr>wz_state := (wz_state w)\<lparr>ws_actionType := type_of_text s\<rparr>,
     wz_local := Selecting (proposalActionTypeToProposalActionCreationStep s)\<rparr>"

fun payment_field :: "wizard_env \<Rightarrow> SupportedCurrency list \<Rightarrow> field_event \<Rightarrow> transfer_step \<Rightarrow> transfer_step" where
  "payment_field env currencies (ChooseCurrency c) l = (if c \<in> set currencies then l\<lparr>td_currency := c\<rparr> else l)"
| "payment_field env currencies (TypeAmount v formatted) l =
     validate_payment env (l\<lparr>td_amount := v, td_formattedAmount := formatted\<rparr>)"
| "payment_field env currencies (TypeAddress s) l = validate_payment env (l\<lparr>td_address := s\<rparr>)"
| "payment_field env currencies _ l = l"

fun function_field :: "wizard_env \<Rightarrow> wizard_state \<Rightarrow> nat \<Rightarrow> field_event \<Rightarrow> function_step \<Rightarrow> function_step" where
  "function_field env state n (TypeAddress s) l = settle env state (Some l) (type_address env s l)"
| "function_field env state n (TypeValue v) l = l\<lparr>fs_value := v\<rparr>"
| "function_field env state n (ChooseFunction f) l =
     (if \<exists>a. fs_abi l = Some a \<and> f \<in> fst ` set (abi_functions a) then l\<lparr>fs_func := Some f\<rparr> else l)"
| "function_field env state n (AbiAnswer a) l =
     (if a \<in> set (fs_requests l)
      then settle env state (Some l) (populateABIIfExists env n a (l\<lparr>fs_requests := remove1 a (fs_requests l)\<rparr>))
      else l)"
| "function_field env state n (UploadABI name content) l = settle env state (Some l) (validateAndSetABI env n name content l)"
| "function_field env state n AbiTimeout l =
     (if 0 < fs_timers l then settle env state (Some l) (l\<lparr>fs_uploadValid := None, fs_timers := fs_timers l - 1\<rparr>) else l)"
| "function_field env state n _ l = l"

fun args_field :: "wizard_env \<Rightarrow> wizard_state \<Rightarrow> field_event \<Rightarrow> args_step \<Rightarrow> args_step" where
  "args_field env state (TypeArgument i v) l =
     (case function_inputs (ws_abi state) (or_empty (ms_function state)) of
        None \<Rightarrow> l
      | Some types \<Rightarrow>
          if i < length types then settle_arguments env state (l\<lparr>ea_args := setArgument i v (ea_args l)\<rparr>) else l)"
| "args_field env state _ l = l"

fun date_field :: "field_event \<Rightarrow> date_step \<Rightarrow> date_step" where
  "date_field (PickStart s) l = l\<lparr>sd_startTimestamp := toUnixEpoch s\<rparr>"
| "date_field (PickEnd s) l = l\<lparr>sd_endTimestamp := toUnixEpoch s\<rparr>"
| "date_field _ l = l"

definition use_field :: "wizard_env \<Rightarrow> field_event \<Rightarrow> wizard \<Rightarrow> wizard" where
  "use_field env e w =
     (let w' = w\<lparr>wz_objects := Suc (wz_objects w)\<rparr>
      in case wz_local w of
           Selecting _ \<Rightarrow> (case e of ChooseType s \<Rightarrow> if s \<in> set type_options then choose_type s w else w | _ \<Rightarrow> w)
         | Transferring l \<Rightarrow> w\<lparr>wz_local := Transferring (payment_field env transfer_currencies e l)\<rparr>
         | Choosing l \<Rightarrow> w'\<lparr>wz_local := Choosing (function_field env (wz_state w) (wz_objects w) e l)\<rparr>
         | Entering l \<Rightarrow> w\<lparr>wz_local := Entering (args_field env (wz_state w) e l)\<rparr>
         | Paying l \<Rightarrow> w\<lparr>wz_local := Paying (payment_field env stream_currencies e l)\<rparr>
         | Dating l \<Rightarrow> w\<lparr>wz_local := Dating (date_field e l)\<rparr>
         | Reviewing \<Rightarrow> w)"

text \<open>
  The page with its dialog. The reviews hand their transactions to the draft and close the dialog,
  unless building or adding them throws.
\<close>

record draft_page =
  dp_draft :: draft
  dp_dialog :: "wizard option"

datatype dialog_input = AddActionButton | CloseButton | NextButton | PrevButton | Field field_event | RemoveButton nat

definition close_dialog :: "draft_page \<Rightarrow> draft_page" where
  "close_dialog p = p\<lparr>dp_draft := (dp_draft p)\<lparr>df_showModal := False\<rparr>, dp_dialog := None\<rparr>"

definition onActionAdd :: "ProposalTransaction list option \<Rightarrow> draft_page \<Rightarrow> draft_page" where
  "onActionAdd built p =
     (case built of
        None \<Rightarrow> p
      | Some [] \<Rightarrow> close_dialog p
      | Some ts \<Rightarrow>
          let d = handleAddProposalAction ts (dp_draft p)
          in if snd (prepare (df_total (dp_draft p)) (df_total (dp_draft p)) ts) = None then p\<lparr>dp_draft := d\<rparr>
             else close_dialog (p\<lparr>dp_draft := d\<rparr>))"

definition modal_state :: "wizard_state \<Rightarrow> ProposalActionModalState" where
  "modal_state state = ProposalActionModalState.truncate state"

text \<open>
  The hooks of the review of a stream run while rendering. An empty list of transactions is added like
  any other.
\<close>

definition stream_renders :: "wizard_env \<Rightarrow> wizard_state \<Rightarrow> bool" where
  "stream_renders env state \<longleftrightarrow>
     formatTokenAmount (ae_parseEther (we_action env)) (ms_amount state) (ms_TransferFundsCurrency state) \<noteq> None \<and>
     useStreamPaymentTransactions (we_action env) (modal_state state) (we_predicted env state) \<noteq> None"

definition next_button :: "wizard_env \<Rightarrow> wizard \<Rightarrow> draft_page \<Rightarrow> draft_page option" where
  "next_button env w p =
     (let state = wz_state w; go = (\<lambda>step st. Some (p\<lparr>dp_dialog := Some (setStep env step st w)\<rparr>))
      in case wz_local w of
           Selecting nextStep \<Rightarrow> go nextStep state
         | Transferring l \<Rightarrow> if td_valid l then go LUMP_SUM_REVIEW (payment_state l state) else Some p
         | Choosing l \<Rightarrow> if fs_valid l then go FUNCTION_CALL_ADD_ARGUMENTS (function_state l state) else Some p
         | Entering l \<Rightarrow>
             if arguments_isNextBtnDisabled state l then Some p
             else (case parseArguments env (ws_abi state) (or_empty (ms_function state)) (ea_args l) of
                     None \<Rightarrow> None
                   | Some vals \<Rightarrow>
                       if list_all renderable vals then go FUNCTION_CALL_REVIEW (state\<lparr>ms_args := Some vals\<rparr>) else None)
         | Paying l \<Rightarrow> if td_valid l then go STREAM_PAYMENT_DATE_DETAILS (payment_state l state) else Some p
         | Dating l \<Rightarrow>
             if dates_isNextBtnDisabled l then Some p
             else if stream_renders env (date_state l state) then go STREAM_PAYMENT_REVIEW (date_state l state) else None
         | Reviewing \<Rightarrow>
             if wz_step w = LUMP_SUM_REVIEW then Some (onActionAdd (transfer_handleActionAdd (we_action env) (modal_state state)) p)
             else if wz_step w = FUNCTION_CALL_REVIEW
             then Some (onActionAdd (call_handleActionAdd (we_action env) (modal_state state)) p)
             else map_option (\<lambda>ts. close_dialog (p\<lparr>dp_draft := handleAddProposalAction ts (dp_draft p)\<rparr>))
               (useStreamPaymentTransactions (we_action env) (modal_state state) (we_predicted env state)))"

definition prev_button :: "wizard_env \<Rightarrow> wizard \<Rightarrow> draft_page \<Rightarrow> draft_page" where
  "prev_button env w p = (case previous_step (wz_step w) of
     None \<Rightarrow> close_dialog p
   | Some step \<Rightarrow> p\<lparr>dp_dialog := Some (setStep env step (wz_state w) w)\<rparr>)"

fun handle_page :: "wizard_env \<Rightarrow> dialog_input \<Rightarrow> draft_page \<Rightarrow> draft_page option" where
  "handle_page env AddActionButton p = Some (p\<lparr>dp_draft := (dp_draft p)\<lparr>df_showModal := True\<rparr>,
     dp_dialog := Some (case dp_dialog p of None \<Rightarrow> open_wizard env | Some w \<Rightarrow> w)\<rparr>)"
| "handle_page env CloseButton p = Some (close_dialog p)"
| "handle_page env NextButton p = (case dp_dialog p of None \<Rightarrow> Some p | Some w \<Rightarrow> next_button env w p)"
| "handle_page env PrevButton p = Some (case dp_dialog p of None \<Rightarrow> p | Some w \<Rightarrow> prev_button env w p)"
| "handle_page env (Field e) p =
     Some (case dp_dialog p of None \<Rightarrow> p | Some w \<Rightarrow> p\<lparr>dp_dialog := Some (use_field env e w)\<rparr>)"
| "handle_page env (RemoveButton i) p = Some (p\<lparr>dp_draft := handleRemoveProposalAction i (dp_draft p)\<rparr>)"

definition new_page :: draft_page where
  "new_page = \<lparr>dp_draft = new_draft, dp_dialog = None\<rparr>"

end
