(* ===== verification/Webapp_Wizard_Props.thy ===== *)
theory Webapp_Wizard_Props
  imports Webapp_Wizard
begin

text \<open>
  What the dialog of actions can add to a draft, what it always lets the user add, and where its
  buttons stay enabled although the fields have become invalid.
\<close>

section \<open>Effects settle\<close>

lemma round_keeps [simp]:
  "fs_address (round_of_effects env state old cur) = fs_address cur"
  "fs_uploadValid (round_of_effects env state old cur) = fs_uploadValid cur"
  "fs_value (round_of_effects env state old cur) = fs_value cur"
  "fs_requests (round_of_effects env state old cur) = fs_requests cur"
  "fs_timers (round_of_effects env state old cur) = fs_timers cur"
  by (simp_all add: round_of_effects_def effect_state_def effect_upload_def effect_abi_def Let_def
      split: option.splits)

lemma round_valid: "fs_valid cur \<Longrightarrow> fs_valid (round_of_effects env state old cur)"
  by (simp add: round_of_effects_def effect_state_def effect_upload_def effect_abi_def Let_def split: option.splits)

lemma quiet_round:
  assumes "fs_valid l = fs_valid cur" "fs_address l = fs_address cur" "fs_uploadValid l = fs_uploadValid cur"
  shows "round_of_effects env state (Some l) cur = (if fs_abi l \<noteq> fs_abi cur then effect_abi cur cur else cur)"
  using assms by (simp add: round_of_effects_def Let_def)

lemma second_round_valid:
  "fs_valid (round_of_effects env state (Some cur) (round_of_effects env state old cur)) =
   fs_valid (round_of_effects env state old cur)"
proof (cases "fs_valid (round_of_effects env state old cur)")
  case True
  then show ?thesis by (simp add: round_valid)
next
  case False
  then have "\<not> fs_valid cur" using round_valid by blast
  with False show ?thesis by (simp add: quiet_round effect_abi_def split: option.splits)
qed

theorem effects_settle:
  "let l1 = round_of_effects env state old cur; l2 = round_of_effects env state (Some cur) l1
   in round_of_effects env state (Some l2) (settle env state old cur) = settle env state old cur"
proof -
  define l1 where "l1 = round_of_effects env state old cur"
  define l2 where "l2 = round_of_effects env state (Some cur) l1"
  have v: "fs_valid l2 = fs_valid l1" "fs_address l2 = fs_address l1" "fs_uploadValid l2 = fs_uploadValid l1"
    by (simp_all add: l1_def l2_def second_round_valid)
  have s: "settle env state old cur = (if fs_abi l1 \<noteq> fs_abi l2 then effect_abi l2 l2 else l2)"
    using quiet_round [of l1 l2] v by (simp add: settle_def Let_def flip: l1_def l2_def)
  have "fs_valid (settle env state old cur) = fs_valid l2" "fs_abi (settle env state old cur) = fs_abi l2"
      "fs_address (settle env state old cur) = fs_address l2"
      "fs_uploadValid (settle env state old cur) = fs_uploadValid l2"
    by (simp_all add: s effect_abi_def split: option.splits)
  then show ?thesis by (simp add: quiet_round Let_def flip: l1_def l2_def)
qed

lemma settle_keeps [simp]:
  "fs_address (settle env state old cur) = fs_address cur"
  "fs_uploadValid (settle env state old cur) = fs_uploadValid cur"
  "fs_value (settle env state old cur) = fs_value cur"
  "fs_requests (settle env state old cur) = fs_requests cur"
  by (simp_all add: settle_def Let_def)

lemma settled_message [simp]: "\<not> ea_invalid (settle_arguments env state l)"
  by (simp add: settle_arguments_def clear_message_def Let_def)

lemma settled_args [simp]: "ea_args (settle_arguments env state l) = ea_args l"
  by (simp add: settle_arguments_def clear_message_def validate_arguments_def Let_def)

section \<open>What the dialog adds\<close>

text \<open>A plain transfer of ether, or a call whose data encode arguments that were read as the interface says.\<close>

definition ether_or_call :: "wizard_env \<Rightarrow> ProposalTransaction \<Rightarrow> bool" where
  "ether_or_call env t \<longleftrightarrow> pt_usdcValue t = None \<and>
     ((pt_signature t = Some [] \<and> pt_calldata t = Some ''0x'' \<and> pt_decodedCalldata t = None) \<or>
      (\<exists>abi args vals c. pt_decodedCalldata t = Some (json_list vals) \<and>
         parseArguments env (Some abi) (or_empty (pt_signature t)) args = Some vals \<and>
         ae_encode (we_action env) (or_empty (pt_signature t)) vals = Some c \<and> pt_calldata t = Some (with_0x c)))"

definition state_ok :: "wizard_state \<Rightarrow> bool" where
  "state_ok state \<longleftrightarrow> ms_TransferFundsCurrency state \<in> {None, Some ETH} \<and> ws_actionType state \<noteq> STREAM \<and>
     ms_hasAbi state = (ws_abi state \<noteq> None)"

definition has_abi_when_valid :: "function_step \<Rightarrow> bool" where
  "has_abi_when_valid l \<longleftrightarrow> (fs_uploadValid l = Some True \<or> fs_valid l \<longrightarrow> fs_abi l \<noteq> None)"

definition local_ok :: "wizard_env \<Rightarrow> wizard_state \<Rightarrow> ProposalActionCreationStep \<Rightarrow> step_local \<Rightarrow> bool" where
  "local_ok env state step local = (case step of
     SELECT_ACTION_TYPE \<Rightarrow> local \<in> {Selecting LUMP_SUM_DETAILS, Selecting FUNCTION_CALL_SELECT_FUNCTION}
   | LUMP_SUM_DETAILS \<Rightarrow> (\<exists>l. local = Transferring l \<and> td_currency l = ETH)
   | LUMP_SUM_REVIEW \<Rightarrow> local = Reviewing \<and> ms_TransferFundsCurrency state = Some ETH
   | FUNCTION_CALL_SELECT_FUNCTION \<Rightarrow> (\<exists>l. local = Choosing l \<and> has_abi_when_valid l)
   | FUNCTION_CALL_ADD_ARGUMENTS \<Rightarrow> ws_abi state \<noteq> None \<and> (\<exists>l. local = Entering l \<and> \<not> ea_invalid l)
   | FUNCTION_CALL_REVIEW \<Rightarrow> local = Reviewing \<and> (\<exists>abi args vals. ws_abi state = Some abi \<and> ms_args state = Some vals \<and>
       parseArguments env (Some abi) (or_empty (ms_function state)) args = Some vals)
   | _ \<Rightarrow> False)"

definition wizard_ok :: "wizard_env \<Rightarrow> wizard \<Rightarrow> bool" where
  "wizard_ok env w \<longleftrightarrow> state_ok (wz_state w) \<and> local_ok env (wz_state w) (wz_step w) (wz_local w)"

definition page_ok :: "wizard_env \<Rightarrow> draft_page \<Rightarrow> bool" where
  "page_ok env p \<longleftrightarrow> (\<forall>t \<in> set (df_transactions (dp_draft p)). ether_or_call env t) \<and> df_total (dp_draft p) = Some 0 \<and>
     df_showModal (dp_draft p) = (dp_dialog p \<noteq> None) \<and> (\<forall>w. dp_dialog p = Some w \<longrightarrow> wizard_ok env w)"

lemma round_has_abi: "has_abi_when_valid cur \<Longrightarrow> has_abi_when_valid (round_of_effects env state old cur)"
  by (auto simp: has_abi_when_valid_def round_of_effects_def effect_state_def effect_upload_def effect_abi_def Let_def
      split: option.splits if_splits)

lemma settle_has_abi: "has_abi_when_valid cur \<Longrightarrow> has_abi_when_valid (settle env state old cur)"
  by (simp add: settle_def Let_def round_has_abi)

lemma validate_payment_keeps [simp]:
  "td_currency (validate_payment env l) = td_currency l" "td_amount (validate_payment env l) = td_amount l"
  "td_address (validate_payment env l) = td_address l"
  by (simp_all add: validate_payment_def)

lemma mount_ok:
  assumes "state_ok state" and "step \<in> {SELECT_ACTION_TYPE, LUMP_SUM_DETAILS, FUNCTION_CALL_SELECT_FUNCTION} \<or>
    step = FUNCTION_CALL_ADD_ARGUMENTS \<and> ws_abi state \<noteq> None"
  shows "local_ok env state step (mount_step env step state)"
proof -
  have "has_abi_when_valid (mount_function env state)"
    unfolding mount_function_def by (rule settle_has_abi) (simp add: has_abi_when_valid_def)
  moreover have "type_text (ws_actionType state) \<noteq> type_text STREAM"
    using assms(1) by (auto simp: state_ok_def type_text_def split: ProposalActionType.splits)
  ultimately show ?thesis using assms
    by (auto simp: local_ok_def mount_step_def mount_transfer_def mount_arguments_def state_ok_def
        proposalActionTypeToProposalActionCreationStep_def)
qed

lemma setStep_ok:
  assumes "state_ok state" "local_ok env state step (mount_step env step state)"
  shows "wizard_ok env (setStep env step state w)"
  using assms by (simp add: wizard_ok_def setStep_def)

lemma open_ok: "wizard_ok env (open_wizard env)"
proof -
  have "state_ok initial_state" by (simp add: state_ok_def initial_state_def)
  then show ?thesis by (simp add: wizard_ok_def open_wizard_def mount_ok)
qed

lemma payment_field_currency: "td_currency l = ETH \<Longrightarrow> td_currency (payment_field env transfer_currencies e l) = ETH"
  by (cases e) (simp_all add: transfer_currencies_def)

lemma updates_have_abi:
  assumes "has_abi_when_valid l"
  shows "has_abi_when_valid (type_address env s l)"
    and "has_abi_when_valid (populateABIIfExists env n a (l\<lparr>fs_requests := rs\<rparr>))"
    and "has_abi_when_valid (validateAndSetABI env n name content l)"
    and "has_abi_when_valid (l\<lparr>fs_uploadValid := None, fs_timers := k\<rparr>)"
    and "has_abi_when_valid (l\<lparr>fs_value := v\<rparr>)" and "has_abi_when_valid (l\<lparr>fs_func := f\<rparr>)"
  using assms by (auto simp: has_abi_when_valid_def type_address_def populateABIIfExists_def validateAndSetABI_def
      setABI_def setABIInvalid_def split: option.splits)

lemma function_field_has_abi: "has_abi_when_valid l \<Longrightarrow> has_abi_when_valid (function_field env state n e l)"
  by (cases e) (simp_all add: settle_has_abi updates_have_abi)

lemma args_field_message: "\<not> ea_invalid l \<Longrightarrow> \<not> ea_invalid (args_field env state e l)"
  by (cases e) (auto split: option.splits)

lemma choose_type_ok:
  assumes "state_ok (wz_state w)" "wz_step w = SELECT_ACTION_TYPE" "s \<in> set type_options"
  shows "wizard_ok env (choose_type s w)"
  using assms by (auto simp: wizard_ok_def choose_type_def type_options_def type_of_text_def type_text_def state_ok_def
      local_ok_def proposalActionTypeToProposalActionCreationStep_def)

lemma field_ok:
  assumes ok: "wizard_ok env w"
  shows "wizard_ok env (use_field env e w)"
proof (cases "wz_step w = SELECT_ACTION_TYPE")
  case True
  with ok obtain n where "wz_local w = Selecting n" "state_ok (wz_state w)"
    by (auto simp: wizard_ok_def local_ok_def)
  with True ok show ?thesis by (cases e) (simp_all add: use_field_def choose_type_ok)
next
  case False
  with ok show ?thesis
    by (cases "wz_step w") (auto simp: use_field_def wizard_ok_def local_ok_def payment_field_currency
        function_field_has_abi args_field_message Let_def)
qed

lemma next_step_ok:
  assumes "wizard_ok env w" "next_button env w p = Some p'" "wz_local w \<noteq> Reviewing"
  shows "p' = p \<or> (\<exists>w'. wizard_ok env w' \<and> p' = p\<lparr>dp_dialog := Some w'\<rparr>)"
proof -
  define state where "state = wz_state w"
  have ok: "state_ok state" using assms(1) by (simp add: wizard_ok_def state_def)
  show ?thesis
  proof (cases "wz_local w")
    case (Selecting n)
    then have "n \<in> {LUMP_SUM_DETAILS, FUNCTION_CALL_SELECT_FUNCTION}"
      using assms(1) by (auto simp: wizard_ok_def local_ok_def split: ProposalActionCreationStep.splits)
    then have "wizard_ok env (setStep env n state w)" using ok by (auto intro: setStep_ok mount_ok)
    then show ?thesis using assms(2) Selecting by (auto simp: next_button_def state_def)
  next
    case (Transferring l)
    then have "td_currency l = ETH"
      using assms(1) by (auto simp: wizard_ok_def local_ok_def split: ProposalActionCreationStep.splits)
    then have "wizard_ok env (setStep env LUMP_SUM_REVIEW (payment_state l state) w)" using ok
      by (auto intro!: setStep_ok simp: state_ok_def payment_state_def local_ok_def mount_step_def)
    then show ?thesis using assms(2) Transferring by (auto simp: next_button_def state_def split: if_splits)
  next
    case (Choosing l)
    then have l: "has_abi_when_valid l"
      using assms(1) by (auto simp: wizard_ok_def local_ok_def split: ProposalActionCreationStep.splits)
    have st: "state_ok (function_state l state)" using ok by (auto simp: state_ok_def function_state_def)
    have "ws_abi (function_state l state) \<noteq> None" if "fs_valid l"
      using l that by (auto simp: has_abi_when_valid_def function_state_def)
    then have "wizard_ok env (setStep env FUNCTION_CALL_ADD_ARGUMENTS (function_state l state) w)" if "fs_valid l"
      using st that by (auto intro!: setStep_ok mount_ok)
    then show ?thesis using assms(2) Choosing by (auto simp: next_button_def state_def split: if_splits)
  next
    case (Entering l)
    then obtain abi where abi: "ws_abi state = Some abi"
      using assms(1) by (auto simp: wizard_ok_def local_ok_def state_def split: ProposalActionCreationStep.splits)
    have "wizard_ok env (setStep env FUNCTION_CALL_REVIEW (state\<lparr>ms_args := Some vals\<rparr>) w)"
      if "parseArguments env (ws_abi state) (or_empty (ms_function state)) (ea_args l) = Some vals" for vals
      using ok that abi by (intro setStep_ok) (auto simp: state_ok_def local_ok_def mount_step_def)
    then show ?thesis using assms(2) Entering
      by (auto simp: next_button_def Let_def state_def split: if_splits option.splits)
  qed (use assms in \<open>auto simp: wizard_ok_def local_ok_def split: ProposalActionCreationStep.splits\<close>)
qed

lemma previous_ok:
  assumes "wizard_ok env w" "previous_step (wz_step w) = Some step"
  shows "wizard_ok env (setStep env step (wz_state w) w)"
proof (rule setStep_ok)
  show "state_ok (wz_state w)" using assms(1) by (simp add: wizard_ok_def)
  moreover have "step \<in> {SELECT_ACTION_TYPE, LUMP_SUM_DETAILS, FUNCTION_CALL_SELECT_FUNCTION} \<or>
      step = FUNCTION_CALL_ADD_ARGUMENTS \<and> ws_abi (wz_state w) \<noteq> None"
    using assms by (cases "wz_step w") (auto simp: previous_step_def wizard_ok_def local_ok_def)
  ultimately show "local_ok env (wz_state w) step (mount_step env step (wz_state w))" by (rule mount_ok)
qed

text \<open>The two reviews.\<close>

lemma added_ok:
  assumes "\<forall>t \<in> set (df_transactions d). ether_or_call env t" "df_total d = Some 0"
    and "pt_usdcValue t = None" "\<And>c. pt_calldata t = Some c \<Longrightarrow>
      ether_or_call env (t\<lparr>pt_address := with_0x (pt_address t), pt_calldata := Some (with_0x c)\<rparr>)"
  shows "(\<forall>t \<in> set (df_transactions (handleAddProposalAction [t] d)). ether_or_call env t) \<and>
    df_total (handleAddProposalAction [t] d) = Some 0"
  using assms by (auto simp: handleAddProposalAction_def Let_def split: option.splits)

lemma transfer_ok:
  assumes "ms_TransferFundsCurrency state = Some ETH" "transfer_handleActionAdd env' state = Some [t]"
  shows "pt_usdcValue t = None \<and> pt_signature t = Some [] \<and> pt_calldata t = Some ''0x'' \<and> pt_decodedCalldata t = None"
  using assms by (auto simp: transfer_handleActionAdd_def)

lemma with_0x_prefixed [simp]: "with_0x (CHR ''0'' # CHR ''x'' # s) = CHR ''0'' # CHR ''x'' # s"
  by (simp add: with_0x_def)

lemma call_ok:
  assumes "ms_hasAbi state" "ms_args state = Some vals" "call_handleActionAdd env' state = Some [t]"
  shows "pt_usdcValue t = None \<and> pt_decodedCalldata t = Some (json_list vals) \<and> pt_signature t = ms_function state \<and>
    pt_address t = ms_address state \<and>
    (\<exists>c. ae_encode env' (or_empty (ms_function state)) vals = Some c \<and> pt_calldata t = Some c)"
  using assms by (auto simp: call_handleActionAdd_def Let_def split: option.splits)

lemma modal_state_keeps [simp]:
  "ms_TransferFundsCurrency (modal_state state) = ms_TransferFundsCurrency state"
  "ms_hasAbi (modal_state state) = ms_hasAbi state" "ms_args (modal_state state) = ms_args state"
  "ms_function (modal_state state) = ms_function state" "ms_address (modal_state state) = ms_address state"
  "ms_amount (modal_state state) = ms_amount state"
  by (simp_all add: modal_state_def ProposalActionModalState.defs)

lemma single_transaction:
  "transfer_handleActionAdd env' state = Some ts \<Longrightarrow> ms_TransferFundsCurrency state = Some ETH \<Longrightarrow> \<exists>t. ts = [t]"
  "call_handleActionAdd env' state = Some ts \<Longrightarrow> \<exists>t. ts = [t]"
  by (auto simp: transfer_handleActionAdd_def call_handleActionAdd_def Let_def split: option.splits if_splits)

text \<open>A built transaction of the right kind leaves the page in order.\<close>

lemma onActionAdd_ok:
  assumes p: "page_ok env p" and t: "pt_usdcValue t = None" "\<And>c. pt_calldata t = Some c \<Longrightarrow>
      ether_or_call env (t\<lparr>pt_address := with_0x (pt_address t), pt_calldata := Some (with_0x c)\<rparr>)"
  shows "page_ok env (onActionAdd (Some [t]) p)"
proof -
  have "(\<forall>t \<in> set (df_transactions (handleAddProposalAction [t] (dp_draft p))). ether_or_call env t) \<and>
      df_total (handleAddProposalAction [t] (dp_draft p)) = Some 0"
    using p t by (intro added_ok) (auto simp: page_ok_def)
  moreover have "df_showModal (handleAddProposalAction [t] (dp_draft p)) = df_showModal (dp_draft p)"
    if "pt_calldata t = None" using that by (simp add: handleAddProposalAction_def)
  ultimately show ?thesis using p by (auto simp: onActionAdd_def page_ok_def close_dialog_def Let_def split: option.splits)
qed

lemma review_ok:
  assumes "page_ok env p" "wizard_ok env w" "wz_local w = Reviewing" "next_button env w p = Some p'"
  shows "page_ok env p'"
proof -
  define state where "state = modal_state (wz_state w)"
  have "wz_step w = LUMP_SUM_REVIEW \<or> wz_step w = FUNCTION_CALL_REVIEW"
    using assms(2,3) by (auto simp: wizard_ok_def local_ok_def split: ProposalActionCreationStep.splits)
  then show ?thesis
  proof
    assume step: "wz_step w = LUMP_SUM_REVIEW"
    then have p': "p' = onActionAdd (transfer_handleActionAdd (we_action env) state) p"
      using assms(3,4) by (simp add: next_button_def state_def Let_def)
    have eth: "ms_TransferFundsCurrency state = Some ETH"
      using step assms(2) by (simp add: wizard_ok_def local_ok_def state_def)
    show ?thesis
    proof (cases "transfer_handleActionAdd (we_action env) state")
      case (Some ts)
      then obtain t where t: "ts = [t]" using eth single_transaction by blast
      with transfer_ok [OF eth, of "we_action env" t] Some p' show ?thesis
        by (auto intro!: onActionAdd_ok [OF assms(1)] simp: ether_or_call_def)
    qed (use p' assms(1) in \<open>simp add: onActionAdd_def\<close>)
  next
    assume step: "wz_step w = FUNCTION_CALL_REVIEW"
    then have p': "p' = onActionAdd (call_handleActionAdd (we_action env) state) p"
      using assms(3,4) by (simp add: next_button_def state_def Let_def)
    obtain abi args vals where abi: "ws_abi (wz_state w) = Some abi" and vals: "ms_args state = Some vals"
        "parseArguments env (Some abi) (or_empty (ms_function state)) args = Some vals" and "ms_hasAbi state"
      using step assms(2) by (auto simp: wizard_ok_def local_ok_def state_ok_def state_def)
    show ?thesis
    proof (cases "call_handleActionAdd (we_action env) state")
      case (Some ts)
      then obtain t where t: "ts = [t]" using single_transaction by blast
      with call_ok [OF \<open>ms_hasAbi state\<close> vals(1)] Some have c: "pt_usdcValue t = None"
          "pt_decodedCalldata t = Some (json_list vals)" "pt_signature t = ms_function state"
          "\<exists>c. ae_encode (we_action env) (or_empty (ms_function state)) vals = Some c \<and> pt_calldata t = Some c" by auto
      then have "ether_or_call env (t\<lparr>pt_address := with_0x (pt_address t), pt_calldata := Some (with_0x c)\<rparr>)"
        if "pt_calldata t = Some c" for c using that vals(2) by (auto simp: ether_or_call_def)
      then show ?thesis using p' Some t c(1) by (auto intro!: onActionAdd_ok [OF assms(1)])
    qed (use p' assms(1) in \<open>simp add: onActionAdd_def\<close>)
  qed
qed

lemma handle_page_ok:
  assumes ok: "page_ok env p" and step: "handle_page env e p = Some p'"
  shows "page_ok env p'"
proof (cases e)
  case AddActionButton
  then show ?thesis using ok step by (auto simp: page_ok_def open_ok split: option.splits)
next
  case CloseButton
  then show ?thesis using ok step by (auto simp: page_ok_def close_dialog_def)
next
  case NextButton
  show ?thesis
  proof (cases "dp_dialog p")
    case (Some w)
    then have w: "wizard_ok env w" "next_button env w p = Some p'" using ok step NextButton by (auto simp: page_ok_def)
    show ?thesis
    proof (cases "wz_local w = Reviewing")
      case True
      then show ?thesis using review_ok [OF ok w(1)] w(2) by blast
    next
      case False
      then show ?thesis using next_step_ok [OF w] ok Some by (auto simp: page_ok_def)
    qed
  qed (use ok step NextButton in simp)
next
  case PrevButton
  then show ?thesis using ok step
    by (auto simp: prev_button_def page_ok_def close_dialog_def previous_ok split: option.splits)
next
  case (Field f)
  then show ?thesis using ok step by (auto simp: page_ok_def field_ok split: option.splits)
next
  case (RemoveButton i)
  have "\<forall>t \<in> set (df_transactions (handleRemoveProposalAction i (dp_draft p))). ether_or_call env t"
    using ok by (auto simp: page_ok_def handleRemoveProposalAction_def dest: in_set_takeD in_set_dropD)
  moreover have "df_total (handleRemoveProposalAction i (dp_draft p)) = Some 0"
      "df_showModal (handleRemoveProposalAction i (dp_draft p)) = df_showModal (dp_draft p)"
    using ok by (auto simp: page_ok_def handleRemoveProposalAction_def ether_or_call_def split: option.splits)
  ultimately show ?thesis using ok step RemoveButton by (auto simp: page_ok_def)
qed

interpretation action_dialog: machine "handle_page env" "\<lambda>_ _. True" "page_ok env" for env
  by unfold_locales (rule handle_page_ok)

section \<open>Going through the dialog\<close>

text \<open>Typing the arguments one after the other.\<close>

definition type_arguments :: "string list \<Rightarrow> dialog_input list" where
  "type_arguments vs = map (\<lambda>i. Field (TypeArgument i (vs ! i))) [0..<length vs]"

lemma type_next_argument:
  "k < length vs \<Longrightarrow> setArgument k (vs ! k) (map Some (take k vs)) = map Some (take (Suc k) vs)"
  by (simp add: setArgument_def take_Suc_conv_app_nth min_absorb2 list_update_append)

lemma arguments_typed:
  assumes "function_inputs (ws_abi state) (or_empty (ms_function state)) = Some types" "length vs = length types"
    and "dp_dialog p = Some w" "wz_state w = state" "wz_local w = Entering l" "ea_args l = []" "k \<le> length vs"
  shows "\<exists>l'. run_events (handle_page env) (map (\<lambda>i. Field (TypeArgument i (vs ! i))) [0..<k]) p =
      Some (p\<lparr>dp_dialog := Some (w\<lparr>wz_local := Entering l'\<rparr>)\<rparr>) \<and> ea_args l' = map Some (take k vs) \<and>
    (0 < k \<longrightarrow> (\<exists>l0. l' = settle_arguments env state l0))"
  using assms(7)
proof (induction k)
  case 0
  have "p\<lparr>dp_dialog := Some (w\<lparr>wz_local := Entering l\<rparr>)\<rparr> = p"
    using assms(3,5) by (cases p; cases w) simp
  then show ?case using assms(6) by (intro exI [of _ l]) simp
next
  case (Suc k)
  then obtain l' where l': "run_events (handle_page env) (map (\<lambda>i. Field (TypeArgument i (vs ! i))) [0..<k]) p =
      Some (p\<lparr>dp_dialog := Some (w\<lparr>wz_local := Entering l'\<rparr>)\<rparr>)" "ea_args l' = map Some (take k vs)"
    by auto
  have "args_field env state (TypeArgument k (vs ! k)) l' =
      settle_arguments env state (l'\<lparr>ea_args := map Some (take (Suc k) vs)\<rparr>)"
    using assms(1,2) Suc.prems l'(2) by (simp add: type_next_argument)
  with l' assms(4) show ?case
    by (auto simp: run_events_append use_field_def Let_def)
qed

lemma settled_valid:
  assumes "argumentsValidator env (ws_abi state) (or_empty (ms_function state)) (ea_args l) = Fine"
  shows "ea_valid (settle_arguments env state l)"
  using assms by (simp add: settle_arguments_def validate_arguments_def clear_message_def Let_def)

text \<open>Choosing the function of a contract whose interface Etherscan knows.\<close>

definition choose_function :: "string \<Rightarrow> string \<Rightarrow> string \<Rightarrow> dialog_input list" where
  "choose_function a f v = [AddActionButton, Field (ChooseType ''Function Call''), NextButton, Field (TypeAddress a),
     Field (AbiAnswer a), Field (ChooseFunction f), Field (TypeValue v), NextButton]"

lemma function_chosen:
  assumes "dp_dialog p = None" "we_isAddress env a" "a \<noteq> []"
    and "getABI env a = Some text" "we_interface env text = Some fns" "f \<in> fst ` set fns"
  shows "\<exists>w l. run_events (handle_page env) (choose_function a f v) p =
      Some (p\<lparr>dp_draft := (dp_draft p)\<lparr>df_showModal := True\<rparr>, dp_dialog := Some w\<rparr>) \<and>
    wz_local w = Entering l \<and> l = mount_arguments env (wz_state w) \<and>
    ws_abi (wz_state w) = Some \<lparr>abi_object = 1, abi_functions = fns\<rparr> \<and> ms_hasAbi (wz_state w) \<and>
    ms_function (wz_state w) = Some f \<and> ms_address (wz_state w) = a \<and> ms_amount (wz_state w) = Some v"
proof -
  have fc: "proposalActionTypeToProposalActionCreationStep ''Function Call'' = FUNCTION_CALL_SELECT_FUNCTION"
    by (simp add: proposalActionTypeToProposalActionCreationStep_def type_text_def)
  show ?thesis using assms
    by (simp add: choose_function_def open_wizard_def mount_step_def use_field_def type_options_def choose_type_def fc
        next_button_def setStep_def mount_function_def settle_def round_of_effects_def effect_state_def effect_upload_def
        effect_abi_def initial_state_def type_address_def populateABIIfExists_def setABI_def function_state_def Let_def
        or_empty_def) (rule exI, rule conjI, rule refl, simp)
qed

text \<open>The button of the arguments is enabled once they are typed, and leads to the review.\<close>

lemma validator_fine:
  assumes "func \<noteq> []" "abi \<noteq> None" "function_inputs abi func = Some types"
    and "parseArguments env abi func args = Some vals" "ae_encode (we_action env) func vals = Some c"
  shows "argumentsValidator env abi func args = Fine"
  using assms by (simp add: argumentsValidator_def)

lemma parse_typed:
  assumes "function_inputs abi func = Some types"
  shows "parseArguments env abi func (map Some vs) =
    those (map (\<lambda>i. parse_argument env (Some types) i (Some (vs ! i))) [0..<length vs])"
  using assms by (auto simp: parseArguments_def intro!: arg_cong [where f = those])

lemma reviewed:
  assumes state: "state = wz_state w" "ws_abi state \<noteq> None" "ms_function state = Some f" "f \<noteq> []"
    and types: "function_inputs (ws_abi state) f = Some types" "length vs = length types"
    and vals: "parseArguments env (ws_abi state) f (map Some vs) = Some vals" "list_all renderable vals"
      "ae_encode (we_action env) f vals = Some c"
    and w: "dp_dialog p = Some w" "wz_local w = Entering (mount_arguments env state)"
  shows "\<exists>w'. run_events (handle_page env) (type_arguments vs @ [NextButton]) p = Some (p\<lparr>dp_dialog := Some w'\<rparr>) \<and>
    wz_step w' = FUNCTION_CALL_REVIEW \<and> wz_local w' = Reviewing \<and> wz_state w' = state\<lparr>ms_args := Some vals\<rparr>"
proof -
  have f: "or_empty (ms_function state) = f" using state(3) by (simp add: or_empty_def)
  have "ea_args (mount_arguments env state) = []" by (simp add: mount_arguments_def)
  from arguments_typed [OF _ types(2) w(1) state(1) [symmetric] w(2) this order_refl, of env] types(1) f
  obtain l' where l': "run_events (handle_page env) (type_arguments vs) p =
      Some (p\<lparr>dp_dialog := Some (w\<lparr>wz_local := Entering l'\<rparr>)\<rparr>)" "ea_args l' = map Some vs"
      "vs \<noteq> [] \<longrightarrow> (\<exists>l0. l' = settle_arguments env state l0)"
    by (auto simp: type_arguments_def)
  have "argumentsValidator env (ws_abi state) f (map Some vs) = Fine"
    by (rule validator_fine [OF state(4,2) types(1) vals(1,3)])
  then have "types \<noteq> [] \<longrightarrow> ea_valid l'" using types(2) l'(2,3) f by (auto intro!: settled_valid)
  then have "\<not> arguments_isNextBtnDisabled state l'"
    using types f by (auto simp: arguments_isNextBtnDisabled_def)
  then show ?thesis using l'(1,2) vals(1,2) f state(1)
    by (simp add: run_events_append next_button_def setStep_def mount_step_def Let_def)
      (rule exI, rule conjI, rule refl, simp)
qed

text \<open>
  C26: A call can always be added. For a contract whose interface Etherscan knows, a function of that
  interface, and texts for its inputs that can be read and encoded, the buttons and fields lead from a
  page without a dialog to one whose draft has one more transaction: the function at the typed address, the
  typed ether in wei, and the encoding of exactly the typed arguments. No button is disabled on the
  way, whatever the number of arguments.
\<close>

theorem call_can_be_added:
  assumes "dp_dialog p = None" "we_isAddress env a" "a \<noteq> []"
    and "getABI env a = Some text" "we_interface env text = Some fns"
    and "map_of fns f = Some types" "f \<noteq> []" "length vs = length types"
    and "those (map (\<lambda>i. parse_argument env (Some types) i (Some (vs ! i))) [0..<length vs]) = Some vals"
    and "list_all renderable vals" "ae_encode (we_action env) f vals = Some c"
    and "ether_value (we_action env) (Some v) = Some wei"
  shows "\<exists>p'. run_events (handle_page env) (choose_function a f v @ type_arguments vs @ [NextButton, NextButton]) p = Some p' \<and>
    dp_dialog p' = None \<and> df_total (dp_draft p') = df_total (dp_draft p) \<and>
    df_transactions (dp_draft p') = df_transactions (dp_draft p) @
      [\<lparr>pt_address = with_0x a, pt_value = TextValue wei, pt_signature = Some f, pt_calldata = Some (with_0x c),
        pt_decodedCalldata = Some (json_list vals), pt_usdcValue = None\<rparr>]"
proof -
  have "f \<in> fst ` set fns" using map_of_SomeD [OF assms(6)] by force
  from function_chosen [OF assms(1-5) this, of v]
  obtain w where w: "run_events (handle_page env) (choose_function a f v) p =
        Some (p\<lparr>dp_draft := (dp_draft p)\<lparr>df_showModal := True\<rparr>, dp_dialog := Some w\<rparr>)"
      "wz_local w = Entering (mount_arguments env (wz_state w))"
      "ws_abi (wz_state w) = Some \<lparr>abi_object = 1, abi_functions = fns\<rparr>" "ms_hasAbi (wz_state w)"
      "ms_function (wz_state w) = Some f" "ms_address (wz_state w) = a" "ms_amount (wz_state w) = Some v"
    by auto
  let ?p = "p\<lparr>dp_draft := (dp_draft p)\<lparr>df_showModal := True\<rparr>, dp_dialog := Some w\<rparr>"
  have types: "function_inputs (ws_abi (wz_state w)) f = Some types" by (simp add: function_inputs_def w(3) assms(6))
  have vals: "parseArguments env (ws_abi (wz_state w)) f (map Some vs) = Some vals"
    by (simp only: parse_typed [OF types] assms(9))
  obtain w' where w': "run_events (handle_page env) (type_arguments vs @ [NextButton]) ?p = Some (?p\<lparr>dp_dialog := Some w'\<rparr>)"
      "wz_step w' = FUNCTION_CALL_REVIEW" "wz_local w' = Reviewing" "wz_state w' = (wz_state w)\<lparr>ms_args := Some vals\<rparr>"
    using reviewed [OF refl _ w(5) assms(7) types assms(8) vals assms(10,11), of ?p] w(2,3) by auto
  have "call_handleActionAdd (we_action env) (modal_state (wz_state w')) =
      Some [\<lparr>pt_address = a, pt_value = TextValue wei, pt_signature = Some f, pt_calldata = Some c,
        pt_decodedCalldata = Some (json_list vals), pt_usdcValue = None\<rparr>]"
    using w(4-7) assms(11,12) by (simp add: call_handleActionAdd_def w'(4) or_empty_def Let_def)
  with w' have "handle_page env NextButton (?p\<lparr>dp_dialog := Some w'\<rparr>) = Some (onActionAdd (Some
      [\<lparr>pt_address = a, pt_value = TextValue wei, pt_signature = Some f, pt_calldata = Some c,
        pt_decodedCalldata = Some (json_list vals), pt_usdcValue = None\<rparr>]) (?p\<lparr>dp_dialog := Some w'\<rparr>))"
    (is "_ = Some ?p'")
    by (simp add: next_button_def Let_def)
  with w(1) w'(1) have "run_events (handle_page env) (choose_function a f v @ (type_arguments vs @ [NextButton]) @ [NextButton]) p =
      Some ?p'"
    by (simp only: run_events_append option.case run_events.simps)
  then show ?thesis
    by (simp add: onActionAdd_def handleAddProposalAction_def close_dialog_def)
qed

text \<open>Paying: the flag, once set, survives every further change of the fields.\<close>

definition pay :: "string \<Rightarrow> string \<Rightarrow> string \<Rightarrow> dialog_input list" where
  "pay a v formatted = [AddActionButton, NextButton, Field (TypeAddress a), Field (TypeAmount v formatted)]"

lemma validated:
  assumes "we_isAddress env (td_address l)" "parseFloat (td_amount l) = Some x" "0 < x"
  shows "td_valid (validate_payment env l)"
  using assms by (simp add: validate_payment_def)

lemma paid:
  assumes "dp_dialog p = None" "we_isAddress env a" "parseFloat v = Some x" "0 < x"
  shows "\<exists>w l. run_events (handle_page env) (pay a v formatted) p =
      Some (p\<lparr>dp_draft := (dp_draft p)\<lparr>df_showModal := True\<rparr>, dp_dialog := Some w\<rparr>) \<and>
    wz_state w = initial_state \<and> wz_local w = Transferring l \<and> td_valid l \<and> td_currency l = ETH \<and>
    td_address l = a \<and> td_amount l = v"
proof -
  have ls: "proposalActionTypeToProposalActionCreationStep (type_text LUMP_SUM) = LUMP_SUM_DETAILS"
    by (simp add: proposalActionTypeToProposalActionCreationStep_def)
  have eth: "td_currency (mount_transfer env initial_state) = ETH" by (simp add: mount_transfer_def initial_state_def)
  have "ws_actionType initial_state = LUMP_SUM" by (simp add: initial_state_def)
  then show ?thesis using assms
    by (simp add: pay_def open_wizard_def mount_step_def ls next_button_def setStep_def use_field_def)
      (rule exI, rule conjI, rule refl, simp add: validated eth)
qed

lemma transfer_added:
  assumes "dp_dialog p = Some w" "wz_local w = Transferring l" "td_valid l" "td_currency l = ETH"
    and "ether_value (we_action env) (Some (td_amount l)) = Some wei"
  shows "\<exists>p'. run_events (handle_page env) [NextButton, NextButton] p = Some p' \<and> dp_dialog p' = None \<and>
    df_transactions (dp_draft p') = df_transactions (dp_draft p) @
      [\<lparr>pt_address = with_0x (td_address l), pt_value = TextValue wei, pt_signature = Some [], pt_calldata = Some ''0x'',
        pt_decodedCalldata = None, pt_usdcValue = None\<rparr>]"
  using assms
  by (simp add: next_button_def setStep_def mount_step_def payment_state_def transfer_handleActionAdd_def onActionAdd_def
      handleAddProposalAction_def close_dialog_def Let_def)

theorem transfer_can_be_added:
  assumes "dp_dialog p = None" "we_isAddress env a" "parseFloat v = Some x" "0 < x"
    and "ether_value (we_action env) (Some v) = Some wei"
  shows "\<exists>p'. run_events (handle_page env) (pay a v formatted @ [NextButton, NextButton]) p = Some p' \<and> dp_dialog p' = None \<and>
    df_transactions (dp_draft p') = df_transactions (dp_draft p) @
      [\<lparr>pt_address = with_0x a, pt_value = TextValue wei, pt_signature = Some [], pt_calldata = Some ''0x'',
        pt_decodedCalldata = None, pt_usdcValue = None\<rparr>]"
proof -
  obtain w l where w: "run_events (handle_page env) (pay a v formatted) p =
        Some (p\<lparr>dp_draft := (dp_draft p)\<lparr>df_showModal := True\<rparr>, dp_dialog := Some w\<rparr>)"
      "wz_local w = Transferring l" "td_valid l" "td_currency l = ETH" "td_address l = a" "td_amount l = v"
    using paid [OF assms(1-4)] by blast
  from transfer_added [of "p\<lparr>dp_draft := (dp_draft p)\<lparr>df_showModal := True\<rparr>, dp_dialog := Some w\<rparr>" w l env wei] w assms(5)
  show ?thesis by (simp only: run_events_append option.case) simp
qed

text \<open>
  The button of a transfer stays enabled. After an address and an amount that are both valid, any other
  texts may replace them: the recipient need not be an address any more and the amount need not be
  positive. The review and the draft accept the transfer to that text, and an amount that was emptied
  is a transfer of nothing.
\<close>

theorem stale_fields_are_added:
  assumes "dp_dialog p = None" "we_isAddress env a" "parseFloat v = Some x" "0 < x"
    and "ether_value (we_action env) (Some v') = Some wei"
  shows "\<exists>p'. run_events (handle_page env)
      (pay a v formatted @ [Field (TypeAddress b), Field (TypeAmount v' formatted'), NextButton, NextButton]) p = Some p' \<and>
    dp_dialog p' = None \<and> df_transactions (dp_draft p') = df_transactions (dp_draft p) @
      [\<lparr>pt_address = with_0x b, pt_value = TextValue wei, pt_signature = Some [], pt_calldata = Some ''0x'',
        pt_decodedCalldata = None, pt_usdcValue = None\<rparr>]"
proof -
  obtain w l where w: "run_events (handle_page env) (pay a v formatted) p =
        Some (p\<lparr>dp_draft := (dp_draft p)\<lparr>df_showModal := True\<rparr>, dp_dialog := Some w\<rparr>)"
      "wz_local w = Transferring l" "td_valid l" "td_currency l = ETH"
    using paid [OF assms(1-4)] by blast
  let ?l = "l\<lparr>td_address := b, td_amount := v', td_formattedAmount := formatted'\<rparr>"
  let ?p = "p\<lparr>dp_draft := (dp_draft p)\<lparr>df_showModal := True\<rparr>, dp_dialog := Some (w\<lparr>wz_local := Transferring ?l\<rparr>)\<rparr>"
  have typed: "run_events (handle_page env) (pay a v formatted @ [Field (TypeAddress b), Field (TypeAmount v' formatted')]) p = Some ?p"
    using w by (simp add: run_events_append use_field_def validate_payment_def Let_def)
  have rest: "\<exists>p'. run_events (handle_page env) [NextButton, NextButton] ?p = Some p' \<and> dp_dialog p' = None \<and>
      df_transactions (dp_draft p') = df_transactions (dp_draft p) @
        [\<lparr>pt_address = with_0x b, pt_value = TextValue wei, pt_signature = Some [], pt_calldata = Some ''0x'',
          pt_decodedCalldata = None, pt_usdcValue = None\<rparr>]"
    using transfer_added [of ?p "w\<lparr>wz_local := Transferring ?l\<rparr>" ?l env wei] w assms(5) by simp
  have "pay a v formatted @ [Field (TypeAddress b), Field (TypeAmount v' formatted'), NextButton, NextButton] =
      (pay a v formatted @ [Field (TypeAddress b), Field (TypeAmount v' formatted')]) @ [NextButton, NextButton]" by simp
  with typed rest show ?thesis by (simp only: run_events_append [of _ "pay a v formatted @ _"] option.case)
qed

text \<open>
  C25: What the dialog can add. Whatever is clicked, typed, uploaded or answered, in any order and any
  number of times, every transaction of a draft that started empty is a plain transfer of ether or a
  call whose data encode arguments that were read as the interface of its function says. The steps for
  streams are never on screen, no total in USDC is ever due, so the effect that would refill the token
  buyer never acts, and no message about invalid arguments stays.
\<close>

theorem dialog_adds_ether_and_calls:
  assumes "run_events (handle_page env) es new_page = Some p"
  shows "(\<forall>t \<in> set (df_transactions (dp_draft p)). ether_or_call env t) \<and>
    top_up_effect tokenBuyer ethNeeded (dp_draft p) = dp_draft p \<and>
    (\<forall>w. dp_dialog p = Some w \<longrightarrow>
       wz_step w \<notin> {STREAM_PAYMENT_PAYMENT_DETAILS, STREAM_PAYMENT_DATE_DETAILS, STREAM_PAYMENT_REVIEW} \<and>
       (\<forall>l. wz_local w = Entering l \<longrightarrow> \<not> ea_invalid l))"
proof -
  have "page_ok env new_page" by (simp add: page_ok_def new_page_def new_draft_def)
  with assms have ok: "page_ok env p" using action_dialog.run_inv by blast
  then have "top_up_effect tokenBuyer ethNeeded (dp_draft p) = dp_draft p"
    by (simp add: page_ok_def top_up_effect_def positive_def split: option.splits)
  moreover have "wz_step w \<notin> {STREAM_PAYMENT_PAYMENT_DETAILS, STREAM_PAYMENT_DATE_DETAILS, STREAM_PAYMENT_REVIEW} \<and>
      (\<forall>l. wz_local w = Entering l \<longrightarrow> \<not> ea_invalid l)" if "dp_dialog p = Some w" for w
  proof -
    have "wizard_ok env w" using ok that by (simp add: page_ok_def)
    then show ?thesis
      by (cases "wz_step w") (auto simp: wizard_ok_def local_ok_def)
  qed
  ultimately show ?thesis using ok by (simp add: page_ok_def)
qed

lemma mounted_transfer:
  "td_amount (mount_transfer env state) = or_empty (ms_amount state)"
  "td_address (mount_transfer env state) = ms_address state"
  "td_currency (mount_transfer env state) = (case ms_TransferFundsCurrency state of None \<Rightarrow> ETH | Some c \<Rightarrow> c)"
  "td_valid (mount_transfer env state) \<longleftrightarrow> we_isAddress env (ms_address state) \<and>
     (case parseFloat (or_empty (ms_amount state)) of None \<Rightarrow> False | Some x \<Rightarrow> 0 < x)"
  by (simp_all add: mount_transfer_def validate_payment_def)

lemma mounted_function:
  "fs_address (mount_function env state) = ms_address state"
  "fs_value (mount_function env state) = or_empty (ms_amount state)"
  "fs_abi (mount_function env state) = ws_abi state"
  "fs_func (mount_function env state) =
     (case ws_abi state of None \<Rightarrow> Some (or_empty (ms_function state)) | Some abi \<Rightarrow> first_function abi)"
proof -
  show "fs_address (mount_function env state) = ms_address state" "fs_value (mount_function env state) = or_empty (ms_amount state)"
    by (simp_all add: mount_function_def)
  show "fs_abi (mount_function env state) = ws_abi state"
    by (cases "ws_abi state") (simp_all add: mount_function_def settle_def round_of_effects_def effect_state_def
        effect_upload_def effect_abi_def Let_def)
  show "fs_func (mount_function env state) =
     (case ws_abi state of None \<Rightarrow> Some (or_empty (ms_function state)) | Some abi \<Rightarrow> first_function abi)"
    by (cases "ws_abi state") (simp_all add: mount_function_def settle_def round_of_effects_def effect_state_def
        effect_upload_def effect_abi_def Let_def)
qed

text \<open>
  Going back. From the review of a transfer the fields come back as they were left, and the button is
  enabled only if they are valid. From the arguments of a call the address, the ether and the interface
  come back, but not the function: the first one of the interface is selected, whichever was chosen.
\<close>

theorem going_back:
  "td_amount (mount_transfer env (payment_state l state)) = td_amount l \<and>
   td_address (mount_transfer env (payment_state l state)) = td_address l \<and>
   td_currency (mount_transfer env (payment_state l state)) = td_currency l \<and>
   (td_valid (mount_transfer env (payment_state l state)) \<longleftrightarrow>
      we_isAddress env (td_address l) \<and> (\<exists>x. parseFloat (td_amount l) = Some x \<and> 0 < x)) \<and>
   fs_address (mount_function env (function_state k state)) = fs_address k \<and>
   fs_value (mount_function env (function_state k state)) = fs_value k \<and>
   fs_abi (mount_function env (function_state k state)) = fs_abi k \<and>
   fs_func (mount_function env (function_state k state)) =
     (case fs_abi k of None \<Rightarrow> Some (or_empty (fs_func k)) | Some abi \<Rightarrow> first_function abi)"
  by (simp add: mounted_transfer mounted_function payment_state_def function_state_def or_empty_def split: option.splits)

section \<open>Examples\<close>

definition demo_wizard_env :: wizard_env where
  "demo_wizard_env =
     \<lparr>we_action = \<lparr>ae_addresses = \<lparr>ad_nounsStreamFactory = None, ad_usdcToken = None, ad_weth = None, ad_steth = None,
          ad_payerContract = None, ad_tokenBuyer = None\<rparr>,
        ae_parseEther = (\<lambda>s. Some (s @ ''000000000000000000'')), ae_encode = (\<lambda>f vals. Some (json_list vals))\<rparr>,
      we_isAddress = (\<lambda>s. s = ''0xA''), we_parse = (\<lambda>s. Some (JArray [JText s])),
      we_interface = (\<lambda>s. Some [(''a()'', []), (''f(address,uint256[])'', [''address'', ''uint256[]''])]),
      we_etherscan = (\<lambda>s. Some (Some \<lparr>ci_Proxy = ''0'', ci_Implementation = [], ci_ABI = ''abi''\<rparr>)), we_predicted = (\<lambda>_. None)\<rparr>"

lemma demo_amount: "parseFloat ''2'' = Some 2"
  by code_simp

theorem call_can_be_added_witness:
  "\<exists>p'. run_events (handle_page demo_wizard_env)
     (choose_function ''0xA'' ''f(address,uint256[])'' ''2'' @ type_arguments [''0xB'', ''[7]''] @ [NextButton, NextButton]) new_page = Some p' \<and>
   map pt_signature (df_transactions (dp_draft p')) = [Some ''f(address,uint256[])'']"
proof -
  let ?fns = "[(''a()'', []), (''f(address,uint256[])'', [''address'', ''uint256[]''])]"
  let ?vals = "[JText ''0xB'', JArray [JText ''[7]'']]"
  have env: "we_isAddress demo_wizard_env ''0xA''" "getABI demo_wizard_env ''0xA'' = Some ''abi''"
      "we_interface demo_wizard_env ''abi'' = Some ?fns"
      "ae_encode (we_action demo_wizard_env) ''f(address,uint256[])'' ?vals = Some (json_list ?vals)"
      "ether_value (we_action demo_wizard_env) (Some ''2'') = Some ''2000000000000000000''"
    by (simp_all add: demo_wizard_env_def getABI_def ether_value_def truthy_def)
  have "those (map (\<lambda>i. parse_argument demo_wizard_env (Some [''address'', ''uint256[]'']) i (Some ([''0xB'', ''[7]''] ! i)))
      [0..<length [''0xB'', ''[7]'']]) = Some ?vals"
    by (simp add: demo_wizard_env_def parse_argument_def suffix_def upt_rec)
  from call_can_be_added [OF _ env(1) _ env(2,3) _ _ _ this _ env(4,5), of new_page] show ?thesis
    by (auto simp: new_page_def new_draft_def)
qed

theorem stale_fields_are_added_witness:
  "\<exists>p'. run_events (handle_page demo_wizard_env)
     (pay ''0xA'' ''2'' ''2'' @ [Field (TypeAddress ''nobody''), Field (TypeAmount [] []), NextButton, NextButton]) new_page = Some p' \<and>
   map pt_address (df_transactions (dp_draft p')) = [''0xnobody''] \<and> \<not> we_isAddress demo_wizard_env ''nobody''"
  using stale_fields_are_added [of new_page demo_wizard_env "''0xA''" "''2''" 2 "[]" "''0''" "''2''" "''nobody''" "[]"]
  by (auto simp: new_page_def new_draft_def demo_wizard_env_def demo_amount ether_value_def truthy_def with_0x_def)

theorem dialog_adds_ether_and_calls_witness:
  "\<exists>p. run_events (handle_page demo_wizard_env) (pay ''0xA'' ''2'' ''2'' @ [NextButton, NextButton]) new_page = Some p \<and>
     length (df_transactions (dp_draft p)) = 1 \<and> (\<forall>t \<in> set (df_transactions (dp_draft p)). ether_or_call demo_wizard_env t)"
proof -
  obtain p where p: "run_events (handle_page demo_wizard_env) (pay ''0xA'' ''2'' ''2'' @ [NextButton, NextButton]) new_page = Some p"
      "length (df_transactions (dp_draft p)) = 1"
    using transfer_can_be_added [of new_page demo_wizard_env "''0xA''" "''2''" 2 _ "''2''"]
    by (auto simp: new_page_def new_draft_def demo_wizard_env_def demo_amount ether_value_def truthy_def)
  with dialog_adds_ether_and_calls [OF p(1)] show ?thesis by blast
qed

end
