(* ===== verification/Webapp_Vote.thy ===== *)
theory Webapp_Vote
  imports Webapp_State Webapp_Data
begin

text \<open>
  The page of a proposal (\<open>packages/nouns-webapp/src/pages/Vote/index.tsx\<close>), the dialog in which votes are
  cast (\<open>components/VoteModal\<close>) and the checks shared by pages (\<open>utils/proposals.ts\<close>, \<open>utils/getNounsVotes.ts\<close>),
  against the guards of the DAO contract (\<open>NounsDAOV3Proposals.sol\<close>, \<open>NounsDAOV3Votes.sol\<close>).

  A number that may be missing or \<open>NaN\<close> is optional; dates are milliseconds. What is shown is a value; the
  layout is not part of the model.
\<close>

section \<open>Shared checks\<close>

definition isProposalUpdatable :: "ProposalState option \<Rightarrow> int option \<Rightarrow> int \<Rightarrow> bool" where
  "isProposalUpdatable proposalState proposalUpdatePeriodEndBlock currentBlock \<longleftrightarrow>
     (proposalState = Some Updatable \<or> proposalState = Some Pending) \<and> le_num currentBlock proposalUpdatePeriodEndBlock"

definition checkEnoughVotes :: "int option \<Rightarrow> int option \<Rightarrow> bool" where
  "checkEnoughVotes availableVotes proposalThreshold =
     (case (availableVotes, proposalThreshold) of (Some v, Some n) \<Rightarrow> v \<noteq> 0 \<and> n < v | _ \<Rightarrow> False)"

definition same_account :: "string option \<Rightarrow> string option \<Rightarrow> bool" where
  "same_account a b \<longleftrightarrow> map_option toLowerCase a = map_option toLowerCase b"

definition checkIsEligibleToPropose :: "Proposal option \<Rightarrow> string option \<Rightarrow> bool" where
  "checkIsEligibleToPropose latestProposal account =
     (case latestProposal of
        None \<Rightarrow> False
      | Some p \<Rightarrow> truthy account \<and> pa_status p \<in> {Some Active, Some Pending, Some Updatable} \<and>
          same_account (po_proposer p) account)"

section \<open>State of the page\<close>

text \<open>What the hooks of the page return, and the state that its effects keep.\<close>

record vote_page =
  vp_proposal :: Proposal
  vp_account :: "string option"
  vp_isDaoGteV3 :: bool
  vp_currentBlock :: "int option"
  vp_now :: int
  vp_isForkActive :: bool
  vp_isExecutable :: bool
  vp_forkPeriodMessage :: bool
  vp_isObjectionPeriod :: bool
  vp_isQueuePending :: bool
  vp_isExecutePending :: bool
  vp_isCancelPending :: bool

definition open_page :: "Proposal \<Rightarrow> string option \<Rightarrow> bool \<Rightarrow> int option \<Rightarrow> int \<Rightarrow> vote_page" where
  "open_page proposal account isDaoGteV3 currentBlock now =
     \<lparr>vp_proposal = proposal, vp_account = account, vp_isDaoGteV3 = isDaoGteV3, vp_currentBlock = currentBlock,
      vp_now = now, vp_isForkActive = False, vp_isExecutable = True, vp_forkPeriodMessage = False,
      vp_isObjectionPeriod = False, vp_isQueuePending = False, vp_isExecutePending = False, vp_isCancelPending = False\<rparr>"

text \<open>A block number that is missing or 0 is false.\<close>

definition known_block :: "int option \<Rightarrow> int option" where
  "known_block b = (if b = Some 0 then None else b)"

definition fork_active_effect :: "bool \<Rightarrow> vote_page \<Rightarrow> vote_page" where
  "fork_active_effect forkActive p = (if forkActive then p\<lparr>vp_isForkActive := True\<rparr> else p)"

definition objection_effect :: "vote_page \<Rightarrow> vote_page" where
  "objection_effect p =
     p\<lparr>vp_isObjectionPeriod :=
         vp_isDaoGteV3 p \<and>
         (case known_block (vp_currentBlock p) of
            None \<Rightarrow> False
          | Some b \<Rightarrow> (case pa_objectionPeriodEndBlock (vp_proposal p) of None \<Rightarrow> False | Some n \<Rightarrow> 0 < n) \<and>
              gt_num b (pa_endBlock (vp_proposal p)) \<and> le_num b (pa_objectionPeriodEndBlock (vp_proposal p)))\<rparr>"

definition executable_effect :: "vote_page \<Rightarrow> vote_page" where
  "executable_effect p =
     (if pa_status (vp_proposal p) = Some Queued
      then if vp_isForkActive p then p\<lparr>vp_forkPeriodMessage := True, vp_isExecutable := False\<rparr>
           else p\<lparr>vp_isExecutable := True\<rparr>
      else p)"

definition page_effects :: "bool \<Rightarrow> vote_page \<Rightarrow> vote_page" where
  "page_effects forkActive p = executable_effect (objection_effect (fork_active_effect forkActive p))"

section \<open>Actions\<close>

definition hasSucceeded :: "vote_page \<Rightarrow> bool" where
  "hasSucceeded p \<longleftrightarrow> pa_status (vp_proposal p) = Some Succeeded"

definition isInNonFinalState :: "vote_page \<Rightarrow> bool" where
  "isInNonFinalState p \<longleftrightarrow>
     pa_status (vp_proposal p) \<in> {Some Updatable, Some Pending, Some Active, Some Succeeded, Some Queued, Some ObjectionPeriod}"

definition isProposalSigner :: "vote_page \<Rightarrow> bool" where
  "isProposalSigner p \<longleftrightarrow> truthy (vp_account p) \<and>
     (case po_signers (vp_proposal p) of None \<Rightarrow> False | Some ss \<Rightarrow> toLowerCase (the (vp_account p)) \<in> toLowerCase ` set ss)"

definition isProposer :: "vote_page \<Rightarrow> bool" where
  "isProposer p \<longleftrightarrow> same_account (po_proposer (vp_proposal p)) (vp_account p)"

definition isUpdateable :: "vote_page \<Rightarrow> bool" where
  "isUpdateable p \<longleftrightarrow> vp_isDaoGteV3 p \<and>
     (case known_block (vp_currentBlock p) of None \<Rightarrow> False
      | Some b \<Rightarrow> isProposalUpdatable (pa_status (vp_proposal p)) (pa_updatePeriodEndBlock (vp_proposal p)) b)"

definition isCancellable :: "vote_page \<Rightarrow> bool" where
  "isCancellable p \<longleftrightarrow> isInNonFinalState p \<and> (isProposalSigner p \<or> isProposer p)"

definition MAX_SAFE_INTEGER :: int where "MAX_SAFE_INTEGER = 2 ^ 53 - 1"

definition isAwaitingStateChange :: "vote_page \<Rightarrow> bool" where
  "isAwaitingStateChange p \<longleftrightarrow> hasSucceeded p \<or>
     pa_status (vp_proposal p) = Some Queued \<and>
     (case pa_eta (vp_proposal p) of None \<Rightarrow> MAX_SAFE_INTEGER | Some eta \<Rightarrow> eta) \<le> vp_now p"

definition isAwaitingDestructiveStateChange :: "vote_page \<Rightarrow> bool" where
  "isAwaitingDestructiveStateChange p \<longleftrightarrow> isCancellable p"

definition isActionable :: "vote_page \<Rightarrow> bool" where
  "isActionable p =
     (if isUpdateable p \<and> \<not> (isProposer p \<or> isProposalSigner p) then False
      else if isAwaitingStateChange p then True
      else if isAwaitingDestructiveStateChange p then True
      else isUpdateable p)"

datatype page_call = QueueProposal string | ExecuteProposal string | ExecuteProposalOnTimelockV1 string | CancelProposal string

definition moveStateAction :: "vote_page \<Rightarrow> page_call option" where
  "moveStateAction p =
     (if \<not> truthy (pa_id (vp_proposal p)) then None
      else let i = the (pa_id (vp_proposal p))
           in Some (if hasSucceeded p then QueueProposal i
                    else if po_onTimelockV1 (vp_proposal p) then ExecuteProposalOnTimelockV1 i else ExecuteProposal i))"

definition destructiveStateAction :: "vote_page \<Rightarrow> page_call option" where
  "destructiveStateAction p =
     (if isCancellable p \<and> truthy (pa_id (vp_proposal p)) then Some (CancelProposal (the (pa_id (vp_proposal p)))) else None)"

text \<open>The calls behind the enabled buttons, and whether there is a link to the editor.\<close>

definition enabled_move :: "vote_page \<Rightarrow> page_call option" where
  "enabled_move p =
     (if isActionable p \<and> isAwaitingStateChange p \<and> \<not> (vp_isQueuePending p \<or> vp_isExecutePending p \<or> \<not> vp_isExecutable p)
      then moveStateAction p else None)"

definition enabled_cancel :: "vote_page \<Rightarrow> page_call option" where
  "enabled_cancel p =
     (if isActionable p \<and> isAwaitingDestructiveStateChange p \<and> \<not> vp_isCancelPending p
      then destructiveStateAction p else None)"

definition edit_link :: "vote_page \<Rightarrow> bool" where
  "edit_link p \<longleftrightarrow> isActionable p \<and> isProposer p \<and> isUpdateable p"

section \<open>Dates and counts\<close>

definition AVERAGE_BLOCK_TIME_IN_SECS :: int where "AVERAGE_BLOCK_TIME_IN_SECS = 12"

definition date_of_block :: "int \<Rightarrow> int option \<Rightarrow> int option \<Rightarrow> int option" where
  "date_of_block timestamp currentBlock n =
     (case (known_block currentBlock, n) of
        (Some b, Some n) \<Rightarrow> Some (timestamp + 1000 * (AVERAGE_BLOCK_TIME_IN_SECS * (n - b))) | _ \<Rightarrow> None)"

definition page_endBlock :: "vote_page \<Rightarrow> int option" where
  "page_endBlock p =
     (let e = pa_endBlock (vp_proposal p)
      in case known_block (vp_currentBlock p) of
           Some b \<Rightarrow> if e \<noteq> None \<and> e \<noteq> Some 0 \<and> vp_isObjectionPeriod p \<and> gt_num b e
                     then pa_objectionPeriodEndBlock (vp_proposal p) else e
         | None \<Rightarrow> e)"

definition before :: "int option \<Rightarrow> int \<Rightarrow> bool" where
  "before d now = (case d of None \<Rightarrow> False | Some t \<Rightarrow> t < now)"

definition after :: "int option \<Rightarrow> int \<Rightarrow> bool" where
  "after d now = (case d of None \<Rightarrow> False | Some t \<Rightarrow> now < t)"

text \<open>\<open>timestamp\<close> is read before \<open>now\<close>, the time of the page.\<close>

definition startOrEndTimeCopy :: "int \<Rightarrow> vote_page \<Rightarrow> string" where
  "startOrEndTimeCopy timestamp p =
     (let startDate = date_of_block timestamp (vp_currentBlock p) (pa_startBlock (vp_proposal p));
          endDate = date_of_block timestamp (vp_currentBlock p) (page_endBlock p)
      in if before startDate (vp_now p) \<and> after endDate (vp_now p) then ''Ends''
         else if before endDate (vp_now p) then ''Ended'' else ''Starts'')"

definition startOrEndTimeTime :: "int \<Rightarrow> vote_page \<Rightarrow> int option" where
  "startOrEndTimeTime timestamp p =
     (let startDate = date_of_block timestamp (vp_currentBlock p) (pa_startBlock (vp_proposal p));
          endDate = date_of_block timestamp (vp_currentBlock p) (page_endBlock p)
      in if \<not> before startDate (vp_now p) then startDate else endDate)"

definition currentOrSnapshotBlock :: "vote_page \<Rightarrow> int option" where
  "currentOrSnapshotBlock p =
     (let b = (case known_block (vp_currentBlock p) of None \<Rightarrow> 0 | Some b \<Rightarrow> b - 1)
      in case po_voteSnapshotBlock (vp_proposal p) of None \<Rightarrow> None
         | Some s \<Rightarrow> if min s b = 0 then None else Some (min s b))"

record voter_row =
  vr_voter :: string
  vr_supportDetailed :: int

record vote_data =
  vd_delegate :: string
  vd_supportDetailed :: int
  vd_nounsRepresented :: "string list"

definition delegateToNounIds :: "Delegate list \<Rightarrow> (string \<times> string list) list" where
  "delegateToNounIds delegates = foldl (\<lambda>acc curr. js_set acc (dg_id curr) (dg_nounsRepresented curr)) [] delegates"

definition vote_rows :: "Delegate list option \<Rightarrow> voter_row list \<Rightarrow> vote_data list" where
  "vote_rows delegates votes =
     map (\<lambda>v. \<lparr>vd_delegate = vr_voter v, vd_supportDetailed = vr_supportDetailed v,
       vd_nounsRepresented = (case delegates of None \<Rightarrow> []
         | Some ds \<Rightarrow> (case js_get (delegateToNounIds ds) (vr_voter v) of None \<Rightarrow> [] | Some ns \<Rightarrow> ns))\<rparr>) votes"

definition getNounVotes :: "vote_data list \<Rightarrow> int \<Rightarrow> string list" where
  "getNounVotes votes supportDetailed =
     concat (map vd_nounsRepresented (filter (\<lambda>v. vd_supportDetailed v = supportDetailed) votes))"

section \<open>Sent transactions\<close>

datatype tx_state = TxNone | PendingSignature | Mining | Success | Fail | Exception

record tx_status =
  tx_state :: tx_state
  tx_errorMessage :: "string option"

record AlertModal =
  am_title :: string
  am_message :: string

definition or_text :: "string option \<Rightarrow> string \<Rightarrow> string" where
  "or_text s d = (if truthy s then the s else d)"

text \<open>The new value of the pending flag, the alert that is shown, and whether the state is final.\<close>

definition onTransactionStateChange ::
  "tx_status \<Rightarrow> string option \<Rightarrow> (string option \<Rightarrow> string option) option \<Rightarrow> bool \<Rightarrow> bool \<times> AlertModal option \<times> bool" where
  "onTransactionStateChange tx successMessage getErrorMessage pending =
     (case tx_state tx of
        TxNone \<Rightarrow> (False, None, False)
      | Mining \<Rightarrow> (True, None, False)
      | Success \<Rightarrow> (False, Some \<lparr>am_title = ''Success'', am_message = or_text successMessage ''Transaction Successful!''\<rparr>, True)
      | Fail \<Rightarrow> (False, Some \<lparr>am_title = ''Transaction Failed'', am_message = or_text (tx_errorMessage tx) ''Please try again.''\<rparr>, True)
      | Exception \<Rightarrow> (False, Some \<lparr>am_title = ''Error'',
          am_message = or_text (case getErrorMessage of None \<Rightarrow> None | Some g \<Rightarrow> g (tx_errorMessage tx)) ''Please try again.''\<rparr>, True)
      | _ \<Rightarrow> (pending, None, False))"

definition queue_effect :: "tx_status \<Rightarrow> vote_page \<Rightarrow> vote_page \<times> AlertModal option" where
  "queue_effect tx p = (case onTransactionStateChange tx (Some ''Proposal Queued!'') None (vp_isQueuePending p) of
     (b, m, _) \<Rightarrow> (p\<lparr>vp_isQueuePending := b\<rparr>, m))"

definition execute_effect :: "tx_status \<Rightarrow> vote_page \<Rightarrow> vote_page \<times> AlertModal option" where
  "execute_effect tx p = (case onTransactionStateChange tx (Some ''Proposal Executed!'') None (vp_isExecutePending p) of
     (b, m, _) \<Rightarrow> (p\<lparr>vp_isExecutePending := b\<rparr>, m))"

definition cancel_effect :: "tx_status \<Rightarrow> vote_page \<Rightarrow> vote_page \<times> AlertModal option" where
  "cancel_effect tx p = (case onTransactionStateChange tx (Some ''Proposal Canceled!'') None (vp_isCancelPending p) of
     (b, m, _) \<Rightarrow> (p\<lparr>vp_isCancelPending := b\<rparr>, m))"

section \<open>Casting votes\<close>

datatype Vote = AGAINST | FOR | ABSTAIN

definition vote_number :: "Vote \<Rightarrow> int" where
  "vote_number v = (case v of AGAINST \<Rightarrow> 0 | FOR \<Rightarrow> 1 | ABSTAIN \<Rightarrow> 2)"

record vote_modal =
  vm_vote :: "Vote option"
  vm_voteReason :: string
  vm_isLoading :: bool
  vm_isVoteSuccessful :: bool
  vm_isVoteFailed :: bool
  vm_failureCopy :: string
  vm_errorMessage :: string

definition new_modal :: vote_modal where
  "new_modal = \<lparr>vm_vote = None, vm_voteReason = [], vm_isLoading = False, vm_isVoteSuccessful = False,
     vm_isVoteFailed = False, vm_failureCopy = [], vm_errorMessage = []\<rparr>"

definition getVoteErrorMessage :: "string option \<Rightarrow> string option" where
  "getVoteErrorMessage error =
     (case error of Some e \<Rightarrow> if sublist ''voter already voted'' e then Some ''User Already Voted'' else error | None \<Rightarrow> None)"

definition handleVoteStateChange :: "tx_status \<Rightarrow> vote_modal \<Rightarrow> vote_modal" where
  "handleVoteStateChange state m =
     (case tx_state state of
        TxNone \<Rightarrow> m\<lparr>vm_isLoading := False\<rparr>
      | Mining \<Rightarrow> m\<lparr>vm_isLoading := True\<rparr>
      | Success \<Rightarrow> m\<lparr>vm_isLoading := False, vm_isVoteSuccessful := True\<rparr>
      | Fail \<Rightarrow> m\<lparr>vm_failureCopy := ''Transaction Failed'', vm_errorMessage := or_text (tx_errorMessage state) ''Please try again.'',
          vm_isLoading := False, vm_isVoteFailed := True\<rparr>
      | Exception \<Rightarrow> m\<lparr>vm_failureCopy := ''Error'',
          vm_errorMessage := or_text (getVoteErrorMessage (tx_errorMessage state)) ''Please try again.'',
          vm_isLoading := False, vm_isVoteFailed := True\<rparr>
      | _ \<Rightarrow> m)"

text \<open>The choices that are offered, and the call of the button.\<close>

definition vote_choices :: "bool \<Rightarrow> vote_modal \<Rightarrow> Vote list" where
  "vote_choices isObjectionPeriod m =
     (if vm_isVoteFailed m \<or> vm_isVoteSuccessful m then []
      else if isObjectionPeriod then [AGAINST] else [FOR, AGAINST, ABSTAIN])"

datatype vote_call = CastRefundableVote string Vote | CastRefundableVoteWithReason string Vote string

definition submit_vote :: "string option \<Rightarrow> vote_modal \<Rightarrow> vote_modal \<times> vote_call option" where
  "submit_vote proposalId m =
     (case vm_vote m of
        None \<Rightarrow> (m, None)
      | Some v \<Rightarrow>
          if \<not> truthy proposalId \<or> vm_isLoading m then (m, None)
          else (m\<lparr>vm_isLoading := True\<rparr>,
                Some (if js_trim (vm_voteReason m) = [] then CastRefundableVote (the proposalId) v
                      else CastRefundableVoteWithReason (the proposalId) v (vm_voteReason m))))"

definition resetNonSuccessState :: "vote_modal \<Rightarrow> vote_modal" where
  "resetNonSuccessState m = m\<lparr>vm_isLoading := False, vm_isVoteFailed := False, vm_errorMessage := [], vm_failureCopy := []\<rparr>"

text \<open>The button of the header, and the button of the objection period.\<close>

definition isActiveForVoting :: "vote_page \<Rightarrow> bool" where
  "isActiveForVoting p \<longleftrightarrow> pa_status (vp_proposal p) = Some Active \<or> pa_status (vp_proposal p) = Some ObjectionPeriod"

definition header_vote_button :: "bool \<Rightarrow> int option \<Rightarrow> bool \<Rightarrow> vote_page \<Rightarrow> bool" where
  "header_vote_button isWalletConnected availableVotes hasVoted p \<longleftrightarrow>
     isActiveForVoting p \<and> \<not> vp_isObjectionPeriod p \<and>
     \<not> (\<not> isWalletConnected \<or> availableVotes = None \<or> availableVotes = Some 0 \<or> hasVoted)"

definition objection_vote_button :: "int option \<Rightarrow> bool \<Rightarrow> vote_page \<Rightarrow> bool" where
  "objection_vote_button userVotes hasVoted p \<longleftrightarrow>
     userVotes \<noteq> None \<and> userVotes \<noteq> Some 0 \<and> \<not> hasVoted \<and> vp_isObjectionPeriod p"

section \<open>Guards of the contract\<close>

definition queue_guard :: "int \<Rightarrow> int \<Rightarrow> chain_proposal \<Rightarrow> bool" where
  "queue_guard b t c \<longleftrightarrow> stateInternal (timelock_grace c) b t c = Succeeded"

text \<open>Execution also checks the time of the timelock.\<close>

definition execute_guard :: "bool \<Rightarrow> int \<Rightarrow> int \<Rightarrow> chain_proposal \<Rightarrow> bool" where
  "execute_guard isForkPeriodActive b t c \<longleftrightarrow> stateInternal (timelock_grace c) b t c = Queued \<and> \<not> isForkPeriodActive \<and>
     ch_eta c \<le> t \<and> t \<le> ch_eta c + timelock_grace c"

definition cancel_guard :: "bool \<Rightarrow> bool \<Rightarrow> int \<Rightarrow> int \<Rightarrow> chain_proposal \<Rightarrow> bool" where
  "cancel_guard senderIsProposerOrSigner votesBelowThreshold b t c \<longleftrightarrow>
     stateInternal (timelock_grace c) b t c \<notin> {Cancelled, Defeated, Expired, Executed, Vetoed} \<and>
     (senderIsProposerOrSigner \<or> votesBelowThreshold)"

definition castVote_guard :: "bool \<Rightarrow> int \<Rightarrow> int \<Rightarrow> int \<Rightarrow> chain_proposal \<Rightarrow> bool" where
  "castVote_guard hasVoted support b t c \<longleftrightarrow>
     (if stateInternal (timelock_grace c) b t c = Active then support \<in> {0..2}
      else stateInternal (timelock_grace c) b t c = ObjectionPeriod \<and> support = 0) \<and> \<not> hasVoted"

definition checkProposalUpdatable :: "bool \<Rightarrow> string list \<Rightarrow> int \<Rightarrow> int \<Rightarrow> chain_proposal \<Rightarrow> bool" where
  "checkProposalUpdatable senderIsProposer signers b t c \<longleftrightarrow>
     stateInternal (timelock_grace c) b t c = Updatable \<and> senderIsProposer \<and> signers = []"

section \<open>What the page shows of a stored proposal\<close>

text \<open>The page of an indexed proposal: the entity of the query, parsed at the block and time of the chain.\<close>

definition shown_as :: "chain_proposal \<Rightarrow> int \<Rightarrow> int \<Rightarrow> Proposal \<Rightarrow> bool" where
  "shown_as c b t pr \<longleftrightarrow>
     pa_status pr = Some (stateInternal (timelock_grace c) b t c) \<and> truthy (pa_id pr) \<and>
     pa_endBlock pr = Some (ch_endBlock c) \<and> pa_startBlock pr = Some (ch_startBlock c) \<and>
     pa_objectionPeriodEndBlock pr = Some (ch_objectionPeriodEndBlock c) \<and>
     pa_updatePeriodEndBlock pr = Some (ch_updatePeriodEndBlock c) \<and>
     pa_eta pr = (if ch_eta c = 0 \<or> ch_executed c then None else Some (ch_eta c * 1000)) \<and>
     po_onTimelockV1 pr = ch_onTimelockV1 c"

lemma getProposalState_truncate:
  "getProposalState bn t (PartialProposalSubgraphEntity.truncate e) v3 l = getProposalState bn t e v3 l"
  by (simp only: getProposalState_def PartialProposalSubgraphEntity.truncate_def PartialProposalSubgraphEntity.select_convs)

lemma truncate_lock: "pe_onTimelockV1 (PartialProposalSubgraphEntity.truncate e) = pe_onTimelockV1 e"
  by (simp add: PartialProposalSubgraphEntity.truncate_def)

lemma parsed_shows:
  assumes "indexes c p" "queued_after_success b c" "0 < b" "0 \<le> ch_endBlock c" "prop_id p \<noteq> []"
    "partial_response p = Some (PartialProposalSubgraphEntity.truncate e)"
    "parseSubgraphProposal env (Some e) (Some b) (Some t) toUpdate True = Some (Some pr)"
  shows "shown_as c b t pr" "po_proposer pr = pf_proposer e" "po_signers pr = pe_signers e"
    "pa_id pr = Some (prop_id p)"
proof -
  obtain pp where st: "parsePartialSubgraphProposal (Some (PartialProposalSubgraphEntity.truncate e)) (Some b) (Some t) True = Some pp"
      "pa_status pp = Some (stateInternal (timelock_grace c) b t c)"
    using shown_state [OF assms(1-4), of t] assms(6) by auto
  obtain s where s: "serves c s" "s = PartialProposalSubgraphEntity.truncate e"
    using assms(1,6) by (auto elim: partial_response_serves)
  have i: "pe_id e = prop_id p"
    using assms(6) by (auto simp: partial_response_def PartialProposalSubgraphEntity.truncate_def)
  have tl: "(pe_onTimelockV1 e \<noteq> None) = ch_onTimelockV1 c"
    using s by (auto simp: serves_def PartialProposalSubgraphEntity.truncate_def)
  have "getProposalState (Some b) (Some (t * 1000)) e True (ch_onTimelockV1 c) = Some (stateInternal (timelock_grace c) b t c)"
    using st tl by (auto simp: parsePartialSubgraphProposal_def getProposalState_truncate date_of_seconds_def truncate_lock)
  with assms(5,7) s tl i show "shown_as c b t pr" "po_proposer pr = pf_proposer e" "po_signers pr = pe_signers e" "pa_id pr = Some (prop_id p)"
    by (auto simp: shown_as_def parseSubgraphProposal_def serves_def date_of_seconds_def eta_date_def truthy_def
        PartialProposalSubgraphEntity.truncate_def Let_def)
qed

text \<open>The fields of a page that its effects leave alone, and what they set.\<close>

lemma effects_fields [simp]:
  "vp_proposal (page_effects f p) = vp_proposal p" "vp_account (page_effects f p) = vp_account p"
  "vp_isDaoGteV3 (page_effects f p) = vp_isDaoGteV3 p" "vp_currentBlock (page_effects f p) = vp_currentBlock p"
  "vp_now (page_effects f p) = vp_now p" "vp_isQueuePending (page_effects f p) = vp_isQueuePending p"
  "vp_isExecutePending (page_effects f p) = vp_isExecutePending p" "vp_isCancelPending (page_effects f p) = vp_isCancelPending p"
  by (simp_all add: page_effects_def executable_effect_def objection_effect_def fork_active_effect_def)

lemma open_page_fields [simp]:
  "vp_proposal (open_page pr a v b n) = pr" "vp_account (open_page pr a v b n) = a" "vp_isDaoGteV3 (open_page pr a v b n) = v"
  "vp_currentBlock (open_page pr a v b n) = b" "vp_now (open_page pr a v b n) = n" "\<not> vp_isQueuePending (open_page pr a v b n)"
  "\<not> vp_isExecutePending (open_page pr a v b n)" "\<not> vp_isCancelPending (open_page pr a v b n)"
  by (simp_all add: open_page_def)

lemma executable_after_effects:
  "vp_isExecutable (page_effects f (open_page pr a v b n)) \<longleftrightarrow> \<not> (pa_status pr = Some Queued \<and> f)"
  by (simp add: page_effects_def executable_effect_def objection_effect_def fork_active_effect_def open_page_def)

lemma objection_after_effects:
  assumes "shown_as c b t pr" "0 < b"
  shows "vp_isObjectionPeriod (page_effects f (open_page pr a True (Some b) n)) \<longleftrightarrow>
    0 < ch_objectionPeriodEndBlock c \<and> ch_endBlock c < b \<and> b \<le> ch_objectionPeriodEndBlock c"
  using assms
  by (simp add: page_effects_def executable_effect_def objection_effect_def fork_active_effect_def open_page_def
      shown_as_def known_block_def gt_num_def le_num_def)

lemma shows_updateable:
  assumes "shown_as c b t pr" "0 < b" "vp_proposal q = pr" "vp_isDaoGteV3 q" "vp_currentBlock q = Some b"
  shows "isUpdateable q \<longleftrightarrow> stateInternal (timelock_grace c) b t c = Updatable"
  using assms
  by (auto simp: isUpdateable_def isProposalUpdatable_def shown_as_def known_block_def le_num_def stateInternal_def split: if_splits)

lemma shows_awaiting:
  assumes "shown_as c b t pr" "vp_proposal q = pr" "vp_now q div 1000 = t"
  shows "isAwaitingStateChange q \<longleftrightarrow>
    stateInternal (timelock_grace c) b t c = Succeeded \<or> stateInternal (timelock_grace c) b t c = Queued \<and> ch_eta c \<le> t"
proof -
  have "ch_eta c * 1000 \<le> vp_now q \<longleftrightarrow> ch_eta c \<le> t" using assms(3) by linarith
  moreover have "ch_eta c \<noteq> 0 \<and> \<not> ch_executed c" if "stateInternal (timelock_grace c) b t c = Queued"
    using that by (auto simp: stateInternal_def split: if_splits)
  ultimately show ?thesis using assms(1,2) by (auto simp: isAwaitingStateChange_def hasSucceeded_def shown_as_def)
qed

lemma state_on_time: "stateInternal g b t c = Queued \<Longrightarrow> t \<le> ch_eta c + g"
  by (simp add: stateInternal_def split: if_splits)

lemma shows_nonfinal:
  "shown_as c b t (vp_proposal q) \<Longrightarrow>
   isInNonFinalState q \<longleftrightarrow> stateInternal (timelock_grace c) b t c \<notin> {Cancelled, Defeated, Expired, Executed, Vetoed}"
  by (auto simp: isInNonFinalState_def shown_as_def stateInternal_def)

definition is_signer :: "ProposalSubgraphEntity \<Rightarrow> string \<Rightarrow> bool" where
  "is_signer e account = (case pe_signers e of None \<Rightarrow> False | Some ss \<Rightarrow> toLowerCase account \<in> toLowerCase ` set ss)"

definition demo_vote_chain :: "int \<Rightarrow> chain_proposal" where
  "demo_vote_chain eta = \<lparr>ch_vetoed = False, ch_canceled = False, ch_executed = False, ch_updatePeriodEndBlock = 50,
     ch_startBlock = 100, ch_endBlock = 200, ch_objectionPeriodEndBlock = 0, ch_forVotes = 80,
     ch_againstVotes = 10, ch_quorumVotes = 70, ch_eta = eta, ch_onTimelockV1 = False\<rparr>"

definition demo_vote_stored :: "int \<Rightarrow> proposal" where
  "demo_vote_stored eta = (new_proposal ''7'')
     \<lparr>prop_status := Some (if eta = 0 then ACTIVE else QUEUED), prop_forVotes := Some 80, prop_againstVotes := Some 10,
      prop_abstainVotes := Some 0, prop_quorumVotes := Some 70, prop_startBlock := Some 100, prop_endBlock := Some 200,
      prop_updatePeriodEndBlock := Some 50, prop_objectionPeriodEndBlock := Some 0,
      prop_executionETA := (if eta = 0 then None else Some eta)\<rparr>"

definition demo_vote_entity :: "int \<Rightarrow> ProposalSubgraphEntity" where
  "demo_vote_entity eta = PartialProposalSubgraphEntity.extend (the (partial_response (demo_vote_stored eta)))
     (ProposalSubgraphEntity.fields None None [] [] None None ''1'' ''0x'' ''1'' (Some ''0xab'') ''1'' ''90'')"

definition demo_vote_env :: web_env where
  "demo_vote_env = \<lparr>we_keccak_text = (\<lambda>_. []), we_formatEther = int_to_string, we_abiDecode = (\<lambda>_ _. None)\<rparr>"

lemma demo_vote_facts:
  assumes "0 \<le> eta"
  shows "indexes (demo_vote_chain eta) (demo_vote_stored eta)" "prop_id (demo_vote_stored eta) \<noteq> []"
    "partial_response (demo_vote_stored eta) = Some (PartialProposalSubgraphEntity.truncate (demo_vote_entity eta))"
proof -
  show i: "indexes (demo_vote_chain eta) (demo_vote_stored eta)"
    using assms by (simp add: indexes_def demo_vote_chain_def demo_vote_stored_def new_proposal_def)
  show "prop_id (demo_vote_stored eta) \<noteq> []" by (simp add: demo_vote_stored_def new_proposal_def)
  obtain r where "partial_response (demo_vote_stored eta) = Some r" using partial_response_serves [OF i] by blast
  then show "partial_response (demo_vote_stored eta) = Some (PartialProposalSubgraphEntity.truncate (demo_vote_entity eta))"
    by (simp add: demo_vote_entity_def PartialProposalSubgraphEntity.truncate_def PartialProposalSubgraphEntity.extend_def)
qed

lemma demo_vote_parsed:
  obtains pr where "parseSubgraphProposal demo_vote_env (Some (demo_vote_entity eta)) (Some b) (Some t) False True = Some (Some pr)"
  by (simp add: parseSubgraphProposal_def entity_details_def formatProposalTransactionDetails_def demo_vote_entity_def
      PartialProposalSubgraphEntity.extend_def ProposalSubgraphEntity.fields_def Let_def)

definition signers_of :: "ProposalSubgraphEntity \<Rightarrow> string list" where
  "signers_of e = (case pe_signers e of None \<Rightarrow> [] | Some ss \<Rightarrow> ss)"





text \<open>The note on the objection period does not look at the state: it also stays on a vetoed proposal.\<close>

lemma objection_button_after_veto:
  fixes forkPeriod :: bool and now :: int and account :: string
  assumes "shown_as c b t pr" "0 < b" "ch_vetoed c" "0 < ch_objectionPeriodEndBlock c" "ch_endBlock c < b"
    "b \<le> ch_objectionPeriodEndBlock c" "votes \<noteq> 0"
  defines "q \<equiv> page_effects forkPeriod (open_page pr (Some account) True (Some b) now)"
  shows "objection_vote_button (Some votes) False q" "\<not> castVote_guard False (vote_number AGAINST) b t c"
  using objection_after_effects [OF assms(1,2)] assms
  by (simp_all add: objection_vote_button_def castVote_guard_def stateInternal_def)

section \<open>Cards\<close>

lemma js_get_delegates:
  "distinct (map dg_id ds) \<Longrightarrow> d \<in> set ds \<Longrightarrow> js_get (delegateToNounIds ds) (dg_id d) = Some (dg_nounsRepresented d)"
proof (induction ds rule: rev_induct)
  case (snoc x ds)
  then show ?case by (auto simp: delegateToNounIds_def image_iff js_get_set)
qed simp

text \<open>The number of Nouns on a card is the number of votes that were cast this way.\<close>

lemma cards_count_votes:
  assumes "distinct (map dg_id ds)" "\<forall>v\<in>set votes. \<exists>d\<in>set ds. dg_id d = vr_voter v \<and> length (dg_nounsRepresented d) = weight (vr_voter v)"
  shows "length (getNounVotes (vote_rows (Some ds) votes) s) =
    sum_list (map (\<lambda>v. weight (vr_voter v)) (filter (\<lambda>v. vr_supportDetailed v = s) votes))"
  using assms(2)
proof (induction votes)
  case (Cons v votes)
  then obtain d where d: "d \<in> set ds" "dg_id d = vr_voter v" "length (dg_nounsRepresented d) = weight (vr_voter v)" by auto
  then have "js_get (delegateToNounIds ds) (vr_voter v) = Some (dg_nounsRepresented d)"
    using js_get_delegates [OF assms(1) d(1)] by simp
  with Cons d(3) show ?case by (simp add: getNounVotes_def vote_rows_def)
qed (simp add: getNounVotes_def vote_rows_def)

section \<open>Pending transactions\<close>

text \<open>The button shows a pending transaction exactly while the last known state is that it is mined.\<close>

lemma pending_while_mining:
  "fst (onTransactionStateChange tx s g pending) \<longleftrightarrow> tx_state tx = Mining \<or> tx_state tx = PendingSignature \<and> pending"
  by (cases "tx_state tx") (simp_all add: onTransactionStateChange_def)

lemma runs_pending_while_mining:
  "fold (\<lambda>tx b. fst (onTransactionStateChange tx s g b)) txs False \<longleftrightarrow>
     (\<exists>pre post. map tx_state txs = pre @ Mining # post \<and> set post \<subseteq> {PendingSignature})"
proof (induction txs rule: rev_induct)
  case (snoc tx txs)
  show ?case
  proof
    assume "fold (\<lambda>tx b. fst (onTransactionStateChange tx s g b)) (txs @ [tx]) False"
    then consider "tx_state tx = Mining"
      | "tx_state tx = PendingSignature" "fold (\<lambda>tx b. fst (onTransactionStateChange tx s g b)) txs False"
      by (auto simp: pending_while_mining)
    then show "\<exists>pre post. map tx_state (txs @ [tx]) = pre @ Mining # post \<and> set post \<subseteq> {PendingSignature}"
    proof cases
      case 1
      then show ?thesis by (intro exI [of _ "map tx_state txs"] exI [of _ "[]"]) simp
    next
      case 2
      then obtain pre post where "map tx_state txs = pre @ Mining # post" "set post \<subseteq> {PendingSignature}" using snoc by blast
      then show ?thesis using 2 by (intro exI [of _ pre] exI [of _ "post @ [PendingSignature]"]) simp
    qed
  next
    assume "\<exists>pre post. map tx_state (txs @ [tx]) = pre @ Mining # post \<and> set post \<subseteq> {PendingSignature}"
    then obtain pre post where pp: "map tx_state txs @ [tx_state tx] = pre @ Mining # post" "set post \<subseteq> {PendingSignature}" by auto
    show "fold (\<lambda>tx b. fst (onTransactionStateChange tx s g b)) (txs @ [tx]) False"
    proof (cases post rule: rev_cases)
      case Nil
      with pp show ?thesis by (simp add: pending_while_mining)
    next
      case (snoc post' x)
      then have "map tx_state txs = pre @ Mining # post'" "tx_state tx = x" using pp(1) by auto
      then show ?thesis using pp(2) snoc snoc.IH by (auto simp: pending_while_mining)
    qed
  qed
qed simp

end
