(* ===== verification/Webapp_Bid.thy ===== *)
theory Webapp_Bid
  imports Webapp_Amounts Webapp_Auction
begin

text \<open>
  The form in which bids are placed (\<open>packages/nouns-webapp/src/components/Bid/index.tsx\<close>) against
  \<open>createBid\<close> of \<open>NounsAuctionHouse.sol\<close>.

  Amounts are in wei. The numbers of \<open>bignumber.js\<close> are exact; \<open>parseEther\<close> of the library \<open>ethers\<close> is a
  parameter, \<open>None\<close> where it throws. The text in the input field is a parameter of the handlers.
\<close>

section \<open>The smallest bid\<close>

definition computeMinimumNextBid :: "int \<Rightarrow> int option \<Rightarrow> int" where
  "computeMinimumNextBid currentBid minBidIncPercentage =
     (case minBidIncPercentage of None \<Rightarrow> 0 | Some p \<Rightarrow> \<lceil>rat_of_int currentBid * (of_int p / 100 + 1)\<rceil>)"

text \<open>\<open>toFixed(2, ROUND_CEIL)\<close> of an amount in ether: the hundredths, and the two decimals of a text.\<close>

definition hundredths :: "int \<Rightarrow> nat" where
  "hundredths wei = nat \<lceil>rat_of_int wei / 10 ^ 16\<rceil>"

definition two_decimals :: "nat \<Rightarrow> string" where
  "two_decimals n = to_base 10 (n div 100) @ ''.'' @ js_padStart 2 (CHR ''0'') (to_base 10 (n mod 100))"

definition minBidEth :: "int \<Rightarrow> string" where
  "minBidEth minBid = (if minBid = 0 then ''0.01'' else two_decimals (hundredths minBid))"

section \<open>The form\<close>

definition currentBid :: "(string \<Rightarrow> int option) \<Rightarrow> string \<Rightarrow> int option" where
  "currentBid parseEther input = (if input = [] then Some 0 else parseEther input)"

text \<open>More than two digits behind the point are not accepted.\<close>

definition bidInputHandler :: "string \<Rightarrow> string \<Rightarrow> string" where
  "bidInputHandler input bidInput =
     (if CHR ''.'' \<in> set input \<and> 2 < length (js_split ''.'' input ! 1) then bidInput else input)"

datatype bid_outcome =
    NoBid
  | BidThrows
  | InsufficientBid string
  | PlaceBid int int

text \<open>The bid, or the text that replaces the input when it is too small. Estimating the gas may throw.\<close>

definition placeBidHandler ::
  "(string \<Rightarrow> int option) \<Rightarrow> (int \<Rightarrow> int \<Rightarrow> bool) \<Rightarrow> int option \<Rightarrow> int \<Rightarrow> int \<Rightarrow> string \<Rightarrow> bid_outcome" where
  "placeBidHandler parseEther estimates minBidIncPercentage nounId amount input =
     (if input = [] then NoBid
      else let minBid = computeMinimumNextBid amount minBidIncPercentage
           in case currentBid parseEther input of
                None \<Rightarrow> BidThrows
              | Some v \<Rightarrow> if v < minBid then InsufficientBid (minBidEth minBid)
                          else if estimates nounId v then PlaceBid nounId v else BidThrows)"

section \<open>The button\<close>

datatype bid_status = BidNone | BidPending | BidMining | BidSuccess | BidFail | BidException

record bid_form =
  bf_bidInput :: string
  bf_loading :: bool
  bf_content :: string
  bf_alert :: "(string \<times> string) option"

text \<open>The effects that follow the two transactions; the status of a bid counts before the end of the auction only.\<close>

definition error_text :: "string option \<Rightarrow> string" where
  "error_text e = (case e of None \<Rightarrow> ''Please try again.'' | Some s \<Rightarrow> if s = [] then ''Please try again.'' else s)"

definition place_bid_effect :: "bool \<Rightarrow> bid_status \<Rightarrow> string option \<Rightarrow> bid_form \<Rightarrow> bid_form" where
  "place_bid_effect auctionEnded status errorMessage f =
     (if auctionEnded then f
      else case status of
        BidNone \<Rightarrow> f\<lparr>bf_loading := False, bf_content := ''Place bid''\<rparr>
      | BidMining \<Rightarrow> f\<lparr>bf_loading := True, bf_content := []\<rparr>
      | BidFail \<Rightarrow> f\<lparr>bf_alert := Some (''Transaction Failed'', error_text errorMessage), bf_loading := False, bf_content := ''Bid''\<rparr>
      | BidException \<Rightarrow> f\<lparr>bf_alert := Some (''Error'', error_text errorMessage), bf_loading := False, bf_content := ''Bid''\<rparr>
      | _ \<Rightarrow> f)"

definition settle_effect :: "bool \<Rightarrow> bid_status \<Rightarrow> string option \<Rightarrow> bid_form \<Rightarrow> bid_form" where
  "settle_effect auctionEnded status errorMessage f =
     (if \<not> auctionEnded then f
      else case status of
        BidNone \<Rightarrow> f\<lparr>bf_loading := False, bf_content := ''Settle Auction''\<rparr>
      | BidMining \<Rightarrow> f\<lparr>bf_loading := True, bf_content := []\<rparr>
      | BidSuccess \<Rightarrow> f\<lparr>bf_alert := Some (''Success'', ''Settled auction successfully!''), bf_loading := False,
          bf_content := ''Settle Auction''\<rparr>
      | BidFail \<Rightarrow> f\<lparr>bf_alert := Some (''Transaction Failed'', error_text errorMessage), bf_loading := False,
          bf_content := ''Settle Auction''\<rparr>
      | BidException \<Rightarrow> f\<lparr>bf_alert := Some (''Error'', error_text errorMessage), bf_loading := False,
          bf_content := ''Settle Auction''\<rparr>
      | _ \<Rightarrow> f)"

text \<open>
  A bid that is mined counts as placed when the auction shows the account with the amount in the field;
  the status is set to success and the field is cleared.
\<close>

definition bid_seen_effect ::
  "(string \<Rightarrow> int option) \<Rightarrow> string option \<Rightarrow> string option \<Rightarrow> int \<Rightarrow> bid_status \<Rightarrow> bid_form \<Rightarrow> (bid_status \<times> bid_form) option" where
  "bid_seen_effect parseEther account bidder amount status f =
     (if account = None \<or> account = Some [] then Some (status, f)
      else map_option (\<lambda>v.
        if status = BidMining \<and> bidder = account \<and> v = amount
        then (BidSuccess, f\<lparr>bf_alert := Some (''Success'', ''Bid was placed successfully!''), bf_loading := False,
               bf_content := ''Place bid'', bf_bidInput := []\<rparr>)
        else (status, f)) (currentBid parseEther (bf_bidInput f)))"

section \<open>The contract\<close>

record auction_house =
  ah_nounId :: int
  ah_amount :: int
  ah_endTime :: int
  ah_reservePrice :: int
  ah_minBidIncrementPercentage :: int

definition createBid_guard :: "int \<Rightarrow> int \<Rightarrow> int \<Rightarrow> auction_house \<Rightarrow> bool" where
  "createBid_guard timestamp nounId value' a \<longleftrightarrow>
     ah_nounId a = nounId \<and> timestamp < ah_endTime a \<and> ah_reservePrice a \<le> value' \<and>
     ah_amount a + ah_amount a * ah_minBidIncrementPercentage a div 100 \<le> value'"

section \<open>Properties\<close>

lemma ceiling_div_hundred: "- ((- n) div 100) = (n + 99) div (100::int)"
proof -
  define q r where "q = (n + 99) div 100" and "r = (n + 99) mod 100"
  have "n + 99 = 100 * q + r" "0 \<le> r" "r < 100" by (simp_all add: q_def r_def)
  then have "- n = 100 * (- q) + (99 - r)" "0 \<le> 99 - r" "99 - r < 100" by linarith+
  then have "(- n) div 100 = - q" by (rule int_div_pos_eq)
  then show ?thesis by (simp add: q_def)
qed

lemma minimum_bid:
  assumes "0 \<le> a" "0 \<le> p"
  shows "computeMinimumNextBid a (Some p) = a + (a * p + 99) div 100"
proof -
  have "rat_of_int a * (of_int p / 100 + 1) = of_int (a * p) / of_int 100 + of_int a" by (simp add: field_simps)
  then have "computeMinimumNextBid a (Some p) = \<lceil>rat_of_int (a * p) / of_int 100 + of_int a\<rceil>"
    by (simp only: computeMinimumNextBid_def option.case)
  also have "\<dots> = \<lceil>rat_of_int (a * p) / of_int 100\<rceil> + a" by (rule ceiling_add_of_int)
  also have "\<lceil>rat_of_int (a * p) / of_int 100\<rceil> = - ((- (a * p)) div 100)"
  proof -
    have "- (rat_of_int (a * p) / of_int 100) = of_int (- (a * p)) / of_int 100" by simp
    then show ?thesis unfolding ceiling_def by (simp only: floor_divide_of_int_eq)
  qed
  also have "- ((- (a * p)) div 100) = (a * p + 99) div 100" by (rule ceiling_div_hundred)
  finally show ?thesis by (simp only: add.commute)
qed

text \<open>
  C29: Every bid that the form lets through covers the increment that the auction house requires, for
  every percentage, and the form asks for at most one wei more than the auction house; so the bid
  is accepted when the auction is still running and the reserve price is met.
\<close>

theorem bids_let_through_are_accepted:
  assumes "0 \<le> ah_amount a" "0 \<le> ah_minBidIncrementPercentage a" "timestamp < ah_endTime a"
    "placeBidHandler parseEther estimates (Some (ah_minBidIncrementPercentage a)) (ah_nounId a) (ah_amount a) input = PlaceBid i v"
  shows "(ah_reservePrice a \<le> v \<longrightarrow> createBid_guard timestamp i v a) \<and>
    computeMinimumNextBid (ah_amount a) (Some (ah_minBidIncrementPercentage a))
      \<le> ah_amount a + ah_amount a * ah_minBidIncrementPercentage a div 100 + 1"
proof -
  let ?m = "computeMinimumNextBid (ah_amount a) (Some (ah_minBidIncrementPercentage a))"
  have m: "?m = ah_amount a + (ah_amount a * ah_minBidIncrementPercentage a + 99) div 100"
    using assms(1,2) by (rule minimum_bid)
  have v: "i = ah_nounId a" "?m \<le> v"
    using assms(4) by (auto simp: placeBidHandler_def Let_def split: if_splits option.splits)
  show ?thesis using m v assms(3) by (auto simp: createBid_guard_def)
qed

lemma ceiling_unit:
  assumes "0 < (u :: int)"
  shows "w \<le> \<lceil>rat_of_int w / of_int u\<rceil> * u" "\<lceil>rat_of_int w / of_int u\<rceil> * u < w + u"
proof -
  let ?k = "\<lceil>rat_of_int w / of_int u\<rceil>"
  have b: "rat_of_int w / of_int u \<le> of_int ?k" "of_int ?k < rat_of_int w / of_int u + 1" by linarith+
  have u: "0 < rat_of_int u" using assms by simp
  have "rat_of_int w \<le> of_int ?k * of_int u" using b(1) u by (simp only: divide_le_eq if_True)
  then show "w \<le> ?k * u" by (simp only: of_int_le_iff flip: of_int_mult)
  have "of_int ?k - 1 < rat_of_int w / of_int u" using b(2) by linarith
  then have "(of_int ?k - 1) * of_int u < rat_of_int w" using u by (simp only: less_divide_eq if_True)
  then have "rat_of_int ((?k - 1) * u) < of_int w" by simp
  then have "(?k - 1) * u < w" by (simp only: of_int_less_iff)
  then show "?k * u < w + u" by (simp add: left_diff_distrib)
qed

lemma hundredths_bounds:
  assumes "0 \<le> w"
  shows "w \<le> int (hundredths w) * 10 ^ 16" "int (hundredths w) * 10 ^ 16 < w + 10 ^ 16"
proof -
  have "int (hundredths w) = \<lceil>rat_of_int w / of_int (10 ^ 16)\<rceil>" using assms by (simp add: hundredths_def)
  with ceiling_unit [of "10 ^ 16" w] show "w \<le> int (hundredths w) * 10 ^ 16" "int (hundredths w) * 10 ^ 16 < w + 10 ^ 16"
    by (simp_all only: zero_less_power zero_less_numeral simp_thms)
qed

text \<open>Documented behaviour of \<open>parseEther\<close> on a decimal number with two decimals.\<close>

definition reads_two_decimals :: "(string \<Rightarrow> int option) \<Rightarrow> bool" where
  "reads_two_decimals parseEther \<longleftrightarrow> (\<forall>n. parseEther (two_decimals n) = Some (int n * 10 ^ 16))"

lemma length_two_digits: "n < 100 \<Longrightarrow> length (to_base 10 n) \<le> 2"
  using to_base_bounds [of n] by (cases "n = 0"; cases "n < 10") (auto simp: to_base.simps)

lemma digits_value_pad: "digits_value (replicate k (CHR ''0'') @ to_base 10 n) = n"
proof -
  have z: "replicate k (CHR ''0'') = zeros (int k)" by (simp add: zeros_def)
  show ?thesis unfolding z by (subst digits_value_append) simp_all
qed

lemma two_decimals_split:
  "js_split ''.'' (two_decimals n) = [to_base 10 (n div 100), js_padStart 2 (CHR ''0'') (to_base 10 (n mod 100))]"
proof -
  have nd: "CHR ''.'' \<notin> set (to_base 10 k)" for k using to_base_all_decimal [of k] not_decimal(1) by blast
  then have d: "CHR ''.'' \<notin> set (js_padStart 2 (CHR ''0'') (to_base 10 (n mod 100)))" by (auto simp: js_padStart_def)
  have "js_split ''.'' (js_padStart 2 (CHR ''0'') (to_base 10 (n mod 100))) = [js_padStart 2 (CHR ''0'') (to_base 10 (n mod 100))]"
    using d by (intro js_split_no_sep) (auto simp: sublist_def)
  then show ?thesis using nd by (simp add: two_decimals_def js_split_first)
qed

lemma two_decimals_accepted: "bidInputHandler (two_decimals n) old = two_decimals n"
  using two_decimals_split [of n] length_two_digits [of "n mod 100"] by (simp add: bidInputHandler_def)

text \<open>
  When a bid is too small, the amount that the form puts in its place can be typed into the field,
  is let through by the same check, and is less than one hundredth of an ether above the smallest
  bid.
\<close>

theorem suggested_bid_suffices:
  assumes "reads_two_decimals parseEther" "0 \<le> amount" "0 \<le> p"
    "placeBidHandler parseEther estimates (Some p) nounId amount input = InsufficientBid s"
    "0 < computeMinimumNextBid amount (Some p)"
  shows "bidInputHandler s old = s \<and>
    (\<exists>v. currentBid parseEther s = Some v \<and> computeMinimumNextBid amount (Some p) \<le> v \<and>
       v < computeMinimumNextBid amount (Some p) + 10 ^ 16 \<and>
       (estimates nounId v \<longrightarrow> placeBidHandler parseEther estimates (Some p) nounId amount s = PlaceBid nounId v))"
proof -
  let ?m = "computeMinimumNextBid amount (Some p)"
  have s: "s = two_decimals (hundredths ?m)"
    using assms(4,5) by (auto simp: placeBidHandler_def minBidEth_def Let_def split: if_splits option.splits)
  have ne: "s \<noteq> []" by (simp add: s two_decimals_def)
  define v where "v = int (hundredths ?m) * 10 ^ 16"
  have v: "currentBid parseEther s = Some v" using assms(1) ne by (simp add: currentBid_def s reads_two_decimals_def v_def)
  have "?m \<le> v" "v < ?m + 10 ^ 16" using hundredths_bounds [of ?m] assms(5) by (simp_all add: v_def)
  moreover have "estimates nounId v \<longrightarrow> placeBidHandler parseEther estimates (Some p) nounId amount s = PlaceBid nounId v"
    using v ne \<open>?m \<le> v\<close> by (simp add: placeBidHandler_def)
  ultimately show ?thesis using v two_decimals_accepted [of "hundredths ?m" old] s by blast
qed

definition demo_parseEther :: "string \<Rightarrow> int option" where
  "demo_parseEther s = (case js_split ''.'' s of
     [ip, fp] \<Rightarrow> Some (int (digits_value ip) * 10 ^ 18 + int (digits_value fp) * 10 ^ (18 - length fp)) | _ \<Rightarrow> None)"

theorem bids_let_through_are_accepted_witness:
  "createBid_guard 10 7 1020000000000000000
     \<lparr>ah_nounId = 7, ah_amount = 10 ^ 18, ah_endTime = 20, ah_reservePrice = 1, ah_minBidIncrementPercentage = 2\<rparr>"
proof -
  let ?a = "\<lparr>ah_nounId = 7, ah_amount = 10 ^ 18, ah_endTime = 20, ah_reservePrice = 1, ah_minBidIncrementPercentage = 2\<rparr>"
  have "demo_parseEther ''1.02'' = Some 1020000000000000000" by code_simp
  then have "placeBidHandler demo_parseEther (\<lambda>_ _. True) (Some 2) 7 (10 ^ 18) ''1.02'' = PlaceBid 7 1020000000000000000"
    by (simp add: placeBidHandler_def currentBid_def minimum_bid)
  with bids_let_through_are_accepted [of ?a 10 demo_parseEther "\<lambda>_ _. True" "''1.02''" 7 1020000000000000000]
  show ?thesis by simp
qed

lemma demo_reads: "reads_two_decimals demo_parseEther"
proof -
  have "demo_parseEther (two_decimals n) = Some (int n * 10 ^ 16)" for n
  proof -
    have pads: "length (js_padStart 2 (CHR ''0'') (to_base 10 (n mod 100))) = 2" using length_two_digits [of "n mod 100"] by simp
    have v: "digits_value (js_padStart 2 (CHR ''0'') (to_base 10 (n mod 100))) = n mod 100"
      by (simp add: js_padStart_def digits_value_pad)
    have "int (n div 100) * 10 ^ 18 + int (n mod 100) * 10 ^ 16 = int n * 10 ^ 16"
    proof -
      have "int n = int (n div 100 * 100 + n mod 100)" by (simp only: div_mult_mod_eq)
      then have "int n = int (n div 100) * 100 + int (n mod 100)" by (simp only: of_nat_add of_nat_mult of_nat_numeral)
      then show ?thesis by (simp add: algebra_simps)
    qed
    then show ?thesis using two_decimals_split [of n] pads v by (simp add: demo_parseEther_def)
  qed
  then show ?thesis by (simp add: reads_two_decimals_def)
qed

theorem suggested_bid_suffices_witness:
  "\<exists>s v. placeBidHandler demo_parseEther (\<lambda>_ _. True) (Some 2) 7 (10 ^ 18) ''1.00'' = InsufficientBid s \<and>
     placeBidHandler demo_parseEther (\<lambda>_ _. True) (Some 2) 7 (10 ^ 18) s = PlaceBid 7 v"
proof -
  have "demo_parseEther ''1.00'' = Some 1000000000000000000" by code_simp
  then obtain s where s: "placeBidHandler demo_parseEther (\<lambda>_ _. True) (Some 2) 7 (10 ^ 18) ''1.00'' = InsufficientBid s"
    by (simp add: placeBidHandler_def currentBid_def minimum_bid)
  have "\<exists>v. placeBidHandler demo_parseEther (\<lambda>_ _. True) (Some 2) 7 (10 ^ 18) s = PlaceBid 7 v"
    using suggested_bid_suffices [OF demo_reads _ _ s, of "[]"] by (auto simp: minimum_bid)
  with s show ?thesis by blast
qed

end
