(* ===== verification/Webapp_Escrow.thy ===== *)
theory Webapp_Escrow
  imports Webapp_Fork
begin

text \<open>
  Forking the DAO: the page of a fork (\<open>packages/nouns-webapp/src/pages/Fork/index.tsx\<close>), the button that deploys
  it (\<open>pages/Fork/DeployForkButton.tsx\<close>), the button that withdraws Nouns (\<open>pages/Fork/WithdrawNounsButton.tsx\<close>) and
  the dialog that adds Nouns (\<open>components/AddNounsToForkModal\<close>), against the guards of \<open>NounsDAOV3Fork.sol\<close>.

  A handler maps the state to the new state and the calls it sends. A callback that is memoised without
  dependencies keeps the values of the first rendering; they are parameters of its definition.
\<close>

section \<open>Statuses of transactions\<close>

datatype send_status = StNone | StPendingSignature | StMining | StSuccess | StFail | StException

definition message_of :: "string option \<Rightarrow> string" where
  "message_of e = (case e of None \<Rightarrow> ''Please try again.'' | Some s \<Rightarrow> if s = [] then ''Please try again.'' else s)"

section \<open>The dialog\<close>

record fork_props =
  fp_isForkingPeriod :: bool
  fp_ownedNouns :: "int list option"
  fp_userEscrowedNouns :: "int list option"
  fp_isApprovedForAll :: bool

record fork_form =
  ff_reasonText :: string
  ff_selectedProposals :: "int list"
  ff_selectedNouns :: "int list"
  ff_ownedNouns :: "int list"
  ff_isTwoStepProcess :: bool
  ff_isApprovalWaiting :: bool
  ff_isApprovalLoading :: bool
  ff_approvalErrorMessage :: string
  ff_isApprovalTxSuccessful :: bool
  ff_isLoading :: bool
  ff_isWaiting :: bool
  ff_isTxSuccessful :: bool
  ff_errorMessage :: string
  ff_pollInterval :: int
  ff_isOpen :: bool

definition new_form :: fork_form where
  "new_form = \<lparr>ff_reasonText = [], ff_selectedProposals = [], ff_selectedNouns = [], ff_ownedNouns = [],
     ff_isTwoStepProcess = False, ff_isApprovalWaiting = False, ff_isApprovalLoading = False, ff_approvalErrorMessage = [],
     ff_isApprovalTxSuccessful = False, ff_isLoading = False, ff_isWaiting = False, ff_isTxSuccessful = False,
     ff_errorMessage = [], ff_pollInterval = 0, ff_isOpen = True\<rparr>"

datatype fork_call =
    SetApprovalForAll
  | CallJoinFork "int list" "int list" string
  | CallEscrowToFork "int list" "int list" string

text \<open>The Nouns that are listed: those of the account, with those in escrow sorted in.\<close>

definition listed_nouns :: "fork_props \<Rightarrow> int list" where
  "listed_nouns p =
     (case (fp_ownedNouns p, fp_userEscrowedNouns p) of
        (Some ow, Some es) \<Rightarrow> js_sort (\<lambda>a b. a - b) (ow @ es)
      | (Some ow, None) \<Rightarrow> ow
      | (None, _) \<Rightarrow> [])"

definition list_effect :: "fork_props \<Rightarrow> fork_form \<Rightarrow> fork_form" where
  "list_effect p f = f\<lparr>ff_ownedNouns := listed_nouns p\<rparr>"

definition clearTransactionState :: "fork_form \<Rightarrow> fork_form" where
  "clearTransactionState f = f\<lparr>ff_isWaiting := False, ff_isLoading := False, ff_isTxSuccessful := False, ff_errorMessage := [],
     ff_isApprovalWaiting := False, ff_isApprovalLoading := False, ff_approvalErrorMessage := [],
     ff_isApprovalTxSuccessful := False, ff_isTwoStepProcess := False, ff_pollInterval := 0\<rparr>"

definition clearState :: "fork_form \<Rightarrow> fork_form" where
  "clearState f = clearTransactionState (f\<lparr>ff_isOpen := False, ff_selectedNouns := [], ff_selectedProposals := [], ff_reasonText := []\<rparr>)"

text \<open>The values of \<open>isForkingPeriod\<close>, \<open>selectedProposals\<close> and \<open>reasonText\<close> are those of the rendering that made the function.\<close>

definition addNounsToEscrow :: "bool \<Rightarrow> int list \<Rightarrow> string \<Rightarrow> int list \<Rightarrow> fork_form \<Rightarrow> fork_form \<times> fork_call list" where
  "addNounsToEscrow isForkingPeriod selectedProposals reasonText selectedNouns f =
     (f\<lparr>ff_isWaiting := True, ff_isLoading := False\<rparr>,
      [(if isForkingPeriod then CallJoinFork else CallEscrowToFork) selectedNouns selectedProposals reasonText])"

definition handleSubmission :: "fork_props \<Rightarrow> int list \<Rightarrow> fork_form \<Rightarrow> fork_form \<times> fork_call list" where
  "handleSubmission p selectedNouns f =
     (let f' = clearTransactionState f
      in if fp_isApprovedForAll p
         then addNounsToEscrow (fp_isForkingPeriod p) (ff_selectedProposals f) (ff_reasonText f) selectedNouns f'
         else (f'\<lparr>ff_isTwoStepProcess := True\<rparr>, [SetApprovalForAll]))"

text \<open>
  The callback for the approval is made once, at the first rendering: it sends no proposals and no
  reason, and chooses the call by the period at that time.
\<close>

definition handleSetApprovalForAllAndAddToEscrowStateChange ::
  "bool \<Rightarrow> send_status \<Rightarrow> string option \<Rightarrow> int list \<Rightarrow> fork_form \<Rightarrow> fork_form \<times> fork_call list" where
  "handleSetApprovalForAllAndAddToEscrowStateChange firstIsForkingPeriod status errorMessage selectedNouns f =
     (case status of
        StNone \<Rightarrow> (f\<lparr>ff_isApprovalLoading := False\<rparr>, [])
      | StPendingSignature \<Rightarrow> (f\<lparr>ff_isApprovalWaiting := True\<rparr>, [])
      | StMining \<Rightarrow> (f\<lparr>ff_isApprovalLoading := True, ff_isApprovalWaiting := False\<rparr>, [])
      | StSuccess \<Rightarrow> addNounsToEscrow firstIsForkingPeriod [] [] selectedNouns
          (f\<lparr>ff_isApprovalLoading := False, ff_isApprovalTxSuccessful := True\<rparr>)
      | StFail \<Rightarrow> (f\<lparr>ff_approvalErrorMessage := message_of errorMessage, ff_isApprovalLoading := False\<rparr>, [])
      | StException \<Rightarrow> (f\<lparr>ff_approvalErrorMessage := message_of errorMessage, ff_isApprovalLoading := False,
          ff_isApprovalWaiting := False\<rparr>, []))"

definition handleAddToForkStateChange :: "send_status \<Rightarrow> string option \<Rightarrow> fork_form \<Rightarrow> fork_form" where
  "handleAddToForkStateChange status errorMessage f =
     (case status of
        StNone \<Rightarrow> f\<lparr>ff_isLoading := False\<rparr>
      | StPendingSignature \<Rightarrow> f\<lparr>ff_isWaiting := True\<rparr>
      | StMining \<Rightarrow> f\<lparr>ff_isWaiting := False, ff_isLoading := True, ff_pollInterval := 20\<rparr>
      | StSuccess \<Rightarrow> f\<lparr>ff_isLoading := False, ff_isTxSuccessful := True, ff_selectedNouns := []\<rparr>
      | StFail \<Rightarrow> f\<lparr>ff_errorMessage := message_of errorMessage, ff_isLoading := False, ff_pollInterval := 0\<rparr>
      | StException \<Rightarrow> f\<lparr>ff_errorMessage := message_of errorMessage, ff_isLoading := False, ff_isWaiting := False,
          ff_pollInterval := 0\<rparr>)"

section \<open>Buttons of the dialog\<close>

definition busy :: "fork_form \<Rightarrow> bool" where
  "busy f \<longleftrightarrow> ff_isWaiting f \<or> ff_isLoading f \<or> ff_isApprovalWaiting f \<or> ff_isApprovalLoading f"

definition escrowed :: "fork_props \<Rightarrow> int list" where
  "escrowed p = (case fp_userEscrowedNouns p of None \<Rightarrow> [] | Some es \<Rightarrow> es)"

definition toggle_noun :: "fork_props \<Rightarrow> int \<Rightarrow> fork_form \<Rightarrow> fork_form" where
  "toggle_noun p nounId f =
     (if nounId \<notin> set (ff_ownedNouns f) \<or> busy f \<or> nounId \<in> set (escrowed p) then f
      else let f' = (if ff_approvalErrorMessage f \<noteq> [] \<or> ff_errorMessage f \<noteq> [] \<or> ff_isTxSuccessful f
                     then clearTransactionState f else f)
           in f'\<lparr>ff_selectedNouns := (if nounId \<in> set (ff_selectedNouns f) then filter (\<lambda>i. i \<noteq> nounId) (ff_selectedNouns f)
                                      else ff_selectedNouns f @ [nounId])\<rparr>)"

definition select_all :: "fork_props \<Rightarrow> fork_form \<Rightarrow> fork_form" where
  "select_all p f =
     (case fp_userEscrowedNouns p of
        None \<Rightarrow> f
      | Some es \<Rightarrow>
          if length (ff_ownedNouns f) \<le> length es \<or> busy f then f
          else let f' = (if ff_approvalErrorMessage f \<noteq> [] then clearTransactionState f else f);
                   owned = (case fp_ownedNouns p of None \<Rightarrow> [] | Some ow \<Rightarrow> ow)
               in f'\<lparr>ff_selectedNouns := (if fp_ownedNouns p \<noteq> None \<and> length (ff_selectedNouns f) = length owned then [] else owned)\<rparr>)"

definition submit :: "fork_props \<Rightarrow> fork_form \<Rightarrow> fork_form \<times> fork_call list" where
  "submit p f =
     (if ff_approvalErrorMessage f \<noteq> [] \<or> ff_errorMessage f \<noteq> [] \<or> ff_isTxSuccessful f \<or> ff_isApprovalTxSuccessful f \<or>
         ff_selectedNouns f = [] \<or> busy f
      then (f, []) else handleSubmission p (ff_selectedNouns f) f)"

text \<open>The button behind an error, and the one behind a success when there are further Nouns.\<close>

definition again :: "fork_props \<Rightarrow> fork_form \<Rightarrow> fork_form" where
  "again p f =
     (if ff_approvalErrorMessage f \<noteq> [] \<or> ff_errorMessage f \<noteq> [] \<or>
         ff_isTxSuccessful f \<and> fp_userEscrowedNouns p \<noteq> None \<and> length (escrowed p) < length (ff_ownedNouns f)
      then clearTransactionState f else f)"

section \<open>The page\<close>

record fork_page =
  fk_forkStatusLabel :: string
  fk_addNounsButtonLabel :: string
  fk_isForkPeriodActive :: bool
  fk_isForked :: bool
  fk_isThresholdMet :: bool

definition new_fork_page :: fork_page where
  "new_fork_page = \<lparr>fk_forkStatusLabel = ''Escrow'', fk_addNounsButtonLabel = ''Add Nouns to escrow'',
     fk_isForkPeriodActive = False, fk_isForked = False, fk_isThresholdMet = False\<rparr>"

text \<open>\<open>now\<close> is in milliseconds; the end of the forking period is in seconds, and 0 or missing before execution.\<close>

definition status_effect :: "int \<Rightarrow> int option \<Rightarrow> int \<Rightarrow> int option \<Rightarrow> int option \<Rightarrow> fork_page \<Rightarrow> fork_page" where
  "status_effect now forkingPeriodEndTimestamp tokensInEscrowCount numTokensInForkEscrow forkThreshold p =
     (let ended = (case forkingPeriodEndTimestamp of None \<Rightarrow> None | Some e \<Rightarrow> if e = 0 then None else Some e);
          p' = (case ended of
            Some e \<Rightarrow>
              if now < e * 1000
              then p\<lparr>fk_forkStatusLabel := ''Forking'', fk_addNounsButtonLabel := ''Join fork'', fk_isForkPeriodActive := True\<rparr>
              else if e * 1000 < now then p\<lparr>fk_isForked := True, fk_forkStatusLabel := ''Forked''\<rparr>
              else p\<lparr>fk_forkStatusLabel := ''Pre-escrow'', fk_addNounsButtonLabel := ''Add Nouns to Start Escrow Period''\<rparr>
          | None \<Rightarrow>
              if tokensInEscrowCount \<noteq> 0
              then p\<lparr>fk_forkStatusLabel := ''Escrow'', fk_addNounsButtonLabel := ''Add Nouns to escrow''\<rparr>
              else p\<lparr>fk_forkStatusLabel := ''Pre-escrow'', fk_addNounsButtonLabel := ''Add Nouns to Start Escrow Period''\<rparr>)
      in p'\<lparr>fk_isThresholdMet :=
           (case (numTokensInForkEscrow, forkThreshold) of (Some n, Some t) \<Rightarrow> n \<noteq> 0 \<and> t < n | _ \<Rightarrow> False)\<rparr>)"

definition deploy_button :: "bool \<Rightarrow> bool \<Rightarrow> bool \<Rightarrow> fork_page \<Rightarrow> bool" where
  "deploy_button isUserConnected isLoading isWaiting p \<longleftrightarrow>
     \<not> fk_isForkPeriodActive p \<and> fk_isThresholdMet p \<and> \<not> (\<not> isUserConnected \<or> isLoading \<or> isWaiting)"

definition withdraw_button :: "int list option \<Rightarrow> fork_page \<Rightarrow> bool" where
  "withdraw_button userEscrowedNounIds p \<longleftrightarrow> \<not> fk_isForked p \<and> \<not> fk_isForkPeriodActive p \<and>
     (case userEscrowedNounIds of None \<Rightarrow> False | Some ns \<Rightarrow> ns \<noteq> [])"

datatype add_click = OpenConfirm | OpenDialog

definition add_button :: "int list option \<Rightarrow> fork_page \<Rightarrow> add_click option" where
  "add_button userOwnedNounIds p =
     (if fk_isForked p \<or> userOwnedNounIds = Some [] then None
      else Some (if fk_isForkPeriodActive p then OpenConfirm else OpenDialog))"

section \<open>Buttons that send\<close>

record send_state =
  ss_isLoading :: bool
  ss_isWaiting :: bool
  ss_isError :: bool
  ss_errorMessage :: string
  ss_isTxSuccessful :: bool

definition failure_message :: "string option \<Rightarrow> string" where
  "failure_message e = (case e of None \<Rightarrow> [] | Some s \<Rightarrow> s) @ newline @ ''Please try again.''"

definition handleExecuteForkStateChange :: "send_status \<Rightarrow> string option \<Rightarrow> send_state \<Rightarrow> send_state" where
  "handleExecuteForkStateChange status errorMessage s =
     (case status of
        StNone \<Rightarrow> s\<lparr>ss_isLoading := False, ss_isWaiting := False\<rparr>
      | StPendingSignature \<Rightarrow> s\<lparr>ss_isWaiting := True, ss_errorMessage := []\<rparr>
      | StMining \<Rightarrow> s\<lparr>ss_isLoading := True, ss_isWaiting := False\<rparr>
      | StSuccess \<Rightarrow> s\<lparr>ss_isLoading := False, ss_isTxSuccessful := True\<rparr>
      | StFail \<Rightarrow> s\<lparr>ss_errorMessage := failure_message errorMessage, ss_isLoading := False, ss_isWaiting := False\<rparr>
      | StException \<Rightarrow> s\<lparr>ss_errorMessage := failure_message errorMessage, ss_isLoading := False, ss_isWaiting := False\<rparr>)"

definition handleWithdrawFromForkEscrowStateChange :: "send_status \<Rightarrow> string option \<Rightarrow> send_state \<Rightarrow> send_state" where
  "handleWithdrawFromForkEscrowStateChange status errorMessage s =
     (case status of
        StNone \<Rightarrow> s\<lparr>ss_isLoading := False\<rparr>
      | StPendingSignature \<Rightarrow> s
      | StMining \<Rightarrow> s\<lparr>ss_isLoading := True, ss_isWaiting := False\<rparr>
      | StSuccess \<Rightarrow> s\<lparr>ss_isLoading := False, ss_isWaiting := False, ss_isTxSuccessful := True\<rparr>
      | StFail \<Rightarrow> s\<lparr>ss_isError := True, ss_errorMessage := failure_message errorMessage, ss_isLoading := False, ss_isWaiting := False\<rparr>
      | StException \<Rightarrow> s\<lparr>ss_isError := True, ss_errorMessage := failure_message errorMessage, ss_isLoading := False,
          ss_isWaiting := False\<rparr>)"

section \<open>Guards of the contract\<close>

definition fork_guard :: "bool \<Rightarrow> fork_call \<Rightarrow> bool" where
  "fork_guard isForkPeriodActive c =
     (case c of SetApprovalForAll \<Rightarrow> True | CallJoinFork _ _ _ \<Rightarrow> isForkPeriodActive | CallEscrowToFork _ _ _ \<Rightarrow> \<not> isForkPeriodActive)"

definition executeFork_guard :: "bool \<Rightarrow> int \<Rightarrow> int \<Rightarrow> bool" where
  "executeFork_guard isForkPeriodActive tokensInEscrow forkThreshold \<longleftrightarrow> \<not> isForkPeriodActive \<and> forkThreshold < tokensInEscrow"

definition withdraw_guard :: "bool \<Rightarrow> bool" where
  "withdraw_guard isForkPeriodActive \<longleftrightarrow> \<not> isForkPeriodActive"

section \<open>The page and the contract\<close>

text \<open>
  C31: On the freshly loaded page of the latest fork, deploying is offered exactly when the DAO accepts
  it, withdrawing only when the DAO accepts it, and adding Nouns asks for confirmation exactly when
  the forking period is active.
\<close>

theorem fork_page_matches_dao:
  fixes tokens n :: int
  assumes "now div 1000 = t" "0 \<le> forkThreshold" "forkEndTimestamp \<noteq> 0 \<longrightarrow> now \<noteq> forkEndTimestamp * 1000" "0 \<le> now"
  defines "active \<equiv> t < forkEndTimestamp"
    and "p \<equiv> status_effect now (Some forkEndTimestamp) n (Some tokens) (Some forkThreshold) new_fork_page"
  shows "(deploy_button True False False p \<longleftrightarrow> executeFork_guard active tokens forkThreshold) \<and>
    (withdraw_button ns p \<longrightarrow> withdraw_guard active) \<and>
    (add_button (Some owned) p = Some OpenConfirm \<longleftrightarrow> active \<and> owned \<noteq> []) \<and>
    (fk_forkStatusLabel p = ''Forking'' \<longleftrightarrow> active)"
proof -
  have e: "now < forkEndTimestamp * 1000 \<longleftrightarrow> active" using assms(1) unfolding active_def by linarith
  have z: "forkEndTimestamp = 0 \<Longrightarrow> \<not> active" using assms(1,4) unfolding active_def by linarith
  have a: "fk_isForkPeriodActive p \<longleftrightarrow> active" "fk_isForked p \<longrightarrow> \<not> active" "fk_forkStatusLabel p = ''Forking'' \<longleftrightarrow> active"
    using e z by (auto simp: p_def status_effect_def new_fork_page_def Let_def)
  have t: "fk_isThresholdMet p \<longleftrightarrow> forkThreshold < tokens"
    using assms(2) by (auto simp: p_def status_effect_def Let_def)
  show ?thesis
    using a t by (auto simp: deploy_button_def executeFork_guard_def withdraw_button_def withdraw_guard_def add_button_def)
qed

theorem fork_page_matches_dao_witness:
  "deploy_button True False False (status_effect 5000700 (Some 0) 7 (Some 7) (Some 6) new_fork_page)"
  using fork_page_matches_dao [of 5000700 5000 6 0 7 7 "None" "[]"] by (simp add: executeFork_guard_def)

section \<open>What the dialog sends\<close>

text \<open>
  With an approval for all Nouns the dialog sends the selected Nouns, the selected proposals and the
  reason, with the call that the DAO accepts in the current period. Without it, the Nouns are sent after the
  approval, but neither the proposals nor the reason, and with the call for the period in which
  the dialog was first shown.
\<close>

theorem two_steps_lose_the_form:
  assumes "\<not> busy f" "ff_selectedNouns f \<noteq> []" "ff_approvalErrorMessage f = []" "ff_errorMessage f = []"
    "\<not> ff_isTxSuccessful f" "\<not> ff_isApprovalTxSuccessful f"
  shows "(fp_isApprovedForAll p \<longrightarrow>
      snd (submit p f) = [(if fp_isForkingPeriod p then CallJoinFork else CallEscrowToFork) (ff_selectedNouns f) (ff_selectedProposals f) (ff_reasonText f)] \<and>
      (\<forall>c\<in>set (snd (submit p f)). fork_guard (fp_isForkingPeriod p) c)) \<and>
    (\<not> fp_isApprovedForAll p \<longrightarrow>
      snd (submit p f) = [SetApprovalForAll] \<and>
      snd (handleSetApprovalForAllAndAddToEscrowStateChange first StSuccess None (ff_selectedNouns (fst (submit p f))) (fst (submit p f))) =
        [(if first then CallJoinFork else CallEscrowToFork) (ff_selectedNouns f) [] []])"
  using assms
  by (simp add: submit_def handleSubmission_def addNounsToEscrow_def fork_guard_def clearTransactionState_def Let_def
      handleSetApprovalForAllAndAddToEscrowStateChange_def)

theorem two_steps_lose_the_form_witness:
  "snd (submit \<lparr>fp_isForkingPeriod = True, fp_ownedNouns = Some [3], fp_userEscrowedNouns = Some [], fp_isApprovedForAll = True\<rparr>
      (new_form\<lparr>ff_selectedNouns := [3], ff_reasonText := ''bye''\<rparr>)) = [CallJoinFork [3] [] ''bye'']"
  using two_steps_lose_the_form [of "new_form\<lparr>ff_selectedNouns := [3], ff_reasonText := ''bye''\<rparr>"
      "\<lparr>fp_isForkingPeriod = True, fp_ownedNouns = Some [3], fp_userEscrowedNouns = Some [], fp_isApprovedForAll = True\<rparr>" False]
  by (simp add: new_form_def busy_def)

section \<open>Runs of the dialog\<close>

datatype dialog_event =
    ToggleNoun int
  | SelectAll
  | TypeReason string
  | SelectProposal int
  | RemoveProposal int
  | Submit
  | Again
  | Dismiss
  | ApprovalStatus send_status "string option"
  | ForkStatus send_status "string option"
  | Refetched fork_props

record fork_dialog =
  fd_props :: fork_props
  fd_form :: fork_form
  fd_first :: bool
  fd_sent :: "(fork_props \<times> fork_call) list"

definition sent :: "fork_dialog \<Rightarrow> fork_form \<times> fork_call list \<Rightarrow> fork_dialog" where
  "sent d r = d\<lparr>fd_form := fst r, fd_sent := fd_sent d @ map (\<lambda>c. (fd_props d, c)) (snd r)\<rparr>"

definition dialog_step :: "dialog_event \<Rightarrow> fork_dialog \<Rightarrow> fork_dialog option" where
  "dialog_step e d = Some (let p = fd_props d; f = fd_form d in case e of
     ToggleNoun n \<Rightarrow> d\<lparr>fd_form := toggle_noun p n f\<rparr>
   | SelectAll \<Rightarrow> d\<lparr>fd_form := select_all p f\<rparr>
   | TypeReason s \<Rightarrow> d\<lparr>fd_form := f\<lparr>ff_reasonText := s\<rparr>\<rparr>
   | SelectProposal i \<Rightarrow> d\<lparr>fd_form := f\<lparr>ff_selectedProposals := i # ff_selectedProposals f\<rparr>\<rparr>
   | RemoveProposal i \<Rightarrow> d\<lparr>fd_form := f\<lparr>ff_selectedProposals := filter (\<lambda>j. j \<noteq> i) (ff_selectedProposals f)\<rparr>\<rparr>
   | Submit \<Rightarrow> sent d (submit p f)
   | Again \<Rightarrow> d\<lparr>fd_form := again p f\<rparr>
   | Dismiss \<Rightarrow> d\<lparr>fd_form := clearState f\<rparr>
   | ApprovalStatus st err \<Rightarrow> sent d (handleSetApprovalForAllAndAddToEscrowStateChange (fd_first d) st err (ff_selectedNouns f) f)
   | ForkStatus st err \<Rightarrow> d\<lparr>fd_form := handleAddToForkStateChange st err f\<rparr>
   | Refetched p' \<Rightarrow> d\<lparr>fd_props := p', fd_form := list_effect p' f\<rparr>)"

definition free_nouns :: "fork_props \<Rightarrow> int set" where
  "free_nouns p = (case fp_ownedNouns p of None \<Rightarrow> {} | Some ow \<Rightarrow> set ow) - set (escrowed p)"

text \<open>
  Transactions answer in order: an approval while it is under way, the second transaction from the
  signature over mining to its end. A failed transaction moves no Noun, and the account keeps its selected
  Nouns unless the transaction is being mined.
\<close>

definition wf_props :: "fork_props \<Rightarrow> bool" where
  "wf_props p \<longleftrightarrow> (case fp_ownedNouns p of None \<Rightarrow> True | Some ow \<Rightarrow> distinct ow \<and> set ow \<inter> set (escrowed p) = {})"

definition approving :: "fork_form \<Rightarrow> bool" where
  "approving f \<longleftrightarrow> ff_isTwoStepProcess f \<and> \<not> ff_isApprovalTxSuccessful f \<and> ff_approvalErrorMessage f = []"

definition dialog_legal :: "dialog_event \<Rightarrow> fork_dialog \<Rightarrow> bool" where
  "dialog_legal e d = (let f = fd_form d in case e of
     ApprovalStatus st err \<Rightarrow> approving f
   | ForkStatus st err \<Rightarrow> (case st of
        StNone \<Rightarrow> \<not> ff_isLoading f
      | StPendingSignature \<Rightarrow> ff_isWaiting f
      | StMining \<Rightarrow> ff_isWaiting f
      | StSuccess \<Rightarrow> ff_isLoading f
      | StFail \<Rightarrow> ff_isLoading f \<and> set (ff_selectedNouns f) \<subseteq> free_nouns (fd_props d)
      | StException \<Rightarrow> (ff_isLoading f \<or> ff_isWaiting f) \<and> set (ff_selectedNouns f) \<subseteq> free_nouns (fd_props d))
   | Refetched p' \<Rightarrow> wf_props p' \<and> (ff_isLoading f \<or> set (ff_selectedNouns f) \<subseteq> free_nouns p')
   | _ \<Rightarrow> True)"

text \<open>The invariant: the selection is free unless a transaction is being mined, and results exclude running transactions.\<close>

definition quiet :: "fork_form \<Rightarrow> bool" where
  "quiet f \<longleftrightarrow> \<not> ff_isWaiting f \<and> \<not> ff_isLoading f \<and> ff_errorMessage f = [] \<and> \<not> ff_isTxSuccessful f"

definition form_ok :: "fork_form \<Rightarrow> bool" where
  "form_ok f \<longleftrightarrow> distinct (ff_selectedNouns f) \<and>
     (ff_isWaiting f \<or> ff_isLoading f \<longrightarrow> ff_approvalErrorMessage f = [] \<and> ff_errorMessage f = [] \<and> \<not> ff_isTxSuccessful f) \<and>
     (ff_isLoading f \<longrightarrow> \<not> ff_isWaiting f) \<and> (approving f \<longrightarrow> quiet f)"

definition call_nouns :: "fork_call \<Rightarrow> int list" where
  "call_nouns c = (case c of SetApprovalForAll \<Rightarrow> [] | CallJoinFork ns _ _ \<Rightarrow> ns | CallEscrowToFork ns _ _ \<Rightarrow> ns)"

definition call_ok :: "fork_props \<times> fork_call \<Rightarrow> bool" where
  "call_ok pc \<longleftrightarrow> distinct (call_nouns (snd pc)) \<and> set (call_nouns (snd pc)) \<subseteq> free_nouns (fst pc)"

definition dialog_inv :: "fork_dialog \<Rightarrow> bool" where
  "dialog_inv d \<longleftrightarrow> wf_props (fd_props d) \<and> ff_ownedNouns (fd_form d) = listed_nouns (fd_props d) \<and> form_ok (fd_form d) \<and>
     (ff_isLoading (fd_form d) \<or> set (ff_selectedNouns (fd_form d)) \<subseteq> free_nouns (fd_props d)) \<and>
     (\<forall>pc\<in>set (fd_sent d). call_ok pc)"

lemma listed_free: "n \<in> set (listed_nouns p) \<Longrightarrow> n \<notin> set (escrowed p) \<Longrightarrow> n \<in> free_nouns p"
  by (cases "fp_ownedNouns p"; cases "fp_userEscrowedNouns p") (auto simp: listed_nouns_def free_nouns_def escrowed_def)

lemma clear_fields [simp]:
  "ff_selectedNouns (clearTransactionState f) = ff_selectedNouns f" "ff_ownedNouns (clearTransactionState f) = ff_ownedNouns f"
  "\<not> ff_isLoading (clearTransactionState f)" "\<not> ff_isWaiting (clearTransactionState f)"
  "distinct (ff_selectedNouns f) \<Longrightarrow> form_ok (clearTransactionState f)"
  by (simp_all add: clearTransactionState_def form_ok_def approving_def)

lemma select_fields [simp]:
  "approving (f\<lparr>ff_selectedNouns := ns\<rparr>) = approving f" "quiet (f\<lparr>ff_selectedNouns := ns\<rparr>) = quiet f"
  by (simp_all add: approving_def quiet_def)

lemma select_form_ok: "form_ok f \<Longrightarrow> distinct ns \<Longrightarrow> form_ok (f\<lparr>ff_selectedNouns := ns\<rparr>)"
  unfolding form_ok_def by simp

lemma not_busy: "\<not> busy f \<Longrightarrow> \<not> ff_isLoading f \<and> \<not> ff_isWaiting f"
  by (simp add: busy_def)

lemma toggle_inv:
  assumes "dialog_inv d"
  shows "dialog_inv (d\<lparr>fd_form := toggle_noun (fd_props d) n (fd_form d)\<rparr>)"
proof (cases "n \<notin> set (ff_ownedNouns (fd_form d)) \<or> busy (fd_form d) \<or> n \<in> set (escrowed (fd_props d))")
  case True
  then show ?thesis using assms by (simp add: toggle_noun_def)
next
  case False
  let ?f = "fd_form d"
  define ns where "ns = (if n \<in> set (ff_selectedNouns ?f) then filter (\<lambda>i. i \<noteq> n) (ff_selectedNouns ?f) else ff_selectedNouns ?f @ [n])"
  define g where "g = (if ff_approvalErrorMessage ?f \<noteq> [] \<or> ff_errorMessage ?f \<noteq> [] \<or> ff_isTxSuccessful ?f
    then clearTransactionState ?f else ?f)"
  have inv: "form_ok ?f" "distinct (ff_selectedNouns ?f)" "\<not> ff_isLoading ?f" "set (ff_selectedNouns ?f) \<subseteq> free_nouns (fd_props d)"
    using assms False not_busy by (auto simp: dialog_inv_def form_ok_def)
  have n: "n \<in> free_nouns (fd_props d)" using False assms listed_free by (auto simp: dialog_inv_def)
  have ns: "distinct ns" "set ns \<subseteq> free_nouns (fd_props d)" using inv n by (auto simp: ns_def)
  have g: "form_ok g" "ff_ownedNouns g = ff_ownedNouns ?f" "\<not> ff_isLoading g" using inv by (auto simp: g_def)
  have "toggle_noun (fd_props d) n ?f = g\<lparr>ff_selectedNouns := ns\<rparr>" using False by (simp add: toggle_noun_def g_def ns_def Let_def)
  then show ?thesis using assms g ns select_form_ok [OF g(1) ns(1)] by (simp add: dialog_inv_def)
qed

lemma select_all_inv:
  assumes "dialog_inv d"
  shows "dialog_inv (d\<lparr>fd_form := select_all (fd_props d) (fd_form d)\<rparr>)"
proof (cases "fp_userEscrowedNouns (fd_props d) = None \<or> busy (fd_form d) \<or>
    length (ff_ownedNouns (fd_form d)) \<le> length (escrowed (fd_props d))")
  case True
  then show ?thesis using assms by (auto simp: select_all_def escrowed_def split: option.splits)
next
  case False
  let ?f = "fd_form d"
  define owned where "owned = (case fp_ownedNouns (fd_props d) of None \<Rightarrow> [] | Some ow \<Rightarrow> ow)"
  define ns where "ns = (if fp_ownedNouns (fd_props d) \<noteq> None \<and> length (ff_selectedNouns ?f) = length owned then [] else owned)"
  define g where "g = (if ff_approvalErrorMessage ?f \<noteq> [] then clearTransactionState ?f else ?f)"
  have inv: "form_ok ?f" "distinct (ff_selectedNouns ?f)" "\<not> ff_isLoading ?f" "wf_props (fd_props d)"
    using assms False not_busy by (auto simp: dialog_inv_def form_ok_def)
  have ns: "distinct ns" "set ns \<subseteq> free_nouns (fd_props d)"
    using inv(4) by (auto simp: ns_def owned_def wf_props_def free_nouns_def split: option.splits)
  have g: "form_ok g" "ff_ownedNouns g = ff_ownedNouns ?f" "\<not> ff_isLoading g" using inv by (auto simp: g_def)
  have "select_all (fd_props d) ?f = g\<lparr>ff_selectedNouns := ns\<rparr>"
    using False by (auto simp: select_all_def g_def ns_def owned_def escrowed_def Let_def split: option.splits)
  then show ?thesis using assms g ns select_form_ok [OF g(1) ns(1)] by (simp add: dialog_inv_def)
qed

text \<open>Sending the selection while nothing is mined.\<close>

lemma sending_inv:
  assumes "dialog_inv d" "\<not> ff_isLoading (fd_form d)" "ff_selectedNouns g = ff_selectedNouns (fd_form d)"
    "ff_ownedNouns g = ff_ownedNouns (fd_form d)" "form_ok g" "ff_isLoading g \<longrightarrow> ff_isLoading (fd_form d)"
    "\<forall>c\<in>set cs. call_nouns c = [] \<or> call_nouns c = ff_selectedNouns (fd_form d)"
  shows "dialog_inv (sent d (g, cs))"
proof -
  have "\<forall>c\<in>set cs. call_ok (fd_props d, c)"
  proof
    fix c assume "c \<in> set cs"
    then have "call_nouns c = [] \<or> call_nouns c = ff_selectedNouns (fd_form d)" using assms(7) by blast
    then show "call_ok (fd_props d, c)" using assms(1,2) by (auto simp: call_ok_def dialog_inv_def form_ok_def)
  qed
  then show ?thesis using assms by (auto simp: dialog_inv_def sent_def)
qed

lemma submit_inv: "dialog_inv d \<Longrightarrow> dialog_inv (sent d (submit (fd_props d) (fd_form d)))"
proof -
  assume inv: "dialog_inv d"
  let ?f = "fd_form d"
  show ?thesis
  proof (cases "submit (fd_props d) ?f = (?f, [])")
    case True
    then show ?thesis using inv by (simp add: sent_def dialog_inv_def)
  next
    case False
    then have s: "\<not> busy ?f" "submit (fd_props d) ?f = handleSubmission (fd_props d) (ff_selectedNouns ?f) ?f"
      by (auto simp: submit_def split: if_splits)
    have ok: "distinct (ff_selectedNouns ?f)" "\<not> ff_isLoading ?f" using inv s(1) not_busy by (auto simp: dialog_inv_def form_ok_def)
    show ?thesis unfolding s(2) handleSubmission_def Let_def addNounsToEscrow_def
      using inv ok
      by (auto intro!: sending_inv simp: form_ok_def approving_def quiet_def clearTransactionState_def call_nouns_def)
  qed
qed

lemma approval_inv:
  assumes "dialog_inv d" "approving (fd_form d)"
  shows "dialog_inv (sent d (handleSetApprovalForAllAndAddToEscrowStateChange first st err (ff_selectedNouns (fd_form d)) (fd_form d)))"
proof -
  have q: "quiet (fd_form d)" "distinct (ff_selectedNouns (fd_form d))" "\<not> ff_isLoading (fd_form d)"
    using assms by (auto simp: dialog_inv_def form_ok_def quiet_def)
  show ?thesis unfolding handleSetApprovalForAllAndAddToEscrowStateChange_def addNounsToEscrow_def
    using assms q
    by (cases st) (auto intro!: sending_inv simp: form_ok_def approving_def quiet_def call_nouns_def)
qed

lemma running_facts:
  assumes "form_ok f" "ff_isWaiting f \<or> ff_isLoading f"
  shows "distinct (ff_selectedNouns f)" "ff_approvalErrorMessage f = []" "ff_errorMessage f = []" "\<not> ff_isTxSuccessful f"
    "ff_isLoading f \<longrightarrow> \<not> ff_isWaiting f" "\<not> (ff_isTwoStepProcess f \<and> \<not> ff_isApprovalTxSuccessful f)"
proof -
  show *: "distinct (ff_selectedNouns f)" "ff_approvalErrorMessage f = []" "ff_errorMessage f = []" "\<not> ff_isTxSuccessful f"
    "ff_isLoading f \<longrightarrow> \<not> ff_isWaiting f"
    using assms by (simp_all add: form_ok_def)
  have "\<not> quiet f" using assms(2) by (auto simp: quiet_def)
  then have "\<not> approving f" using assms(1) by (simp add: form_ok_def)
  then show "\<not> (ff_isTwoStepProcess f \<and> \<not> ff_isApprovalTxSuccessful f)" using *(2) by (simp add: approving_def)
qed

text \<open>The second transaction: its statuses keep the form consistent.\<close>

lemma fork_status_form:
  assumes "form_ok f" "case st of StNone \<Rightarrow> \<not> ff_isLoading f | StSuccess \<Rightarrow> ff_isLoading f | StFail \<Rightarrow> ff_isLoading f
    | StException \<Rightarrow> ff_isLoading f \<or> ff_isWaiting f | _ \<Rightarrow> ff_isWaiting f"
  shows "form_ok (handleAddToForkStateChange st err f)"
proof (cases st)
  case StNone
  then have "handleAddToForkStateChange st err f = f" using assms(2) by (cases f) (simp add: handleAddToForkStateChange_def)
  then show ?thesis using assms(1) by simp
next
  case StPendingSignature
  then have "handleAddToForkStateChange st err f = f" using assms(2) by (cases f) (simp add: handleAddToForkStateChange_def)
  then show ?thesis using assms(1) by simp
next
  case StMining
  then have w: "ff_isWaiting f" using assms(2) by simp
  note facts = running_facts [OF assms(1) disjI1 [OF w]]
  then show ?thesis using StMining by (auto simp: handleAddToForkStateChange_def form_ok_def approving_def)
next
  case StSuccess
  then have l: "ff_isLoading f" using assms(2) by simp
  note facts = running_facts [OF assms(1) disjI2 [OF l]]
  then show ?thesis using StSuccess l by (auto simp: handleAddToForkStateChange_def form_ok_def approving_def)
next
  case StFail
  then have l: "ff_isLoading f" using assms(2) by simp
  note facts = running_facts [OF assms(1) disjI2 [OF l]]
  then show ?thesis using StFail l by (auto simp: handleAddToForkStateChange_def form_ok_def approving_def)
next
  case StException
  then have "ff_isWaiting f \<or> ff_isLoading f" using assms(2) by auto
  note facts = running_facts [OF assms(1) this]
  then show ?thesis using StException by (auto simp: handleAddToForkStateChange_def form_ok_def approving_def)
qed

lemma fork_status_fields:
  "ff_ownedNouns (handleAddToForkStateChange st err f) = ff_ownedNouns f"
  "ff_selectedNouns (handleAddToForkStateChange st err f) = (if st = StSuccess then [] else ff_selectedNouns f)"
  "ff_isLoading (handleAddToForkStateChange st err f) \<longleftrightarrow> st = StMining \<or> st = StPendingSignature \<and> ff_isLoading f"
  by (cases st; simp add: handleAddToForkStateChange_def)+

lemma fork_status_inv:
  assumes "dialog_inv d" "dialog_legal (ForkStatus st err) d"
  shows "dialog_inv (d\<lparr>fd_form := handleAddToForkStateChange st err (fd_form d)\<rparr>)"
proof -
  have "form_ok (handleAddToForkStateChange st err (fd_form d))"
    by (rule fork_status_form) (use assms in \<open>cases st; simp add: dialog_inv_def dialog_legal_def Let_def\<close>)+
  moreover have "st = StMining \<or> st = StSuccess \<or> st = StPendingSignature \<and> ff_isLoading (fd_form d) \<or>
      set (ff_selectedNouns (fd_form d)) \<subseteq> free_nouns (fd_props d)"
    using assms by (cases st) (auto simp: dialog_inv_def dialog_legal_def Let_def)
  ultimately show ?thesis using assms(1) unfolding dialog_inv_def by (auto simp: fork_status_fields)
qed

lemma again_inv:
  assumes "dialog_inv d"
  shows "dialog_inv (d\<lparr>fd_form := again (fd_props d) (fd_form d)\<rparr>)"
proof (cases "again (fd_props d) (fd_form d) = fd_form d")
  case False
  then have a: "again (fd_props d) (fd_form d) = clearTransactionState (fd_form d)"
      "ff_approvalErrorMessage (fd_form d) \<noteq> [] \<or> ff_errorMessage (fd_form d) \<noteq> [] \<or> ff_isTxSuccessful (fd_form d)"
    by (auto simp: again_def split: if_splits)
  have ok: "form_ok (fd_form d)" using assms by (simp add: dialog_inv_def)
  then have "distinct (ff_selectedNouns (fd_form d))" by (simp add: form_ok_def)
  moreover have "\<not> ff_isLoading (fd_form d)" using running_facts(2-4) [OF ok] a(2) by blast
  ultimately show ?thesis using assms a(1) by (simp add: dialog_inv_def)
qed (use assms in simp)

lemma form_ok_inputs [simp]:
  "form_ok (f\<lparr>ff_reasonText := x\<rparr>) = form_ok f" "form_ok (f\<lparr>ff_selectedProposals := y\<rparr>) = form_ok f"
  "form_ok (f\<lparr>ff_ownedNouns := z\<rparr>) = form_ok f"
  by (simp_all add: form_ok_def approving_def quiet_def)

lemma dialog_step_inv:
  assumes "dialog_inv d" "dialog_legal e d" "dialog_step e d = Some d'"
  shows "dialog_inv d'"
proof (cases e)
  case (ForkStatus st err)
  then show ?thesis using fork_status_inv [of d st err] assms by (simp add: dialog_step_def Let_def)
next
  case (ApprovalStatus st err)
  then show ?thesis using approval_inv assms by (auto simp: dialog_step_def dialog_legal_def Let_def)
next
  case (Refetched p')
  then show ?thesis
    using assms by (auto simp: dialog_step_def dialog_legal_def dialog_inv_def list_effect_def Let_def)
next
  case Dismiss
  then show ?thesis using assms by (auto simp: dialog_step_def clearState_def dialog_inv_def Let_def)
next
  case (TypeReason s)
  then show ?thesis using assms by (auto simp: dialog_step_def dialog_inv_def Let_def)
next
  case (SelectProposal i)
  then show ?thesis using assms by (auto simp: dialog_step_def dialog_inv_def Let_def)
next
  case (RemoveProposal i)
  then show ?thesis using assms by (auto simp: dialog_step_def dialog_inv_def Let_def)
qed (use assms toggle_inv select_all_inv submit_inv again_inv in \<open>auto simp: dialog_step_def Let_def\<close>)

interpretation escrow_dialog: machine dialog_step dialog_legal dialog_inv
  by unfold_locales (rule dialog_step_inv)

definition new_dialog :: "fork_props \<Rightarrow> fork_dialog" where
  "new_dialog p = \<lparr>fd_props = p, fd_form = list_effect p new_form, fd_first = fp_isForkingPeriod p, fd_sent = []\<rparr>"


definition demo_fork_props :: fork_props where
  "demo_fork_props = \<lparr>fp_isForkingPeriod = False, fp_ownedNouns = Some [3, 5], fp_userEscrowedNouns = Some [4], fp_isApprovedForAll = True\<rparr>"


end
