(* ===== verification/Webapp_Token.thy ===== *)
theory Webapp_Token
  imports Subgraph_Token_Run
begin

text \<open>
  The token and stream hooks of the web application
  (\<open>packages/nouns-webapp/src/wrappers/nounToken.ts\<close>, \<open>wrappers/nounsStream.ts\<close>): the cache of seeds in
  the browser, votes and balances, the Nouns of an account and its escrowed Nouns.

  A hook is a function of the answers it gets; an answer that is missing has not arrived. The storage of
  the browser keeps texts; an object comes back from it as it was stored. A number of a seed that is
  \<open>NaN\<close> is missing. Seeds are numbers of 48 bits, so they are exact.
\<close>

section \<open>Seeds\<close>

record INounSeed =
  in_accessory :: "int option"
  in_background :: "int option"
  in_body :: "int option"
  in_glasses :: "int option"
  in_head :: "int option"

type_synonym seed_storage = "(string, INounSeed) js_map option"

definition isSeedValid :: "(string, int option) js_map option \<Rightarrow> bool" where
  "isSeedValid seed =
     (let s = (case seed of None \<Rightarrow> [] | Some m \<Rightarrow> m);
          expectedKeys = [''background'', ''body'', ''accessory'', ''head'', ''glasses''];
          hasExpectedKeys = list_all (js_has s) expectedKeys;
          hasValidValues = list_ex (\<lambda>(_, v). v \<noteq> Some 0) s
      in hasExpectedKeys \<and> hasValidValues)"

text \<open>The answer of the contract, with its values under their positions and under their names.\<close>

definition seed_result :: "INounSeed \<Rightarrow> (string, int option) js_map" where
  "seed_result r =
     (let vs = [in_background r, in_body r, in_accessory r, in_head r, in_glasses r]
      in zip [''0'', ''1'', ''2'', ''3'', ''4''] vs @ zip [''background'', ''body'', ''accessory'', ''head'', ''glasses''] vs)"

text \<open>The service sends integers as decimal texts.\<close>

record seed_answer =
  sa_id :: string
  sa_background :: string
  sa_body :: string
  sa_accessory :: string
  sa_head :: string
  sa_glasses :: string

definition seed_object :: "seed_answer \<Rightarrow> INounSeed" where
  "seed_object seed =
     \<lparr>in_accessory = string_to_int (sa_accessory seed), in_background = string_to_int (sa_background seed),
      in_body = string_to_int (sa_body seed), in_glasses = string_to_int (sa_glasses seed), in_head = string_to_int (sa_head seed)\<rparr>"

definition seedArrayToObject :: "seed_answer list \<Rightarrow> (string, INounSeed) js_map" where
  "seedArrayToObject seeds = foldl (\<lambda>acc seed. js_set acc (sa_id seed) (seed_object seed)) [] seeds"

text \<open>
  The effect of \<open>useNounSeeds\<close>: \<open>cachedSeeds\<close> is what the rendering saw, which may be older than the storage.
\<close>

definition seeds_effect :: "seed_storage \<Rightarrow> seed_answer list option \<Rightarrow> seed_storage \<Rightarrow> seed_storage" where
  "seeds_effect cachedSeeds data storage =
     (case data of
        Some (x # xs) \<Rightarrow> if cachedSeeds = None then Some (seedArrayToObject (x # xs)) else storage
      | _ \<Rightarrow> storage)"

definition seed_request :: "int \<Rightarrow> seed_storage \<Rightarrow> bool" where
  "seed_request nounId storage \<longleftrightarrow> Option.bind storage (\<lambda>m. js_get m (int_to_string nounId)) = None"

definition useNounSeed :: "int \<Rightarrow> INounSeed option \<Rightarrow> seed_storage \<Rightarrow> INounSeed option \<times> seed_storage" where
  "useNounSeed nounId answer storage =
     (let seed = Option.bind storage (\<lambda>m. js_get m (int_to_string nounId));
          response = (if seed_request nounId storage then answer else None)
      in case response of
           Some r \<Rightarrow> (Some r, case storage of
               Some m \<Rightarrow> if isSeedValid (Some (seed_result r)) then Some (js_set m (int_to_string nounId) r) else storage
             | None \<Rightarrow> None)
         | None \<Rightarrow> (seed, storage))"

section \<open>Votes and balances\<close>

text \<open>\<open>toNumber\<close> throws on numbers that are not safe; \<open>None\<close> is the exception.\<close>

definition toNumber :: "int \<Rightarrow> int option" where
  "toNumber n = (if \<bar>n\<bar> < 2 ^ 53 then Some n else None)"

definition number_hook :: "int option \<Rightarrow> int option option" where
  "number_hook answer = (case answer of None \<Rightarrow> Some None | Some n \<Rightarrow> map_option Some (toNumber n))"

definition AddressZero :: string where
  "AddressZero = ''0x0000000000000000000000000000000000000000''"

definition useAccountVotes :: "(string \<Rightarrow> int option) \<Rightarrow> string \<Rightarrow> int option option" where
  "useAccountVotes getCurrentVotes account = number_hook (getCurrentVotes account)"

definition useUserVotes :: "(string \<Rightarrow> int option) \<Rightarrow> string option \<Rightarrow> int option option" where
  "useUserVotes getCurrentVotes account = useAccountVotes getCurrentVotes (case account of None \<Rightarrow> AddressZero | Some a \<Rightarrow> a)"

definition useUserVotesAsOfBlock ::
  "(string option \<Rightarrow> int option \<Rightarrow> int option) \<Rightarrow> string option \<Rightarrow> int option \<Rightarrow> int option option" where
  "useUserVotesAsOfBlock getPriorVotes account block = number_hook (getPriorVotes account block)"

definition useNounTokenBalance :: "(string \<Rightarrow> int option) \<Rightarrow> string \<Rightarrow> int option option" where
  "useNounTokenBalance balanceOf address = number_hook (balanceOf address)"

definition useUserNounTokenBalance :: "(string option \<Rightarrow> int option) \<Rightarrow> string option \<Rightarrow> int option option" where
  "useUserNounTokenBalance balanceOf account = number_hook (balanceOf account)"

definition useTotalSupply :: "int option \<Rightarrow> int option option" where
  "useTotalSupply totalSupply = number_hook totalSupply"

definition useStreamRemainingBalance :: "int option \<Rightarrow> string option" where
  "useStreamRemainingBalance recipientBalance = map_option int_to_string recipientBalance"

definition useElapsedTime :: "int option \<Rightarrow> int option option" where
  "useElapsedTime elapsedTime = number_hook elapsedTime"

definition useIsApprovedForAll :: "bool option \<Rightarrow> bool" where
  "useIsApprovedForAll answer = (case answer of None \<Rightarrow> False | Some b \<Rightarrow> b)"

text \<open>The JSON description of a Noun; decoding is a parameter and may throw.\<close>

definition useNounToken :: "(string \<Rightarrow> 'json option) \<Rightarrow> string option \<Rightarrow> 'json option option" where
  "useNounToken decode noun = (case noun of
     None \<Rightarrow> Some None
   | Some uri \<Rightarrow> if uri = [] then Some None else map_option Some (decode (last (js_split '';base64,'' uri))))"

section \<open>Nouns of an account\<close>

definition useUserOwnedNounIds :: "string list option \<Rightarrow> int option list option" where
  "useUserOwnedNounIds nouns = map_option (map string_to_int) nouns"

record EscrowedNoun =
  es_noun :: string
  es_fork :: string

definition useUserEscrowedNounIds :: "string \<Rightarrow> EscrowedNoun list option \<Rightarrow> int option list option" where
  "useUserEscrowedNounIds forkId escrowedNouns =
     map_option (foldl (\<lambda>acc n. if es_fork n = forkId then acc @ [string_to_int (es_noun n)] else acc) []) escrowedNouns"

section \<open>The cache and the chain\<close>

text \<open>
  Minting, which the indexer sees, answers of the service at any time, and hooks that show a Noun. The
  contract answers with zeros for a Noun that does not exist. An answer of the service lists some seeds
  of the store: it may be cut or late.
\<close>

record seed_system =
  sy_chain :: "int \<rightharpoonup> seed_params"
  sy_store :: store
  sy_storage :: seed_storage

datatype seed_action =
    Mint event_ctx int seed_params
  | SeedsArrive seed_storage "seed_answer list"
  | ShowSeed int bool

definition shown_seed :: "seed_params \<Rightarrow> INounSeed" where
  "shown_seed p = \<lparr>in_accessory = Some (sp_accessory p), in_background = Some (sp_background p), in_body = Some (sp_body p),
     in_glasses = Some (sp_glasses p), in_head = Some (sp_head p)\<rparr>"

definition chain_seed :: "(int \<rightharpoonup> seed_params) \<Rightarrow> int \<Rightarrow> INounSeed" where
  "chain_seed chain n = shown_seed (case chain n of None \<Rightarrow>
     \<lparr>sp_background = 0, sp_body = 0, sp_accessory = 0, sp_head = 0, sp_glasses = 0\<rparr> | Some p \<Rightarrow> p)"

definition service_seed :: "seed \<Rightarrow> seed_answer" where
  "service_seed sd = \<lparr>sa_id = seed_id sd, sa_background = int_to_string (seed_background sd), sa_body = int_to_string (seed_body sd),
     sa_accessory = int_to_string (seed_accessory sd), sa_head = int_to_string (seed_head sd), sa_glasses = int_to_string (seed_glasses sd)\<rparr>"

fun seed_step :: "seed_action \<Rightarrow> seed_system \<Rightarrow> seed_system option" where
  "seed_step (Mint ctx n p) y = Some (y\<lparr>sy_chain := (sy_chain y)(n \<mapsto> p), sy_store := handleNounCreated ctx n p (sy_store y)\<rparr>)"
| "seed_step (SeedsArrive cached answers) y = Some (y\<lparr>sy_storage := seeds_effect cached (Some answers) (sy_storage y)\<rparr>)"
| "seed_step (ShowSeed n arrived) y =
     Some (y\<lparr>sy_storage := snd (useNounSeed n (if arrived then Some (chain_seed (sy_chain y) n) else None) (sy_storage y))\<rparr>)"

fun seed_legal :: "seed_action \<Rightarrow> seed_system \<Rightarrow> bool" where
  "seed_legal (Mint ctx n p) y = (sy_chain y n = None)"
| "seed_legal (SeedsArrive cached answers) y = (set answers \<subseteq> service_seed ` ran (st_seeds (sy_store y)))"
| "seed_legal (ShowSeed n arrived) y = True"

definition seed_of_noun :: "int \<Rightarrow> seed_params \<Rightarrow> seed" where
  "seed_of_noun n p = \<lparr>seed_id = int_to_string n, seed_background = sp_background p, seed_body = sp_body p,
     seed_accessory = sp_accessory p, seed_head = sp_head p, seed_glasses = sp_glasses p\<rparr>"

definition seed_inv :: "seed_system \<Rightarrow> bool" where
  "seed_inv y \<longleftrightarrow>
     (\<forall>k sd. st_seeds (sy_store y) k = Some sd \<longrightarrow> (\<exists>n p. sy_chain y n = Some p \<and> sd = seed_of_noun n p)) \<and>
     (\<forall>m k v. sy_storage y = Some m \<longrightarrow> js_get m k = Some v \<longrightarrow>
        (\<exists>n p. k = int_to_string n \<and> sy_chain y n = Some p \<and> v = shown_seed p))"

lemma created_seeds: "st_seeds (handleNounCreated ctx n p s) = (st_seeds s)(int_to_string n \<mapsto> seed_of_noun n p)"
  by (auto simp: handleNounCreated_def seed_of_noun_def handler_defs Let_def split: option.splits)

lemma seed_object_of: "seed_object (service_seed (seed_of_noun n p)) = shown_seed p"
  by (simp add: seed_object_def service_seed_def seed_of_noun_def shown_seed_def)

lemma seeds_read:
  assumes "js_get (foldl (\<lambda>acc seed. js_set acc (sa_id seed) (seed_object seed)) acc seeds) k = Some v"
  shows "js_get acc k = Some v \<or> (\<exists>a \<in> set seeds. sa_id a = k \<and> v = seed_object a)"
  using assms
proof (induction seeds arbitrary: acc)
  case (Cons a seeds)
  from Cons.IH [of "js_set acc (sa_id a) (seed_object a)"] Cons.prems show ?case
    by (auto simp: js_get_set split: if_splits)
qed simp

lemma zero_seed_invalid: "isSeedValid (Some (seed_result (chain_seed chain n))) \<Longrightarrow> \<exists>p. chain n = Some p"
  by (auto simp: isSeedValid_def seed_result_def chain_seed_def shown_seed_def Let_def split: option.splits)

lemma seed_inv_step:
  assumes inv: "seed_inv y" and legal: "seed_legal e y" and step: "seed_step e y = Some y'"
  shows "seed_inv y'"
proof (cases e)
  case (Mint ctx n p)
  have "sy_chain y n = None" using legal Mint by simp
  then have keep: "sy_chain y m = Some q \<Longrightarrow> ((sy_chain y)(n \<mapsto> p)) m = Some q" for m q by auto
  have "\<exists>m q. ((sy_chain y)(n \<mapsto> p)) m = Some q \<and> sd = seed_of_noun m q"
    if "st_seeds (handleNounCreated ctx n p (sy_store y)) k = Some sd" for k sd
  proof (cases "k = int_to_string n")
    case True
    then show ?thesis using that by (auto simp: created_seeds)
  next
    case False
    then have "st_seeds (sy_store y) k = Some sd" using that by (simp add: created_seeds)
    then show ?thesis using inv keep unfolding seed_inv_def by blast
  qed
  moreover have "\<exists>i q. k = int_to_string i \<and> ((sy_chain y)(n \<mapsto> p)) i = Some q \<and> v = shown_seed q"
    if "sy_storage y = Some m" "js_get m k = Some v" for m k v
    using inv that keep unfolding seed_inv_def by blast
  ultimately show ?thesis using step Mint by (auto simp: seed_inv_def)
next
  case (SeedsArrive cached answers)
  have "\<exists>n p. k = int_to_string n \<and> sy_chain y n = Some p \<and> v = shown_seed p"
    if "js_get (seedArrayToObject answers) k = Some v" for k v
  proof -
    from that have "js_get [] k = Some v \<or> (\<exists>a \<in> set answers. sa_id a = k \<and> v = seed_object a)"
      unfolding seedArrayToObject_def by (rule seeds_read)
    then obtain a where a: "a \<in> set answers" "sa_id a = k" "v = seed_object a" by auto
    then obtain k' sd where "st_seeds (sy_store y) k' = Some sd" "a = service_seed sd"
      using legal SeedsArrive by (auto simp: ran_def)
    then obtain n p where "sy_chain y n = Some p" "a = service_seed (seed_of_noun n p)"
      using inv unfolding seed_inv_def by blast
    then show ?thesis using a by (auto simp: seed_object_of) (auto simp: service_seed_def seed_of_noun_def)
  qed
  then show ?thesis using inv step SeedsArrive
    by (auto simp: seed_inv_def seeds_effect_def split: list.splits if_splits)
next
  case (ShowSeed n arrived)
  let ?r = "chain_seed (sy_chain y) n"
  have new: "\<exists>p. sy_chain y n = Some p \<and> ?r = shown_seed p" if "isSeedValid (Some (seed_result ?r))"
    using zero_seed_invalid [OF that] by (auto simp: chain_seed_def)
  have "\<exists>i p. k = int_to_string i \<and> sy_chain y i = Some p \<and> v = shown_seed p"
    if "sy_storage y' = Some m" "js_get m k = Some v" for m k v
    using inv step ShowSeed that new unfolding seed_inv_def
    by (auto simp: useNounSeed_def Let_def js_get_set split: option.splits if_splits)
  then show ?thesis using inv step ShowSeed by (auto simp: seed_inv_def)
qed

interpretation seed_cache: machine seed_step seed_legal seed_inv
  by unfold_locales (rule seed_inv_step)

definition no_seeds :: seed_system where
  "no_seeds = \<lparr>sy_chain = Map.empty, sy_store = empty_store, sy_storage = None\<rparr>"

text \<open>
  C36: The seed of a Noun on its way from the chain to the screen. After any run of minting, indexing,
  answers of the service (late or cut) and hooks, whatever was cached is the seed of a Noun that exists:
  the zeros the contract answers for a Noun that is not minted yet are never kept. A hook shows the seed of the
  chain or nothing yet, and asks the chain only for Nouns that are not cached.
\<close>

theorem seeds_follow_chain:
  assumes "legal_run seed_step seed_legal es no_seeds"
  shows "\<exists>y. run_events seed_step es no_seeds = Some y \<and>
    (\<forall>m k v. sy_storage y = Some m \<longrightarrow> js_get m k = Some v \<longrightarrow>
       (\<exists>n p. k = int_to_string n \<and> sy_chain y n = Some p \<and> v = shown_seed p)) \<and>
    (\<forall>n. fst (useNounSeed n (Some (chain_seed (sy_chain y) n)) (sy_storage y)) = Some (chain_seed (sy_chain y) n)) \<and>
    (\<forall>n. fst (useNounSeed n None (sy_storage y)) =
       (if seed_request n (sy_storage y) then None else Some (chain_seed (sy_chain y) n)))"
proof -
  have "seed_inv no_seeds" by (simp add: seed_inv_def no_seeds_def empty_store_def)
  then obtain y where y: "run_events seed_step es no_seeds = Some y" "seed_inv y"
    using seed_cache.legal_run_inv [OF _ assms] by blast
  then have cached: "\<exists>n p. k = int_to_string n \<and> sy_chain y n = Some p \<and> v = shown_seed p"
    if "sy_storage y = Some m" "js_get m k = Some v" for m k v
    using that unfolding seed_inv_def by blast
  have known: "v = chain_seed (sy_chain y) n" if "sy_storage y = Some m" "js_get m (int_to_string n) = Some v" for m n v
    using cached [OF that] by (auto simp: chain_seed_def)
  have "fst (useNounSeed n (Some (chain_seed (sy_chain y) n)) (sy_storage y)) = Some (chain_seed (sy_chain y) n)" for n
    using known by (auto simp: useNounSeed_def seed_request_def Let_def split: option.splits)
  moreover have "fst (useNounSeed n None (sy_storage y)) =
       (if seed_request n (sy_storage y) then None else Some (chain_seed (sy_chain y) n))" for n
    using known by (auto simp: useNounSeed_def seed_request_def Let_def split: option.splits)
  ultimately show ?thesis using y(1) cached by blast
qed

text \<open>Once there is a cache, a Noun that was shown is in it, unless all its parts are zero.\<close>

lemma shown_is_cached:
  assumes "storage = Some m" "isSeedValid (Some (seed_result r))"
  shows "\<not> seed_request n (snd (useNounSeed n (Some r) storage))"
  using assms by (auto simp: useNounSeed_def seed_request_def Let_def js_get_set split: option.splits)

section \<open>The list of Nouns of an account\<close>

text \<open>
  The query for the Nouns of an account names no limit, so the service answers with at most a hundred of
  them; which ones is up to the service.
\<close>

definition serves_first :: "nat \<Rightarrow> 'a list \<Rightarrow> 'a set \<Rightarrow> bool" where
  "serves_first first answer S \<longleftrightarrow> distinct answer \<and> set answer \<subseteq> S \<and> length answer = min first (card S)"

lemma serves_all:
  assumes "serves_first first answer S" "finite S" "card S \<le> first"
  shows "set answer = S"
proof (rule card_subset_eq [OF assms(2)])
  show "set answer \<subseteq> S" using assms(1) by (simp add: serves_first_def)
  have "card (set answer) = length answer" using assms(1) by (simp add: serves_first_def distinct_card)
  then show "card (set answer) = card S" using assms(1,3) by (simp add: serves_first_def)
qed

text \<open>
  The list of Nouns of an account, from the transfers on chain to the hook: it has as many entries as the
  stored balance of the account, and is all its Nouns, as long as these are at most a hundred; an account with more is
  shown exactly a hundred.
\<close>

theorem owned_nouns_listed:
  assumes "legal_run handle_token_event legal_token_event es empty_store"
    and "\<And>s k. run_events handle_token_event es empty_store = Some s \<Longrightarrow> serves_first 100 (answer k) {n. owner_of s n = Some k}"
  shows "\<exists>s. run_events handle_token_event es empty_store = Some s \<and>
    (\<forall>k a. st_accounts s k = Some a \<longrightarrow>
       (\<exists>ids. useUserOwnedNounIds (Some (answer k)) = Some ids \<and> int (length ids) = min 100 (acc_tokenBalance a) \<and>
         (acc_tokenBalance a \<le> 100 \<longrightarrow> set ids = string_to_int ` set (acc_nouns a))))"
proof -
  obtain s where s: "run_events handle_token_event es empty_store = Some s" "token_inv s"
    using token.legal_run_inv [OF token_inv_empty assms(1)] by blast
  then have own: "ownership_inv s" by (simp add: token_inv_def)
  have "\<exists>ids. useUserOwnedNounIds (Some (answer k)) = Some ids \<and> int (length ids) = min 100 (acc_tokenBalance a) \<and>
      (acc_tokenBalance a \<le> 100 \<longrightarrow> set ids = string_to_int ` set (acc_nouns a))" if a: "st_accounts s k = Some a" for k a
  proof -
    have "owns s k n \<longleftrightarrow> owner_of s n = Some k" for n using own by (simp add: ownership_inv_def)
    then have nouns: "{n. owner_of s n = Some k} = set (acc_nouns a)" using a by (auto simp: owns_def)
    have bal: "distinct (acc_nouns a)" "acc_tokenBalance a = int (length (acc_nouns a))"
      using own a by (auto simp: ownership_inv_def balance_ok_def)
    have serve: "serves_first 100 (answer k) (set (acc_nouns a))" using assms(2) [OF s(1), of k] nouns by simp
    then have len: "int (length (answer k)) = min 100 (acc_tokenBalance a)"
      using bal by (simp add: serves_first_def distinct_card)
    have "set (answer k) = set (acc_nouns a)" if "acc_tokenBalance a \<le> 100"
      using serves_all [OF serve] that bal by (simp add: distinct_card)
    with len show ?thesis by (auto simp: useUserOwnedNounIds_def)
  qed
  with s(1) show ?thesis by blast
qed

lemma escrowed_nouns_listed:
  "useUserEscrowedNounIds forkId (Some ns) = Some (map (string_to_int \<circ> es_noun) (filter (\<lambda>n. es_fork n = forkId) ns))"
proof -
  have "foldl (\<lambda>acc n. if es_fork n = forkId then acc @ [string_to_int (es_noun n)] else acc) acc ns =
      acc @ map (string_to_int \<circ> es_noun) (filter (\<lambda>n. es_fork n = forkId) ns)" for acc
    by (induction ns arbitrary: acc) simp_all
  then show ?thesis by (simp add: useUserEscrowedNounIds_def)
qed

section \<open>Examples\<close>

definition demo_seed_params :: seed_params where
  "demo_seed_params = \<lparr>sp_background = 1, sp_body = 7, sp_accessory = 0, sp_head = 2, sp_glasses = 5\<rparr>"

definition demo_seed_run :: "seed_action list" where
  "demo_seed_run = [ShowSeed 3 True, Mint demo_ctx 3 demo_seed_params,
     SeedsArrive None [service_seed (seed_of_noun 3 demo_seed_params)], ShowSeed 4 True]"

theorem seeds_follow_chain_witness:
  "\<exists>y. run_events seed_step demo_seed_run no_seeds = Some y \<and>
     fst (useNounSeed 3 None (sy_storage y)) = Some (shown_seed demo_seed_params) \<and> seed_request 4 (sy_storage y)"
proof -
  have "st_seeds (handleNounCreated demo_ctx 3 demo_seed_params empty_store) = [int_to_string 3 \<mapsto> seed_of_noun 3 demo_seed_params]"
    by (simp only: created_seeds) (simp add: empty_store_def)
  then have legal: "legal_run seed_step seed_legal demo_seed_run no_seeds"
    by (simp add: demo_seed_run_def no_seeds_def)
  then obtain y where y: "run_events seed_step demo_seed_run no_seeds = Some y"
      "\<And>n. fst (useNounSeed n None (sy_storage y)) = (if seed_request n (sy_storage y) then None else Some (chain_seed (sy_chain y) n))"
    using seeds_follow_chain [OF legal] by blast
  have "isSeedValid (Some (seed_result (chain_seed (Map.empty(3 \<mapsto> demo_seed_params)) 4))) = False"
    by (simp add: isSeedValid_def seed_result_def chain_seed_def shown_seed_def)
  then have "\<not> seed_request 3 (sy_storage y)" "seed_request 4 (sy_storage y)" "sy_chain y = [3 \<mapsto> demo_seed_params]"
    using y(1) by (auto simp: demo_seed_run_def no_seeds_def seed_request_def useNounSeed_def seeds_effect_def seedArrayToObject_def
        service_seed_def seed_of_noun_def js_get_def)
  then show ?thesis using y by (auto simp: chain_seed_def)
qed

end
