(* ===== verification/Webapp_Functions.thy ===== *)
theory Webapp_Functions
  imports Webapp_Token
begin

text \<open>
  The serverless functions of the web application (\<open>packages/nouns-webapp/functions\<close>): they read all Nouns from the
  indexer and answer who owns or represents a Noun, with which seeds and votes, and whether a message was signed by
  an account.

  The big-number library, the parser of request bodies and the recovery of a signer are parameters; \<open>None\<close> is an
  exception, which the platform answers with an error of its own. Bodies of answers are values, not yet texts.
\<close>

section \<open>Nouns\<close>

record NormalizedVote =
  nrv_proposalId :: "int option"
  nrv_supportDetailed :: "int option"

record api_seed =
  se_background :: "int option"
  se_body :: "int option"
  se_accessory :: "int option"
  se_head :: "int option"
  se_glasses :: "int option"

record NormalizedNoun =
  nn_id :: "int option"
  nn_owner :: string
  nn_delegatedTo :: "string option"
  nn_votes :: "NormalizedVote list"
  nn_seed :: api_seed

text \<open>What the service sends for a Noun: numbers as texts, votes as the id of the proposal and the support.\<close>

record noun_answer =
  na_id :: string
  na_owner :: string
  na_delegate :: "string option"
  na_votes :: "(string \<times> int) list"
  na_seed :: seed_answer

definition normalizeVote :: "string \<times> int \<Rightarrow> NormalizedVote" where
  "normalizeVote v = \<lparr>nrv_proposalId = string_to_int (fst v), nrv_supportDetailed = Some (snd v)\<rparr>"

definition normalizeSeed :: "seed_answer \<Rightarrow> api_seed" where
  "normalizeSeed s =
     \<lparr>se_background = string_to_int (sa_background s), se_body = string_to_int (sa_body s),
      se_accessory = string_to_int (sa_accessory s), se_head = string_to_int (sa_head s),
      se_glasses = string_to_int (sa_glasses s)\<rparr>"

definition normalizeVotes :: "(string \<times> int) list \<Rightarrow> NormalizedVote list" where
  "normalizeVotes = map normalizeVote"

definition normalizeNoun :: "noun_answer \<Rightarrow> NormalizedNoun" where
  "normalizeNoun n =
     \<lparr>nn_id = string_to_int (na_id n), nn_owner = na_owner n, nn_delegatedTo = na_delegate n,
      nn_votes = normalizeVotes (na_votes n), nn_seed = normalizeSeed (na_seed n)\<rparr>"

definition normalizeNouns :: "noun_answer list \<Rightarrow> NormalizedNoun list" where
  "normalizeNouns = map normalizeNoun"

section \<open>Owners and delegates\<close>

definition bigNumbersEqual :: "(string \<Rightarrow> int option) \<Rightarrow> string option \<Rightarrow> string \<Rightarrow> bool option" where
  "bigNumbersEqual bn a b = do { x \<leftarrow> Option.bind a bn; y \<leftarrow> bn b; Some (x = y) }"

text \<open>A filter whose condition may throw.\<close>

fun filter_throw :: "('a \<Rightarrow> bool option) \<Rightarrow> 'a list \<Rightarrow> 'a list option" where
  "filter_throw f [] = Some []"
| "filter_throw f (x # xs) = do { b \<leftarrow> f x; ys \<leftarrow> filter_throw f xs; Some (if b then x # ys else ys) }"

definition ownerFilterFactory :: "(string \<Rightarrow> int option) \<Rightarrow> string option \<Rightarrow> NormalizedNoun list \<Rightarrow> NormalizedNoun list option" where
  "ownerFilterFactory bn address = filter_throw (\<lambda>noun. bigNumbersEqual bn address (nn_owner noun))"

definition isNounOwner :: "(string \<Rightarrow> int option) \<Rightarrow> string option \<Rightarrow> NormalizedNoun list \<Rightarrow> bool option" where
  "isNounOwner bn address nouns = map_option (\<lambda>xs. 0 < length xs) (ownerFilterFactory bn address nouns)"

definition delegateFilterFactory :: "(string \<Rightarrow> int option) \<Rightarrow> string option \<Rightarrow> NormalizedNoun list \<Rightarrow> NormalizedNoun list option" where
  "delegateFilterFactory bn address =
     filter_throw (\<lambda>noun. case nn_delegatedTo noun of
       None \<Rightarrow> Some False | Some d \<Rightarrow> if d = [] then Some False else bigNumbersEqual bn address d)"

definition isNounDelegate :: "(string \<Rightarrow> int option) \<Rightarrow> string option \<Rightarrow> NormalizedNoun list \<Rightarrow> bool option" where
  "isNounDelegate bn address nouns = map_option (\<lambda>xs. 0 < length xs) (delegateFilterFactory bn address nouns)"

section \<open>Votes by proposal\<close>

record ProposalVote =
  pv_nounId :: "int option"
  pv_owner :: string
  pv_delegatedTo :: "string option"
  pv_supportDetailed :: "int option"

definition builtProposalVote :: "NormalizedNoun \<Rightarrow> NormalizedVote \<Rightarrow> ProposalVote" where
  "builtProposalVote noun v =
     \<lparr>pv_nounId = nn_id noun, pv_owner = nn_owner noun, pv_delegatedTo = nn_delegatedTo noun,
      pv_supportDetailed = nrv_supportDetailed v\<rparr>"

definition push_vote ::
  "NormalizedNoun \<Rightarrow> (int option, ProposalVote list) js_map \<Rightarrow> NormalizedVote \<Rightarrow> (int option, ProposalVote list) js_map" where
  "push_vote noun acc v =
     (let acc = (if js_get acc (nrv_proposalId v) = None then js_set acc (nrv_proposalId v) [] else acc)
      in case js_get acc (nrv_proposalId v) of
           None \<Rightarrow> acc | Some xs \<Rightarrow> js_set acc (nrv_proposalId v) (xs @ [builtProposalVote noun v]))"

definition reduceProposalVotes :: "NormalizedNoun list \<Rightarrow> (int option, ProposalVote list) js_map" where
  "reduceProposalVotes nouns = foldl (\<lambda>acc noun. foldl (push_vote noun) acc (nn_votes noun)) [] nouns"

section \<open>The handlers\<close>

record LiteNoun =
  ln_id :: "int option"
  ln_owner :: string
  ln_delegatedTo :: "string option"

definition lightenNoun :: "NormalizedNoun \<Rightarrow> LiteNoun" where
  "lightenNoun n = \<lparr>ln_id = nn_id n, ln_owner = nn_owner n, ln_delegatedTo = nn_delegatedTo n\<rparr>"

record VerifyResult =
  vr_message :: "string option"
  vr_signature :: "string option"
  vr_providedSigner :: "string option"
  vr_recoveredAddress :: string
  vr_validSignature :: bool
  vr_participant :: "(bool \<times> bool) option"

datatype api_body =
    OwnerBody bool
  | DelegateBody bool
  | LiteNouns "LiteNoun list"
  | SeededNouns "(int option \<times> api_seed) list"
  | NounVotes "(LiteNoun \<times> NormalizedVote list) list"
  | ProposalVotes "(int option, ProposalVote list) js_map"
  | ErrorReason string string
  | Verified VerifyResult

record api_response =
  ar_statusCode :: int
  ar_headers :: "(string \<times> string) list"
  ar_body :: api_body

definition sharedResponseHeaders :: "(string \<times> string) list" where
  "sharedResponseHeaders = [(''Access-Control-Allow-Origin'', ''*'')]"

definition answer_json :: "api_body \<Rightarrow> api_response" where
  "answer_json body =
     \<lparr>ar_statusCode = 200, ar_headers = (''Content-Type'', ''application/json'') # sharedResponseHeaders, ar_body = body\<rparr>"

definition is_noun_owner_handler :: "(string \<Rightarrow> int option) \<Rightarrow> string option \<Rightarrow> noun_answer list \<Rightarrow> api_response option" where
  "is_noun_owner_handler bn body nouns =
     map_option (\<lambda>b. answer_json (OwnerBody b)) (isNounOwner bn body (normalizeNouns nouns))"

definition is_noun_delegate_handler :: "(string \<Rightarrow> int option) \<Rightarrow> string option \<Rightarrow> noun_answer list \<Rightarrow> api_response option" where
  "is_noun_delegate_handler bn body nouns =
     map_option (\<lambda>b. answer_json (DelegateBody b)) (isNounDelegate bn body (normalizeNouns nouns))"

definition noun_owners_handler :: "noun_answer list \<Rightarrow> api_response" where
  "noun_owners_handler nouns = answer_json (LiteNouns (map lightenNoun (normalizeNouns nouns)))"

definition noun_seeds_handler :: "noun_answer list \<Rightarrow> api_response" where
  "noun_seeds_handler nouns = answer_json (SeededNouns (map (\<lambda>n. (nn_id n, nn_seed n)) (normalizeNouns nouns)))"

definition noun_votes_handler :: "noun_answer list \<Rightarrow> api_response" where
  "noun_votes_handler nouns = answer_json (NounVotes (map (\<lambda>n. (lightenNoun n, nn_votes n)) (normalizeNouns nouns)))"

definition proposal_votes_handler :: "noun_answer list \<Rightarrow> api_response" where
  "proposal_votes_handler nouns = answer_json (ProposalVotes (reduceProposalVotes (normalizeNouns nouns)))"

section \<open>Verifying a signature\<close>

text \<open>\<open>has\<close> of the library, called with one of its two arguments, is a function that waits for the other: it is truthy.\<close>

definition has_waiting :: "string \<Rightarrow> bool" where
  "has_waiting prop = True"

definition invalidBodyCheck :: "string option \<Rightarrow> (string \<times> string) option" where
  "invalidBodyCheck body =
     (if body = None \<or> body = Some [] then Some (''empty_body'', ''Request body is missing or empty'')
      else if \<not> has_waiting ''msg'' then Some (''missing_msg'', ''Request is missing msg'')
      else if \<not> has_waiting ''sig'' then Some (''missing_sig'', ''Request is missing signature'')
      else if \<not> has_waiting ''signer'' then Some (''missing_signer'', ''Request is missing signer'')
      else None)"

record verify_request =
  rq_message :: "string option"
  rq_signature :: "string option"
  rq_signer :: "string option"

definition participation ::
  "(string \<Rightarrow> int option) \<Rightarrow> string option \<Rightarrow> noun_answer list \<Rightarrow> (bool \<times> bool) option" where
  "participation bn signer nouns =
     do {
       let normalizedNouns = normalizeNouns nouns;
       d \<leftarrow> isNounDelegate bn signer normalizedNouns;
       w \<leftarrow> isNounOwner bn signer normalizedNouns;
       Some (d, w)
     }"

definition verify_signature_handler ::
  "(string \<Rightarrow> int option) \<Rightarrow> (string \<Rightarrow> verify_request option) \<Rightarrow> (string option \<Rightarrow> string option \<Rightarrow> string option) \<Rightarrow>
   string option \<Rightarrow> string option \<Rightarrow> noun_answer list \<Rightarrow> api_response option" where
  "verify_signature_handler bn parse verifyMessage body fetchParticipation nouns =
     (case invalidBodyCheck body of
        Some (error, message) \<Rightarrow> Some \<lparr>ar_statusCode = 400, ar_headers = [], ar_body = ErrorReason error message\<rparr>
      | None \<Rightarrow>
          do {
            request \<leftarrow> Option.bind body parse;
            recoveredAddress \<leftarrow> verifyMessage (rq_message request) (rq_signature request);
            validSignature \<leftarrow> bigNumbersEqual bn (rq_signer request) recoveredAddress;
            participantData \<leftarrow> (if fetchParticipation \<notin> {None, Some []} \<and> validSignature
              then map_option Some (participation bn (rq_signer request) nouns) else Some None);
            Some (answer_json (Verified
              \<lparr>vr_message = rq_message request, vr_signature = rq_signature request, vr_providedSigner = rq_signer request,
               vr_recoveredAddress = recoveredAddress, vr_validSignature = validSignature, vr_participant = participantData\<rparr>))
          })"

section \<open>Votes are grouped without loss\<close>

definition votes_for :: "int option \<Rightarrow> NormalizedNoun \<Rightarrow> ProposalVote list" where
  "votes_for p noun = map (builtProposalVote noun) (filter (\<lambda>v. nrv_proposalId v = p) (nn_votes noun))"

definition group :: "(int option, ProposalVote list) js_map \<Rightarrow> int option \<Rightarrow> ProposalVote list" where
  "group m p = (case js_get m p of None \<Rightarrow> [] | Some xs \<Rightarrow> xs)"

lemma group_push: "group (push_vote noun acc v) p = group acc p @ (if nrv_proposalId v = p then [builtProposalVote noun v] else [])"
  by (auto simp: push_vote_def group_def Let_def js_get_set split: option.splits if_splits)

lemma push_known: "js_get (push_vote noun acc v) p = None \<longleftrightarrow> js_get acc p = None \<and> nrv_proposalId v \<noteq> p"
  by (auto simp: push_vote_def Let_def js_get_set split: option.splits if_splits)

lemma group_votes:
  "group (foldl (push_vote noun) acc vs) p = group acc p @ map (builtProposalVote noun) (filter (\<lambda>v. nrv_proposalId v = p) vs)"
  by (induction vs arbitrary: acc) (simp_all add: group_push)

lemma votes_known: "js_get (foldl (push_vote noun) acc vs) p = None \<longleftrightarrow> js_get acc p = None \<and> (\<forall>v \<in> set vs. nrv_proposalId v \<noteq> p)"
  by (induction vs arbitrary: acc) (auto simp: push_known)

text \<open>
  The function for the votes of proposals loses and invents nothing: under each proposal stand exactly the votes
  that the Nouns cast on it, in the order of the Nouns and of their votes, and a proposal is listed if and only if
  some Noun voted on it.
\<close>

theorem proposal_votes_complete:
  "group (reduceProposalVotes nouns) p = concat (map (votes_for p) nouns) \<and>
   (js_get (reduceProposalVotes nouns) p = None \<longleftrightarrow> (\<forall>n \<in> set nouns. votes_for p n = []))"
proof -
  have "group (foldl (\<lambda>acc noun. foldl (push_vote noun) acc (nn_votes noun)) acc nouns) p = group acc p @ concat (map (votes_for p) nouns)" for acc
    by (induction nouns arbitrary: acc) (simp_all add: group_votes votes_for_def)
  moreover have "js_get (foldl (\<lambda>acc noun. foldl (push_vote noun) acc (nn_votes noun)) acc nouns) p = None \<longleftrightarrow>
      js_get acc p = None \<and> (\<forall>n \<in> set nouns. votes_for p n = [])" for acc
    by (induction nouns arbitrary: acc) (auto simp: votes_known votes_for_def filter_empty_conv)
  ultimately show ?thesis by (simp add: reduceProposalVotes_def group_def)
qed

section \<open>Owners and delegates follow the chain\<close>

text \<open>The texts at hand are addresses: the library reads each, and different ones as different numbers.\<close>

definition address_numbers :: "(string \<Rightarrow> int option) \<Rightarrow> string set \<Rightarrow> bool" where
  "address_numbers bn K \<longleftrightarrow> (\<forall>k \<in> K. bn k \<noteq> None) \<and> inj_on bn K"

text \<open>The answer to a query without a limit: a hundred Nouns of the store at most.\<close>

definition serves_nouns :: "store \<Rightarrow> noun_answer list \<Rightarrow> bool" where
  "serves_nouns s ns \<longleftrightarrow> serves_first 100 (map na_id ns) (dom (st_nouns s)) \<and>
     (\<forall>a \<in> set ns. owner_of s (na_id a) = Some (na_owner a) \<and>
        na_delegate a = Option.bind (st_accounts s (na_owner a)) acc_delegate)"

definition store_addresses :: "store \<Rightarrow> string set" where
  "store_addresses s = {k. \<exists>n. owner_of s n = Some k} \<union> {d. \<exists>k a. st_accounts s k = Some a \<and> acc_delegate a = Some d}"

lemma filter_throw_some:
  assumes "\<And>x. x \<in> set xs \<Longrightarrow> f x = Some (g x)"
  shows "filter_throw f xs = Some (filter g xs)"
  using assms by (induction xs) auto

lemma bn_equal:
  assumes "address_numbers bn K" "k \<in> K" "j \<in> K" "bn x = bn k"
  shows "bigNumbersEqual bn (Some x) j = Some (j = k)"
proof -
  obtain m where m: "bn k = Some m" using assms(1,2) by (auto simp: address_numbers_def)
  obtain n where n: "bn j = Some n" using assms(1,3) by (auto simp: address_numbers_def)
  have "inj_on bn K" using assms(1) by (simp add: address_numbers_def)
  from inj_on_eq_iff [OF this assms(3,2)] have "m = n \<longleftrightarrow> j = k" using m n by auto
  then show ?thesis using m n assms(4) by (simp add: bigNumbersEqual_def)
qed

lemma nouns_finite:
  assumes "token_inv s"
  shows "finite (dom (st_nouns s))"
proof -
  have own: "ownership_inv s" and fin: "finite (holders s)" using assms by (simp_all add: token_inv_def counters_inv_def)
  have "dom (st_nouns s) \<subseteq> (\<Union>k \<in> holders s. set (acc_nouns (the (st_accounts s k))))"
  proof
    fix n assume "n \<in> dom (st_nouns s)"
    then obtain m k where "st_nouns s n = Some m" "noun_owner m = Some k" using own unfolding ownership_inv_def by blast
    then have "owner_of s n = Some k" by (simp add: owner_of_def)
    then obtain a where "st_accounts s k = Some a" "n \<in> set (acc_nouns a)" using own unfolding ownership_inv_def owns_def by blast
    then show "n \<in> (\<Union>k \<in> holders s. set (acc_nouns (the (st_accounts s k))))" by (force simp: holders_def)
  qed
  moreover have "finite (\<Union>k \<in> holders s. set (acc_nouns (the (st_accounts s k))))" using fin by simp
  ultimately show ?thesis by (rule finite_subset)
qed

lemma owner_answers:
  assumes "address_numbers bn (insert k (store_addresses s))" "bn x = bn k" "serves_nouns s ns"
  shows "isNounOwner bn (Some x) (normalizeNouns ns) = Some (\<exists>a \<in> set ns. na_owner a = k)"
proof -
  have "ownerFilterFactory bn (Some x) (normalizeNouns ns) = Some (filter (\<lambda>n. nn_owner n = k) (normalizeNouns ns))"
    unfolding ownerFilterFactory_def
  proof (rule filter_throw_some)
    fix n assume "n \<in> set (normalizeNouns ns)"
    then obtain a where "a \<in> set ns" "nn_owner n = na_owner a" by (auto simp: normalizeNouns_def normalizeNoun_def)
    then have "nn_owner n \<in> store_addresses s" using assms(3) by (auto simp: serves_nouns_def store_addresses_def)
    then show "bigNumbersEqual bn (Some x) (nn_owner n) = Some (nn_owner n = k)"
      using assms(2) by (intro bn_equal [OF assms(1)]) auto
  qed
  then show ?thesis by (auto simp: isNounOwner_def normalizeNouns_def normalizeNoun_def filter_empty_conv)
qed

lemma delegate_answers:
  assumes "address_numbers bn (insert k (store_addresses s))" "bn x = bn k" "serves_nouns s ns" "k \<noteq> []"
  shows "isNounDelegate bn (Some x) (normalizeNouns ns) = Some (\<exists>a \<in> set ns. na_delegate a = Some k)"
proof -
  have "delegateFilterFactory bn (Some x) (normalizeNouns ns) =
      Some (filter (\<lambda>n. nn_delegatedTo n = Some k) (normalizeNouns ns))"
    unfolding delegateFilterFactory_def
  proof (rule filter_throw_some)
    fix n assume "n \<in> set (normalizeNouns ns)"
    then have "nn_delegatedTo n = Some d \<Longrightarrow> d \<in> store_addresses s" for d
      using assms(3) by (auto simp: normalizeNouns_def normalizeNoun_def serves_nouns_def store_addresses_def split: bind_splits)
    then have "nn_delegatedTo n = Some d \<Longrightarrow> bigNumbersEqual bn (Some x) d = Some (d = k)" for d
      using assms(2) by (intro bn_equal [OF assms(1)]) auto
    then show "(case nn_delegatedTo n of None \<Rightarrow> Some False | Some d \<Rightarrow> if d = [] then Some False else bigNumbersEqual bn (Some x) d) =
        Some (nn_delegatedTo n = Some k)"
      using assms(4) by (auto split: option.splits)
  qed
  then show ?thesis by (auto simp: isNounDelegate_def normalizeNouns_def normalizeNoun_def filter_empty_conv)
qed

text \<open>
  C40: The functions for owners and delegates follow the chain. After any run of events that the token contract
  can emit, whatever spelling of an address a request has, an account is reported as an owner exactly if its stored balance is
  positive, and as a delegate exactly if it represents a Noun, as long as there are at most a hundred Nouns. With more,
  an account that is reported is one, but some may be missing.
\<close>

theorem owners_and_delegates_reported:
  assumes "legal_run handle_token_event legal_token_event es empty_store"
    and "\<And>s. run_events handle_token_event es empty_store = Some s \<Longrightarrow>
      serves_nouns s ns \<and> address_numbers bn (insert k (store_addresses s))"
    and "bn x = bn k" "k \<noteq> []"
  shows "\<exists>s w d. run_events handle_token_event es empty_store = Some s \<and>
    is_noun_owner_handler bn (Some x) ns = Some (answer_json (OwnerBody w)) \<and>
    is_noun_delegate_handler bn (Some x) ns = Some (answer_json (DelegateBody d)) \<and>
    (w \<longrightarrow> (\<exists>a. st_accounts s k = Some a \<and> 0 < acc_tokenBalance a)) \<and> (d \<longrightarrow> represented s k \<noteq> {}) \<and>
    (card (dom (st_nouns s)) \<le> 100 \<longrightarrow>
       (w \<longleftrightarrow> (\<exists>a. st_accounts s k = Some a \<and> 0 < acc_tokenBalance a)) \<and> (d \<longleftrightarrow> represented s k \<noteq> {}))"
proof -
  obtain s where s: "run_events handle_token_event es empty_store = Some s" "token_inv s"
    using token.legal_run_inv [OF token_inv_empty assms(1)] by blast
  then have own: "ownership_inv s" by (simp add: token_inv_def)
  have serves: "serves_nouns s ns" and num: "address_numbers bn (insert k (store_addresses s))" using assms(2) [OF s(1)] by auto
  let ?w = "\<exists>a \<in> set ns. na_owner a = k" and ?d = "\<exists>a \<in> set ns. na_delegate a = Some k"
  have owns_iff: "owner_of s n = Some j \<longleftrightarrow> (\<exists>a. st_accounts s j = Some a \<and> n \<in> set (acc_nouns a))" for n j
    using own by (auto simp: ownership_inv_def owns_def)
  have pos: "0 < acc_tokenBalance a \<longleftrightarrow> acc_nouns a \<noteq> []" if "st_accounts s j = Some a" for j a
    using own that by (auto simp: ownership_inv_def balance_ok_def)
  have bal: "(\<exists>n. owner_of s n = Some k) \<longleftrightarrow> (\<exists>a. st_accounts s k = Some a \<and> 0 < acc_tokenBalance a)"
    using pos by (auto simp: owns_iff) (metis list.set_intros(1) neq_Nil_conv)
  have rep: "represented s k \<noteq> {} \<longleftrightarrow> (\<exists>n j. owner_of s n = Some j \<and> Option.bind (st_accounts s j) acc_delegate = Some k)"
    by (auto simp: represented_def owns_iff) metis
  have known: "owner_of s (na_id a) = Some (na_owner a)" "na_delegate a = Option.bind (st_accounts s (na_owner a)) acc_delegate"
    if "a \<in> set ns" for a using serves that by (auto simp: serves_nouns_def)
  have all: "\<exists>a \<in> set ns. na_id a = n" if "card (dom (st_nouns s)) \<le> 100" "owner_of s n = Some j" for n j
  proof -
    have "set (map na_id ns) = dom (st_nouns s)"
      using serves by (intro serves_all [OF _ nouns_finite [OF s(2)] that(1)]) (simp add: serves_nouns_def)
    moreover have "n \<in> dom (st_nouns s)" using that(2) by (auto simp: owner_of_def split: option.splits)
    ultimately have "n \<in> na_id ` set ns" by simp
    then show ?thesis by blast
  qed
  have w: "?w \<longrightarrow> (\<exists>n. owner_of s n = Some k)" using known(1) by blast
  have d: "?d \<longrightarrow> (\<exists>n j. owner_of s n = Some j \<and> Option.bind (st_accounts s j) acc_delegate = Some k)" using known by metis
  have "?w" if "card (dom (st_nouns s)) \<le> 100" "owner_of s n = Some k" for n
    using all [OF that] known(1) that(2) by (metis option.inject)
  moreover have "?d" if "card (dom (st_nouns s)) \<le> 100" "owner_of s n = Some j" "Option.bind (st_accounts s j) acc_delegate = Some k" for n j
    using all [OF that(1,2)] known that(2,3) by (metis option.inject)
  ultimately have "(?w \<longrightarrow> (\<exists>a. st_accounts s k = Some a \<and> 0 < acc_tokenBalance a)) \<and> (?d \<longrightarrow> represented s k \<noteq> {}) \<and>
      (card (dom (st_nouns s)) \<le> 100 \<longrightarrow>
         (?w \<longleftrightarrow> (\<exists>a. st_accounts s k = Some a \<and> 0 < acc_tokenBalance a)) \<and> (?d \<longleftrightarrow> represented s k \<noteq> {}))"
    unfolding bal [symmetric] rep using w d by blast
  moreover have "is_noun_owner_handler bn (Some x) ns = Some (answer_json (OwnerBody ?w))"
      "is_noun_delegate_handler bn (Some x) ns = Some (answer_json (DelegateBody ?d))"
    using owner_answers [OF num assms(3) serves] delegate_answers [OF num assms(3) serves assms(4)]
    by (simp_all add: is_noun_owner_handler_def is_noun_delegate_handler_def)
  ultimately show ?thesis using s(1) by blast
qed

section \<open>Signatures\<close>

text \<open>
  C3: Verifying a signature. Only an empty body is answered with an error; a body without a message, a signature or a
  signer passes the check, because the check asks a function that waits for its second argument. When all is read, the answer
  says whether the recovered account is the given signer, and tells about Nouns only then, whatever text
  asks for it, also the text \<open>false\<close>.
\<close>

theorem verify_signature_answers:
  "(verify_signature_handler bn parse verifyMessage body fetch nouns = Some r \<longrightarrow>
      (ar_statusCode r = 400 \<longleftrightarrow> body = None \<or> body = Some [])) \<and>
   (\<forall>t request a n m. body = Some t \<longrightarrow> t \<noteq> [] \<longrightarrow> parse t = Some request \<longrightarrow>
      verifyMessage (rq_message request) (rq_signature request) = Some a \<longrightarrow>
      Option.bind (rq_signer request) bn = Some n \<longrightarrow> bn a = Some m \<longrightarrow> (fetch = None \<or> n \<noteq> m) \<longrightarrow>
      verify_signature_handler bn parse verifyMessage body fetch nouns = Some (answer_json (Verified
        \<lparr>vr_message = rq_message request, vr_signature = rq_signature request, vr_providedSigner = rq_signer request,
         vr_recoveredAddress = a, vr_validSignature = (n = m), vr_participant = None\<rparr>)))"
  by (auto simp: verify_signature_handler_def invalidBodyCheck_def has_waiting_def answer_json_def bigNumbersEqual_def
      split: option.splits bind_splits if_splits)

section \<open>An example\<close>

text \<open>A reading of texts as numbers that is injective.\<close>

fun text_number :: "string \<Rightarrow> nat" where
  "text_number [] = 0"
| "text_number (c # cs) = of_char c + 1 + 257 * text_number cs"

lemma text_number_digits:
  "(of_char c + 1 + 257 * n :: nat) mod 257 = of_char c + 1" "(of_char c + 1 + 257 * n :: nat) div 257 = n"
proof -
  have c: "of_char c + 1 < (257 :: nat)" using nat_of_char_less_256 [of c] by simp
  then show "(of_char c + 1 + 257 * n :: nat) mod 257 = of_char c + 1" by (simp only: mod_mult_self2 mod_less)
  from c show "(of_char c + 1 + 257 * n :: nat) div 257 = n" using div_mult_self2 [of 257 "of_char c + 1" n] by simp
qed

lemma text_number_inject: "text_number x = text_number y \<Longrightarrow> x = y"
proof (induction x arbitrary: y)
  case Nil
  then show ?case by (cases y) simp_all
next
  case (Cons c cs)
  then obtain d ds where y: "y = d # ds" by (cases y) simp_all
  have "of_char c + 1 = (of_char d + 1 :: nat)" "text_number cs = text_number ds"
    using Cons.prems y by (metis text_number.simps(2) text_number_digits)+
  then show ?case using Cons.IH y by simp
qed

definition demo_bn :: "string \<Rightarrow> int option" where
  "demo_bn x = Some (int (text_number x))"

lemma demo_bn_addresses: "address_numbers demo_bn K"
  by (auto simp: address_numbers_def demo_bn_def inj_on_def dest: text_number_inject)

definition minted_store :: store where
  "minted_store = handleTransfer demo_ctx demo_zero [2] 7 empty_store"

definition minted_answer :: noun_answer where
  "minted_answer = \<lparr>na_id = int_to_string 7, na_owner = toHexString [2],
     na_delegate = Option.bind (st_accounts minted_store (toHexString [2])) acc_delegate, na_votes = [],
     na_seed = service_seed (seed_of_noun 7 demo_seed_params)\<rparr>"

lemma minted_run:
  "legal_run handle_token_event legal_token_event [demo_mint] empty_store"
  "run_events handle_token_event [demo_mint] empty_store = Some minted_store"
  using demo_mint_legal by (simp_all add: demo_mint_def minted_store_def del: legal_token_event.simps)

lemma minted_owner: "owner_of minted_store = [int_to_string 7 \<mapsto> toHexString [2]]"
proof -
  have "owner_of minted_store = (owner_of empty_store)(int_to_string 7 \<mapsto> toHexString [2])"
    unfolding minted_store_def
    by (rule transfer_refines_ledger [OF _ demo_mint_legal]) (use token_inv_empty in \<open>simp add: token_inv_def\<close>)
  moreover have "owner_of empty_store = Map.empty" by (auto simp: owner_of_def empty_store_def)
  ultimately show ?thesis by simp
qed

lemma minted_nouns: "dom (st_nouns minted_store) = {int_to_string 7}"
proof -
  have "token_inv minted_store"
    using token.legal_run_inv [OF token_inv_empty minted_run(1)] minted_run(2) by simp
  then have "st_nouns minted_store n = Some m \<Longrightarrow> noun_owner m \<noteq> None" for n m
    by (auto simp: token_inv_def ownership_inv_def)
  then have "n \<in> dom (st_nouns minted_store) \<longleftrightarrow> owner_of minted_store n \<noteq> None" for n
    by (auto simp: owner_of_def split: option.splits)
  then have "n \<in> dom (st_nouns minted_store) \<longleftrightarrow> n = int_to_string 7" for n by (simp add: minted_owner)
  then show ?thesis by blast
qed

lemma minted_served: "serves_nouns minted_store [minted_answer]"
  by (simp add: serves_nouns_def serves_first_def minted_nouns minted_owner minted_answer_def)

theorem owners_and_delegates_reported_witness:
  "\<exists>s w d. run_events handle_token_event [demo_mint] empty_store = Some s \<and>
    is_noun_owner_handler demo_bn (Some (toHexString [2])) [minted_answer] = Some (answer_json (OwnerBody w)) \<and>
    is_noun_delegate_handler demo_bn (Some (toHexString [2])) [minted_answer] = Some (answer_json (DelegateBody d)) \<and>
    (w \<longleftrightarrow> (\<exists>a. st_accounts s (toHexString [2]) = Some a \<and> 0 < acc_tokenBalance a)) \<and> (d \<longleftrightarrow> represented s (toHexString [2]) \<noteq> {})"
proof -
  have "serves_nouns s [minted_answer] \<and> address_numbers demo_bn (insert (toHexString [2]) (store_addresses s))"
    if "run_events handle_token_event [demo_mint] empty_store = Some s" for s
    using that minted_run(2) minted_served demo_bn_addresses by simp
  moreover have "toHexString [2] \<noteq> []" by (simp add: toHexString_def)
  ultimately obtain s w d where r: "run_events handle_token_event [demo_mint] empty_store = Some s"
      "is_noun_owner_handler demo_bn (Some (toHexString [2])) [minted_answer] = Some (answer_json (OwnerBody w))"
      "is_noun_delegate_handler demo_bn (Some (toHexString [2])) [minted_answer] = Some (answer_json (DelegateBody d))"
      "card (dom (st_nouns s)) \<le> 100 \<longrightarrow>
         (w \<longleftrightarrow> (\<exists>a. st_accounts s (toHexString [2]) = Some a \<and> 0 < acc_tokenBalance a)) \<and> (d \<longleftrightarrow> represented s (toHexString [2]) \<noteq> {})"
    using owners_and_delegates_reported [OF minted_run(1), of "[minted_answer]" demo_bn "toHexString [2]" "toHexString [2]"] by blast
  moreover have "card (dom (st_nouns s)) \<le> 100" using r(1) minted_run(2) by (simp add: minted_nouns)
  ultimately show ?thesis by blast
qed

end
