(* ===== verification/Webapp_Sponsor.thy ===== *)
theory Webapp_Sponsor
  imports Webapp_Vote Subgraph_Hash Subgraph_Data
begin

text \<open>
  Sponsoring a candidate (\<open>packages/nouns-webapp/src/components/CandidateSponsors\<close>): the form that signs a
  candidate, the list of sponsors and its button, the dialog that puts a candidate on chain with chosen
  signatures, and the dialog that updates a signed proposal. Beside them stand the contract functions they talk to:
  \<open>calcProposalEncodeData\<close>, \<open>proposeBySigs\<close> and \<open>updateProposalBySigs\<close> of \<open>NounsDAOV3Proposals.sol\<close>.

  The wallet, the hash function, the encoders and the comparison of texts of a locale are parameters.
  Signatures in the dialog are objects, compared by identity: each has a number.
\<close>

section \<open>Encoding a candidate\<close>

record sign_env =
  se_keccak256 :: "bytes \<Rightarrow> bytes"
  se_packAddresses :: "bytes list \<Rightarrow> bytes"
  se_packNumbers :: "int list \<Rightarrow> bytes"
  se_packWords :: "bytes list \<Rightarrow> bytes"
  se_packUpdate :: "int \<Rightarrow> bytes \<Rightarrow> bytes"
  se_encode :: "abi_value list \<Rightarrow> bytes option"

text \<open>The content comes as texts; \<open>None\<close> is an exception of the library on a malformed one.\<close>

definition calcProposalEncodeData ::
  "sign_env \<Rightarrow> string \<Rightarrow> string list option \<Rightarrow> string list option \<Rightarrow> string list \<Rightarrow> string list \<Rightarrow> string \<Rightarrow> bytes option" where
  "calcProposalEncodeData env proposer targets vals signatures calldatas description =
     do {
       let signatureHashes = map (\<lambda>sig. se_keccak256 env (fromUTF8 sig)) signatures;
       cds \<leftarrow> those (map fromHexString calldatas);
       let calldatasHashes = map (se_keccak256 env) cds;
       addr \<leftarrow> address_fromString proposer;
       ts \<leftarrow> Option.bind targets (\<lambda>ts. those (map address_fromString ts));
       vs \<leftarrow> Option.bind vals (\<lambda>vs. those (map string_to_int vs));
       se_encode env
         [AbiAddress addr, AbiFixedBytes (se_keccak256 env (se_packAddresses env ts)),
          AbiFixedBytes (se_keccak256 env (se_packNumbers env vs)),
          AbiFixedBytes (se_keccak256 env (se_packWords env signatureHashes)),
          AbiFixedBytes (se_keccak256 env (se_packWords env calldatasHashes)),
          AbiFixedBytes (se_keccak256 env (fromUTF8 description))]
     }"

section \<open>The form\<close>

text \<open>The last three fields belong to the parent: whether the form is shown, how often data is fetched, and refetches asked for.\<close>

record sign_form =
  gf_reasonText :: string
  gf_expirationDate :: "int option"
  gf_isOverlayVisible :: bool
  gf_isGetSignatureWaiting :: bool
  gf_isGetSignaturePending :: bool
  gf_isGetSignatureTxSuccessful :: bool
  gf_getSignatureErrorMessage :: string
  gf_isLoading :: bool
  gf_isWaiting :: bool
  gf_isTxSuccessful :: bool
  gf_errorMessage :: "string option"
  gf_dateErrorMessage :: string
  gf_isFormDisplayed :: bool
  gf_pollInterval :: int
  gf_refetches :: nat

definition new_sign_form :: sign_form where
  "new_sign_form = \<lparr>gf_reasonText = [], gf_expirationDate = None, gf_isOverlayVisible = False, gf_isGetSignatureWaiting = False,
     gf_isGetSignaturePending = False, gf_isGetSignatureTxSuccessful = False, gf_getSignatureErrorMessage = [],
     gf_isLoading = False, gf_isWaiting = False, gf_isTxSuccessful = False, gf_errorMessage = Some [],
     gf_dateErrorMessage = [], gf_isFormDisplayed = True, gf_pollInterval = 0, gf_refetches = 0\<rparr>"

text \<open>What the wallet is asked to sign, in the order of the declared types.\<close>

datatype typed_data =
    SignProposal string "string list option" "string list option" "string list" "string list" string "int option"
  | SignUpdateProposal int string "string list option" "string list option" "string list" "string list" string "int option"

definition typed_value :: "ProposalCandidate \<Rightarrow> int \<Rightarrow> int option \<Rightarrow> typed_data" where
  "typed_value c proposalIdToUpdate expirationDate =
     (if 0 < proposalIdToUpdate
      then SignUpdateProposal proposalIdToUpdate (pci_proposer c) (pcv_targets c) (pcv_values c) (pcv_signatures c)
        (pcv_calldatas c) (pcv_description c) expirationDate
      else SignProposal (pci_proposer c) (pcv_targets c) (pcv_values c) (pcv_signatures c) (pcv_calldatas c)
        (pcv_description c) expirationDate)"

text \<open>The wallet answers with a signature or fails with a message.\<close>

definition getSignature ::
  "(typed_data \<Rightarrow> string + bytes) \<Rightarrow> ProposalCandidate \<Rightarrow> int \<Rightarrow> sign_form \<Rightarrow> sign_form \<times> bytes option" where
  "getSignature wallet c proposalIdToUpdate f =
     (let f = f\<lparr>gf_isGetSignatureWaiting := True\<rparr>
      in case wallet (typed_value c proposalIdToUpdate (gf_expirationDate f)) of
           Inr sig \<Rightarrow> (f\<lparr>gf_isGetSignatureWaiting := False, gf_isGetSignatureTxSuccessful := True\<rparr>, Some sig)
         | Inl message \<Rightarrow> (f\<lparr>gf_getSignatureErrorMessage := message, gf_isGetSignatureWaiting := False\<rparr>, None))"

record add_signature_call =
  as_sig :: bytes
  as_expirationDate :: "int option"
  as_proposer :: string
  as_slug :: string
  as_proposalIdToUpdate :: int
  as_encodedProp :: bytes
  as_reason :: string

text \<open>When encoding throws the form keeps waiting and nothing is sent.\<close>

definition sign ::
  "sign_env \<Rightarrow> (typed_data \<Rightarrow> string + bytes) \<Rightarrow> ProposalCandidate \<Rightarrow> int \<Rightarrow> sign_form \<Rightarrow> sign_form \<times> add_signature_call option" where
  "sign env wallet c proposalIdToUpdate f =
     (case getSignature wallet c proposalIdToUpdate f of
        (f, None) \<Rightarrow> (f, None)
      | (f, Some sig) \<Rightarrow>
          (f\<lparr>gf_isGetSignatureWaiting := False, gf_isWaiting := True\<rparr>,
           map_option (\<lambda>encodedProp.
             \<lparr>as_sig = sig, as_expirationDate = gf_expirationDate f, as_proposer = pci_proposer c, as_slug = pci_slug c,
              as_proposalIdToUpdate = proposalIdToUpdate,
              as_encodedProp = (if 0 < proposalIdToUpdate then se_packUpdate env proposalIdToUpdate encodedProp else encodedProp),
              as_reason = gf_reasonText f\<rparr>)
             (calcProposalEncodeData env (pci_proposer c) (pcv_targets c) (pcv_values c) (pcv_signatures c)
               (pcv_calldatas c) (pcv_description c))))"

definition sign_clearTransactionState :: "sign_form \<Rightarrow> sign_form" where
  "sign_clearTransactionState f =
     f\<lparr>gf_isWaiting := False, gf_isLoading := False, gf_isTxSuccessful := False, gf_errorMessage := Some [],
       gf_isGetSignatureWaiting := False, gf_isGetSignaturePending := False, gf_getSignatureErrorMessage := [],
       gf_isGetSignatureTxSuccessful := False, gf_isOverlayVisible := False, gf_pollInterval := 0\<rparr>"

definition close_overlay :: "sign_form \<Rightarrow> sign_form" where
  "close_overlay f = (sign_clearTransactionState f)\<lparr>gf_isFormDisplayed := False\<rparr>"

definition handleAddSignatureState :: "tx_status \<Rightarrow> sign_form \<Rightarrow> sign_form" where
  "handleAddSignatureState state f =
     (case tx_state state of
        TxNone \<Rightarrow> f\<lparr>gf_isLoading := False, gf_isWaiting := False\<rparr>
      | PendingSignature \<Rightarrow> f\<lparr>gf_isWaiting := True\<rparr>
      | Mining \<Rightarrow> f\<lparr>gf_isLoading := True, gf_isWaiting := False, gf_pollInterval := 50\<rparr>
      | Success \<Rightarrow> f\<lparr>gf_refetches := Suc (gf_refetches f), gf_isTxSuccessful := True, gf_isLoading := False\<rparr>
      | _ \<Rightarrow> f\<lparr>gf_pollInterval := 0, gf_errorMessage := tx_errorMessage state, gf_isLoading := False, gf_isWaiting := False\<rparr>)"

definition overlay_effect :: "sign_form \<Rightarrow> sign_form" where
  "overlay_effect f =
     (if gf_isWaiting f \<or> gf_isLoading f \<or> gf_isTxSuccessful f \<or> truthy (gf_errorMessage f) \<or> gf_isGetSignatureWaiting f \<or>
         gf_isGetSignaturePending f \<or> gf_isGetSignatureTxSuccessful f \<or> gf_getSignatureErrorMessage f \<noteq> []
      then f\<lparr>gf_isOverlayVisible := True\<rparr> else f)"

text \<open>The date is in seconds, the clock in milliseconds.\<close>

definition date_effect :: "int \<Rightarrow> sign_form \<Rightarrow> sign_form" where
  "date_effect now f =
     (case gf_expirationDate f of
        None \<Rightarrow> f
      | Some e \<Rightarrow> f\<lparr>gf_dateErrorMessage := (if now < 1000 * e then [] else ''Date must be in the future'')\<rparr>)"

definition sign_button :: "bool \<Rightarrow> sign_form \<Rightarrow> bool" where
  "sign_button transactionMining f \<longleftrightarrow>
     \<not> (gf_isWaiting f \<or> gf_isLoading f) \<and>
     \<not> (transactionMining \<or> gf_expirationDate f = None \<or> gf_dateErrorMessage f \<noteq> [])"

section \<open>The list of sponsors\<close>

text \<open>The signers of the proposal that a candidate updates, if it updates one.\<close>

definition sponsors_isThresholdMet :: "ProposalCandidate \<Rightarrow> string list option \<Rightarrow> bool" where
  "sponsors_isThresholdMet c originalSigners =
     (case originalSigners of
        None \<Rightarrow> pci_requiredVotes c \<le> pci_proposerVotes c + pci_voteCount c
      | Some signers \<Rightarrow> length signers \<le> length (pcv_contentSignatures c))"

text \<open>These two effects keep the previous value while an account or a proposal is missing.\<close>

definition isOriginalSigner :: "bool \<Rightarrow> string option \<Rightarrow> string list option \<Rightarrow> bool" where
  "isOriginalSigner previous account originalSigners =
     (case (account, originalSigners) of
        (Some a, Some signers) \<Rightarrow> toLowerCase a \<in> set (map toLowerCase signers) | _ \<Rightarrow> previous)"

definition isAccountSigner :: "bool \<Rightarrow> string option \<Rightarrow> ProposalCandidate \<Rightarrow> bool" where
  "isAccountSigner previous account c =
     (case account of
        None \<Rightarrow> previous
      | Some a \<Rightarrow> list_ex (\<lambda>sig. toLowerCase (sg_signer sig) = toLowerCase a) (pcv_contentSignatures c))"

definition shown_sponsors :: "bool \<Rightarrow> ProposalCandidate \<Rightarrow> CandidateSignature list" where
  "shown_sponsors proposersKnown c =
     filter (\<lambda>sig. sg_voteCount sig \<notin> {None, Some 0} \<and> proposersKnown \<and> \<not> sg_canceled sig) (pcv_contentSignatures c)"

definition shown_original_signers :: "bool \<Rightarrow> Delegate list option \<Rightarrow> ProposalCandidate \<Rightarrow> string list \<Rightarrow> string list" where
  "shown_original_signers proposersKnown snapshot c originalSigners =
     filter (\<lambda>signer. toLowerCase signer \<notin> set (map (toLowerCase \<circ> sg_signer) (pcv_contentSignatures c)) \<and>
       delegate_votes snapshot signer \<noteq> 0 \<and> proposersKnown) originalSigners"

definition placeholders :: "ProposalCandidate \<Rightarrow> nat" where
  "placeholders c = (if pci_voteCount c < pci_requiredVotes c then nat (pci_requiredVotes c - pci_voteCount c) else 0)"

datatype sponsor_action = NotUpdatable | SubmitOnchain bool | SponsorButton | NeedsVotes | NoAction

definition sponsor_action ::
  "int \<Rightarrow> bool \<Rightarrow> bool \<Rightarrow> bool \<Rightarrow> bool \<Rightarrow> bool \<Rightarrow> bool \<Rightarrow> ProposalCandidate \<Rightarrow> sponsor_action" where
  "sponsor_action votes accountSigned originalSigner thresholdMet byProposer isUpdateToProposal isParentProposalUpdatable c =
     (if isUpdateToProposal \<and> \<not> isParentProposalUpdatable then NotUpdatable
      else if byProposer \<and> thresholdMet then SubmitOnchain isUpdateToProposal
      else if (\<not> isUpdateToProposal \<and> \<not> accountSigned \<and> \<not> pci_isProposal c) \<or>
              (isUpdateToProposal \<and> originalSigner \<and> \<not> accountSigned)
      then if \<not> byProposer \<and> 0 < votes then SponsorButton else NeedsVotes
      else NoAction)"

section \<open>Choosing signatures\<close>

type_synonym sig_object = "nat \<times> CandidateSignature"

record select_form =
  sl_selected :: "sig_object list"
  sl_isLoading :: bool
  sl_isWaiting :: bool
  sl_isTxSuccessful :: bool
  sl_errorMessage :: string
  sl_isModalOpen :: bool
  sl_pollInterval :: int
  sl_refetches :: nat

definition new_select_form :: select_form where
  "new_select_form = \<lparr>sl_selected = [], sl_isLoading = False, sl_isWaiting = False, sl_isTxSuccessful = False, sl_errorMessage = [],
     sl_isModalOpen = True, sl_pollInterval = 0, sl_refetches = 0\<rparr>"

definition selectedVoteCount :: "select_form \<Rightarrow> int" where
  "selectedVoteCount f =
     foldl (\<lambda>acc sig. acc + (case sg_voteCount (snd sig) of None \<Rightarrow> 0 | Some v \<Rightarrow> v)) 0 (sl_selected f)"

definition select_clearTransactionState :: "select_form \<Rightarrow> select_form" where
  "select_clearTransactionState f = f\<lparr>sl_isWaiting := False, sl_isLoading := False, sl_isTxSuccessful := False, sl_errorMessage := []\<rparr>"

definition select_clearState :: "select_form \<Rightarrow> select_form" where
  "select_clearState f = select_clearTransactionState (f\<lparr>sl_isModalOpen := False, sl_selected := []\<rparr>)"

text \<open>Every signature has its own object for the signer, so removing by signer removes one signature.\<close>

definition toggle_signature :: "sig_object \<Rightarrow> select_form \<Rightarrow> select_form" where
  "toggle_signature sig f =
     (if sl_isWaiting f \<or> sl_isLoading f \<or> sl_isTxSuccessful f \<or> sg_activeOrPendingProposal (snd sig) = Some True then f
      else if sig \<in> set (sl_selected f) then f\<lparr>sl_selected := filter (\<lambda>s. fst s \<noteq> fst sig) (sl_selected f)\<rparr>
      else f\<lparr>sl_selected := sl_selected f @ [sig]\<rparr>)"

definition toggle_all :: "sig_object list \<Rightarrow> select_form \<Rightarrow> select_form" where
  "toggle_all signatures f =
     (if sl_isTxSuccessful f \<or> sl_selected f = [] \<or> sl_isWaiting f \<or> sl_isLoading f then f
      else if length (sl_selected f) = length signatures then f\<lparr>sl_selected := []\<rparr>
      else f\<lparr>sl_selected := signatures\<rparr>)"

definition submit_enabled :: "int \<Rightarrow> select_form \<Rightarrow> bool" where
  "submit_enabled required f \<longleftrightarrow>
     \<not> (sl_errorMessage f \<noteq> [] \<or> sl_isTxSuccessful f) \<and>
     \<not> (selectedVoteCount f < required \<or> sl_isWaiting f \<or> sl_isLoading f)"

type_synonym proposer_sig = "string \<times> string \<times> int"

definition sig_triple :: "CandidateSignature \<Rightarrow> proposer_sig" where
  "sig_triple s = (sg_sig s, sg_signer s, sg_expirationTimestamp s)"

definition sortedSigs :: "(string \<Rightarrow> string \<Rightarrow> int) \<Rightarrow> CandidateSignature list \<Rightarrow> proposer_sig list" where
  "sortedSigs localeCompare sigs = js_sort (\<lambda>a b. localeCompare (fst (snd a)) (fst (snd b))) (map sig_triple sigs)"

datatype sponsor_call =
    CallPropose "string list option" "string list option" "string list" "string list" string
  | CallProposeBySigs "proposer_sig list" "string list option" "string list option" "string list" "string list" string
  | CallUpdateProposalBySigs string "proposer_sig list" "string list option" "string list option" "string list" "string list" string string

definition select_handleSubmission ::
  "(string \<Rightarrow> string \<Rightarrow> int) \<Rightarrow> ProposalCandidate \<Rightarrow> select_form \<Rightarrow> select_form \<times> sponsor_call" where
  "select_handleSubmission localeCompare c f =
     (select_clearTransactionState f,
      if sl_selected f = []
      then CallPropose (pcv_targets c) (pcv_values c) (pcv_signatures c) (pcv_calldatas c) (pcv_description c)
      else CallProposeBySigs (sortedSigs localeCompare (map snd (sl_selected f)))
        (pcv_targets c) (pcv_values c) (pcv_signatures c) (pcv_calldatas c) (pcv_description c))"

definition handleProposeStateChange :: "tx_status \<Rightarrow> select_form \<Rightarrow> select_form" where
  "handleProposeStateChange state f =
     (case tx_state state of
        TxNone \<Rightarrow> f\<lparr>sl_isLoading := False\<rparr>
      | PendingSignature \<Rightarrow> f\<lparr>sl_isWaiting := True\<rparr>
      | Mining \<Rightarrow> f\<lparr>sl_pollInterval := 50, sl_isWaiting := False, sl_isLoading := True\<rparr>
      | Success \<Rightarrow> f\<lparr>sl_refetches := Suc (sl_refetches f), sl_isLoading := False, sl_isTxSuccessful := True, sl_selected := []\<rparr>
      | Fail \<Rightarrow> f\<lparr>sl_pollInterval := 0, sl_errorMessage := or_text (tx_errorMessage state) ''Please try again.'', sl_isLoading := False\<rparr>
      | Exception \<Rightarrow> f\<lparr>sl_pollInterval := 0, sl_errorMessage := or_text (tx_errorMessage state) ''Please try again.'', sl_isLoading := False,
          sl_isWaiting := False\<rparr>)"

text \<open>Which of the two transactions the dialog follows depends on the selection of the moment.\<close>

definition propose_effect :: "tx_status \<Rightarrow> tx_status \<Rightarrow> select_form \<Rightarrow> select_form" where
  "propose_effect proposeState proposeBySigsState f =
     handleProposeStateChange (if sl_selected f = [] then proposeState else proposeBySigsState) f"

section \<open>Updating a signed proposal\<close>

record update_form =
  uf_reason :: string
  uf_isLoading :: bool
  uf_isWaiting :: bool
  uf_isTxSuccessful :: bool
  uf_errorMessage :: string
  uf_isModalOpen :: bool

definition new_update_form :: update_form where
  "new_update_form = \<lparr>uf_reason = [], uf_isLoading = False, uf_isWaiting = False, uf_isTxSuccessful = False, uf_errorMessage = [],
     uf_isModalOpen = True\<rparr>"

definition update_clearTransactionState :: "update_form \<Rightarrow> update_form" where
  "update_clearTransactionState f = f\<lparr>uf_isWaiting := False, uf_isLoading := False, uf_isTxSuccessful := False, uf_errorMessage := []\<rparr>"

definition update_clearState :: "update_form \<Rightarrow> update_form" where
  "update_clearState f = (update_clearTransactionState (f\<lparr>uf_isModalOpen := False\<rparr>))\<lparr>uf_reason := []\<rparr>"

definition handleSubmitUpdateToProposal ::
  "(string \<Rightarrow> string \<Rightarrow> int) \<Rightarrow> ProposalCandidate \<Rightarrow> string \<Rightarrow> update_form \<Rightarrow> update_form \<times> sponsor_call" where
  "handleSubmitUpdateToProposal localeCompare c proposalIdToUpdate f =
     (update_clearTransactionState f,
      CallUpdateProposalBySigs proposalIdToUpdate (sortedSigs localeCompare (pcv_contentSignatures c))
        (pcv_targets c) (pcv_values c) (pcv_signatures c) (pcv_calldatas c) (pcv_description c) (uf_reason f))"

definition handleUpdateProposalStateChange :: "tx_status \<Rightarrow> update_form \<Rightarrow> update_form" where
  "handleUpdateProposalStateChange state f =
     (case tx_state state of
        TxNone \<Rightarrow> f\<lparr>uf_isLoading := False\<rparr>
      | PendingSignature \<Rightarrow> f\<lparr>uf_isWaiting := True\<rparr>
      | Mining \<Rightarrow> f\<lparr>uf_isWaiting := False, uf_isLoading := True\<rparr>
      | Success \<Rightarrow> f\<lparr>uf_isLoading := False, uf_isTxSuccessful := True\<rparr>
      | Fail \<Rightarrow> f\<lparr>uf_errorMessage := or_text (tx_errorMessage state) ''Please try again.'', uf_isLoading := False\<rparr>
      | Exception \<Rightarrow> f\<lparr>uf_errorMessage := or_text (tx_errorMessage state) ''Please try again.'', uf_isLoading := False,
          uf_isWaiting := False\<rparr>)"

definition update_enabled :: "update_form \<Rightarrow> bool" where
  "update_enabled f \<longleftrightarrow> \<not> (uf_errorMessage f \<noteq> [] \<or> uf_isTxSuccessful f) \<and> \<not> (uf_isWaiting f \<or> uf_isLoading f)"

section \<open>Removing a signature\<close>

record cancel_sig_form =
  cg_isPending :: bool
  cg_overlay :: "(string \<times> string) option"
  cg_pollInterval :: int
  cg_refetches :: nat

definition cancel_signature :: "cancel_sig_form \<Rightarrow> cancel_sig_form" where
  "cancel_signature f = f\<lparr>cg_isPending := True\<rparr>"

definition cancel_sig_effect :: "tx_status \<Rightarrow> cancel_sig_form \<Rightarrow> cancel_sig_form" where
  "cancel_sig_effect state f =
     (case tx_state state of
        TxNone \<Rightarrow> f\<lparr>cg_isPending := False\<rparr>
      | PendingSignature \<Rightarrow> f
      | Mining \<Rightarrow> f\<lparr>cg_isPending := True\<rparr>
      | Success \<Rightarrow> f\<lparr>cg_refetches := Suc (cg_refetches f), cg_overlay := Some (''Success'', ''Signature removed''), cg_isPending := False\<rparr>
      | Fail \<Rightarrow> f\<lparr>cg_overlay := Some (''Transaction Failed'', or_text (tx_errorMessage state) ''Please try again.''),
          cg_isPending := False\<rparr>
      | Exception \<Rightarrow> f\<lparr>cg_pollInterval := 0, cg_overlay := Some (''Error'', or_text (tx_errorMessage state) ''Please try again.''),
          cg_isPending := False\<rparr>)"

definition expiration_label :: "bool \<Rightarrow> bool \<Rightarrow> int \<Rightarrow> int \<Rightarrow> string" where
  "expiration_label isUpdateToProposal isParentProposalUpdatable timestampNow expirationTimestamp =
     (if (isUpdateToProposal \<and> \<not> isParentProposalUpdatable) \<or> expirationTimestamp < timestampNow then ''Expired'' else ''Expires'')"

section \<open>The contract\<close>

text \<open>\<open>calcProposalEncodeData\<close> of the DAO; packed arrays have one word per element.\<close>

definition dao_calcProposalEncodeData :: "graph_env \<Rightarrow> proposal_content \<Rightarrow> bytes option" where
  "dao_calcProposalEncodeData env c =
     (let signatureHashes = map (\<lambda>x. keccak256 env (fromUTF8 x)) (ct_signatures c);
          calldatasHashes = map (keccak256 env) (ct_calldatas c)
      in abi_encode_tuple env
         [AbiAddress (ct_proposer c), AbiFixedBytes (keccak256 env (concat (map address_word (ct_targets c)))),
          AbiFixedBytes (keccak256 env (concat (map number_word (ct_values c)))),
          AbiFixedBytes (keccak256 env (concat signatureHashes)), AbiFixedBytes (keccak256 env (concat calldatasHashes)),
          AbiFixedBytes (keccak256 env (fromUTF8 (ct_description c)))])"

text \<open>The hash that \<open>createProposalCandidate\<close> and \<open>updateProposalCandidate\<close> of the data contract emit.\<close>

definition candidate_hash :: "graph_env \<Rightarrow> int \<Rightarrow> proposal_content \<Rightarrow> bytes option" where
  "candidate_hash env proposalIdToUpdate c =
     map_option (\<lambda>b. keccak256 env (if 0 < proposalIdToUpdate then number_word proposalIdToUpdate @ b else b))
       (dao_calcProposalEncodeData env c)"

record backing_view =
  dv_votes :: "string \<Rightarrow> int"
  dv_live :: "string \<Rightarrow> bool"
  dv_validSig :: "proposer_sig \<Rightarrow> bool"
  dv_threshold :: int

text \<open>
  The loop of \<open>verifySignersCanBackThisProposalAndCountTheirVotes\<close>: a signer that was counted has a live
  proposal, the one that is being created.
\<close>

fun count_backers :: "backing_view \<Rightarrow> string list \<Rightarrow> int \<Rightarrow> proposer_sig list \<Rightarrow> (string list \<times> int) option" where
  "count_backers d signers votes [] = Some (signers, votes)"
| "count_backers d signers votes (sig # sigs) =
     (let signer = fst (snd sig)
      in if \<not> dv_validSig d sig \<or> dv_live d signer \<or> signer \<in> set signers then None
         else if dv_votes d signer = 0 then count_backers d signers votes sigs
         else count_backers d (signers @ [signer]) (votes + dv_votes d signer) sigs)"

text \<open>The signers of the new proposal; \<open>None\<close> when the call reverts.\<close>

definition dao_proposeBySigs :: "backing_view \<Rightarrow> string \<Rightarrow> proposer_sig list \<Rightarrow> string list option" where
  "dao_proposeBySigs d sender sigs =
     (if sigs = [] then None
      else case count_backers d [] 0 sigs of
             None \<Rightarrow> None
           | Some (signers, votes) \<Rightarrow>
               if dv_live d sender \<or> sender \<in> set signers \<or> signers = [] \<or> votes + dv_votes d sender \<le> dv_threshold d
               then None else Some signers)"

definition dao_propose_guard :: "backing_view \<Rightarrow> string \<Rightarrow> bool" where
  "dao_propose_guard d sender \<longleftrightarrow> dv_threshold d < dv_votes d sender \<and> \<not> dv_live d sender"

definition dao_updateProposalBySigs_guard :: "backing_view \<Rightarrow> bool \<Rightarrow> bool \<Rightarrow> string list \<Rightarrow> proposer_sig list \<Rightarrow> bool" where
  "dao_updateProposalBySigs_guard d updatable senderIsProposer signers sigs \<longleftrightarrow>
     sigs \<noteq> [] \<and> updatable \<and> senderIsProposer \<and> length sigs = length signers \<and>
     list_all2 (\<lambda>sig signer. dv_validSig d sig \<and> signer = fst (snd sig)) sigs signers"

end
