(* ===== verification/Webapp_Sponsor_Props.thy ===== *)
theory Webapp_Sponsor_Props
  imports Webapp_Sponsor Subgraph_Data_Props
begin

text \<open>
  A signature given in the form belongs to the stored candidate, the dialogs offer what the DAO accepts, and
  both dialogs send signatures in the same order. Three defects: the text of the description that is signed,
  votes of the proposer that are counted twice, and a selection that ignores live proposals.
\<close>

section \<open>One encoding\<close>

text \<open>The libraries implement the same hash function and the same encoding; packed arrays have one word per element.\<close>

definition standard_encoding :: "sign_env \<Rightarrow> graph_env \<Rightarrow> bool" where
  "standard_encoding se env \<longleftrightarrow> se_keccak256 se = keccak256 env \<and> se_encode se = abi_encode_tuple env \<and>
     (\<forall>ts. (\<forall>t \<in> set ts. length t = 20) \<longrightarrow> se_packAddresses se ts = concat (map address_word ts)) \<and>
     (\<forall>vs. (\<forall>v \<in> set vs. is_uint256 v) \<longrightarrow> se_packNumbers se vs = concat (map number_word vs)) \<and>
     (\<forall>ws. se_packWords se ws = concat ws) \<and>
     (\<forall>n b. is_uint256 n \<longrightarrow> se_packUpdate se n b = number_word n @ b)"

definition content_wf :: "proposal_content \<Rightarrow> bool" where
  "content_wf c \<longleftrightarrow> length (ct_proposer c) = 20 \<and> (\<forall>t \<in> set (ct_targets c). length t = 20) \<and> (\<forall>v \<in> set (ct_values c). is_uint256 v)"

text \<open>The candidate in the browser, parsed from the service's answer for stored content.\<close>

definition shows_content :: "ProposalCandidate \<Rightarrow> proposal_content \<Rightarrow> bool" where
  "shows_content pc c \<longleftrightarrow> pci_proposer pc = toHexString (ct_proposer c) \<and>
     pcv_targets pc = Some (map toHexString (ct_targets c)) \<and> pcv_values pc = Some (map int_to_string (ct_values c)) \<and>
     pcv_signatures pc = ct_signatures c \<and> pcv_calldatas pc = map toHexString (ct_calldatas c) \<and>
     Some (pcv_description pc) = clean_description (Some (ct_description c))"

lemma those_inverse: "(\<And>x. x \<in> set xs \<Longrightarrow> f (g x) = Some x) \<Longrightarrow> those (map f (map g xs)) = Some xs"
  by (induction xs) auto

lemma address_of_hex: "length b = 20 \<Longrightarrow> address_fromString (toHexString b) = Some b"
  by (simp add: address_fromString_def fromHexString_toHexString)

lemma encodes_one_description:
  assumes "abi_injective env" "dao_calcProposalEncodeData env c = Some b"
    and "dao_calcProposalEncodeData env (c\<lparr>ct_description := t\<rparr>) = Some b"
  shows "keccak256 env (fromUTF8 (ct_description c)) = keccak256 env (fromUTF8 t)"
proof -
  note e = assms(2,3) [unfolded dao_calcProposalEncodeData_def Let_def]
  from assms(1) [unfolded abi_injective_def, rule_format, OF _ e] show ?thesis by simp
qed

lemma form_encodes:
  assumes "standard_encoding se env" "content_wf c" "shows_content pc c"
  shows "calcProposalEncodeData se (pci_proposer pc) (pcv_targets pc) (pcv_values pc) (pcv_signatures pc) (pcv_calldatas pc)
      (pcv_description pc) = dao_calcProposalEncodeData env (c\<lparr>ct_description := pcv_description pc\<rparr>)"
proof -
  have "those (map fromHexString (map toHexString (ct_calldatas c))) = Some (ct_calldatas c)"
    by (rule those_inverse) (simp add: fromHexString_toHexString)
  moreover have "those (map address_fromString (map toHexString (ct_targets c))) = Some (ct_targets c)"
    by (rule those_inverse) (use assms(2) in \<open>simp add: content_wf_def address_of_hex\<close>)
  moreover have "those (map string_to_int (map int_to_string (ct_values c))) = Some (ct_values c)"
    by (rule those_inverse) simp
  ultimately show ?thesis using assms
    by (simp add: calcProposalEncodeData_def dao_calcProposalEncodeData_def standard_encoding_def content_wf_def
        shows_content_def address_of_hex Let_def)
qed

lemma indexer_encodes:
  assumes "has_content p c" "isUpdate \<longrightarrow> string_to_int (prop_id p) = Some n \<and> 0 < n \<and> is_uint256 n" "\<not> isUpdate \<longrightarrow> n = 0"
  shows "calcEncodedProposalHash env p isUpdate = candidate_hash env n c"
  using assms
  by (auto simp: calcEncodedProposalHash_def candidate_hash_def dao_calcProposalEncodeData_def preimages_of_content
      number_word Let_def split: bind_split)

text \<open>The hash that the data contract emits for a signature is that of the signed encoding.\<close>

lemma form_hash:
  assumes "standard_encoding se env" "content_wf c" "shows_content pc c" "is_uint256 n"
    and "sign se wallet pc n f = (f', Some call)"
  shows "candidate_hash env n (c\<lparr>ct_description := pcv_description pc\<rparr>) = Some (keccak256 env (as_encodedProp call)) \<and>
    as_proposer call = toHexString (ct_proposer c) \<and> as_slug call = pci_slug pc \<and>
    wallet (typed_value pc n (gf_expirationDate f)) = Inr (as_sig call) \<and> as_reason call = gf_reasonText f"
  using assms(1,3,4,5) form_encodes [OF assms(1-3)]
  by (auto simp: sign_def getSignature_def Let_def candidate_hash_def standard_encoding_def shows_content_def split: sum.splits)

section \<open>From the form to the store\<close>

text \<open>The candidate is stored with this content as its latest, under the hash that the contract computed.\<close>

definition stored_candidate :: "graph_env \<Rightarrow> store \<Rightarrow> string \<Rightarrow> proposal_content \<Rightarrow> int \<Rightarrow> string \<Rightarrow> bool" where
  "stored_candidate env s slug c n contentId \<longleftrightarrow>
     (\<exists>cand v w x h. load_candidate (candidateID (ct_proposer c) slug) s = Some cand \<and> cand_latestVersion cand = Some v \<and>
        load_candidate_version v s = Some w \<and> cv_content w = Some contentId \<and>
        load_candidate_content contentId s = Some x \<and> cc_encodedProposalHash x = Some h \<and> candidate_hash env n c = Some h)"

definition signature_event :: "graph_env \<Rightarrow> bytes \<Rightarrow> bytes \<Rightarrow> add_signature_call \<Rightarrow> bytes \<Rightarrow> sig_params" where
  "signature_event env signer digest call proposer =
     \<lparr>sp_signer = signer, sp_sig = as_sig call, sp_expirationTimestamp = (case as_expirationDate call of None \<Rightarrow> 0 | Some e \<Rightarrow> e),
      sp_proposer = proposer, sp_slug = as_slug call, sp_encodedPropHash = keccak256 env (as_encodedProp call),
      sp_sigDigest = digest, sp_reason = as_reason call\<rparr>"

definition sponsor_id :: "bytes \<Rightarrow> bytes \<Rightarrow> string" where
  "sponsor_id signer sig = toHexString signer @ ''-'' @ toHexString sig"

lemma signature_kept:
  assumes "load_candidate (candidateID (sp_proposer e) (sp_slug e)) s = Some cand" "cand_latestVersion cand = Some v"
    and "load_candidate_version v s = Some w" "cv_content w = Some contentId"
    and "load_candidate_content contentId s = Some x" "cc_encodedProposalHash x = Some (sp_encodedPropHash e)"
    and "\<forall>k y. st_candidateSigs s k = Some y \<longrightarrow> cs_id y = k"
  shows "\<exists>s' y. handleSignatureAdded ctx e s = Some s' \<and>
    load_candidate_sig (sponsor_id (sp_signer e) (sp_sig e)) s' = Some y \<and> cs_content y = Some contentId \<and>
    cs_expirationTimestamp y = Some (sp_expirationTimestamp e) \<and> cs_reason y = Some (sp_reason e)"
proof -
  let ?i = "sponsor_id (sp_signer e) (sp_sig e)"
  have id: "cs_id (getOrCreateProposalCandidateSignature ?i s) = ?i"
    using assms(7) by (auto simp: getOrCreateProposalCandidateSignature_def load_candidate_sig_def split: option.splits)
  then show ?thesis using assms(1-6)
    by (auto simp: handleSignatureAdded_def getOrCreateProposalCandidate_def sponsor_id_def candidate_sig_store.load_save
        Let_def split: prod.splits)
qed

lemma signature_dropped:
  assumes "load_candidate (candidateID (sp_proposer e) (sp_slug e)) s = Some cand" "cand_latestVersion cand = Some v"
    and "load_candidate_version v s = Some w" "cv_content w = Some contentId"
    and "load_candidate_content contentId s = Some x" "cc_encodedProposalHash x = Some h" "h \<noteq> sp_encodedPropHash e"
  shows "\<exists>s'. handleSignatureAdded ctx e s = Some s' \<and> st_candidateSigs s' = st_candidateSigs s"
  using assms by (simp add: handleSignatureAdded_def getOrCreateProposalCandidate_def log_error_def Let_def)


text \<open>
  C35: A description that is cleaned loses its sponsors. The browser replaces escaped line breaks and removes quotes
  at the ends of a description before the form signs it. Whenever this changes the text, and nothing
  collides, the hash of the signed encoding is not that of the candidate, and the indexer drops the signature.
\<close>

theorem cleaned_descriptions_lose_sponsors:
  assumes "standard_encoding se env" "content_wf c" "shows_content pc c" "is_uint256 n"
    and "clean_description (Some (ct_description c)) \<noteq> Some (ct_description c)"
    and "stored_candidate env s (pci_slug pc) c n contentId"
    and "sign se wallet pc n f = (f', Some call)"
    and "abi_injective env" "inj_on (keccak256 env) S" "fromUTF8 (ct_description c) \<in> S" "fromUTF8 (pcv_description pc) \<in> S"
    and "as_encodedProp call \<in> S" "\<forall>b. dao_calcProposalEncodeData env c = Some b \<longrightarrow> (if 0 < n then number_word n @ b else b) \<in> S"
  shows "\<exists>s'. handleSignatureAdded ctx (signature_event env signer digest call (ct_proposer c)) s = Some s' \<and>
    st_candidateSigs s' = st_candidateSigs s"
proof -
  let ?c = "c\<lparr>ct_description := pcv_description pc\<rparr>" and ?e = "signature_event env signer digest call (ct_proposer c)"
  have "pcv_description pc \<noteq> ct_description c" using assms(3,5) by (auto simp: shows_content_def)
  then have desc: "keccak256 env (fromUTF8 (ct_description c)) \<noteq> keccak256 env (fromUTF8 (pcv_description pc))"
    using inj_onD [OF assms(9) _ assms(10,11)] by auto
  obtain b' where b': "dao_calcProposalEncodeData env ?c = Some b'" "as_encodedProp call = (if 0 < n then number_word n @ b' else b')"
      "as_slug call = pci_slug pc"
    using form_encodes [OF assms(1-3)] assms(1,4,7)
    by (auto simp: sign_def getSignature_def Let_def standard_encoding_def split: sum.splits)
  obtain cand v w x h where st: "load_candidate (candidateID (sp_proposer ?e) (sp_slug ?e)) s = Some cand"
      "cand_latestVersion cand = Some v" "load_candidate_version v s = Some w" "cv_content w = Some contentId"
      "load_candidate_content contentId s = Some x" "cc_encodedProposalHash x = Some h" "candidate_hash env n c = Some h"
    using assms(6) b'(3) by (auto simp: stored_candidate_def signature_event_def)
  then obtain b where b: "dao_calcProposalEncodeData env c = Some b" "h = keccak256 env (if 0 < n then number_word n @ b else b)"
    by (auto simp: candidate_hash_def)
  have "b \<noteq> b'"
  proof
    assume "b = b'"
    with b'(1) have "dao_calcProposalEncodeData env ?c = Some b" by simp
    from encodes_one_description [OF assms(8) b(1) this] desc show False by simp
  qed
  then have ne: "(if 0 < n then number_word n @ b else b) \<noteq> as_encodedProp call" using b'(2) by simp
  have "(if 0 < n then number_word n @ b else b) \<in> S" using assms(13) b(1) by blast
  from inj_on_contraD [OF assms(9) ne this assms(12)] have "h \<noteq> sp_encodedPropHash ?e"
    unfolding b(2) by (simp only: signature_event_def sig_params.simps not_False_eq_True)
  from signature_dropped [OF st(1-6) this] show ?thesis .
qed

section \<open>What the dialog offers\<close>

lemma backers_counted:
  assumes "\<forall>sig \<in> set sigs. dv_validSig d sig \<and> \<not> dv_live d (fst (snd sig)) \<and> dv_votes d (fst (snd sig)) \<noteq> 0"
    and "distinct (signers @ map (fst \<circ> snd) sigs)"
  shows "count_backers d signers votes sigs =
    Some (signers @ map (fst \<circ> snd) sigs, votes + (\<Sum>sig \<leftarrow> sigs. dv_votes d (fst (snd sig))))"
  using assms by (induction sigs arbitrary: signers votes) (auto simp: Let_def)

lemma live_backer_refused:
  "sig \<in> set sigs \<Longrightarrow> dv_live d (fst (snd sig)) \<Longrightarrow> count_backers d signers votes sigs = None"
  by (induction sigs arbitrary: signers votes) (auto simp: Let_def)

lemma sorted_triples [simp]: "mset (sortedSigs cmp sigs) = mset (map sig_triple sigs)"
  by (simp add: sortedSigs_def)

lemma sorted_triples_set [simp]: "set (sortedSigs cmp sigs) = sig_triple ` set sigs"
  using sorted_triples [of cmp sigs] by (metis list.set_map set_mset_mset)

lemma sorted_triples_sum: "(\<Sum>sig \<leftarrow> sortedSigs cmp sigs. g (fst (snd sig))) = (\<Sum>s \<leftarrow> sigs. (g (sg_signer s) :: int))"
proof -
  have "(\<Sum>sig \<leftarrow> sortedSigs cmp sigs. g (fst (snd sig))) = sum_mset (image_mset (\<lambda>sig. g (fst (snd sig))) (mset (sortedSigs cmp sigs)))"
    by (simp only: mset_map [symmetric] sum_mset_sum_list)
  also have "\<dots> = (\<Sum>s \<leftarrow> sigs. g (sg_signer s))"
    by (simp only: sorted_triples mset_map [symmetric] sum_mset_sum_list) (simp add: sig_triple_def o_def)
  finally show ?thesis .
qed

lemma sorted_triples_distinct: "distinct (map sg_signer sigs) \<Longrightarrow> distinct (map (fst \<circ> snd) (sortedSigs cmp sigs))"
proof -
  assume "distinct (map sg_signer sigs)"
  then have "distinct (map (fst \<circ> snd) (map sig_triple sigs))" by (simp add: sig_triple_def o_def)
  moreover have "mset (map (fst \<circ> snd) (sortedSigs cmp sigs)) = mset (map (fst \<circ> snd) (map sig_triple sigs))"
    by (simp only: mset_map sorted_triples)
  ultimately show ?thesis by (metis mset_eq_imp_distinct_iff)
qed

text \<open>A selection whose signatures are good: valid, of distinct other accounts with votes and without a live proposal.\<close>

definition good_selection :: "backing_view \<Rightarrow> string \<Rightarrow> CandidateSignature list \<Rightarrow> bool" where
  "good_selection d proposer sigs \<longleftrightarrow> distinct (proposer # map sg_signer sigs) \<and>
     (\<forall>s \<in> set sigs. dv_validSig d (sig_triple s) \<and> \<not> dv_live d (sg_signer s) \<and> 0 < dv_votes d (sg_signer s) \<and>
        sg_voteCount s = Some (dv_votes d (sg_signer s)))"

lemma good_proposal:
  assumes "good_selection d proposer sigs" "sigs \<noteq> []" "\<not> dv_live d proposer"
  shows "dao_proposeBySigs d proposer (sortedSigs cmp sigs) =
    (if (\<Sum>s \<leftarrow> sigs. dv_votes d (sg_signer s)) + dv_votes d proposer \<le> dv_threshold d then None
     else Some (map (fst \<circ> snd) (sortedSigs cmp sigs)))"
proof -
  have "count_backers d [] 0 (sortedSigs cmp sigs) =
      Some (map (fst \<circ> snd) (sortedSigs cmp sigs), \<Sum>s \<leftarrow> sigs. dv_votes d (sg_signer s))"
    using assms(1) sorted_triples_distinct [of sigs cmp]
    by (subst backers_counted) (auto simp: good_selection_def sorted_triples_sum [of "dv_votes d"] sig_triple_def)
  moreover have "sortedSigs cmp sigs \<noteq> []" using assms(2) sorted_triples_set [of cmp sigs] by force
  moreover have "proposer \<notin> set (map (fst \<circ> snd) (sortedSigs cmp sigs))"
    using assms(1) by (auto simp: good_selection_def sig_triple_def)
  ultimately show ?thesis using assms(3) by (simp add: dao_proposeBySigs_def)
qed

definition dao_accepts :: "backing_view \<Rightarrow> string \<Rightarrow> sponsor_call \<Rightarrow> bool" where
  "dao_accepts d proposer call = (case call of
     CallPropose _ _ _ _ _ \<Rightarrow> dao_propose_guard d proposer
   | CallProposeBySigs sigs _ _ _ _ _ \<Rightarrow> dao_proposeBySigs d proposer sigs \<noteq> None
   | _ \<Rightarrow> False)"

lemma foldl_plus_map: "foldl (\<lambda>acc x. acc + h x) a xs = a + (\<Sum>x \<leftarrow> xs. (h x :: int))"
  by (induction xs arbitrary: a) simp_all

lemma selected_votes:
  assumes "\<forall>s \<in> set (map snd (sl_selected f)). sg_voteCount s = Some (g (sg_signer s))"
  shows "selectedVoteCount f = (\<Sum>s \<leftarrow> map snd (sl_selected f). g (sg_signer s))"
proof -
  have "map (\<lambda>sig. case sg_voteCount (snd sig) of None \<Rightarrow> 0 | Some v \<Rightarrow> v) (sl_selected f) =
      map (\<lambda>sig. g (sg_signer (snd sig))) (sl_selected f)"
    using assms by (intro map_cong refl) simp
  then show ?thesis by (simp only: selectedVoteCount_def foldl_plus_map list.map_comp o_def add_0)
qed


section \<open>The order of the signers\<close>

text \<open>The comparison of the locale orders the given texts: it is antisymmetric, zero on equal texts only and transitive.\<close>

definition text_order :: "(string \<Rightarrow> string \<Rightarrow> int) \<Rightarrow> string set \<Rightarrow> bool" where
  "text_order lc A \<longleftrightarrow> (\<forall>x \<in> A. \<forall>y \<in> A. (lc x y < 0 \<longleftrightarrow> 0 < lc y x) \<and> (lc x y = 0 \<longleftrightarrow> x = y)) \<and>
     (\<forall>x \<in> A. \<forall>y \<in> A. \<forall>z \<in> A. lc x y \<le> 0 \<longrightarrow> lc y z \<le> 0 \<longrightarrow> lc x z \<le> 0)"

lemma text_order_facts:
  assumes "text_order lc A" "x \<in> A" "y \<in> A"
  shows "\<not> lc x y < 0 \<Longrightarrow> lc y x \<le> 0" "lc x y \<le> 0 \<Longrightarrow> lc y x \<le> 0 \<Longrightarrow> x = y"
proof -
  from assms have "(lc x y < 0 \<longleftrightarrow> 0 < lc y x) \<and> (lc x y = 0 \<longleftrightarrow> x = y)" "lc y x < 0 \<longleftrightarrow> 0 < lc x y"
    by (auto simp: text_order_def)
  then show "\<not> lc x y < 0 \<Longrightarrow> lc y x \<le> 0" "lc x y \<le> 0 \<Longrightarrow> lc y x \<le> 0 \<Longrightarrow> x = y" by linarith+
qed

lemma text_order_trans:
  "\<lbrakk>text_order lc A; x \<in> A; y \<in> A; z \<in> A; lc x y \<le> 0; lc y z \<le> 0\<rbrakk> \<Longrightarrow> lc x z \<le> 0"
  unfolding text_order_def by blast

lemma sorted_insert_text:
  assumes "text_order lc A" "k x \<in> A" "k ` set ys \<subseteq> A" "sorted_wrt (\<lambda>a b. lc (k a) (k b) \<le> 0) ys"
  shows "sorted_wrt (\<lambda>a b. lc (k a) (k b) \<le> 0) (js_insert (\<lambda>a b. lc (k a) (k b)) x ys)"
  using assms(3,4)
proof (induction ys)
  case (Cons y ys)
  have "lc (k x) (k z) \<le> 0" if "lc (k x) (k y) < 0" "z \<in> set ys" for z
  proof -
    have in_A: "k y \<in> A" "k z \<in> A" and "lc (k y) (k z) \<le> 0" using that(2) Cons.prems by auto
    from text_order_trans [OF assms(1,2) in_A _ this(3)] that(1) show ?thesis by simp
  qed
  moreover have "lc (k y) (k x) \<le> 0" if "\<not> lc (k x) (k y) < 0"
    using text_order_facts(1) [OF assms(1,2) _ that] Cons.prems by simp
  ultimately show ?case using Cons by auto
qed simp

lemma sorted_by_text:
  assumes "text_order lc A" "k ` set xs \<subseteq> A"
  shows "sorted_wrt (\<lambda>a b. lc (k a) (k b) \<le> 0) (js_sort (\<lambda>a b. lc (k a) (k b)) xs)"
proof -
  have "sorted_wrt (\<lambda>a b. lc (k a) (k b) \<le> 0) acc \<Longrightarrow> k ` set acc \<subseteq> A \<Longrightarrow>
      sorted_wrt (\<lambda>a b. lc (k a) (k b) \<le> 0) (foldl (\<lambda>ys x. js_insert (\<lambda>a b. lc (k a) (k b)) x ys) acc xs)" for acc
    using assms(2)
  proof (induction xs arbitrary: acc)
    case (Cons x xs)
    show ?case using Cons.prems by (auto simp: image_subset_iff intro!: Cons.IH sorted_insert_text [OF assms(1)])
  qed simp
  then show ?thesis by (simp add: js_sort_def)
qed

lemma text_order_unique:
  assumes "text_order lc A" "set xs \<subseteq> A" "set xs = set ys" "distinct xs" "distinct ys"
    and "sorted_wrt (\<lambda>a b. lc a b \<le> 0) xs" "sorted_wrt (\<lambda>a b. lc a b \<le> 0) ys"
  shows "xs = ys"
proof -
  have "length xs = length ys" using assms(3-5) by (metis distinct_card)
  then show ?thesis using assms(2-7)
  proof (induction xs ys rule: list_induct2)
    case (Cons x xs y ys)
    have "x = y"
    proof (rule ccontr)
      assume "x \<noteq> y"
      then have "x \<in> set ys" "y \<in> set xs" using Cons.prems(2) by auto
      then show False using Cons.prems \<open>x \<noteq> y\<close> text_order_facts(2) [OF assms(1), of x y] by auto
    qed
    then show ?case using Cons by (auto simp: insert_eq_iff)
  qed simp
qed

lemma backers_in_order:
  assumes "count_backers d signers votes sigs = Some (signers', votes')"
  shows "signers' = signers @ filter (\<lambda>a. dv_votes d a \<noteq> 0) (map (fst \<circ> snd) sigs)"
  using assms
proof (induction sigs arbitrary: signers votes)
  case (Cons sig sigs)
  then show ?case by (cases "dv_votes d (fst (snd sig)) = 0") (auto simp: Let_def split: if_split_asm dest!: Cons.IH)
qed simp

lemma backers_distinct:
  assumes "count_backers d signers votes sigs = Some (signers', votes')" "distinct signers"
  shows "distinct signers'"
  using assms
proof (induction sigs arbitrary: signers votes)
  case (Cons sig sigs)
  then show ?case by (cases "dv_votes d (fst (snd sig)) = 0") (auto simp: Let_def split: if_split_asm dest!: Cons.IH)
qed simp

lemma sorted_signers:
  assumes "text_order lc A" "sg_signer ` set sigs \<subseteq> A"
  shows "sorted_wrt (\<lambda>a b. lc a b \<le> 0) (map (fst \<circ> snd) (sortedSigs lc sigs))"
  using sorted_by_text [OF assms(1), of "fst \<circ> snd" "map sig_triple sigs"] assms(2)
  by (auto simp: sortedSigs_def sorted_wrt_map sig_triple_def image_subset_iff)

text \<open>
  C34: An update by the same signers is accepted. The DAO compares the signers of an update with those it recorded for the
  proposal, one by one. Whatever selection the dialog proposed with, in whatever order its signatures were clicked, if
  the proposal was created and an update candidate carries one valid signature of each recorded signer, in any
  order, the call that the update dialog sends has its signers exactly in the recorded order.
\<close>

theorem update_signers_match:
  assumes "text_order localeCompare A" "sg_signer ` set (map snd (sl_selected f)) \<subseteq> A"
    and "snd (select_handleSubmission localeCompare pc f) = CallProposeBySigs sigs ts vs ss cs t"
    and "dao_proposeBySigs d proposer sigs = Some signers"
    and "snd (handleSubmitUpdateToProposal localeCompare pc' i uf) = CallUpdateProposalBySigs i sigs' ts' vs' ss' cs' t' reason"
    and "distinct (map sg_signer (pcv_contentSignatures pc'))" "set (map sg_signer (pcv_contentSignatures pc')) = set signers"
    and "\<forall>x \<in> set (pcv_contentSignatures pc'). dv_validSig d' (sig_triple x)"
  shows "dao_updateProposalBySigs_guard d' True True signers sigs'"
proof -
  have sigs: "sigs = sortedSigs localeCompare (map snd (sl_selected f))" "sigs' = sortedSigs localeCompare (pcv_contentSignatures pc')"
    using assms(3,5) by (auto simp: select_handleSubmission_def handleSubmitUpdateToProposal_def split: if_splits)
  obtain votes where "count_backers d [] 0 sigs = Some (signers, votes)" "signers \<noteq> []"
    using assms(4) by (auto simp: dao_proposeBySigs_def split: if_splits option.splits)
  from backers_in_order [OF this(1)] backers_distinct [OF this(1)] this(2)
  have signers: "signers = filter (\<lambda>a. dv_votes d a \<noteq> 0) (map (fst \<circ> snd) sigs)" "distinct signers" "signers \<noteq> []"
    by auto
  have "sorted_wrt (\<lambda>a b. localeCompare a b \<le> 0) signers"
    unfolding signers(1) sigs(1) by (rule sorted_wrt_filter) (rule sorted_signers [OF assms(1,2)])
  moreover have sub: "set signers \<subseteq> A"
    using assms(2) by (auto simp: signers(1) sigs(1) sig_triple_def image_subset_iff)
  moreover have "sorted_wrt (\<lambda>a b. localeCompare a b \<le> 0) (map (fst \<circ> snd) sigs')"
    unfolding sigs(2) by (rule sorted_signers [OF assms(1)]) (use sub assms(7) in auto)
  moreover have same: "set (map (fst \<circ> snd) sigs') = set signers"
    unfolding assms(7) [symmetric] sigs(2) by (auto simp: sig_triple_def image_image)
  moreover have "distinct (map (fst \<circ> snd) sigs')"
    unfolding sigs(2) by (rule sorted_triples_distinct [OF assms(6)])
  ultimately have eq: "signers = map (fst \<circ> snd) sigs'"
    using signers(2) by (intro text_order_unique [OF assms(1)]) auto
  have "dv_validSig d' x" if "x \<in> set sigs'" for x
    using that assms(8) by (auto simp: sigs(2))
  then show ?thesis
    using signers(3) eq by (auto simp: dao_updateProposalBySigs_guard_def list_all2_conv_all_nth)
qed

section \<open>Two defects of the dialogs\<close>

text \<open>
  The votes of the proposer count twice. The number of required votes is already what the proposer lacks, and
  the list of sponsors adds the proposer's votes to it again: it announces the threshold as met, and offers
  the proposer to submit, although the dialog then refuses every selection of the candidate's sponsors.
\<close>

theorem threshold_announced_early:
  assumes "pci_requiredVotes pc = requiredVotes threshold (pci_proposerVotes pc)"
    and "0 \<le> pci_proposerVotes pc" "pci_proposerVotes pc \<le> threshold"
  shows "(sponsors_isThresholdMet pc None \<longleftrightarrow> threshold < 2 * pci_proposerVotes pc + pci_voteCount pc) \<and>
    (threshold < 2 * pci_proposerVotes pc + pci_voteCount pc \<longrightarrow>
       sponsor_action votes hasSigned original (sponsors_isThresholdMet pc None) True False updatable pc = SubmitOnchain False) \<and>
    (pci_proposerVotes pc + pci_voteCount pc \<le> threshold \<longrightarrow> selectedVoteCount f \<le> pci_voteCount pc \<longrightarrow>
       \<not> submit_enabled (pci_requiredVotes pc) f)"
  using assms by (auto simp: sponsors_isThresholdMet_def requiredVotes_def sponsor_action_def submit_enabled_def)

text \<open>
  Selecting all sponsors selects those the DAO refuses. A sponsor with a live proposal cannot be clicked, but is
  selected with all others, and the DAO then reverts the call whatever the other signatures are.
\<close>

theorem select_all_is_refused:
  assumes "x \<in> set signatures" "sg_activeOrPendingProposal (snd x) = Some True" "dv_live d (sg_signer (snd x))"
    and "sl_selected f \<noteq> []" "x \<notin> set (sl_selected f)" "length (sl_selected f) \<noteq> length signatures"
    and "\<not> sl_isWaiting f" "\<not> sl_isLoading f" "\<not> sl_isTxSuccessful f"
  shows "toggle_signature x f = f \<and> x \<in> set (sl_selected (toggle_all signatures f)) \<and>
    \<not> dao_accepts d proposer (snd (select_handleSubmission localeCompare pc (toggle_all signatures f)))"
proof -
  have all: "sl_selected (toggle_all signatures f) = signatures"
    using assms(4,6-9) by (simp add: toggle_all_def)
  have "sig_triple (snd x) \<in> set (sortedSigs localeCompare (map snd signatures))" using assms(1) by auto
  from live_backer_refused [OF this, of d] assms(3)
  have "dao_proposeBySigs d proposer (sortedSigs localeCompare (map snd signatures)) = None"
    by (simp add: dao_proposeBySigs_def sig_triple_def)
  then show ?thesis using all assms(1,2)
    by (auto simp: toggle_signature_def dao_accepts_def select_handleSubmission_def)
qed

section \<open>Instances\<close>

definition demo_sign_env :: sign_env where
  "demo_sign_env = \<lparr>se_keccak256 = demo_keccak, se_packAddresses = (\<lambda>ts. concat (map address_word ts)),
     se_packNumbers = (\<lambda>vs. concat (map number_word vs)), se_packWords = concat, se_packUpdate = (\<lambda>n b. number_word n @ b),
     se_encode = abi_encode_tuple demo_env\<rparr>"

lemma demo_standard: "standard_encoding demo_sign_env demo_env"
  by (simp add: standard_encoding_def demo_sign_env_def demo_env_def)

definition pc_of :: "proposal_content \<Rightarrow> string \<Rightarrow> int \<Rightarrow> int \<Rightarrow> int \<Rightarrow> CandidateSignature list \<Rightarrow> ProposalCandidate" where
  "pc_of c description required proposerVotes voteCount sigs =
     \<lparr>pci_id = ''c'', pci_slug = ''s'', pci_proposer = toHexString (ct_proposer c), pci_lastUpdatedTimestamp = 0,
      pci_canceled = False, pci_versionsCount = 1, pci_createdTransactionHash = [], pci_isProposal = False,
      pci_proposalIdToUpdate = None, pci_matchingProposalIds = [], pci_requiredVotes = required, pci_neededVotes = required,
      pci_proposerVotes = proposerVotes, pci_voteCount = voteCount, pcv_title = [], pcv_description = description,
      pcv_details = [], pcv_transactionHash = None, pcv_contentSignatures = sigs,
      pcv_targets = Some (map toHexString (ct_targets c)), pcv_values = Some (map int_to_string (ct_values c)),
      pcv_signatures = ct_signatures c, pcv_calldatas = map toHexString (ct_calldatas c)\<rparr>"

definition store_with_hash :: "proposal_content \<Rightarrow> bytes \<Rightarrow> store" where
  "store_with_hash c h = empty_store
     \<lparr>st_candidates := [candidateID (ct_proposer c) ''s'' \<mapsto> (new_candidate ''c'')\<lparr>cand_latestVersion := Some ''v''\<rparr>],
      st_candidateVersions := [''v'' \<mapsto> \<lparr>cv_id = ''v'', cv_proposal = None, cv_createdTimestamp = None, cv_createdBlock = None,
        cv_updateMessage = None, cv_content = Some ''x''\<rparr>],
      st_candidateContents := [''x'' \<mapsto> \<lparr>cc_id = ''x'', cc_proposer = None, cc_targets = None, cc_values = None,
        cc_signatures = None, cc_calldatas = None, cc_description = None, cc_proposalIdToUpdate = None, cc_title = None,
        cc_encodedProposalHash = Some h, cc_matchingProposalIds = None\<rparr>]\<rparr>"

lemma store_with_hash_stored:
  "candidate_hash env n c = Some h \<Longrightarrow> stored_candidate env (store_with_hash c h) ''s'' c n ''x''"
  by (simp add: stored_candidate_def store_with_hash_def handler_defs)

lemma store_with_hash_sigs [simp]: "st_candidateSigs (store_with_hash c h) = Map.empty"
  by (simp add: store_with_hash_def empty_store_def)

definition demo_form :: sign_form where
  "demo_form = new_sign_form\<lparr>gf_reasonText := ''why'', gf_expirationDate := Some 99\<rparr>"

text \<open>The demo content, with any description, encoded on chain and in the form.\<close>

definition demo_final_of :: "string \<Rightarrow> bytes" where
  "demo_final_of t = concat (map abi_word (AbiAddress (replicate 20 1) #
     map (\<lambda>b. AbiFixedBytes (demo_keccak b)) [address_word (replicate 20 2), number_word 5,
       demo_keccak (fromUTF8 ''f()''), demo_keccak [7], fromUTF8 t]))"

lemma demo_encoded: "dao_calcProposalEncodeData demo_env (demo_content\<lparr>ct_description := t\<rparr>) = Some (demo_final_of t)"
  by (simp add: dao_calcProposalEncodeData_def demo_env_def demo_content_def abi_ok_def demo_keccak_length demo_final_of_def)

lemma demo_content_facts:
  "content_wf (demo_content\<lparr>ct_description := t\<rparr>)"
  "clean_description (Some t) = Some t' \<Longrightarrow>
   shows_content (pc_of (demo_content\<lparr>ct_description := t\<rparr>) t' r v w ss) (demo_content\<lparr>ct_description := t\<rparr>)"
  by (simp_all add: content_wf_def shows_content_def pc_of_def demo_content_def is_uint256_def)

definition demo_call :: "string \<Rightarrow> int \<Rightarrow> add_signature_call" where
  "demo_call t n = \<lparr>as_sig = [5], as_expirationDate = Some 99, as_proposer = toHexString (replicate 20 1), as_slug = ''s'',
     as_proposalIdToUpdate = n, as_encodedProp = (if 0 < n then number_word n @ demo_final_of t else demo_final_of t),
     as_reason = ''why''\<rparr>"

lemma demo_sign:
  assumes "clean_description (Some t) = Some t'" "is_uint256 n"
  shows "\<exists>f'. sign demo_sign_env (\<lambda>_. Inr [5]) (pc_of (demo_content\<lparr>ct_description := t\<rparr>) t' r v w ss) n demo_form =
    (f', Some (demo_call t' n))"
  using form_encodes [OF demo_standard demo_content_facts(1) demo_content_facts(2) [OF assms(1)], of r v w ss] demo_encoded [of t']
  by (simp add: sign_def getSignature_def Let_def pc_of_def demo_call_def demo_form_def demo_sign_env_def demo_content_def)


text \<open>A description that begins with a quote.\<close>

definition quoted :: string where
  "quoted = CHR 0x22 # ''D''"

definition quoted_content :: proposal_content where
  "quoted_content = demo_content\<lparr>ct_description := quoted\<rparr>"

lemma quoted_collision_free:
  "inj_on (keccak256 demo_env) (set [fromUTF8 quoted, fromUTF8 ''D'', demo_final_of quoted, demo_final_of ''D''])"
proof -
  have "distinct (map demo_keccak [fromUTF8 quoted, fromUTF8 ''D'', demo_final_of quoted, demo_final_of ''D''])" by code_simp
  then show ?thesis by (simp only: distinct_map demo_env_def graph_env.simps)
qed

theorem cleaned_descriptions_lose_sponsors_witness:
  "\<exists>s'. handleSignatureAdded (demo_data_ctx 0) (signature_event demo_env [8] [9] (demo_call ''D'' 0) (replicate 20 1))
      (store_with_hash quoted_content (demo_keccak (demo_final_of quoted))) = Some s' \<and> st_candidateSigs s' = Map.empty"
proof -
  let ?pc = "pc_of quoted_content ''D'' 2 1 1 []"
  have cl: "clean_description (Some quoted) = Some ''D''" by code_simp
  have ne: "clean_description (Some (ct_description quoted_content)) \<noteq> Some (ct_description quoted_content)"
    using cl by (simp add: quoted_content_def) (simp add: quoted_def)
  have u: "is_uint256 0" by (simp add: is_uint256_def)
  obtain f' where f': "sign demo_sign_env (\<lambda>_. Inr [5]) ?pc 0 demo_form = (f', Some (demo_call ''D'' 0))"
    using demo_sign [OF cl u] unfolding quoted_content_def by blast
  have e: "dao_calcProposalEncodeData demo_env quoted_content = Some (demo_final_of quoted)"
    unfolding quoted_content_def by (rule demo_encoded)
  then have h: "candidate_hash demo_env 0 quoted_content = Some (demo_keccak (demo_final_of quoted))"
    by (simp add: candidate_hash_def demo_env_def)
  have slug: "pci_slug ?pc = ''s''" by (simp add: pc_of_def)
  have wf: "content_wf quoted_content" "shows_content ?pc quoted_content"
    unfolding quoted_content_def using demo_content_facts(1) demo_content_facts(2) [OF cl] by blast+
  have p: "ct_proposer quoted_content = replicate 20 1" by (simp add: quoted_content_def demo_content_def)
  have "\<exists>s'. handleSignatureAdded (demo_data_ctx 0) (signature_event demo_env [8] [9] (demo_call ''D'' 0) (ct_proposer quoted_content))
      (store_with_hash quoted_content (demo_keccak (demo_final_of quoted))) = Some s' \<and>
      st_candidateSigs s' = st_candidateSigs (store_with_hash quoted_content (demo_keccak (demo_final_of quoted)))"
    by (rule cleaned_descriptions_lose_sponsors [OF demo_standard wf u ne store_with_hash_stored [OF h, folded slug] f'
          demo_env_abi quoted_collision_free])
      (simp_all add: e demo_call_def, simp_all add: quoted_content_def pc_of_def)
  then show ?thesis by (simp add: p)
qed

text \<open>Two sponsors with one vote each for a proposer with one vote, and a threshold of two.\<close>

definition sponsor_of :: "string \<Rightarrow> bool \<Rightarrow> CandidateSignature" where
  "sponsor_of signer live = \<lparr>sg_reason = [], sg_expirationTimestamp = 50, sg_sig = ''0x'' @ signer, sg_canceled = False,
     sg_signer = signer, sg_proposals = [], sg_voteCount = Some 1, sg_activeOrPendingProposal = Some live\<rparr>"

definition demo_backing :: "string set \<Rightarrow> backing_view" where
  "demo_backing live = \<lparr>dv_votes = (\<lambda>_. 1), dv_live = (\<lambda>a. a \<in> live), dv_validSig = (\<lambda>_. True), dv_threshold = 2\<rparr>"

definition demo_selection :: "sig_object list \<Rightarrow> select_form" where
  "demo_selection xs = new_select_form\<lparr>sl_selected := xs\<rparr>"

definition length_compare :: "string \<Rightarrow> string \<Rightarrow> int" where
  "length_compare a b = int (length a) - int (length b)"

lemmas demo_dialog_defs = sponsor_of_def demo_backing_def demo_selection_def new_select_form_def pc_of_def requiredVotes_def


lemma length_compare_order: "text_order length_compare {''a'', ''bb'', ''ccc''}"
  by (simp add: text_order_def length_compare_def)

theorem update_signers_match_witness:
  "dao_updateProposalBySigs_guard (demo_backing {}) True True [''a'', ''bb'']
    [(''0xa'', ''a'', 50), (''0xbb'', ''bb'', 50)]"
proof -
  let ?f = "demo_selection [(1, sponsor_of ''bb'' False), (2, sponsor_of ''a'' False)]"
    and ?pc = "pc_of demo_content ''D'' 2 1 2 []" and ?ss = "[(''0xa'', ''a'', 50), (''0xbb'', ''bb'', 50)]"
    and ?pc' = "pc_of demo_content ''D'' 2 1 2 [sponsor_of ''a'' False, sponsor_of ''bb'' False]"
  have sorted: "sortedSigs length_compare [sponsor_of ''bb'' False, sponsor_of ''a'' False] = ?ss"
      "sortedSigs length_compare [sponsor_of ''a'' False, sponsor_of ''bb'' False] = ?ss"
    by (simp_all add: sortedSigs_def js_sort_def sig_triple_def sponsor_of_def length_compare_def)
  show ?thesis
  proof (rule update_signers_match [OF length_compare_order, of ?f ?pc ?ss "pcv_targets ?pc" "pcv_values ?pc" "pcv_signatures ?pc"
        "pcv_calldatas ?pc" "pcv_description ?pc" "demo_backing {}" "''ccc''" _ ?pc' "''9''" new_update_form _
        "pcv_targets ?pc'" "pcv_values ?pc'" "pcv_signatures ?pc'" "pcv_calldatas ?pc'" "pcv_description ?pc'" "[]"])
    show "snd (select_handleSubmission length_compare ?pc ?f) = CallProposeBySigs ?ss (pcv_targets ?pc) (pcv_values ?pc)
        (pcv_signatures ?pc) (pcv_calldatas ?pc) (pcv_description ?pc)"
      by (simp add: select_handleSubmission_def demo_selection_def sorted)
    show "dao_proposeBySigs (demo_backing {}) ''ccc'' ?ss = Some [''a'', ''bb'']"
      by (simp add: dao_proposeBySigs_def demo_backing_def)
  qed (simp_all add: handleSubmitUpdateToProposal_def new_update_form_def sorted pc_of_def, simp_all add: demo_dialog_defs insert_commute)
qed

theorem threshold_announced_early_witness:
  "sponsors_isThresholdMet (pc_of demo_content ''D'' 2 1 1 []) None \<and>
   \<not> submit_enabled (pci_requiredVotes (pc_of demo_content ''D'' 2 1 1 [])) (demo_selection [(1, sponsor_of ''bb'' False)])"
  using threshold_announced_early [of "pc_of demo_content ''D'' 2 1 1 []" 2 0 False False False "demo_selection [(1, sponsor_of ''bb'' False)]"]
  by (simp add: demo_dialog_defs selectedVoteCount_def)

theorem select_all_is_refused_witness:
  "\<not> dao_accepts (demo_backing {''a''}) ''ccc'' (snd (select_handleSubmission length_compare (pc_of demo_content ''D'' 2 1 2 [])
     (toggle_all [(1, sponsor_of ''bb'' False), (2, sponsor_of ''a'' True)] (demo_selection [(1, sponsor_of ''bb'' False)]))))"
  using select_all_is_refused [of "(2, sponsor_of ''a'' True)" "[(1, sponsor_of ''bb'' False), (2, sponsor_of ''a'' True)]"
      "demo_backing {''a''}" "demo_selection [(1, sponsor_of ''bb'' False)]" "''ccc''" length_compare "pc_of demo_content ''D'' 2 1 2 []"]
  by (simp add: demo_dialog_defs)

end
