(* ===== verification/Webapp_Feedback.thy ===== *)
theory Webapp_Feedback
  imports Webapp_Vote Subgraph_Data_Props
begin

text \<open>
  Feedback on proposals and candidates (\<open>packages/nouns-webapp/src/components/VoteSignals\<close>): the three groups of
  feedback on the current version, the form, and the transaction that sends feedback; with the conditions of
  \<open>sendFeedback\<close> and \<open>sendCandidateFeedback\<close> in \<open>NounsDAOData.sol\<close>.

  The service sends times and votes as decimal texts, which the comparison with a number reads; here they are numbers.
\<close>

section \<open>The list\<close>

record VoteSignalDetail =
  vsd_supportDetailed :: int
  vsd_reason :: string
  vsd_votes :: int
  vsd_createdTimestamp :: int
  vsd_voter :: string

record signals =
  vs_reasonText :: string
  vs_support :: "int option"
  vs_isTransactionWaiting :: bool
  vs_isTransactionPending :: bool
  vs_forFeedback :: "VoteSignalDetail list"
  vs_againstFeedback :: "VoteSignalDetail list"
  vs_abstainFeedback :: "VoteSignalDetail list"
  vs_hasUserVoted :: bool
  vs_userVoteSupport :: "VoteSignalDetail option"
  vs_expandedGroup :: "int option"
  vs_modal :: "AlertModal option"
  vs_pollInterval :: int
  vs_refetches :: nat

definition new_signals :: signals where
  "new_signals = \<lparr>vs_reasonText = [], vs_support = None, vs_isTransactionWaiting = False, vs_isTransactionPending = False,
     vs_forFeedback = [], vs_againstFeedback = [], vs_abstainFeedback = [], vs_hasUserVoted = False, vs_userVoteSupport = None,
     vs_expandedGroup = None, vs_modal = None, vs_pollInterval = 0, vs_refetches = 0\<rparr>"

definition toUpperCase :: "string \<Rightarrow> string" where
  "toUpperCase = map (\<lambda>c. let k = of_char c :: nat in if 97 \<le> k \<and> k \<le> 122 then char_of (k - 32) else c)"

text \<open>Feedback that is not older than the version; a missing time is zero.\<close>

definition version_feedback :: "VoteSignalDetail list \<Rightarrow> int \<Rightarrow> VoteSignalDetail list" where
  "version_feedback feedback versionTimestamp =
     (if versionTimestamp \<noteq> 0 then filter (\<lambda>f. versionTimestamp \<le> vsd_createdTimestamp f) feedback else feedback)"

definition by_account :: "string option \<Rightarrow> VoteSignalDetail \<Rightarrow> bool" where
  "by_account account f =
     (case account of None \<Rightarrow> False | Some a \<Rightarrow> a \<noteq> [] \<and> toUpperCase a = toUpperCase (vsd_voter f))"

definition note_vote :: "string option \<Rightarrow> signals \<Rightarrow> VoteSignalDetail \<Rightarrow> signals" where
  "note_vote account s f = (if by_account account f then s\<lparr>vs_hasUserVoted := True, vs_userVoteSupport := Some f\<rparr> else s)"

definition feedback_effect :: "VoteSignalDetail list option \<Rightarrow> int \<Rightarrow> string option \<Rightarrow> signals \<Rightarrow> signals" where
  "feedback_effect feedback versionTimestamp account s =
     (case feedback of
        None \<Rightarrow> s
      | Some fs \<Rightarrow>
          let versionFeedback = version_feedback fs versionTimestamp;
              group = (\<lambda>n. filter (\<lambda>f. vsd_supportDetailed f = n) versionFeedback)
          in foldl (note_vote account)
               (s\<lparr>vs_forFeedback := group 1, vs_againstFeedback := group 0, vs_abstainFeedback := group 2\<rparr>) versionFeedback)"

section \<open>The form\<close>

record feedback_props =
  fp_proposalId :: "string option"
  fp_proposer :: "string option"
  fp_isCandidate :: bool
  fp_candidateSlug :: "string option"
  fp_userVotes :: "int option"
  fp_isFeedbackClosed :: bool

datatype feedback_call =
    SendFeedback "int option" int string
  | SendCandidateFeedback string string int string

definition handleFeedbackSubmit ::
  "feedback_props \<Rightarrow> int option \<Rightarrow> int \<Rightarrow> string \<Rightarrow> string option \<Rightarrow> string option \<Rightarrow> feedback_call option" where
  "handleFeedbackSubmit p proposalId supportNum reason candidateSlug proposer =
     (if 2 < supportNum then None
      else case (candidateSlug, proposer) of
             (Some slug, Some pr) \<Rightarrow>
               if fp_isCandidate p \<and> slug \<noteq> [] \<and> pr \<noteq> [] then Some (SendCandidateFeedback pr slug supportNum reason)
               else Some (SendFeedback proposalId supportNum reason)
           | _ \<Rightarrow> Some (SendFeedback proposalId supportNum reason))"

definition toggle_support :: "int \<Rightarrow> signals \<Rightarrow> signals" where
  "toggle_support n s =
     (if vs_isTransactionPending s \<or> vs_isTransactionWaiting s then s
      else s\<lparr>vs_support := (if vs_support s = Some n then None else Some n)\<rparr>)"

definition feedback_form_shown :: "feedback_props \<Rightarrow> signals \<Rightarrow> bool" where
  "feedback_form_shown p s \<longleftrightarrow>
     (case fp_userVotes p of None \<Rightarrow> False | Some v \<Rightarrow> \<not> fp_isFeedbackClosed p \<and> 0 < v) \<and> \<not> vs_hasUserVoted s \<and>
     \<not> (vs_isTransactionWaiting s \<or> vs_isTransactionPending s)"

definition feedback_submit_enabled :: "feedback_props \<Rightarrow> signals \<Rightarrow> bool" where
  "feedback_submit_enabled p s \<longleftrightarrow>
     feedback_form_shown p s \<and> \<not> (vs_support s = None \<or> vs_isTransactionPending s \<or> vs_isTransactionWaiting s)"

definition submit_feedback :: "feedback_props \<Rightarrow> signals \<Rightarrow> signals \<times> feedback_call option" where
  "submit_feedback p s =
     (s\<lparr>vs_isTransactionWaiting := True\<rparr>,
      case (fp_proposalId p, vs_support s) of
        (Some i, Some support) \<Rightarrow>
          if i = [] then None
          else handleFeedbackSubmit p (string_to_int i) support (vs_reasonText s) (fp_candidateSlug p) (fp_proposer p)
      | _ \<Rightarrow> None)"

definition send_feedback_effect :: "tx_status \<Rightarrow> signals \<Rightarrow> signals" where
  "send_feedback_effect state s =
     (case tx_state state of
        TxNone \<Rightarrow> s\<lparr>vs_isTransactionPending := False\<rparr>
      | PendingSignature \<Rightarrow> s\<lparr>vs_isTransactionWaiting := True\<rparr>
      | Mining \<Rightarrow> s\<lparr>vs_isTransactionWaiting := False, vs_isTransactionPending := True, vs_pollInterval := 50\<rparr>
      | Success \<Rightarrow> s\<lparr>vs_refetches := Suc (vs_refetches s), vs_isTransactionPending := False, vs_hasUserVoted := True,
          vs_expandedGroup := vs_support s\<rparr>
      | Fail \<Rightarrow> s\<lparr>vs_modal := Some \<lparr>am_title = ''Transaction Failed'', am_message = or_text (tx_errorMessage state) ''Please try again.''\<rparr>,
          vs_isTransactionPending := False, vs_isTransactionWaiting := False, vs_pollInterval := 0\<rparr>
      | Exception \<Rightarrow> s\<lparr>vs_modal := Some \<lparr>am_title = ''Error'', am_message = or_text (tx_errorMessage state) ''Please try again.''\<rparr>,
          vs_isTransactionPending := False, vs_isTransactionWaiting := False, vs_pollInterval := 0\<rparr>)"

text \<open>A group opens when it is chosen or has feedback; its button is disabled while it is empty.\<close>

definition group_effect :: "bool \<Rightarrow> VoteSignalDetail list \<Rightarrow> int \<Rightarrow> bool \<Rightarrow> bool" where
  "group_effect chosen voteSignals support isExpanded =
     (if chosen then True
      else if support = 1 \<and> 0 < length voteSignals then True
      else if support = 0 \<and> 0 < length voteSignals then True
      else if support = 2 \<and> 0 < length voteSignals then True
      else isExpanded)"

definition toggle_group :: "VoteSignalDetail list \<Rightarrow> bool \<Rightarrow> bool" where
  "toggle_group voteSignals isExpanded = (if 0 < length voteSignals then \<not> isExpanded else isExpanded)"

section \<open>The contract\<close>

definition dao_feedback_guard :: "(string \<Rightarrow> string \<Rightarrow> bool) \<Rightarrow> feedback_call \<Rightarrow> bool" where
  "dao_feedback_guard candidates call = (case call of
     SendFeedback i support reason \<Rightarrow> i \<noteq> None \<and> 0 \<le> support \<and> support \<le> 2
   | SendCandidateFeedback proposer slug support reason \<Rightarrow> candidates proposer slug \<and> 0 \<le> support \<and> support \<le> 2)"

section \<open>The groups\<close>

lemma note_votes:
  "foldl (note_vote account) s fs =
     (if filter (by_account account) fs = [] then s
      else s\<lparr>vs_hasUserVoted := True, vs_userVoteSupport := Some (last (filter (by_account account) fs))\<rparr>)"
proof (induction fs arbitrary: s)
  case (Cons f fs)
  then show ?case by (cases "filter (by_account account) fs = []") (simp_all add: note_vote_def)
qed simp

definition split_feedback :: "signals \<Rightarrow> VoteSignalDetail list" where
  "split_feedback s = vs_forFeedback s @ vs_againstFeedback s @ vs_abstainFeedback s"

lemma mset_groups:
  "\<forall>f \<in> set fs. vsd_supportDetailed f \<in> {0, 1, 2} \<Longrightarrow>
   mset (filter (\<lambda>f. vsd_supportDetailed f = 1) fs @ filter (\<lambda>f. vsd_supportDetailed f = 0) fs @ filter (\<lambda>f. vsd_supportDetailed f = 2) fs) = mset fs"
  by (induction fs) auto

text \<open>
  The groups of feedback. Whatever feedback arrives for a version, each piece stands in exactly one group, that of
  its support, none older than the version is shown, and the feedback noted as one's own is the last one of
  the connected account, in whatever spelling of its address.
\<close>

theorem feedback_is_grouped:
  assumes "\<forall>f \<in> set fs. vsd_supportDetailed f \<in> {0, 1, 2}"
  shows "mset (split_feedback (feedback_effect (Some fs) t account s)) = mset (version_feedback fs t) \<and>
    (\<forall>f \<in> set (vs_forFeedback (feedback_effect (Some fs) t account s)). vsd_supportDetailed f = 1) \<and>
    (\<forall>f \<in> set (vs_againstFeedback (feedback_effect (Some fs) t account s)). vsd_supportDetailed f = 0) \<and>
    (\<forall>f \<in> set (vs_abstainFeedback (feedback_effect (Some fs) t account s)). vsd_supportDetailed f = 2) \<and>
    (\<forall>f \<in> set (version_feedback fs t). by_account account f \<longrightarrow>
       vs_userVoteSupport (feedback_effect (Some fs) t account s) = Some (last (filter (by_account account) (version_feedback fs t))))"
proof -
  have "\<forall>f \<in> set (version_feedback fs t). vsd_supportDetailed f \<in> {0, 1, 2}"
    using assms by (auto simp: version_feedback_def)
  from mset_groups [OF this] show ?thesis
    by (auto simp: feedback_effect_def note_votes split_feedback_def Let_def filter_empty_conv)
qed

section \<open>What is sent\<close>

text \<open>The three buttons, the text field, the submit button, the states of the transaction and new feedback, in any order.\<close>

datatype signal_action =
    ChooseSupport nat
  | WriteReason string
  | SubmitFeedback
  | FeedbackTx tx_status
  | FeedbackArrives "VoteSignalDetail list option" int "string option"

type_synonym signal_system = "signals \<times> feedback_call list"

fun signal_step :: "feedback_props \<Rightarrow> signal_action \<Rightarrow> signal_system \<Rightarrow> signal_system option" where
  "signal_step p (ChooseSupport n) (s, sent) = Some (if feedback_form_shown p s then toggle_support (int n) s else s, sent)"
| "signal_step p (WriteReason t) (s, sent) = Some (if feedback_form_shown p s then s\<lparr>vs_reasonText := t\<rparr> else s, sent)"
| "signal_step p SubmitFeedback (s, sent) =
     Some (if feedback_submit_enabled p s
           then (case submit_feedback p s of (s, None) \<Rightarrow> (s, sent) | (s, Some call) \<Rightarrow> (s, sent @ [call])) else (s, sent))"
| "signal_step p (FeedbackTx state) (s, sent) = Some (send_feedback_effect state s, sent)"
| "signal_step p (FeedbackArrives fs t account) (s, sent) = Some (feedback_effect fs t account s, sent)"

fun signal_legal :: "signal_action \<Rightarrow> signal_system \<Rightarrow> bool" where
  "signal_legal (ChooseSupport n) y = (n < 3)"
| "signal_legal _ y = True"

definition signal_inv :: "feedback_props \<Rightarrow> (string \<Rightarrow> string \<Rightarrow> bool) \<Rightarrow> signal_system \<Rightarrow> bool" where
  "signal_inv p candidates y \<longleftrightarrow>
     (\<forall>n. vs_support (fst y) = Some n \<longrightarrow> 0 \<le> n \<and> n \<le> 2) \<and>
     (\<forall>call \<in> set (snd y). dao_feedback_guard candidates call)"

text \<open>The properties of the component: a proposal by its number, or a candidate that exists.\<close>

definition feedback_target :: "feedback_props \<Rightarrow> (string \<Rightarrow> string \<Rightarrow> bool) \<Rightarrow> bool" where
  "feedback_target p candidates \<longleftrightarrow>
     (if fp_isCandidate p
      then \<exists>pr slug. fp_proposer p = Some pr \<and> fp_candidateSlug p = Some slug \<and> pr \<noteq> [] \<and> slug \<noteq> [] \<and> candidates pr slug
      else \<exists>i. fp_proposalId p = Some (int_to_string i))"

lemma submitted_accepted:
  assumes "feedback_target p candidates" "\<forall>n. vs_support s = Some n \<longrightarrow> 0 \<le> n \<and> n \<le> 2" "snd (submit_feedback p s) = Some call"
  shows "dao_feedback_guard candidates call"
  using assms
  by (auto simp: feedback_target_def submit_feedback_def handleFeedbackSubmit_def dao_feedback_guard_def split: if_splits option.splits prod.splits)

lemma support_kept [simp]:
  "vs_support (feedback_effect fs t account s) = vs_support s" "vs_support (send_feedback_effect state s) = vs_support s"
  "vs_support (fst (submit_feedback p s)) = vs_support s"
  by (auto simp: feedback_effect_def note_votes Let_def send_feedback_effect_def submit_feedback_def split: option.splits tx_state.splits)

lemma signal_inv_step:
  assumes target: "feedback_target p candidates" and inv: "signal_inv p candidates y"
    and legal: "signal_legal e y" and step: "signal_step p e y = Some y'"
  shows "signal_inv p candidates y'"
proof -
  obtain s sent where y: "y = (s, sent)" by (cases y)
  show ?thesis
  proof (cases e)
    case (ChooseSupport n)
    then show ?thesis using inv legal step y by (auto simp: signal_inv_def toggle_support_def split: if_splits)
  next
    case SubmitFeedback
    show ?thesis
    proof (cases "feedback_submit_enabled p s \<and> snd (submit_feedback p s) \<noteq> None")
      case True
      then obtain call where call: "snd (submit_feedback p s) = Some call" by auto
      have "dao_feedback_guard candidates call"
        using submitted_accepted [OF target _ call] inv y by (simp add: signal_inv_def)
      moreover have "y' = (fst (submit_feedback p s), sent @ [call])"
        using step SubmitFeedback y True call by (auto split: prod.splits)
      ultimately show ?thesis using inv y by (auto simp: signal_inv_def)
    next
      case False
      then have "y' = (s, sent) \<or> y' = (fst (submit_feedback p s), sent)"
        using step SubmitFeedback y by (auto split: prod.splits if_splits)
      then show ?thesis using inv y by (auto simp: signal_inv_def)
    qed
  qed (use inv step y in \<open>auto simp: signal_inv_def split: if_splits\<close>)
qed

interpretation feedback: machine "signal_step p" signal_legal "\<lambda>y. feedback_target p candidates \<longrightarrow> signal_inv p candidates y" for p candidates
  by unfold_locales (blast intro: signal_inv_step)

text \<open>
  Whatever is clicked, typed and answered in any order, every call that the component sends passes the checks of
  the contract: its support is one of the three values, and it names a proposal or an existing candidate.
\<close>

theorem feedback_calls_accepted:
  assumes "feedback_target p candidates" "legal_run (signal_step p) signal_legal es (new_signals, [])"
  shows "\<exists>s sent. run_events (signal_step p) es (new_signals, []) = Some (s, sent) \<and> (\<forall>call \<in> set sent. dao_feedback_guard candidates call)"
proof -
  have "signal_inv p candidates (new_signals, [])" by (simp add: signal_inv_def new_signals_def)
  then obtain y where "run_events (signal_step p) es (new_signals, []) = Some y" "signal_inv p candidates y"
    using feedback.legal_run_inv [OF _ assms(2), of candidates] assms(1) by blast
  then show ?thesis by (cases y) (auto simp: signal_inv_def)
qed

section \<open>From the form to the list\<close>

definition feedback_answer :: "proposal_feedback \<Rightarrow> VoteSignalDetail option" where
  "feedback_answer e =
     do {
       support \<leftarrow> pf_supportDetailed e; reason \<leftarrow> pf_reason e; votes \<leftarrow> pf_votes e; time \<leftarrow> proposal_feedback.pf_createdTimestamp e; voter \<leftarrow> pf_voter e;
       Some \<lparr>vsd_supportDetailed = sint support, vsd_reason = reason, vsd_votes = votes, vsd_createdTimestamp = time, vsd_voter = voter\<rparr>
     }"

definition feedback_id :: "event_ctx \<Rightarrow> string" where
  "feedback_id ctx = toHexString (ev_txHash ctx) @ ''-'' @ int_to_string (ev_logIndex ctx)"

lemma feedback_stored:
  assumes "\<forall>k e. st_proposalFeedback st k = Some e \<longrightarrow> pf_id e = k" "\<forall>k d. st_delegates st k = Some d \<longrightarrow> del_id d = k"
    and "0 \<le> n" "n \<le> 2"
  shows "\<exists>e f. load_proposal_feedback (feedback_id ctx) (handleFeedbackSent ctx sender i (word_of_int n) reason st) = Some e \<and>
    pf_proposal e = Some (int_to_string i) \<and> feedback_answer e = Some f \<and> vsd_supportDetailed f = n \<and> vsd_reason f = reason \<and>
    vsd_voter f = toHexString sender \<and> vsd_createdTimestamp f = ev_blockTimestamp ctx"
proof -
  have "n = 0 \<or> n = 1 \<or> n = 2" using assms(3,4) by presburger
  then have n: "sint (word_of_int n :: i32) = n" by auto
  have i: "pf_id (getOrCreateProposalFeedback (feedback_id ctx) st) = feedback_id ctx"
    using assms(1) by (auto simp: getOrCreateProposalFeedback_def load_proposal_feedback_def split: option.splits)
  obtain d st' where d: "getOrCreateDelegate (toHexString sender) st = (d, st')" by fastforce
  then have "del_id d = toHexString sender"
    using assms(2) by (auto simp: getOrCreateDelegate_def getOrCreateDelegateWithNullOption_def load_delegate_def new_delegate_def Let_def
        split: option.splits if_splits prod.splits)
  with d i n show ?thesis
    by (auto simp: handleFeedbackSent_def feedback_id_def proposal_feedback_store.load_save feedback_answer_def Let_def)
qed


text \<open>
  The form does not come back. Once feedback of the connected account was seen, the form stays closed for every later
  version, also one without any feedback, and for every other account, until the page is loaded again.
\<close>

theorem feedback_form_stays_closed:
  assumes "f \<in> set fs" "t \<le> vsd_createdTimestamp f" "by_account account f"
  shows "\<not> feedback_form_shown p (feedback_effect fs' t' account' (feedback_effect (Some fs) t account s))"
proof -
  have "vs_hasUserVoted (feedback_effect (Some fs) t account s)"
    using assms by (auto simp: feedback_effect_def note_votes version_feedback_def Let_def filter_empty_conv)
  then show ?thesis by (auto simp: feedback_form_shown_def feedback_effect_def note_votes Let_def split: option.splits)
qed

section \<open>An example\<close>

definition demo_feedback_props :: feedback_props where
  "demo_feedback_props = \<lparr>fp_proposalId = Some (int_to_string 5), fp_proposer = None, fp_isCandidate = False, fp_candidateSlug = None,
     fp_userVotes = Some 2, fp_isFeedbackClosed = False\<rparr>"

definition demo_signals :: signals where
  "demo_signals = new_signals\<lparr>vs_support := Some 1, vs_reasonText := ''good''\<rparr>"


end
