(* ===== verification/Webapp_Delegate.thy ===== *)
theory Webapp_Delegate
  imports Webapp_Vote
begin

text \<open>
  Changing the delegate of an account (\<open>packages/nouns-webapp/src/components/ChangeDelegatePannel\<close>,
  \<open>CurrentDelegatePannel\<close>, \<open>DelegationCandidateInfo\<close>, \<open>DelegationModal\<close>): a text field for an address or a name, the
  lookup of names, the transaction and the number of votes shown for the new delegate.

  The lookup of names and the check of addresses are parameters. A lookup takes time: names whose answer has not
  arrived are pending, and answers arrive in any order.
\<close>

section \<open>The panel\<close>

datatype ChangeDelegateState = ENTER_DELEGATE_ADDRESS | CHANGING | CHANGE_SUCCESS | CHANGE_FAILURE

definition getTitleFromState :: "ChangeDelegateState \<Rightarrow> string" where
  "getTitleFromState state = (case state of
     CHANGING \<Rightarrow> ''Updating...''
   | CHANGE_SUCCESS \<Rightarrow> ''Delegate Updated!''
   | CHANGE_FAILURE \<Rightarrow> ''Delegate Update Failed''
   | _ \<Rightarrow> ''Update Delegate'')"

record delegate_panel =
  dp_changeDelegateState :: ChangeDelegateState
  dp_delegateAddress :: string
  dp_delegateInputText :: string
  dp_delegateInputClass :: string
  dp_hasResolvedDeepLinkedENS :: bool
  dp_pending :: "string list"

record delegate_env =
  de_resolveName :: "string \<Rightarrow> string option"
  de_isAddress :: "string \<Rightarrow> bool"
  de_availableVotes :: int
  de_delegateTo :: "string option"
  de_currentDelegate :: "string option"

definition delegate_state_effect :: "tx_status \<Rightarrow> delegate_panel \<Rightarrow> delegate_panel" where
  "delegate_state_effect state p =
     (let p = (if tx_state state = Success then p\<lparr>dp_changeDelegateState := CHANGE_SUCCESS\<rparr> else p);
          p = (if tx_state state = Exception \<or> tx_state state = Fail then p\<lparr>dp_changeDelegateState := CHANGE_FAILURE\<rparr> else p)
      in if tx_state state = Mining then p\<lparr>dp_changeDelegateState := CHANGING\<rparr> else p)"

definition input_class_effect :: "delegate_env \<Rightarrow> delegate_panel \<Rightarrow> delegate_panel" where
  "input_class_effect env p =
     p\<lparr>dp_delegateInputClass :=
        (if length (dp_delegateAddress p) = 0 then ''empty''
         else if de_isAddress env (dp_delegateAddress p) then ''valid'' else ''invalid'')\<rparr>"

text \<open>Setting the address runs the effects that depend on it, if it changed: the class of the field and a new lookup.\<close>

definition setDelegateAddress :: "delegate_env \<Rightarrow> string \<Rightarrow> delegate_panel \<Rightarrow> delegate_panel" where
  "setDelegateAddress env a p =
     (if a = dp_delegateAddress p then p
      else input_class_effect env (p\<lparr>dp_delegateAddress := a, dp_pending := dp_pending p @ [a]\<rparr>))"

text \<open>The first rendering starts with the address of the link and looks it up.\<close>

definition new_panel :: "delegate_env \<Rightarrow> delegate_panel" where
  "new_panel env =
     (let a = (case de_delegateTo env of None \<Rightarrow> [] | Some a \<Rightarrow> a)
      in input_class_effect env
           \<lparr>dp_changeDelegateState = ENTER_DELEGATE_ADDRESS, dp_delegateAddress = a, dp_delegateInputText = a,
            dp_delegateInputClass = [], dp_hasResolvedDeepLinkedENS = False, dp_pending = [a]\<rparr>)"

text \<open>The answer to a lookup; a name without an account leaves the address as it is.\<close>

definition checkIsValidENS :: "delegate_env \<Rightarrow> string \<Rightarrow> delegate_panel \<Rightarrow> delegate_panel" where
  "checkIsValidENS env name p =
     (let p = p\<lparr>dp_pending := remove1 name (dp_pending p)\<rparr>;
          p = (case de_resolveName env name of None \<Rightarrow> p | Some a \<Rightarrow> if a = [] then p else setDelegateAddress env a p)
      in input_class_effect env (p\<lparr>dp_hasResolvedDeepLinkedENS := True\<rparr>))"

definition input_shown :: "delegate_env \<Rightarrow> delegate_panel \<Rightarrow> bool" where
  "input_shown env p \<longleftrightarrow> dp_changeDelegateState p \<noteq> CHANGE_FAILURE \<and> de_delegateTo env = None"

definition type_delegate :: "delegate_env \<Rightarrow> string \<Rightarrow> delegate_panel \<Rightarrow> delegate_panel" where
  "type_delegate env t p = (setDelegateAddress env t p)\<lparr>dp_delegateInputText := t\<rparr>"

definition delegate_enabled :: "delegate_env \<Rightarrow> delegate_panel \<Rightarrow> bool" where
  "delegate_enabled env p \<longleftrightarrow>
     dp_changeDelegateState p = ENTER_DELEGATE_ADDRESS \<and>
     \<not> ((dp_changeDelegateState p = ENTER_DELEGATE_ADDRESS \<and> \<not> de_isAddress env (dp_delegateAddress p)) \<or> de_availableVotes env = 0)"

definition change_again :: "delegate_env \<Rightarrow> delegate_panel \<Rightarrow> delegate_panel" where
  "change_again env p =
     (if dp_changeDelegateState p = CHANGE_SUCCESS
      then (setDelegateAddress env [] p)\<lparr>dp_delegateInputText := [], dp_changeDelegateState := ENTER_DELEGATE_ADDRESS\<rparr> else p)"

definition changeDelegateWarning :: "int \<Rightarrow> int \<Rightarrow> int option \<Rightarrow> bool" where
  "changeDelegateWarning availableVotes accountVotes proposalThreshold \<longleftrightarrow>
     0 < availableVotes \<and> accountVotes - availableVotes < (case proposalThreshold of None \<Rightarrow> 0 | Some t \<Rightarrow> t) + 1"

section \<open>The shown votes\<close>

definition will_have_effect :: "ChangeDelegateState \<Rightarrow> int \<Rightarrow> int \<Rightarrow> int \<Rightarrow> int" where
  "will_have_effect state countDelegatedNouns votesToAdd willHaveVoteCount =
     (if state = ENTER_DELEGATE_ADDRESS \<and> willHaveVoteCount \<noteq> 0 then 0
      else if 0 < willHaveVoteCount then willHaveVoteCount
      else if state \<noteq> ENTER_DELEGATE_ADDRESS \<and> willHaveVoteCount \<noteq> countDelegatedNouns + votesToAdd
      then countDelegatedNouns + votesToAdd else willHaveVoteCount)"

definition shown_votes :: "ChangeDelegateState \<Rightarrow> int \<Rightarrow> int \<Rightarrow> (string \<times> int) option" where
  "shown_votes state countDelegatedNouns willHaveVoteCount = (case state of
     ENTER_DELEGATE_ADDRESS \<Rightarrow> Some (if 0 < countDelegatedNouns then ''Already has'' else ''Has'', countDelegatedNouns)
   | CHANGING \<Rightarrow> Some (''Will have'', willHaveVoteCount)
   | CHANGE_SUCCESS \<Rightarrow> Some (''Now has'', countDelegatedNouns)
   | CHANGE_FAILURE \<Rightarrow> None)"

definition shown_delegate :: "string option \<Rightarrow> string option \<Rightarrow> string" where
  "shown_delegate delegate maybeAccount =
     (case delegate of Some d \<Rightarrow> d | None \<Rightarrow> (case maybeAccount of Some a \<Rightarrow> a | None \<Rightarrow> []))"

section \<open>Runs\<close>

datatype delegate_action =
    TypeDelegate string
  | LookupArrives string
  | ClickDelegate
  | DelegateTx tx_status
  | ChangeAgain

type_synonym delegate_system = "delegate_panel \<times> (string \<times> string) list"

text \<open>A sent delegation is kept with the text that the field showed.\<close>

fun delegate_step :: "delegate_env \<Rightarrow> delegate_action \<Rightarrow> delegate_system \<Rightarrow> delegate_system option" where
  "delegate_step env (TypeDelegate t) (p, sent) = Some (if input_shown env p then type_delegate env t p else p, sent)"
| "delegate_step env (LookupArrives name) (p, sent) =
     Some (if name \<in> set (dp_pending p) then checkIsValidENS env name p else p, sent)"
| "delegate_step env ClickDelegate (p, sent) =
     Some (p, if delegate_enabled env p then sent @ [(dp_delegateInputText p, dp_delegateAddress p)] else sent)"
| "delegate_step env (DelegateTx state) (p, sent) = Some (delegate_state_effect state p, sent)"
| "delegate_step env ChangeAgain (p, sent) = Some (change_again env p, sent)"

text \<open>A patient user changes the text only while no lookup is pending.\<close>

fun patient :: "delegate_action \<Rightarrow> delegate_system \<Rightarrow> bool" where
  "patient (TypeDelegate t) y = (dp_pending (fst y) = [])"
| "patient ChangeAgain y = (dp_pending (fst y) = [])"
| "patient _ y = True"

text \<open>An address resolves to itself, in its standard spelling.\<close>

definition resolves_addresses :: "delegate_env \<Rightarrow> bool" where
  "resolves_addresses env \<longleftrightarrow> (\<forall>x a. de_resolveName env x = Some a \<longrightarrow> de_resolveName env a = Some a)"

definition stands_for :: "delegate_env \<Rightarrow> string \<Rightarrow> string \<Rightarrow> bool" where
  "stands_for env text a \<longleftrightarrow> a = text \<or> de_resolveName env text = Some a"

definition delegate_inv :: "delegate_env \<Rightarrow> delegate_system \<Rightarrow> bool" where
  "delegate_inv env y \<longleftrightarrow>
     stands_for env (dp_delegateInputText (fst y)) (dp_delegateAddress (fst y)) \<and>
     (\<forall>name \<in> set (dp_pending (fst y)). stands_for env (dp_delegateInputText (fst y)) name) \<and>
     (\<forall>(text, a) \<in> set (snd y). stands_for env text a \<and> de_isAddress env a)"

lemma panel_fields [simp]:
  "dp_delegateAddress (input_class_effect env p) = dp_delegateAddress p" "dp_delegateInputText (input_class_effect env p) = dp_delegateInputText p"
  "dp_pending (input_class_effect env p) = dp_pending p" "dp_changeDelegateState (input_class_effect env p) = dp_changeDelegateState p"
  "dp_delegateAddress (delegate_state_effect state p) = dp_delegateAddress p"
  "dp_delegateInputText (delegate_state_effect state p) = dp_delegateInputText p" "dp_pending (delegate_state_effect state p) = dp_pending p"
  "dp_delegateAddress (setDelegateAddress env a p) = a" "dp_delegateInputText (setDelegateAddress env a p) = dp_delegateInputText p"
  "dp_pending (setDelegateAddress env a p) = (if a = dp_delegateAddress p then dp_pending p else dp_pending p @ [a])"
  "dp_changeDelegateState (setDelegateAddress env a p) = dp_changeDelegateState p"
  by (simp_all add: input_class_effect_def delegate_state_effect_def setDelegateAddress_def Let_def)

lemma stands_for_trans: "resolves_addresses env \<Longrightarrow> stands_for env t x \<Longrightarrow> de_resolveName env x = Some a \<Longrightarrow> stands_for env t a"
  by (auto simp: stands_for_def resolves_addresses_def)

lemma lookup_keeps_inv:
  assumes "resolves_addresses env" "delegate_inv env (p, sent)" "name \<in> set (dp_pending p)"
  shows "delegate_inv env (checkIsValidENS env name p, sent)"
proof -
  have name: "stands_for env (dp_delegateInputText p) name" using assms(2,3) by (simp add: delegate_inv_def)
  have rest: "stands_for env (dp_delegateInputText p) n" if "n \<in> set (remove1 name (dp_pending p))" for n
    using assms(2) notin_set_remove1 that by (fastforce simp: delegate_inv_def dest: set_remove1_subset [THEN subsetD])
  show ?thesis using assms(2) rest stands_for_trans [OF assms(1) name]
    by (auto simp: delegate_inv_def checkIsValidENS_def Let_def split: option.splits if_splits)
qed

lemma delegate_inv_step:
  assumes res: "resolves_addresses env" and inv: "delegate_inv env y" and legal: "patient e y" and step: "delegate_step env e y = Some y'"
  shows "delegate_inv env y'"
proof -
  obtain p sent where y: "y = (p, sent)" by (cases y)
  show ?thesis
  proof (cases e)
    case (LookupArrives name)
    then show ?thesis using step y inv lookup_keeps_inv [OF res, of p sent name] by (auto split: if_splits)
  next
    case (TypeDelegate t)
    then show ?thesis using step y inv legal by (auto simp: delegate_inv_def type_delegate_def stands_for_def split: if_splits)
  next
    case ClickDelegate
    then show ?thesis using step y inv by (auto simp: delegate_inv_def delegate_enabled_def split: if_splits)
  next
    case ChangeAgain
    then show ?thesis using step y inv legal by (auto simp: delegate_inv_def change_again_def stands_for_def split: if_splits)
  next
    case (DelegateTx state)
    then show ?thesis using step y inv by (auto simp: delegate_inv_def)
  qed
qed

interpretation delegating: machine "delegate_step env" patient "\<lambda>y. resolves_addresses env \<longrightarrow> delegate_inv env y" for env
  by unfold_locales (blast intro: delegate_inv_step)

text \<open>
  C37: A patient user delegates to whom the field shows. Whatever is typed, answered, clicked and mined, in any order in which
  the text only changes while no lookup is pending, every delegation that is sent goes to an address that is the
  shown text or that the shown name resolves to.
\<close>

theorem delegation_follows_text:
  assumes "resolves_addresses env" "legal_run (delegate_step env) patient es (new_panel env, [])"
  shows "\<exists>p sent. run_events (delegate_step env) es (new_panel env, []) = Some (p, sent) \<and>
    (\<forall>(text, a) \<in> set sent. (a = text \<or> de_resolveName env text = Some a) \<and> de_isAddress env a)"
proof -
  have "delegate_inv env (new_panel env, [])" by (simp add: delegate_inv_def new_panel_def stands_for_def Let_def)
  then obtain y where "run_events (delegate_step env) es (new_panel env, []) = Some y" "delegate_inv env y"
    using delegating.legal_run_inv [OF _ assms(2)] assms(1) by blast
  then show ?thesis by (cases y) (auto simp: delegate_inv_def stands_for_def)
qed

text \<open>
  C38: A late answer redirects the delegation. Lookups are neither cancelled nor compared with the current text, so when a
  name is replaced by another before its answer arrives, and the answer arrives last, the field shows the second
  name, and the enabled button delegates to the account of the first.
\<close>

theorem late_lookup_redirects:
  assumes "de_delegateTo env = None" "de_availableVotes env \<noteq> 0" "de_resolveName env [] = None"
    and "de_resolveName env x = Some a" "de_resolveName env y = Some b" "de_isAddress env a" "a \<noteq> b"
    and "distinct [x, y, a, b]" "x \<noteq> []" "y \<noteq> []" "a \<noteq> []" "b \<noteq> []"
  shows "\<exists>p. run_events (delegate_step env) [LookupArrives [], TypeDelegate x, TypeDelegate y, LookupArrives y, LookupArrives x, ClickDelegate]
      (new_panel env, []) = Some (p, [(y, a)])"
proof -
  have "x \<noteq> y" "y \<noteq> x" "x \<noteq> a" "a \<noteq> x" "x \<noteq> b" "b \<noteq> x" "y \<noteq> a" "a \<noteq> y" "y \<noteq> b" "b \<noteq> y" "b \<noteq> a"
    using assms(8) by auto
  with assms(1-7,9-12) show ?thesis
    by (simp add: new_panel_def input_shown_def type_delegate_def checkIsValidENS_def setDelegateAddress_def input_class_effect_def
      delegate_enabled_def Let_def)
qed

text \<open>
  The votes announced while a delegation is being mined are counted once: the announced number stays the one of the first
  rendering, also when the votes of the delegate have already grown by the delegated ones.
\<close>

lemma announced_votes_count_once:
  assumes "state \<noteq> ENTER_DELEGATE_ADDRESS" "state' \<noteq> ENTER_DELEGATE_ADDRESS" "0 < n + votesToAdd"
  shows "will_have_effect state' m votesToAdd (will_have_effect state n votesToAdd 0) = n + votesToAdd"
  using assms by (simp add: will_have_effect_def)

section \<open>An example\<close>

definition demo_delegate_env :: delegate_env where
  "demo_delegate_env = \<lparr>de_resolveName = [''a.eth'' \<mapsto> ''0xa'', ''b.eth'' \<mapsto> ''0xb'', ''0xa'' \<mapsto> ''0xa'', ''0xb'' \<mapsto> ''0xb''],
     de_isAddress = (\<lambda>x. take 2 x = ''0x''), de_availableVotes = 3, de_delegateTo = None, de_currentDelegate = None\<rparr>"

definition demo_delegate_run :: "delegate_action list" where
  "demo_delegate_run = [LookupArrives [], TypeDelegate ''b.eth'', LookupArrives ''b.eth'', LookupArrives ''0xb'', ClickDelegate]"

theorem delegation_follows_text_witness:
  "\<exists>p sent. run_events (delegate_step demo_delegate_env) demo_delegate_run (new_panel demo_delegate_env, []) = Some (p, sent) \<and>
    (\<forall>(text, a) \<in> set sent. (a = text \<or> de_resolveName demo_delegate_env text = Some a) \<and> de_isAddress demo_delegate_env a)"
proof (rule delegation_follows_text)
  show "resolves_addresses demo_delegate_env" by (auto simp: resolves_addresses_def demo_delegate_env_def split: if_splits)
  show "legal_run (delegate_step demo_delegate_env) patient demo_delegate_run (new_panel demo_delegate_env, [])" by code_simp
qed

theorem late_lookup_redirects_witness:
  "\<exists>p. run_events (delegate_step demo_delegate_env)
      [LookupArrives [], TypeDelegate ''a.eth'', TypeDelegate ''b.eth'', LookupArrives ''b.eth'', LookupArrives ''a.eth'', ClickDelegate]
      (new_panel demo_delegate_env, []) = Some (p, [(''b.eth'', ''0xa'')])"
  by (rule late_lookup_redirects [where b = "''0xb''"]) (simp_all add: demo_delegate_env_def)

end
