(* ===== verification/Webapp_Lists.thy ===== *)
theory Webapp_Lists
  imports Webapp_Vote
begin

text \<open>
  Lists of the web application: proposals and candidates (\<open>packages/nouns-webapp/src/components/Proposals\<close>,
  \<open>components/CandidateCard\<close>), the page of a candidate (\<open>pages/Candidate\<close>), and the tables of Nouns on the cards of
  a vote (\<open>components/VoteCard\<close>, \<open>NounImageVoteTable\<close>, \<open>DelegateGroupedNounImageVoteTable\<close>, \<open>VoteCardPager\<close>) with
  their shuffle (\<open>utils/pseudoRandomPredictableShuffle.ts\<close>).

  Times are milliseconds. The sine in the shuffle is a parameter: the index it gives for a seed and a length.
\<close>

section \<open>Proposals and candidates\<close>

record list_page =
  lp_showDelegateModal :: bool
  lp_activeTab :: nat
  lp_blockNumber :: int
  lp_location :: string

definition block_effect :: "int option \<Rightarrow> list_page \<Rightarrow> list_page" where
  "block_effect currentBlock p =
     (if lp_blockNumber p = 0 then p\<lparr>lp_blockNumber := (case currentBlock of None \<Rightarrow> 0 | Some b \<Rightarrow> b)\<rparr> else p)"

definition hash_effect :: "string \<Rightarrow> list_page \<Rightarrow> list_page" where
  "hash_effect hash p = (if hash = ''#candidates'' then p\<lparr>lp_activeTab := 1\<rparr> else p)"

definition tab_effect :: "list_page \<Rightarrow> list_page" where
  "tab_effect p = p\<lparr>lp_location := (if lp_activeTab p = 1 then ''/vote#candidates'' else ''/vote'')\<rparr>"

definition list_threshold :: "int option \<Rightarrow> int" where
  "list_threshold proposalThreshold = (case proposalThreshold of None \<Rightarrow> 0 | Some t \<Rightarrow> t) + 1"

definition hasEnoughVotesToPropose :: "string option \<Rightarrow> int option \<Rightarrow> int option \<Rightarrow> bool" where
  "hasEnoughVotesToPropose account userVotes proposalThreshold \<longleftrightarrow>
     account \<noteq> None \<and> list_threshold proposalThreshold \<le> (case userVotes of None \<Rightarrow> 0 | Some v \<Rightarrow> v)"

text \<open>The account of the library is undefined while no wallet is connected, never null.\<close>

datatype js_account = Undefined | Null | Account string

definition nullStateCopy :: "js_account \<Rightarrow> int \<Rightarrow> int \<Rightarrow> string" where
  "nullStateCopy account connectedAccountNounVotes threshold =
     (if account \<noteq> Null
      then if 0 < connectedAccountNounVotes then ''Making a proposal requires '' @ int_to_string threshold @ '' votes''
           else ''You have no Votes.''
      else ''Connect wallet to make a proposal.'')"

datatype countdown = Ends "int option" | Expires "int option" | Starts "int option"

definition getCountdownCopy :: "int \<Rightarrow> int \<Rightarrow> PartialProposal \<Rightarrow> int \<Rightarrow> countdown" where
  "getCountdownCopy timestamp now proposal currentBlock =
     (let startDate = date_of_block timestamp (Some currentBlock) (pa_startBlock proposal);
          endDate = date_of_block timestamp (Some currentBlock) (pa_endBlock proposal);
          expiresDate = map_option (\<lambda>eta. eta + 14 * 24 * 60 * 60 * 1000) (pa_eta proposal)
      in if before startDate now \<and> after endDate now then Ends endDate
         else if before endDate now then Expires expiresDate
         else Starts startDate)"

definition isPropInStateToHaveCountDown :: "PartialProposal \<Rightarrow> bool" where
  "isPropInStateToHaveCountDown p \<longleftrightarrow> pa_status p \<in> {Some Updatable, Some Pending, Some Active, Some Queued}"

definition shown_proposals :: "PartialProposal list \<Rightarrow> PartialProposal list" where
  "shown_proposals proposals = rev proposals"

definition candidate_row_shown :: "PartialProposal list \<Rightarrow> int \<Rightarrow> ProposalCandidate \<Rightarrow> bool" where
  "candidate_row_shown proposals blockNumber c =
     (case Option.bind (pci_proposalIdToUpdate c) string_to_int of
        None \<Rightarrow> True
      | Some i \<Rightarrow>
          if 0 < i
          then (case find (\<lambda>p. pa_id p = pci_proposalIdToUpdate c) proposals of
                  None \<Rightarrow> False
                | Some p \<Rightarrow> blockNumber \<noteq> 0 \<and> isProposalUpdatable (pa_status p) (pa_updatePeriodEndBlock p) blockNumber)
          else True)"

definition shown_candidates :: "bool \<Rightarrow> PartialProposal list \<Rightarrow> int \<Rightarrow> ProposalCandidate list option \<Rightarrow> ProposalCandidate list" where
  "shown_candidates nounsRequired proposals blockNumber candidates =
     (case candidates of
        None \<Rightarrow> []
      | Some cs \<Rightarrow> if nounsRequired then filter (candidate_row_shown proposals blockNumber) (rev cs) else [])"

section \<open>The card of a candidate\<close>

definition isThresholdMetByProposer :: "ProposalCandidate \<Rightarrow> bool" where
  "isThresholdMetByProposer c \<longleftrightarrow> pci_proposerVotes c \<noteq> 0 \<and> pci_requiredVotes c \<le> pci_proposerVotes c"

text \<open>The votes asked for on the card; none when the proposer has more than the threshold.\<close>

definition card_required :: "int \<Rightarrow> ProposalCandidate \<Rightarrow> int option" where
  "card_required nounsRequired c = (if nounsRequired < pci_proposerVotes c then None else Some (pci_requiredVotes c))"

definition card_signers :: "CandidateSignature list \<Rightarrow> string list" where
  "card_signers signers =
     map sg_signer (filter (\<lambda>s. sg_activeOrPendingProposal s = Some False \<and> sg_signer s \<noteq> []) signers)"

definition card_nounIds :: "Delegate list option \<Rightarrow> string list" where
  "card_nounIds delegates =
     (case delegates of
        None \<Rightarrow> []
      | Some ds \<Rightarrow> concat (map snd (foldl (\<lambda>acc d. js_set acc (dg_id d) (dg_nounsRepresented d)) [] ds)))"

definition card_placeholders :: "bool \<Rightarrow> int \<Rightarrow> string list \<Rightarrow> nat" where
  "card_placeholders metByProposer nounsRequired nounIds =
     (let placeholderCount = (if metByProposer \<and> nounIds = [] then 1 else nounsRequired - int (length nounIds))
      in if 1 \<le> placeholderCount then nat placeholderCount else 0)"

definition card_images :: "string list \<Rightarrow> string list" where
  "card_images nounIds = take 5 nounIds"

section \<open>The page of a candidate\<close>

record candidate_page =
  cp_isProposer :: bool
  cp_isCancelPending :: bool
  cp_currentBlock :: "int option"
  cp_isProposal :: bool
  cp_isUpdateToProposal :: bool
  cp_isSignerWithActiveOrPendingProposal :: "bool option"
  cp_modal :: "AlertModal option"

definition candidate_block_effect :: "int option \<Rightarrow> candidate_page \<Rightarrow> candidate_page" where
  "candidate_block_effect blockNumber p =
     (if blockNumber \<notin> {None, Some 0} \<and> cp_currentBlock p \<in> {None, Some 0} then p\<lparr>cp_currentBlock := blockNumber\<rparr> else p)"

definition candidate_data_effect :: "ProposalCandidate option \<Rightarrow> string option \<Rightarrow> candidate_page \<Rightarrow> candidate_page" where
  "candidate_data_effect data account p =
     (case data of
        None \<Rightarrow> p
      | Some c \<Rightarrow>
          let p = (if truthy account then p\<lparr>cp_isProposer := (toLowerCase (pci_proposer c) = toLowerCase (the account))\<rparr> else p);
              p = (if pci_isProposal c then p\<lparr>cp_isProposal := True\<rparr> else p)
          in case Option.bind (pci_proposalIdToUpdate c) string_to_int of
               Some i \<Rightarrow> if 0 < i then p\<lparr>cp_isUpdateToProposal := True\<rparr> else p
             | None \<Rightarrow> p)"

definition latest_proposal_effect :: "Proposal option \<Rightarrow> string option \<Rightarrow> candidate_page \<Rightarrow> candidate_page" where
  "latest_proposal_effect latestProposal account p =
     (case latestProposal of
        None \<Rightarrow> p
      | Some l \<Rightarrow>
          if truthy account
          then p\<lparr>cp_isSignerWithActiveOrPendingProposal :=
            Some (case pa_status l of None \<Rightarrow> False
              | Some st \<Rightarrow> checkHasActiveOrPendingProposalOrCandidate st (po_proposer l) account)\<rparr>
          else p)"

definition cancel_candidate_effect :: "tx_status \<Rightarrow> candidate_page \<Rightarrow> candidate_page" where
  "cancel_candidate_effect tx p =
     (case onTransactionStateChange tx (Some ''Proposal Candidate Canceled!'') None (cp_isCancelPending p) of
        (pending, modal, final) \<Rightarrow> p\<lparr>cp_isCancelPending := pending, cp_modal := (case modal of None \<Rightarrow> cp_modal p | Some m \<Rightarrow> Some m)\<rparr>)"

definition candidate_functions_shown :: "candidate_page \<Rightarrow> bool" where
  "candidate_functions_shown p \<longleftrightarrow> cp_isProposer p \<and> \<not> cp_isProposal p"

definition cancel_candidate_call :: "ProposalCandidate option \<Rightarrow> candidate_page \<Rightarrow> string option" where
  "cancel_candidate_call data p =
     (if candidate_functions_shown p \<and> \<not> cp_isCancelPending p
      then Option.bind data (\<lambda>c. if pci_id c = [] then None else Some (pci_slug c)) else None)"

definition sponsors_shown :: "ProposalCandidate option \<Rightarrow> int option \<Rightarrow> int option \<Rightarrow> candidate_page \<Rightarrow> bool" where
  "sponsors_shown data threshold userVotes p =
     (case data of None \<Rightarrow> False
      | Some c \<Rightarrow> cp_currentBlock p \<notin> {None, Some 0} \<and> threshold \<noteq> None \<and> userVotes \<noteq> None \<and> \<not> pci_isProposal c)"

definition feedback_closed :: "Proposal option \<Rightarrow> candidate_page \<Rightarrow> bool" where
  "feedback_closed originalProposal p \<longleftrightarrow> cp_isUpdateToProposal p \<and> Option.bind originalProposal pa_status \<noteq> Some Updatable"

section \<open>Tables of Nouns\<close>

text \<open>
  The loop of the shuffle; \<open>None\<close> in the output is an undefined entry, which the code would push for an index
  that is out of range.
\<close>

partial_function (option) shuffle_loop ::
  "(int \<Rightarrow> nat \<Rightarrow> nat) \<Rightarrow> int \<Rightarrow> 'a list \<Rightarrow> 'a option list \<Rightarrow> 'a option list option" where
  "shuffle_loop index seed input output =
     (if input = [] then Some output
      else let seed = (if seed = 0 then seed + 1 else seed); i = index seed (length input)
           in if i < length input then shuffle_loop index (seed + 1) (take i input @ drop (Suc i) input) (output @ [Some (input ! i)])
              else shuffle_loop index (seed + 1) input (output @ [None]))"

definition pseudoRandomPredictableShuffle :: "(int \<Rightarrow> nat \<Rightarrow> nat) \<Rightarrow> 'a list \<Rightarrow> int \<Rightarrow> 'a option list option" where
  "pseudoRandomPredictableShuffle index input seed = shuffle_loop index seed input []"

text \<open>A cell shows an entry or a gray circle; a table has three rows.\<close>

definition vote_table :: "nat \<Rightarrow> nat \<Rightarrow> 'a list \<Rightarrow> nat \<Rightarrow> 'a option list list" where
  "vote_table perPage rowLength entries page =
     (let padded = map Some (take perPage (drop (page * perPage) entries)) @ replicate perPage None
      in map (\<lambda>i. map (\<lambda>j. padded ! (i * rowLength + j)) [0..<rowLength]) [0..<3])"

definition isRightArrowDisabled :: "nat \<Rightarrow> 'a list \<Rightarrow> nat \<Rightarrow> bool" where
  "isRightArrowDisabled perPage entries page \<longleftrightarrow> length entries < (page + 1) * perPage"

definition numPages :: "nat \<Rightarrow> 'a list \<Rightarrow> nat" where
  "numPages perPage entries = length entries div perPage + 1"

definition right_arrow :: "nat \<Rightarrow> 'a list \<Rightarrow> nat \<Rightarrow> nat" where
  "right_arrow perPage entries page =
     (if isRightArrowDisabled perPage entries page \<or> numPages perPage entries = 1 then page else page + 1)"

definition left_arrow :: "nat \<Rightarrow> 'a list \<Rightarrow> nat \<Rightarrow> nat" where
  "left_arrow perPage entries page = (if page = 0 \<or> numPages perPage entries = 1 then page else page - 1)"

text \<open>Fifteen Nouns are on a page of the first table, in rows of five or, on narrow screens, of four; twelve delegates on the second.\<close>

definition noun_table :: "bool \<Rightarrow> 'a list \<Rightarrow> nat \<Rightarrow> 'a option list list" where
  "noun_table isXLScreen = vote_table 15 (if isXLScreen then 5 else 4)"

definition delegate_table :: "'a list \<Rightarrow> nat \<Rightarrow> 'a option list list" where
  "delegate_table = vote_table 12 4"

datatype VoteCardVariant = CardFor | CardAgainst | CardAbstain

definition card_count :: "VoteCardVariant \<Rightarrow> Proposal \<Rightarrow> int option \<times> int" where
  "card_count variant p = (case variant of
     CardFor \<Rightarrow> (pa_forCount p, 1) | CardAgainst \<Rightarrow> (pa_againstCount p, 0) | CardAbstain \<Rightarrow> (pa_abstainCount p, 2))"

section \<open>The shuffle ends and loses nothing\<close>

lemma mset_remove_nth: "i < length xs \<Longrightarrow> mset (take i xs @ drop (Suc i) xs) + {#xs ! i#} = mset xs"
proof -
  assume "i < length xs"
  then have "xs = take i xs @ xs ! i # drop (Suc i) xs" by (rule id_take_nth_drop)
  then have "mset xs = mset (take i xs @ xs ! i # drop (Suc i) xs)" by simp
  then show ?thesis by simp
qed

lemma shuffle_loop_ends:
  assumes "\<And>seed n. 0 < n \<Longrightarrow> index seed n < n"
  shows "\<exists>ys. shuffle_loop index seed input acc = Some (acc @ map Some ys) \<and> mset ys = mset input"
proof (induction "length input" arbitrary: input seed acc)
  case 0
  then show ?case by (simp add: shuffle_loop.simps)
next
  case (Suc n)
  let ?seed = "if seed = 0 then seed + 1 else seed"
  let ?i = "index ?seed (length input)"
  let ?rest = "take ?i input @ drop (Suc ?i) input"
  have i: "?i < length input" by (rule assms) (use Suc.hyps(2) in linarith)
  have "n = length ?rest" using Suc.hyps(2) i by simp
  from Suc.hyps(1) [OF this, of "?seed + 1" "acc @ [Some (input ! ?i)]"]
  obtain ys where ys: "shuffle_loop index (?seed + 1) ?rest (acc @ [Some (input ! ?i)]) = Some ((acc @ [Some (input ! ?i)]) @ map Some ys)"
      "mset ys = mset ?rest" by blast
  have "input \<noteq> []" using Suc.hyps(2) by auto
  then have "shuffle_loop index seed input acc = shuffle_loop index (?seed + 1) ?rest (acc @ [Some (input ! ?i)])"
    using i by (subst shuffle_loop.simps) (simp add: Let_def)
  then have "shuffle_loop index seed input acc = Some (acc @ map Some (input ! ?i # ys))" using ys(1) by simp
  moreover have "mset (input ! ?i # ys) = mset input" using mset_remove_nth [OF i] ys(2) by simp
  ultimately show ?case by blast
qed

text \<open>
  The shuffle of the vote cards ends for every input and every seed, and its result is a permutation of the input, as
  long as the computed indexes are in range.
\<close>

theorem shuffle_permutes:
  assumes "\<And>seed n. 0 < n \<Longrightarrow> index seed n < n"
  shows "\<exists>ys. pseudoRandomPredictableShuffle index input seed = Some (map Some ys) \<and> mset ys = mset input"
  using shuffle_loop_ends [of index seed input "[]"] assms by (simp add: pseudoRandomPredictableShuffle_def)

section \<open>Pages of a table\<close>

lemma concat_grid: "concat (map (\<lambda>i. map (\<lambda>j. f (i * r + j)) [0..<r]) [0..<n]) = map f [0..<n * r]"
proof (induction n)
  case (Suc n)
  have "map (\<lambda>j. f (n * r + j)) [0..<r] = map f [n * r..<n * r + r]"
    by (rule nth_equalityI) simp_all
  moreover have "[0..<n * r + r] = [0..<n * r] @ [n * r..<n * r + r]" by (rule upt_add_eq_append) simp
  moreover have "Suc n * r = n * r + r" by simp
  ultimately show ?case using Suc by (simp del: mult_Suc)
qed simp

lemma concat_pages: "concat (map (\<lambda>i. take n (drop (i * n) xs)) [0..<m]) = take (m * n) xs"
proof (induction m)
  case (Suc m)
  have "take (m * n + n) xs = take (m * n) xs @ take n (drop (m * n) xs)" by (rule take_add)
  moreover have "Suc m * n = m * n + n" by simp
  ultimately show ?case using Suc by (simp del: mult_Suc)
qed simp

lemma take_nths: "n \<le> length xs \<Longrightarrow> map (\<lambda>k. xs ! k) [0..<n] = take n xs"
  by (rule nth_equalityI) simp_all

definition shown_entries :: "'a option list list \<Rightarrow> 'a list" where
  "shown_entries t = List.map_filter (\<lambda>x. x) (concat t)"

lemma table_entries:
  assumes "3 * r \<le> perPage"
  shows "shown_entries (vote_table perPage r entries page) = take (3 * r) (take perPage (drop (page * perPage) entries))"
proof -
  let ?padded = "map Some (take perPage (drop (page * perPage) entries)) @ replicate perPage None"
  have "concat (vote_table perPage r entries page) = map (\<lambda>k. ?padded ! k) [0..<3 * r]"
    unfolding vote_table_def Let_def by (rule concat_grid)
  also have "\<dots> = take (3 * r) ?padded" by (rule take_nths) (use assms in simp)
  finally have *: "concat (vote_table perPage r entries page) = take (3 * r) ?padded" .
  have some: "List.map_filter (\<lambda>x. x) (map Some xs @ replicate m None) = xs" for xs :: "'a list" and m
    by (simp add: List.map_filter_def comp_def filter_replicate)
  have "take (3 * r) ?padded = map Some (take (3 * r) (take perPage (drop (page * perPage) entries))) @
      replicate (min (3 * r - length (take perPage (drop (page * perPage) entries))) perPage) None"
    by (simp only: take_append take_map length_map take_replicate)
  then show ?thesis unfolding shown_entries_def * by (simp only: some)
qed

lemma right_arrow_pages:
  assumes "0 < perPage"
  shows "(right_arrow perPage entries ^^ k) 0 = min k (numPages perPage entries - 1)"
proof (induction k)
  case (Suc k)
  have "isRightArrowDisabled perPage entries page \<longleftrightarrow> length entries div perPage < page + 1" for page
    using assms by (simp add: isRightArrowDisabled_def div_less_iff_less_mult)
  then show ?case using Suc by (auto simp: right_arrow_def numPages_def)
qed simp

text \<open>
  The pages of a table that fits show every entry exactly once, in order, and the arrows reach exactly these pages.
\<close>

theorem tables_show_entries:
  "concat (map (\<lambda>page. shown_entries (noun_table True entries page)) [0..<numPages 15 entries]) = entries \<and>
    concat (map (\<lambda>page. shown_entries (delegate_table entries page)) [0..<numPages 12 entries]) = entries \<and>
    (right_arrow 15 entries ^^ k) 0 = min k (numPages 15 entries - 1) \<and>
    (right_arrow 12 entries ^^ k) 0 = min k (numPages 12 entries - 1)"
proof -
  have fits: "length entries \<le> numPages n entries * n" if "0 < n" for n :: nat
    using that by (simp add: numPages_def) (metis dividend_less_times_div less_imp_le mult.commute add.commute)
  have "concat (map (\<lambda>page. shown_entries (vote_table (3 * r) r entries page)) [0..<numPages (3 * r) entries]) = entries" if "0 < r" for r
    using fits [of "3 * r"] that by (simp add: table_entries concat_pages)
  from this [of 5] this [of 4] show ?thesis
    by (simp add: noun_table_def delegate_table_def right_arrow_pages table_entries)
qed

text \<open>
  Narrow screens hide Nouns. There the table has twelve cells for pages of fifteen, so the last three
  Nouns of each full page are on no page at all.
\<close>

theorem narrow_tables_hide_nouns:
  assumes "distinct entries" "k < length entries" "12 \<le> k mod 15"
  shows "entries ! k \<notin> set (shown_entries (noun_table False entries page))"
proof
  assume "entries ! k \<in> set (shown_entries (noun_table False entries page))"
  then have "entries ! k \<in> set (take 12 (take 15 (drop (page * 15) entries)))"
    by (simp add: noun_table_def table_entries)
  then obtain j where j: "j < 12" "page * 15 + j < length entries" "entries ! (page * 15 + j) = entries ! k"
    by (auto simp: in_set_conv_nth)
  then have "k = page * 15 + j" using assms(1,2) by (simp add: nth_eq_iff_index_eq)
  then show False using j(1) assms(3) by simp
qed

section \<open>Candidates that update a proposal\<close>

text \<open>
  The list shows an update exactly while the DAO would accept it. For a proposal of the list in the state the
  DAO reports, a candidate that updates it is listed if and only if the proposal is updatable on chain at this block.
\<close>

theorem updates_listed_while_updatable:
  assumes "find (\<lambda>p. pa_id p = Some (int_to_string i)) proposals = Some p" "0 < i" "b \<noteq> 0"
    and "pci_proposalIdToUpdate c = Some (int_to_string i)"
    and "pa_status p = Some (stateInternal g b t ch)" "pa_updatePeriodEndBlock p = Some (ch_updatePeriodEndBlock ch)"
  shows "candidate_row_shown proposals b c \<longleftrightarrow> stateInternal g b t ch = Updatable"
  using assms by (auto simp: candidate_row_shown_def isProposalUpdatable_def le_num_def stateInternal_def split: if_splits)

text \<open>The button to propose is offered exactly to accounts with more votes than the threshold of the DAO.\<close>

lemma enough_votes_iff: "hasEnoughVotesToPropose (Some a) (Some v) (Some t) \<longleftrightarrow> t < v"
  by (auto simp: hasEnoughVotesToPropose_def list_threshold_def)

text \<open>Without a wallet the account is undefined and not null, so the note to connect one never appears.\<close>

lemma never_asked_to_connect: "account \<noteq> Null \<Longrightarrow> nullStateCopy account v t \<noteq> ''Connect wallet to make a proposal.''"
  by (simp add: nullStateCopy_def)

section \<open>Examples\<close>

theorem shuffle_permutes_witness:
  "\<exists>ys. pseudoRandomPredictableShuffle (\<lambda>seed n. nat (seed mod int n)) ''abc'' 5 = Some (map Some ys) \<and> mset ys = mset ''abc''"
  by (rule shuffle_permutes) (simp add: nat_less_iff)

theorem narrow_tables_hide_nouns_witness:
  "13 \<notin> set (shown_entries (noun_table False [0..<20] 0))"
  using narrow_tables_hide_nouns [of "[0..<20]" 13 0] by simp

end
