(* ===== verification/Deploy_Tasks.thy ===== *)
theory Deploy_Tasks
  imports Webapp_Dao
begin

text \<open>
  The deployment tasks of \<open>packages/nouns-contracts/tasks\<close>: \<open>deploy.ts\<close>, \<open>deploy-short-times.ts\<close>,
  \<open>deploy-short-times-daov1.ts\<close>, \<open>deploy-short-times-dao-v3.ts\<close>, \<open>deploy-dao-v3.ts\<close>,
  \<open>deploy-local.ts\<close> and \<open>deploy-local-dao-v3.ts\<close>. A task deploys a table of contracts in order. A
  constructor argument is a constant, the address of a contract of the table, a predicted address of
  one that comes later, or the encoding of an \<open>initialize\<close> call.

  The network is a parameter: the address of the contract that a transaction of an account creates
  (\<open>getContractAddress\<close>), the contracts whose transaction it accepts, and the answers at the prompt.
  The encoding of a call is kept as the call. Gas prices and costs only influence acceptance.
\<close>

section \<open>Tables of contracts\<close>

datatype deploy_value =
    VText string
  | VInt int
  | VParams "(string \<times> int) list"
  | VCall "deploy_value list"
  | VUndefined

datatype deploy_arg =
    Value deploy_value
  | AddressOf string
  | Expected string
  | Initialize "deploy_arg list"

record ContractDeployment =
  cd_name :: string
  cd_args :: "deploy_arg list"
  cd_libraries :: "(string \<times> deploy_arg) list"
  cd_waitForConfirmation :: bool
  cd_validateDeployment :: bool

definition plain_contract :: "string \<Rightarrow> ContractDeployment" where
  "plain_contract name = \<lparr>cd_name = name, cd_args = [], cd_libraries = [], cd_waitForConfirmation = False,
     cd_validateDeployment = False\<rparr>"

record deploy_args =
  da_weth :: "string option"
  da_noundersdao :: "string option"
  da_auctionTimeBuffer :: int
  da_auctionReservePrice :: int
  da_auctionMinIncrementBidPercentage :: int
  da_auctionDuration :: int
  da_timelockDelay :: int
  da_votingPeriod :: int
  da_votingDelay :: int
  da_proposalThresholdBps :: int
  da_quorumVotesBps :: int
  da_minQuorumVotesBPS :: int
  da_maxQuorumVotesBPS :: int
  da_quorumCoefficient :: int
  da_createCandidateCost :: int
  da_updateCandidateCost :: int

text \<open>What the tables use of the arguments once the defaults are filled in.\<close>

record deploy_setting =
  ds_args :: deploy_args
  ds_noundersdao :: string
  ds_weth :: string
  ds_deployer :: string
  ds_proxyRegistry :: string

definition descriptor_contracts :: "ContractDeployment list" where
  "descriptor_contracts =
    [plain_contract ''NFTDescriptorV2'',
     plain_contract ''SVGRenderer'',
     (plain_contract ''NounsDescriptorV2'')\<lparr>cd_args := [Expected ''NounsArt'', AddressOf ''SVGRenderer''],
       cd_libraries := [(''NFTDescriptorV2'', AddressOf ''NFTDescriptorV2'')]\<rparr>,
     plain_contract ''Inflator'',
     (plain_contract ''NounsArt'')\<lparr>cd_args := [AddressOf ''NounsDescriptorV2'', AddressOf ''Inflator'']\<rparr>,
     plain_contract ''NounsSeeder'']"

definition token_contract :: "deploy_setting \<Rightarrow> deploy_arg \<Rightarrow> ContractDeployment" where
  "token_contract d minter = (plain_contract ''NounsToken'')\<lparr>cd_args :=
     [Value (VText (ds_noundersdao d)), minter, AddressOf ''NounsDescriptorV2'', AddressOf ''NounsSeeder'',
      Value (VText (ds_proxyRegistry d))]\<rparr>"

definition auction_initialize :: "deploy_setting \<Rightarrow> deploy_arg \<Rightarrow> deploy_arg" where
  "auction_initialize d weth = Initialize [AddressOf ''NounsToken'', weth, Value (VInt (da_auctionTimeBuffer (ds_args d))),
     Value (VInt (da_auctionReservePrice (ds_args d))), Value (VInt (da_auctionMinIncrementBidPercentage (ds_args d))),
     Value (VInt (da_auctionDuration (ds_args d)))]"

definition auction_contracts :: "deploy_setting \<Rightarrow> deploy_arg \<Rightarrow> bool \<Rightarrow> ContractDeployment list" where
  "auction_contracts d weth checked =
    [(plain_contract ''NounsAuctionHouse'')\<lparr>cd_waitForConfirmation := True\<rparr>,
     plain_contract ''NounsAuctionHouseProxyAdmin'',
     (plain_contract ''NounsAuctionHouseProxy'')\<lparr>cd_args := [AddressOf ''NounsAuctionHouse'',
        AddressOf ''NounsAuctionHouseProxyAdmin'', auction_initialize d weth], cd_waitForConfirmation := checked,
        cd_validateDeployment := checked\<rparr>]"

text \<open>\<open>deploy.ts\<close>; \<open>deploy-short-times-daov1.ts\<close> has the same table.\<close>

definition deploy_contracts :: "deploy_setting \<Rightarrow> ContractDeployment list" where
  "deploy_contracts d =
     descriptor_contracts @ [token_contract d (Expected ''NounsAuctionHouseProxy'')] @
     auction_contracts d (Value (VText (ds_weth d))) True @
     [(plain_contract ''NounsDAOExecutor'')\<lparr>cd_args := [Expected ''NounsDAOProxy'',
        Value (VInt (da_timelockDelay (ds_args d)))]\<rparr>,
      (plain_contract ''NounsDAOLogicV1'')\<lparr>cd_waitForConfirmation := True\<rparr>,
      (plain_contract ''NounsDAOProxy'')\<lparr>cd_args := [AddressOf ''NounsDAOExecutor'', AddressOf ''NounsToken'',
        Value (VText (ds_noundersdao d)), AddressOf ''NounsDAOExecutor'', AddressOf ''NounsDAOLogicV1'',
        Value (VInt (da_votingPeriod (ds_args d))), Value (VInt (da_votingDelay (ds_args d))),
        Value (VInt (da_proposalThresholdBps (ds_args d))), Value (VInt (da_quorumVotesBps (ds_args d)))],
        cd_waitForConfirmation := True, cd_validateDeployment := True\<rparr>]"

definition quorum_params :: "deploy_args \<Rightarrow> deploy_value" where
  "quorum_params a = VParams [(''minQuorumVotesBPS'', da_minQuorumVotesBPS a),
     (''maxQuorumVotesBPS'', da_maxQuorumVotesBPS a), (''quorumCoefficient'', da_quorumCoefficient a)]"

text \<open>The executor, the logic and the proxy of the second DAO version (\<open>deploy-short-times.ts\<close>).\<close>

definition dao_v2_contracts :: "deploy_setting \<Rightarrow> bool \<Rightarrow> ContractDeployment list" where
  "dao_v2_contracts d checked =
     [(plain_contract ''NounsDAOExecutor'')\<lparr>cd_args := [Expected ''NounsDAOProxyV2'',
        Value (VInt (da_timelockDelay (ds_args d)))]\<rparr>,
      (plain_contract ''NounsDAOLogicV2'')\<lparr>cd_waitForConfirmation := True\<rparr>,
      (plain_contract ''NounsDAOProxyV2'')\<lparr>cd_args := [AddressOf ''NounsDAOExecutor'', AddressOf ''NounsToken'',
        Value (VText (ds_noundersdao d)), AddressOf ''NounsDAOExecutor'', AddressOf ''NounsDAOLogicV2'',
        Value (VInt (da_votingPeriod (ds_args d))), Value (VInt (da_votingDelay (ds_args d))),
        Value (VInt (da_proposalThresholdBps (ds_args d))), Value (quorum_params (ds_args d))],
        cd_waitForConfirmation := True, cd_validateDeployment := checked\<rparr>]"

definition short_times_contracts :: "deploy_setting \<Rightarrow> ContractDeployment list" where
  "short_times_contracts d =
     descriptor_contracts @ [token_contract d (Expected ''NounsAuctionHouseProxy'')] @
     auction_contracts d (Value (VText (ds_weth d))) True @ dao_v2_contracts d True"

definition local_contracts :: "deploy_setting \<Rightarrow> ContractDeployment list" where
  "local_contracts d =
     [plain_contract ''WETH''] @ descriptor_contracts @ [token_contract d (Expected ''NounsAuctionHouseProxy'')] @
     auction_contracts d (AddressOf ''WETH'') False @ dao_v2_contracts d False @ [plain_contract ''Multicall2'']"

text \<open>The third DAO version (\<open>deploy-short-times-dao-v3.ts\<close>), up to its proxy, and the data contracts.\<close>

definition dao_v3_libraries :: "ContractDeployment list" where
  "dao_v3_libraries =
     [plain_contract ''NounsDAOV3DynamicQuorum'', plain_contract ''NounsDAOV3Admin'',
      plain_contract ''NounsDAOV3Proposals'', plain_contract ''NounsDAOV3Votes'', plain_contract ''NounsDAOV3Fork'',
      (plain_contract ''NounsDAOLogicV3'')\<lparr>cd_libraries := [(''NounsDAOV3Admin'', AddressOf ''NounsDAOV3Admin''),
         (''NounsDAOV3DynamicQuorum'', AddressOf ''NounsDAOV3DynamicQuorum''),
         (''NounsDAOV3Proposals'', AddressOf ''NounsDAOV3Proposals''),
         (''NounsDAOV3Votes'', AddressOf ''NounsDAOV3Votes''), (''NounsDAOV3Fork'', AddressOf ''NounsDAOV3Fork'')],
        cd_waitForConfirmation := True\<rparr>]"

definition dao_params :: "deploy_args \<Rightarrow> deploy_value" where
  "dao_params a = VParams [(''votingPeriod'', da_votingPeriod a), (''votingDelay'', da_votingDelay a),
     (''proposalThresholdBPS'', da_proposalThresholdBps a), (''lastMinuteWindowInBlocks'', 0),
     (''objectionPeriodDurationInBlocks'', 0), (''proposalUpdatablePeriodInBlocks'', 0)]"

definition dao_v3_contracts :: "deploy_setting \<Rightarrow> bool \<Rightarrow> ContractDeployment list" where
  "dao_v3_contracts d checked =
     [(plain_contract ''NounsDAOForkEscrow'')\<lparr>cd_args := [Expected ''NounsDAOProxyV3'', AddressOf ''NounsToken'']\<rparr>,
      plain_contract ''NounsTokenFork'', plain_contract ''NounsAuctionHouseFork'', plain_contract ''NounsDAOLogicV1Fork'',
      (plain_contract ''NounsDAOExecutorV2'')\<lparr>cd_waitForConfirmation := checked\<rparr>,
      (plain_contract ''NounsDAOExecutorProxy'')\<lparr>cd_args := [AddressOf ''NounsDAOExecutorV2'',
         Initialize [Expected ''NounsDAOProxyV3'', Value (VInt (da_timelockDelay (ds_args d)))]]\<rparr>,
      (plain_contract ''ForkDAODeployer'')\<lparr>cd_args := [AddressOf ''NounsTokenFork'', AddressOf ''NounsAuctionHouseFork'',
         AddressOf ''NounsDAOLogicV1Fork'', AddressOf ''NounsDAOExecutorV2'', Value (VInt (60 * 60 * 24 * 30)),
         Value (VInt 36000), Value (VInt 36000), Value (VInt 25), Value (VInt 1000)]\<rparr>,
      (plain_contract ''NounsDAOProxyV3'')\<lparr>cd_args := [AddressOf ''NounsDAOExecutorProxy'', AddressOf ''NounsToken'',
         AddressOf ''NounsDAOForkEscrow'', AddressOf ''ForkDAODeployer'', Value (VText (ds_noundersdao d)),
         AddressOf ''NounsDAOExecutorProxy'', AddressOf ''NounsDAOLogicV3'', Value (dao_params (ds_args d)),
         Value (quorum_params (ds_args d))], cd_waitForConfirmation := True, cd_validateDeployment := checked\<rparr>]"

definition data_contracts :: "deploy_setting \<Rightarrow> ContractDeployment list" where
  "data_contracts d =
     [(plain_contract ''NounsDAOData'')\<lparr>cd_args := [AddressOf ''NounsToken'', Expected ''NounsDAOProxyV3''],
        cd_waitForConfirmation := True\<rparr>,
      (plain_contract ''NounsDAODataProxy'')\<lparr>cd_args := [AddressOf ''NounsDAOData'',
         Initialize [AddressOf ''NounsDAOExecutorProxy'', Value (VInt (da_createCandidateCost (ds_args d))),
           Value (VInt (da_updateCandidateCost (ds_args d))), Expected ''NounsDAOProxyV3'']]\<rparr>]"

definition short_times_v3_contracts :: "deploy_setting \<Rightarrow> ContractDeployment list" where
  "short_times_v3_contracts d =
     descriptor_contracts @ [token_contract d (Expected ''NounsAuctionHouseProxy'')] @
     auction_contracts d (Value (VText (ds_weth d))) True @ dao_v3_libraries @ dao_v3_contracts d True @ data_contracts d"

definition local_v3_contracts :: "deploy_setting \<Rightarrow> ContractDeployment list" where
  "local_v3_contracts d =
     [plain_contract ''WETH''] @ descriptor_contracts @ [token_contract d (Expected ''NounsAuctionHouseProxy'')] @
     auction_contracts d (AddressOf ''WETH'') False @ dao_v3_libraries @ dao_v3_contracts d False @
     [plain_contract ''Multicall2''] @ data_contracts d"

definition waiting :: "string list \<Rightarrow> ContractDeployment \<Rightarrow> ContractDeployment" where
  "waiting names c = (if cd_name c \<in> set names then c\<lparr>cd_waitForConfirmation := True\<rparr> else c)"

text \<open>\<open>deploy-dao-v3.ts\<close>: the deployer is the minter, and two more contracts are waited for.\<close>

definition deploy_v3_contracts :: "deploy_setting \<Rightarrow> ContractDeployment list" where
  "deploy_v3_contracts d =
     map (waiting [''NFTDescriptorV2'', ''NounsDescriptorV2'']) descriptor_contracts @
     [token_contract d (Value (VText (ds_deployer d)))] @
     auction_contracts d (Value (VText (ds_weth d))) True @ dao_v3_libraries @ dao_v3_contracts d True @ data_contracts d"

section \<open>Offsets\<close>

definition NOUNS_ART_NONCE_OFFSET :: nat where "NOUNS_ART_NONCE_OFFSET = 4"
definition AUCTION_HOUSE_PROXY_NONCE_OFFSET :: nat where "AUCTION_HOUSE_PROXY_NONCE_OFFSET = 9"
definition GOVERNOR_N_DELEGATOR_NONCE_OFFSET :: nat where "GOVERNOR_N_DELEGATOR_NONCE_OFFSET = 12"
definition v3_GOVERNOR_N_DELEGATOR_NONCE_OFFSET :: nat where "v3_GOVERNOR_N_DELEGATOR_NONCE_OFFSET = 23"
definition local_NOUNS_ART_NONCE_OFFSET :: nat where "local_NOUNS_ART_NONCE_OFFSET = 5"
definition local_AUCTION_HOUSE_PROXY_NONCE_OFFSET :: nat where "local_AUCTION_HOUSE_PROXY_NONCE_OFFSET = 10"
definition local_GOVERNOR_N_DELEGATOR_NONCE_OFFSET :: nat where "local_GOVERNOR_N_DELEGATOR_NONCE_OFFSET = 13"
definition local_v3_GOVERNOR_N_DELEGATOR_NONCE_OFFSET :: nat where "local_v3_GOVERNOR_N_DELEGATOR_NONCE_OFFSET = 24"

definition deploy_offsets :: "(string \<times> nat) list" where
  "deploy_offsets = [(''NounsArt'', NOUNS_ART_NONCE_OFFSET), (''NounsAuctionHouseProxy'', AUCTION_HOUSE_PROXY_NONCE_OFFSET),
     (''NounsDAOProxy'', GOVERNOR_N_DELEGATOR_NONCE_OFFSET)]"

definition short_times_offsets :: "(string \<times> nat) list" where
  "short_times_offsets = [(''NounsArt'', NOUNS_ART_NONCE_OFFSET), (''NounsAuctionHouseProxy'', AUCTION_HOUSE_PROXY_NONCE_OFFSET),
     (''NounsDAOProxyV2'', GOVERNOR_N_DELEGATOR_NONCE_OFFSET)]"

definition short_times_v3_offsets :: "(string \<times> nat) list" where
  "short_times_v3_offsets = [(''NounsArt'', NOUNS_ART_NONCE_OFFSET),
     (''NounsAuctionHouseProxy'', AUCTION_HOUSE_PROXY_NONCE_OFFSET),
     (''NounsDAOProxyV3'', v3_GOVERNOR_N_DELEGATOR_NONCE_OFFSET)]"

definition local_offsets :: "(string \<times> nat) list" where
  "local_offsets = [(''NounsArt'', local_NOUNS_ART_NONCE_OFFSET),
     (''NounsAuctionHouseProxy'', local_AUCTION_HOUSE_PROXY_NONCE_OFFSET),
     (''NounsDAOProxyV2'', local_GOVERNOR_N_DELEGATOR_NONCE_OFFSET)]"

definition local_v3_offsets :: "(string \<times> nat) list" where
  "local_v3_offsets = [(''NounsArt'', local_NOUNS_ART_NONCE_OFFSET),
     (''NounsAuctionHouseProxy'', local_AUCTION_HOUSE_PROXY_NONCE_OFFSET),
     (''NounsDAOProxyV3'', local_v3_GOVERNOR_N_DELEGATOR_NONCE_OFFSET)]"

section \<open>Running a table\<close>

record deploy_env =
  en_deployer :: string
  en_create :: "string \<Rightarrow> int \<Rightarrow> string"
  en_accepts :: "string \<Rightarrow> deploy_value list \<Rightarrow> bool"
  en_autoDeploy :: bool
  en_confirm :: "string \<Rightarrow> string"
  en_chainId :: int

record DeployedContract =
  dc_name :: string
  dc_address :: string
  dc_constructorArguments :: "deploy_value list"
  dc_libraries :: "(string \<times> deploy_value) list"
  dc_isNew :: bool

type_synonym deployment = "(string, DeployedContract) js_map"

text \<open>Reading the address of a contract that is not deployed throws, as do the other errors.\<close>

datatype deploy_error =
    ReadUndefined
  | NotAccepted string
  | UnexpectedAddress string string
  | NoWETH
  | WrongAddress

fun eval_arg :: "(string \<Rightarrow> deploy_value option) \<Rightarrow> (string \<Rightarrow> string) \<Rightarrow> deploy_arg \<Rightarrow> deploy_value option" where
  "eval_arg address expected (Value v) = Some v"
| "eval_arg address expected (AddressOf name) = address name"
| "eval_arg address expected (Expected name) = Some (VText (expected name))"
| "eval_arg address expected (Initialize as) = map_option VCall (those (map (eval_arg address expected) as))"

definition eval_args ::
  "(string \<Rightarrow> deploy_value option) \<Rightarrow> (string \<Rightarrow> string) \<Rightarrow> ContractDeployment \<Rightarrow> deploy_value list option" where
  "eval_args address expected c = those (map (eval_arg address expected) (cd_args c))"

definition eval_libraries ::
  "(string \<Rightarrow> deploy_value option) \<Rightarrow> (string \<Rightarrow> string) \<Rightarrow> ContractDeployment \<Rightarrow> (string \<times> deploy_value) list option" where
  "eval_libraries address expected c =
     those (map (\<lambda>(name, a). map_option (Pair name) (eval_arg address expected a)) (cd_libraries c))"

definition address_in :: "deployment \<Rightarrow> string \<Rightarrow> deploy_value option" where
  "address_in deployment name = map_option (\<lambda>c. VText (dc_address c)) (js_get deployment name)"

datatype deploy_step = Going deployment int | Exited

text \<open>The prompt has one property, \<open>confirm\<close>; the code reads the property \<open>operation\<close> of the result.\<close>

definition prompt_result :: "string \<Rightarrow> (string, string) js_map" where
  "prompt_result answer = [(''confirm'', answer)]"

definition deploy_contract ::
  "deploy_env \<Rightarrow> (string \<Rightarrow> string) \<Rightarrow> (string \<Rightarrow> string) \<Rightarrow> ContractDeployment \<Rightarrow> deployment \<Rightarrow> int \<Rightarrow>
   deploy_error + deploy_step" where
  "deploy_contract env nameForFactory expected c deployment nonce =
     (let name = cd_name c
      in case (eval_libraries (address_in deployment) expected c, eval_args (address_in deployment) expected c) of
           (Some libraries, Some args) \<Rightarrow>
             if \<not> en_accepts env name args then Inl (NotAccepted name)
             else
               let operation = (if en_autoDeploy env then None
                                else js_get (prompt_result (en_confirm env name)) ''operation'')
               in if operation = Some ''SKIP'' then Inr (Going deployment nonce)
                  else if operation = Some ''EXIT'' then Inr Exited
                  else
                    let address = en_create env (en_deployer env) nonce;
                        deployment' = js_set deployment name \<lparr>dc_name = nameForFactory name, dc_address = address,
                          dc_constructorArguments = args, dc_libraries = libraries, dc_isNew = False\<rparr>
                    in if cd_validateDeployment c \<and> toLowerCase (expected name) \<noteq> toLowerCase address
                       then Inl (UnexpectedAddress (toLowerCase (expected name)) (toLowerCase address))
                       else Inr (Going deployment' (nonce + 1))
         | _ \<Rightarrow> Inl ReadUndefined)"

fun deploy_loop ::
  "(ContractDeployment \<Rightarrow> deployment \<Rightarrow> int \<Rightarrow> deploy_error + deploy_step) \<Rightarrow> ContractDeployment list \<Rightarrow>
   deployment \<Rightarrow> int \<Rightarrow> deploy_error + deployment option" where
  "deploy_loop step [] deployment nonce = Inr (Some deployment)"
| "deploy_loop step (c # cs) deployment nonce =
     (case step c deployment nonce of
        Inl e \<Rightarrow> Inl e
      | Inr Exited \<Rightarrow> Inr None
      | Inr (Going deployment' nonce') \<Rightarrow> deploy_loop step cs deployment' nonce')"

section \<open>Tasks\<close>

definition proxyRegistries :: "(int \<times> string) list" where
  "proxyRegistries = [(1, ''0xa5409ec958c83c3f309868babaca7c86dcb077c1'')]"

definition wethContracts :: "(int \<times> string) list" where
  "wethContracts = [(1, ''0xC02aaA39b223FE8D0A0e5C4F27eAD9083C756Cc2''),
     (3, ''0xc778417e063141139fce010982780140aa0cd5ab''), (42, ''0xd0a1e359811322d97991e03f863a0c30c2cf029c''),
     (5, ''0xB4FBF271143F4FBf7B91A5ded31805e42b2208d6'')]"

definition test_proxyRegistries :: "(int \<times> string) list" where
  "test_proxyRegistries = proxyRegistries @ [(5, ''0x5d44754DE92363d5746485F31280E4c0c54c855c''),
     (11155111, ''0x152E981d511F8c0865354A71E1cb84d0FB318470'')]"

definition test_wethContracts :: "(int \<times> string) list" where
  "test_wethContracts = wethContracts @ [(11155111, ''0xfFf9976782d46CC05630D1f6eBAb18b2324d6B14'')]"

definition v3_wethContracts :: "(int \<times> string) list" where
  "v3_wethContracts = test_wethContracts @ [(17000, ''0x0014e5C0B28dfFFb02D0B1A7d6aE2eAEde19d577'')]"

definition setting_of ::
  "deploy_env \<Rightarrow> (int \<times> string) list \<Rightarrow> (int \<times> string) list \<Rightarrow> deploy_args \<Rightarrow> deploy_error + deploy_setting" where
  "setting_of env registries weths args =
     (let d = \<lparr>ds_args = args,
        ds_noundersdao = (if truthy (da_noundersdao args) then the (da_noundersdao args) else en_deployer env),
        ds_weth = (if truthy (da_weth args) then the (da_weth args) else []),
        ds_deployer = en_deployer env,
        ds_proxyRegistry = (case map_of registries (en_chainId env) of
          None \<Rightarrow> ''0x0000000000000000000000000000000000000000'' | Some a \<Rightarrow> a)\<rparr>
      in if truthy (da_weth args) then Inr d
         else case map_of weths (en_chainId env) of
           None \<Rightarrow> Inl NoWETH
         | Some w \<Rightarrow> Inr (d\<lparr>ds_weth := w\<rparr>))"

definition expected_at :: "deploy_env \<Rightarrow> int \<Rightarrow> (string \<times> nat) list \<Rightarrow> string \<Rightarrow> string" where
  "expected_at env nonce offsets name =
     (case map_of offsets name of None \<Rightarrow> [] | Some k \<Rightarrow> en_create env (en_deployer env) (nonce + int k))"

definition deploy_task :: "deploy_env \<Rightarrow> deploy_args \<Rightarrow> int \<Rightarrow> deploy_error + deployment option" where
  "deploy_task env args nonce =
     (case setting_of env proxyRegistries wethContracts args of
        Inl e \<Rightarrow> Inl e
      | Inr d \<Rightarrow> deploy_loop (deploy_contract env (\<lambda>n. n) (expected_at env nonce deploy_offsets))
          (deploy_contracts d) [] nonce)"

definition daov1_factory :: "string \<Rightarrow> string" where
  "daov1_factory name = (if name = ''NounsDAOExecutor'' then ''NounsDAOExecutorTest''
     else if name = ''NounsDAOLogicV1'' then ''NounsDAOLogicV1Harness'' else name)"

definition deploy_short_times_daov1 :: "deploy_env \<Rightarrow> deploy_args \<Rightarrow> int \<Rightarrow> deploy_error + deployment option" where
  "deploy_short_times_daov1 env args nonce =
     (case setting_of env proxyRegistries wethContracts args of
        Inl e \<Rightarrow> Inl e
      | Inr d \<Rightarrow> deploy_loop (deploy_contract env daov1_factory (expected_at env nonce deploy_offsets))
          (deploy_contracts d) [] nonce)"

definition daov2_factory :: "string \<Rightarrow> string" where
  "daov2_factory name = (if name = ''NounsDAOExecutor'' then ''NounsDAOExecutorTest''
     else if name = ''NounsDAOLogicV2'' then ''NounsDAOLogicV2Harness'' else name)"

definition deploy_short_times :: "deploy_env \<Rightarrow> deploy_args \<Rightarrow> int \<Rightarrow> deploy_error + deployment option" where
  "deploy_short_times env args nonce =
     (case setting_of env test_proxyRegistries test_wethContracts args of
        Inl e \<Rightarrow> Inl e
      | Inr d \<Rightarrow> deploy_loop (deploy_contract env daov2_factory (expected_at env nonce short_times_offsets))
          (short_times_contracts d) [] nonce)"

definition daov3_factory :: "string \<Rightarrow> string" where
  "daov3_factory name = (if name = ''NounsDAOExecutorV2'' then ''NounsDAOExecutorV2Test''
     else if name = ''NounsDAOLogicV3'' then ''NounsDAOLogicV3Harness'' else name)"

definition deploy_short_times_dao_v3 :: "deploy_env \<Rightarrow> deploy_args \<Rightarrow> int \<Rightarrow> deploy_error + deployment option" where
  "deploy_short_times_dao_v3 env args nonce =
     (case setting_of env test_proxyRegistries test_wethContracts args of
        Inl e \<Rightarrow> Inl e
      | Inr d \<Rightarrow> deploy_loop (deploy_contract env daov3_factory (expected_at env nonce short_times_v3_offsets))
          (short_times_v3_contracts d) [] nonce)"

section \<open>Contracts deployed before (\<open>deploy-dao-v3.ts\<close>)\<close>

text \<open>The table \<open>deployedContracts\<close>; an entry counts when it starts with \<open>0x\<close>.\<close>

definition deployedContracts :: "(string \<times> string) list" where
  "deployedContracts = map (\<lambda>n. (n, [])) [''NFTDescriptorV2'', ''SVGRenderer'', ''NounsDescriptorV2'', ''Inflator'',
     ''NounsArt'', ''NounsSeeder'', ''NounsToken'', ''NounsAuctionHouse'', ''NounsAuctionHouseProxyAdmin'',
     ''NounsAuctionHouseProxy'', ''NounsDAOV3DynamicQuorum'', ''NounsDAOV3Admin'', ''NounsDAOV3Proposals'',
     ''NounsDAOV3Votes'', ''NounsDAOV3Fork'', ''NounsDAOLogicV3'', ''NounsDAOForkEscrow'', ''NounsTokenFork'',
     ''NounsAuctionHouseFork'', ''NounsDAOLogicV1Fork'', ''NounsDAOExecutorV2'', ''NounsDAOExecutorProxy'',
     ''ForkDAODeployer'', ''NounsDAOProxyV3'', ''NounsDAOData'', ''NounsDAODataProxy'']"

definition deployed_before :: "(string \<times> string) list \<Rightarrow> string \<Rightarrow> string option" where
  "deployed_before known name =
     (case map_of known name of Some a \<Rightarrow> if take 2 a = ''0x'' then Some a else None | None \<Rightarrow> None)"

definition notDeployedContracts :: "(string \<times> string) list \<Rightarrow> ContractDeployment list \<Rightarrow> (string \<times> nat) list" where
  "notDeployedContracts known contracts =
     (let names = filter (\<lambda>n. deployed_before known n = None) (map cd_name contracts)
      in zip names [0..<length names])"

definition indexByContractName :: "(string \<times> string) list \<Rightarrow> ContractDeployment list \<Rightarrow> string \<Rightarrow> nat option" where
  "indexByContractName known contracts name = map_of (notDeployedContracts known contracts) name"

definition getContractAddress ::
  "deploy_env \<Rightarrow> (string \<times> string) list \<Rightarrow> ContractDeployment list \<Rightarrow> int \<Rightarrow> string \<Rightarrow> string" where
  "getContractAddress env known contracts nonce name =
     (case deployed_before known name of
        Some a \<Rightarrow> a
      | None \<Rightarrow> let plusNonce = (case indexByContractName known contracts name of None \<Rightarrow> 0 | Some k \<Rightarrow> k)
                in en_create env (en_deployer env) (nonce + int plusNonce))"

definition deploy_contract_v3 ::
  "deploy_env \<Rightarrow> (string \<times> string) list \<Rightarrow> (string \<Rightarrow> string) \<Rightarrow> ContractDeployment \<Rightarrow> deployment \<Rightarrow> int \<Rightarrow>
   deploy_error + deploy_step" where
  "deploy_contract_v3 env known expected c deployment nonce =
     (let name = cd_name c
      in case deployed_before known name of
           Some address \<Rightarrow>
             (case (eval_libraries (address_in deployment) expected c, eval_args (address_in deployment) expected c) of
                (Some libraries, Some args) \<Rightarrow>
                  Inr (Going (js_set deployment name \<lparr>dc_name = daov3_factory name, dc_address = address,
                    dc_constructorArguments = args, dc_libraries = libraries, dc_isNew = False\<rparr>) nonce)
              | _ \<Rightarrow> Inl ReadUndefined)
         | None \<Rightarrow>
             (case deploy_contract env daov3_factory expected c deployment nonce of
                Inr (Going deployment' nonce') \<Rightarrow>
                  Inr (Going (case js_get deployment' name of
                      None \<Rightarrow> deployment'
                    | Some d \<Rightarrow> js_set deployment' name (d\<lparr>dc_isNew := cd_waitForConfirmation c\<rparr>)) nonce')
              | r \<Rightarrow> r))"

text \<open>The nonce of the predictions is what the user enters; the network uses the account's own.\<close>

definition deploy_dao_v3 ::
  "deploy_env \<Rightarrow> (string \<times> string) list \<Rightarrow> deploy_args \<Rightarrow> int \<Rightarrow> int \<Rightarrow> deploy_error + deployment option" where
  "deploy_dao_v3 env known args nonceInput nonce =
     (case setting_of env test_proxyRegistries v3_wethContracts args of
        Inl e \<Rightarrow> Inl e
      | Inr d \<Rightarrow> let contracts = deploy_v3_contracts d
                 in deploy_loop (deploy_contract_v3 env known (getContractAddress env known contracts nonceInput))
                      contracts [] nonce)"

section \<open>Local networks\<close>

text \<open>\<open>instance?.address\<close> is \<open>undefined\<close> for a contract that is not deployed.\<close>

definition local_address_in :: "deployment \<Rightarrow> string \<Rightarrow> deploy_value option" where
  "local_address_in deployment name =
     Some (case js_get deployment name of None \<Rightarrow> VUndefined | Some c \<Rightarrow> VText (dc_address c))"

definition deploy_local_contract ::
  "deploy_env \<Rightarrow> (string \<Rightarrow> string) \<Rightarrow> ContractDeployment \<Rightarrow> deployment \<Rightarrow> int \<Rightarrow> deploy_error + deploy_step" where
  "deploy_local_contract env expected c deployment nonce =
     (case (eval_libraries (local_address_in deployment) expected c, eval_args (local_address_in deployment) expected c) of
        (Some libraries, Some args) \<Rightarrow>
          if \<not> en_accepts env (cd_name c) args then Inl (NotAccepted (cd_name c))
          else Inr (Going (js_set deployment (cd_name c) \<lparr>dc_name = cd_name c,
                 dc_address = en_create env (en_deployer env) nonce, dc_constructorArguments = args,
                 dc_libraries = libraries, dc_isNew = False\<rparr>) (nonce + 1))
      | _ \<Rightarrow> Inl ReadUndefined)"

definition local_setting :: "deploy_env \<Rightarrow> deploy_args \<Rightarrow> deploy_setting" where
  "local_setting env args = \<lparr>ds_args = args,
     ds_noundersdao = (if truthy (da_noundersdao args) then the (da_noundersdao args) else en_deployer env),
     ds_weth = [], ds_deployer = en_deployer env, ds_proxyRegistry = ''0xa5409ec958c83c3f309868babaca7c86dcb077c1''\<rparr>"

definition deploy_local :: "deploy_env \<Rightarrow> deploy_args \<Rightarrow> int \<Rightarrow> deploy_error + deployment option" where
  "deploy_local env args nonce =
     (if en_chainId env \<noteq> 31337 then Inr None
      else deploy_loop (deploy_local_contract env (expected_at env nonce local_offsets))
        (local_contracts (local_setting env args)) [] nonce)"

definition check_local :: "(string \<Rightarrow> string) \<Rightarrow> deployment \<Rightarrow> bool" where
  "check_local expected deployment =
     list_all (\<lambda>n. local_address_in deployment n = Some (VText (expected n)))
       [''NounsArt'', ''NounsAuctionHouseProxy'', ''NounsDAOProxyV3'']"

definition deploy_local_dao_v3 :: "deploy_env \<Rightarrow> deploy_args \<Rightarrow> int \<Rightarrow> deploy_error + deployment option" where
  "deploy_local_dao_v3 env args nonce =
     (if en_chainId env \<noteq> 31337 then Inr None
      else let expected = expected_at env nonce local_v3_offsets
           in case deploy_loop (deploy_local_contract env expected) (local_v3_contracts (local_setting env args)) [] nonce of
                Inr (Some deployment) \<Rightarrow> if check_local expected deployment then Inr (Some deployment) else Inl WrongAddress
              | r \<Rightarrow> r)"

end
