(* ===== verification/Deploy_Props.thy ===== *)
theory Deploy_Props
  imports Deploy_Tasks
begin

text \<open>
  A table of contracts that passes a static check runs to its end and links every argument to the
  address at which the named contract is deployed, also where the address was predicted before. All
  deployment tasks pass the check; their offsets fit their tables.
\<close>

section \<open>The static check\<close>

fun refs_ok :: "string set \<Rightarrow> string set \<Rightarrow> deploy_arg \<Rightarrow> bool" where
  "refs_ok E P (Value v) = True"
| "refs_ok E P (AddressOf name) = (name \<in> E)"
| "refs_ok E P (Expected name) = (name \<in> P)"
| "refs_ok E P (Initialize as) = list_all (refs_ok E P) as"

definition contract_ok :: "string set \<Rightarrow> string set \<Rightarrow> ContractDeployment \<Rightarrow> bool" where
  "contract_ok E P c \<longleftrightarrow> list_all (refs_ok E P) (cd_args c) \<and> list_all (\<lambda>l. refs_ok E P (snd l)) (cd_libraries c) \<and>
     (cd_validateDeployment c \<longrightarrow> cd_name c \<in> P)"

text \<open>References go back to earlier contracts of the table, predictions to contracts in \<open>P\<close>.\<close>

fun table_ok :: "string set \<Rightarrow> string set \<Rightarrow> ContractDeployment list \<Rightarrow> bool" where
  "table_ok P E [] = True"
| "table_ok P E (c # cs) = (cd_name c \<notin> E \<and> contract_ok E P c \<and> table_ok P (insert (cd_name c) E) cs)"

fun link :: "(string \<Rightarrow> string) \<Rightarrow> deploy_arg \<Rightarrow> deploy_value" where
  "link f (Value v) = v"
| "link f (AddressOf name) = VText (f name)"
| "link f (Expected name) = VText (f name)"
| "link f (Initialize as) = VCall (map (link f) as)"

lemma those_map_Some: "(\<And>x. x \<in> set xs \<Longrightarrow> g x = Some (h x)) \<Longrightarrow> those (map g xs) = Some (map h xs)"
  by (induction xs) auto

lemma eval_arg_link:
  assumes "\<And>n. n \<in> E \<Longrightarrow> address n = Some (VText (f n))" "\<And>n. n \<in> P \<Longrightarrow> expected n = f n"
  shows "refs_ok E P a \<Longrightarrow> eval_arg address expected a = Some (link f a)"
proof (induction a)
  case (Initialize as)
  then have "those (map (eval_arg address expected) as) = Some (map (link f) as)"
    by (intro those_map_Some) (simp add: list_all_iff)
  then show ?case by simp
qed (simp_all add: assms)

lemma eval_contract_link:
  assumes "\<And>n. n \<in> E \<Longrightarrow> address n = Some (VText (f n))" "\<And>n. n \<in> P \<Longrightarrow> expected n = f n" "contract_ok E P c"
  shows "eval_args address expected c = Some (map (link f) (cd_args c))"
    "eval_libraries address expected c = Some (map (map_prod id (link f)) (cd_libraries c))"
proof -
  note eval = eval_arg_link [of E address f P expected, OF assms(1,2)]
  show "eval_args address expected c = Some (map (link f) (cd_args c))"
    unfolding eval_args_def using assms(3) by (intro those_map_Some) (simp add: contract_ok_def list_all_iff eval)
  show "eval_libraries address expected c = Some (map (map_prod id (link f)) (cd_libraries c))"
    unfolding eval_libraries_def using assms(3)
    by (intro those_map_Some) (auto simp: contract_ok_def list_all_iff eval split: prod.splits)
qed

lemma link_cong: "refs_ok E P a \<Longrightarrow> (\<And>n. n \<in> E \<union> P \<Longrightarrow> f n = g n) \<Longrightarrow> link f a = link g a"
  by (induction a) (auto simp: list_all_iff)

section \<open>Linked deployments\<close>

definition address_of :: "deployment \<Rightarrow> string \<Rightarrow> string" where
  "address_of dep n = (case js_get dep n of None \<Rightarrow> [] | Some e \<Rightarrow> dc_address e)"

definition linked_entry :: "(string \<Rightarrow> string) \<Rightarrow> ContractDeployment \<Rightarrow> DeployedContract \<Rightarrow> bool" where
  "linked_entry f c e \<longleftrightarrow> dc_address e = f (cd_name c) \<and> dc_constructorArguments e = map (link f) (cd_args c) \<and>
     dc_libraries e = map (map_prod id (link f)) (cd_libraries c)"

definition linked :: "(string \<Rightarrow> string) \<Rightarrow> deployment \<Rightarrow> ContractDeployment list \<Rightarrow> bool" where
  "linked f dep cs \<longleftrightarrow> list_all (\<lambda>c. case js_get dep (cd_name c) of None \<Rightarrow> False | Some e \<Rightarrow> linked_entry f c e) cs"

text \<open>
  A way to deploy: the address that a contract gets at a given nonce, whether it uses up the nonce,
  whether it is accepted, and a step that, on a contract whose references are known, stores the linked
  entry or fails because the contract is refused.
\<close>

fun placed :: "(string \<Rightarrow> bool) \<Rightarrow> (int \<Rightarrow> string \<Rightarrow> string) \<Rightarrow> (string \<Rightarrow> string) \<Rightarrow> int \<Rightarrow> ContractDeployment list \<Rightarrow> bool" where
  "placed spends addr f nonce [] = True"
| "placed spends addr f nonce (c # cs) = (f (cd_name c) = addr nonce (cd_name c) \<and>
     placed spends addr f (nonce + of_bool (spends (cd_name c))) cs)"

locale deploy_step_contract =
  fixes step :: "ContractDeployment \<Rightarrow> deployment \<Rightarrow> int \<Rightarrow> deploy_error + deploy_step"
    and spends :: "string \<Rightarrow> bool"
    and addr :: "int \<Rightarrow> string \<Rightarrow> string"
    and f :: "string \<Rightarrow> string"
    and P :: "string set"
    and ready :: bool
    and fine :: "ContractDeployment \<Rightarrow> bool"
  assumes step_links: "\<lbrakk>ready; contract_ok E P c; \<And>n. n \<in> E \<Longrightarrow> js_get dep n \<noteq> None \<and> address_of dep n = f n;
      f (cd_name c) = addr nonce (cd_name c); fine c\<rbrakk> \<Longrightarrow>
    \<exists>e dep'. step c dep nonce = Inr (Going dep' (nonce + of_bool (spends (cd_name c)))) \<and>
      linked_entry f c e \<and> (\<forall>n. js_get dep' n = (if n = cd_name c then Some e else js_get dep n))"
    and step_refuses: "\<lbrakk>ready; contract_ok E P c; \<And>n. n \<in> E \<Longrightarrow> js_get dep n \<noteq> None \<and> address_of dep n = f n; \<not> fine c\<rbrakk> \<Longrightarrow>
      step c dep nonce = Inl (NotAccepted (cd_name c))"
begin

lemma loop_outcome:
  "\<lbrakk>ready; table_ok P E cs; \<And>n. n \<in> E \<Longrightarrow> js_get dep n \<noteq> None \<and> address_of dep n = f n; placed spends addr f nonce cs\<rbrakk> \<Longrightarrow>
   case find (\<lambda>c. \<not> fine c) cs of
     None \<Rightarrow> \<exists>dep'. deploy_loop step cs dep nonce = Inr (Some dep') \<and> linked f dep' cs \<and>
       (\<forall>n \<in> E. js_get dep' n = js_get dep n)
   | Some c \<Rightarrow> deploy_loop step cs dep nonce = Inl (NotAccepted (cd_name c))"
proof (induction cs arbitrary: E dep nonce)
  case (Cons c cs)
  have new: "cd_name c \<notin> E" and ok: "contract_ok E P c" and rest: "table_ok P (insert (cd_name c) E) cs"
    using Cons.prems(2) by simp_all
  show ?case
  proof (cases "fine c")
    case False
    then show ?thesis using step_refuses [OF Cons.prems(1) ok Cons.prems(3) False] by simp
  next
    case True
    obtain e d where d: "step c dep nonce = Inr (Going d (nonce + of_bool (spends (cd_name c))))" "linked_entry f c e"
        "\<forall>n. js_get d n = (if n = cd_name c then Some e else js_get dep n)"
      using step_links [OF Cons.prems(1) ok Cons.prems(3) _ True, of nonce] Cons.prems(4) by auto
    have known: "n \<in> insert (cd_name c) E \<Longrightarrow> js_get d n \<noteq> None \<and> address_of d n = f n" for n
      using Cons.prems(3) [of n] d(2,3) by (auto simp: address_of_def linked_entry_def)
    from Cons.prems(4) have "placed spends addr f (nonce + of_bool (spends (cd_name c))) cs" by simp
    note IH = Cons.IH [OF Cons.prems(1) rest known this]
    show ?thesis
    proof (cases "find (\<lambda>c. \<not> fine c) cs")
      case None
      with IH obtain d' where d': "deploy_loop step cs d (nonce + of_bool (spends (cd_name c))) = Inr (Some d')"
        "linked f d' cs" "\<forall>n \<in> insert (cd_name c) E. js_get d' n = js_get d n" by auto
      have "js_get d' (cd_name c) = Some e" "\<forall>n \<in> E. js_get d' n = js_get dep n" using d'(3) d(3) new by auto
      then show ?thesis using d d' None True by (auto simp: linked_def)
    qed (use IH d True in simp)
  qed
qed (simp add: linked_def)

end

section \<open>Where contracts are placed\<close>

lemma map_of_zip_index: "distinct (xs @ n # ys) \<Longrightarrow> map_of (zip (xs @ n # ys) [0..<length (xs @ n # ys)]) n = Some (length xs)"
  using map_of_zip_nth [of "xs @ n # ys" "[0..<length (xs @ n # ys)]" "length xs"]
  by (simp del: upt_Suc)

lemma getContractAddress_placed:
  fixes env :: deploy_env and known :: "(string \<times> string) list"
  defines "create \<equiv> (\<lambda>m n. case deployed_before known n of Some a \<Rightarrow> a | None \<Rightarrow> en_create env (en_deployer env) m)"
  shows "distinct (map cd_name (pre @ cs)) \<Longrightarrow>
    placed (\<lambda>n. deployed_before known n = None) create (getContractAddress env known (pre @ cs) nonce)
      (nonce + int (length (filter (\<lambda>n. deployed_before known n = None) (map cd_name pre)))) cs"
proof (induction cs arbitrary: pre)
  case (Cons c cs)
  let ?undeployed = "\<lambda>n. deployed_before known n = None"
  let ?A = "filter ?undeployed (map cd_name pre)"
  have "getContractAddress env known (pre @ c # cs) nonce (cd_name c) = create (nonce + int (length ?A)) (cd_name c)"
  proof (cases "deployed_before known (cd_name c)")
    case None
    let ?B = "filter ?undeployed (map cd_name cs)"
    have "distinct (?A @ cd_name c # ?B)" using Cons.prems by auto
    from map_of_zip_index [OF this] have "indexByContractName known (pre @ c # cs) (cd_name c) = Some (length ?A)"
      using None by (simp add: indexByContractName_def notDeployedContracts_def Let_def)
    then show ?thesis using None by (simp add: getContractAddress_def create_def)
  qed (simp add: getContractAddress_def create_def)
  moreover have "length (filter ?undeployed (map cd_name (pre @ [c]))) =
      length ?A + of_bool (?undeployed (cd_name c))" by simp
  moreover have "placed ?undeployed create (getContractAddress env known ((pre @ [c]) @ cs) nonce)
      (nonce + int (length (filter ?undeployed (map cd_name (pre @ [c]))))) cs"
    using Cons.IH [of "pre @ [c]"] Cons.prems by simp
  ultimately show ?case by (simp add: algebra_simps)
qed simp

lemma table_ok_distinct: "table_ok P E cs \<Longrightarrow> distinct (map cd_name cs) \<and> set (map cd_name cs) \<inter> E = {}"
  by (induction cs arbitrary: E) auto

section \<open>The three ways to deploy\<close>

text \<open>The network takes the transaction with the linked arguments.\<close>

definition taken :: "deploy_env \<Rightarrow> (string \<Rightarrow> string) \<Rightarrow> ContractDeployment \<Rightarrow> bool" where
  "taken env f c = en_accepts env (cd_name c) (map (link f) (cd_args c))"

definition accepting :: "deploy_env \<Rightarrow> bool" where
  "accepting env \<longleftrightarrow> (\<forall>n args. en_accepts env n args)"

lemma known_addresses:
  "js_get dep n \<noteq> None \<and> address_of dep n = f n \<Longrightarrow> address_in dep n = Some (VText (f n))"
  "js_get dep n \<noteq> None \<and> address_of dep n = f n \<Longrightarrow> local_address_in dep n = Some (VText (f n))"
  by (auto simp: address_of_def address_in_def local_address_in_def split: option.splits)

lemma no_operation: "js_get (prompt_result a) ''operation'' = None"
  by (simp add: prompt_result_def js_get_def)

definition linked_contract :: "(string \<Rightarrow> string) \<Rightarrow> string \<Rightarrow> bool \<Rightarrow> ContractDeployment \<Rightarrow> DeployedContract" where
  "linked_contract f name isNew c = \<lparr>dc_name = name, dc_address = f (cd_name c), dc_constructorArguments = map (link f) (cd_args c),
     dc_libraries = map (map_prod id (link f)) (cd_libraries c), dc_isNew = isNew\<rparr>"

lemma linked_contract_entry [simp]: "linked_entry f c (linked_contract f name b c)"
  by (simp add: linked_entry_def linked_contract_def)

lemma deploy_contract_outcome:
  assumes "contract_ok E P c" "\<And>n. n \<in> E \<Longrightarrow> js_get dep n \<noteq> None \<and> address_of dep n = f n"
    "\<And>n. n \<in> P \<Longrightarrow> expected n = f n"
  shows "f (cd_name c) = en_create env (en_deployer env) nonce \<Longrightarrow> taken env f c \<Longrightarrow>
      deploy_contract env factory expected c dep nonce =
      Inr (Going (js_set dep (cd_name c) (linked_contract f (factory (cd_name c)) False c)) (nonce + 1))"
    "\<not> taken env f c \<Longrightarrow> deploy_contract env factory expected c dep nonce = Inl (NotAccepted (cd_name c))"
proof -
  have known: "address_in dep n = Some (VText (f n))" if "n \<in> E" for n
    using known_addresses(1) assms(2) [OF that] .
  note eval = eval_contract_link [of E "address_in dep" f P expected, OF known assms(3,1)]
  have "cd_validateDeployment c \<Longrightarrow> expected (cd_name c) = f (cd_name c)"
    using assms(1,3) by (simp add: contract_ok_def)
  then show "f (cd_name c) = en_create env (en_deployer env) nonce \<Longrightarrow> taken env f c \<Longrightarrow>
      deploy_contract env factory expected c dep nonce =
      Inr (Going (js_set dep (cd_name c) (linked_contract f (factory (cd_name c)) False c)) (nonce + 1))"
    by (auto simp: deploy_contract_def eval no_operation taken_def linked_contract_def Let_def)
  show "\<not> taken env f c \<Longrightarrow> deploy_contract env factory expected c dep nonce = Inl (NotAccepted (cd_name c))"
    by (simp add: deploy_contract_def eval taken_def)
qed

interpretation plain: deploy_step_contract "deploy_contract env factory expected" "\<lambda>_. True"
    "\<lambda>m n. en_create env (en_deployer env) m" f P "\<forall>n\<in>P. expected n = f n" "taken env f"
  for env factory expected f P
proof
  fix E c dep nonce
  assume c: "\<forall>n\<in>P. expected n = f n" "contract_ok E P c"
    "\<And>n. n \<in> E \<Longrightarrow> js_get dep n \<noteq> None \<and> address_of dep n = f n"
  have exp: "expected n = f n" if "n \<in> P" for n using c(1) that by blast
  note outcome = deploy_contract_outcome [OF c(2,3) exp]
  show "\<exists>e dep'. deploy_contract env factory expected c dep nonce = Inr (Going dep' (nonce + of_bool True)) \<and>
      linked_entry f c e \<and> (\<forall>n. js_get dep' n = (if n = cd_name c then Some e else js_get dep n))"
    if "f (cd_name c) = en_create env (en_deployer env) nonce" "taken env f c"
    by (rule exI [of _ "linked_contract f (factory (cd_name c)) False c"]) (simp add: outcome(1) that js_get_set)
  show "deploy_contract env factory expected c dep nonce = Inl (NotAccepted (cd_name c))" if "\<not> taken env f c"
    using that by (simp add: outcome(2))
qed

interpretation resumed: deploy_step_contract "deploy_contract_v3 env known expected" "\<lambda>n. deployed_before known n = None"
    "\<lambda>m n. case deployed_before known n of Some a \<Rightarrow> a | None \<Rightarrow> en_create env (en_deployer env) m" f P
    "\<forall>n\<in>P. expected n = f n" "\<lambda>c. deployed_before known (cd_name c) \<noteq> None \<or> taken env f c"
  for env known expected f P
proof
  fix E c dep nonce
  assume c: "\<forall>n\<in>P. expected n = f n" "contract_ok E P c"
    "\<And>n. n \<in> E \<Longrightarrow> js_get dep n \<noteq> None \<and> address_of dep n = f n"
  have exp: "expected n = f n" if "n \<in> P" for n using c(1) that by blast
  have known: "address_in dep n = Some (VText (f n))" if "n \<in> E" for n
    using known_addresses(1) c(3) [OF that] .
  note eval = eval_contract_link [of E "address_in dep" f P expected, OF known exp c(2)]
  note outcome = deploy_contract_outcome [OF c(2,3) exp]
  show "\<exists>e dep'. deploy_contract_v3 env known expected c dep nonce =
        Inr (Going dep' (nonce + of_bool (deployed_before known (cd_name c) = None))) \<and>
      linked_entry f c e \<and> (\<forall>n. js_get dep' n = (if n = cd_name c then Some e else js_get dep n))"
    if "f (cd_name c) = (case deployed_before known (cd_name c) of Some a \<Rightarrow> a
        | None \<Rightarrow> en_create env (en_deployer env) nonce)" "deployed_before known (cd_name c) \<noteq> None \<or> taken env f c"
  proof (cases "deployed_before known (cd_name c)")
    case None
    have "deploy_contract_v3 env known expected c dep nonce =
      Inr (Going (js_set (js_set dep (cd_name c) (linked_contract f (daov3_factory (cd_name c)) False c)) (cd_name c)
        (linked_contract f (daov3_factory (cd_name c)) (cd_waitForConfirmation c) c)) (nonce + 1))"
      using None that by (simp add: deploy_contract_v3_def Let_def js_get_set outcome(1) linked_contract_def)
    then show ?thesis using None
      by (intro exI [of _ "linked_contract f (daov3_factory (cd_name c)) (cd_waitForConfirmation c) c"])
        (simp add: js_get_set)
  next
    case (Some a)
    then show ?thesis using that(1) by (auto simp: deploy_contract_v3_def Let_def eval linked_entry_def js_get_set)
  qed
  show "deploy_contract_v3 env known expected c dep nonce = Inl (NotAccepted (cd_name c))"
    if "\<not> (deployed_before known (cd_name c) \<noteq> None \<or> taken env f c)"
    using that by (simp add: deploy_contract_v3_def outcome(2))
qed

interpretation onlocal: deploy_step_contract "deploy_local_contract env expected" "\<lambda>_. True"
    "\<lambda>m n. en_create env (en_deployer env) m" f P "\<forall>n\<in>P. expected n = f n" "taken env f"
  for env expected f P
proof
  fix E c dep nonce
  assume c: "\<forall>n\<in>P. expected n = f n" "contract_ok E P c"
    "\<And>n. n \<in> E \<Longrightarrow> js_get dep n \<noteq> None \<and> address_of dep n = f n"
  have known: "local_address_in dep n = Some (VText (f n))" if "n \<in> E" for n
    using known_addresses(2) c(3) [OF that] .
  have exp: "expected n = f n" if "n \<in> P" for n using c(1) that by blast
  note eval = eval_contract_link [of E "local_address_in dep" f P expected, OF known exp c(2)]
  show "\<exists>e dep'. deploy_local_contract env expected c dep nonce = Inr (Going dep' (nonce + of_bool True)) \<and>
      linked_entry f c e \<and> (\<forall>n. js_get dep' n = (if n = cd_name c then Some e else js_get dep n))"
    if "f (cd_name c) = en_create env (en_deployer env) nonce" "taken env f c"
    using that by (auto simp: deploy_local_contract_def eval linked_entry_def js_get_set taken_def)
  show "deploy_local_contract env expected c dep nonce = Inl (NotAccepted (cd_name c))" if "\<not> taken env f c"
    using that by (simp add: deploy_local_contract_def eval taken_def)
qed

section \<open>The tasks\<close>

text \<open>The address of a contract of a table that is deployed from a given nonce on, one transaction each.\<close>

definition task_address :: "deploy_env \<Rightarrow> ContractDeployment list \<Rightarrow> int \<Rightarrow> string \<Rightarrow> string" where
  "task_address env cs nonce n =
     en_create env (en_deployer env) (nonce + int (length (takeWhile (\<lambda>c. cd_name c \<noteq> n) cs)))"

text \<open>
  The outcome of a task: the first contract that the network refuses stops it; without one, all
  contracts are deployed and linked.
\<close>

definition task_links :: "deploy_env \<Rightarrow> ContractDeployment list \<Rightarrow> int \<Rightarrow> (deploy_error + deployment option) \<Rightarrow> bool" where
  "task_links env cs nonce result =
     (case find (\<lambda>c. \<not> taken env (task_address env cs nonce) c) cs of
        None \<Rightarrow> \<exists>dep. result = Inr (Some dep) \<and> linked (task_address env cs nonce) dep cs
      | Some c \<Rightarrow> result = Inl (NotAccepted (cd_name c)))"

definition offsets_ok :: "(string \<times> nat) list \<Rightarrow> ContractDeployment list \<Rightarrow> bool" where
  "offsets_ok offsets cs \<longleftrightarrow> table_ok (set (map fst offsets)) {} cs \<and>
     list_all (\<lambda>(n, k). k = length (takeWhile (\<lambda>c. cd_name c \<noteq> n) cs)) offsets"

lemma takeWhile_own: "c \<notin> set pre \<Longrightarrow> distinct (map cd_name (pre @ c # cs)) \<Longrightarrow>
  takeWhile (\<lambda>x. cd_name x \<noteq> cd_name c) (pre @ c # cs) = pre"
  by (induction pre) auto

lemma task_address_placed:
  "distinct (map cd_name (pre @ cs)) \<Longrightarrow> placed (\<lambda>_. True) (\<lambda>m n. en_create env (en_deployer env) m)
     (task_address env (pre @ cs) nonce) (nonce + int (length pre)) cs"
proof (induction cs arbitrary: pre)
  case (Cons c cs)
  have "placed (\<lambda>_. True) (\<lambda>m n. en_create env (en_deployer env) m)
     (task_address env ((pre @ [c]) @ cs) nonce) (nonce + int (length (pre @ [c]))) cs"
    using Cons.prems by (intro Cons.IH) simp
  moreover have "takeWhile (\<lambda>x. cd_name x \<noteq> cd_name c) (pre @ c # cs) = pre"
    using Cons.prems by (intro takeWhile_own) auto
  then have "task_address env (pre @ c # cs) nonce (cd_name c) = en_create env (en_deployer env) (nonce + int (length pre))"
    by (simp only: task_address_def)
  ultimately show ?case by (simp add: algebra_simps)
qed simp

lemma expected_at_task:
  assumes "offsets_ok offsets cs" "n \<in> set (map fst offsets)"
  shows "expected_at env nonce offsets n = task_address env cs nonce n"
proof -
  obtain k where "map_of offsets n = Some k" using assms(2) by (metis map_of_eq_None_iff not_Some_eq list.set_map)
  moreover from map_of_SomeD [OF this] have "k = length (takeWhile (\<lambda>c. cd_name c \<noteq> n) cs)"
    using assms(1) by (auto simp: offsets_ok_def list_all_iff)
  ultimately show ?thesis by (simp add: expected_at_def task_address_def)
qed

lemma offsets_links:
  assumes "offsets_ok offsets cs"
  shows "task_links env cs nonce (deploy_loop (deploy_contract env factory (expected_at env nonce offsets)) cs [] nonce)"
    "task_links env cs nonce (deploy_loop (deploy_local_contract env (expected_at env nonce offsets)) cs [] nonce)"
proof -
  have ready: "\<forall>n\<in>set (map fst offsets). expected_at env nonce offsets n = task_address env cs nonce n"
    using expected_at_task [OF assms] by blast
  have ok: "table_ok (set (map fst offsets)) {} cs" using assms by (simp add: offsets_ok_def)
  have at: "placed (\<lambda>_. True) (\<lambda>m n. en_create env (en_deployer env) m) (task_address env cs nonce) nonce cs"
    using task_address_placed [of "[]" cs] table_ok_distinct [OF ok] by simp
  show "task_links env cs nonce (deploy_loop (deploy_contract env factory (expected_at env nonce offsets)) cs [] nonce)"
    using plain.loop_outcome [OF ready ok _ at, of "[]" factory] by (auto simp: task_links_def split: option.splits)
  show "task_links env cs nonce (deploy_loop (deploy_local_contract env (expected_at env nonce offsets)) cs [] nonce)"
    using onlocal.loop_outcome [OF ready ok _ at, of "[]"] by (auto simp: task_links_def split: option.splits)
qed

named_theorems deploy_tables \<open>the tables and offsets of the deployment tasks\<close>

lemmas deploy_tables_defs [deploy_tables] =
  offsets_ok_def deploy_contracts_def short_times_contracts_def local_contracts_def short_times_v3_contracts_def
  local_v3_contracts_def deploy_v3_contracts_def descriptor_contracts_def token_contract_def auction_contracts_def
  auction_initialize_def dao_v2_contracts_def dao_v3_libraries_def dao_v3_contracts_def data_contracts_def
  plain_contract_def contract_ok_def waiting_def

lemmas deploy_offsets_defs [deploy_tables] =
  deploy_offsets_def short_times_offsets_def short_times_v3_offsets_def local_offsets_def local_v3_offsets_def
  NOUNS_ART_NONCE_OFFSET_def AUCTION_HOUSE_PROXY_NONCE_OFFSET_def GOVERNOR_N_DELEGATOR_NONCE_OFFSET_def
  v3_GOVERNOR_N_DELEGATOR_NONCE_OFFSET_def local_NOUNS_ART_NONCE_OFFSET_def
  local_AUCTION_HOUSE_PROXY_NONCE_OFFSET_def local_GOVERNOR_N_DELEGATOR_NONCE_OFFSET_def
  local_v3_GOVERNOR_N_DELEGATOR_NONCE_OFFSET_def

lemma tables_ok:
  "offsets_ok deploy_offsets (deploy_contracts d)"
  "offsets_ok short_times_offsets (short_times_contracts d)"
  "offsets_ok short_times_v3_offsets (short_times_v3_contracts d)"
  "offsets_ok local_offsets (local_contracts d)"
  "offsets_ok local_v3_offsets (local_v3_contracts d)"
  by (simp_all add: deploy_tables)


lemma v3_table_ok: "table_ok (set (map cd_name (deploy_v3_contracts d))) {} (deploy_v3_contracts d)"
  by (simp add: deploy_tables)

lemma local_check:
  assumes "linked (task_address env (local_v3_contracts d) nonce) dep (local_v3_contracts d)"
  shows "check_local (expected_at env nonce local_v3_offsets) dep"
proof -
  have "local_address_in dep n = Some (VText (expected_at env nonce local_v3_offsets n))"
    if "n \<in> set (map fst local_v3_offsets)" "n \<in> set (map cd_name (local_v3_contracts d))" for n
    using assms that(2) expected_at_task [OF tables_ok(5) that(1), of env nonce d]
    by (auto simp: linked_def list_all_iff linked_entry_def local_address_in_def split: option.splits)
  moreover have "{''NounsArt'', ''NounsAuctionHouseProxy'', ''NounsDAOProxyV3''} \<subseteq> set (map fst local_v3_offsets)"
    by (simp add: deploy_tables)
  moreover have "{''NounsArt'', ''NounsAuctionHouseProxy'', ''NounsDAOProxyV3''} \<subseteq> set (map cd_name (local_v3_contracts d))"
    by (simp add: deploy_tables)
  ultimately show ?thesis by (simp add: check_local_def)
qed

lemma tasks_link_local:
  assumes "en_chainId env = 31337"
  shows "task_links env (local_contracts (local_setting env args)) nonce (deploy_local env args nonce)"
    "task_links env (local_v3_contracts (local_setting env args)) nonce (deploy_local_dao_v3 env args nonce)"
proof -
  show "task_links env (local_contracts (local_setting env args)) nonce (deploy_local env args nonce)"
    using assms by (simp add: deploy_local_def offsets_links tables_ok)
  show "task_links env (local_v3_contracts (local_setting env args)) nonce (deploy_local_dao_v3 env args nonce)"
    using offsets_links(2) [OF tables_ok(5), of env "local_setting env args" nonce] assms
    by (auto simp: deploy_local_dao_v3_def task_links_def local_check split: option.splits)
qed

text \<open>
  C22: Each task with fixed offsets deploys its table in order up to the first contract that the network
  refuses, and fails there. If none is refused it deploys the whole table, and every constructor
  argument, every argument of an initialize call and every library is the address at which the
  named contract ends up, also where the address was computed in advance from an offset; the
  comparisons of predicted and actual addresses succeed.
\<close>

theorem deploy_tasks_link:
  "(setting_of env proxyRegistries wethContracts args = Inr d \<longrightarrow>
      task_links env (deploy_contracts d) nonce (deploy_task env args nonce) \<and>
      task_links env (deploy_contracts d) nonce (deploy_short_times_daov1 env args nonce)) \<and>
    (setting_of env test_proxyRegistries test_wethContracts args = Inr d \<longrightarrow>
      task_links env (short_times_contracts d) nonce (deploy_short_times env args nonce) \<and>
      task_links env (short_times_v3_contracts d) nonce (deploy_short_times_dao_v3 env args nonce)) \<and>
    (en_chainId env = 31337 \<longrightarrow>
      task_links env (local_contracts (local_setting env args)) nonce (deploy_local env args nonce) \<and>
      task_links env (local_v3_contracts (local_setting env args)) nonce (deploy_local_dao_v3 env args nonce))"
  using tasks_link_local [of env args nonce]
  by (auto simp add: deploy_task_def deploy_short_times_daov1_def deploy_short_times_def deploy_short_times_dao_v3_def
      offsets_links tables_ok)

text \<open>A network of which the address of the contract at nonce \<open>n\<close> has the length \<open>n\<close>.\<close>

definition sample_env :: deploy_env where
  "sample_env = \<lparr>en_deployer = ''0xd'', en_create = (\<lambda>a n. a @ replicate (nat n) CHR ''1''), en_accepts = (\<lambda>_ _. True),
     en_autoDeploy = False, en_confirm = (\<lambda>_. ''SKIP''), en_chainId = 31337\<rparr>"

definition sample_args :: deploy_args where
  "sample_args = \<lparr>da_weth = Some ''0xw'', da_noundersdao = None, da_auctionTimeBuffer = 300, da_auctionReservePrice = 1,
     da_auctionMinIncrementBidPercentage = 2, da_auctionDuration = 86400, da_timelockDelay = 172800,
     da_votingPeriod = 19710, da_votingDelay = 13140, da_proposalThresholdBps = 25, da_quorumVotesBps = 1000,
     da_minQuorumVotesBPS = 1000, da_maxQuorumVotesBPS = 4000, da_quorumCoefficient = 1000000,
     da_createCandidateCost = 0, da_updateCandidateCost = 0\<rparr>"

lemma sample_chain [simp]: "en_chainId sample_env = 31337"
  by (simp add: sample_env_def)

lemma sample_accepting [simp]: "accepting sample_env"
  by (simp add: accepting_def sample_env_def)

definition sample_setting :: deploy_setting where
  "sample_setting = \<lparr>ds_args = sample_args, ds_noundersdao = ''0xd'', ds_weth = ''0xw'', ds_deployer = ''0xd'',
     ds_proxyRegistry = ''0x0000000000000000000000000000000000000000''\<rparr>"

lemma sample_settings [simp]:
  "setting_of sample_env proxyRegistries wethContracts sample_args = Inr sample_setting"
  "setting_of sample_env test_proxyRegistries test_wethContracts sample_args = Inr sample_setting"
  "setting_of sample_env test_proxyRegistries v3_wethContracts sample_args = Inr sample_setting"
  by (simp_all add: setting_of_def sample_env_def sample_args_def sample_setting_def truthy_def proxyRegistries_def
      test_proxyRegistries_def)

theorem deploy_tasks_link_witness:
  "accepting sample_env \<and> task_links sample_env (deploy_contracts sample_setting) 7 (deploy_task sample_env sample_args 7) \<and>
   task_links sample_env (short_times_v3_contracts sample_setting) 7 (deploy_short_times_dao_v3 sample_env sample_args 7) \<and>
   task_links sample_env (local_v3_contracts (local_setting sample_env sample_args)) 7
     (deploy_local_dao_v3 sample_env sample_args 7)"
  using deploy_tasks_link [of sample_env sample_args sample_setting 7] by simp



text \<open>Until the first comparison a table runs whatever the predictions are.\<close>

lemma eval_arg_total: "refs_ok E P a \<Longrightarrow> \<forall>n\<in>E. address n \<noteq> None \<Longrightarrow> \<exists>v. eval_arg address expected a = Some v"
proof (induction a)
  case (Initialize as)
  have "\<exists>v. eval_arg address expected a = Some v" if "a \<in> set as" for a
    using Initialize that by (simp add: list_all_iff)
  then have "those (map (eval_arg address expected) as) = Some (map (\<lambda>a. the (eval_arg address expected a)) as)"
    by (intro those_map_Some) fastforce
  then show ?case by simp
qed auto

lemma eval_contract_total:
  assumes "contract_ok E P c" "\<forall>n\<in>E. address n \<noteq> None"
  obtains args libraries where "eval_args address expected c = Some args" "eval_libraries address expected c = Some libraries"
proof -
  have "eval_args address expected c = Some (map (\<lambda>a. the (eval_arg address expected a)) (cd_args c))"
    unfolding eval_args_def using assms eval_arg_total [OF _ assms(2)]
    by (intro those_map_Some) (fastforce simp: contract_ok_def list_all_iff)
  moreover have "eval_libraries address expected c =
      Some (map (\<lambda>(n, a). (n, the (eval_arg address expected a))) (cd_libraries c))"
    unfolding eval_libraries_def using assms eval_arg_total [OF _ assms(2)]
    by (intro those_map_Some) (fastforce simp: contract_ok_def list_all_iff split: prod.splits)
  ultimately show thesis by (rule that)
qed

lemma deploy_contract_v3_goes:
  assumes "accepting env" "deployed_before known (cd_name c) = None" "contract_ok E P c" "\<forall>n\<in>E. js_get dep n \<noteq> None"
  shows "if cd_validateDeployment c \<and> toLowerCase (expected (cd_name c)) \<noteq> toLowerCase (en_create env (en_deployer env) nonce)
    then deploy_contract_v3 env known expected c dep nonce = Inl (UnexpectedAddress (toLowerCase (expected (cd_name c)))
      (toLowerCase (en_create env (en_deployer env) nonce)))
    else \<exists>dep'. deploy_contract_v3 env known expected c dep nonce = Inr (Going dep' (nonce + 1)) \<and>
      (\<forall>n\<in>insert (cd_name c) E. js_get dep' n \<noteq> None)"
proof -
  have "\<forall>n\<in>E. address_in dep n \<noteq> None" using assms(4) by (simp add: address_in_def)
  from eval_contract_total [OF assms(3) this, of expected] obtain args libraries
    where "eval_args (address_in dep) expected c = Some args" "eval_libraries (address_in dep) expected c = Some libraries" .
  then show ?thesis
    using assms by (auto simp: deploy_contract_v3_def deploy_contract_def no_operation accepting_def js_get_set Let_def)
qed

lemma loop_stops_at_check:
  "\<lbrakk>accepting env; \<And>n. deployed_before known n = None; table_ok P E (pre @ c # post); \<forall>n\<in>E. js_get dep n \<noteq> None;
    list_all (\<lambda>x. \<not> cd_validateDeployment x) pre; cd_validateDeployment c;
    toLowerCase (expected (cd_name c)) \<noteq> toLowerCase (en_create env (en_deployer env) (nonce + int (length pre)))\<rbrakk> \<Longrightarrow>
   deploy_loop (deploy_contract_v3 env known expected) (pre @ c # post) dep nonce =
     Inl (UnexpectedAddress (toLowerCase (expected (cd_name c)))
       (toLowerCase (en_create env (en_deployer env) (nonce + int (length pre)))))"
proof (induction pre arbitrary: E dep nonce)
  case Nil
  have "contract_ok E P c" using Nil.prems(3) by simp
  from deploy_contract_v3_goes [where expected = expected and nonce = nonce, OF Nil.prems(1,2) this Nil.prems(4)] show ?case
    using Nil.prems(6,7) by simp
next
  case (Cons x pre)
  have "contract_ok E P x" using Cons.prems(3) by simp
  from deploy_contract_v3_goes [where expected = expected and nonce = nonce, OF Cons.prems(1,2) this Cons.prems(4)]
  obtain dep' where "deploy_contract_v3 env known expected x dep nonce = Inr (Going dep' (nonce + 1))"
      and known: "\<forall>n\<in>insert (cd_name x) E. js_get dep' n \<noteq> None"
    using Cons.prems(5) by auto
  moreover have "deploy_loop (deploy_contract_v3 env known expected) (pre @ c # post) dep' (nonce + 1) =
     Inl (UnexpectedAddress (toLowerCase (expected (cd_name c)))
       (toLowerCase (en_create env (en_deployer env) ((nonce + 1) + int (length pre)))))"
    using Cons.prems(3,5,6,7) by (intro Cons.IH [OF Cons.prems(1,2) _ known]) (simp_all add: algebra_simps)
  ultimately show ?case by (simp add: algebra_simps)
qed

text \<open>
  With no contract deployed before, a wrong nonce stops \<open>deploy-dao-v3.ts\<close> at the proxy of the auction
  house, the first contract whose address is compared with the prediction.
\<close>

theorem deploy_dao_v3_wrong_nonce:
  assumes "accepting env" "setting_of env test_proxyRegistries v3_wethContracts args = Inr d"
    and "toLowerCase (en_create env (en_deployer env) (nonceInput + 9)) \<noteq> toLowerCase (en_create env (en_deployer env) (nonce + 9))"
  shows "deploy_dao_v3 env deployedContracts args nonceInput nonce =
    Inl (UnexpectedAddress (toLowerCase (en_create env (en_deployer env) (nonceInput + 9)))
      (toLowerCase (en_create env (en_deployer env) (nonce + 9))))"
proof -
  let ?cs = "deploy_v3_contracts d"
  let ?expected = "getContractAddress env deployedContracts ?cs nonceInput"
  have none: "deployed_before deployedContracts n = None" for n
    by (auto simp: deployed_before_def deployedContracts_def split: option.splits)
  have split: "?cs = take 9 ?cs @ ?cs ! 9 # drop 10 ?cs" "list_all (\<lambda>x. \<not> cd_validateDeployment x) (take 9 ?cs)"
      "cd_validateDeployment (?cs ! 9)" "cd_name (?cs ! 9) = ''NounsAuctionHouseProxy''" "length (take 9 ?cs) = 9"
    by (simp_all add: deploy_tables)
  have "indexByContractName deployedContracts ?cs ''NounsAuctionHouseProxy'' = Some 9"
    by (simp add: indexByContractName_def notDeployedContracts_def none deploy_tables)
  then have expected: "?expected (cd_name (?cs ! 9)) = en_create env (en_deployer env) (nonceInput + 9)"
    by (simp add: getContractAddress_def none split(4))
  have "table_ok (set (map cd_name ?cs)) {} (take 9 ?cs @ ?cs ! 9 # drop 10 ?cs)"
    using v3_table_ok [of d] by (simp only: split(1) [symmetric])
  from loop_stops_at_check [where expected = ?expected and nonce = nonce and dep = "[]",
      OF assms(1) none this _ split(2,3)]
  have "deploy_loop (deploy_contract_v3 env deployedContracts ?expected) (take 9 ?cs @ ?cs ! 9 # drop 10 ?cs) [] nonce =
     Inl (UnexpectedAddress (toLowerCase (en_create env (en_deployer env) (nonceInput + 9)))
      (toLowerCase (en_create env (en_deployer env) (nonce + 9))))"
    using assms(3) by (simp add: expected split(5) del: length_take)
  then show ?thesis using assms(2) by (simp add: deploy_dao_v3_def Let_def split(1) [symmetric])
qed

theorem deploy_dao_v3_wrong_nonce_witness:
  "accepting sample_env \<and> (\<exists>a b. deploy_dao_v3 sample_env deployedContracts sample_args 7 8 = Inl (UnexpectedAddress a b))"
proof -
  have "toLowerCase (en_create sample_env (en_deployer sample_env) (7 + 9)) \<noteq>
      toLowerCase (en_create sample_env (en_deployer sample_env) (8 + 9))"
    by (rule notI, drule arg_cong [of _ _ length]) (simp add: sample_env_def toLowerCase_def)
  from deploy_dao_v3_wrong_nonce [OF sample_accepting sample_settings(3) this] show ?thesis by simp
qed

end
