(* ===== verification/Deploy_Limits.thy ===== *)
theory Deploy_Limits
  imports Deploy_Props
begin

text \<open>
  The default parameters of the deployment tasks against the limits that the contracts impose in their
  constructors and \<open>initialize\<close> functions. The test tasks deploy variants of the contracts without
  these limits; \<open>deploy\<close>, \<open>deploy-local\<close> and \<open>deploy-local-dao-v3\<close> deploy the contracts themselves.
\<close>

section \<open>Defaults\<close>

text \<open>\<open>Math.round(days * 60 * 24 * (60 / 13))\<close>.\<close>

definition blocks_13s :: "int \<Rightarrow> int" where
  "blocks_13s days = (2 * (days * 60 * 24 * 60) + 13) div 26"

text \<open>A parameter that a task does not have is zero; its table does not use it.\<close>

definition deploy_defaults :: deploy_args where
  "deploy_defaults = \<lparr>da_weth = None, da_noundersdao = None, da_auctionTimeBuffer = 5 * 60, da_auctionReservePrice = 1,
     da_auctionMinIncrementBidPercentage = 2, da_auctionDuration = 60 * 60 * 24, da_timelockDelay = 60 * 60 * 24 * 2,
     da_votingPeriod = blocks_13s 4, da_votingDelay = blocks_13s 3, da_proposalThresholdBps = 100,
     da_quorumVotesBps = 1000, da_minQuorumVotesBPS = 0, da_maxQuorumVotesBPS = 0, da_quorumCoefficient = 0,
     da_createCandidateCost = 0, da_updateCandidateCost = 0\<rparr>"

definition deploy_short_times_daov1_defaults :: deploy_args where
  "deploy_short_times_daov1_defaults = \<lparr>da_weth = None, da_noundersdao = None, da_auctionTimeBuffer = 30,
     da_auctionReservePrice = 1, da_auctionMinIncrementBidPercentage = 2, da_auctionDuration = 60 * 2, da_timelockDelay = 60,
     da_votingPeriod = 80, da_votingDelay = 1, da_proposalThresholdBps = 100,
     da_quorumVotesBps = 1000, da_minQuorumVotesBPS = 0, da_maxQuorumVotesBPS = 0, da_quorumCoefficient = 0,
     da_createCandidateCost = 0, da_updateCandidateCost = 0\<rparr>"

definition deploy_short_times_defaults :: deploy_args where
  "deploy_short_times_defaults = deploy_short_times_daov1_defaults\<lparr>da_quorumVotesBps := 0,
     da_minQuorumVotesBPS := 1000, da_maxQuorumVotesBPS := 4000, da_quorumCoefficient := 1000000\<rparr>"

definition deploy_short_times_dao_v3_defaults :: deploy_args where
  "deploy_short_times_dao_v3_defaults = deploy_short_times_defaults\<lparr>da_createCandidateCost := 100000000000000,
     da_updateCandidateCost := 0\<rparr>"

definition deploy_dao_v3_defaults :: deploy_args where
  "deploy_dao_v3_defaults = \<lparr>da_weth = None, da_noundersdao = None, da_auctionTimeBuffer = 5 * 60, da_auctionReservePrice = 1,
     da_auctionMinIncrementBidPercentage = 2, da_auctionDuration = 60 * 60 * 24, da_timelockDelay = 60 * 60 * 24 * 2,
     da_votingPeriod = blocks_13s 4, da_votingDelay = blocks_13s 3, da_proposalThresholdBps = 100,
     da_quorumVotesBps = 0, da_minQuorumVotesBPS = 1000, da_maxQuorumVotesBPS = 1500, da_quorumCoefficient = 1000000,
     da_createCandidateCost = 100000000000000, da_updateCandidateCost = 0\<rparr>"

definition deploy_local_defaults :: deploy_args where
  "deploy_local_defaults = \<lparr>da_weth = None, da_noundersdao = None, da_auctionTimeBuffer = 30, da_auctionReservePrice = 1,
     da_auctionMinIncrementBidPercentage = 5, da_auctionDuration = 60 * 2, da_timelockDelay = 60 * 60 * 24 * 2,
     da_votingPeriod = 4 * 60 * 24 * 3, da_votingDelay = 1, da_proposalThresholdBps = 500,
     da_quorumVotesBps = 0, da_minQuorumVotesBPS = 1000, da_maxQuorumVotesBPS = 4000, da_quorumCoefficient = 1000000,
     da_createCandidateCost = 0, da_updateCandidateCost = 0\<rparr>"

definition deploy_local_dao_v3_defaults :: deploy_args where
  "deploy_local_dao_v3_defaults = deploy_local_defaults\<lparr>da_votingDelay := 100,
     da_createCandidateCost := 100000000000000, da_updateCandidateCost := 0\<rparr>"

section \<open>Limits of the contracts\<close>

definition address_zero :: string where
  "address_zero = ''0x0000000000000000000000000000000000000000''"

definition executor_limits :: "int \<Rightarrow> bool" where
  "executor_limits delay \<longleftrightarrow> 2 * 86400 \<le> delay \<and> delay \<le> 30 * 86400"

definition logic_v1_limits :: "int \<Rightarrow> int \<Rightarrow> int \<Rightarrow> int \<Rightarrow> bool" where
  "logic_v1_limits votingPeriod votingDelay proposalThresholdBPS quorumVotesBPS \<longleftrightarrow>
     5760 \<le> votingPeriod \<and> votingPeriod \<le> 80640 \<and> 1 \<le> votingDelay \<and> votingDelay \<le> 40320 \<and>
     1 \<le> proposalThresholdBPS \<and> proposalThresholdBPS \<le> 1000 \<and> 200 \<le> quorumVotesBPS \<and> quorumVotesBPS \<le> 2000"

definition quorum_limits :: "int \<Rightarrow> int \<Rightarrow> bool" where
  "quorum_limits minQuorumVotesBPS maxQuorumVotesBPS \<longleftrightarrow>
     200 \<le> minQuorumVotesBPS \<and> minQuorumVotesBPS \<le> 2000 \<and> maxQuorumVotesBPS \<le> 6000 \<and> minQuorumVotesBPS \<le> maxQuorumVotesBPS"

definition logic_v2_limits :: "int \<Rightarrow> int \<Rightarrow> int \<Rightarrow> int \<Rightarrow> int \<Rightarrow> bool" where
  "logic_v2_limits votingPeriod votingDelay proposalThresholdBPS minQuorumVotesBPS maxQuorumVotesBPS \<longleftrightarrow>
     5760 \<le> votingPeriod \<and> votingPeriod \<le> 80640 \<and> 1 \<le> votingDelay \<and> votingDelay \<le> 40320 \<and>
     1 \<le> proposalThresholdBPS \<and> proposalThresholdBPS \<le> 1000 \<and> quorum_limits minQuorumVotesBPS maxQuorumVotesBPS"

definition logic_v3_limits :: "int \<Rightarrow> int \<Rightarrow> int \<Rightarrow> int \<Rightarrow> int \<Rightarrow> int \<Rightarrow> int \<Rightarrow> bool" where
  "logic_v3_limits votingPeriod votingDelay proposalThresholdBPS objectionPeriod updatablePeriod
     minQuorumVotesBPS maxQuorumVotesBPS \<longleftrightarrow>
     86400 div 12 \<le> votingPeriod \<and> votingPeriod \<le> 14 * 86400 div 12 \<and> 1 \<le> votingDelay \<and> votingDelay \<le> 14 * 86400 div 12 \<and>
     1 \<le> proposalThresholdBPS \<and> proposalThresholdBPS \<le> 1000 \<and> quorum_limits minQuorumVotesBPS maxQuorumVotesBPS \<and>
     objectionPeriod \<le> 7 * 86400 div 12 \<and> updatablePeriod \<le> 7 * 86400 div 12"

definition param :: "(string \<times> int) list \<Rightarrow> string \<Rightarrow> int" where
  "param ps n = (case map_of ps n of None \<Rightarrow> 0 | Some v \<Rightarrow> v)"

text \<open>The checks that the transaction which creates a contract makes on its parameters.\<close>

fun contract_accepts :: "string \<Rightarrow> deploy_value list \<Rightarrow> bool" where
  "contract_accepts name args =
    (if name = ''NounsDAOExecutor'' then (case args of [admin, VInt delay] \<Rightarrow> executor_limits delay | _ \<Rightarrow> False)
     else if name = ''NounsDAOExecutorProxy'' then
       (case args of [logic, VCall [admin, VInt delay]] \<Rightarrow> executor_limits delay | _ \<Rightarrow> False)
     else if name = ''NounsDAOProxy'' then
       (case args of [VText timelock, VText nouns, vetoer, admin, implementation, VInt period, VInt delay, VInt threshold, VInt quorum] \<Rightarrow>
          timelock \<noteq> address_zero \<and> nouns \<noteq> address_zero \<and> logic_v1_limits period delay threshold quorum
        | _ \<Rightarrow> False)
     else if name = ''NounsDAOProxyV2'' then
       (case args of [VText timelock, VText nouns, vetoer, admin, implementation, VInt period, VInt delay, VInt threshold, VParams q] \<Rightarrow>
          timelock \<noteq> address_zero \<and> nouns \<noteq> address_zero \<and>
          logic_v2_limits period delay threshold (param q ''minQuorumVotesBPS'') (param q ''maxQuorumVotesBPS'')
        | _ \<Rightarrow> False)
     else if name = ''NounsDAOProxyV3'' then
       (case args of [VText timelock, VText nouns, escrow, deployer, vetoer, admin, implementation, VParams p, VParams q] \<Rightarrow>
          timelock \<noteq> address_zero \<and> nouns \<noteq> address_zero \<and>
          logic_v3_limits (param p ''votingPeriod'') (param p ''votingDelay'') (param p ''proposalThresholdBPS'')
            (param p ''objectionPeriodDurationInBlocks'') (param p ''proposalUpdatablePeriodInBlocks'')
            (param q ''minQuorumVotesBPS'') (param q ''maxQuorumVotesBPS'')
        | _ \<Rightarrow> False)
     else True)"

declare contract_accepts.simps [simp del]

section \<open>Which parameters a task can deploy\<close>

text \<open>A network that refuses only what the contracts refuse, with no contract at address zero.\<close>

definition strict_env :: "deploy_env \<Rightarrow> bool" where
  "strict_env env \<longleftrightarrow> en_accepts env = contract_accepts \<and> (\<forall>n. en_create env (en_deployer env) n \<noteq> address_zero)"

lemma strict_taken: "strict_env env \<Longrightarrow> taken env f c = contract_accepts (cd_name c) (map (link f) (cd_args c))"
  by (simp add: strict_env_def taken_def)

lemma strict_address [simp]: "strict_env env \<Longrightarrow> task_address env cs nonce n \<noteq> address_zero"
  by (simp add: strict_env_def task_address_def)

text \<open>The first contract of a table that refuses the parameters.\<close>

definition v1_refusal :: "deploy_args \<Rightarrow> string option" where
  "v1_refusal a =
     (if \<not> executor_limits (da_timelockDelay a) then Some ''NounsDAOExecutor''
      else if \<not> logic_v1_limits (da_votingPeriod a) (da_votingDelay a) (da_proposalThresholdBps a) (da_quorumVotesBps a)
      then Some ''NounsDAOProxy'' else None)"

definition v2_refusal :: "deploy_args \<Rightarrow> string option" where
  "v2_refusal a =
     (if \<not> executor_limits (da_timelockDelay a) then Some ''NounsDAOExecutor''
      else if \<not> logic_v2_limits (da_votingPeriod a) (da_votingDelay a) (da_proposalThresholdBps a)
             (da_minQuorumVotesBPS a) (da_maxQuorumVotesBPS a)
      then Some ''NounsDAOProxyV2'' else None)"

definition v3_refusal :: "deploy_args \<Rightarrow> string option" where
  "v3_refusal a =
     (if \<not> executor_limits (da_timelockDelay a) then Some ''NounsDAOExecutorProxy''
      else if \<not> logic_v3_limits (da_votingPeriod a) (da_votingDelay a) (da_proposalThresholdBps a) 0 0
             (da_minQuorumVotesBPS a) (da_maxQuorumVotesBPS a)
      then Some ''NounsDAOProxyV3'' else None)"

lemma first_refusal:
  assumes "strict_env env" "\<And>n. f n \<noteq> address_zero"
  shows "map_option cd_name (find (\<lambda>c. \<not> taken env f c) (deploy_contracts d)) = v1_refusal (ds_args d)"
    "map_option cd_name (find (\<lambda>c. \<not> taken env f c) (local_contracts d)) = v2_refusal (ds_args d)"
    "map_option cd_name (find (\<lambda>c. \<not> taken env f c) (local_v3_contracts d)) = v3_refusal (ds_args d)"
  using assms(2)
  by (simp_all add: strict_taken [OF assms(1)] deploy_tables contract_accepts.simps Let_def v1_refusal_def v2_refusal_def
      v3_refusal_def quorum_params_def dao_params_def param_def)

definition refused_at :: "string option \<Rightarrow> (deploy_error + deployment option) \<Rightarrow> bool" where
  "refused_at refusal result =
     (case refusal of None \<Rightarrow> \<exists>dep. result = Inr (Some dep) | Some name \<Rightarrow> result = Inl (NotAccepted name))"

lemma task_links_refused:
  "task_links env cs nonce result \<Longrightarrow>
   refused_at (map_option cd_name (find (\<lambda>c. \<not> taken env (task_address env cs nonce) c) cs)) result"
  by (auto simp: task_links_def refused_at_def split: option.splits)

lemma setting_args:
  "setting_of env r w args = Inr d \<Longrightarrow> ds_args d = args"
  "ds_args (local_setting env args) = args"
  by (auto simp: setting_of_def local_setting_def Let_def split: if_splits option.splits)

lemma tasks_refused:
  assumes "strict_env env"
  shows "setting_of env proxyRegistries wethContracts args = Inr d \<Longrightarrow> refused_at (v1_refusal args) (deploy_task env args nonce)"
    "en_chainId env = 31337 \<Longrightarrow> refused_at (v2_refusal args) (deploy_local env args nonce)"
    "en_chainId env = 31337 \<Longrightarrow> refused_at (v3_refusal args) (deploy_local_dao_v3 env args nonce)"
proof -
  note first = first_refusal [OF assms strict_address [OF assms]]
  show "setting_of env proxyRegistries wethContracts args = Inr d \<Longrightarrow> refused_at (v1_refusal args) (deploy_task env args nonce)"
    using offsets_links(1) [OF tables_ok(1) [of d], of env nonce "\<lambda>n. n", THEN task_links_refused]
    by (simp add: first setting_args deploy_task_def)
  show "en_chainId env = 31337 \<Longrightarrow> refused_at (v2_refusal args) (deploy_local env args nonce)"
    using tasks_link_local(1) [of env args nonce, THEN task_links_refused] by (simp add: first setting_args)
  show "en_chainId env = 31337 \<Longrightarrow> refused_at (v3_refusal args) (deploy_local_dao_v3 env args nonce)"
    using tasks_link_local(2) [of env args nonce, THEN task_links_refused] by (simp add: first setting_args)
qed

text \<open>
  On a network that refuses only what the contracts refuse, the tasks deploy, deploy-local and
  deploy-local-dao-v3 deploy everything exactly when the parameters are within the limits of the
  timelock and of the governor; otherwise they stop at the first of the two that refuses, the other
  errors being impossible.
\<close>

theorem parameters_checked:
  assumes "strict_env env" "setting_of env proxyRegistries wethContracts args = Inr d" "en_chainId env = 31337"
  shows "refused_at (v1_refusal args) (deploy_task env args nonce) \<and>
    refused_at (v2_refusal args) (deploy_local env args nonce) \<and>
    refused_at (v3_refusal args) (deploy_local_dao_v3 env args nonce)"
  using tasks_refused [OF assms(1)] assms(2,3) by blast

definition strict_sample :: deploy_env where
  "strict_sample = sample_env\<lparr>en_accepts := contract_accepts\<rparr>"

lemma strict_sample [simp]: "strict_env strict_sample" "en_chainId strict_sample = 31337"
  by (simp_all add: strict_env_def strict_sample_def sample_env_def address_zero_def)

theorem parameters_checked_witness:
  "\<exists>dep. deploy_task strict_sample (deploy_defaults\<lparr>da_weth := Some ''0xw''\<rparr>) 7 = Inr (Some dep)"
proof -
  have "\<exists>d. setting_of strict_sample proxyRegistries wethContracts (deploy_defaults\<lparr>da_weth := Some ''0xw''\<rparr>) = Inr d"
    by (simp add: setting_of_def Let_def truthy_def deploy_defaults_def)
  then show ?thesis
    using parameters_checked [OF strict_sample(1) _ strict_sample(2), of "deploy_defaults\<lparr>da_weth := Some ''0xw''\<rparr>" _ 7]
    by (auto simp: refused_at_def v1_refusal_def deploy_defaults_def executor_limits_def logic_v1_limits_def blocks_13s_def)
qed

text \<open>
  The defaults of the three tasks that deploy the contracts themselves are within the limits: the
  tasks succeed with them on any chain with a known WETH contract, and on the local chain. Those of
  the test tasks are not, which is why these deploy variants of the contracts.
\<close>

theorem defaults_deploy:
  assumes "strict_env env"
  shows "(map_of wethContracts (en_chainId env) \<noteq> None \<longrightarrow> (\<exists>dep. deploy_task env deploy_defaults nonce = Inr (Some dep))) \<and>
    (en_chainId env = 31337 \<longrightarrow> (\<exists>dep. deploy_local env deploy_local_defaults nonce = Inr (Some dep)) \<and>
      (\<exists>dep. deploy_local_dao_v3 env deploy_local_dao_v3_defaults nonce = Inr (Some dep))) \<and>
    v1_refusal deploy_short_times_daov1_defaults \<noteq> None \<and> v2_refusal deploy_short_times_defaults \<noteq> None \<and>
    v3_refusal deploy_short_times_dao_v3_defaults \<noteq> None \<and> v3_refusal deploy_dao_v3_defaults = None"
proof -
  note limits = v1_refusal_def v2_refusal_def v3_refusal_def executor_limits_def logic_v1_limits_def logic_v2_limits_def
    logic_v3_limits_def quorum_limits_def blocks_13s_def deploy_defaults_def deploy_local_defaults_def
    deploy_local_dao_v3_defaults_def deploy_short_times_daov1_defaults_def deploy_short_times_defaults_def
    deploy_short_times_dao_v3_defaults_def deploy_dao_v3_defaults_def
  have none: "v1_refusal deploy_defaults = None" "v2_refusal deploy_local_defaults = None"
      "v3_refusal deploy_local_dao_v3_defaults = None"
    by (simp_all add: limits)
  have "map_of wethContracts (en_chainId env) \<noteq> None \<Longrightarrow>
      \<exists>d. setting_of env proxyRegistries wethContracts deploy_defaults = Inr d"
    by (auto simp: setting_of_def Let_def truthy_def deploy_defaults_def)
  moreover have "v1_refusal deploy_short_times_daov1_defaults \<noteq> None" "v2_refusal deploy_short_times_defaults \<noteq> None"
    "v3_refusal deploy_short_times_dao_v3_defaults \<noteq> None" "v3_refusal deploy_dao_v3_defaults = None"
    by (simp_all add: limits)
  ultimately show ?thesis
    using tasks_refused [OF assms, of deploy_defaults] tasks_refused(2) [OF assms, of deploy_local_defaults nonce]
      tasks_refused(3) [OF assms, of deploy_local_dao_v3_defaults nonce]
    by (auto simp: refused_at_def none)
qed

theorem defaults_deploy_witness:
  "strict_env strict_sample \<and> (\<exists>dep. deploy_local strict_sample deploy_local_defaults 0 = Inr (Some dep))"
  using defaults_deploy [OF strict_sample(1), of 0] by simp

end
