(* ===== verification/Bots_Model.thy ===== *)
theory Bots_Model
  imports Webapp_State Webapp_Dao
begin

text \<open>
  The notification bots (\<open>packages/nouns-bots/src\<close>): the Redis cache (\<open>cache.ts\<close>), the texts
  (\<open>utils.ts\<close>, \<open>utils/proposals.ts\<close>), the Twitter and Discord handlers (\<open>handlers/\<close>) and the two
  timers that poll the indexer (\<open>index.ts\<close>).

  The answers of the services are parameters of every tick (\<open>bot_env\<close>): each of them may fail, and a
  rejected promise ends the tick at the \<open>await\<close> that meets it, with the cache as it is then.
  A tick is modelled as a function from the cache to the new cache, the handler rounds it started,
  the messages that went out, and whether it ended without a rejection. Identifiers and times are the
  numbers that their decimal texts denote. Non-ASCII characters stand as their UTF-8 bytes.
\<close>

section \<open>Types\<close>

record bot_bid =
  bb_id :: string
  bb_amount :: string
  bb_bidder :: string

record AuctionBids =
  ab_id :: int
  ab_endTime :: int
  ab_bids :: "bot_bid list"

datatype VoteDirection = AGAINST | FOR | ABSTAIN

record bot_vote =
  bt_id :: string
  bt_voter :: string
  bt_votes :: int
  bt_supportDetailed :: VoteDirection
  bt_reason :: "string option"

record bot_proposal =
  bp_id :: int
  bp_proposer :: string
  bp_description :: string
  bp_status :: string
  bp_quorumVotes :: int
  bp_proposalThreshold :: int
  bp_startBlock :: int
  bp_endBlock :: int
  bp_executionETA :: int
  bp_votes :: "bot_vote list"

section \<open>The cache\<close>

text \<open>
  Redis maps text keys to texts. Every key family is a field of the record; \<open>cache_keys_distinct\<close>
  shows that no two of them share a key. A number or a JSON document is read back as it was written.
\<close>

definition getAuctionCacheKey :: string where "getAuctionCacheKey = ''NOUNS_AUCTION_CACHE''"
definition getBidCacheKey :: string where "getBidCacheKey = ''NOUNS_BID_CACHE''"
definition getReplyTweetIdKey :: string where "getReplyTweetIdKey = ''NOUNS_REPLY_TWEET_ID''"
definition getAuctionEndingSoonCacheKey :: string where
  "getAuctionEndingSoonCacheKey = ''NOUNS_AUCTION_ENDING_SOON_CACHE''"
definition getProposalCacheKeyPrefix :: string where "getProposalCacheKeyPrefix = ''NOUNS_PROPOSAL_''"
definition getProposalExpiryWarningSentCacheKeyPrefix :: string where
  "getProposalExpiryWarningSentCacheKeyPrefix = ''NOUNS_PROPOSAL_EXPIRY_WARNING_SENT_''"

definition proposalCacheKey :: "int \<Rightarrow> string" where
  "proposalCacheKey i = getProposalCacheKeyPrefix @ int_to_string i"

definition proposalExpiryWarningSentCacheKey :: "int \<Rightarrow> string" where
  "proposalExpiryWarningSentCacheKey i = getProposalExpiryWarningSentCacheKeyPrefix @ int_to_string i"

record bot_cache =
  ca_auction :: "int option"
  ca_bid :: "string option"
  ca_replyTweetId :: "string option"
  ca_endingSoon :: "int option"
  ca_proposal :: "int \<rightharpoonup> bot_proposal"
  ca_warned :: "int set"

definition updateAuctionCache :: "int \<Rightarrow> bot_cache \<Rightarrow> bot_cache" where
  "updateAuctionCache i c = c\<lparr>ca_auction := Some i\<rparr>"

definition getBidCache :: "bot_cache \<Rightarrow> string" where
  "getBidCache c = (case ca_bid c of None \<Rightarrow> [] | Some i \<Rightarrow> i)"

definition updateBidCache :: "string \<Rightarrow> bot_cache \<Rightarrow> bot_cache" where
  "updateBidCache i c = c\<lparr>ca_bid := Some i\<rparr>"

definition getAuctionReplyTweetId :: "bot_cache \<Rightarrow> string option" where
  "getAuctionReplyTweetId c = ca_replyTweetId c"

definition updateAuctionReplyTweetId :: "string \<Rightarrow> bot_cache \<Rightarrow> bot_cache" where
  "updateAuctionReplyTweetId i c = c\<lparr>ca_replyTweetId := Some i\<rparr>"

definition getAuctionEndingSoonCache :: "bot_cache \<Rightarrow> int" where
  "getAuctionEndingSoonCache c = (case ca_endingSoon c of None \<Rightarrow> 0 | Some i \<Rightarrow> i)"

definition updateAuctionEndingSoonCache :: "int \<Rightarrow> bot_cache \<Rightarrow> bot_cache" where
  "updateAuctionEndingSoonCache i c = c\<lparr>ca_endingSoon := Some i\<rparr>"

definition getAuctionCache :: "bot_cache \<Rightarrow> int" where
  "getAuctionCache c = (case ca_auction c of None \<Rightarrow> 0 | Some i \<Rightarrow> i)"

definition updateProposalCache :: "bot_proposal \<Rightarrow> bot_cache \<Rightarrow> bot_cache" where
  "updateProposalCache p c = c\<lparr>ca_proposal := (ca_proposal c)(bp_id p \<mapsto> p)\<rparr>"

definition getProposalCache :: "int \<Rightarrow> bot_cache \<Rightarrow> bot_proposal option" where
  "getProposalCache i c = ca_proposal c i"

definition setProposalExpiryWarningSent :: "int \<Rightarrow> bot_cache \<Rightarrow> bot_cache" where
  "setProposalExpiryWarningSent i c = c\<lparr>ca_warned := insert i (ca_warned c)\<rparr>"

definition hasWarnedOfExpiry :: "int \<Rightarrow> bot_cache \<Rightarrow> bool" where
  "hasWarnedOfExpiry i c = (i \<in> ca_warned c)"

section \<open>Texts\<close>

text \<open>\<open>substr\<close> with a start that may be negative.\<close>

definition js_substr_from :: "string \<Rightarrow> int \<Rightarrow> string" where
  "js_substr_from s start = drop (nat (if start < 0 then max 0 (int (length s) + start) else start)) s"

definition shortAddress :: "string \<Rightarrow> string" where
  "shortAddress address = take 4 address @ ''...'' @ js_substr_from address (int (length address) - 4)"

fun voteDirectionToText :: "VoteDirection \<Rightarrow> string" where
  "voteDirectionToText FOR = ''for''"
| "voteDirectionToText AGAINST = ''against''"
| "voteDirectionToText ABSTAIN = ''to abstain on''"

definition SECONDS_IN_DAY :: int where "SECONDS_IN_DAY = 60 * 60 * 24"

definition extractNewVotes :: "bot_proposal \<Rightarrow> bot_proposal \<Rightarrow> bot_vote list" where
  "extractNewVotes proposalBefore proposalAfter =
     (let previousStateVoteIds = map bt_id (bp_votes proposalBefore)
      in filter (\<lambda>vote. bt_id vote \<notin> set previousStateVoteIds \<and> bt_votes vote > 0) (bp_votes proposalAfter))"

definition extractProposalTitle :: "bot_proposal \<Rightarrow> string" where
  "extractProposalTitle proposal =
     (case js_split [CHR 0x0A] (bp_description proposal) of
        line # _ \<Rightarrow> (case line of c # rest \<Rightarrow> if c = CHR ''#'' then dropWhile is_space rest else line | [] \<Rightarrow> [])
      | [] \<Rightarrow> [])"

definition isAtRiskOfExpiry :: "int \<Rightarrow> bot_proposal \<Rightarrow> bool" where
  "isAtRiskOfExpiry now_ms proposal =
     (if bp_status proposal \<noteq> ''QUEUED'' then False
      else let expiresAt = bp_executionETA proposal + SECONDS_IN_DAY * 14;
               currentTimestamp = now_ms div 1000;
               secondsUntilExpiry = expiresAt - currentTimestamp
           in secondsUntilExpiry > 0 \<and> secondsUntilExpiry \<le> SECONDS_IN_DAY * 2)"

definition star :: string where "star = [CHR 0xEF, CHR 0xBC, CHR 0x8A]"
definition ether_sign :: string where "ether_sign = [CHR 0xCE, CHR 0x9E]"
definition nl :: string where "nl = [CHR 0x0A]"

definition formatAuctionStartedTweetText :: "int \<Rightarrow> string" where
  "formatAuctionStartedTweetText auctionId =
     star @ ''Bleep Bloop Blop'' @ star @ nl @ ''        '' @ nl @
     '' An auction has started for Noun #'' @ int_to_string auctionId @ nl @
     '' Learn more at https://nouns.wtf''"

definition getAuctionEndingSoonTweetText :: string where
  "getAuctionEndingSoonTweetText = ''This auction is ending soon! Bid now at https://nouns.wtf''"

definition formatNewGovernanceProposalText :: "bot_proposal \<Rightarrow> string" where
  "formatNewGovernanceProposalText proposal =
     ''A new NounsDAO proposal (#'' @ int_to_string (bp_id proposal) @ '') has been created: '' @
     extractProposalTitle proposal"

definition formatUpdatedGovernanceProposalStatusText :: "bot_proposal \<Rightarrow> string" where
  "formatUpdatedGovernanceProposalStatusText proposal =
     ''Nouns DAO proposal #'' @ int_to_string (bp_id proposal) @ '' ('' @ extractProposalTitle proposal @
     '') has changed to status: '' @ toLowerCase (bp_status proposal)"

definition formatProposalAtRiskOfExpiryText :: "bot_proposal \<Rightarrow> string" where
  "formatProposalAtRiskOfExpiryText proposal =
     ''Nouns DAO proposal #'' @ int_to_string (bp_id proposal) @ '' ('' @ extractProposalTitle proposal @
     '') expires in less than two days. Please execute it immediately!''"

section \<open>The services\<close>

text \<open>
  What the services answer during one tick, \<open>None\<close> for a rejection: the name of an address
  (\<open>lookupAddress\<close>), \<open>formatEther\<close>, whether an image of a Noun is available, the identifiers of an
  uploaded image and of a tweet, and whether a webhook accepts a message.
\<close>

record embed =
  em_title :: string
  em_url :: string
  em_description :: string
  em_fields :: "(string \<times> int) list"
  em_image :: "string option"

record bot_env =
  bv_now_ms :: int
  bv_lookupAddress :: "string \<Rightarrow> string option option"
  bv_formatEther :: "string \<Rightarrow> string option"
  bv_png :: "int \<Rightarrow> bool option"
  bv_uploadMedia :: "int \<Rightarrow> string option"
  bv_tweet :: "string \<Rightarrow> string \<Rightarrow> string option"
  bv_reply :: "string \<Rightarrow> string \<Rightarrow> string option"
  bv_send :: "nat \<Rightarrow> embed \<Rightarrow> bool"

definition resolveEnsOrFormatAddress :: "bot_env \<Rightarrow> string \<Rightarrow> string option" where
  "resolveEnsOrFormatAddress env address =
     (case bv_lookupAddress env address of
        None \<Rightarrow> None
      | Some None \<Rightarrow> Some (shortAddress address)
      | Some (Some name) \<Rightarrow> Some (if name = [] then shortAddress address else name))"

definition formatBidMessageText :: "bot_env \<Rightarrow> int \<Rightarrow> bot_bid \<Rightarrow> string option" where
  "formatBidMessageText env i bid =
     (case resolveEnsOrFormatAddress env (bb_bidder bid) of
        None \<Rightarrow> None
      | Some bidder \<Rightarrow> map_option (\<lambda>amount. ''Noun '' @ int_to_string i @ '' has received a bid of '' @
            ether_sign @ amount @ '' from '' @ bidder) (bv_formatEther env (bb_amount bid)))"

definition formatNewGovernanceVoteText :: "bot_env \<Rightarrow> bot_proposal \<Rightarrow> bot_vote \<Rightarrow> string option" where
  "formatNewGovernanceVoteText env proposal vote =
     map_option (\<lambda>voter. voter @ '' has voted '' @ voteDirectionToText (bt_supportDetailed vote) @
         '' Proposal #'' @ int_to_string (bp_id proposal) @ '' ('' @ extractProposalTitle proposal @ '')'' @
         (case bt_reason vote of
            None \<Rightarrow> []
          | Some reason \<Rightarrow> if reason = [] then [] else nl @ nl @ ''Reason: '' @ reason))
       (resolveEnsOrFormatAddress env (bt_voter vote))"

section \<open>Handlers\<close>

text \<open>
  A message that went out. Discord has two webhooks, the internal one (0) and the public one (1). The
  time stamp that Discord shows with a message is left out.
\<close>

datatype post =
    Tweet string string
  | Reply string string
  | Webhook nat embed

type_synonym 'a attempt = "bot_cache \<times> 'a list \<times> bool"

definition twitter_handleNewAuction :: "bot_env \<Rightarrow> int \<Rightarrow> bot_cache \<Rightarrow> post attempt" where
  "twitter_handleNewAuction env auctionId c =
     (case bv_png env auctionId of
        None \<Rightarrow> (c, [], False)
      | Some False \<Rightarrow> (c, [], True)
      | Some True \<Rightarrow>
          (case bv_uploadMedia env auctionId of
             None \<Rightarrow> (c, [], False)
           | Some mediaId \<Rightarrow>
               let text = formatAuctionStartedTweetText auctionId
               in case bv_tweet env text mediaId of
                    None \<Rightarrow> (c, [], False)
                  | Some id_str \<Rightarrow> (updateAuctionReplyTweetId id_str c, [Tweet text mediaId], True)))"

definition twitter_reply :: "bot_env \<Rightarrow> string option \<Rightarrow> bot_cache \<Rightarrow> post attempt" where
  "twitter_reply env text c =
     (case getAuctionReplyTweetId c of
        None \<Rightarrow> (c, [], True)
      | Some tweetReplyId \<Rightarrow>
          if tweetReplyId = [] then (c, [], True)
          else case text of
            None \<Rightarrow> (c, [], False)
          | Some text' \<Rightarrow>
              (case bv_reply env text' tweetReplyId of
                 None \<Rightarrow> (c, [], False)
               | Some id_str \<Rightarrow> (updateAuctionReplyTweetId id_str c, [Reply text' tweetReplyId], True)))"

definition twitter_handleNewBid :: "bot_env \<Rightarrow> int \<Rightarrow> bot_bid \<Rightarrow> bot_cache \<Rightarrow> post attempt" where
  "twitter_handleNewBid env auctionId bid c = twitter_reply env (formatBidMessageText env auctionId bid) c"

definition twitter_handleAuctionEndingSoon :: "bot_env \<Rightarrow> int \<Rightarrow> bot_cache \<Rightarrow> post attempt" where
  "twitter_handleAuctionEndingSoon env auctionId c = twitter_reply env (Some getAuctionEndingSoonTweetText) c"

definition discord_send :: "bot_env \<Rightarrow> embed \<Rightarrow> bot_cache \<Rightarrow> post attempt" where
  "discord_send env message c =
     (c, map (\<lambda>k. Webhook k message) (filter (\<lambda>k. bv_send env k message) [0, 1]),
      list_all (\<lambda>k. bv_send env k message) [0, 1])"

definition vote_url :: "bot_proposal \<Rightarrow> string" where
  "vote_url proposal = ''https://nouns.wtf/vote/'' @ int_to_string (bp_id proposal)"

definition text_embed :: "string \<Rightarrow> string \<Rightarrow> string \<Rightarrow> embed" where
  "text_embed title url description =
     \<lparr>em_title = title, em_url = url, em_description = description, em_fields = [], em_image = None\<rparr>"

definition discord_handleNewAuction :: "bot_env \<Rightarrow> int \<Rightarrow> bot_cache \<Rightarrow> post attempt" where
  "discord_handleNewAuction env auctionId c =
     (case bv_png env auctionId of
        None \<Rightarrow> (c, [], False)
      | Some False \<Rightarrow> (c, [], True)
      | Some True \<Rightarrow> discord_send env
          \<lparr>em_title = ''New Auction Discovered'', em_url = ''https://nouns.wtf'',
           em_description = ''An auction has started for Noun #'' @ int_to_string auctionId,
           em_fields = [(''Noun ID'', auctionId)],
           em_image = Some (''attachment://Auction-'' @ int_to_string auctionId @ ''.png'')\<rparr> c)"

definition discord_handleNewBid :: "bot_env \<Rightarrow> int \<Rightarrow> bot_bid \<Rightarrow> bot_cache \<Rightarrow> post attempt" where
  "discord_handleNewBid env auctionId bid c =
     (case formatBidMessageText env auctionId bid of
        None \<Rightarrow> (c, [], False)
      | Some text \<Rightarrow> discord_send env (text_embed ''New Bid Placed'' ''https://nouns.wtf'' text) c)"

definition discord_handleNewProposal :: "bot_env \<Rightarrow> bot_proposal \<Rightarrow> bot_cache \<Rightarrow> post attempt" where
  "discord_handleNewProposal env proposal c =
     discord_send env (text_embed ''New Governance Proposal'' (vote_url proposal)
       (formatNewGovernanceProposalText proposal)) c"

definition discord_handleUpdatedProposalStatus :: "bot_env \<Rightarrow> bot_proposal \<Rightarrow> bot_cache \<Rightarrow> post attempt" where
  "discord_handleUpdatedProposalStatus env proposal c =
     discord_send env (text_embed ''Proposal Status Update'' (vote_url proposal)
       (formatUpdatedGovernanceProposalStatusText proposal)) c"

definition discord_handleProposalAtRiskOfExpiry :: "bot_env \<Rightarrow> bot_proposal \<Rightarrow> bot_cache \<Rightarrow> post attempt" where
  "discord_handleProposalAtRiskOfExpiry env proposal c =
     discord_send env (text_embed ''Proposal At-Risk of Expiry'' (vote_url proposal)
       (formatProposalAtRiskOfExpiryText proposal)) c"

definition discord_handleGovernanceVote :: "bot_env \<Rightarrow> bot_proposal \<Rightarrow> bot_vote \<Rightarrow> bot_cache \<Rightarrow> post attempt" where
  "discord_handleGovernanceVote env proposal vote c =
     (case formatNewGovernanceVoteText env proposal vote of
        None \<Rightarrow> (c, [], False)
      | Some text \<Rightarrow> discord_send env (text_embed ''New Proposal Vote'' (vote_url proposal) text) c)"

datatype notification =
    NewAuction int
  | NewBid int bot_bid
  | AuctionEndingSoon int
  | NewProposal bot_proposal
  | UpdatedProposalStatus bot_proposal
  | ProposalAtRiskOfExpiry bot_proposal
  | GovernanceVote bot_proposal bot_vote

datatype handler = Twitter | Discord

text \<open>A handler without the method of a notification does nothing (\<open>?.\<close>).\<close>

fun handle :: "bot_env \<Rightarrow> handler \<Rightarrow> notification \<Rightarrow> bot_cache \<Rightarrow> post attempt" where
  "handle env Twitter (NewAuction i) c = twitter_handleNewAuction env i c"
| "handle env Twitter (NewBid i bid) c = twitter_handleNewBid env i bid c"
| "handle env Twitter (AuctionEndingSoon i) c = twitter_handleAuctionEndingSoon env i c"
| "handle env Twitter _ c = (c, [], True)"
| "handle env Discord (NewAuction i) c = discord_handleNewAuction env i c"
| "handle env Discord (NewBid i bid) c = discord_handleNewBid env i bid c"
| "handle env Discord (AuctionEndingSoon i) c = (c, [], True)"
| "handle env Discord (NewProposal p) c = discord_handleNewProposal env p c"
| "handle env Discord (UpdatedProposalStatus p) c = discord_handleUpdatedProposalStatus env p c"
| "handle env Discord (ProposalAtRiskOfExpiry p) c = discord_handleProposalAtRiskOfExpiry env p c"
| "handle env Discord (GovernanceVote p v) c = discord_handleGovernanceVote env p v c"

definition auctionLifecycleHandlers :: "bool \<Rightarrow> bool \<Rightarrow> handler list" where
  "auctionLifecycleHandlers twitterEnabled discordEnabled =
     (if twitterEnabled then [Twitter] else []) @ (if discordEnabled then [Discord] else [])"

section \<open>Ticks\<close>

text \<open>
  The outcome of a part of a tick: the cache, the handler rounds that were started, the messages that
  went out, and whether no promise was rejected. \<open>round_of\<close> is \<open>Promise.all\<close> over the handlers: all of
  them run, and it rejects when one of them does.
\<close>

record outcome =
  oc_cache :: bot_cache
  oc_rounds :: "notification list"
  oc_posts :: "post list"
  oc_ok :: bool

fun run_handlers :: "bot_env \<Rightarrow> handler list \<Rightarrow> notification \<Rightarrow> bot_cache \<Rightarrow> post attempt" where
  "run_handlers env [] n c = (c, [], True)"
| "run_handlers env (h # hs) n c =
     (let (c1, posts1, ok1) = handle env h n c; (c2, posts2, ok2) = run_handlers env hs n c1
      in (c2, posts1 @ posts2, ok1 \<and> ok2))"

definition round_of :: "bot_env \<Rightarrow> handler list \<Rightarrow> notification \<Rightarrow> bot_cache \<Rightarrow> outcome" where
  "round_of env hs n c =
     (let (c', posts, ok) = run_handlers env hs n c
      in \<lparr>oc_cache = c', oc_rounds = [n], oc_posts = posts, oc_ok = ok\<rparr>)"

definition finished :: "bot_cache \<Rightarrow> outcome" where
  "finished c = \<lparr>oc_cache = c, oc_rounds = [], oc_posts = [], oc_ok = True\<rparr>"

definition rejected :: "bot_cache \<Rightarrow> outcome" where
  "rejected c = \<lparr>oc_cache = c, oc_rounds = [], oc_posts = [], oc_ok = False\<rparr>"

text \<open>\<open>await\<close>: what follows runs only when nothing was rejected before.\<close>

definition await_then :: "outcome \<Rightarrow> (bot_cache \<Rightarrow> outcome) \<Rightarrow> outcome" where
  "await_then r k =
     (if oc_ok r
      then let r' = k (oc_cache r)
           in \<lparr>oc_cache = oc_cache r', oc_rounds = oc_rounds r @ oc_rounds r', oc_posts = oc_posts r @ oc_posts r',
               oc_ok = oc_ok r'\<rparr>
      else r)"

text \<open>Without \<open>await\<close>: the rejection of the first part is not seen by what follows.\<close>

definition and_also :: "outcome \<Rightarrow> (bot_cache \<Rightarrow> outcome) \<Rightarrow> outcome" where
  "and_also r k =
     (let r' = k (oc_cache r)
      in \<lparr>oc_cache = oc_cache r', oc_rounds = oc_rounds r @ oc_rounds r', oc_posts = oc_posts r @ oc_posts r',
          oc_ok = oc_ok r'\<rparr>)"

definition setupAuction :: "AuctionBids option \<Rightarrow> bot_cache \<Rightarrow> outcome" where
  "setupAuction answer c =
     (case answer of None \<Rightarrow> rejected c | Some lastAuctionBids \<Rightarrow> finished (updateAuctionCache (ab_id lastAuctionBids) c))"

text \<open>\<open>~~(Date.now() / 1000)\<close>: the bitwise complement works on 32-bit integers.\<close>

definition tilde_seconds :: "int \<Rightarrow> int" where
  "tilde_seconds now_ms = sint (word_of_int (now_ms div 1000) :: i32)"

definition check_auction :: "bot_env \<Rightarrow> handler list \<Rightarrow> int \<Rightarrow> int \<Rightarrow> bot_cache \<Rightarrow> outcome" where
  "check_auction env hs cachedAuctionId lastAuctionId c =
     (if cachedAuctionId < lastAuctionId
      then round_of env hs (NewAuction lastAuctionId) (updateAuctionCache lastAuctionId c) else finished c)"

definition check_bid :: "bot_env \<Rightarrow> handler list \<Rightarrow> string \<Rightarrow> AuctionBids \<Rightarrow> bot_cache \<Rightarrow> outcome" where
  "check_bid env hs cachedBidId lastAuctionBids c =
     (case ab_bids lastAuctionBids of
        bid # _ \<Rightarrow> if cachedBidId \<noteq> bb_id bid
                   then round_of env hs (NewBid (ab_id lastAuctionBids) bid) (updateBidCache (bb_id bid) c) else finished c
      | [] \<Rightarrow> finished c)"

definition check_ending_soon :: "bot_env \<Rightarrow> handler list \<Rightarrow> int \<Rightarrow> AuctionBids \<Rightarrow> bot_cache \<Rightarrow> outcome" where
  "check_ending_soon env hs cachedAuctionEndingSoon lastAuctionBids c =
     (let secondsUntilAuctionEnds = ab_endTime lastAuctionBids - tilde_seconds (bv_now_ms env)
      in if secondsUntilAuctionEnds < 20 * 60 \<and> cachedAuctionEndingSoon < ab_id lastAuctionBids
         then round_of env hs (AuctionEndingSoon (ab_id lastAuctionBids))
                (updateAuctionEndingSoonCache (ab_id lastAuctionBids) c)
         else finished c)"

definition processAuctionTick :: "bot_env \<Rightarrow> handler list \<Rightarrow> AuctionBids option \<Rightarrow> bot_cache \<Rightarrow> outcome" where
  "processAuctionTick env hs answer c =
     (case answer of
        None \<Rightarrow> rejected c
      | Some lastAuctionBids \<Rightarrow>
          await_then (await_then
              (check_auction env hs (getAuctionCache c) (ab_id lastAuctionBids) c)
              (check_bid env hs (getBidCache c) lastAuctionBids))
            (check_ending_soon env hs (getAuctionEndingSoonCache c) lastAuctionBids))"

definition setupGovernance :: "bot_proposal list option \<Rightarrow> bot_cache \<Rightarrow> outcome" where
  "setupGovernance answer c =
     (case answer of None \<Rightarrow> rejected c | Some proposals \<Rightarrow> finished (fold updateProposalCache proposals c))"

text \<open>The votes are announced without \<open>await\<close> (\<open>R.map(async \<dots>)\<close>).\<close>

fun announce_votes :: "bot_env \<Rightarrow> handler list \<Rightarrow> bot_proposal \<Rightarrow> bot_vote list \<Rightarrow> bot_cache \<Rightarrow> outcome" where
  "announce_votes env hs proposal [] c = finished c"
| "announce_votes env hs proposal (newVote # votes) c =
     and_also (round_of env hs (GovernanceVote proposal newVote) c) (announce_votes env hs proposal votes)"

definition check_status :: "bot_env \<Rightarrow> handler list \<Rightarrow> bot_proposal \<Rightarrow> bot_proposal \<Rightarrow> bot_cache \<Rightarrow> outcome" where
  "check_status env hs cachedProposal proposal c =
     (if bp_status cachedProposal \<noteq> bp_status proposal
      then round_of env hs (UpdatedProposalStatus proposal) c else finished c)"

definition check_expiry :: "bot_env \<Rightarrow> handler list \<Rightarrow> bot_proposal \<Rightarrow> bot_cache \<Rightarrow> outcome" where
  "check_expiry env hs proposal c =
     (if isAtRiskOfExpiry (bv_now_ms env) proposal \<and> \<not> hasWarnedOfExpiry (bp_id proposal) c
      then await_then (round_of env hs (ProposalAtRiskOfExpiry proposal) c)
             (\<lambda>c. finished (setProposalExpiryWarningSent (bp_id proposal) c))
      else finished c)"

definition process_proposal :: "bot_env \<Rightarrow> handler list \<Rightarrow> bot_proposal \<Rightarrow> bot_cache \<Rightarrow> outcome" where
  "process_proposal env hs proposal c =
     await_then
       (case getProposalCache (bp_id proposal) c of
          None \<Rightarrow> round_of env hs (NewProposal proposal) c
        | Some cachedProposal \<Rightarrow>
            await_then (check_status env hs cachedProposal proposal c)
              (\<lambda>c. and_also (announce_votes env hs proposal (extractNewVotes cachedProposal proposal) c)
                            (check_expiry env hs proposal)))
       (\<lambda>c. finished (updateProposalCache proposal c))"

text \<open>
  The proposals are processed without \<open>await\<close>, each on its own; they are run in the order of the answer
  here (\<open>proposals_commute\<close> shows that for different proposals the order does not matter).
\<close>

fun process_proposals :: "bot_env \<Rightarrow> handler list \<Rightarrow> bot_proposal list \<Rightarrow> bot_cache \<Rightarrow> outcome" where
  "process_proposals env hs [] c = finished c"
| "process_proposals env hs (proposal # proposals) c =
     and_also (process_proposal env hs proposal c) (process_proposals env hs proposals)"

definition processGovernanceTick :: "bot_env \<Rightarrow> handler list \<Rightarrow> bot_proposal list option \<Rightarrow> bot_cache \<Rightarrow> outcome" where
  "processGovernanceTick env hs answer c =
     (case answer of None \<Rightarrow> rejected c | Some proposals \<Rightarrow> process_proposals env hs proposals c)"

end
