(* ===== verification/Bots_Props.thy ===== *)
theory Bots_Props
  imports Bots_Model
begin

text \<open>
  Properties of the notification bots: an auction is announced once whatever fails, the proposals of a
  tick do not interfere, every vote is announced once and a proposal at risk of expiry is warned of
  once, and when the warning comes relative to the contract's grace period.
\<close>

section \<open>Keys and cache\<close>

lemma cache_keys_distinct:
  "distinct [getAuctionCacheKey, getBidCacheKey, getReplyTweetIdKey, getAuctionEndingSoonCacheKey,
     proposalCacheKey i, proposalExpiryWarningSentCacheKey j]"
  "proposalCacheKey i = proposalCacheKey j \<longleftrightarrow> i = j"
  "proposalExpiryWarningSentCacheKey i = proposalExpiryWarningSentCacheKey j \<longleftrightarrow> i = j"
proof -
  have "hd (to_base 10 n) \<noteq> CHR ''E''" for n
    using to_base_all_decimal [of n] hd_in_set [OF to_base_nonempty, of 10 n]
    by (force simp: is_decimal_def digit_val_def)
  then have "hd (int_to_string i) \<noteq> CHR ''E''" by (simp add: int_to_string_def)
  then have "int_to_string i \<noteq> CHR ''E'' # s" for s by auto
  then show "distinct [getAuctionCacheKey, getBidCacheKey, getReplyTweetIdKey, getAuctionEndingSoonCacheKey,
     proposalCacheKey i, proposalExpiryWarningSentCacheKey j]"
    by (simp add: getAuctionCacheKey_def getBidCacheKey_def getReplyTweetIdKey_def getAuctionEndingSoonCacheKey_def
        proposalCacheKey_def proposalExpiryWarningSentCacheKey_def getProposalCacheKeyPrefix_def
        getProposalExpiryWarningSentCacheKeyPrefix_def)
qed (simp_all add: proposalCacheKey_def proposalExpiryWarningSentCacheKey_def int_to_string_inject)

text \<open>Handlers change nothing in the cache but the tweet to reply to.\<close>

lemma handle_keeps:
  "\<exists>r. fst (handle env h n c) = c\<lparr>ca_replyTweetId := r\<rparr>"
  by (cases "(env, h, n, c)" rule: handle.cases)
    (auto simp: twitter_handleNewAuction_def twitter_handleNewBid_def twitter_handleAuctionEndingSoon_def
      twitter_reply_def discord_handleNewAuction_def discord_handleNewBid_def discord_handleNewProposal_def
      discord_handleUpdatedProposalStatus_def discord_handleProposalAtRiskOfExpiry_def
      discord_handleGovernanceVote_def discord_send_def updateAuctionReplyTweetId_def Let_def
      intro: exI [of _ "ca_replyTweetId c"] split: option.splits bool.splits)

lemma run_handlers_keep:
  "\<exists>r. fst (run_handlers env hs n c) = c\<lparr>ca_replyTweetId := r\<rparr>"
proof (induction hs arbitrary: c)
  case (Cons h hs)
  obtain r where "fst (handle env h n c) = c\<lparr>ca_replyTweetId := r\<rparr>" using handle_keeps by blast
  moreover obtain r' where "fst (run_handlers env hs n (c\<lparr>ca_replyTweetId := r\<rparr>)) = c\<lparr>ca_replyTweetId := r'\<rparr>"
    using Cons.IH [of "c\<lparr>ca_replyTweetId := r\<rparr>"] by auto
  ultimately show ?case by (auto simp: Let_def split: prod.splits)
next
  case Nil
  then show ?case by (auto intro!: exI [of _ "ca_replyTweetId c"])
qed

lemma round_of_fields:
  "oc_rounds (round_of env hs n c) = [n]"
  "ca_auction (oc_cache (round_of env hs n c)) = ca_auction c"
  "ca_bid (oc_cache (round_of env hs n c)) = ca_bid c"
  "ca_endingSoon (oc_cache (round_of env hs n c)) = ca_endingSoon c"
  using run_handlers_keep [of env hs n c] by (auto simp: round_of_def Let_def split: prod.splits)

section \<open>Auctions\<close>

fun new_auction :: "notification \<Rightarrow> int option" where
  "new_auction (NewAuction i) = Some i"
| "new_auction _ = None"

fun ending_soon :: "notification \<Rightarrow> int option" where
  "ending_soon (AuctionEndingSoon i) = Some i"
| "ending_soon _ = None"

fun auction_ticks :: "handler list \<Rightarrow> (bot_env \<times> AuctionBids option) list \<Rightarrow> bot_cache \<Rightarrow> outcome" where
  "auction_ticks hs [] c = finished c"
| "auction_ticks hs ((env, answer) # ts) c = and_also (processAuctionTick env hs answer c) (auction_ticks hs ts)"

text \<open>The numbers of a sequence that exceed all before them and a start value.\<close>

fun records :: "int \<Rightarrow> int list \<Rightarrow> int list" where
  "records m [] = []"
| "records m (x # xs) = (if m < x then x # records x xs else records m xs)"

definition answered :: "(bot_env \<times> AuctionBids option) list \<Rightarrow> int list" where
  "answered ts = map ab_id (List.map_filter snd ts)"

lemma outcome_fields [simp]:
  "oc_cache (finished c) = c" "oc_rounds (finished c) = []" "oc_posts (finished c) = []" "oc_ok (finished c)"
  "oc_cache (rejected c) = c" "oc_rounds (rejected c) = []" "oc_posts (rejected c) = []" "\<not> oc_ok (rejected c)"
  "oc_cache (and_also r k) = oc_cache (k (oc_cache r))"
  "oc_rounds (and_also r k) = oc_rounds r @ oc_rounds (k (oc_cache r))"
  "oc_posts (and_also r k) = oc_posts r @ oc_posts (k (oc_cache r))"
  "oc_ok (and_also r k) = oc_ok (k (oc_cache r))"
  "oc_cache (await_then r k) = (if oc_ok r then oc_cache (k (oc_cache r)) else oc_cache r)"
  "oc_rounds (await_then r k) = oc_rounds r @ (if oc_ok r then oc_rounds (k (oc_cache r)) else [])"
  "oc_posts (await_then r k) = oc_posts r @ (if oc_ok r then oc_posts (k (oc_cache r)) else [])"
  "oc_ok (await_then r k) = (oc_ok r \<and> oc_ok (k (oc_cache r)))"
  by (simp_all add: finished_def rejected_def and_also_def await_then_def Let_def)

lemma map_filter_append [simp]: "List.map_filter f (xs @ ys) = List.map_filter f xs @ List.map_filter f ys"
  by (simp add: List.map_filter_def)

lemma checks_fields:
  "List.map_filter new_auction (oc_rounds (check_auction env hs m i c)) = (if m < i then [i] else [])"
  "List.map_filter ending_soon (oc_rounds (check_auction env hs m i c)) = []"
  "ca_auction (oc_cache (check_auction env hs m i c)) = (if m < i then Some i else ca_auction c)"
  "ca_endingSoon (oc_cache (check_auction env hs m i c)) = ca_endingSoon c"
  "List.map_filter new_auction (oc_rounds (check_bid env hs b a c)) = []"
  "List.map_filter ending_soon (oc_rounds (check_bid env hs b a c)) = []"
  "ca_auction (oc_cache (check_bid env hs b a c)) = ca_auction c"
  "ca_endingSoon (oc_cache (check_bid env hs b a c)) = ca_endingSoon c"
  "List.map_filter new_auction (oc_rounds (check_ending_soon env hs m a c)) = []"
  "ca_auction (oc_cache (check_ending_soon env hs m a c)) = ca_auction c"
  by (auto simp: check_auction_def check_bid_def check_ending_soon_def round_of_fields updateAuctionCache_def
      updateBidCache_def updateAuctionEndingSoonCache_def Let_def split: list.splits)

lemma check_ending_soon_cases:
  "(List.map_filter ending_soon (oc_rounds (check_ending_soon env hs m a c)) = [] \<and>
    ca_endingSoon (oc_cache (check_ending_soon env hs m a c)) = ca_endingSoon c) \<or>
   (List.map_filter ending_soon (oc_rounds (check_ending_soon env hs m a c)) = [ab_id a] \<and> m < ab_id a \<and>
    ca_endingSoon (oc_cache (check_ending_soon env hs m a c)) = Some (ab_id a))"
  by (auto simp: check_ending_soon_def round_of_fields updateAuctionEndingSoonCache_def Let_def)

lemma auction_tick_new:
  "List.map_filter new_auction (oc_rounds (processAuctionTick env hs answer c)) =
     (case answer of None \<Rightarrow> [] | Some a \<Rightarrow> if getAuctionCache c < ab_id a then [ab_id a] else [])"
  "getAuctionCache (oc_cache (processAuctionTick env hs answer c)) =
     (case answer of None \<Rightarrow> getAuctionCache c | Some a \<Rightarrow> max (getAuctionCache c) (ab_id a))"
  by (auto simp: processAuctionTick_def checks_fields getAuctionCache_def split: option.splits)

lemma auction_tick_ending:
  "(List.map_filter ending_soon (oc_rounds (processAuctionTick env hs answer c)) = [] \<and>
    getAuctionEndingSoonCache (oc_cache (processAuctionTick env hs answer c)) = getAuctionEndingSoonCache c) \<or>
   (\<exists>i. List.map_filter ending_soon (oc_rounds (processAuctionTick env hs answer c)) = [i] \<and>
    getAuctionEndingSoonCache c < i \<and>
    getAuctionEndingSoonCache (oc_cache (processAuctionTick env hs answer c)) = i)"
proof (cases answer)
  case (Some a)
  then show ?thesis
    using check_ending_soon_cases [of env hs "getAuctionEndingSoonCache c" a
        "oc_cache (check_bid env hs (getBidCache c) a (oc_cache (check_auction env hs (getAuctionCache c) (ab_id a) c)))"]
    by (auto simp: processAuctionTick_def checks_fields getAuctionEndingSoonCache_def)
qed (simp add: processAuctionTick_def)

lemma auction_ticks_new:
  "List.map_filter new_auction (oc_rounds (auction_ticks hs ts c)) = records (getAuctionCache c) (answered ts)"
  by (induction hs ts c rule: auction_ticks.induct)
    (auto simp: answered_def auction_tick_new max_def split: option.splits)

lemma auction_ticks_ending:
  "sorted_wrt (<) (getAuctionEndingSoonCache c # List.map_filter ending_soon (oc_rounds (auction_ticks hs ts c)))"
proof (induction hs ts c rule: auction_ticks.induct)
  case (2 hs env answer ts c)
  then show ?case using auction_tick_ending [of env hs answer c] by fastforce
qed simp

lemma records_sorted: "sorted_wrt (<) (m # records m xs)"
  by (induction m xs rule: records.induct) fastforce+


section \<open>Proposals do not interfere\<close>

text \<open>
  A state with independent slots, read and written one at a time, and functions that use one slot
  only and return an output.
\<close>

locale slots =
  fixes view :: "'i \<Rightarrow> 's \<Rightarrow> 'v"
    and put :: "'i \<Rightarrow> 'v \<Rightarrow> 's \<Rightarrow> 's"
  assumes view_put: "view i (put i v s) = v"
    and put_view: "put i (view i s) s = s"
    and put_put: "put i v (put i w s) = put i v s"
    and view_put_other: "i \<noteq> j \<Longrightarrow> view j (put i v s) = view j s"
    and put_commute: "i \<noteq> j \<Longrightarrow> put i v (put j w s) = put j w (put i v s)"
begin

definition local_to :: "'i \<Rightarrow> ('s \<Rightarrow> 's \<times> 'o) \<Rightarrow> bool" where
  "local_to i f \<longleftrightarrow> (\<exists>F. \<forall>s. f s = (put i (fst (F (view i s))) s, snd (F (view i s))))"

lemma local_toI: "(\<And>s. f s = (put i (fst (F (view i s))) s, snd (F (view i s)))) \<Longrightarrow> local_to i f"
  unfolding local_to_def by blast

lemma local_toE:
  assumes "local_to i f"
  obtains F where "\<And>s. f s = (put i (fst (F (view i s))) s, snd (F (view i s)))"
proof -
  obtain F where "\<forall>s. f s = (put i (fst (F (view i s))) s, snd (F (view i s)))"
    using assms unfolding local_to_def by (rule exE)
  then show thesis using that [of F] by simp
qed

lemma local_return: "local_to i (\<lambda>s. (s, x))"
  by (rule local_toI [where F = "\<lambda>v. (v, x)"]) (simp add: put_view)

lemma local_modify: "local_to i (\<lambda>s. (put i (h (view i s)) s, x))"
  by (rule local_toI [where F = "\<lambda>v. (h v, x)"]) simp

lemma local_view:
  assumes "\<And>v. local_to i (f v)"
  shows "local_to i (\<lambda>s. f (view i s) s)"
proof -
  have "\<exists>F. \<forall>v s. f v s = (put i (fst (F v (view i s))) s, snd (F v (view i s)))"
    using assms unfolding local_to_def by (intro choice allI) blast
  then obtain F where F: "\<forall>v s. f v s = (put i (fst (F v (view i s))) s, snd (F v (view i s)))" by (rule exE)
  show ?thesis by (rule local_toI [where F = "\<lambda>v. F v v"]) (simp add: F)
qed

lemma local_bind:
  assumes "local_to i f" "\<And>x. local_to i (g x)"
  shows "local_to i (\<lambda>s. g (snd (f s)) (fst (f s)))"
proof -
  obtain F where F: "\<forall>s. f s = (put i (fst (F (view i s))) s, snd (F (view i s)))"
    using assms(1) unfolding local_to_def by (rule exE)
  have "\<exists>G. \<forall>x s. g x s = (put i (fst (G x (view i s))) s, snd (G x (view i s)))"
    using assms(2) unfolding local_to_def by (intro choice allI) blast
  then obtain G where G: "\<forall>x s. g x s = (put i (fst (G x (view i s))) s, snd (G x (view i s)))" by (rule exE)
  show ?thesis
    by (rule local_toI [where F = "\<lambda>v. G (snd (F v)) (fst (F v))"]) (simp add: F G view_put put_put)
qed

lemma local_output:
  assumes "local_to i f"
  shows "local_to i (\<lambda>s. (fst (f s), h (snd (f s))))"
  by (rule local_bind [OF assms, where g = "\<lambda>x s. (s, h x)"]) (rule local_return)

lemma local_frame:
  assumes "local_to i f" "i \<noteq> j"
  shows "view j (fst (f s)) = view j s"
  using assms by (auto elim!: local_toE simp: view_put_other)

lemma local_depends:
  assumes "local_to i f" "view i s = view i t"
  shows "snd (f s) = snd (f t)" "view i (fst (f s)) = view i (fst (f t))"
  using assms by (auto elim!: local_toE simp: view_put)

lemma local_commute:
  assumes "local_to i f" "local_to j g" "i \<noteq> j"
  shows "fst (g (fst (f s))) = fst (f (fst (g s)))" "snd (g (fst (f s))) = snd (g s)"
  using assms by (auto elim!: local_toE simp: view_put_other put_commute)

end

definition view_proposal :: "int \<Rightarrow> bot_cache \<Rightarrow> bot_proposal option \<times> bool" where
  "view_proposal i c = (ca_proposal c i, i \<in> ca_warned c)"

definition mark :: "'a \<Rightarrow> bool \<Rightarrow> 'a set \<Rightarrow> 'a set" where
  "mark i b X = (if b then insert i X else X - {i})"

definition put_proposal :: "int \<Rightarrow> bot_proposal option \<times> bool \<Rightarrow> bot_cache \<Rightarrow> bot_cache" where
  "put_proposal i v c = c\<lparr>ca_proposal := (ca_proposal c)(i := fst v),
     ca_warned := mark i (snd v) (ca_warned c)\<rparr>"

lemma mark_twist: "i \<noteq> j \<Longrightarrow> mark i b (mark j d X) = mark j d (mark i b X)"
  by (auto simp: mark_def)

interpretation proposals: slots view_proposal put_proposal
proof
  fix i j :: int and v w and c :: bot_cache
  assume "i \<noteq> j"
  then show "put_proposal i v (put_proposal j w c) = put_proposal j w (put_proposal i v c)"
    by (simp add: put_proposal_def fun_upd_twist [of i j] mark_twist [of i j])
qed (auto simp: view_proposal_def put_proposal_def mark_def insert_absorb)

definition seen :: "outcome \<Rightarrow> bot_cache \<times> notification list \<times> post list \<times> bool" where
  "seen r = (oc_cache r, oc_rounds r, oc_posts r, oc_ok r)"

abbreviation local_part :: "int \<Rightarrow> (bot_cache \<Rightarrow> outcome) \<Rightarrow> bool" where
  "local_part i f \<equiv> proposals.local_to i (\<lambda>c. seen (f c))"

text \<open>The handlers of governance notifications do not use the cache.\<close>

fun governance :: "notification \<Rightarrow> bool" where
  "governance (NewAuction i) = False"
| "governance (NewBid i b) = False"
| "governance (AuctionEndingSoon i) = False"
| "governance _ = True"

lemma governance_handle:
  "governance n \<Longrightarrow> handle env h n c = (c, snd (handle env h n d))"
  by (cases h; cases n) (auto simp: discord_handleNewProposal_def discord_handleUpdatedProposalStatus_def
      discord_handleProposalAtRiskOfExpiry_def discord_handleGovernanceVote_def discord_send_def split: option.split)

lemma governance_run_fst: "governance n \<Longrightarrow> fst (run_handlers env hs n c) = c"
proof (induction hs)
  case (Cons h hs)
  then show ?case using governance_handle [of n env h c c] by (auto simp: Let_def split: prod.splits)
qed simp

lemma governance_run:
  "governance n \<Longrightarrow> run_handlers env hs n c = (c, snd (run_handlers env hs n d))"
proof (induction hs)
  case (Cons h hs)
  obtain posts ok where "snd (handle env h n d) = (posts, ok)" by (cases "snd (handle env h n d)") blast
  with governance_handle [OF Cons.prems, of env h _ d] have h: "handle env h n e = (e, posts, ok)" for e by simp
  obtain posts' ok' where "snd (run_handlers env hs n d) = (posts', ok')"
    by (cases "snd (run_handlers env hs n d)") blast
  with Cons have "run_handlers env hs n c = (c, posts', ok')" "run_handlers env hs n d = (d, posts', ok')"
    by (simp_all add: prod_eq_iff governance_run_fst)
  then show ?case by (simp add: h)
qed simp

lemma governance_round:
  "governance n \<Longrightarrow> seen (round_of env hs n c) = (c, snd (seen (round_of env hs n d)))"
  using governance_run [of n env hs c d] by (auto simp: round_of_def seen_def Let_def split: prod.splits)

lemma local_round: "governance n \<Longrightarrow> local_part i (round_of env hs n)"
  using proposals.local_return [of i "snd (seen (round_of env hs n undefined))"]
  by (subst governance_round [of n env hs _ undefined]) simp_all

lemma local_finished: "local_part i finished"
  using proposals.local_return [of i "([], [], True)"] by (simp add: seen_def)

lemma local_await:
  assumes "local_part i f" "local_part i k"
  shows "local_part i (\<lambda>c. await_then (f c) k)"
proof -
  define g where "g = (\<lambda>(n, p, ok) c. if ok then (oc_cache (k c), n @ oc_rounds (k c), p @ oc_posts (k c), oc_ok (k c))
    else (c, n, p, ok))"
  have "proposals.local_to i (g x)" for x
  proof (cases x)
    case (fields n p ok)
    then show ?thesis
      using proposals.local_output [OF assms(2), of "\<lambda>(n', p', ok'). (n @ n', p @ p', ok')"]
        proposals.local_return [of i "(n, p, ok)"] by (cases ok) (auto simp: g_def seen_def)
  qed
  then have "proposals.local_to i (\<lambda>c. g (snd (seen (f c))) (fst (seen (f c))))"
    by (rule proposals.local_bind [OF assms(1)])
  moreover have "(\<lambda>c. g (snd (seen (f c))) (fst (seen (f c)))) = (\<lambda>c. seen (await_then (f c) k))"
    by (auto simp: g_def seen_def fun_eq_iff)
  ultimately show ?thesis by simp
qed

lemma local_and_also:
  assumes "local_part i f" "local_part i k"
  shows "local_part i (\<lambda>c. and_also (f c) k)"
proof -
  define g where "g = (\<lambda>(n, p, ok :: bool) c. (oc_cache (k c), n @ oc_rounds (k c), p @ oc_posts (k c), oc_ok (k c)))"
  have "proposals.local_to i (g x)" for x
  proof (cases x)
    case (fields n p ok)
    then show ?thesis
      using proposals.local_output [OF assms(2), of "\<lambda>(n', p', ok'). (n @ n', p @ p', ok')"]
      by (simp add: g_def seen_def)
  qed
  then have "proposals.local_to i (\<lambda>c. g (snd (seen (f c))) (fst (seen (f c))))"
    by (rule proposals.local_bind [OF assms(1)])
  moreover have "(\<lambda>c. g (snd (seen (f c))) (fst (seen (f c)))) = (\<lambda>c. seen (and_also (f c) k))"
    by (auto simp: g_def seen_def fun_eq_iff)
  ultimately show ?thesis by simp
qed

lemma local_case: "(\<And>v. local_part i (f v)) \<Longrightarrow> local_part i (\<lambda>c. f (view_proposal i c) c)"
  by (rule proposals.local_view)

lemma local_if:
  "local_part i f \<Longrightarrow> local_part i g \<Longrightarrow> local_part i (\<lambda>c. if b then f c else g c)"
  by (cases b) simp_all

lemma local_votes: "local_part i (announce_votes env hs p vs)"
  by (induction vs) (auto intro!: local_and_also local_round local_finished simp: fun_eq_iff)

lemma local_status: "local_part i (check_status env hs q p)"
  by (cases "bp_status q = bp_status p") (simp_all add: check_status_def local_round local_finished)

lemma local_warn: "local_part i (\<lambda>c. finished (setProposalExpiryWarningSent i c))"
proof -
  have "(\<lambda>c. seen (finished (setProposalExpiryWarningSent i c))) =
      (\<lambda>c. (put_proposal i ((\<lambda>v. (fst v, True)) (view_proposal i c)) c, [], [], True))"
    by (simp add: fun_eq_iff seen_def put_proposal_def view_proposal_def setProposalExpiryWarningSent_def mark_def)
  then show ?thesis by (simp only: proposals.local_modify [of i "\<lambda>v. (fst v, True)"])
qed

lemma local_store: "bp_id p = i \<Longrightarrow> local_part i (\<lambda>c. finished (updateProposalCache p c))"
proof -
  assume "bp_id p = i"
  then have "(\<lambda>c. seen (finished (updateProposalCache p c))) =
      (\<lambda>c. (put_proposal i ((\<lambda>v. (Some p, snd v)) (view_proposal i c)) c, [], [], True))"
    by (auto simp: fun_eq_iff seen_def put_proposal_def view_proposal_def updateProposalCache_def mark_def insert_absorb)
  then show ?thesis by (simp only: proposals.local_modify [of i "\<lambda>v. (Some p, snd v)"])
qed

lemma local_expiry:
  assumes "bp_id p = i"
  shows "local_part i (check_expiry env hs p)"
proof -
  have "local_part i (\<lambda>c. (\<lambda>v c. if isAtRiskOfExpiry (bv_now_ms env) p \<and> \<not> snd v
      then await_then (round_of env hs (ProposalAtRiskOfExpiry p) c)
        (\<lambda>c. finished (setProposalExpiryWarningSent i c)) else finished c) (view_proposal i c) c)"
    by (rule local_case, rule local_if) (simp_all add: local_await local_round local_warn local_finished)
  then show ?thesis
    unfolding check_expiry_def [abs_def] assms by (simp add: view_proposal_def hasWarnedOfExpiry_def)
qed

lemma local_process:
  assumes "bp_id p = i"
  shows "local_part i (process_proposal env hs p)"
proof -
  define f where "f = (\<lambda>(pr, w :: bool) c. case pr of
      None \<Rightarrow> round_of env hs (NewProposal p) c
    | Some q \<Rightarrow> await_then (check_status env hs q p c)
        (\<lambda>c. and_also (announce_votes env hs p (extractNewVotes q p) c) (check_expiry env hs p)))"
  have "local_part i (f v)" for v
  proof (cases v)
    case (Pair pr w)
    then show ?thesis
      by (cases pr) (auto intro!: local_round local_await local_and_also local_status local_votes
          local_expiry assms simp: f_def)
  qed
  then have "local_part i (\<lambda>c. f (view_proposal i c) c)" by (rule local_case)
  then have "local_part i (\<lambda>c. await_then (f (view_proposal i c) c) (\<lambda>c. finished (updateProposalCache p c)))"
    by (rule local_await) (rule local_store [OF assms])
  then show ?thesis
    using assms by (simp add: f_def view_proposal_def process_proposal_def getProposalCache_def)
qed

lemma proposals_commute:
  assumes "bp_id p \<noteq> bp_id q"
  shows "oc_cache (process_proposal env hs q (oc_cache (process_proposal env hs p c))) =
     oc_cache (process_proposal env hs p (oc_cache (process_proposal env hs q c)))"
    "oc_rounds (process_proposal env hs q (oc_cache (process_proposal env hs p c))) =
     oc_rounds (process_proposal env hs q c)"
    "oc_posts (process_proposal env hs q (oc_cache (process_proposal env hs p c))) =
     oc_posts (process_proposal env hs q c)"
  using proposals.local_commute [OF local_process [OF refl, of p env hs] local_process [OF refl, of q env hs] assms, of c]
  by (simp_all add: seen_def)

section \<open>Votes and warnings\<close>

fun proposal_of :: "notification \<Rightarrow> int option" where
  "proposal_of (NewProposal p) = Some (bp_id p)"
| "proposal_of (UpdatedProposalStatus p) = Some (bp_id p)"
| "proposal_of (ProposalAtRiskOfExpiry p) = Some (bp_id p)"
| "proposal_of (GovernanceVote p v) = Some (bp_id p)"
| "proposal_of _ = None"

lemma governance_round_cache [simp]: "governance n \<Longrightarrow> oc_cache (round_of env hs n c) = c"
  using governance_round [of n env hs c c] by (simp add: seen_def)

lemma announce_votes_fields [simp]:
  "oc_rounds (announce_votes env hs p vs c) = map (GovernanceVote p) vs"
  "oc_cache (announce_votes env hs p vs c) = c"
  "oc_ok (announce_votes env hs p vs c)"
  by (induction vs) (simp_all add: round_of_fields)

lemma process_rounds_about:
  "n \<in> set (oc_rounds (process_proposal env hs p c)) \<Longrightarrow> proposal_of n = Some (bp_id p)"
  by (auto simp: process_proposal_def check_status_def check_expiry_def round_of_fields
      split: option.splits if_splits)

text \<open>No message is refused.\<close>

definition delivers :: "bot_env \<Rightarrow> handler list \<Rightarrow> bool" where
  "delivers env hs \<longleftrightarrow> (\<forall>n c. governance n \<longrightarrow> oc_ok (round_of env hs n c))"

lemma process_known:
  assumes "delivers env hs" "view_proposal (bp_id p) c = (Some q, w)"
  shows "oc_rounds (process_proposal env hs p c) =
      (if bp_status q \<noteq> bp_status p then [UpdatedProposalStatus p] else []) @
      map (GovernanceVote p) (extractNewVotes q p) @
      (if isAtRiskOfExpiry (bv_now_ms env) p \<and> \<not> w then [ProposalAtRiskOfExpiry p] else [])"
    "view_proposal (bp_id p) (oc_cache (process_proposal env hs p c)) =
      (Some p, w \<or> isAtRiskOfExpiry (bv_now_ms env) p)"
proof -
  have ok: "governance n \<Longrightarrow> oc_ok (round_of env hs n d)" for n d using assms(1) by (simp add: delivers_def)
  note facts = assms(2) ok process_proposal_def view_proposal_def getProposalCache_def check_status_def
    check_expiry_def hasWarnedOfExpiry_def updateProposalCache_def setProposalExpiryWarningSent_def round_of_fields
  show "oc_rounds (process_proposal env hs p c) =
      (if bp_status q \<noteq> bp_status p then [UpdatedProposalStatus p] else []) @
      map (GovernanceVote p) (extractNewVotes q p) @
      (if isAtRiskOfExpiry (bv_now_ms env) p \<and> \<not> w then [ProposalAtRiskOfExpiry p] else [])"
    using assms(2) by (auto simp: facts)
  show "view_proposal (bp_id p) (oc_cache (process_proposal env hs p c)) =
      (Some p, w \<or> isAtRiskOfExpiry (bv_now_ms env) p)"
    using assms(2) by (auto simp: facts)
qed

lemma process_proposals_one:
  "distinct (map bp_id ps) \<Longrightarrow>
   filter (\<lambda>n. proposal_of n = Some i) (oc_rounds (process_proposals env hs ps c)) =
     (case find (\<lambda>p. bp_id p = i) ps of None \<Rightarrow> [] | Some p \<Rightarrow> oc_rounds (process_proposal env hs p c)) \<and>
   view_proposal i (oc_cache (process_proposals env hs ps c)) =
     (case find (\<lambda>p. bp_id p = i) ps of
        None \<Rightarrow> view_proposal i c | Some p \<Rightarrow> view_proposal i (oc_cache (process_proposal env hs p c)))"
proof (induction ps arbitrary: c)
  case (Cons p ps)
  let ?c = "oc_cache (process_proposal env hs p c)"
  show ?case
  proof (cases "bp_id p = i")
    case True
    then have "find (\<lambda>p. bp_id p = i) ps = None" using Cons.prems by (auto simp: find_None_iff image_iff)
    moreover have "filter (\<lambda>n. proposal_of n = Some i) (oc_rounds (process_proposal env hs p c)) =
        oc_rounds (process_proposal env hs p c)"
      using process_rounds_about [of _ env hs p c] True by (auto intro!: filter_True)
    ultimately show ?thesis using Cons True by simp
  next
    case False
    have v: "view_proposal i ?c = view_proposal i c"
      using proposals.local_frame [OF local_process [OF refl, of p env hs] False, of c] by (simp add: seen_def)
    have same: "oc_rounds (process_proposal env hs q ?c) = oc_rounds (process_proposal env hs q c)"
      "view_proposal i (oc_cache (process_proposal env hs q ?c)) = view_proposal i (oc_cache (process_proposal env hs q c))"
      if "bp_id q = i" for q
      using proposals.local_depends [OF local_process [OF that, of env hs] v] by (simp_all add: seen_def)
    have none: "filter (\<lambda>n. proposal_of n = Some i) (oc_rounds (process_proposal env hs p c)) = []"
      using process_rounds_about [of _ env hs p c] False by (auto simp: filter_empty_conv)
    show ?thesis
    proof (cases "find (\<lambda>p. bp_id p = i) ps")
      case None
      then show ?thesis using Cons.IH [of ?c] Cons.prems False v none by simp
    next
      case (Some q)
      then have "bp_id q = i" by (auto simp: find_Some_iff)
      then show ?thesis using Cons.IH [of ?c] Cons.prems False same none Some by simp
    qed
  qed
qed simp

fun governance_ticks :: "handler list \<Rightarrow> (bot_env \<times> bot_proposal list option) list \<Rightarrow> bot_cache \<Rightarrow> outcome" where
  "governance_ticks hs [] c = finished c"
| "governance_ticks hs ((env, answer) # ts) c =
     and_also (processGovernanceTick env hs answer c) (governance_ticks hs ts)"

definition latest :: "int \<Rightarrow> bot_proposal list option \<Rightarrow> bot_proposal option" where
  "latest i answer = (case answer of None \<Rightarrow> None | Some ps \<Rightarrow> find (\<lambda>p. bp_id p = i) ps)"

text \<open>The indexer keeps the votes it has answered, and a voter has one vote on a proposal.\<close>

definition grows :: "bot_proposal \<Rightarrow> bot_proposal \<Rightarrow> bool" where
  "grows p q \<longleftrightarrow> set (bp_votes p) \<subseteq> set (bp_votes q) \<and> distinct (map bt_id (bp_votes q))"

text \<open>
  What the run is told of proposal \<open>i\<close>, starting from \<open>p\<close>: answers list a proposal once, votes are
  never taken back, and messages are accepted in the ticks that see the proposal. A tick may fail to
  reach the indexer.
\<close>

fun steady :: "handler list \<Rightarrow> int \<Rightarrow> bot_proposal \<Rightarrow> (bot_env \<times> bot_proposal list option) list \<Rightarrow> bool" where
  "steady hs i p [] = True"
| "steady hs i p ((env, answer) # ts) =
     ((case answer of None \<Rightarrow> True | Some ps \<Rightarrow> distinct (map bp_id ps)) \<and>
      (case latest i answer of
         None \<Rightarrow> steady hs i p ts
       | Some q \<Rightarrow> delivers env hs \<and> grows p q \<and> steady hs i q ts))"

fun last_answer :: "int \<Rightarrow> bot_proposal \<Rightarrow> (bot_env \<times> bot_proposal list option) list \<Rightarrow> bot_proposal" where
  "last_answer i p [] = p"
| "last_answer i p ((env, answer) # ts) =
     last_answer i (case latest i answer of None \<Rightarrow> p | Some q \<Rightarrow> q) ts"

fun seen_at_risk :: "int \<Rightarrow> (bot_env \<times> bot_proposal list option) list \<Rightarrow> bool" where
  "seen_at_risk i [] = False"
| "seen_at_risk i ((env, answer) # ts) =
     ((case latest i answer of None \<Rightarrow> False | Some q \<Rightarrow> isAtRiskOfExpiry (bv_now_ms env) q) \<or> seen_at_risk i ts)"

fun vote_on :: "int \<Rightarrow> notification \<Rightarrow> bot_vote option" where
  "vote_on i (GovernanceVote p v) = (if bp_id p = i then Some v else None)"
| "vote_on i _ = None"

fun warning_of :: "int \<Rightarrow> notification \<Rightarrow> bool" where
  "warning_of i (ProposalAtRiskOfExpiry p) = (bp_id p = i)"
| "warning_of i _ = False"

lemma vote_on_filter:
  "List.map_filter (vote_on i) ns = List.map_filter (vote_on i) (filter (\<lambda>n. proposal_of n = Some i) ns)"
proof (induction ns)
  case (Cons n ns)
  then show ?case by (cases n) simp_all
qed simp

lemma warning_of_filter:
  "filter (warning_of i) ns = filter (warning_of i) (filter (\<lambda>n. proposal_of n = Some i) ns)"
proof (induction ns)
  case (Cons n ns)
  then show ?case by (cases n) simp_all
qed simp

lemma governance_tick_one:
  assumes "case answer of None \<Rightarrow> True | Some ps \<Rightarrow> distinct (map bp_id ps)"
  shows "filter (\<lambda>n. proposal_of n = Some i) (oc_rounds (processGovernanceTick env hs answer c)) =
     (case latest i answer of None \<Rightarrow> [] | Some p \<Rightarrow> oc_rounds (process_proposal env hs p c))"
    "view_proposal i (oc_cache (processGovernanceTick env hs answer c)) =
     (case latest i answer of
        None \<Rightarrow> view_proposal i c | Some p \<Rightarrow> view_proposal i (oc_cache (process_proposal env hs p c)))"
  using assms process_proposals_one [of _ i env hs c]
  by (auto simp: processGovernanceTick_def latest_def split: option.splits)

lemma map_filter_vote_on [simp]:
  "bp_id p = i \<Longrightarrow> List.map_filter (vote_on i) (map (GovernanceVote p) vs) = vs"
  by (induction vs) simp_all

lemma filter_warning_votes [simp]: "filter (warning_of i) (map (GovernanceVote p) vs) = []"
  by (induction vs) simp_all

lemma tick_tells:
  assumes "case answer of None \<Rightarrow> True | Some ps \<Rightarrow> distinct (map bp_id ps)"
    "latest i answer = Some q" "delivers env hs" "view_proposal i c = (Some p, w)"
  shows "List.map_filter (vote_on i) (oc_rounds (processGovernanceTick env hs answer c)) = extractNewVotes p q"
    "filter (warning_of i) (oc_rounds (processGovernanceTick env hs answer c)) =
       (if isAtRiskOfExpiry (bv_now_ms env) q \<and> \<not> w then [ProposalAtRiskOfExpiry q] else [])"
    "view_proposal i (oc_cache (processGovernanceTick env hs answer c)) =
       (Some q, w \<or> isAtRiskOfExpiry (bv_now_ms env) q)"
proof -
  have i: "bp_id q = i" using assms(2) by (auto simp: latest_def find_Some_iff split: option.splits)
  note known = process_known [OF assms(3), of q c p w, unfolded i, OF assms(4)]
  note tick = governance_tick_one [OF assms(1), of i env hs c]
  show "List.map_filter (vote_on i) (oc_rounds (processGovernanceTick env hs answer c)) = extractNewVotes p q"
    by (subst vote_on_filter) (simp add: tick assms(2) known i)
  show "filter (warning_of i) (oc_rounds (processGovernanceTick env hs answer c)) =
       (if isAtRiskOfExpiry (bv_now_ms env) q \<and> \<not> w then [ProposalAtRiskOfExpiry q] else [])"
    by (subst warning_of_filter) (simp add: tick assms(2) known i)
  show "view_proposal i (oc_cache (processGovernanceTick env hs answer c)) =
       (Some q, w \<or> isAtRiskOfExpiry (bv_now_ms env) q)"
    by (simp add: tick assms(2) known)
qed

lemma tick_silent:
  assumes "case answer of None \<Rightarrow> True | Some ps \<Rightarrow> distinct (map bp_id ps)" "latest i answer = None"
  shows "List.map_filter (vote_on i) (oc_rounds (processGovernanceTick env hs answer c)) = []"
    "filter (warning_of i) (oc_rounds (processGovernanceTick env hs answer c)) = []"
    "view_proposal i (oc_cache (processGovernanceTick env hs answer c)) = view_proposal i c"
proof -
  note tick = governance_tick_one [OF assms(1), of i env hs c]
  show "List.map_filter (vote_on i) (oc_rounds (processGovernanceTick env hs answer c)) = []"
    by (subst vote_on_filter) (simp add: tick assms(2))
  show "filter (warning_of i) (oc_rounds (processGovernanceTick env hs answer c)) = []"
    by (subst warning_of_filter) (simp add: tick assms(2))
  show "view_proposal i (oc_cache (processGovernanceTick env hs answer c)) = view_proposal i c"
    by (simp add: tick assms(2))
qed

lemma steady_grows:
  "steady hs i p ts \<Longrightarrow> distinct (map bt_id (bp_votes p)) \<Longrightarrow> grows p (last_answer i p ts)"
proof (induction hs i p ts rule: steady.induct)
  case (2 hs i p env answer ts)
  then show ?case by (cases "latest i answer") (auto simp: grows_def)
qed (simp add: grows_def)

lemma set_extractNewVotes:
  assumes "grows p q"
  shows "set (extractNewVotes p q) = {v \<in> set (bp_votes q). v \<notin> set (bp_votes p) \<and> 0 < bt_votes v}"
    "distinct (map bt_id (extractNewVotes p q))"
proof -
  have "bt_id v \<in> bt_id ` set (bp_votes p) \<longleftrightarrow> v \<in> set (bp_votes p)" if "v \<in> set (bp_votes q)" for v
    using assms that by (auto simp: grows_def distinct_map inj_on_def)
  then show "set (extractNewVotes p q) = {v \<in> set (bp_votes q). v \<notin> set (bp_votes p) \<and> 0 < bt_votes v}"
    by (auto simp: extractNewVotes_def)
  show "distinct (map bt_id (extractNewVotes p q))"
    using assms by (simp add: grows_def extractNewVotes_def distinct_map_filter)
qed

lemma ticks_tell:
  assumes "steady hs i p ts" "distinct (map bt_id (bp_votes p))" "view_proposal i c = (Some p, w)"
  defines "ns \<equiv> oc_rounds (governance_ticks hs ts c)"
  shows "distinct (map bt_id (List.map_filter (vote_on i) ns)) \<and>
     set (List.map_filter (vote_on i) ns) =
       {v \<in> set (bp_votes (last_answer i p ts)). v \<notin> set (bp_votes p) \<and> 0 < bt_votes v} \<and>
     length (filter (warning_of i) ns) = (if \<not> w \<and> seen_at_risk i ts then 1 else 0)"
  using assms(1-3) unfolding ns_def
proof (induction hs i p ts arbitrary: c w rule: steady.induct)
  case (2 hs i p env answer ts)
  let ?c = "oc_cache (processGovernanceTick env hs answer c)"
  have d: "case answer of None \<Rightarrow> True | Some ps \<Rightarrow> distinct (map bp_id ps)" using "2.prems"(1) by simp
  show ?case
  proof (cases "latest i answer")
    case None
    then have "steady hs i p ts" using "2.prems"(1) by simp
    note IH = "2.IH"(1) [OF None this "2.prems"(2), of ?c w]
    show ?thesis using IH tick_silent [OF d None, of env hs c] "2.prems"(3) None by simp
  next
    case (Some q)
    then have s: "delivers env hs" "grows p q" "steady hs i q ts" using "2.prems"(1) by simp_all
    then have q: "distinct (map bt_id (bp_votes q))" by (simp add: grows_def)
    let ?l = "last_answer i q ts"
    have l: "grows q ?l" using steady_grows [OF s(3) q] .
    note tell = tick_tells [OF d Some s(1) "2.prems"(3)]
    note IH = "2.IH"(2) [OF Some s(3) q tell(3)]
    have new: "set (List.map_filter (vote_on i) (oc_rounds (governance_ticks hs ts ?c))) =
        {v \<in> set (bp_votes ?l). v \<notin> set (bp_votes q) \<and> 0 < bt_votes v}"
      "distinct (map bt_id (List.map_filter (vote_on i) (oc_rounds (governance_ticks hs ts ?c))))"
      using IH by simp_all
    have "bt_id v \<noteq> bt_id u" if "v \<in> set (bp_votes q)" "u \<in> set (bp_votes ?l)" "u \<notin> set (bp_votes q)" for v u
      using that l by (auto simp: grows_def distinct_map inj_on_def)
    then have "bt_id ` set (extractNewVotes p q) \<inter>
        bt_id ` set (List.map_filter (vote_on i) (oc_rounds (governance_ticks hs ts ?c))) = {}"
      unfolding new set_extractNewVotes(1) [OF s(2)] by blast
    then have "distinct (map bt_id (extractNewVotes p q @ List.map_filter (vote_on i) (oc_rounds (governance_ticks hs ts ?c))))"
      using new(2) set_extractNewVotes(2) [OF s(2)] by simp
    moreover have "set (extractNewVotes p q) \<union> {v \<in> set (bp_votes ?l). v \<notin> set (bp_votes q) \<and> 0 < bt_votes v} =
        {v \<in> set (bp_votes ?l). v \<notin> set (bp_votes p) \<and> 0 < bt_votes v}"
      using s(2) l unfolding set_extractNewVotes(1) [OF s(2)] by (auto simp: grows_def)
    ultimately show ?thesis using IH tell new(1) Some by auto
  qed
qed simp


definition demo_bot_env :: bot_env where
  "demo_bot_env = \<lparr>bv_now_ms = 1300000000, bv_lookupAddress = \<lambda>_. Some None, bv_formatEther = Some,
     bv_png = \<lambda>_. Some True, bv_uploadMedia = \<lambda>_. Some ''m'', bv_tweet = \<lambda>_ _. Some ''t'',
     bv_reply = \<lambda>_ _. Some ''t'', bv_send = \<lambda>_ _. True\<rparr>"

definition demo_bot_vote :: "string \<Rightarrow> int \<Rightarrow> bot_vote" where
  "demo_bot_vote who n = \<lparr>bt_id = ''1-'' @ who, bt_voter = who, bt_votes = n, bt_supportDetailed = FOR, bt_reason = None\<rparr>"

definition demo_bot_proposal :: "bot_vote list \<Rightarrow> bot_proposal" where
  "demo_bot_proposal vs = \<lparr>bp_id = 1, bp_proposer = ''ann'', bp_description = ''# Title'', bp_status = ''QUEUED'',
     bp_quorumVotes = 2, bp_proposalThreshold = 1, bp_startBlock = 5, bp_endBlock = 9, bp_executionETA = 100000,
     bp_votes = vs\<rparr>"

definition demo_bot_cache :: bot_cache where
  "demo_bot_cache = oc_cache (setupGovernance (Some [demo_bot_proposal [demo_bot_vote ''ann'' 3]])
     \<lparr>ca_auction = None, ca_bid = None, ca_replyTweetId = None, ca_endingSoon = None, ca_proposal = Map.empty,
      ca_warned = {}\<rparr>)"

definition demo_bot_ticks :: "(bot_env \<times> bot_proposal list option) list" where
  "demo_bot_ticks =
     [(demo_bot_env, Some [demo_bot_proposal [demo_bot_vote ''ann'' 3, demo_bot_vote ''bob'' 2]]), (demo_bot_env, None),
      (demo_bot_env, Some [demo_bot_proposal [demo_bot_vote ''cid'' 0, demo_bot_vote ''ann'' 3, demo_bot_vote ''bob'' 2]])]"

lemma demo_bot_delivers: "delivers demo_bot_env [Discord]"
proof -
  have "oc_ok (round_of demo_bot_env [Discord] n c)" if "governance n" for n c
    using that by (cases n) (auto simp: round_of_def demo_bot_env_def discord_handleNewProposal_def discord_send_def
        discord_handleUpdatedProposalStatus_def discord_handleProposalAtRiskOfExpiry_def
        discord_handleGovernanceVote_def formatNewGovernanceVoteText_def resolveEnsOrFormatAddress_def)
  then show ?thesis by (simp add: delivers_def)
qed


section \<open>The warning and the grace period\<close>

text \<open>
  When the bots warn that a queued proposal expires in less than two days, a proposal on the
  first timelock is expired two days later at the latest, but one on the second timelock, whose grace
  period is 21 days and not 14, stays executable for at least seven more days.
\<close>
theorem expiry_warning_time:
  assumes "isAtRiskOfExpiry now_ms p" "ch_eta c = bp_executionETA p"
    "stateInternal (timelock_grace c) block (now_ms div 1000) c = Queued"
  shows "(ch_onTimelockV1 c \<longrightarrow>
      stateInternal (timelock_grace c) block (now_ms div 1000 + 2 * SECONDS_IN_DAY) c = Expired) \<and>
    (\<not> ch_onTimelockV1 c \<longrightarrow>
      (\<forall>t \<le> now_ms div 1000 + 7 * SECONDS_IN_DAY. stateInternal (timelock_grace c) block t c = Queued))"
  using assms
  by (auto simp: isAtRiskOfExpiry_def stateInternal_def timelock_grace_def SECONDS_IN_DAY_def Let_def split: if_splits)

definition demo_queued :: chain_proposal where
  "demo_queued = \<lparr>ch_vetoed = False, ch_canceled = False, ch_executed = False, ch_updatePeriodEndBlock = 1,
     ch_startBlock = 5, ch_endBlock = 9, ch_objectionPeriodEndBlock = 0, ch_forVotes = 5, ch_againstVotes = 0,
     ch_quorumVotes = 2, ch_eta = 100000, ch_onTimelockV1 = False\<rparr>"

theorem expiry_warning_time_witness:
  "isAtRiskOfExpiry 1300000000 (demo_bot_proposal []) \<and>
   stateInternal (timelock_grace demo_queued) 20 1900000 demo_queued = Queued"
proof -
  have r: "isAtRiskOfExpiry 1300000000 (demo_bot_proposal [])"
    by (simp add: isAtRiskOfExpiry_def demo_bot_proposal_def SECONDS_IN_DAY_def)
  moreover have "stateInternal (timelock_grace demo_queued) 20 (1300000000 div 1000) demo_queued = Queued"
    by (simp add: stateInternal_def timelock_grace_def demo_queued_def isDefeated_def)
  ultimately show ?thesis
    using expiry_warning_time [of 1300000000 "demo_bot_proposal []" demo_queued 20]
    by (simp add: demo_queued_def demo_bot_proposal_def SECONDS_IN_DAY_def)
qed

end
