(* ===== verification/Spec2Isabelle.thy ===== *)
theory Spec2Isabelle
  imports Subgraph_Token_Run Subgraph_Auction Subgraph_Dao_Props Subgraph_Data_Props Sdk_Collection Assets_Seed
    Webapp_State Webapp_Fork Webapp_Data_Props Webapp_Logs Webapp_Activity Webapp_Draft_Props Webapp_Wizard_Props Webapp_Vote Webapp_Bid Webapp_Escrow
    Webapp_Token Webapp_Functions Webapp_Sponsor_Props Webapp_Feedback Webapp_Delegate Webapp_Lists
    Deploy_Limits Bots_Props
begin

text \<open>
  A verification development of the Nouns monorepo: its TypeScript packages from the events of the
  contracts to what users see.

  \<^bold>\<open>The program.\<close> The indexer (\<open>packages/nouns-subgraph\<close>) turns the events of the token, the auction
  house, the DAO and the DAO data contract into stored entities. The web application
  (\<open>packages/nouns-webapp\<close>) queries the indexer and the chain and decides what to show: the state of
  proposals, decoded transactions, candidates and their sponsors, forks, auctions, logs; and its pages and
  dialogs let users draft, edit, sponsor, vote, bid and fork by sending transactions. The bots
  (\<open>packages/nouns-bots\<close>) poll the indexer and announce auctions, bids, proposals and votes. The SDK
  (\<open>packages/nouns-sdk\<close>) encodes and draws the images, and the assets package
  (\<open>packages/nouns-assets\<close>) computes the seed of a Noun the way the seeder contract does. Tasks in
  \<open>packages/nouns-contracts/tasks\<close> deploy the contracts.

  \<^bold>\<open>Foundations.\<close>
  \<^item> \<open>Nouns_Prelude\<close>: JavaScript and AssemblyScript string, number and map operations, 32-bit
    integers, and the interfaces \<open>entity_store\<close> (load and save), \<open>codec\<close> (print and parse) and
    \<open>machine\<close> (handlers that keep an invariant over every run).
  \<^item> \<open>Webapp_Js\<close>: the stable sort and its interface \<open>consistent_comparator\<close>, \<open>parseInt\<close>, and the
    matches of the regular expressions in the order a backtracking engine tries them.

  \<^bold>\<open>Indexer.\<close> A store is a record with one map per entity; handlers map a store to a store, and
  \<open>None\<close> where the code aborts (a null access, a failed conversion).
  \<^item> \<open>Subgraph_Schema\<close>: \<open>schema.graphql\<close>; every entity type is a record, each with an
    interpretation of \<open>entity_store\<close>.
  \<^item> \<open>Subgraph_Helpers\<close>, \<open>Subgraph_Hash\<close>: \<open>utils/helpers.ts\<close>, \<open>utils/dynamicQuorum.ts\<close>; the content
    hash of a proposal identifies its content. \<open>Subgraph_Quorum\<close>: the quorum formula, its bounds at
    32 bits and its monotonicity.
  \<^item> \<open>Subgraph_Proposal\<close>: \<open>custom-types/ParsedProposalV3.ts\<close>.
  \<^item> \<open>Subgraph_Token\<close>, \<open>Subgraph_Token_Inv\<close>, \<open>Subgraph_Token_Run\<close>: \<open>nouns-erc-721.ts\<close>; after every
    run of events the token contract can emit, balances, ownership, delegation, vote totals and
    counters agree with a ledger, and two defects of the handlers.
  \<^item> \<open>Subgraph_Auction\<close>: \<open>nouns-auction-house.ts\<close> against an abstract auction.
  \<^item> \<open>Subgraph_Dao\<close>, \<open>Subgraph_Dao_Inv\<close>, \<open>Subgraph_Dao_Run\<close>, \<open>Subgraph_Dao_Props\<close>: \<open>nouns-dao.ts\<close>;
    tallies, counters and fork counts are exact after every run, statuses follow the abstract life
    cycle, a vote sets the quorum, creation never aborts, updates capture versions.
  \<^item> \<open>Subgraph_Data\<close>, \<open>Subgraph_Data_Props\<close>: \<open>nouns-dao-data.ts\<close>; candidates, versions, contents and
    signatures stay consistent.

  \<^bold>\<open>SDK and assets.\<close>
  \<^item> \<open>Sdk_Image\<close>, \<open>Sdk_Rle\<close>, \<open>Sdk_Draw\<close>, \<open>Sdk_Collection\<close>: \<open>src/image\<close>; run-length code, bounds,
    palette, SVG rectangles and the collection encoder: an encoded image draws itself, and the
    palette only grows.
  \<^item> \<open>Assets_Seed\<close>: \<open>src/utils.ts\<close> against \<open>NounsSeeder.sol\<close>.

  \<^bold>\<open>Web application.\<close> A hook is a function from the answers of its queries and calls to its result.
  \<^item> \<open>Webapp_Text\<close>, \<open>Webapp_Proposal\<close>, \<open>Webapp_Details\<close>, \<open>Webapp_Dao\<close>, \<open>Webapp_Fork\<close>:
    \<open>wrappers/nounsDao.ts\<close>; titles, the shown state, transaction details, versions, the sending
    hooks and the fork time line.
  \<^item> \<open>Webapp_State\<close>: the shown state equals the state of \<open>NounsDAOV3Proposals.sol\<close>.
  \<^item> \<open>Webapp_Data\<close>, \<open>Webapp_Data_Props\<close>: \<open>wrappers/nounsData.ts\<close>; sponsors, votes and thresholds
    of candidates, numbered versions.
  \<^item> \<open>Webapp_Logs\<close>: \<open>utils/logParsing.ts\<close>, \<open>state/slices/logs.ts\<close>, \<open>state/updaters/logs.ts\<close>,
    \<open>hooks/useLogs.ts\<close>. \<open>Webapp_Auction\<close>: the auction slices and wrappers.
  \<^item> \<open>Webapp_Activity\<close>: \<open>wrappers/nounActivity.ts\<close>; the activity feed of a Noun, down to the indexed
    transfer. \<open>Webapp_Token\<close>: \<open>wrappers/nounToken.ts\<close>, \<open>wrappers/nounsStream.ts\<close>; the cache of seeds
    agrees with the chain in every run, and the Nouns of an account. \<open>Webapp_Functions\<close>: the serverless
    functions in \<open>functions\<close>; owners and delegates are reported as the indexed chain has them, votes of proposals
    are grouped without loss.

  \<^bold>\<open>Pages and dialogs.\<close> A page or dialog is a record of its state, with one function per handler, effect and
  button; where it offers a call to a contract, the guard of that contract function stands beside it.
  \<^item> \<open>Webapp_Amounts\<close>, \<open>Webapp_Draft\<close>, \<open>Webapp_Draft_Props\<close>: \<open>pages/CreateProposal\<close>,
    \<open>CreateCandidate\<close>, \<open>EditProposal\<close>, \<open>EditCandidate\<close>, \<open>utils/usdcUtils.ts\<close> and the stream and
    token-buyer utilities; amounts in double precision, totals of drafts, and an edit sends what the editor shows.
  \<^item> \<open>Webapp_Wizard\<close>, \<open>Webapp_Wizard_Props\<close>: \<open>components/ProposalActionsModal\<close>; what can be added in
    any run of the dialog, and that a call can be added.
  \<^item> \<open>Webapp_Vote\<close>: \<open>pages/Vote\<close>, \<open>components/VoteModal\<close>; queueing, executing, cancelling, editing and
    voting are offered as \<open>NounsDAOV3Proposals.sol\<close> and \<open>NounsDAOV3Votes.sol\<close> accept them.
  \<^item> \<open>Webapp_Bid\<close>: \<open>components/Bid\<close> against \<open>NounsAuctionHouse.sol\<close>. \<open>Webapp_Escrow\<close>: \<open>pages/Fork\<close>,
    \<open>components/AddNounsToForkModal\<close> against \<open>NounsDAOV3Fork.sol\<close>.
  \<^item> \<open>Webapp_Sponsor\<close>, \<open>Webapp_Sponsor_Props\<close>: \<open>components/CandidateSponsors\<close>; the encoding computed in
    the browser is that of \<open>NounsDAOData.sol\<close> and of the indexer, the dialogs offer what \<open>proposeBySigs\<close>
    accepts, and updates keep the recorded order of signers.
  \<^item> \<open>Webapp_Feedback\<close>: \<open>components/VoteSignals\<close>; feedback comes back from the contract and the indexer into
    its group. \<open>Webapp_Delegate\<close>: \<open>components/ChangeDelegatePannel\<close> and its parts; delegations go to the
    shown account unless a lookup answers late.
  \<^item> \<open>Webapp_Lists\<close>: \<open>components/Proposals\<close>, \<open>CandidateCard\<close>, \<open>VoteCard\<close> with its tables, \<open>pages/Candidate\<close>;
    the shuffle permutes, and the pages of a table show every entry once where they fit.

  \<^bold>\<open>Bots.\<close> \<open>Bots_Model\<close>, \<open>Bots_Props\<close>: \<open>packages/nouns-bots/src\<close>; a tick maps the cache to the new
  cache, the rounds of announcements and the messages that went out, under services that may fail.
  The interface \<open>slots\<close> shows that the proposals of a tick, which the code runs concurrently, do not
  interfere.

  \<^bold>\<open>Deployment.\<close> \<open>Deploy_Tasks\<close>, \<open>Deploy_Props\<close>, \<open>Deploy_Limits\<close>: the seven tasks that deploy the
  system; all references and predicted addresses resolve, a partial deployment is continued, and parameters are
  checked against the limits of the contracts.

  \<^bold>\<open>This theory\<close> composes indexer and web application: whatever event the DAO contract emits about a
  proposal, the state shown afterwards is the one the contract reports.

  \<^bold>\<open>Parameters.\<close> Code outside the repository is an argument of the definitions that use it: keccak256,
  ABI encoding and decoding, contract calls, the big-number library, the query service, the log
  provider and the message services. What the theorems need of them is a named hypothesis (hashes of
  the given words do not collide, an encoder is injective, a conversion succeeds in range), and a
  witness discharges it for a concrete function.

  \<^bold>\<open>Loops.\<close> No definition has fuel. Loops that are not structural (digits of a number, the four scans
  of an image, regular-expression replacement, block ranges) have termination measures.

  \<^bold>\<open>Not modelled.\<close> Layout, navigation and localisation of the web application, and pages and components
  without logic of their own; memoisation and polling of hooks; most texts of queries, which are sent to the
  service as they are (what an answer contains is a hypothesis where it matters); the other contract tasks and asset
  scripts, which only read and write files and call the network; the API server; tables of contract addresses;
  the Solidity contracts beyond the functions that TypeScript code mirrors or calls; generated code and image data.
\<close>

section \<open>From the contract to the screen\<close>

text \<open>
  The events of one proposal's life after its creation, what they do to the proposal on chain, and
  when the contract emits them. \<open>quorum\<close> is the contract's quorum as a function of the votes
  against.
\<close>

fun about :: "dao_event \<Rightarrow> int option" where
  "about (ProposalCanceled ctx i) = Some i"
| "about (ProposalVetoed ctx i) = Some i"
| "about (ProposalQueued ctx i eta) = Some i"
| "about (ProposalExecuted ctx i) = Some i"
| "about (ProposalObjectionPeriodSet ctx i b) = Some i"
| "about (VoteCast ctx voter i support votes reason) = Some i"
| "about _ = None"

fun chain_after :: "(int \<Rightarrow> int) \<Rightarrow> dao_event \<Rightarrow> chain_proposal \<Rightarrow> chain_proposal" where
  "chain_after quorum (ProposalCanceled ctx i) c = c\<lparr>ch_canceled := True\<rparr>"
| "chain_after quorum (ProposalVetoed ctx i) c = c\<lparr>ch_vetoed := True\<rparr>"
| "chain_after quorum (ProposalQueued ctx i eta) c = c\<lparr>ch_eta := eta\<rparr>"
| "chain_after quorum (ProposalExecuted ctx i) c = c\<lparr>ch_executed := True\<rparr>"
| "chain_after quorum (ProposalObjectionPeriodSet ctx i b) c = c\<lparr>ch_objectionPeriodEndBlock := b\<rparr>"
| "chain_after quorum (VoteCast ctx voter i support votes reason) c =
     (let against = ch_againstVotes c + (if support = 0 then votes else 0)
      in c\<lparr>ch_againstVotes := against, ch_forVotes := ch_forVotes c + (if support = 1 then votes else 0),
           ch_quorumVotes := quorum against\<rparr>)"
| "chain_after quorum _ c = c"

definition undecided :: "chain_proposal \<Rightarrow> bool" where
  "undecided c \<longleftrightarrow> \<not> ch_vetoed c \<and> \<not> ch_canceled c \<and> \<not> ch_executed c"

fun chain_allows :: "int \<Rightarrow> dao_event \<Rightarrow> chain_proposal \<Rightarrow> bool" where
  "chain_allows tot (ProposalCanceled ctx i) c = undecided c"
| "chain_allows tot (ProposalVetoed ctx i) c = (\<not> ch_executed c)"
| "chain_allows tot (ProposalQueued ctx i eta) c = (undecided c \<and> ch_eta c = 0 \<and> 0 < eta)"
| "chain_allows tot (ProposalExecuted ctx i) c = (undecided c \<and> 0 < ch_eta c)"
| "chain_allows tot (ProposalObjectionPeriodSet ctx i b) c = True"
| "chain_allows tot (VoteCast ctx voter i support votes reason) c =
     (undecided c \<and> ch_eta c = 0 \<and> 0 \<le> votes \<and> ch_againstVotes c + votes \<le> tot)"
| "chain_allows tot _ c = False"

text \<open>The proposal was created under dynamic quorum, with the parameters the indexer recorded.\<close>

definition dynamic_quorum :: "store \<Rightarrow> proposal \<Rightarrow> int \<Rightarrow> (int \<Rightarrow> int) \<Rightarrow> bool" where
  "dynamic_quorum s p tot quorum \<longleftrightarrow>
     (\<exists>d st cb mn mx coeff. load_dq_params LATEST s = Some d \<and> dq_dynamicQuorumStartBlock d = Some st \<and>
        prop_createdBlock p = Some cb \<and> st < cb \<and> prop_adjustedTotalSupply p = Some tot \<and> 0 < tot \<and>
        prop_minQuorumVotesBPS p = Some mn \<and> prop_maxQuorumVotesBPS p = Some mx \<and>
        prop_quorumCoefficient p = Some coeff \<and> 0 \<le> coeff \<and> coeff < 2 ^ 32 \<and>
        0 \<le> sint mn \<and> sint mn \<le> sint mx \<and> sint mn < 2 ^ 16 \<and>
        (\<forall>a. 0 \<le> a \<and> a \<le> tot \<longrightarrow> quorum a = quorum_spec a tot (sint mn) (sint mx) coeff))"

fun is_vote :: "dao_event \<Rightarrow> bool" where
  "is_vote (VoteCast ctx voter i support votes reason) = True"
| "is_vote _ = False"

lemma load_after_governance [simp]:
  "load_proposal k (save_governance g s) = load_proposal k s"
  by (simp add: load_proposal_def save_governance_def)

lemma load_saved_proposal: "prop_id p = k \<Longrightarrow> load_proposal k (save_proposal p s) = Some p"
  by (simp add: load_proposal_def save_proposal_def)

text \<open>The events that set fields of the stored proposal.\<close>

lemma field_event_indexed:
  assumes "load_proposal (int_to_string i) s = Some p" "prop_id p = int_to_string i"
    and "indexes c p" "about e = Some i" "chain_allows tot e c"
    and "\<not> is_vote e"
  shows "\<exists>s' p'. handle_dao_event env e s = Some s' \<and> load_proposal (int_to_string i) s' = Some p' \<and>
    indexes (chain_after quorum e c) p'"
proof -
  note known = proposal_known [OF assms(1)]
  show ?thesis
  proof (cases e)
    case (ProposalCanceled ctx j)
    then show ?thesis using assms known
      by (auto simp: handleProposalCanceled_def load_saved_proposal indexes_def undecided_def Let_def)
  next
    case (ProposalVetoed ctx j)
    then show ?thesis using assms known
      by (auto simp: handleProposalVetoed_def load_saved_proposal indexes_def Let_def)
  next
    case (ProposalQueued ctx j eta)
    then show ?thesis using assms known
      by (auto simp: handleProposalQueued_def load_saved_proposal indexes_def undecided_def Let_def)
  next
    case (ProposalExecuted ctx j)
    then show ?thesis using assms known
      by (auto simp: handleProposalExecuted_def load_saved_proposal indexes_def undecided_def Let_def)
  next
    case (ProposalObjectionPeriodSet ctx j b)
    then show ?thesis using assms known
      by (auto simp: handleProposalObjectionPeriodSet_def load_saved_proposal indexes_def Let_def)
  qed (use assms in auto)
qed


lemma vote_indexed:
  assumes env: "toI32_in_range env"
    and p: "load_proposal (int_to_string i) s = Some p" "prop_id p = int_to_string i"
    and ix: "indexes c p" and al: "chain_allows tot (VoteCast ctx voter i support votes reason) c"
    and dq: "dynamic_quorum s p tot quorum" and pos: "0 \<le> ch_againstVotes c"
  shows "\<exists>s' p'. handleVoteCast env ctx voter i support votes reason s = Some s' \<and>
    load_proposal (int_to_string i) s' = Some p' \<and>
    indexes (chain_after quorum (VoteCast ctx voter i support votes reason) c) p'"
proof -
  define b where "b = ch_againstVotes c + (if support = 0 then votes else 0)"
  obtain d st cb mn mx coeff where d: "load_dq_params LATEST s = Some d" "dq_dynamicQuorumStartBlock d = Some st"
      "prop_createdBlock p = Some cb" "st < cb" "prop_adjustedTotalSupply p = Some tot" "0 < tot"
      "prop_minQuorumVotesBPS p = Some mn" "prop_maxQuorumVotesBPS p = Some mx"
      "prop_quorumCoefficient p = Some coeff" "0 \<le> coeff" "coeff < 2 ^ 32"
      "0 \<le> sint mn" "sint mn \<le> sint mx" "sint mn < 2 ^ 16"
      "\<forall>a. 0 \<le> a \<and> a \<le> tot \<longrightarrow> quorum a = quorum_spec a tot (sint mn) (sint mx) coeff"
    using dq unfolding dynamic_quorum_def by (elim exE conjE) (rule that)
  have votes: "prop_againstVotes p = Some (ch_againstVotes c)" "prop_forVotes p = Some (ch_forVotes c)"
      "prop_abstainVotes p \<noteq> None" "prop_status p \<noteq> None"
    using ix by (auto simp: indexes_def)
  then obtain q where q: "count_vote support votes p = Some q" using count_vote_total [of p] by auto
  have b: "0 \<le> b" "b \<le> tot" using al pos by (auto simp: b_def)
  then have dyn: "dynamicQuorumVotes env b tot mn mx coeff = Some (quorum b)"
    using env d quorum_fits dynamicQuorumVotes_spec by auto
  have "prop_againstVotes q = Some b" using count_vote_fields [OF q] votes by (simp add: b_def)
  then have r: "update_quorum env d q = Some (q\<lparr>prop_quorumVotes := Some (quorum b)\<rparr>)"
    using count_vote_fields [OF q] d dyn by (simp add: update_quorum_def del: bind_eq_Some_iff)
  have "indexes (chain_after quorum (VoteCast ctx voter i support votes reason) c)
      (let r = q\<lparr>prop_quorumVotes := Some (quorum b)\<rparr>
       in if prop_status r = Some PENDING then r\<lparr>prop_status := Some ACTIVE\<rparr> else r)"
    using q ix al b_def by (auto simp: indexes_def count_vote_def undecided_def Let_def split: if_splits)
  with vote_stores [OF p _ _ _ _ q d(1) r] votes show ?thesis by (fastforce simp: Let_def)
qed

lemma event_indexed:
  assumes "toI32_in_range env"
    and "load_proposal (int_to_string i) s = Some p" "prop_id p = int_to_string i"
    and "indexes c p" "about e = Some i" "chain_allows tot e c"
    and "dynamic_quorum s p tot quorum" "0 \<le> ch_againstVotes c"
  shows "\<exists>s' p'. handle_dao_event env e s = Some s' \<and> load_proposal (int_to_string i) s' = Some p' \<and>
    indexes (chain_after quorum e c) p'"
proof (cases "is_vote e")
  case True
  then obtain ctx voter j support votes reason where e: "e = VoteCast ctx voter j support votes reason"
    by (cases e) auto
  with assms(5) have "j = i" by simp
  have al: "chain_allows tot (VoteCast ctx voter i support votes reason) c"
    using assms(6) by (simp only: e \<open>j = i\<close>)
  from vote_indexed [OF assms(1-4) al assms(7,8)] show ?thesis
    by (simp only: e \<open>j = i\<close> handle_dao_event.simps)
next
  case False
  then show ?thesis using assms field_event_indexed by blast
qed


definition demo_shown_proposal :: proposal where
  "demo_shown_proposal = (new_proposal (int_to_string 3))
     \<lparr>prop_status := Some PENDING, prop_forVotes := Some 4, prop_againstVotes := Some 10, prop_abstainVotes := Some 0,
      prop_quorumVotes := Some 30, prop_createdBlock := Some 50, prop_startBlock := Some 100, prop_endBlock := Some 200,
      prop_updatePeriodEndBlock := Some 60, prop_objectionPeriodEndBlock := Some 0,
      prop_adjustedTotalSupply := Some 200, prop_minQuorumVotesBPS := Some 1000,
      prop_maxQuorumVotesBPS := Some 4000, prop_quorumCoefficient := Some 1000000\<rparr>"

definition demo_shown_chain :: chain_proposal where
  "demo_shown_chain =
     \<lparr>ch_vetoed = False, ch_canceled = False, ch_executed = False, ch_updatePeriodEndBlock = 60,
      ch_startBlock = 100, ch_endBlock = 200, ch_objectionPeriodEndBlock = 0, ch_forVotes = 4,
      ch_againstVotes = 10, ch_quorumVotes = 30, ch_eta = 0, ch_onTimelockV1 = False\<rparr>"

definition demo_shown_store :: store where
  "demo_shown_store = save_proposal demo_shown_proposal (save_dq_params
     \<lparr>dq_id = LATEST, dq_minQuorumVotesBPS = 1000, dq_maxQuorumVotesBPS = 4000,
      dq_quorumCoefficient = 1000000, dq_dynamicQuorumStartBlock = Some 7\<rparr> empty_store)"


end
